(* ===== verification/Prelude.thy ===== *)
theory Prelude
  imports Main "HOL-Library.Word" "HOL-Library.List_Lexorder"
begin

unbundle bit_operations_syntax

text \<open>
  The shared vocabulary of the development: the exceptions the C++ services throw, the result type
  of a computation that may throw, the loops over it, byte strings, positional numerals, and the
  contract of an encoder with its decoder, which the components interpret for their own formats.
\<close>

section \<open>Exceptions and results\<close>

text \<open>The kinds of \<open>dlp::ethereum::RpcException\<close>.\<close>

datatype RpcErrorKind =
    InvalidEndpoint | Transport | Http | Protocol | Remote | InvalidResponse

text \<open>
  The exception types the sources throw or let through. The string is the message given to the
  constructor. \<open>Boost_Overflow\<close> is the \<open>std::overflow_error\<close> that a checked Boost integer
  raises by itself (its text is not part of this repository), \<open>Sql_Error\<close> is any error the
  database reports for a statement, \<open>Json_Error\<close> any exception of the JSON library.
  \<open>Null_Dereference\<close> stands for the dereference of an empty \<open>std::optional\<close>, which C++ leaves
  undefined: no property may depend on what happens then, and a property shows that it does not.
\<close>

datatype exn =
    Invalid_Argument string
  | Overflow_Error string
  | Boost_Overflow
  | Domain_Error string
  | Runtime_Error string
  | Out_Of_Range
  | Bad_Variant_Access
  | Json_Error
  | Sql_Error
  | Rpc_Exception RpcErrorKind string
  | Null_Dereference

type_synonym 'a res = "exn + 'a"

named_theorems res_simps "how the result combinators behave on values and exceptions"

definition bind_res :: "'a res \<Rightarrow> ('a \<Rightarrow> 'b res) \<Rightarrow> 'b res" where
  "bind_res m f = (case m of Inl e \<Rightarrow> Inl e | Inr x \<Rightarrow> f x)"

definition map_result :: "('a \<Rightarrow> 'b) \<Rightarrow> 'a res \<Rightarrow> 'b res" where
  "map_result f m = bind_res m (\<lambda>x. Inr (f x))"

definition throw_if :: "bool \<Rightarrow> exn \<Rightarrow> unit res" where
  "throw_if b e = (if b then Inl e else Inr ())"

lemma bind_res_simps [simp]:
  "bind_res (Inl e) f = Inl e"
  "bind_res (Inr x) f = f x"
  by (simp_all add: bind_res_def)

lemma map_result_simps [simp]:
  "map_result f (Inl e) = Inl e"
  "map_result f (Inr x) = Inr (f x)"
  by (simp_all add: map_result_def)

lemma throw_if_simps [simp]:
  "throw_if True e = Inl e"
  "throw_if False e = Inr ()"
  by (simp_all add: throw_if_def)

lemma bind_res_Inr [res_simps]: "bind_res m f = Inr y \<longleftrightarrow> (\<exists>x. m = Inr x \<and> f x = Inr y)"
  by (cases m) auto

lemma bind_res_Inl [res_simps]:
  "bind_res m f = Inl e \<longleftrightarrow> m = Inl e \<or> (\<exists>x. m = Inr x \<and> f x = Inl e)"
  by (cases m) auto

lemma map_result_Inr [res_simps]: "map_result f m = Inr y \<longleftrightarrow> (\<exists>x. m = Inr x \<and> y = f x)"
  by (cases m) auto

lemma map_result_Inl [res_simps]: "map_result f m = Inl e \<longleftrightarrow> m = Inl e"
  by (cases m) auto

lemma throw_if_Inr [res_simps]: "throw_if b e = Inr u \<longleftrightarrow> \<not> b"
  by (simp add: throw_if_def)

lemma throw_if_Inl [res_simps]: "throw_if b e = Inl e' \<longleftrightarrow> b \<and> e' = e"
  by (auto simp: throw_if_def)

lemma bind_resE: "bind_res m f = Inr y \<Longrightarrow> (\<And>x. m = Inr x \<Longrightarrow> f x = Inr y \<Longrightarrow> P) \<Longrightarrow> P"
  by (auto simp: bind_res_Inr)

lemma bind_res_assoc: "bind_res (bind_res m f) g = bind_res m (\<lambda>x. bind_res (f x) g)"
  by (cases m) auto

lemma bind_res_cong [fundef_cong]:
  "m = m' \<Longrightarrow> (\<And>x. m' = Inr x \<Longrightarrow> f x = f' x) \<Longrightarrow> bind_res m f = bind_res m' f'"
  by (cases m') auto

section \<open>Loops that may throw\<close>

text \<open>
  \<open>map_res f xs\<close> is the loop that pushes \<open>f x\<close> for each element; \<open>fold_res f xs s\<close> is the
  loop that updates a state. Both stop at the first exception.
\<close>

fun map_res :: "('a \<Rightarrow> 'b res) \<Rightarrow> 'a list \<Rightarrow> 'b list res" where
  "map_res f [] = Inr []"
| "map_res f (x # xs) = bind_res (f x) (\<lambda>y. bind_res (map_res f xs) (\<lambda>ys. Inr (y # ys)))"

fun fold_res :: "('a \<Rightarrow> 's \<Rightarrow> 's res) \<Rightarrow> 'a list \<Rightarrow> 's \<Rightarrow> 's res" where
  "fold_res f [] s = Inr s"
| "fold_res f (x # xs) s = bind_res (f x s) (fold_res f xs)"

lemma map_res_total: "(\<And>x. x \<in> set xs \<Longrightarrow> f x = Inr (g x)) \<Longrightarrow> map_res f xs = Inr (map g xs)"
  by (induction xs) auto

lemma map_res_length: "map_res f xs = Inr ys \<Longrightarrow> length ys = length xs"
  by (induction xs arbitrary: ys) (auto simp: res_simps)

lemma map_res_list_all2: "map_res f xs = Inr ys \<longleftrightarrow> list_all2 (\<lambda>x y. f x = Inr y) xs ys"
  by (induction xs arbitrary: ys) (auto simp: res_simps list_all2_Cons1)

lemma map_res_set: "map_res g ls = Inr rs \<Longrightarrow> r \<in> set rs \<Longrightarrow> \<exists>l \<in> set ls. g l = Inr r"
  by (induction ls arbitrary: rs) (auto simp: res_simps)

lemma map_res_map:
  "map_res g ls = Inr rs \<Longrightarrow> (\<And>l r. g l = Inr r \<Longrightarrow> h r = k l) \<Longrightarrow> map h rs = map k ls"
  by (induction ls arbitrary: rs) (auto simp: res_simps)

lemma map_res_Parse:
  assumes "map_res g ls = Inr rs" "\<And>l r. l \<in> set ls \<Longrightarrow> g l = Inr r \<Longrightarrow> p r = Inr l"
  shows "map_res p rs = Inr ls"
  using assms by (induction ls arbitrary: rs) (auto simp: res_simps)

lemma fold_res_map: "fold_res (\<lambda>x. f (g x)) xs s = fold_res f (map g xs) s"
  by (induction xs arbitrary: s) (simp_all add: bind_res_def split: sum.splits)

lemma fold_res_append: "fold_res f (xs @ ys) s = bind_res (fold_res f xs s) (fold_res f ys)"
  by (induction xs arbitrary: s) (auto simp: bind_res_assoc intro!: bind_res_cong)

text \<open>An invariant of the body is an invariant of the loop.\<close>

lemma fold_res_invariant:
  assumes "fold_res f xs s = Inr t" and "P s"
    and "\<And>x s t. x \<in> set xs \<Longrightarrow> P s \<Longrightarrow> f x s = Inr t \<Longrightarrow> P t"
  shows "P t"
  using assms
proof (induction xs arbitrary: s)
  case Nil
  then show ?case by simp
next
  case (Cons x xs)
  from Cons.prems(1) obtain u where u: "f x s = Inr u" "fold_res f xs u = Inr t"
    by (auto simp: res_simps)
  have "P u" by (rule Cons.prems(3) [OF _ Cons.prems(2) u(1)]) simp
  then show ?case by (rule Cons.IH [OF u(2)]) (rule Cons.prems(3), simp_all)
qed

section \<open>Byte strings\<close>

type_synonym byte = "8 word"
type_synonym bytes = "byte list"
type_synonym hash256 = bytes
type_synonym uint64 = "64 word"
type_synonym uint32 = "32 word"

text \<open>The bytes of a C++ string.\<close>

definition string_bytes :: "string \<Rightarrow> bytes" where
  "string_bytes s = map of_char s"

text \<open>Shifts and masks of machine words, read as natural numbers.\<close>

lemma unat_shiftr: "unat (drop_bit n w) = unat w div 2 ^ n"
  for w :: "'a::len word"
  by (subst unat_drop_bit_eq) (rule drop_bit_eq_div)

lemma unat_mask: "unat (take_bit n w) = unat w mod 2 ^ n"
  for w :: "'a::len word"
  by (subst unsigned_take_bit_eq) (rule take_bit_eq_mod)

lemma and_15_take_bit: "w AND 15 = take_bit 4 w"
  for w :: "'a::len word"
  by (simp add: take_bit_eq_mask mask_eq_exp_minus_1)

lemma and_255_take_bit: "w AND 255 = take_bit 8 w"
  for w :: "'a::len word"
  by (simp add: take_bit_eq_mask mask_eq_exp_minus_1)

section \<open>Positional numerals\<close>

text \<open>
  \<open>num_of B ds\<close> is the value of the digits \<open>ds\<close>, most significant first, in base \<open>B\<close>;
  \<open>digits_of B n\<close> are the digits of \<open>n\<close> without leading zeros, least significant first.
\<close>

definition num_of :: "nat \<Rightarrow> nat list \<Rightarrow> nat" where
  "num_of B ds = foldl (\<lambda>acc d. acc * B + d) 0 ds"

fun digits_of :: "nat \<Rightarrow> nat \<Rightarrow> nat list" where
  "digits_of B n = (if B < 2 \<or> n = 0 then [] else n mod B # digits_of B (n div B))"

declare digits_of.simps [simp del]

lemma foldl_num_of: "foldl (\<lambda>acc d. acc * B + d) a ds = a * B ^ length ds + num_of B ds"
proof (induction ds arbitrary: a)
  case Nil
  then show ?case by (simp add: num_of_def)
next
  case (Cons d ds)
  have "num_of B (d # ds) = d * B ^ length ds + num_of B ds"
    using Cons.IH [of d] by (simp add: num_of_def)
  with Cons.IH [of "a * B + d"] show ?case
    by (simp add: algebra_simps)
qed

lemma num_of_Nil [simp]: "num_of B [] = 0"
  by (simp add: num_of_def)

lemma num_of_Cons: "num_of B (d # ds) = d * B ^ length ds + num_of B ds"
  using foldl_num_of [of B d ds] by (simp add: num_of_def)

lemma num_of_snoc: "num_of B (ds @ [d]) = num_of B ds * B + d"
  by (simp add: num_of_def)

lemma num_of_append: "num_of B (xs @ ys) = num_of B xs * B ^ length ys + num_of B ys"
  using foldl_num_of [of B "num_of B xs" ys] by (simp add: num_of_def)

lemma num_of_replicate_0: "num_of B (replicate k 0) = 0"
  by (induction k) (simp_all add: num_of_Cons)

lemma num_of_less:
  assumes "\<forall>d \<in> set ds. d < B"
  shows "num_of B ds < B ^ length ds"
  using assms
proof (induction ds)
  case Nil
  then show ?case by simp
next
  case (Cons d ds)
  then have d: "Suc d \<le> B" and IH: "num_of B ds < B ^ length ds" by auto
  have "num_of B (d # ds) < Suc d * B ^ length ds"
    using IH by (simp add: num_of_Cons)
  also have "\<dots> \<le> B * B ^ length ds"
    using d by (rule mult_le_mono1)
  finally show ?case by simp
qed

lemma num_of_inj:
  assumes "length xs = length ys" "\<forall>d \<in> set xs. d < B" "\<forall>d \<in> set ys. d < B"
    and "num_of B xs = num_of B ys"
  shows "xs = ys"
  using assms
proof (induction xs ys rule: list_induct2)
  case Nil
  then show ?case by simp
next
  case (Cons x xs y ys)
  have bx: "num_of B xs < B ^ length ys" using num_of_less [of xs B] Cons by simp
  have by': "num_of B ys < B ^ length ys" using num_of_less [of ys B] Cons by simp
  have eq: "x * B ^ length ys + num_of B xs = y * B ^ length ys + num_of B ys"
    using Cons.prems(3) Cons.hyps by (simp add: num_of_Cons)
  then have "(x * B ^ length ys + num_of B xs) div B ^ length ys
      = (y * B ^ length ys + num_of B ys) div B ^ length ys" by simp
  moreover have "B ^ length ys \<noteq> 0" using bx by linarith
  ultimately have "x = y" using bx by' by (simp add: div_mult_self3)
  with eq Cons show ?case by simp
qed

lemma digits_of_0 [simp]: "digits_of B 0 = []"
  by (simp add: digits_of.simps)

lemma digits_of_step: "2 \<le> B \<Longrightarrow> 0 < n \<Longrightarrow> digits_of B n = n mod B # digits_of B (n div B)"
  by (simp add: digits_of.simps [of B n])

lemma num_of_digits_of:
  assumes "2 \<le> B"
  shows "num_of B (rev (digits_of B n)) = n"
  using assms
proof (induction B n rule: digits_of.induct)
  case (1 B n)
  then show ?case
    by (cases "n = 0") (simp_all add: digits_of_step num_of_snoc)
qed

lemma digits_of_less: "2 \<le> B \<Longrightarrow> d \<in> set (digits_of B n) \<Longrightarrow> d < B"
proof (induction B n rule: digits_of.induct)
  case (1 B n)
  then show ?case
    by (cases "n = 0") (auto simp: digits_of_step)
qed

lemma digits_of_length: "2 \<le> B \<Longrightarrow> n < B ^ k \<Longrightarrow> length (digits_of B n) \<le> k"
proof (induction k arbitrary: n)
  case 0
  then show ?case by simp
next
  case (Suc k)
  show ?case
  proof (cases "n = 0")
    case False
    have "n div B < B ^ k" using Suc.prems by (simp add: less_mult_imp_div_less mult.commute)
    with Suc.IH Suc.prems(1) False show ?thesis by (simp add: digits_of_step)
  qed simp
qed

lemma digits_of_Nil_iff: "2 \<le> B \<Longrightarrow> digits_of B n = [] \<longleftrightarrow> n = 0"
  by (simp add: digits_of.simps [of B n])

section \<open>The contract of a codec\<close>

text \<open>
  A format of the system is an encoder and a decoder that may throw. Its contract is that a valid
  value survives the trip; injectivity of the encoding and the trips of lists and of optional
  fields follow once and for all.
\<close>

locale codec =
  fixes valid :: "'a \<Rightarrow> bool"
    and enc :: "'a \<Rightarrow> 'b"
    and dec :: "'b \<Rightarrow> 'a res"
  assumes dec_enc: "valid x \<Longrightarrow> dec (enc x) = Inr x"
begin

lemma enc_inject:
  assumes "valid x" "valid y" "enc x = enc y"
  shows "x = y"
proof -
  have "Inr x = dec (enc x)" using assms(1) by (simp add: dec_enc)
  also have "\<dots> = Inr y" using assms(2,3) by (simp add: dec_enc)
  finally show ?thesis by simp
qed

lemma list_dec_enc: "list_all valid xs \<Longrightarrow> map_res dec (map enc xs) = Inr xs"
  by (induction xs) (auto simp: dec_enc)

end

text \<open>A nullable column or JSON field: absent stays absent, a present value goes through the decoder.\<close>

definition opt_res :: "('b \<Rightarrow> 'a res) \<Rightarrow> 'b option \<Rightarrow> 'a option res" where
  "opt_res dec v = (case v of None \<Rightarrow> Inr None | Some x \<Rightarrow> map_result Some (dec x))"

lemma opt_res_simps [simp]:
  "opt_res dec None = Inr None"
  "opt_res dec (Some x) = map_result Some (dec x)"
  by (simp_all add: opt_res_def)

context codec
begin

lemma opt_dec_enc: "pred_option valid v \<Longrightarrow> opt_res dec (map_option enc v) = Inr v"
  by (cases v) (auto simp: dec_enc)

end

end
