(* ===== verification/Hex.thy ===== *)
theory Hex
  imports Prelude
begin

text \<open>
  \<open>cpp/common/src/Hex.cpp\<close>: the hexadecimal text of a byte string, and its strict parser. Every
  hash, address and byte field that crosses JSON or the database goes through these functions.
\<close>

section \<open>Digits\<close>

text \<open>The digit table \<open>DIGITS\<close>, indexed by a nibble.\<close>

definition hex_digit :: "'a::len word \<Rightarrow> char" where
  "hex_digit n = ''0123456789abcdef'' ! unat n"

text \<open>
  The digit tests compare character codes; the difference fits a byte. The exception is the
  argument, since two source files hold this function with their own message.
\<close>

definition DecodeNibble :: "exn \<Rightarrow> char \<Rightarrow> byte res" where
  "DecodeNibble err c =
     (let n = (of_char c :: nat) in
      if 48 \<le> n \<and> n \<le> 57 then Inr (of_nat (n - 48))
      else if 97 \<le> n \<and> n \<le> 102 then Inr (of_nat (n - 97 + 10))
      else if 65 \<le> n \<and> n \<le> 70 then Inr (of_nat (n - 65 + 10))
      else Inl err)"

definition hex_char_error :: exn where
  "hex_char_error = Invalid_Argument ''hex string contains an invalid character''"

section \<open>Decoding and encoding\<close>

definition remove_0x :: "string \<Rightarrow> string" where
  "remove_0x v =
     (if 2 \<le> length v \<and> v ! 0 = CHR ''0'' \<and> (v ! 1 = CHR ''x'' \<or> v ! 1 = CHR ''X'')
      then drop 2 v else v)"

text \<open>The loop of \<open>Hex::Decode\<close>, two digits per byte. The parity test comes before it.\<close>

fun decode_pairs :: "string \<Rightarrow> bytes res" where
  "decode_pairs (h # l # rest) =
     bind_res (DecodeNibble hex_char_error h) (\<lambda>high.
     bind_res (DecodeNibble hex_char_error l) (\<lambda>low.
     bind_res (decode_pairs rest) (\<lambda>bs.
     Inr ((push_bit 4 high OR low) # bs))))"
| "decode_pairs _ = Inr []"

definition Hex_Decode :: "string \<Rightarrow> bytes res" where
  "Hex_Decode value =
     (let value = remove_0x value in
      if length value mod 2 \<noteq> 0
      then Inl (Invalid_Argument ''hex byte strings must contain an even number of digits'')
      else decode_pairs value)"

definition hex_of_byte :: "byte \<Rightarrow> string" where
  "hex_of_byte b = [hex_digit (drop_bit 4 b), hex_digit (b AND 15)]"

definition Hex_Encode :: "bytes \<Rightarrow> bool \<Rightarrow> string" where
  "Hex_Encode data includePrefix =
     (if includePrefix then ''0x'' else []) @ concat (map hex_of_byte data)"

text \<open>
  The parser of a 32-byte hash, which six source files repeat with their own message: decode, then
  require the exact length.
\<close>

definition ParseHash :: "exn \<Rightarrow> string \<Rightarrow> hash256 res" where
  "ParseHash err value =
     bind_res (Hex_Decode value) (\<lambda>bs. if length bs \<noteq> 32 then Inl err else Inr bs)"

section \<open>Properties\<close>

lemma less_16_cases:
  assumes "(n :: nat) < 16"
  shows "n \<in> set [0, 1, 2, 3, 4, 5, 6, 7, 8, 9, 10, 11, 12, 13, 14, 15]"
  using assms unfolding set_simps insert_iff empty_iff by arith

lemma DecodeNibble_digit:
  assumes "n < 16"
  shows "DecodeNibble err (''0123456789abcdef'' ! n) = Inr (of_nat n)"
  using less_16_cases [OF assms] unfolding set_simps insert_iff empty_iff
  by (elim disjE) (simp_all add: DecodeNibble_def)

lemma DecodeNibble_hex_digit: "unat w < 16 \<Longrightarrow> DecodeNibble err (hex_digit w) = Inr (of_nat (unat w))"
  unfolding hex_digit_def by (rule DecodeNibble_digit)

lemma unat_of_nat_nibble: "k < 16 \<Longrightarrow> unat (of_nat k :: byte) < 16"
  by (simp add: unsigned_of_nat take_bit_eq_mod)

lemma DecodeNibble_less:
  assumes "DecodeNibble err c = Inr b"
  shows "unat b < 16"
proof -
  obtain k where "b = of_nat k" "k < 16"
    using assms unfolding DecodeNibble_def Let_def
    by (auto split: if_splits simp del: of_nat_diff of_nat_add)
  then show ?thesis by (simp only: unat_of_nat_nibble)
qed

lemma byte_high_less: "unat (drop_bit 4 (b :: byte)) < 16"
proof -
  have "unat b < 256" using unsigned_less [of b] by simp
  moreover have "unat (drop_bit 4 b) = unat b div 16" using unat_shiftr [of 4 b] by simp
  ultimately show ?thesis by simp
qed

lemma low_nibble_less: "unat (w AND 15) < 16"
  for w :: "'a::len word"
  using unat_mask [of 4 w] by (simp add: and_15_take_bit)

lemma byte_halves: "push_bit 4 (drop_bit 4 b) OR (b AND 15) = (b :: byte)"
  unfolding and_15_take_bit
  by (rule bit_eqI) (auto simp: bit_or_iff bit_push_bit_iff bit_drop_bit_eq bit_take_bit_iff)

lemma decode_pairs_encode: "decode_pairs (concat (map hex_of_byte bs)) = Inr bs"
proof (induction bs)
  case Nil
  then show ?case by simp
next
  case (Cons b bs)
  have "DecodeNibble hex_char_error (hex_digit (drop_bit 4 b)) = Inr (drop_bit 4 b)"
    using DecodeNibble_hex_digit [OF byte_high_less] by simp
  moreover have "DecodeNibble hex_char_error (hex_digit (b AND 15)) = Inr (b AND 15)"
    using DecodeNibble_hex_digit [OF low_nibble_less [of b]] by simp
  ultimately show ?case
    using Cons.IH by (simp add: hex_of_byte_def byte_halves)
qed

lemma length_concat_hex: "length (concat (map hex_of_byte bs)) = 2 * length bs"
  by (induction bs) (simp_all add: hex_of_byte_def)

lemma hex_digit_not_x:
  assumes "unat w < 16"
  shows "hex_digit w \<noteq> CHR ''x'' \<and> hex_digit w \<noteq> CHR ''X''"
  unfolding hex_digit_def using less_16_cases [OF assms] unfolding set_simps insert_iff empty_iff
  by (elim disjE) simp_all

lemma remove_0x_prefix [simp]: "remove_0x (CHR ''0'' # CHR ''x'' # s) = s"
  by (simp add: remove_0x_def)

lemma remove_0x_hex: "remove_0x (concat (map hex_of_byte bs)) = concat (map hex_of_byte bs)"
proof (cases bs)
  case Nil
  then show ?thesis by (simp add: remove_0x_def)
next
  case (Cons b bs')
  from hex_digit_not_x [OF low_nibble_less [of b]] show ?thesis
    by (simp add: Cons hex_of_byte_def remove_0x_def)
qed

lemma Hex_Decode_Encode: "Hex_Decode (Hex_Encode bs p) = Inr bs"
  by (cases p) (simp_all add: Hex_Decode_def Hex_Encode_def remove_0x_hex length_concat_hex
      decode_pairs_encode)

lemma length_Hex_Encode: "length (Hex_Encode bs p) = 2 * length bs + (if p then 2 else 0)"
  by (simp add: Hex_Encode_def length_concat_hex)

lemma decode_pairs_length:
  "decode_pairs s = Inr bs \<Longrightarrow> even (length s) \<Longrightarrow> 2 * length bs = length s"
  by (induction s arbitrary: bs rule: decode_pairs.induct) (auto simp: res_simps)

lemma ParseHash_Encode: "length h = 32 \<Longrightarrow> ParseHash err (Hex_Encode h p) = Inr h"
  by (simp add: ParseHash_def Hex_Decode_Encode)

lemma ParseHash_length: "ParseHash err s = Inr h \<Longrightarrow> length h = 32"
  by (auto simp: ParseHash_def res_simps split: if_splits)

text \<open>Hexadecimal text, with and without prefix, and hashes are codecs.\<close>

interpretation hex_bytes: codec "\<lambda>_. True" "\<lambda>bs. Hex_Encode bs p" Hex_Decode for p
  by unfold_locales (rule Hex_Decode_Encode)

interpretation hex_hash: codec "\<lambda>h. length h = 32" "\<lambda>h. Hex_Encode h p" "ParseHash err" for p err
  by unfold_locales (rule ParseHash_Encode)

end
