(* ===== verification/Uint256.thy ===== *)
theory Uint256
  imports Hex
begin

text \<open>
  \<open>cpp/common/src/Uint256.cpp\<close> and \<open>Uint256Math.cpp\<close>: the checked 256-bit unsigned integer of
  the system, its textual and binary forms, and full-precision multiplication and division.
  A value is a 256-bit word. The storage type is Boost's \<open>checked_uint256_t\<close>, which computes
  exactly and throws when a result leaves the range; \<open>checked\<close> is that documented contract. The
  wide type is the unchecked 512-bit integer, a 512-bit word.
\<close>

type_synonym uint256 = "256 word"
type_synonym WideInteger = "512 word"

definition two256 :: nat where
  "two256 = 2 ^ 256"

definition checked :: "nat \<Rightarrow> uint256 res" where
  "checked n = (if n < two256 then Inr (of_nat n) else Inl Boost_Overflow)"

section \<open>Operators\<close>

definition Uint256_of :: "uint64 \<Rightarrow> uint256" where
  "Uint256_of value = ucast value"

definition IsZero :: "uint256 \<Rightarrow> bool" where
  "IsZero v \<longleftrightarrow> v = 0"

definition u256_shl :: "uint256 \<Rightarrow> nat \<Rightarrow> uint256 res" where
  "u256_shl a n = checked (unat a * 2 ^ n)"

definition u256_add :: "uint256 \<Rightarrow> uint256 \<Rightarrow> uint256 res" where
  "u256_add a b = checked (unat a + unat b)"

definition u256_sub :: "uint256 \<Rightarrow> uint256 \<Rightarrow> uint256 res" where
  "u256_sub a b =
     (if a < b then Inl (Overflow_Error ''uint256 subtraction underflow'') else Inr (a - b))"

definition u256_mul :: "uint256 \<Rightarrow> uint256 \<Rightarrow> uint256 res" where
  "u256_mul a b = checked (unat a * unat b)"

definition u256_div :: "uint256 \<Rightarrow> uint256 \<Rightarrow> uint256 res" where
  "u256_div a b =
     (if IsZero b then Inl (Domain_Error ''uint256 division by zero'') else Inr (a div b))"

section \<open>Text and bytes\<close>

definition uint256_char_error :: exn where
  "uint256_char_error = Invalid_Argument ''uint256 hex string contains an invalid character''"

definition FromHex :: "string \<Rightarrow> uint256 res" where
  "FromHex value =
     (let value = remove_0x value in
      if value = [] then Inl (Invalid_Argument ''uint256 hex string is empty'')
      else if length value > 64 then Inl (Overflow_Error ''uint256 hex string exceeds 256 bits'')
      else fold_res (\<lambda>digit result.
             bind_res (u256_shl result 4) (\<lambda>result.
             bind_res (DecodeNibble uint256_char_error digit) (\<lambda>n.
             u256_add result (ucast n)))) value 0)"

definition FromDecimal :: "string \<Rightarrow> uint256 res" where
  "FromDecimal value =
     (if value = [] then Inl (Invalid_Argument ''uint256 decimal string is empty'')
      else fold_res (\<lambda>digit result.
             if of_char digit < (48 :: nat) \<or> of_char digit > (57 :: nat)
             then Inl (Invalid_Argument ''uint256 decimal string contains an invalid character'')
             else bind_res (u256_mul result 10) (\<lambda>result.
                  u256_add result (of_nat (of_char digit - 48)))) value 0)"

definition FromBytes :: "bytes \<Rightarrow> uint256 res" where
  "FromBytes bs =
     fold_res (\<lambda>b result. bind_res (u256_shl result 8) (\<lambda>result. u256_add result (ucast b))) bs 0"

text \<open>The loop that fills an array from its last cell, one low byte per round.\<close>

fun to_bytes_loop :: "nat \<Rightarrow> 'a::len word \<Rightarrow> bytes \<Rightarrow> bytes" where
  "to_bytes_loop 0 remaining acc = acc"
| "to_bytes_loop (Suc k) remaining acc =
     to_bytes_loop k (drop_bit 8 remaining) (ucast (remaining AND 255) # acc)"

definition ToBytes :: "uint256 \<Rightarrow> bytes" where
  "ToBytes v = to_bytes_loop 32 v []"

text \<open>Decimal text without leading zeros, as \<open>str()\<close> and \<open>std::to_string\<close> print it.\<close>

definition show_nat :: "nat \<Rightarrow> string" where
  "show_nat n = (if n = 0 then ''0'' else map (\<lambda>d. ''0123456789'' ! d) (rev (digits_of 10 n)))"

definition ToDecimal :: "uint256 \<Rightarrow> string" where
  "ToDecimal v = show_nat (unat v)"

function quantity_loop :: "uint256 \<Rightarrow> string \<Rightarrow> string" where
  "quantity_loop remaining digits =
     (if remaining = 0 then digits
      else quantity_loop (drop_bit 4 remaining) (digits @ [hex_digit (remaining AND 15)]))"
  by pat_completeness auto

lemma unat_shiftr_less: "w \<noteq> 0 \<Longrightarrow> 0 < n \<Longrightarrow> unat (drop_bit n w) < unat w"
  for w :: "'a::len word"
  unfolding unat_shiftr using one_less_power [of "2 :: nat" n]
  by (intro div_less_dividend) (simp_all add: unat_gt_0)

termination quantity_loop
  by (relation "measure (\<lambda>(r, _). unat r)") (auto intro: unat_shiftr_less simp del: drop_bit_eq_div)

declare quantity_loop.simps [simp del]

definition ToQuantity :: "uint256 \<Rightarrow> string" where
  "ToQuantity v = (if IsZero v then ''0x0'' else ''0x'' @ rev (quantity_loop v []))"

definition ToUint64 :: "uint256 \<Rightarrow> uint64 res" where
  "ToUint64 v =
     (if unat v > 2 ^ 64 - 1 then Inl (Overflow_Error ''uint256 value does not fit in uint64'')
      else Inr (ucast v))"

section \<open>Multiplication and division at full precision\<close>

definition ToWide :: "uint256 \<Rightarrow> WideInteger" where
  "ToWide v = foldl (\<lambda>result b. push_bit 8 result + ucast b) 0 (ToBytes v)"

definition FromWide :: "WideInteger \<Rightarrow> uint256 res" where
  "FromWide v =
     (if v > push_bit 256 1 - 1 then Inl (Overflow_Error ''mulDiv result exceeds uint256'')
      else FromBytes (to_bytes_loop 32 v []))"

definition MulDivDown :: "uint256 \<Rightarrow> uint256 \<Rightarrow> uint256 \<Rightarrow> uint256 res" where
  "MulDivDown left right denominator =
     (if IsZero denominator then Inl (Domain_Error ''mulDiv denominator is zero'')
      else FromWide (ToWide left * ToWide right div ToWide denominator))"

definition MulDivUp :: "uint256 \<Rightarrow> uint256 \<Rightarrow> uint256 \<Rightarrow> uint256 res" where
  "MulDivUp left right denominator =
     (if IsZero denominator then Inl (Domain_Error ''mulDiv denominator is zero'')
      else let product = ToWide left * ToWide right;
               divisor = ToWide denominator;
               quotient = product div divisor
           in FromWide (quotient + (if product mod divisor = 0 then 0 else 1)))"

section \<open>Arithmetic lemmas\<close>

named_theorems u256 "what a checked operation returns, read as natural numbers"

lemma unat_less_two256 [simp]: "unat (v :: uint256) < two256"
  using unsigned_less [of v] by (simp add: two256_def)

lemma checked_Inr [u256]: "checked n = Inr c \<longleftrightarrow> unat c = n"
proof
  show "checked n = Inr c \<Longrightarrow> unat c = n"
    by (auto simp: checked_def two256_def unsigned_of_nat take_bit_eq_mod split: if_splits)
  show "unat c = n \<Longrightarrow> checked n = Inr c"
    by (auto simp: checked_def)
qed

lemma two256_pos [simp]: "0 < two256"
  by (simp add: two256_def)

lemma in_range_Inr: "(if n < two256 then Inr (of_nat n) else Inl e) = Inr c \<longleftrightarrow> unat (c :: uint256) = n"
  using checked_Inr [of n c] by (auto simp: checked_def split: if_splits)

lemma ex_uint256: "n < two256 \<Longrightarrow> \<exists>c :: uint256. unat c = n"
  using checked_Inr [of n "of_nat n"] by (auto simp: checked_def)

lemma checked_Inl: "checked n = Inl e \<longleftrightarrow> two256 \<le> n \<and> e = Boost_Overflow"
  by (auto simp: checked_def)

lemma u256_shl_Inr [u256]: "u256_shl a n = Inr c \<longleftrightarrow> unat c = unat a * 2 ^ n"
  by (simp add: u256_shl_def checked_Inr)

lemma u256_add_Inr [u256]: "u256_add a b = Inr c \<longleftrightarrow> unat c = unat a + unat b"
  by (simp add: u256_add_def checked_Inr)

lemma u256_mul_Inr [u256]: "u256_mul a b = Inr c \<longleftrightarrow> unat c = unat a * unat b"
  by (simp add: u256_mul_def checked_Inr)

lemma u256_sub_Inr [u256]: "u256_sub a b = Inr c \<longleftrightarrow> unat a = unat b + unat c"
proof -
  have "b \<le> a \<Longrightarrow> unat (a - b) = unat a - unat b" by (simp add: unat_sub)
  then show ?thesis
    by (auto simp: u256_sub_def word_less_nat_alt word_le_nat_alt not_less word_unat_eq_iff)
qed

lemma u256_div_Inr [u256]: "u256_div a b = Inr c \<longleftrightarrow> unat b \<noteq> 0 \<and> unat c = unat a div unat b"
  by (auto simp: u256_div_def IsZero_def word_unat_eq_iff unat_div)

lemma IsZero_unat [u256]: "IsZero v \<longleftrightarrow> unat v = 0"
  by (simp add: IsZero_def unat_eq_zero)

lemma unat_Uint256_of [simp]: "unat (Uint256_of v) = unat v"
proof -
  have "unat v < 2 ^ 256" using unsigned_less [of v] by (rule less_le_trans) simp
  then show ?thesis by (simp only: Uint256_of_def unsigned_ucast_eq) (simp add: take_bit_nat_eq_self)
qed

text \<open>When the true result fits, the operation returns it; otherwise it throws.\<close>

lemma u256_add_ok: "unat a + unat b < two256 \<Longrightarrow> u256_add a b = Inr (a + b)"
  by (simp add: u256_add_def checked_def)

lemma u256_sub_ok: "unat b \<le> unat a \<Longrightarrow> u256_sub a b = Inr (a - b)"
  by (simp add: u256_sub_def word_less_nat_alt)

lemma u256_mul_ok: "unat a * unat b < two256 \<Longrightarrow> u256_mul a b = Inr (a * b)"
  by (simp add: u256_mul_def checked_def)

section \<open>Reading numerals\<close>

text \<open>
  The three parsers are one loop: each digit multiplies the value by the base and adds. A body with
  this specification gives the whole loop its specification, overflow included.
\<close>

lemma ex_unat_lin:
  assumes "0 < B"
  shows "(\<exists>m :: uint256. unat m = n \<and> unat (r :: uint256) = unat m * B + k) \<longleftrightarrow> unat r = n * B + k"
proof
  assume r: "unat r = n * B + k"
  have "n \<le> unat r" using r \<open>0 < B\<close> by (simp add: trans_le_add1)
  then have "n < two256" using unat_less_two256 by (rule le_less_trans)
  then obtain m :: uint256 where "unat m = n" using ex_uint256 by blast
  with r show "\<exists>m :: uint256. unat m = n \<and> unat r = unat m * B + k" by auto
qed auto

lemma ex_unat_add:
  "(\<exists>m :: uint256. unat m = n \<and> unat (r :: uint256) = unat m + k) \<longleftrightarrow> unat r = n + k"
  using ex_unat_lin [of 1 n r k] by simp

lemma fold_res_num:
  fixes f :: "'d \<Rightarrow> uint256 \<Rightarrow> uint256 res"
  assumes "0 < B"
    and step: "\<And>d r r'. f d r = Inr r' \<longleftrightarrow> ok d \<and> unat r' = unat r * B + v d"
  shows "fold_res f ds r = Inr r' \<longleftrightarrow>
    list_all ok ds \<and> unat r' = unat r * B ^ length ds + num_of B (map v ds)"
proof (induction ds arbitrary: r)
  case Nil
  show ?case by (auto simp: word_unat_eq_iff)
next
  case (Cons d ds)
  let ?n = "unat r * B + v d"
  have "fold_res f (d # ds) r = Inr r' \<longleftrightarrow> ok d \<and> list_all ok ds \<and>
      (\<exists>m :: uint256. unat m = ?n \<and> unat r' = unat m * B ^ length ds + num_of B (map v ds))"
    by (auto simp: res_simps Cons.IH step)
  also have "\<dots> \<longleftrightarrow> ok d \<and> list_all ok ds \<and> unat r' = ?n * B ^ length ds + num_of B (map v ds)"
    using \<open>0 < B\<close> by (subst ex_unat_lin) simp_all
  finally show ?case
    by (simp add: num_of_Cons algebra_simps)
qed

definition dec_ok :: "char \<Rightarrow> bool" where
  "dec_ok c \<longleftrightarrow> 48 \<le> (of_char c :: nat) \<and> of_char c \<le> (57 :: nat)"

definition dec_val :: "char \<Rightarrow> nat" where
  "dec_val c = of_char c - 48"

lemma unat_small: "n < 256 \<Longrightarrow> unat (of_nat n :: uint256) = n"
  by (simp add: unsigned_of_nat take_bit_eq_mod)

lemma of_char_less_256: "(of_char c :: nat) < 256"
  by simp

lemma FromDecimal_Inr:
  "FromDecimal s = Inr x \<longleftrightarrow> s \<noteq> [] \<and> list_all dec_ok s \<and> unat x = num_of 10 (map dec_val s)"
proof -
  have u: "unat (of_nat (dec_val d) :: uint256) = dec_val d" for d
    unfolding dec_val_def by (rule unat_small) (use of_char_less_256 [of d] in linarith)
  let ?f = "\<lambda>digit result.
             if of_char digit < (48 :: nat) \<or> of_char digit > (57 :: nat)
             then Inl (Invalid_Argument ''uint256 decimal string contains an invalid character'')
             else bind_res (u256_mul result 10) (\<lambda>result.
                  u256_add result (of_nat (of_char digit - 48)))"
  have "fold_res ?f s 0 = Inr x \<longleftrightarrow>
    list_all dec_ok s \<and> unat x = unat (0 :: uint256) * 10 ^ length s + num_of 10 (map dec_val s)"
  proof (rule fold_res_num)
    fix d r r'
    have "bind_res (u256_mul r 10) (\<lambda>m. u256_add m (of_nat (dec_val d))) = Inr r' \<longleftrightarrow>
        unat r' = unat r * 10 + dec_val d"
      by (simp add: res_simps u256 ex_unat_add u)
    then show "?f d r = Inr r' \<longleftrightarrow> dec_ok d \<and> unat r' = unat r * 10 + dec_val d"
      by (auto simp: dec_ok_def dec_val_def simp del: of_nat_diff)
  qed simp
  then show ?thesis by (simp add: FromDecimal_def)
qed

definition hex_ok :: "char \<Rightarrow> bool" where
  "hex_ok c \<longleftrightarrow> (\<exists>b. DecodeNibble uint256_char_error c = Inr b)"

definition hex_val :: "char \<Rightarrow> nat" where
  "hex_val c = (case DecodeNibble uint256_char_error c of Inl _ \<Rightarrow> 0 | Inr b \<Rightarrow> unat b)"

lemma unat_ucast_byte: "unat (ucast (b :: byte) :: uint256) = unat b"
proof -
  have "unat b < 2 ^ 256" using unsigned_less [of b] by (rule less_le_trans) simp
  then show ?thesis by (simp only: unsigned_ucast_eq) (simp add: take_bit_nat_eq_self)
qed

lemma FromHex_Inr:
  "FromHex s = Inr x \<longleftrightarrow> remove_0x s \<noteq> [] \<and> length (remove_0x s) \<le> 64 \<and>
     list_all hex_ok (remove_0x s) \<and> unat x = num_of 16 (map hex_val (remove_0x s))"
proof -
  let ?f = "\<lambda>digit result.
             bind_res (u256_shl result 4) (\<lambda>result.
             bind_res (DecodeNibble uint256_char_error digit) (\<lambda>n.
             u256_add result (ucast n)))"
  have "fold_res ?f (remove_0x s) 0 = Inr x \<longleftrightarrow>
    list_all hex_ok (remove_0x s) \<and>
    unat x = unat (0 :: uint256) * 16 ^ length (remove_0x s) + num_of 16 (map hex_val (remove_0x s))"
  proof (rule fold_res_num)
    fix d r r'
    show "?f d r = Inr r' \<longleftrightarrow> hex_ok d \<and> unat r' = unat r * 16 + hex_val d"
      by (cases "DecodeNibble uint256_char_error d")
        (auto simp: hex_ok_def hex_val_def res_simps u256 unat_ucast_byte ex_unat_add)
  qed simp
  then show ?thesis by (auto simp: FromHex_def Let_def)
qed

lemma FromBytes_Inr: "FromBytes bs = Inr x \<longleftrightarrow> unat x = num_of 256 (map unat bs)"
proof -
  let ?f = "\<lambda>b result. bind_res (u256_shl result 8) (\<lambda>result. u256_add result (ucast (b :: byte)))"
  have "fold_res ?f bs 0 = Inr x \<longleftrightarrow> list_all (\<lambda>_. True) bs \<and>
    unat x = unat (0 :: uint256) * 256 ^ length bs + num_of 256 (map unat bs)"
  proof (rule fold_res_num)
    fix d r r'
    show "?f d r = Inr r' \<longleftrightarrow> True \<and> unat r' = unat r * 256 + unat d"
      by (simp add: res_simps u256 unat_ucast_byte ex_unat_add)
  qed simp
  then show ?thesis by (simp add: FromBytes_def list_all_iff)
qed

section \<open>Writing numerals\<close>

lemma unat_low_byte: "unat (ucast (w AND 255) :: byte) = unat w mod 256"
  for w :: "'a::len word"
proof -
  have "unat (ucast (w AND 255) :: byte) = take_bit 8 (unat (take_bit 8 w))"
    by (simp only: unsigned_ucast_eq and_255_take_bit) simp
  also have "\<dots> = unat w mod 256" by (simp only: unat_mask) (simp add: take_bit_eq_mod)
  finally show ?thesis .
qed

lemma num_of_to_bytes_loop:
  "num_of 256 (map unat (to_bytes_loop k r acc))
     = (unat r mod 256 ^ k) * 256 ^ length acc + num_of 256 (map unat acc)"
proof (induction k arbitrary: r acc)
  case 0
  then show ?case by simp
next
  case (Suc k)
  have "unat r mod 256 ^ Suc k = unat r div 256 mod 256 ^ k * 256 + unat r mod 256"
    by (simp add: mod_mult2_eq mult.commute)
  then show ?case
    using Suc [of "drop_bit 8 r" "ucast (r AND 255) # acc"] unat_shiftr [of 8 r]
    by (simp add: num_of_Cons unat_low_byte algebra_simps del: drop_bit_eq_div)
qed

lemma length_to_bytes_loop: "length (to_bytes_loop k r acc) = k + length acc"
  by (induction k arbitrary: r acc) simp_all

lemma length_ToBytes [simp]: "length (ToBytes v) = 32"
  by (simp add: ToBytes_def length_to_bytes_loop)

lemma num_of_ToBytes: "num_of 256 (map unat (ToBytes v)) = unat v"
  using num_of_to_bytes_loop [of 32 v "[]"] unat_less_two256 [of v]
  by (simp add: ToBytes_def two256_def)

lemma FromBytes_ToBytes: "FromBytes (ToBytes v) = Inr v"
  by (simp add: FromBytes_Inr num_of_ToBytes)

lemma unat_list_bound: "\<forall>d \<in> set (map unat (bs :: bytes)). d < 256"
  using unsigned_less [where ?'a = nat and ?'b = 8] by auto

lemma num_of_bytes_less: "length (bs :: bytes) = 32 \<Longrightarrow> num_of 256 (map unat bs) < two256"
  using num_of_less [OF unat_list_bound, of bs] by (simp add: two256_def)

lemma FromBytes_total: "length bs = 32 \<Longrightarrow> \<exists>v. FromBytes bs = Inr v"
  unfolding FromBytes_Inr using num_of_bytes_less [of bs] ex_uint256 by blast

lemma ToBytes_FromBytes:
  assumes "length bs = 32" "FromBytes bs = Inr v"
  shows "ToBytes v = bs"
proof -
  have "map unat (ToBytes v) = map unat bs"
    by (rule num_of_inj [OF _ unat_list_bound unat_list_bound])
      (use assms in \<open>simp_all add: num_of_ToBytes FromBytes_Inr\<close>)
  then show ?thesis by (rule map_injective) simp
qed

lemma less_10_cases:
  assumes "(n :: nat) < 10"
  shows "n \<in> set [0, 1, 2, 3, 4, 5, 6, 7, 8, 9]"
  using assms unfolding set_simps insert_iff empty_iff by arith

lemma dec_digit:
  assumes "d < 10"
  shows "dec_ok (''0123456789'' ! d)" "dec_val (''0123456789'' ! d) = d"
  using less_10_cases [OF assms] by (auto simp: dec_ok_def dec_val_def)

lemma show_nat_dec:
  "list_all dec_ok (show_nat n)" "num_of 10 (map dec_val (show_nat n)) = n" "show_nat n \<noteq> []"
proof -
  have d: "d < 10" if "d \<in> set (digits_of 10 n)" for d
    using digits_of_less [of 10 d n] that by simp
  show "list_all dec_ok (show_nat n)"
    using d dec_digit(1) dec_digit(1) [of 0] by (auto simp: show_nat_def list_all_iff)
  have "map (dec_val \<circ> (!) ''0123456789'') (digits_of 10 n) = digits_of 10 n"
    using d by (intro map_idI) (simp add: dec_digit(2))
  then show "num_of 10 (map dec_val (show_nat n)) = n"
    using num_of_digits_of [of 10 n]
    by (simp add: show_nat_def rev_map [symmetric] num_of_Cons dec_val_def comp_def)
  show "show_nat n \<noteq> []"
    by (simp add: show_nat_def digits_of_Nil_iff)
qed

lemma FromDecimal_ToDecimal: "FromDecimal (ToDecimal v) = Inr v"
  by (simp add: FromDecimal_Inr ToDecimal_def show_nat_dec)

lemma show_nat_inject: "show_nat m = show_nat n \<longleftrightarrow> m = n"
  by (metis show_nat_dec(2))

lemma length_show_nat: "n < 10 ^ k \<Longrightarrow> 0 < k \<Longrightarrow> length (show_nat n) \<le> k"
  using digits_of_length [of 10 n k] by (simp add: show_nat_def)

lemma length_ToDecimal: "length (ToDecimal v) \<le> 78"
proof -
  have "unat v < 2 ^ 256" using unsigned_less [of v, where ?'a = nat] by simp
  also have "(2 :: nat) ^ 256 < 10 ^ 78" by simp
  finally show ?thesis unfolding ToDecimal_def by (rule length_show_nat) simp
qed

lemma quantity_loop_digits:
  "quantity_loop r acc = acc @ map (\<lambda>d. ''0123456789abcdef'' ! d) (digits_of 16 (unat r))"
proof (induction r acc rule: quantity_loop.induct)
  case (1 r acc)
  show ?case
  proof (cases "r = 0")
    case True
    then show ?thesis by (simp add: quantity_loop.simps)
  next
    case False
    have low: "unat (r AND 15) = unat r mod 16"
      using unat_mask [of 4 r] by (simp only: and_15_take_bit) simp
    have high: "unat (drop_bit 4 r) = unat r div 16"
      using unat_shiftr [of 4 r] by simp
    have "digits_of 16 (unat r) = unat r mod 16 # digits_of 16 (unat r div 16)"
      using False by (intro digits_of_step) (simp_all add: unat_gt_0)
    with "1" [OF False] high low False show ?thesis
      by (simp add: quantity_loop.simps [of r acc] hex_digit_def)
  qed
qed

lemma hex_ok_digit:
  assumes "d < 16"
  shows "hex_ok (''0123456789abcdef'' ! d)" "hex_val (''0123456789abcdef'' ! d) = d"
proof -
  have "unat (of_nat d :: byte) = d" using assms by (simp add: unsigned_of_nat take_bit_eq_mod)
  then show "hex_ok (''0123456789abcdef'' ! d)" "hex_val (''0123456789abcdef'' ! d) = d"
    using DecodeNibble_digit [OF assms, of uint256_char_error]
    by (simp_all add: hex_ok_def hex_val_def)
qed

lemma FromHex_ToQuantity: "FromHex (ToQuantity v) = Inr v"
proof (cases "v = 0")
  case True
  have "hex_ok CHR ''0'' \<and> hex_val CHR ''0'' = 0" using hex_ok_digit [of 0] by simp
  with True show ?thesis
    by (simp add: ToQuantity_def IsZero_def FromHex_Inr num_of_Cons)
next
  case False
  let ?ds = "digits_of 16 (unat v)"
  have d: "d < 16" if "d \<in> set ?ds" for d
    using digits_of_less [of 16 d "unat v"] that by simp
  have q: "remove_0x (ToQuantity v) = map (\<lambda>d. ''0123456789abcdef'' ! d) (rev ?ds)"
    using False by (simp add: ToQuantity_def IsZero_def quantity_loop_digits rev_map)
  have "map (hex_val \<circ> (!) ''0123456789abcdef'') (rev ?ds) = rev ?ds"
    using d by (intro map_idI) (simp add: hex_ok_digit(2))
  then have "num_of 16 (map hex_val (remove_0x (ToQuantity v))) = unat v"
    unfolding q by (simp add: num_of_digits_of)
  moreover have "?ds \<noteq> []" using False by (simp add: digits_of_Nil_iff unat_eq_zero)
  moreover have "length ?ds \<le> 64"
    using unat_less_two256 [of v] by (intro digits_of_length) (simp_all add: two256_def)
  ultimately show ?thesis
    using d by (simp add: FromHex_Inr q list_all_iff hex_ok_digit(1))
qed

lemma ToUint64_Inr [u256]: "ToUint64 v = Inr w \<longleftrightarrow> unat w = unat v"
proof
  assume "ToUint64 v = Inr w"
  then have w: "w = ucast v" and b: "unat v < 2 ^ 64" by (auto simp: ToUint64_def split: if_splits)
  show "unat w = unat v"
    unfolding w using b by (simp only: unsigned_ucast_eq) (simp add: take_bit_nat_eq_self)
next
  assume u: "unat w = unat v"
  then have b: "unat v < 2 ^ 64" using unsigned_less [of w, where ?'a = nat] by simp
  then have "unat (ucast v :: uint64) = unat v"
    by (simp only: unsigned_ucast_eq) (simp add: take_bit_nat_eq_self)
  with u b show "ToUint64 v = Inr w" by (simp add: ToUint64_def word_unat_eq_iff)
qed

lemma ToUint64_Uint256_of [simp]: "ToUint64 (Uint256_of n) = Inr n"
  by (simp add: ToUint64_Inr)

interpretation decimal_text: codec "\<lambda>_. True" ToDecimal FromDecimal
  by unfold_locales (rule FromDecimal_ToDecimal)

interpretation quantity_text: codec "\<lambda>_. True" ToQuantity FromHex
  by unfold_locales (rule FromHex_ToQuantity)

interpretation uint256_bytes: codec "\<lambda>_. True" ToBytes FromBytes
  by unfold_locales (rule FromBytes_ToBytes)

section \<open>Full-precision division\<close>

text \<open>The value rounded up.\<close>

definition ceil_div :: "nat \<Rightarrow> nat \<Rightarrow> nat" where
  "ceil_div a b = a div b + (if a mod b = 0 then 0 else 1)"

lemma unat_push_add_wide:
  assumes "unat (r :: WideInteger) * 256 + unat b < 2 ^ 512"
  shows "unat (push_bit 8 r + ucast (b :: byte)) = unat r * 256 + unat b"
proof -
  have "unat b < 2 ^ 512" using unsigned_less [of b, where ?'a = nat] by (rule less_le_trans) simp
  then have b: "unat (ucast b :: WideInteger) = unat b"
    by (simp only: unsigned_ucast_eq) (simp add: take_bit_nat_eq_self)
  have "unat (push_bit 8 r) = unat (256 * r)" by (simp add: push_bit_eq_mult mult.commute)
  also have "\<dots> = unat r * 256"
    using assms by (subst unat_mult_lem [THEN iffD1]) simp_all
  finally have r: "unat (push_bit 8 r) = unat r * 256" .
  show ?thesis using assms by (subst unat_add_lem [THEN iffD1]) (simp_all add: r b)
qed

lemma unat_foldl_wide:
  assumes "unat r * 256 ^ length bs + num_of 256 (map unat bs) < 2 ^ 512"
  shows "unat (foldl (\<lambda>(result :: WideInteger) (b :: byte). push_bit 8 result + ucast b) r bs)
    = unat r * 256 ^ length bs + num_of 256 (map unat bs)"
  using assms
proof (induction bs arbitrary: r)
  case Nil
  then show ?case by simp
next
  case (Cons b bs)
  let ?n = "unat r * 256 + unat b"
  have e: "unat r * 256 ^ length (b # bs) + num_of 256 (map unat (b # bs))
      = ?n * 256 ^ length bs + num_of 256 (map unat bs)"
    by (simp add: num_of_Cons algebra_simps)
  have "?n \<le> ?n * 256 ^ length bs + num_of 256 (map unat bs)" by (simp add: trans_le_add1)
  then have "?n < 2 ^ 512" using Cons.prems unfolding e by (rule le_less_trans)
  then have n: "unat (push_bit 8 r + ucast b) = ?n" by (rule unat_push_add_wide)
  show ?case using Cons.IH [of "push_bit 8 r + ucast b"] Cons.prems e by (simp add: n)
qed

lemma unat_ToWide: "unat (ToWide v) = unat v"
proof -
  have "unat v < 2 ^ 512" using unat_less_two256 [of v] by (simp add: two256_def)
  then show ?thesis
    using unat_foldl_wide [of 0 "ToBytes v"] by (simp add: ToWide_def num_of_ToBytes)
qed

lemma wide_limit: "unat (push_bit 256 1 - 1 :: WideInteger) = two256 - 1"
  by (simp add: two256_def push_bit_eq_mult)

lemma FromWide_eq:
  "FromWide w = (if unat w < two256 then Inr (of_nat (unat w))
                 else Inl (Overflow_Error ''mulDiv result exceeds uint256''))"
proof (cases "unat w < two256")
  case True
  have "\<not> w > push_bit 256 1 - 1"
    using True unfolding word_less_nat_alt wide_limit by linarith
  moreover have "num_of 256 (map unat (to_bytes_loop 32 w [])) = unat w"
    using num_of_to_bytes_loop [of 32 w "[]"] True by (simp add: two256_def)
  then have "FromBytes (to_bytes_loop 32 w []) = Inr (of_nat (unat w))"
    using checked_Inr [of "unat w" "of_nat (unat w)"] True
    unfolding FromBytes_Inr checked_def by simp
  ultimately show ?thesis using True unfolding FromWide_def by presburger
next
  case False
  then have "w > push_bit 256 1 - 1"
    unfolding word_less_nat_alt wide_limit by (simp add: two256_def)
  with False show ?thesis unfolding FromWide_def by presburger
qed

lemma unat_wide_product: "unat (ToWide a * ToWide b) = unat a * unat b"
proof -
  have "unat a * unat b < two256 * two256"
    by (rule mult_strict_mono) simp_all
  then have "unat (ToWide a) * unat (ToWide b) < 2 ^ 512"
    by (simp add: unat_ToWide two256_def)
  then show ?thesis by (subst unat_mult_lem [THEN iffD1]) (simp_all add: unat_ToWide)
qed

lemma product_bound: "unat (a :: uint256) * unat (b :: uint256) < 2 ^ 512 - 1"
proof -
  have "unat a * unat b \<le> (two256 - 1) * (two256 - 1)"
    using unat_less_two256 [of a] unat_less_two256 [of b] by (intro mult_le_mono) linarith+
  then show ?thesis by (rule le_less_trans) (simp add: two256_def)
qed

text \<open>The optimised routines agree with exact integer division, rounded down and rounded up.\<close>

lemma MulDivDown_eq:
  "MulDivDown a b d =
     (if d = 0 then Inl (Domain_Error ''mulDiv denominator is zero'')
      else if unat a * unat b div unat d < two256 then Inr (of_nat (unat a * unat b div unat d))
      else Inl (Overflow_Error ''mulDiv result exceeds uint256''))"
  by (simp add: MulDivDown_def IsZero_def FromWide_eq unat_div unat_wide_product unat_ToWide)

lemma MulDivUp_eq:
  "MulDivUp a b d =
     (if d = 0 then Inl (Domain_Error ''mulDiv denominator is zero'')
      else if ceil_div (unat a * unat b) (unat d) < two256
      then Inr (of_nat (ceil_div (unat a * unat b) (unat d)))
      else Inl (Overflow_Error ''mulDiv result exceeds uint256''))"
proof -
  let ?p = "ToWide a * ToWide b" and ?d = "ToWide d"
  let ?q = "?p div ?d" and ?i = "if ?p mod ?d = 0 then 0 else (1 :: WideInteger)"
  have m: "?p mod ?d = 0 \<longleftrightarrow> unat a * unat b mod unat d = 0"
    by (simp add: unat_eq_zero [symmetric] unat_mod unat_wide_product unat_ToWide)
  have i: "unat ?i = (if unat a * unat b mod unat d = 0 then 0 else 1)"
    unfolding m by simp
  have "unat ?q \<le> unat a * unat b"
    by (simp add: unat_div unat_wide_product unat_ToWide)
  moreover have "unat ?i \<le> 1" unfolding i by simp
  ultimately have "unat ?q + unat ?i < 2 ^ 512" using product_bound [of a b] by linarith
  then have "unat (?q + ?i) = unat ?q + unat ?i" by (subst unat_add_lem [THEN iffD1]) simp_all
  then have "unat (?q + ?i) = ceil_div (unat a * unat b) (unat d)"
    unfolding i ceil_div_def by (simp add: unat_div unat_wide_product unat_ToWide)
  then show ?thesis
    by (simp add: MulDivUp_def IsZero_def Let_def FromWide_eq)
qed

lemma MulDivDown_Inr [u256]:
  "MulDivDown a b d = Inr c \<longleftrightarrow> unat d \<noteq> 0 \<and> unat c = unat a * unat b div unat d"
  unfolding MulDivDown_eq by (cases "d = 0") (simp_all only: if_True if_False in_range_Inr, simp_all add: unat_eq_zero)

lemma MulDivUp_Inr [u256]:
  "MulDivUp a b d = Inr c \<longleftrightarrow> unat d \<noteq> 0 \<and> unat c = ceil_div (unat a * unat b) (unat d)"
  unfolding MulDivUp_eq by (cases "d = 0") (simp_all only: if_True if_False in_range_Inr, simp_all add: unat_eq_zero)

text \<open>Existence forms, for chains of operations whose exact values are known to fit.\<close>

lemma MulDivDown_ex:
  "unat d \<noteq> 0 \<Longrightarrow> unat a * unat b div unat d < two256 \<Longrightarrow>
    \<exists>c. MulDivDown a b d = Inr c \<and> unat c = unat a * unat b div unat d"
  unfolding MulDivDown_Inr using ex_uint256 by blast

lemma u256_sub_ex: "unat b \<le> unat a \<Longrightarrow> \<exists>c. u256_sub a b = Inr c \<and> unat c = unat a - unat b"
  using u256_sub_ok [of b a] by (auto simp: unat_sub word_le_nat_alt)

lemma u256_mul_ex: "unat a * unat b < two256 \<Longrightarrow> \<exists>c. u256_mul a b = Inr c \<and> unat c = unat a * unat b"
  unfolding u256_mul_Inr using ex_uint256 by blast

lemma u256_add_ex: "unat a + unat b < two256 \<Longrightarrow> \<exists>c. u256_add a b = Inr c \<and> unat c = unat a + unat b"
  unfolding u256_add_Inr using ex_uint256 by blast

text \<open>The equations that evaluate the arithmetic on literals.\<close>

lemmas u256_eval = MulDivDown_eq MulDivUp_eq ceil_div_def checked_def two256_def u256_add_def u256_sub_def
  u256_mul_def u256_div_def IsZero_def ToUint64_def Uint256_of_def

section \<open>Properties\<close>

text \<open>C26. Full-precision multiplication and division: for every 256-bit operands, \<open>MulDivDown\<close> returns
  the floor and \<open>MulDivUp\<close> the ceiling of the exact quotient when it fits in 256 bits, although the
  product may need 512; they throw exactly on a zero denominator and on a quotient that does not fit.\<close>

theorem MulDiv_exact:
  "MulDivDown a b d =
     (if d = 0 then Inl (Domain_Error ''mulDiv denominator is zero'')
      else if unat a * unat b div unat d < 2 ^ 256 then Inr (of_nat (unat a * unat b div unat d))
      else Inl (Overflow_Error ''mulDiv result exceeds uint256'')) \<and>
   MulDivUp a b d =
     (if d = 0 then Inl (Domain_Error ''mulDiv denominator is zero'')
      else let q = unat a * unat b div unat d + (if unat a * unat b mod unat d = 0 then 0 else 1) in
           if q < 2 ^ 256 then Inr (of_nat q) else Inl (Overflow_Error ''mulDiv result exceeds uint256''))"
  unfolding Let_def ceil_div_def [symmetric] two256_def [symmetric] by (intro conjI MulDivDown_eq MulDivUp_eq)

text \<open>Every 256-bit value survives its three external forms: decimal text (database columns),
  quantity text (JSON-RPC) and big-endian bytes (ABI words). The decimal text has at most the 78
  digits of the \<open>NUMERIC(78, 0)\<close> columns.\<close>

theorem Uint256_forms_round_trip:
  "FromDecimal (ToDecimal v) = Inr v \<and> FromHex (ToQuantity v) = Inr v \<and> FromBytes (ToBytes v) = Inr v \<and>
   length (ToDecimal v) \<le> 78"
  by (simp add: FromDecimal_ToDecimal FromHex_ToQuantity FromBytes_ToBytes length_ToDecimal)

end
