(* ===== verification/Abi.thy ===== *)
theory Abi
  imports Uint256
begin

text \<open>
  \<open>Address.cpp\<close>, \<open>Keccak.cpp\<close>, \<open>Abi.cpp\<close> and \<open>ProtocolAbi.cpp\<close> of \<open>cpp/common\<close>:
  addresses, ABI words, function calls, event decoding and the registry of the nine protocol
  events. \<open>std::array<std::uint8_t, N>\<close> is a byte list; the fixed length is the hypothesis
  \<open>length = N\<close> where a lemma needs it. Keccak-256 is the third-party \<open>ethash_keccak256\<close>: the
  functions that hash take it as the argument \<open>keccak\<close>.
\<close>

type_synonym address = bytes

section \<open>Addresses\<close>

definition Address_FromHex :: "string \<Rightarrow> address res" where
  "Address_FromHex value =
     bind_res (Hex_Decode value) (\<lambda>decoded.
       if length decoded \<noteq> 20
       then Inl (Invalid_Argument ''Ethereum addresses must contain exactly 20 bytes'')
       else Inr decoded)"

definition Address_ToHex :: "address \<Rightarrow> bool \<Rightarrow> string" where
  "Address_ToHex a includePrefix = Hex_Encode a includePrefix"

definition Address_IsZero :: "address \<Rightarrow> bool" where
  "Address_IsZero a \<longleftrightarrow> list_all (\<lambda>b. b = 0) a"

text \<open>\<open>operator<\<close> compares the arrays lexicographically.\<close>

definition Address_less :: "address \<Rightarrow> address \<Rightarrow> bool" where
  "Address_less a b \<longleftrightarrow> a < b"

lemma Address_FromHex_ToHex: "length a = 20 \<Longrightarrow> Address_FromHex (Address_ToHex a p) = Inr a"
  by (simp add: Address_FromHex_def Address_ToHex_def Hex_Decode_Encode)

lemma Address_FromHex_length: "Address_FromHex s = Inr a \<Longrightarrow> length a = 20"
  by (auto simp: Address_FromHex_def res_simps split: if_splits)

interpretation address_text: codec "\<lambda>a. length a = 20" "\<lambda>a. Address_ToHex a p" Address_FromHex for p
  by unfold_locales (rule Address_FromHex_ToHex)

section \<open>Words\<close>

datatype AbiType = T_Address | T_Uint256 | T_Bytes32

record AbiParameter =
  param_type :: AbiType
  indexed :: bool

datatype AbiValue = V_Address address | V_Uint256 uint256 | V_Bytes32 hash256

fun value_type :: "AbiValue \<Rightarrow> AbiType" where
  "value_type (V_Address _) = T_Address"
| "value_type (V_Uint256 _) = T_Uint256"
| "value_type (V_Bytes32 _) = T_Bytes32"

fun abi_wf :: "AbiValue \<Rightarrow> bool" where
  "abi_wf (V_Address a) \<longleftrightarrow> length a = 20"
| "abi_wf (V_Uint256 _) \<longleftrightarrow> True"
| "abi_wf (V_Bytes32 h) \<longleftrightarrow> length h = 32"

definition Keccak_Hash_string :: "(bytes \<Rightarrow> hash256) \<Rightarrow> string \<Rightarrow> hash256" where
  "Keccak_Hash_string keccak data = keccak (string_bytes data)"

definition GetFunctionSelector :: "(bytes \<Rightarrow> hash256) \<Rightarrow> string \<Rightarrow> bytes" where
  "GetFunctionSelector keccak signature = take 4 (Keccak_Hash_string keccak signature)"

definition GetEventTopic :: "(bytes \<Rightarrow> hash256) \<Rightarrow> string \<Rightarrow> hash256" where
  "GetEventTopic keccak signature = Keccak_Hash_string keccak signature"

fun EncodeWord :: "AbiValue \<Rightarrow> hash256" where
  "EncodeWord (V_Address a) = replicate (32 - length a) 0 @ a"
| "EncodeWord (V_Uint256 v) = ToBytes v"
| "EncodeWord (V_Bytes32 h) = h"

definition EncodeFunction :: "(bytes \<Rightarrow> hash256) \<Rightarrow> string \<Rightarrow> AbiValue list \<Rightarrow> bytes" where
  "EncodeFunction keccak signature arguments =
     GetFunctionSelector keccak signature @ concat (map EncodeWord arguments)"

fun DecodeWord :: "AbiType \<Rightarrow> hash256 \<Rightarrow> AbiValue res" where
  "DecodeWord T_Address word =
     (if list_ex (\<lambda>b. b \<noteq> 0) (take 12 word)
      then Inl (Invalid_Argument ''ABI address contains non-zero padding'')
      else Inr (V_Address (drop 12 word)))"
| "DecodeWord T_Uint256 word = map_result V_Uint256 (FromBytes word)"
| "DecodeWord T_Bytes32 word = Inr (V_Bytes32 word)"

section \<open>Events\<close>

text \<open>
  The decoding loop: an indexed parameter takes the next topic, another one the next word of the
  data. The three size checks of \<open>DecodeEvent\<close> come before it, so no read is out of range.
\<close>

fun decode_params ::
  "AbiParameter list \<Rightarrow> hash256 list \<Rightarrow> bytes \<Rightarrow> nat \<Rightarrow> nat \<Rightarrow> AbiValue list res" where
  "decode_params [] topics data topicIndex dataOffset = Inr []"
| "decode_params (p # ps) topics data topicIndex dataOffset =
     (if indexed p
      then bind_res (DecodeWord (param_type p) (topics ! topicIndex)) (\<lambda>v.
           bind_res (decode_params ps topics data (topicIndex + 1) dataOffset) (\<lambda>vs. Inr (v # vs)))
      else bind_res (DecodeWord (param_type p) (take 32 (drop dataOffset data))) (\<lambda>v.
           bind_res (decode_params ps topics data topicIndex (dataOffset + 32)) (\<lambda>vs. Inr (v # vs))))"

definition indexed_count :: "AbiParameter list \<Rightarrow> nat" where
  "indexed_count ps = length (filter indexed ps)"

definition DecodeEvent ::
  "(bytes \<Rightarrow> hash256) \<Rightarrow> string \<Rightarrow> AbiParameter list \<Rightarrow> hash256 list \<Rightarrow> bytes \<Rightarrow> AbiValue list res" where
  "DecodeEvent keccak signature parameters topics data =
     (let indexedCount = indexed_count parameters in
      if length topics \<noteq> indexedCount + 1
      then Inl (Invalid_Argument ''event topic count does not match its ABI'')
      else if hd topics \<noteq> GetEventTopic keccak signature
      then Inl (Invalid_Argument ''event signature topic does not match its ABI'')
      else if length data \<noteq> (length parameters - indexedCount) * 32
      then Inl (Invalid_Argument ''event data size does not match its ABI'')
      else decode_params parameters topics data 1 0)"

section \<open>The registry of protocol events\<close>

datatype ProtocolEventKind =
    Supplied | Withdrawn | Borrowed | Repaid | InterestAccrued
  | Liquidated | BadDebtRecognized | AssetRegistered | PriceUpdated

record EventDefinition =
  kind :: ProtocolEventKind
  signature :: string
  parameters :: "AbiParameter list"
  topic :: hash256

abbreviation iparam :: "AbiType \<Rightarrow> AbiParameter" where
  "iparam t \<equiv> \<lparr>param_type = t, indexed = True\<rparr>"

abbreviation dparam :: "AbiType \<Rightarrow> AbiParameter" where
  "dparam t \<equiv> \<lparr>param_type = t, indexed = False\<rparr>"

definition DefineEvent ::
  "(bytes \<Rightarrow> hash256) \<Rightarrow> ProtocolEventKind \<Rightarrow> string \<Rightarrow> AbiParameter list \<Rightarrow> EventDefinition" where
  "DefineEvent keccak k sig ps =
     \<lparr>kind = k, signature = sig, parameters = ps, topic = GetEventTopic keccak sig\<rparr>"

definition GetEvents :: "(bytes \<Rightarrow> hash256) \<Rightarrow> EventDefinition list" where
  "GetEvents keccak =
    [DefineEvent keccak Supplied ''Supplied(address,address,uint256)''
       [iparam T_Address, iparam T_Address, dparam T_Uint256],
     DefineEvent keccak Withdrawn ''Withdrawn(address,address,uint256)''
       [iparam T_Address, iparam T_Address, dparam T_Uint256],
     DefineEvent keccak Borrowed ''Borrowed(address,address,uint256)''
       [iparam T_Address, iparam T_Address, dparam T_Uint256],
     DefineEvent keccak Repaid ''Repaid(address,address,uint256,uint256)''
       [iparam T_Address, iparam T_Address, dparam T_Uint256, dparam T_Uint256],
     DefineEvent keccak InterestAccrued ''InterestAccrued(uint256,uint256,uint256,uint256)''
       [iparam T_Uint256, dparam T_Uint256, dparam T_Uint256, dparam T_Uint256],
     DefineEvent keccak Liquidated ''Liquidated(address,address,address,address,uint256,uint256)''
       [iparam T_Address, iparam T_Address, iparam T_Address, dparam T_Address,
        dparam T_Uint256, dparam T_Uint256],
     DefineEvent keccak BadDebtRecognized ''BadDebtRecognized(address,uint256)''
       [iparam T_Address, dparam T_Uint256],
     DefineEvent keccak AssetRegistered ''AssetRegistered(address,uint256)''
       [iparam T_Address, dparam T_Uint256],
     DefineEvent keccak PriceUpdated ''PriceUpdated(address,uint256,uint256)''
       [iparam T_Address, dparam T_Uint256, dparam T_Uint256]]"

definition GetEvent :: "(bytes \<Rightarrow> hash256) \<Rightarrow> ProtocolEventKind \<Rightarrow> EventDefinition res" where
  "GetEvent keccak k =
     (case find (\<lambda>e. kind e = k) (GetEvents keccak) of
        None \<Rightarrow> Inl (Invalid_Argument ''unknown protocol event kind'')
      | Some e \<Rightarrow> Inr e)"

definition MatchEvent :: "(bytes \<Rightarrow> hash256) \<Rightarrow> hash256 \<Rightarrow> ProtocolEventKind option" where
  "MatchEvent keccak t = map_option kind (find (\<lambda>e. topic e = t) (GetEvents keccak))"

section \<open>Properties\<close>

lemma length_EncodeWord: "abi_wf v \<Longrightarrow> length (EncodeWord v) = 32"
  by (cases v) simp_all

lemma DecodeWord_EncodeWord: "abi_wf v \<Longrightarrow> DecodeWord (value_type v) (EncodeWord v) = Inr v"
  by (cases v) (auto simp: FromBytes_ToBytes list_ex_iff)

interpretation abi_word: codec "\<lambda>v. abi_wf v \<and> value_type v = t" EncodeWord "DecodeWord t" for t
  by unfold_locales (auto simp: DecodeWord_EncodeWord)

lemma DecodeWord_wf:
  assumes "DecodeWord t w = Inr v" "length w = 32"
  shows "abi_wf v" "value_type v = t"
  using assms by (cases t; auto simp: res_simps split: if_splits)+

lemma length_EncodeFunction:
  assumes "\<And>x. length (keccak x) = 32" "list_all abi_wf args"
  shows "length (EncodeFunction keccak sig args) = 4 + 32 * length args"
proof -
  have "length (concat (map EncodeWord args)) = 32 * length args"
    using assms(2) by (induction args) (simp_all add: length_EncodeWord)
  then show ?thesis
    by (simp add: EncodeFunction_def GetFunctionSelector_def Keccak_Hash_string_def assms(1))
qed

text \<open>
  The log that carries the given values: the signature topic and the indexed values as topics, the
  others, in order, as data. Decoding recovers the values.
\<close>

definition event_topics :: "hash256 \<Rightarrow> AbiParameter list \<Rightarrow> AbiValue list \<Rightarrow> hash256 list" where
  "event_topics t ps vs = t # map (\<lambda>(p, v). EncodeWord v) (filter (\<lambda>(p, v). indexed p) (zip ps vs))"

definition event_data :: "AbiParameter list \<Rightarrow> AbiValue list \<Rightarrow> bytes" where
  "event_data ps vs = concat (map (\<lambda>(p, v). EncodeWord v) (filter (\<lambda>(p, v). \<not> indexed p) (zip ps vs)))"

definition event_ok :: "AbiParameter list \<Rightarrow> AbiValue list \<Rightarrow> bool" where
  "event_ok ps vs \<longleftrightarrow> list_all2 (\<lambda>p v. abi_wf v \<and> value_type v = param_type p) ps vs"

lemma decode_params_event:
  assumes "event_ok ps vs"
  shows "decode_params ps (pre @ map (\<lambda>(p, v). EncodeWord v) (filter (\<lambda>(p, v). indexed p) (zip ps vs)))
      (dpre @ event_data ps vs) (length pre) (length dpre) = Inr vs"
  using assms unfolding event_ok_def
proof (induction ps vs arbitrary: pre dpre rule: list_all2_induct)
  case Nil
  then show ?case by simp
next
  case (Cons p ps v vs)
  then have dec: "DecodeWord (param_type p) (EncodeWord v) = Inr v"
    and len: "length (EncodeWord v) = 32"
    using DecodeWord_EncodeWord [of v] length_EncodeWord [of v] by simp_all
  show ?case
  proof (cases "indexed p")
    case True
    with Cons.IH [of "pre @ [EncodeWord v]" dpre] dec show ?thesis
      by (simp add: event_data_def)
  next
    case False
    with Cons.IH [of pre "dpre @ EncodeWord v"] dec len show ?thesis
      by (simp add: event_data_def)
  qed
qed

lemma length_event_parts:
  assumes "event_ok ps vs"
  shows "length (event_topics t ps vs) = indexed_count ps + 1"
    and "length (event_data ps vs) = (length ps - indexed_count ps) * 32"
proof -
  have le: "indexed_count qs \<le> length qs" for qs by (simp add: indexed_count_def)
  from assms show "length (event_topics t ps vs) = indexed_count ps + 1"
    unfolding event_ok_def
    by (induction ps vs rule: list_all2_induct) (simp_all add: event_topics_def indexed_count_def)
  from assms show "length (event_data ps vs) = (length ps - indexed_count ps) * 32"
    unfolding event_ok_def
    by (induction ps vs rule: list_all2_induct)
      (use le in \<open>auto simp: event_data_def indexed_count_def length_EncodeWord Suc_diff_le\<close>)
qed

lemma DecodeEvent_event:
  assumes "event_ok ps vs"
  shows "DecodeEvent keccak sig ps (event_topics (GetEventTopic keccak sig) ps vs) (event_data ps vs) = Inr vs"
proof -
  let ?t = "GetEventTopic keccak sig"
  have "decode_params ps (event_topics ?t ps vs) (event_data ps vs) 1 0 = Inr vs"
    using decode_params_event [OF assms, of "[?t]" "[]"] by (simp add: event_topics_def)
  moreover have "hd (event_topics ?t ps vs) = ?t" by (simp add: event_topics_def)
  ultimately show ?thesis
    by (simp add: DecodeEvent_def length_event_parts [OF assms])
qed

text \<open>What the decoder returns always fits the declared parameters.\<close>

lemma decode_params_ok:
  assumes "decode_params ps topics data ti off = Inr vs"
    and "\<forall>t \<in> set topics. length t = 32"
    and "ti + indexed_count ps = length topics"
    and "off + (length ps - indexed_count ps) * 32 = length data"
  shows "event_ok ps vs"
  using assms
proof (induction ps arbitrary: ti off vs)
  case Nil
  then show ?case by (simp add: event_ok_def)
next
  case (Cons p ps)
  have le: "indexed_count ps \<le> length ps" by (simp add: indexed_count_def)
  show ?case
  proof (cases "indexed p")
    case True
    with Cons.prems obtain v us where v: "DecodeWord (param_type p) (topics ! ti) = Inr v"
      and us: "decode_params ps topics data (ti + 1) off = Inr us" and vs: "vs = v # us"
      by (auto simp: res_simps)
    have ti: "ti + 1 + indexed_count ps = length topics"
      using Cons.prems(3) True by (simp add: indexed_count_def)
    then have "length (topics ! ti) = 32" using Cons.prems(2) by simp
    from DecodeWord_wf [OF v this] Cons.IH [OF us Cons.prems(2) ti] Cons.prems(4) True
    show ?thesis by (simp add: vs event_ok_def indexed_count_def)
  next
    case False
    with Cons.prems obtain v us
      where v: "DecodeWord (param_type p) (take 32 (drop off data)) = Inr v"
      and us: "decode_params ps topics data ti (off + 32) = Inr us" and vs: "vs = v # us"
      by (auto simp: res_simps)
    have d: "length (p # ps) - indexed_count (p # ps) = Suc (length ps - indexed_count ps)"
      using False le by (simp add: indexed_count_def Suc_diff_le)
    then have "off + 32 + (length ps - indexed_count ps) * 32 = length data"
      using Cons.prems(4) by simp
    moreover from this have "length (take 32 (drop off data)) = 32" by simp
    ultimately show ?thesis
      using DecodeWord_wf [OF v] Cons.IH [OF us Cons.prems(2)] Cons.prems(3) False
      by (simp add: vs event_ok_def indexed_count_def)
  qed
qed

lemma DecodeEvent_ok:
  assumes "DecodeEvent keccak sig ps topics data = Inr vs" "\<forall>t \<in> set topics. length t = 32"
  shows "event_ok ps vs"
proof -
  have "decode_params ps topics data 1 0 = Inr vs" "length topics = indexed_count ps + 1"
    "length data = (length ps - indexed_count ps) * 32"
    using assms(1) by (auto simp: DecodeEvent_def Let_def split: if_splits)
  then show ?thesis using assms(2) by (intro decode_params_ok [of ps topics data 1 0]) simp_all
qed

definition topics_distinct :: "(bytes \<Rightarrow> hash256) \<Rightarrow> bool" where
  "topics_distinct keccak \<longleftrightarrow> distinct (map topic (GetEvents keccak))"

text \<open>Every kind is registered, once.\<close>

lemma GetEvent_total: "\<exists>e \<in> set (GetEvents keccak). GetEvent keccak k = Inr e \<and> kind e = k"
  by (cases k) (simp_all add: GetEvent_def GetEvents_def DefineEvent_def)

lemma find_unique:
  assumes "distinct (map f xs)" "x \<in> set xs"
  shows "find (\<lambda>y. f y = f x) xs = Some x"
  using assms by (induction xs) (auto simp: image_iff)

lemma MatchEvent_topic:
  assumes "topics_distinct keccak" "GetEvent keccak k = Inr e"
  shows "MatchEvent keccak (topic e) = Some k"
proof -
  have "e \<in> set (GetEvents keccak)" and k: "kind e = k"
    using GetEvent_total [of keccak k] assms(2) by auto
  then have "find (\<lambda>y. topic y = topic e) (GetEvents keccak) = Some e"
    using assms(1) unfolding topics_distinct_def by (intro find_unique)
  then show ?thesis by (simp add: MatchEvent_def k)
qed

end
