(* ===== verification/Transaction.thy ===== *)
theory Transaction
  imports Abi
begin

text \<open>
  \<open>Rlp.cpp\<close> and \<open>Transaction.cpp\<close> of \<open>cpp/common\<close>: the RLP encoder and the EIP-1559 payloads
  the operator key signs. libsecp256k1 is third-party: its calls are the fields of the record
  \<open>secp256k1\<close>, an argument of the signer. \<open>std::size_t\<close> values are lengths of byte vectors in
  memory and are natural numbers; where the 64-bit width matters it is a hypothesis.
\<close>

section \<open>RLP\<close>

function length_loop :: "nat \<Rightarrow> bytes \<Rightarrow> bytes" where
  "length_loop len result =
     (if len \<noteq> 0 then length_loop (len div 256) (result @ [of_nat (len mod 256)]) else result)"
  by pat_completeness auto

termination length_loop
  by (relation "measure fst") auto

declare length_loop.simps [simp del]

definition LengthBytes :: "nat \<Rightarrow> bytes" where
  "LengthBytes len = rev (length_loop len [])"

definition EncodePayload :: "bytes \<Rightarrow> nat \<Rightarrow> nat \<Rightarrow> bytes" where
  "EncodePayload payload shortOffset longOffset =
     (if length payload \<le> 55 then of_nat (shortOffset + length payload) # payload
      else let len = LengthBytes (length payload)
           in of_nat (longOffset + length len) # len @ payload)"

definition Rlp_EncodeBytes :: "bytes \<Rightarrow> bytes" where
  "Rlp_EncodeBytes value =
     (if length value = 1 \<and> hd value < 0x80 then [hd value]
      else EncodePayload value 0x80 0xb7)"

definition Rlp_EncodeUint256 :: "uint256 \<Rightarrow> bytes" where
  "Rlp_EncodeUint256 value =
     (if IsZero value then Rlp_EncodeBytes []
      else Rlp_EncodeBytes (dropWhile (\<lambda>b. b = 0) (ToBytes value)))"

definition Rlp_EncodeList :: "bytes list \<Rightarrow> bytes" where
  "Rlp_EncodeList encodedItems = EncodePayload (concat encodedItems) 0xc0 0xf7"

section \<open>EIP-1559 transactions\<close>

record Eip1559Transaction =
  tx_chainId :: uint256
  tx_nonce :: uint256
  tx_maxPriorityFeePerGas :: uint256
  tx_maxFeePerGas :: uint256
  tx_gasLimit :: uint256
  tx_to :: "address option"
  tx_value :: uint256
  tx_data :: bytes

record Eip1559Signature =
  yParity :: uint256
  sig_r :: uint256
  sig_s :: uint256

definition AddressBytes :: "address option \<Rightarrow> bytes" where
  "AddressBytes a = (case a of None \<Rightarrow> [] | Some b \<Rightarrow> b)"

definition UnsignedItems :: "Eip1559Transaction \<Rightarrow> bytes list" where
  "UnsignedItems t =
    [Rlp_EncodeUint256 (tx_chainId t),
     Rlp_EncodeUint256 (tx_nonce t),
     Rlp_EncodeUint256 (tx_maxPriorityFeePerGas t),
     Rlp_EncodeUint256 (tx_maxFeePerGas t),
     Rlp_EncodeUint256 (tx_gasLimit t),
     Rlp_EncodeBytes (AddressBytes (tx_to t)),
     Rlp_EncodeUint256 (tx_value t),
     Rlp_EncodeBytes (tx_data t),
     Rlp_EncodeList []]"

definition TypedPayload :: "bytes list \<Rightarrow> bytes" where
  "TypedPayload items = 0x02 # Rlp_EncodeList items"

definition EncodeSigningPayload :: "Eip1559Transaction \<Rightarrow> bytes" where
  "EncodeSigningPayload t = TypedPayload (UnsignedItems t)"

definition SigningHash :: "(bytes \<Rightarrow> hash256) \<Rightarrow> Eip1559Transaction \<Rightarrow> hash256" where
  "SigningHash keccak t = keccak (EncodeSigningPayload t)"

definition EncodeSigned :: "Eip1559Transaction \<Rightarrow> Eip1559Signature \<Rightarrow> bytes" where
  "EncodeSigned t s = TypedPayload (UnsignedItems t @
     [Rlp_EncodeUint256 (yParity s), Rlp_EncodeUint256 (sig_r s), Rlp_EncodeUint256 (sig_s s)])"

definition TransactionHash :: "(bytes \<Rightarrow> hash256) \<Rightarrow> bytes \<Rightarrow> hash256" where
  "TransactionHash keccak rawTransaction = keccak rawTransaction"

section \<open>The signer\<close>

text \<open>
  The library calls: whether a 32-byte key is a valid scalar, the 65-byte uncompressed public key,
  and the 64-byte compact recoverable signature with its recovery id. \<open>None\<close> is a failing call.
\<close>

record secp256k1 =
  seckey_verify :: "bytes \<Rightarrow> bool"
  pubkey_create :: "bytes \<Rightarrow> bytes option"
  sign_recoverable :: "hash256 \<Rightarrow> bytes \<Rightarrow> (bytes \<times> nat) option"

record Secp256k1Signer =
  privateKey :: bytes
  signer_address :: address

definition Secp256k1Signer_new ::
  "secp256k1 \<Rightarrow> (bytes \<Rightarrow> hash256) \<Rightarrow> string \<Rightarrow> Secp256k1Signer res" where
  "Secp256k1Signer_new lib keccak privateKeyHex =
     bind_res (Hex_Decode privateKeyHex) (\<lambda>decoded.
     if length decoded \<noteq> 32 then Inl (Invalid_Argument ''private key must contain exactly 32 bytes'')
     else if \<not> seckey_verify lib decoded
     then Inl (Invalid_Argument ''private key is outside the secp256k1 scalar range'')
     else case pubkey_create lib decoded of
         None \<Rightarrow> Inl (Runtime_Error ''failed to derive secp256k1 public key'')
       | Some serialized \<Rightarrow>
           (let hash = keccak (drop 1 serialized)
            in Inr \<lparr>privateKey = decoded, signer_address = drop (length hash - 20) hash\<rparr>))"

definition Sign :: "secp256k1 \<Rightarrow> Secp256k1Signer \<Rightarrow> hash256 \<Rightarrow> Eip1559Signature res" where
  "Sign lib signer hash =
     (case sign_recoverable lib hash (privateKey signer) of
        None \<Rightarrow> Inl (Runtime_Error ''failed to sign transaction hash'')
      | Some (compact, recoveryId) \<Rightarrow>
          bind_res (FromBytes (take 32 compact)) (\<lambda>r.
          bind_res (FromBytes (take 32 (drop 32 compact))) (\<lambda>s.
          Inr \<lparr>yParity = of_nat (recoveryId mod 2), sig_r = r, sig_s = s\<rparr>)))"

definition SignTransaction ::
  "secp256k1 \<Rightarrow> (bytes \<Rightarrow> hash256) \<Rightarrow> Secp256k1Signer \<Rightarrow> Eip1559Transaction \<Rightarrow> bytes res" where
  "SignTransaction lib keccak signer t =
     map_result (EncodeSigned t) (Sign lib signer (SigningHash keccak t))"

section \<open>RLP is uniquely readable\<close>

text \<open>
  A reference reader for one RLP item: the header byte says whether the item is a single byte, a
  short or a long string, or a short or a long list. It returns the payload and what follows.
\<close>

definition read_short :: "nat \<Rightarrow> bytes \<Rightarrow> bytes \<times> bytes" where
  "read_short n rest = (take n rest, drop n rest)"

definition read_long :: "nat \<Rightarrow> bytes \<Rightarrow> bytes \<times> bytes" where
  "read_long k rest = (let n = num_of 256 (map unat (take k rest)) in read_short n (drop k rest))"

definition rlp_read :: "bytes \<Rightarrow> (bytes \<times> bytes) option" where
  "rlp_read bs = (case bs of [] \<Rightarrow> None | b # rest \<Rightarrow>
     (let h = unat b in
      if h < 0x80 then Some ([b], rest)
      else if h \<le> 0xb7 then Some (read_short (h - 0x80) rest)
      else if h < 0xc0 then Some (read_long (h - 0xb7) rest)
      else if h \<le> 0xf7 then Some (read_short (h - 0xc0) rest)
      else Some (read_long (h - 0xf7) rest)))"

lemma unat_byte: "n < 256 \<Longrightarrow> unat (of_nat n :: byte) = n"
  by (simp add: unsigned_of_nat take_bit_eq_mod)

lemma length_loop_digits: "length_loop n acc = acc @ map of_nat (digits_of 256 n)"
proof (induction n acc rule: length_loop.induct)
  case (1 n acc)
  then show ?case
    by (cases "n = 0") (simp_all add: length_loop.simps [of n acc] length_loop.simps [of 0 acc] digits_of_step)
qed

lemma LengthBytes_digits: "map unat (LengthBytes n) = rev (digits_of 256 n)"
proof -
  have "unat (of_nat d :: byte) = d" if "d \<in> set (digits_of 256 n)" for d
    using digits_of_less [of 256 d n] that by (intro unat_byte) simp
  then have "map (unat \<circ> (of_nat :: nat \<Rightarrow> byte)) (digits_of 256 n) = digits_of 256 n"
    by (intro map_idI) simp
  then show ?thesis by (simp add: LengthBytes_def length_loop_digits rev_map [symmetric])
qed

lemma num_of_LengthBytes: "num_of 256 (map unat (LengthBytes n)) = n"
  by (simp add: LengthBytes_digits num_of_digits_of)

lemma length_LengthBytes: "n < 2 ^ 64 \<Longrightarrow> length (LengthBytes n) \<le> 8"
proof -
  assume "n < 2 ^ 64"
  then have "length (digits_of 256 n) \<le> 8" by (intro digits_of_length) simp_all
  moreover have "length (LengthBytes n) = length (digits_of 256 n)"
    by (simp add: LengthBytes_def length_loop_digits)
  ultimately show ?thesis by simp
qed

lemma LengthBytes_nonempty: "0 < n \<Longrightarrow> 0 < length (LengthBytes n)"
  by (simp add: LengthBytes_def length_loop_digits digits_of_Nil_iff)

lemma rlp_read_payload:
  assumes "length p < 2 ^ 64" "(s, l) = (0x80, 0xb7) \<or> (s, l) = (0xc0, 0xf7)"
  shows "rlp_read (EncodePayload p s l @ rest) = Some (p, rest)"
proof (cases "length p \<le> 55")
  case True
  then have "unat (of_nat (s + length p) :: byte) = s + length p"
    using assms(2) by (intro unat_byte) auto
  with True assms(2) show ?thesis
    by (auto simp: EncodePayload_def rlp_read_def read_short_def Let_def simp del: of_nat_add)
next
  case False
  let ?L = "LengthBytes (length p)"
  have k: "0 < length ?L" "length ?L \<le> 8"
    using LengthBytes_nonempty [of "length p"] length_LengthBytes [OF assms(1)] False by linarith+
  then have "unat (of_nat (l + length ?L) :: byte) = l + length ?L"
    using assms(2) by (intro unat_byte) auto
  with False k assms(2) show ?thesis
    by (auto simp: EncodePayload_def rlp_read_def read_long_def read_short_def Let_def
        num_of_LengthBytes simp del: of_nat_add)
qed

lemma rlp_read_EncodeBytes:
  assumes "length v < 2 ^ 64"
  shows "rlp_read (Rlp_EncodeBytes v @ rest) = Some (v, rest)"
proof (cases "length v = 1 \<and> hd v < 0x80")
  case True
  then obtain b where "v = [b]" by (cases v) auto
  with True show ?thesis
    by (simp add: Rlp_EncodeBytes_def rlp_read_def word_less_nat_alt)
next
  case False
  then have "Rlp_EncodeBytes v = EncodePayload v 0x80 0xb7" unfolding Rlp_EncodeBytes_def by (rule if_not_P)
  then show ?thesis using rlp_read_payload [OF assms] by simp
qed

lemma rlp_read_EncodeList:
  "length (concat items) < 2 ^ 64 \<Longrightarrow> rlp_read (Rlp_EncodeList items @ rest) = Some (concat items, rest)"
  unfolding Rlp_EncodeList_def by (intro rlp_read_payload) simp_all

text \<open>The minimal big-endian bytes of an integer determine it.\<close>

definition trimmed :: "uint256 \<Rightarrow> bytes" where
  "trimmed v = dropWhile (\<lambda>b. b = 0) (ToBytes v)"

lemma num_of_dropWhile_0:
  "num_of 256 (map unat (dropWhile (\<lambda>b. b = 0) bs)) = num_of 256 (map unat (bs :: bytes))"
  by (induction bs) (simp_all add: num_of_Cons)

lemma num_of_trimmed: "num_of 256 (map unat (trimmed v)) = unat v"
  by (simp add: trimmed_def num_of_dropWhile_0 num_of_ToBytes)

lemma trimmed_inject: "trimmed v = trimmed w \<longleftrightarrow> v = w"
  by (metis num_of_trimmed word_unat_eq_iff)

lemma trimmed_0: "trimmed 0 = []"
proof -
  have "to_bytes_loop k (0 :: uint256) acc = replicate k 0 @ acc" for k acc
    by (induction k arbitrary: acc) (simp_all add: replicate_append_same)
  then show ?thesis by (simp add: trimmed_def ToBytes_def)
qed

lemma EncodeUint256_trimmed: "Rlp_EncodeUint256 v = Rlp_EncodeBytes (trimmed v)"
  by (simp add: Rlp_EncodeUint256_def IsZero_def trimmed_0) (simp add: trimmed_def)

lemma length_trimmed: "length (trimmed v) \<le> 32"
  using length_dropWhile_le [of "\<lambda>b. b = 0" "ToBytes v"] by (simp add: trimmed_def)

text \<open>A concatenation of encoded strings can be split in one way only.\<close>

lemma rlp_split:
  assumes "Rlp_EncodeBytes v @ r = Rlp_EncodeBytes w @ r'" "length v < 2 ^ 64" "length w < 2 ^ 64"
  shows "v = w \<and> r = r'"
proof -
  have "Some (v, r) = rlp_read (Rlp_EncodeBytes v @ r)" using assms(2) by (simp add: rlp_read_EncodeBytes)
  also have "\<dots> = Some (w, r')" using assms(1,3) by (simp add: rlp_read_EncodeBytes)
  finally show ?thesis by simp
qed

lemma rlp_split_uint:
  assumes "Rlp_EncodeUint256 v @ r = Rlp_EncodeUint256 w @ r'"
  shows "v = w \<and> r = r'"
proof -
  have "length (trimmed v) < 2 ^ 64" "length (trimmed w) < 2 ^ 64"
    using length_trimmed [of v] length_trimmed [of w] by (auto intro: le_less_trans)
  from rlp_split [OF assms [unfolded EncodeUint256_trimmed] this] show ?thesis
    by (simp add: trimmed_inject)
qed

definition tx_wf :: "Eip1559Transaction \<Rightarrow> bool" where
  "tx_wf t \<longleftrightarrow> pred_option (\<lambda>a. length a = 20) (tx_to t) \<and> length (concat (UnsignedItems t)) < 2 ^ 64"

lemma length_EncodeBytes: "length v \<le> length (Rlp_EncodeBytes v)"
  by (cases v) (auto simp: Rlp_EncodeBytes_def EncodePayload_def Let_def)

lemma tx_wf_data: "tx_wf t \<Longrightarrow> length (tx_data t) < 2 ^ 64"
  using length_EncodeBytes [of "tx_data t"] by (simp add: tx_wf_def UnsignedItems_def)

lemma tx_wf_to: "tx_wf t \<Longrightarrow> length (AddressBytes (tx_to t)) < 2 ^ 64"
  by (cases "tx_to t") (simp_all add: tx_wf_def AddressBytes_def)

lemma AddressBytes_inject:
  "tx_wf t \<Longrightarrow> tx_wf u \<Longrightarrow> AddressBytes (tx_to t) = AddressBytes (tx_to u) \<Longrightarrow> tx_to t = tx_to u"
  by (cases "tx_to t"; cases "tx_to u") (auto simp: tx_wf_def AddressBytes_def)

lemma EncodeSigningPayload_inject:
  assumes t: "tx_wf t" and u: "tx_wf u" and eq: "EncodeSigningPayload t = EncodeSigningPayload u"
  shows "t = u"
proof -
  have "Rlp_EncodeList (UnsignedItems t) = Rlp_EncodeList (UnsignedItems u)"
    using eq by (simp add: EncodeSigningPayload_def TypedPayload_def)
  then have "concat (UnsignedItems t) = concat (UnsignedItems u)"
    using rlp_read_EncodeList [of "UnsignedItems t" "[]"] rlp_read_EncodeList [of "UnsignedItems u" "[]"] t u
    by (simp add: tx_wf_def)
  then have items: "tx_chainId t = tx_chainId u" "tx_nonce t = tx_nonce u"
    "tx_maxPriorityFeePerGas t = tx_maxPriorityFeePerGas u" "tx_maxFeePerGas t = tx_maxFeePerGas u"
    "tx_gasLimit t = tx_gasLimit u"
    and to: "Rlp_EncodeBytes (AddressBytes (tx_to t)) @ Rlp_EncodeUint256 (tx_value t) @
        Rlp_EncodeBytes (tx_data t) @ Rlp_EncodeList []
      = Rlp_EncodeBytes (AddressBytes (tx_to u)) @ Rlp_EncodeUint256 (tx_value u) @
        Rlp_EncodeBytes (tx_data u) @ Rlp_EncodeList []"
    unfolding UnsignedItems_def by (auto dest!: rlp_split_uint)
  from rlp_split [OF to tx_wf_to [OF t] tx_wf_to [OF u]]
  have "tx_to t = tx_to u" and val: "Rlp_EncodeUint256 (tx_value t) @ Rlp_EncodeBytes (tx_data t) @ Rlp_EncodeList []
      = Rlp_EncodeUint256 (tx_value u) @ Rlp_EncodeBytes (tx_data u) @ Rlp_EncodeList []"
    using AddressBytes_inject [OF t u] by auto
  moreover from rlp_split_uint [OF val] have "tx_value t = tx_value u"
    and dat: "Rlp_EncodeBytes (tx_data t) @ Rlp_EncodeList [] = Rlp_EncodeBytes (tx_data u) @ Rlp_EncodeList []"
    by auto
  moreover from rlp_split [OF dat tx_wf_data [OF t] tx_wf_data [OF u]] have "tx_data t = tx_data u" ..
  ultimately show ?thesis using items by (intro Eip1559Transaction.equality) simp_all
qed

section \<open>Properties\<close>

text \<open>C30. The signing payload identifies the transaction: two EIP-1559 transactions with addresses of 20
  bytes and contents below 2^64 bytes have the same payload only if they agree in every field. A
  signature for one can therefore not be a signature for another with the same hash input.\<close>

theorem signing_payload_unique:
  assumes "tx_wf t" "tx_wf u"
  shows "EncodeSigningPayload t = EncodeSigningPayload u \<longleftrightarrow> t = u"
  using EncodeSigningPayload_inject [OF assms] by auto

definition demo_tx :: "uint256 \<Rightarrow> Eip1559Transaction" where
  "demo_tx n = \<lparr>tx_chainId = 31337, tx_nonce = n, tx_maxPriorityFeePerGas = 2, tx_maxFeePerGas = 100,
     tx_gasLimit = 21000, tx_to = Some (replicate 20 1), tx_value = 0, tx_data = [1, 2, 3]\<rparr>"

lemma demo_tx_wf: "tx_wf (demo_tx n)"
proof -
  have short: "length (Rlp_EncodeBytes v) \<le> length v + 1" if "length v \<le> 55" for v
    using that by (simp add: Rlp_EncodeBytes_def EncodePayload_def)
  have u: "length (Rlp_EncodeUint256 v) \<le> 33" for v
    using short [of "trimmed v"] length_trimmed [of v] by (simp add: EncodeUint256_trimmed)
  have "length (Rlp_EncodeBytes (replicate 20 1)) \<le> 21" "length (Rlp_EncodeBytes [1, 2, 3]) \<le> 4"
    using short [of "replicate 20 1"] short [of "[1, 2, 3]"] by simp_all
  moreover have "length (Rlp_EncodeList []) = 1" by (simp add: Rlp_EncodeList_def EncodePayload_def)
  ultimately have "length (concat (UnsignedItems (demo_tx n))) \<le> 224"
    using u [of 31337] u [of n] u [of 2] u [of 100] u [of 21000] u [of 0]
    by (simp add: UnsignedItems_def demo_tx_def AddressBytes_def)
  then show ?thesis by (simp add: tx_wf_def) (simp add: demo_tx_def)
qed

theorem signing_payload_unique_witness: "EncodeSigningPayload (demo_tx 7) \<noteq> EncodeSigningPayload (demo_tx 8)"
  using signing_payload_unique [OF demo_tx_wf demo_tx_wf, of 7 8] by (simp add: demo_tx_def)

end
