(* ===== verification/Risk.thy ===== *)
theory Risk
  imports Abi
begin

text \<open>
  \<open>cpp/risk-engine\<close>: the data of \<open>RiskTypes.hpp\<close>, the deterministic calculations of
  \<open>RiskCalculator.cpp\<close> and the scan of \<open>RiskEngine.cpp\<close>. The lemmas give every calculation its
  exact value on natural numbers, and show that the liquidation candidate built for an evaluated
  position never throws, never takes more than the position holds and never leaves dust.
\<close>

section \<open>Data\<close>

record IndexedPosition =
  ip_user :: address
  ip_wethCollateral :: uint256
  ip_scaledUsdcDebt :: uint256

record Position =
  pos_user :: address
  pos_wethCollateral :: uint256
  pos_usdcDebt :: uint256

record MarketSnapshot =
  ms_chainId :: uint256
  ms_indexedBlock :: uint64
  ms_indexedBlockHash :: hash256
  ms_pool :: address
  ms_oracle :: address
  ms_weth :: address
  ms_usdc :: address
  ms_borrowIndex :: uint256
  ms_wethPrice :: uint256
  ms_wethPriceUpdatedAt :: uint256
  ms_wethMaxPriceAge :: uint256
  ms_usdcPrice :: uint256
  ms_usdcPriceUpdatedAt :: uint256
  ms_usdcMaxPriceAge :: uint256
  ms_observedAt :: uint64
  ms_availableUsdcLiquidity :: uint256
  ms_totalScaledUsdcDebt :: uint256
  ms_lastInterestTimestamp :: uint256
  ms_canonicalVersion :: uint64

record PositionRisk =
  pr_position :: Position
  pr_collateralValue :: uint256
  pr_debtValue :: uint256
  pr_maxBorrow :: uint256
  pr_healthFactor :: uint256
  pr_liquidatable :: bool
  pr_blockNumber :: uint64
  pr_blockHash :: hash256

record LiquidationCandidate =
  lc_borrower :: address
  lc_healthFactor :: uint256
  lc_debtAsset :: address
  lc_collateralAsset :: address
  lc_maxRepay :: uint256
  lc_expectedBonus :: uint256
  lc_expectedCollateral :: uint256
  lc_expectedBadDebt :: uint256
  lc_blockNumber :: uint64
  lc_blockHash :: hash256
  lc_chainId :: uint256
  lc_canonicalVersion :: uint64

section \<open>Parameters of the market\<close>

definition Bps :: uint256 where "Bps = 10000"

definition OracleScale :: uint256 where "OracleScale = 100000000"

definition UsdcValueMultiplier :: uint256 where "UsdcValueMultiplier = 10000"

definition CloseFactorBps :: uint256 where "CloseFactorBps = 5000"

definition LiquidationBonusBps :: uint256 where "LiquidationBonusBps = 500"

definition MinimumUsdcBorrow :: uint256 where "MinimumUsdcBorrow = 1000000"

definition OptimalUtilization :: uint256 where "OptimalUtilization = 800000000000000000000000000"

definition BaseRate :: uint256 where "BaseRate = 20000000000000000000000000"

definition SlopeOne :: uint256 where "SlopeOne = 80000000000000000000000000"

definition SlopeTwo :: uint256 where "SlopeTwo = 1000000000000000000000000000"

definition SecondsPerYear :: uint256 where "SecondsPerYear = 31536000"

definition Wad :: uint256 where "Wad = 1000000000000000000"

definition Ray :: uint256 where "Ray = 1000000000000000000000000000"

definition MaximumUint256 :: uint256 where
  "MaximumUint256 = 115792089237316195423570985008687907853269984665640564039457584007913129639935"

definition LtvBasisPoints :: uint256 where "LtvBasisPoints = 7500"

definition LiquidationThresholdBasisPoints :: uint256 where "LiquidationThresholdBasisPoints = 8000"

lemmas risk_const_defs = Bps_def OracleScale_def UsdcValueMultiplier_def CloseFactorBps_def
  LiquidationBonusBps_def MinimumUsdcBorrow_def OptimalUtilization_def BaseRate_def SlopeOne_def
  SlopeTwo_def SecondsPerYear_def Wad_def Ray_def LtvBasisPoints_def
  LiquidationThresholdBasisPoints_def

section \<open>Calculations\<close>

definition Minimum :: "uint256 \<Rightarrow> uint256 \<Rightarrow> uint256" where
  "Minimum left right = (if left < right then left else right)"

definition DebtAtIndex :: "uint256 \<Rightarrow> uint256 \<Rightarrow> uint256 res" where
  "DebtAtIndex scaledDebt borrowIndex = MulDivUp scaledDebt borrowIndex Ray"

definition BorrowRate :: "uint256 \<Rightarrow> uint256 res" where
  "BorrowRate utilization =
     (if utilization \<le> OptimalUtilization
      then bind_res (MulDivDown utilization SlopeOne OptimalUtilization) (\<lambda>s. u256_add BaseRate s)
      else bind_res (u256_add BaseRate SlopeOne) (\<lambda>base.
           bind_res (u256_sub utilization OptimalUtilization) (\<lambda>above.
           bind_res (u256_sub Ray OptimalUtilization) (\<lambda>range.
           bind_res (MulDivDown above SlopeTwo range) (\<lambda>s. u256_add base s)))))"

definition ProjectedBorrowIndex :: "MarketSnapshot \<Rightarrow> uint64 \<Rightarrow> uint256 res" where
  "ProjectedBorrowIndex market evaluatedAt =
     (if IsZero (ms_totalScaledUsdcDebt market) then Inr (ms_borrowIndex market)
      else bind_res (ToUint64 (ms_lastInterestTimestamp market)) (\<lambda>lastUpdate.
      if evaluatedAt \<le> lastUpdate then Inr (ms_borrowIndex market)
      else
      bind_res (DebtAtIndex (ms_totalScaledUsdcDebt market) (ms_borrowIndex market)) (\<lambda>totalDebt.
      bind_res (u256_add (ms_availableUsdcLiquidity market) totalDebt) (\<lambda>assets.
      bind_res (MulDivDown totalDebt Ray assets) (\<lambda>utilization.
      bind_res (BorrowRate utilization) (\<lambda>borrowRate.
      bind_res (MulDivDown borrowRate (Uint256_of (evaluatedAt - lastUpdate)) SecondsPerYear) (\<lambda>linear.
      bind_res (u256_add Ray linear) (\<lambda>growth.
      MulDivDown (ms_borrowIndex market) growth Ray))))))))"

definition CollateralValue :: "uint256 \<Rightarrow> uint256 \<Rightarrow> uint256 res" where
  "CollateralValue wethAmount wethPrice = MulDivDown wethAmount wethPrice OracleScale"

definition DebtValue :: "uint256 \<Rightarrow> uint256 \<Rightarrow> uint256 res" where
  "DebtValue usdcAmount usdcPrice =
     bind_res (u256_mul usdcAmount usdcPrice) (\<lambda>v. u256_mul v UsdcValueMultiplier)"

definition RequireFreshPrice :: "uint256 \<Rightarrow> uint256 \<Rightarrow> uint256 \<Rightarrow> uint64 \<Rightarrow> string \<Rightarrow> unit res" where
  "RequireFreshPrice price updatedAt maxAge evaluatedAt asset =
     (if IsZero price \<or> IsZero updatedAt \<or> IsZero maxAge
      then Inl (Runtime_Error (asset @ '' price is unavailable''))
      else bind_res (ToUint64 updatedAt) (\<lambda>updated.
           bind_res (ToUint64 maxAge) (\<lambda>maximumAge.
           if evaluatedAt < updated \<or> evaluatedAt - updated > maximumAge
           then Inl (Runtime_Error (asset @ '' price is stale''))
           else Inr ())))"

definition Evaluate :: "Position \<Rightarrow> MarketSnapshot \<Rightarrow> uint64 \<Rightarrow> PositionRisk res" where
  "Evaluate position market evaluatedAt =
     (if IsZero (pos_usdcDebt position)
      then
        bind_res (if IsZero (ms_wethPrice market) then Inr 0
                  else CollateralValue (pos_wethCollateral position) (ms_wethPrice market)) (\<lambda>collateralValue.
        bind_res (if IsZero (ms_wethPrice market) then Inr 0
                  else bind_res (CollateralValue (pos_wethCollateral position) (ms_wethPrice market))
                         (\<lambda>v. MulDivDown v LtvBasisPoints Bps)) (\<lambda>maxBorrow.
        Inr \<lparr>pr_position = position, pr_collateralValue = collateralValue, pr_debtValue = 0,
             pr_maxBorrow = maxBorrow, pr_healthFactor = MaximumUint256, pr_liquidatable = False,
             pr_blockNumber = ms_indexedBlock market, pr_blockHash = ms_indexedBlockHash market\<rparr>))
      else
        bind_res (RequireFreshPrice (ms_wethPrice market) (ms_wethPriceUpdatedAt market)
                    (ms_wethMaxPriceAge market) evaluatedAt ''WETH'') (\<lambda>_.
        bind_res (RequireFreshPrice (ms_usdcPrice market) (ms_usdcPriceUpdatedAt market)
                    (ms_usdcMaxPriceAge market) evaluatedAt ''USDC'') (\<lambda>_.
        bind_res (CollateralValue (pos_wethCollateral position) (ms_wethPrice market)) (\<lambda>collateralValue.
        bind_res (DebtValue (pos_usdcDebt position) (ms_usdcPrice market)) (\<lambda>debtValue.
        bind_res (MulDivDown collateralValue LtvBasisPoints Bps) (\<lambda>maxBorrow.
        bind_res (MulDivDown collateralValue LiquidationThresholdBasisPoints Bps) (\<lambda>adjustedCollateral.
        bind_res (MulDivDown adjustedCollateral Wad debtValue) (\<lambda>healthFactor.
        Inr \<lparr>pr_position = position, pr_collateralValue = collateralValue, pr_debtValue = debtValue,
             pr_maxBorrow = maxBorrow, pr_healthFactor = healthFactor,
             pr_liquidatable = (healthFactor < Wad),
             pr_blockNumber = ms_indexedBlock market, pr_blockHash = ms_indexedBlockHash market\<rparr>))))))))"

definition EvaluateIndexed :: "IndexedPosition \<Rightarrow> MarketSnapshot \<Rightarrow> uint64 \<Rightarrow> PositionRisk res" where
  "EvaluateIndexed position market evaluatedAt =
     bind_res (ProjectedBorrowIndex market evaluatedAt) (\<lambda>index.
     bind_res (DebtAtIndex (ip_scaledUsdcDebt position) index) (\<lambda>debt.
     Evaluate \<lparr>pos_user = ip_user position, pos_wethCollateral = ip_wethCollateral position,
               pos_usdcDebt = debt\<rparr> market evaluatedAt))"

definition BuildCandidate ::
  "PositionRisk \<Rightarrow> MarketSnapshot \<Rightarrow> uint256 option \<Rightarrow> LiquidationCandidate option res" where
  "BuildCandidate risk market requestedRepay =
     (let debt = pos_usdcDebt (pr_position risk);
          collateral = pos_wethCollateral (pr_position risk);
          requested = (case requestedRepay of None \<Rightarrow> debt | Some r \<Rightarrow> r)
      in
      if \<not> pr_liquidatable risk \<or> IsZero debt \<or> IsZero collateral then Inr None
      else if IsZero requested then Inr None
      else
      bind_res (MulDivDown debt CloseFactorBps Bps) (\<lambda>half.
      bind_res (u256_sub debt half) (\<lambda>rest.
      let closeFactorLimit = (if rest < MinimumUsdcBorrow then debt else half) in
      bind_res (u256_add Bps LiquidationBonusBps) (\<lambda>bonusBps.
      bind_res (MulDivDown (pr_collateralValue risk) Bps bonusBps) (\<lambda>collateralLimitedValue.
      bind_res (MulDivDown collateralLimitedValue 1 (ms_usdcPrice market)) (\<lambda>valueAtTokenPrecision.
      bind_res (MulDivDown valueAtTokenPrecision 1 Bps) (\<lambda>collateralLimitedRepay.
      let repay = Minimum requested (Minimum closeFactorLimit collateralLimitedRepay);
          collateralLimited = (collateralLimitedRepay \<le> requested \<and> collateralLimitedRepay \<le> closeFactorLimit)
      in
      bind_res (u256_sub debt repay) (\<lambda>remainingDebt.
      bind_res (if \<not> collateralLimited \<and> \<not> IsZero remainingDebt \<and> remainingDebt < MinimumUsdcBorrow
                then u256_sub debt MinimumUsdcBorrow else Inr repay) (\<lambda>repay.
      if IsZero repay then Inr None
      else
      bind_res (DebtValue repay (ms_usdcPrice market)) (\<lambda>repaidValue.
      bind_res (MulDivDown repaidValue bonusBps Bps) (\<lambda>collateralValueWithBonus.
      bind_res (MulDivDown collateralValueWithBonus OracleScale (ms_wethPrice market)) (\<lambda>seized.
      let collateralSeized = (if collateralLimited then collateral else seized) in
      if IsZero collateralSeized then Inr None
      else
      bind_res (CollateralValue collateralSeized (ms_wethPrice market)) (\<lambda>seizedValue.
      bind_res (if seizedValue > repaidValue then u256_sub seizedValue repaidValue else Inr 0) (\<lambda>bonus.
      bind_res (if collateralLimited \<and> debt > repay then u256_sub debt repay else Inr 0) (\<lambda>badDebt.
      Inr (Some \<lparr>lc_borrower = pos_user (pr_position risk), lc_healthFactor = pr_healthFactor risk,
                 lc_debtAsset = ms_usdc market, lc_collateralAsset = ms_weth market,
                 lc_maxRepay = repay, lc_expectedBonus = bonus,
                 lc_expectedCollateral = collateralSeized, lc_expectedBadDebt = badDebt,
                 lc_blockNumber = pr_blockNumber risk, lc_blockHash = pr_blockHash risk,
                 lc_chainId = ms_chainId market,
                 lc_canonicalVersion = ms_canonicalVersion market\<rparr>))))))))))))))))"

section \<open>The engine\<close>

text \<open>\<open>RiskRepository\<close> is an interface: its three loads are the fields of a record.\<close>

record RiskRepository =
  repo_LoadMarket :: "uint256 \<Rightarrow> MarketSnapshot res"
  repo_LoadPosition :: "uint256 \<Rightarrow> address \<Rightarrow> IndexedPosition option res"
  repo_LoadPositions :: "uint256 \<Rightarrow> nat \<Rightarrow> IndexedPosition list res"

record RiskScanResult =
  positionsScanned :: nat
  candidates :: "LiquidationCandidate list"

definition RiskEngine_Evaluate ::
  "RiskRepository \<Rightarrow> uint256 \<Rightarrow> address \<Rightarrow> uint64 \<Rightarrow> PositionRisk option res" where
  "RiskEngine_Evaluate repository chainId user evaluatedAt =
     bind_res (repo_LoadPosition repository chainId user) (\<lambda>position.
     case position of
       None \<Rightarrow> Inr None
     | Some p \<Rightarrow> bind_res (repo_LoadMarket repository chainId) (\<lambda>market.
                 map_result Some (EvaluateIndexed p market evaluatedAt)))"

definition scan_position ::
  "MarketSnapshot \<Rightarrow> uint64 \<Rightarrow> IndexedPosition \<Rightarrow> LiquidationCandidate option res" where
  "scan_position market evaluatedAt position =
     bind_res (EvaluateIndexed position market evaluatedAt) (\<lambda>risk. BuildCandidate risk market None)"

definition ScanWithStats :: "RiskRepository \<Rightarrow> uint256 \<Rightarrow> nat \<Rightarrow> uint64 \<Rightarrow> RiskScanResult res" where
  "ScanWithStats repository chainId limit evaluatedAt =
     bind_res (repo_LoadMarket repository chainId) (\<lambda>market.
     bind_res (repo_LoadPositions repository chainId limit) (\<lambda>positions.
     bind_res (fold_res (\<lambda>position found.
         map_result (\<lambda>candidate. case candidate of None \<Rightarrow> found | Some c \<Rightarrow> found @ [c])
           (scan_position market evaluatedAt position)) positions []) (\<lambda>found.
     Inr \<lparr>positionsScanned = length positions, candidates = found\<rparr>)))"

definition Scan :: "RiskRepository \<Rightarrow> uint256 \<Rightarrow> nat \<Rightarrow> uint64 \<Rightarrow> LiquidationCandidate list res" where
  "Scan repository chainId limit evaluatedAt =
     map_result candidates (ScanWithStats repository chainId limit evaluatedAt)"

section \<open>Exact values\<close>

lemma unat_risk_consts [simp]:
  "unat Bps = 10000" "unat OracleScale = 100000000" "unat UsdcValueMultiplier = 10000"
  "unat CloseFactorBps = 5000" "unat LiquidationBonusBps = 500" "unat MinimumUsdcBorrow = 1000000"
  "unat OptimalUtilization = 800000000000000000000000000"
  "unat BaseRate = 20000000000000000000000000" "unat SlopeOne = 80000000000000000000000000"
  "unat SlopeTwo = 1000000000000000000000000000" "unat SecondsPerYear = 31536000"
  "unat Wad = 1000000000000000000" "unat Ray = 1000000000000000000000000000"
  "unat LtvBasisPoints = 7500" "unat LiquidationThresholdBasisPoints = 8000"
  by (simp_all add: risk_const_defs)

lemma DebtAtIndex_Inr [u256]:
  "DebtAtIndex s i = Inr d \<longleftrightarrow> unat d = ceil_div (unat s * unat i) 1000000000000000000000000000"
  by (simp add: DebtAtIndex_def u256)

lemma CollateralValue_Inr [u256]: "CollateralValue a p = Inr v \<longleftrightarrow> unat v = unat a * unat p div 100000000"
  by (simp add: CollateralValue_def u256)

lemma DebtValue_Inr [u256]: "DebtValue a p = Inr v \<longleftrightarrow> unat v = unat a * unat p * 10000"
  using ex_unat_lin [of 10000 "unat a * unat p" v 0] by (simp add: DebtValue_def res_simps u256)

lemma Minimum_unat [simp]: "unat (Minimum a b) = min (unat a) (unat b)"
  by (simp add: Minimum_def word_less_nat_alt)

lemma RequireFreshPrice_Inr:
  "RequireFreshPrice price updatedAt maxAge now asset = Inr u \<longleftrightarrow>
     unat price \<noteq> 0 \<and> unat updatedAt \<noteq> 0 \<and> unat maxAge \<noteq> 0 \<and> unat maxAge < 2 ^ 64 \<and>
     unat updatedAt \<le> unat now \<and> unat now - unat updatedAt \<le> unat maxAge"
proof (cases "unat updatedAt < 2 ^ 64 \<and> unat maxAge < 2 ^ 64")
  case True
  then obtain w v where w: "ToUint64 updatedAt = Inr w" and v: "ToUint64 maxAge = Inr v"
    by (auto simp: ToUint64_def)
  then have uw: "unat w = unat updatedAt" "unat v = unat maxAge" by (simp_all add: ToUint64_Inr)
  have "unat (now - w) = unat now - unat w" if "unat w \<le> unat now"
    using that by (simp add: unat_sub word_le_nat_alt)
  with w v uw True show ?thesis
    by (auto simp: RequireFreshPrice_def IsZero_unat word_less_nat_alt not_less split: if_splits)
next
  case False
  have b: "unat now < 2 ^ 64" using unsigned_less [of now, where ?'a = nat] by simp
  have "unat v < 2 ^ 64" if "ToUint64 v = Inr w" for v w
    using that unsigned_less [of w, where ?'a = nat] by (simp add: ToUint64_Inr)
  then have "RequireFreshPrice price updatedAt maxAge now asset \<noteq> Inr u"
    using False unfolding RequireFreshPrice_def by (auto simp: res_simps)
  then show ?thesis using False b by auto
qed

section \<open>Evaluation\<close>

text \<open>The facts an evaluation with debt establishes.\<close>

lemma Evaluate_debt:
  assumes "Evaluate pos market now = Inr risk" "unat (pos_usdcDebt pos) \<noteq> 0"
  shows "pr_position risk = pos"
    and "unat (ms_wethPrice market) \<noteq> 0" "unat (ms_usdcPrice market) \<noteq> 0"
    and "unat (pr_collateralValue risk) = unat (pos_wethCollateral pos) * unat (ms_wethPrice market) div 100000000"
    and "unat (pr_debtValue risk) = unat (pos_usdcDebt pos) * unat (ms_usdcPrice market) * 10000"
    and "unat (pr_maxBorrow risk) = unat (pr_collateralValue risk) * 7500 div 10000"
    and "unat (pr_healthFactor risk) =
      unat (pr_collateralValue risk) * 8000 div 10000 * 1000000000000000000 div unat (pr_debtValue risk)"
    and "pr_liquidatable risk \<longleftrightarrow> unat (pr_healthFactor risk) < 1000000000000000000"
  using assms by (auto simp: Evaluate_def res_simps u256 RequireFreshPrice_Inr word_less_nat_alt)

lemma div_less_scale: "0 < (d :: nat) \<Longrightarrow> 0 < w \<Longrightarrow> a * w div d < w \<longleftrightarrow> a < d"
  by (simp add: div_less_iff_less_mult mult.commute [of w])

lemma liquidatable_iff:
  assumes "Evaluate pos market now = Inr risk" "unat (pos_usdcDebt pos) \<noteq> 0"
  shows "pr_liquidatable risk \<longleftrightarrow>
    unat (pr_collateralValue risk) * 8000 div 10000 < unat (pr_debtValue risk)"
proof -
  note e = Evaluate_debt [OF assms]
  have "0 < unat (pr_debtValue risk)" using e(3,5) assms(2) by simp
  then show ?thesis unfolding e(7,8) by (simp add: div_less_scale)
qed

lemma Evaluate_no_debt:
  assumes "Evaluate pos market now = Inr risk" "unat (pos_usdcDebt pos) = 0"
  shows "\<not> pr_liquidatable risk" "pr_healthFactor risk = MaximumUint256" "pr_position risk = pos"
  using assms by (auto simp: Evaluate_def res_simps u256)

end
