(* ===== verification/Candidate.thy ===== *)
theory Candidate
  imports Risk
begin

text \<open>
  The liquidation rules as natural-number arithmetic, and the proof that
  \<open>RiskCalculator::BuildCandidate\<close> computes exactly them. The rules are those of
  \<open>docs/PROTOCOL.md\<close>: repayment capped by the request, the close factor and the collateral; dust
  below the minimum debt resolved; the seizure with its bonus; the last collateral unit consumed and
  the residue recognised as bad debt when the collateral is the binding limit. On top of the rules:
  the index projection only grows, and the scan of the engine.
\<close>

section \<open>The rules\<close>

text \<open>\<open>D\<close> is the debt, \<open>R\<close> the requested repayment, \<open>V\<close> the collateral value, \<open>Q\<close> the USDC price,
  \<open>P\<close> the WETH price and \<open>C\<close> the collateral.\<close>

definition close_limit :: "nat \<Rightarrow> nat" where
  "close_limit D = (let half = D * 5000 div 10000 in if D - half < 1000000 then D else half)"

definition collateral_repay :: "nat \<Rightarrow> nat \<Rightarrow> nat" where
  "collateral_repay V Q = V * 10000 div 10500 div Q div 10000"

definition is_limited :: "nat \<Rightarrow> nat \<Rightarrow> nat \<Rightarrow> nat \<Rightarrow> bool" where
  "is_limited R D V Q \<longleftrightarrow> collateral_repay V Q \<le> R \<and> collateral_repay V Q \<le> close_limit D"

definition capped_repay :: "nat \<Rightarrow> nat \<Rightarrow> nat \<Rightarrow> nat \<Rightarrow> nat" where
  "capped_repay R D V Q = min R (min (close_limit D) (collateral_repay V Q))"

definition leaves_dust :: "nat \<Rightarrow> nat \<Rightarrow> nat \<Rightarrow> nat \<Rightarrow> bool" where
  "leaves_dust R D V Q \<longleftrightarrow>
     \<not> is_limited R D V Q \<and> D - capped_repay R D V Q \<noteq> 0 \<and> D - capped_repay R D V Q < 1000000"

definition repay_amount :: "nat \<Rightarrow> nat \<Rightarrow> nat \<Rightarrow> nat \<Rightarrow> nat" where
  "repay_amount R D V Q = (if leaves_dust R D V Q then D - 1000000 else capped_repay R D V Q)"

definition seized_for :: "nat \<Rightarrow> nat \<Rightarrow> nat \<Rightarrow> nat" where
  "seized_for r Q P = r * Q * 10000 * 10500 div 10000 * 100000000 div P"

definition seized_amount :: "nat \<Rightarrow> nat \<Rightarrow> nat \<Rightarrow> nat \<Rightarrow> nat \<Rightarrow> nat \<Rightarrow> nat" where
  "seized_amount R D C V Q P =
     (if is_limited R D V Q then C else seized_for (repay_amount R D V Q) Q P)"

lemma close_limit_le: "close_limit D \<le> D"
  by (simp add: close_limit_def Let_def)

lemma capped_repay_le: "capped_repay R D V Q \<le> D"
  using close_limit_le [of D] by (simp add: capped_repay_def)

lemma repay_amount_capped: "repay_amount R D V Q \<le> capped_repay R D V Q"
  by (auto simp: repay_amount_def leaves_dust_def)

lemma repay_amount_le: "repay_amount R D V Q \<le> D"
  using repay_amount_capped capped_repay_le le_trans by blast

text \<open>What is repaid is worth at most the collateral less the bonus, so the seizure fits.\<close>

lemma repay_value_le: "repay_amount R D V Q * Q * 10000 \<le> V * 10000 div 10500"
proof -
  let ?r = "repay_amount R D V Q" and ?l = "V * 10000 div 10500"
  have "?r \<le> ?l div Q div 10000"
    using repay_amount_capped [of R D V Q] by (simp add: capped_repay_def collateral_repay_def)
  then have "?r * 10000 \<le> ?l div Q" by (simp add: le_div_geq less_eq_div_iff_mult_less_eq)
  then have "?r * 10000 * Q \<le> ?l div Q * Q" by (rule mult_le_mono1)
  also have "\<dots> \<le> ?l" by simp
  finally show ?thesis by (simp add: mult.commute mult.left_commute)
qed

lemma bonus_value_le:
  fixes x V :: nat
  assumes "x \<le> V * 10000 div 10500"
  shows "x * 10500 div 10000 \<le> V"
proof -
  have "x * 10500 \<le> V * 10000 div 10500 * 10500" using assms by (rule mult_le_mono1)
  also have "\<dots> \<le> V * 10000" by simp
  finally have "x * 10500 div 10000 \<le> V * 10000 div 10000" by (rule div_le_mono)
  then show ?thesis by simp
qed

lemma seized_for_le:
  assumes "V = C * P div 100000000" "P \<noteq> 0" "r * Q * 10000 \<le> V * 10000 div 10500"
  shows "seized_for r Q P \<le> C"
proof -
  have "r * Q * 10000 * 10500 div 10000 \<le> V" using assms(3) by (rule bonus_value_le)
  then have "r * Q * 10000 * 10500 div 10000 * 100000000 \<le> V * 100000000" by (rule mult_le_mono1)
  also have "\<dots> \<le> C * P" by (simp add: assms(1))
  finally have "seized_for r Q P \<le> C * P div P" unfolding seized_for_def by (rule div_le_mono)
  with assms(2) show ?thesis by simp
qed

lemma seized_amount_le:
  assumes "V = C * P div 100000000" "P \<noteq> 0"
  shows "seized_amount R D C V Q P \<le> C"
  using seized_for_le [OF assms repay_value_le] by (simp add: seized_amount_def)

lemma small_close_limit: "D < 1000000 \<Longrightarrow> close_limit D = D"
  unfolding close_limit_def Let_def by (rule if_P) linarith

lemma dust_needs_minimum:
  assumes "leaves_dust R D V Q" "R = D"
  shows "1000000 \<le> D"
proof (rule ccontr)
  assume "\<not> 1000000 \<le> D"
  then have "close_limit D = D" by (simp add: small_close_limit)
  with assms show False
    by (cases "collateral_repay V Q \<le> D") (simp_all add: leaves_dust_def is_limited_def capped_repay_def)
qed

text \<open>After the repayment the debt is gone, at least the minimum, or the collateral was the limit.\<close>

lemma no_dust:
  assumes "D \<ge> 1000000 \<or> R = D"
  shows "is_limited R D V Q \<or> D - repay_amount R D V Q = 0 \<or> 1000000 \<le> D - repay_amount R D V Q"
proof (cases "leaves_dust R D V Q")
  case True
  then have "1000000 \<le> D" using assms dust_needs_minimum by auto
  with True show ?thesis by (simp add: repay_amount_def)
next
  case False
  then show ?thesis by (auto simp: repay_amount_def leaves_dust_def)
qed

section \<open>BuildCandidate computes the rules\<close>

text \<open>What the calculator knows about a risk it evaluated against a market.\<close>

definition risk_ok :: "PositionRisk \<Rightarrow> MarketSnapshot \<Rightarrow> bool" where
  "risk_ok risk market \<longleftrightarrow>
     unat (ms_wethPrice market) \<noteq> 0 \<and> unat (ms_usdcPrice market) \<noteq> 0 \<and>
     unat (pr_collateralValue risk)
       = unat (pos_wethCollateral (pr_position risk)) * unat (ms_wethPrice market) div 100000000 \<and>
     unat (pos_usdcDebt (pr_position risk)) * unat (ms_usdcPrice market) * 10000 < two256"

lemma Evaluate_risk_ok:
  assumes "Evaluate pos market now = Inr risk" "unat (pos_usdcDebt pos) \<noteq> 0"
  shows "risk_ok risk market"
  using Evaluate_debt [OF assms] unat_less_two256 [of "pr_debtValue risk"]
  by (simp add: risk_ok_def)

definition candidate_matches ::
  "PositionRisk \<Rightarrow> MarketSnapshot \<Rightarrow> nat \<Rightarrow> LiquidationCandidate \<Rightarrow> bool" where
  "candidate_matches risk market R c \<longleftrightarrow>
     (let D = unat (pos_usdcDebt (pr_position risk));
          C = unat (pos_wethCollateral (pr_position risk));
          V = unat (pr_collateralValue risk);
          Q = unat (ms_usdcPrice market);
          P = unat (ms_wethPrice market);
          r = repay_amount R D V Q;
          s = seized_amount R D C V Q P
      in unat (lc_maxRepay c) = r \<and>
         unat (lc_expectedCollateral c) = s \<and>
         unat (lc_expectedBonus c) = s * P div 100000000 - r * Q * 10000 \<and>
         unat (lc_expectedBadDebt c) = (if is_limited R D V Q then D - r else 0) \<and>
         lc_borrower c = pos_user (pr_position risk) \<and>
         lc_healthFactor c = pr_healthFactor risk \<and>
         lc_debtAsset c = ms_usdc market \<and>
         lc_collateralAsset c = ms_weth market \<and>
         lc_blockNumber c = pr_blockNumber risk \<and>
         lc_blockHash c = pr_blockHash risk \<and>
         lc_chainId c = ms_chainId market \<and>
         lc_canonicalVersion c = ms_canonicalVersion market)"

text \<open>The form of \<open>MulDivDown_ex\<close> for operands whose values are known.\<close>

lemma MulDivDown_vals:
  assumes "unat a = x" "unat b = y" "unat d = z" "z \<noteq> 0" "x * y div z < two256"
  shows "\<exists>c. MulDivDown a b d = Inr c \<and> unat c = x * y div z"
  using MulDivDown_ex [of d a b] assms by simp

lemma guarded_sub_ex:
  "\<exists>c. (if b < a then u256_sub a b else Inr 0) = Inr c \<and> unat c = unat a - unat b"
  using u256_sub_ex [of b a] by (cases "b < a") (auto simp: word_less_nat_alt)

lemma BuildCandidate_none:
  assumes "\<not> pr_liquidatable risk \<or> IsZero (pos_usdcDebt (pr_position risk)) \<or>
    IsZero (pos_wethCollateral (pr_position risk)) \<or> requestedRepay = Some 0"
  shows "BuildCandidate risk market requestedRepay = Inr None"
  using assms by (auto simp: BuildCandidate_def Let_def IsZero_def)

text \<open>
  The computation falls into the choice of the repayment and, from it, the seizure, the bonus and
  the bad debt (\<open>seizure\<close>).
\<close>

definition seizure ::
  "PositionRisk \<Rightarrow> MarketSnapshot \<Rightarrow> bool \<Rightarrow> uint256 \<Rightarrow> uint256 \<Rightarrow> LiquidationCandidate option res" where
  "seizure risk market collateralLimited bonusBps repay =
     (let debt = pos_usdcDebt (pr_position risk);
          collateral = pos_wethCollateral (pr_position risk)
      in
      if IsZero repay then Inr None
      else
      bind_res (DebtValue repay (ms_usdcPrice market)) (\<lambda>repaidValue.
      bind_res (MulDivDown repaidValue bonusBps Bps) (\<lambda>collateralValueWithBonus.
      bind_res (MulDivDown collateralValueWithBonus OracleScale (ms_wethPrice market)) (\<lambda>seized.
      let collateralSeized = (if collateralLimited then collateral else seized) in
      if IsZero collateralSeized then Inr None
      else
      bind_res (CollateralValue collateralSeized (ms_wethPrice market)) (\<lambda>seizedValue.
      bind_res (if seizedValue > repaidValue then u256_sub seizedValue repaidValue else Inr 0) (\<lambda>bonus.
      bind_res (if collateralLimited \<and> debt > repay then u256_sub debt repay else Inr 0) (\<lambda>badDebt.
      Inr (Some \<lparr>lc_borrower = pos_user (pr_position risk), lc_healthFactor = pr_healthFactor risk,
                 lc_debtAsset = ms_usdc market, lc_collateralAsset = ms_weth market,
                 lc_maxRepay = repay, lc_expectedBonus = bonus,
                 lc_expectedCollateral = collateralSeized, lc_expectedBadDebt = badDebt,
                 lc_blockNumber = pr_blockNumber risk, lc_blockHash = pr_blockHash risk,
                 lc_chainId = ms_chainId market,
                 lc_canonicalVersion = ms_canonicalVersion market\<rparr>))))))))"

text \<open>A liquidatable position with debt and collateral, and a request that is not zero.\<close>

definition buildable :: "PositionRisk \<Rightarrow> MarketSnapshot \<Rightarrow> uint256 option \<Rightarrow> bool" where
  "buildable risk market requestedRepay \<longleftrightarrow>
     risk_ok risk market \<and> pr_liquidatable risk \<and> unat (pos_usdcDebt (pr_position risk)) \<noteq> 0 \<and>
     unat (pos_wethCollateral (pr_position risk)) \<noteq> 0 \<and> requestedRepay \<noteq> Some 0"

definition requested_nat :: "PositionRisk \<Rightarrow> uint256 option \<Rightarrow> nat" where
  "requested_nat risk requestedRepay =
     (case requestedRepay of None \<Rightarrow> unat (pos_usdcDebt (pr_position risk)) | Some r \<Rightarrow> unat r)"

lemma BuildCandidate_repayment:
  fixes risk :: PositionRisk and market :: MarketSnapshot and requestedRepay :: "uint256 option"
  defines "D \<equiv> unat (pos_usdcDebt (pr_position risk))"
    and "V \<equiv> unat (pr_collateralValue risk)" and "Q \<equiv> unat (ms_usdcPrice market)"
    and "R \<equiv> requested_nat risk requestedRepay"
  assumes b: "buildable risk market requestedRepay"
  obtains repay bonusBps where "unat repay = capped_repay R D V Q" "unat bonusBps = 10500"
    "BuildCandidate risk market requestedRepay =
       bind_res (if leaves_dust R D V Q then u256_sub (pos_usdcDebt (pr_position risk)) MinimumUsdcBorrow
                 else Inr repay) (seizure risk market (is_limited R D V Q) bonusBps)"
proof -
  let ?debt = "pos_usdcDebt (pr_position risk)"
  define req where "req = (case requestedRepay of None \<Rightarrow> ?debt | Some r \<Rightarrow> r)"
  have req: "unat req = R" by (simp add: req_def R_def requested_nat_def split: option.splits)
  have Q: "Q \<noteq> 0" using b by (simp add: buildable_def risk_ok_def Q_def)
  have lt: "D < two256" "V < two256" by (simp_all add: D_def V_def)
  have "D * 5000 div 10000 < two256" using lt(1) by linarith
  then obtain half where half: "MulDivDown ?debt CloseFactorBps Bps = Inr half" "unat half = D * 5000 div 10000"
    using MulDivDown_vals [of ?debt D CloseFactorBps 5000 Bps 10000] by (auto simp: D_def)
  obtain rest where rest: "u256_sub ?debt half = Inr rest" "unat rest = D - D * 5000 div 10000"
    using u256_sub_ex [of half ?debt] half by (auto simp: D_def)
  define lim where "lim = (if rest < MinimumUsdcBorrow then ?debt else half)"
  have lim: "unat lim = close_limit D"
    by (simp add: lim_def close_limit_def Let_def word_less_nat_alt rest half D_def)
  obtain bps where bps: "u256_add Bps LiquidationBonusBps = Inr bps" "unat bps = 10500"
    using u256_add_ex [of Bps LiquidationBonusBps] by (auto simp: two256_def)
  have "V * 10000 div 10500 < two256" using lt(2) by linarith
  then obtain clv where clv: "MulDivDown (pr_collateralValue risk) Bps bps = Inr clv" "unat clv = V * 10000 div 10500"
    using MulDivDown_vals [of "pr_collateralValue risk" V Bps 10000 bps 10500] bps by (auto simp: V_def)
  obtain vat where vat: "MulDivDown clv 1 (ms_usdcPrice market) = Inr vat" "unat vat = V * 10000 div 10500 div Q"
    using MulDivDown_ex [of "ms_usdcPrice market" clv 1] clv Q unat_less_two256 [of clv]
    by (auto simp: Q_def intro: le_less_trans [OF div_le_dividend])
  obtain clr where clr: "MulDivDown vat 1 Bps = Inr clr" "unat clr = collateral_repay V Q"
    using MulDivDown_ex [of Bps vat 1] vat unat_less_two256 [of vat]
    by (auto simp: collateral_repay_def intro: le_less_trans [OF div_le_dividend])
  define lmt where "lmt \<longleftrightarrow> clr \<le> req \<and> clr \<le> lim"
  have lmt: "lmt \<longleftrightarrow> is_limited R D V Q"
    by (simp add: lmt_def is_limited_def word_le_nat_alt clr req lim)
  define rep0 where "rep0 = Minimum req (Minimum lim clr)"
  have rep0: "unat rep0 = capped_repay R D V Q"
    by (simp add: rep0_def capped_repay_def req lim clr)
  obtain rem where rem: "u256_sub ?debt rep0 = Inr rem" "unat rem = D - capped_repay R D V Q"
    using u256_sub_ex [of rep0 ?debt] rep0 capped_repay_le by (auto simp: D_def)
  have dust: "\<not> lmt \<and> \<not> IsZero rem \<and> rem < MinimumUsdcBorrow \<longleftrightarrow> leaves_dust R D V Q"
    by (simp add: leaves_dust_def lmt u256 rem word_less_nat_alt)
  have guards: "\<not> (\<not> pr_liquidatable risk \<or> IsZero ?debt \<or> IsZero (pos_wethCollateral (pr_position risk)))"
      "\<not> IsZero req"
    using b by (auto simp: u256 buildable_def req_def unat_eq_zero split: option.splits)
  have "BuildCandidate risk market requestedRepay =
       bind_res (if leaves_dust R D V Q then u256_sub ?debt MinimumUsdcBorrow else Inr rep0)
         (seizure risk market (is_limited R D V Q) bps)"
    unfolding BuildCandidate_def Let_def req_def [symmetric] if_not_P [OF guards(1)] if_not_P [OF guards(2)]
      half(1) rest(1) bps(1) clv(1) vat(1) clr(1) rem(1) bind_res_simps lim_def [symmetric]
      rep0_def [symmetric] lmt_def [symmetric] dust lmt
    by (rule bind_res_cong) (simp_all only: seizure_def Let_def dust [unfolded lmt])
  with rep0 bps(2) show thesis by (rule that)
qed

lemma seizure_rules:
  fixes risk :: PositionRisk and market :: MarketSnapshot and requestedRepay :: "uint256 option"
  defines "D \<equiv> unat (pos_usdcDebt (pr_position risk))"
    and "C \<equiv> unat (pos_wethCollateral (pr_position risk))"
    and "V \<equiv> unat (pr_collateralValue risk)"
    and "Q \<equiv> unat (ms_usdcPrice market)" and "P \<equiv> unat (ms_wethPrice market)"
  assumes ok: "risk_ok risk market" and bps: "unat bps = 10500" and rep: "unat rep = repay_amount R D V Q"
  shows "if repay_amount R D V Q = 0 \<or> seized_amount R D C V Q P = 0
    then seizure risk market (is_limited R D V Q) bps rep = Inr None
    else \<exists>c. seizure risk market (is_limited R D V Q) bps rep = Inr (Some c) \<and>
             candidate_matches risk market R c"
proof -
  let ?debt = "pos_usdcDebt (pr_position risk)" and ?coll = "pos_wethCollateral (pr_position risk)"
  let ?r = "repay_amount R D V Q" and ?lmt = "is_limited R D V Q"
  have PQ: "P \<noteq> 0" "Q \<noteq> 0" "V = C * P div 100000000"
    using ok by (simp_all add: risk_ok_def P_def Q_def V_def C_def D_def)
  have lt: "V < two256" "C < two256" by (simp_all add: V_def C_def)
  have val: "?r * Q * 10000 \<le> V * 10000 div 10500" by (rule repay_value_le)
  have "?r * Q * 10000 < two256" using val lt(1) by linarith
  then obtain rv where rv: "DebtValue rep (ms_usdcPrice market) = Inr rv" "unat rv = ?r * Q * 10000"
    unfolding DebtValue_Inr rep Q_def [symmetric] using ex_uint256 by blast
  obtain cvb where cvb: "MulDivDown rv bps Bps = Inr cvb" "unat cvb = ?r * Q * 10000 * 10500 div 10000"
    using MulDivDown_ex [of Bps rv bps] bps rv bonus_value_le [OF val] lt(1) by auto
  obtain sz where sz: "MulDivDown cvb OracleScale (ms_wethPrice market) = Inr sz" "unat sz = seized_for ?r Q P"
    using MulDivDown_ex [of "ms_wethPrice market" cvb OracleScale] cvb PQ(1)
      seized_for_le [OF PQ(3,1) val] lt(2)
    by (auto simp: P_def seized_for_def)
  define seized where "seized = (if ?lmt then ?coll else sz)"
  have seized: "unat seized = seized_amount R D C V Q P"
    by (simp add: seized_def seized_amount_def sz C_def)
  have "seized_amount R D C V Q P * P \<le> C * P"
    using seized_amount_le [OF PQ(3,1)] by (rule mult_le_mono1)
  then have "seized_amount R D C V Q P * P div 100000000 \<le> V" unfolding PQ(3) by (rule div_le_mono)
  then obtain sv where sv: "CollateralValue seized (ms_wethPrice market) = Inr sv"
      "unat sv = seized_amount R D C V Q P * P div 100000000"
    unfolding CollateralValue_Inr seized P_def [symmetric] using ex_uint256 lt(1) le_less_trans by blast
  obtain bonus where bonus: "(if sv > rv then u256_sub sv rv else Inr 0) = Inr bonus" "unat bonus = unat sv - unat rv"
    using guarded_sub_ex by blast
  obtain bad where bad: "(if ?lmt \<and> ?debt > rep then u256_sub ?debt rep else Inr 0) = Inr bad"
      "unat bad = (if ?lmt then D - ?r else 0)"
    using guarded_sub_ex [of rep ?debt] rep by (cases ?lmt) (auto simp: D_def [symmetric])
  have z: "IsZero rep \<longleftrightarrow> ?r = 0" "IsZero seized \<longleftrightarrow> seized_amount R D C V Q P = 0"
    by (simp_all add: u256 rep seized)
  show ?thesis
    unfolding seizure_def Let_def rv(1) cvb(1) sz(1) bind_res_simps seized_def [symmetric] z sv(1) bonus(1) bad(1)
    by (simp add: candidate_matches_def Let_def D_def [symmetric] C_def [symmetric] V_def [symmetric]
        Q_def [symmetric] P_def [symmetric] rep seized bonus(2) sv(2) rv(2) bad(2))
qed

lemma BuildCandidate_rules:
  fixes risk :: PositionRisk and market :: MarketSnapshot and requestedRepay :: "uint256 option"
  defines "D \<equiv> unat (pos_usdcDebt (pr_position risk))"
    and "C \<equiv> unat (pos_wethCollateral (pr_position risk))"
    and "V \<equiv> unat (pr_collateralValue risk)"
    and "Q \<equiv> unat (ms_usdcPrice market)" and "P \<equiv> unat (ms_wethPrice market)"
    and "R \<equiv> requested_nat risk requestedRepay"
  assumes b: "buildable risk market requestedRepay" and dust: "leaves_dust R D V Q \<Longrightarrow> 1000000 \<le> D"
  shows "if repay_amount R D V Q = 0 \<or> seized_amount R D C V Q P = 0
    then BuildCandidate risk market requestedRepay = Inr None
    else \<exists>c. BuildCandidate risk market requestedRepay = Inr (Some c) \<and> candidate_matches risk market R c"
proof -
  obtain rep0 bps where r0: "unat rep0 = capped_repay R D V Q" and bps: "unat bps = 10500" and
    eq: "BuildCandidate risk market requestedRepay =
       bind_res (if leaves_dust R D V Q then u256_sub (pos_usdcDebt (pr_position risk)) MinimumUsdcBorrow
                 else Inr rep0) (seizure risk market (is_limited R D V Q) bps)"
    using BuildCandidate_repayment [OF b] unfolding D_def V_def Q_def R_def by blast
  obtain rep where rep: "(if leaves_dust R D V Q
      then u256_sub (pos_usdcDebt (pr_position risk)) MinimumUsdcBorrow else Inr rep0) = Inr rep"
      "unat rep = repay_amount R D V Q"
    using u256_sub_ex [of MinimumUsdcBorrow "pos_usdcDebt (pr_position risk)"] dust r0
    by (cases "leaves_dust R D V Q") (auto simp: repay_amount_def D_def [symmetric])
  have "risk_ok risk market" using b by (simp add: buildable_def)
  then show ?thesis
    unfolding eq rep(1) bind_res_simps using seizure_rules [OF _ bps] rep(2)
    unfolding D_def C_def V_def Q_def P_def by blast
qed

text \<open>A request that would leave dust on a debt below the minimum cannot be adjusted.\<close>

lemma BuildCandidate_dust_throws:
  fixes risk :: PositionRisk and market :: MarketSnapshot and requestedRepay :: "uint256 option"
  defines "D \<equiv> unat (pos_usdcDebt (pr_position risk))"
  assumes b: "buildable risk market requestedRepay"
    and dust: "leaves_dust (requested_nat risk requestedRepay) D (unat (pr_collateralValue risk)) (unat (ms_usdcPrice market))"
    and "D < 1000000"
  shows "BuildCandidate risk market requestedRepay = Inl (Overflow_Error ''uint256 subtraction underflow'')"
proof -
  have "u256_sub (pos_usdcDebt (pr_position risk)) MinimumUsdcBorrow
      = Inl (Overflow_Error ''uint256 subtraction underflow'')"
    using assms(4) by (simp add: u256_sub_def word_less_nat_alt D_def)
  with dust show ?thesis using BuildCandidate_repayment [OF b] unfolding D_def by fastforce
qed

section \<open>Projection of the borrow index\<close>

abbreviation ray_nat :: nat where "ray_nat \<equiv> 1000000000000000000000000000"

text \<open>The rate lies between the base rate and 110% a year for every utilization up to 1.\<close>

lemma BorrowRate_bounds:
  assumes "BorrowRate u = Inr r" "unat u \<le> ray_nat"
  shows "20000000000000000000000000 \<le> unat r" "unat r * 10 \<le> 11 * ray_nat"
proof -
  have "20000000000000000000000000 \<le> unat r \<and> unat r * 10 \<le> 11 * ray_nat"
  proof (cases "unat u \<le> 800000000000000000000000000")
    case True
    with assms(1) show ?thesis by (auto simp: BorrowRate_def word_le_nat_alt res_simps u256)
  next
    case False
    with assms show ?thesis
      by (auto simp: BorrowRate_def word_le_nat_alt res_simps u256)
  qed
  then show "20000000000000000000000000 \<le> unat r" "unat r * 10 \<le> 11 * ray_nat" by auto
qed

lemma utilization_le: "(t :: nat) * y div (a + t) \<le> y"
proof -
  have "t * y \<le> (a + t) * y" by (rule mult_le_mono1) simp
  then have "t * y div (a + t) \<le> (a + t) * y div (a + t)" by (rule div_le_mono)
  also have "\<dots> \<le> y" by (metis div_by_0 le_refl nonzero_mult_div_cancel_left zero_le)
  finally show ?thesis .
qed

lemma growth_index_bounds:
  fixes b l i y :: nat
  assumes "i = b * (y + l) div y" "0 < y"
  shows "b \<le> i" "(i - b) * y \<le> b * l"
proof -
  have i: "i = b + b * l div y" using assms by (simp add: distrib_left)
  then show "b \<le> i" by simp
  show "(i - b) * y \<le> b * l" unfolding i by simp
qed

lemma linear_interest_le:
  fixes r dt l b d y n :: nat
  assumes "l = r * dt div n" "r * 10 \<le> 11 * y" "d * y \<le> b * l" "0 < y"
  shows "d * (n * 10) \<le> 11 * b * dt"
proof -
  have "d * y * n \<le> b * l * n" using assms(3) by (rule mult_le_mono1)
  also have "\<dots> \<le> b * (r * dt)" unfolding assms(1) mult.assoc by (intro mult_le_mono2) simp
  finally have "d * y * n * 10 \<le> (r * 10) * (b * dt)" by (simp add: mult.commute mult.left_commute)
  also have "\<dots> \<le> (11 * y) * (b * dt)" using assms(2) by (rule mult_le_mono1)
  finally have "y * (d * (n * 10)) \<le> y * (11 * b * dt)" by (simp add: mult.commute mult.left_commute)
  with assms(4) show ?thesis by simp
qed

text \<open>What a projection that is not skipped computes.\<close>

lemma ProjectedBorrowIndex_bounds:
  assumes "ProjectedBorrowIndex market now = Inr i"
  shows "unat (ms_borrowIndex market) \<le> unat i"
    and "(unat i - unat (ms_borrowIndex market)) * 315360000
      \<le> 11 * unat (ms_borrowIndex market) * (unat now - unat (ms_lastInterestTimestamp market))"
proof -
  let ?b = "unat (ms_borrowIndex market)"
  have "i = ms_borrowIndex market \<or> (?b \<le> unat i \<and>
      (unat i - ?b) * 315360000 \<le> 11 * ?b * (unat now - unat (ms_lastInterestTimestamp market)))"
  proof (cases "i = ms_borrowIndex market")
    case False
    with assms obtain last t a u r l g where
        last: "ToUint64 (ms_lastInterestTimestamp market) = Inr last" "\<not> now \<le> last"
      and u: "MulDivDown t Ray a = Inr u" "u256_add (ms_availableUsdcLiquidity market) t = Inr a"
      and r: "BorrowRate u = Inr r"
      and l: "MulDivDown r (Uint256_of (now - last)) SecondsPerYear = Inr l"
      and g: "u256_add Ray l = Inr g" and i: "MulDivDown (ms_borrowIndex market) g Ray = Inr i"
      by (auto simp: ProjectedBorrowIndex_def res_simps split: if_splits)
    have dt: "unat (Uint256_of (now - last)) = unat now - unat (ms_lastInterestTimestamp market)"
      using last by (simp add: unat_sub word_le_nat_alt ToUint64_Inr)
    have "unat u \<le> ray_nat" using u utilization_le [of "unat t" ray_nat "unat (ms_availableUsdcLiquidity market)"]
      by (simp add: u256)
    then have rb: "unat r * 10 \<le> 11 * ray_nat" using BorrowRate_bounds(2) [OF r] by simp
    have iv: "unat i = ?b * (ray_nat + unat l) div ray_nat" using i g by (simp add: u256)
    have "0 < ray_nat" by simp
    note gb = growth_index_bounds [OF iv this]
    have "unat l = unat r * unat (Uint256_of (now - last)) div 31536000" using l by (simp add: u256)
    from linear_interest_le [OF this rb gb(2) \<open>0 < ray_nat\<close>] gb(1) show ?thesis unfolding dt by simp
  qed simp
  then show "?b \<le> unat i" "(unat i - ?b) * 315360000
      \<le> 11 * ?b * (unat now - unat (ms_lastInterestTimestamp market))" by auto
qed

section \<open>The scan\<close>

text \<open>The candidate a position contributes to a scan, if it does.\<close>

definition scan_candidate :: "MarketSnapshot \<Rightarrow> uint64 \<Rightarrow> IndexedPosition \<Rightarrow> LiquidationCandidate option" where
  "scan_candidate market now p = (case scan_position market now p of Inr c \<Rightarrow> c | Inl _ \<Rightarrow> None)"

lemma scan_fold:
  "fold_res (\<lambda>position found.
         map_result (\<lambda>candidate. case candidate of None \<Rightarrow> found | Some c \<Rightarrow> found @ [c])
           (scan_position market now position)) positions found = Inr result \<longleftrightarrow>
     (\<forall>p \<in> set positions. \<exists>c. scan_position market now p = Inr c) \<and>
     result = found @ List.map_filter (scan_candidate market now) positions"
proof (induction positions arbitrary: found)
  case Nil
  then show ?case by (auto simp: List.map_filter_def)
next
  case (Cons p positions)
  then show ?case
    by (cases "scan_position market now p")
       (auto simp: scan_candidate_def List.map_filter_simps split: option.splits)
qed

lemma ScanWithStats_Inr:
  "ScanWithStats repository chainId limit now = Inr result \<longleftrightarrow>
     (\<exists>market positions. repo_LoadMarket repository chainId = Inr market \<and>
        repo_LoadPositions repository chainId limit = Inr positions \<and>
        (\<forall>p \<in> set positions. \<exists>c. scan_position market now p = Inr c) \<and>
        positionsScanned result = length positions \<and>
        candidates result = List.map_filter (scan_candidate market now) positions)"
  by (cases result) (auto simp: ScanWithStats_def res_simps scan_fold)

lemma BuildCandidate_Some_buildable:
  assumes "Evaluate pos market now = Inr risk" "BuildCandidate risk market req = Inr (Some c)"
  shows "buildable risk market req"
proof -
  have *: "pr_liquidatable risk \<and> \<not> IsZero (pos_usdcDebt (pr_position risk)) \<and>
      \<not> IsZero (pos_wethCollateral (pr_position risk)) \<and> req \<noteq> Some 0"
    using assms(2) BuildCandidate_none [of risk req market] by auto
  then have "unat (pos_usdcDebt pos) \<noteq> 0" using Evaluate_no_debt(1) [OF assms(1)] by auto
  from Evaluate_risk_ok [OF assms(1) this] * show ?thesis by (simp add: buildable_def u256)
qed

lemma BuildCandidate_Some_rules:
  assumes "buildable risk market req" "BuildCandidate risk market req = Inr (Some c)"
  shows "candidate_matches risk market (requested_nat risk req) c"
    and "leaves_dust (requested_nat risk req) (unat (pos_usdcDebt (pr_position risk)))
        (unat (pr_collateralValue risk)) (unat (ms_usdcPrice market)) \<Longrightarrow>
      1000000 \<le> unat (pos_usdcDebt (pr_position risk))"
proof -
  show dust: "1000000 \<le> unat (pos_usdcDebt (pr_position risk))"
    if "leaves_dust (requested_nat risk req) (unat (pos_usdcDebt (pr_position risk)))
        (unat (pr_collateralValue risk)) (unat (ms_usdcPrice market))"
    using BuildCandidate_dust_throws [OF assms(1) that] assms(2) by fastforce
  show "candidate_matches risk market (requested_nat risk req) c"
    using BuildCandidate_rules [OF assms(1) dust] assms(2) by (auto split: if_splits)
qed

section \<open>A worked example\<close>

text \<open>One ether of collateral at 1500 dollars against 1500 dollars of debt.\<close>

definition demo_market :: MarketSnapshot where
  "demo_market = \<lparr>ms_chainId = 31337, ms_indexedBlock = 12, ms_indexedBlockHash = replicate 32 1,
     ms_pool = replicate 20 1, ms_oracle = replicate 20 2, ms_weth = replicate 20 3,
     ms_usdc = replicate 20 4, ms_borrowIndex = 1000000000000000000000000000,
     ms_wethPrice = 150000000000, ms_wethPriceUpdatedAt = 1000, ms_wethMaxPriceAge = 3600,
     ms_usdcPrice = 100000000, ms_usdcPriceUpdatedAt = 1000, ms_usdcMaxPriceAge = 86400,
     ms_observedAt = 1100, ms_availableUsdcLiquidity = 1000000000,
     ms_totalScaledUsdcDebt = 1500000000, ms_lastInterestTimestamp = 1000, ms_canonicalVersion = 1\<rparr>"

definition demo_risk :: "uint256 \<Rightarrow> uint256 \<Rightarrow> uint256 \<Rightarrow> PositionRisk" where
  "demo_risk debt value health =
     \<lparr>pr_position = \<lparr>pos_user = replicate 20 9, pos_wethCollateral = 1000000000000000000, pos_usdcDebt = debt\<rparr>,
      pr_collateralValue = 1500000000000000000000, pr_debtValue = value,
      pr_maxBorrow = 1125000000000000000000, pr_healthFactor = health, pr_liquidatable = True,
      pr_blockNumber = 12, pr_blockHash = replicate 32 1\<rparr>"

lemmas demo_simps = u256_eval risk_const_defs demo_market_def demo_risk_def
  CollateralValue_def DebtValue_def DebtAtIndex_def Minimum_def

lemma Evaluate_demo:
  "Evaluate \<lparr>pos_user = replicate 20 9, pos_wethCollateral = 1000000000000000000, pos_usdcDebt = 1500000000\<rparr>
     demo_market 1100 = Inr (demo_risk 1500000000 1500000000000000000000 800000000000000000)"
  by (simp add: Evaluate_def RequireFreshPrice_def demo_simps)

definition demo_small_risk :: PositionRisk where
  "demo_small_risk =
     \<lparr>pr_position = \<lparr>pos_user = replicate 20 9, pos_wethCollateral = 700000000000000, pos_usdcDebt = 900000\<rparr>,
      pr_collateralValue = 1050000000000000000, pr_debtValue = 900000000000000000,
      pr_maxBorrow = 787500000000000000, pr_healthFactor = 933333333333333333, pr_liquidatable = True,
      pr_blockNumber = 12, pr_blockHash = replicate 32 1\<rparr>"

lemma Evaluate_small:
  "Evaluate \<lparr>pos_user = replicate 20 9, pos_wethCollateral = 700000000000000, pos_usdcDebt = 900000\<rparr>
     demo_market 1100 = Inr demo_small_risk"
  by (simp add: Evaluate_def RequireFreshPrice_def demo_simps demo_small_risk_def)

definition demo_repository :: RiskRepository where
  "demo_repository = \<lparr>repo_LoadMarket = (\<lambda>_. Inr demo_market), repo_LoadPosition = (\<lambda>_ _. Inr None),
     repo_LoadPositions = (\<lambda>_ _. Inr
       [\<lparr>ip_user = replicate 20 9, ip_wethCollateral = 1000000000000000000, ip_scaledUsdcDebt = 1500000000\<rparr>,
        \<lparr>ip_user = replicate 20 8, ip_wethCollateral = 1000000000000000000, ip_scaledUsdcDebt = 15000000\<rparr>])\<rparr>"

lemma BuildCandidate_demo:
  "BuildCandidate (demo_risk 1500000000 1500000000000000000000 800000000000000000) demo_market None =
     Inr (Some \<lparr>lc_borrower = replicate 20 9, lc_healthFactor = 800000000000000000,
       lc_debtAsset = replicate 20 4, lc_collateralAsset = replicate 20 3, lc_maxRepay = 750000000,
       lc_expectedBonus = 37500000000000000000, lc_expectedCollateral = 525000000000000000,
       lc_expectedBadDebt = 0, lc_blockNumber = 12, lc_blockHash = replicate 32 1,
       lc_chainId = 31337, lc_canonicalVersion = 1\<rparr>)"
  by (simp add: BuildCandidate_def Let_def demo_simps)

lemma ProjectedBorrowIndex_demo:
  "ProjectedBorrowIndex demo_market 1100 = Inr 1000000253678335870116692034"
  by (simp add: ProjectedBorrowIndex_def BorrowRate_def demo_simps)

section \<open>Properties\<close>

text \<open>C23. Health factor and liquidation eligibility. An evaluation that succeeds values collateral and debt exactly. With
  debt, it has found both prices set and fresh, and it marks the position liquidatable exactly when 80% of the
  collateral value is less than the debt value. Without debt it looks at neither the time nor the USDC
  price, so that stale prices do not stop it, and the position is not liquidatable.\<close>

theorem Evaluate_health:
  assumes "Evaluate pos market now = Inr risk"
  shows "unat (pr_collateralValue risk) = unat (pos_wethCollateral pos) * unat (ms_wethPrice market) div 10 ^ 8 \<and>
    (if IsZero (pos_usdcDebt pos)
     then \<not> pr_liquidatable risk \<and> pr_debtValue risk = 0 \<and> (\<forall>now'. Evaluate pos market now' = Inr risk)
     else 0 < unat (ms_wethPrice market) \<and> 0 < unat (ms_usdcPrice market) \<and>
       unat (ms_wethPriceUpdatedAt market) \<le> unat now \<and> unat (ms_usdcPriceUpdatedAt market) \<le> unat now \<and>
       unat now - unat (ms_wethPriceUpdatedAt market) \<le> unat (ms_wethMaxPriceAge market) \<and>
       unat now - unat (ms_usdcPriceUpdatedAt market) \<le> unat (ms_usdcMaxPriceAge market) \<and>
       unat (pr_debtValue risk) = unat (pos_usdcDebt pos) * unat (ms_usdcPrice market) * 10000 \<and>
       (pr_liquidatable risk \<longleftrightarrow> unat (pr_collateralValue risk) * 8000 div 10000 < unat (pr_debtValue risk)))"
proof (cases "IsZero (pos_usdcDebt pos)")
  case True
  with assms show ?thesis
    by (cases "IsZero (ms_wethPrice market)") (auto simp: Evaluate_def res_simps CollateralValue_Inr u256)
next
  case False
  then have nz: "unat (pos_usdcDebt pos) \<noteq> 0" by (simp add: u256)
  have "0 < unat (ms_wethPrice market) \<and> 0 < unat (ms_usdcPrice market) \<and>
    unat (ms_wethPriceUpdatedAt market) \<le> unat now \<and> unat (ms_usdcPriceUpdatedAt market) \<le> unat now \<and>
    unat now - unat (ms_wethPriceUpdatedAt market) \<le> unat (ms_wethMaxPriceAge market) \<and>
    unat now - unat (ms_usdcPriceUpdatedAt market) \<le> unat (ms_usdcMaxPriceAge market)"
    using assms False by (auto simp: Evaluate_def res_simps RequireFreshPrice_Inr)
  with False Evaluate_debt [OF assms nz] liquidatable_iff [OF assms nz] show ?thesis by simp
qed

theorem Evaluate_health_witness:
  "pr_liquidatable (demo_risk 1500000000 1500000000000000000000 800000000000000000) \<and>
   (1500000000000000000000 :: nat) * 8000 div 10000 < 1500000000000000000000"
  using Evaluate_health [OF Evaluate_demo] by (simp add: demo_simps)

text \<open>C19. A liquidatable position with collateral gets the candidate of the protocol's rules. When no repayment is
  requested, as the risk worker and the liquidator call it, the construction for an evaluated, liquidatable
  position that has collateral does not throw; it returns nothing exactly when the repayment
  or the seizure rounds to zero, and otherwise a candidate whose repayment, seizure, bonus and bad
  debt are the values of the rules (close factor, collateral limit, dust rule, bonus).\<close>

theorem BuildCandidate_correct:
  assumes "Evaluate pos market now = Inr risk" "pr_liquidatable risk" "\<not> IsZero (pos_wethCollateral pos)"
  shows "let D = unat (pos_usdcDebt pos); C = unat (pos_wethCollateral pos);
             V = unat (pr_collateralValue risk); Q = unat (ms_usdcPrice market); P = unat (ms_wethPrice market)
         in if repay_amount D D V Q = 0 \<or> seized_amount D D C V Q P = 0
            then BuildCandidate risk market None = Inr None
            else \<exists>c. BuildCandidate risk market None = Inr (Some c) \<and> candidate_matches risk market D c"
proof -
  have nz: "unat (pos_usdcDebt pos) \<noteq> 0" using Evaluate_no_debt(1) [OF assms(1)] assms(2) by auto
  note p = Evaluate_debt(1) [OF assms(1) nz]
  have "buildable risk market None"
    using assms nz Evaluate_risk_ok [OF assms(1) nz] by (simp add: buildable_def p u256)
  from BuildCandidate_rules [OF this] show ?thesis
    unfolding Let_def p requested_nat_def option.case using dust_needs_minimum by blast
qed

theorem BuildCandidate_correct_witness:
  "\<exists>c. BuildCandidate (demo_risk 1500000000 1500000000000000000000 800000000000000000) demo_market None = Inr (Some c) \<and>
     candidate_matches (demo_risk 1500000000 1500000000000000000000 800000000000000000) demo_market 1500000000 c"
  using BuildCandidate_correct [OF Evaluate_demo]
  by (simp add: demo_simps repay_amount_def seized_amount_def leaves_dust_def is_limited_def
      capped_repay_def close_limit_def collateral_repay_def seized_for_def Let_def)

text \<open>C20. Safety of every candidate, for any requested repayment: something is repaid and seized; the
  repayment exceeds neither the debt nor the request; the seizure fits in the collateral; the repaid
  value with its bonus is at most the collateral value; and what remains of the debt is nothing, at
  least the minimum debt, or written off as bad debt with all the collateral seized.\<close>

theorem BuildCandidate_safe:
  assumes "Evaluate pos market now = Inr risk" "BuildCandidate risk market req = Inr (Some c)"
  shows "0 < unat (lc_maxRepay c) \<and> unat (lc_maxRepay c) \<le> unat (pos_usdcDebt pos) \<and>
    (case req of None \<Rightarrow> True | Some r \<Rightarrow> unat (lc_maxRepay c) \<le> unat r) \<and>
    0 < unat (lc_expectedCollateral c) \<and> unat (lc_expectedCollateral c) \<le> unat (pos_wethCollateral pos) \<and>
    unat (lc_maxRepay c) * unat (ms_usdcPrice market) * 10000 * 10500 div 10000 \<le> unat (pr_collateralValue risk) \<and>
    (let remaining = unat (pos_usdcDebt pos) - unat (lc_maxRepay c) in
       remaining = 0 \<or> 1000000 \<le> remaining \<or>
       (unat (lc_expectedCollateral c) = unat (pos_wethCollateral pos) \<and> unat (lc_expectedBadDebt c) = remaining))"
proof -
  note b = BuildCandidate_Some_buildable [OF assms]
  have p: "pr_position risk = pos"
    using assms(1) by (auto simp: Evaluate_def res_simps split: if_splits)
  let ?D = "unat (pos_usdcDebt pos)" and ?C = "unat (pos_wethCollateral pos)"
  let ?V = "unat (pr_collateralValue risk)" and ?Q = "unat (ms_usdcPrice market)" and ?P = "unat (ms_wethPrice market)"
  define R where "R = requested_nat risk req"
  have m: "candidate_matches risk market R c" and dust: "leaves_dust R ?D ?V ?Q \<Longrightarrow> 1000000 \<le> ?D"
    using BuildCandidate_Some_rules [OF b assms(2)] by (simp_all add: R_def p)
  have vals: "unat (lc_maxRepay c) = repay_amount R ?D ?V ?Q"
      "unat (lc_expectedCollateral c) = seized_amount R ?D ?C ?V ?Q ?P"
      "unat (lc_expectedBadDebt c) = (if is_limited R ?D ?V ?Q then ?D - repay_amount R ?D ?V ?Q else 0)"
    using m by (simp_all add: candidate_matches_def Let_def p)
  have nz: "repay_amount R ?D ?V ?Q \<noteq> 0" "seized_amount R ?D ?C ?V ?Q ?P \<noteq> 0"
    using BuildCandidate_rules [OF b] dust assms(2) by (auto simp: R_def p split: if_splits)
  have VP: "?V = ?C * ?P div 100000000" "?P \<noteq> 0" using b by (simp_all add: buildable_def risk_ok_def p)
  have "repay_amount R ?D ?V ?Q \<le> R"
    using repay_amount_capped le_trans by (fastforce simp: capped_repay_def)
  then have req: "case req of None \<Rightarrow> True | Some r \<Rightarrow> repay_amount R ?D ?V ?Q \<le> unat r"
    by (simp add: R_def requested_nat_def split: option.splits)
  have rest: "is_limited R ?D ?V ?Q \<or> ?D - repay_amount R ?D ?V ?Q = 0 \<or> 1000000 \<le> ?D - repay_amount R ?D ?V ?Q"
    using dust by (cases "leaves_dust R ?D ?V ?Q") (auto simp: repay_amount_def leaves_dust_def)
  show ?thesis
    unfolding vals Let_def
    using nz repay_amount_le req seized_amount_le [OF VP] bonus_value_le [OF repay_value_le] rest
    by (auto simp: seized_amount_def)
qed

theorem BuildCandidate_safe_witness:
  "(525000000000000000 :: nat) \<le> 1000000000000000000 \<and>
   (\<exists>c. BuildCandidate (demo_risk 1500000000 1500000000000000000000 800000000000000000) demo_market None = Inr (Some c) \<and>
     unat (lc_expectedCollateral c) \<le> 1000000000000000000)"
  using BuildCandidate_safe [OF Evaluate_demo BuildCandidate_demo] BuildCandidate_demo by simp

text \<open>C40. A repayment request that would leave dust on a debt already below the minimum of one
  dollar is not adjusted: the subtraction of the minimum underflows and the construction throws.\<close>

theorem BuildCandidate_small_debt_throws:
  assumes "Evaluate pos market now = Inr risk" "pr_liquidatable risk" "\<not> IsZero (pos_wethCollateral pos)"
    and "unat (pos_usdcDebt pos) < 1000000" "0 < unat r" "unat r < unat (pos_usdcDebt pos)"
    and "unat r < collateral_repay (unat (pr_collateralValue risk)) (unat (ms_usdcPrice market))"
  shows "BuildCandidate risk market (Some r) = Inl (Overflow_Error ''uint256 subtraction underflow'')"
proof -
  have nz: "unat (pos_usdcDebt pos) \<noteq> 0" using assms(6) by simp
  note p = Evaluate_debt(1) [OF assms(1) nz]
  have b: "buildable risk market (Some r)"
    using assms nz Evaluate_risk_ok [OF assms(1) nz] by (auto simp: buildable_def p u256)
  show ?thesis
    by (rule BuildCandidate_dust_throws [OF b])
       (use assms(4-7) in \<open>simp_all add: p requested_nat_def leaves_dust_def is_limited_def capped_repay_def
          small_close_limit\<close>)
qed

theorem BuildCandidate_small_debt_throws_witness:
  "BuildCandidate demo_small_risk demo_market (Some 500000) = Inl (Overflow_Error ''uint256 subtraction underflow'')"
  using BuildCandidate_small_debt_throws [OF Evaluate_small, of 500000]
  by (simp add: demo_simps demo_small_risk_def collateral_repay_def)

text \<open>The projected index never falls below the indexed one, and accrues at most 110% a year: the
  growth is at most eleven tenths of the index times the elapsed fraction of a year.\<close>

theorem ProjectedBorrowIndex_monotone:
  assumes "ProjectedBorrowIndex market now = Inr index"
  shows "unat (ms_borrowIndex market) \<le> unat index \<and>
    (unat index - unat (ms_borrowIndex market)) * (10 * 31536000)
      \<le> 11 * unat (ms_borrowIndex market) * (unat now - unat (ms_lastInterestTimestamp market))"
  using ProjectedBorrowIndex_bounds [OF assms] by simp

theorem ProjectedBorrowIndex_monotone_witness:
  "unat (ms_borrowIndex demo_market) \<le> unat (1000000253678335870116692034 :: uint256)"
  using ProjectedBorrowIndex_monotone [OF ProjectedBorrowIndex_demo] by simp

text \<open>A scan that returns has evaluated every position it loaded and lists, in order, exactly the
  candidates built for them; each belongs to a loaded position that is liquidatable at the projected
  index of the loaded market.\<close>

theorem ScanWithStats_exact:
  assumes "ScanWithStats repository chainId limit now = Inr result"
  shows "\<exists>market positions. repo_LoadMarket repository chainId = Inr market \<and>
    repo_LoadPositions repository chainId limit = Inr positions \<and>
    positionsScanned result = length positions \<and>
    candidates result = List.map_filter (scan_candidate market now) positions \<and>
    list_all (\<lambda>c. \<exists>p. p \<in> set positions \<and> (\<exists>risk. EvaluateIndexed p market now = Inr risk \<and>
      pr_liquidatable risk \<and> BuildCandidate risk market None = Inr (Some c))) (candidates result)"
proof -
  have liq: "pr_liquidatable risk" if "BuildCandidate risk market None = Inr (Some c)" for risk market c
    using that BuildCandidate_none [of risk None market] by auto
  have "\<exists>risk. EvaluateIndexed p market now = Inr risk \<and> pr_liquidatable risk \<and>
      BuildCandidate risk market None = Inr (Some c)" if "scan_candidate market now p = Some c" for p market c
    using that liq by (auto simp: scan_candidate_def scan_position_def res_simps split: sum.splits)
  then show ?thesis
    using assms unfolding ScanWithStats_Inr
    by (fastforce simp: list_all_iff List.map_filter_def)
qed

lemma ScanWithStats_demo:
  "ScanWithStats demo_repository 31337 10 1100 = Inr \<lparr>positionsScanned = 2, candidates =
     [\<lparr>lc_borrower = replicate 20 9, lc_healthFactor = 799999796800051612,
       lc_debtAsset = replicate 20 4, lc_collateralAsset = replicate 20 3, lc_maxRepay = 750000190,
       lc_expectedBonus = 37500009500000000000, lc_expectedCollateral = 525000133000000000,
       lc_expectedBadDebt = 0, lc_blockNumber = 12, lc_blockHash = replicate 32 1,
       lc_chainId = 31337, lc_canonicalVersion = 1\<rparr>]\<rparr>"
  unfolding ScanWithStats_def demo_repository_def scan_position_def EvaluateIndexed_def
  by (simp add: ProjectedBorrowIndex_demo)
     (simp add: Evaluate_def RequireFreshPrice_def BuildCandidate_def Let_def demo_simps)

theorem ScanWithStats_exact_witness:
  "\<exists>market positions. repo_LoadMarket demo_repository 31337 = Inr market \<and>
     repo_LoadPositions demo_repository 31337 10 = Inr positions \<and> length positions = 2 \<and>
     length (List.map_filter (scan_candidate market 1100) positions) = 1"
proof -
  from ScanWithStats_exact [OF ScanWithStats_demo] obtain market positions where
    *: "repo_LoadMarket demo_repository 31337 = Inr market"
       "repo_LoadPositions demo_repository 31337 10 = Inr positions" "2 = length positions"
    and c: "[\<lparr>lc_borrower = replicate 20 9, lc_healthFactor = 799999796800051612,
       lc_debtAsset = replicate 20 4, lc_collateralAsset = replicate 20 3, lc_maxRepay = 750000190,
       lc_expectedBonus = 37500009500000000000, lc_expectedCollateral = 525000133000000000,
       lc_expectedBadDebt = 0, lc_blockNumber = 12, lc_blockHash = replicate 32 1,
       lc_chainId = 31337, lc_canonicalVersion = 1\<rparr>] = List.map_filter (scan_candidate market 1100) positions"
    unfolding RiskScanResult.simps by blast
  have "length (List.map_filter (scan_candidate market 1100) positions) = 1"
    unfolding c [symmetric] by simp
  with * show ?thesis by simp
qed

end
