(* ===== verification/State_Projector.thy ===== *)
theory State_Projector
  imports Abi
begin

text \<open>
  \<open>cpp/indexer\<close>: the data of \<open>IndexerTypes.hpp\<close>, \<open>EventDecoder.cpp\<close> and \<open>StateProjector.cpp\<close>.
  The projector rebuilds the positions and the market of the lending pool from the protocol events.
  \<open>std::map<Address, PositionState>\<close> is a finite map; a reference into it is read, changed and
  written back. \<open>ApplyEvent\<close> changes its argument in place and may throw half way; its callers
  drop the state when it throws, so the model returns the new state or the exception.
\<close>

section \<open>Data\<close>

record ChainContracts =
  cc_pool :: address
  cc_oracle :: address
  cc_weth :: address
  cc_usdc :: address

record IndexedBlock =
  ib_chainId :: uint256
  ib_number :: uint64
  ib_hash :: hash256
  ib_parentHash :: hash256
  ib_canonical :: bool

record RawLog =
  rl_chainId :: uint256
  rl_blockNumber :: uint64
  rl_blockHash :: hash256
  rl_transactionHash :: hash256
  rl_transactionIndex :: uint64
  rl_logIndex :: uint64
  rl_contractAddress :: address
  rl_topics :: "hash256 list"
  rl_data :: bytes
  rl_canonical :: bool

record SyncCursor =
  sc_chainId :: uint256
  sc_blockNumber :: uint64
  sc_blockHash :: hash256

record PositionState =
  ps_user :: address
  ps_wethCollateral :: uint256
  ps_scaledUsdcSupply :: uint256
  ps_scaledUsdcDebt :: uint256

record MarketState =
  mk_contracts :: ChainContracts
  mk_totalWethCollateral :: uint256
  mk_totalScaledUsdcSupply :: uint256
  mk_totalScaledUsdcDebt :: uint256
  mk_availableUsdcLiquidity :: uint256
  mk_protocolReserve :: uint256
  mk_badDebt :: uint256
  mk_borrowIndex :: uint256
  mk_liquidityIndex :: uint256
  mk_lastInterestTimestamp :: uint256
  mk_wethPrice :: uint256
  mk_wethPriceUpdatedAt :: uint256
  mk_wethMaxPriceAge :: uint256
  mk_usdcPrice :: uint256
  mk_usdcPriceUpdatedAt :: uint256
  mk_usdcMaxPriceAge :: uint256

record LiquidationState =
  ls_chainId :: uint256
  ls_blockNumber :: uint64
  ls_blockHash :: hash256
  ls_transactionHash :: hash256
  ls_logIndex :: uint64
  ls_liquidator :: address
  ls_borrower :: address
  ls_debtAsset :: address
  ls_collateralAsset :: address
  ls_repaidAmount :: uint256
  ls_collateralSeized :: uint256

record DerivedState =
  ds_positions :: "address \<rightharpoonup> PositionState"
  ds_market :: MarketState
  ds_liquidations :: "LiquidationState list"

record DecodedProtocolEvent =
  de_kind :: ProtocolEventKind
  de_values :: "AbiValue list"
  de_source :: RawLog

section \<open>The decoder\<close>

definition IsExpectedEmitter :: "ChainContracts \<Rightarrow> ProtocolEventKind \<Rightarrow> address \<Rightarrow> bool" where
  "IsExpectedEmitter contracts k emitter =
     (case k of
        AssetRegistered \<Rightarrow> emitter = cc_oracle contracts
      | PriceUpdated \<Rightarrow> emitter = cc_oracle contracts
      | Supplied \<Rightarrow> emitter = cc_pool contracts
      | Withdrawn \<Rightarrow> emitter = cc_pool contracts
      | Borrowed \<Rightarrow> emitter = cc_pool contracts
      | Repaid \<Rightarrow> emitter = cc_pool contracts
      | InterestAccrued \<Rightarrow> emitter = cc_pool contracts
      | Liquidated \<Rightarrow> emitter = cc_pool contracts
      | BadDebtRecognized \<Rightarrow> emitter = cc_pool contracts)"

definition EventDecoder_Decode ::
  "(bytes \<Rightarrow> hash256) \<Rightarrow> ChainContracts \<Rightarrow> RawLog \<Rightarrow> DecodedProtocolEvent option res" where
  "EventDecoder_Decode keccak contracts log =
     (if rl_topics log = [] then Inr None
      else case MatchEvent keccak (hd (rl_topics log)) of
        None \<Rightarrow> Inr None
      | Some k \<Rightarrow>
          if \<not> IsExpectedEmitter contracts k (rl_contractAddress log) then Inr None
          else bind_res (GetEvent keccak k) (\<lambda>d.
               bind_res (DecodeEvent keccak (signature d) (parameters d) (rl_topics log) (rl_data log)) (\<lambda>vs.
               Inr (Some \<lparr>de_kind = k, de_values = vs, de_source = log\<rparr>))))"

section \<open>The projector\<close>

definition projector_Ray :: uint256 where
  "projector_Ray = 1000000000000000000000000000"

text \<open>\<open>EventValue<Address>\<close> and \<open>EventValue<Uint256>\<close>: \<open>at\<close> checks the index, \<open>std::get\<close> the alternative.\<close>

definition EventAddress :: "AbiValue list \<Rightarrow> nat \<Rightarrow> address res" where
  "EventAddress vs i =
     (if i < length vs then (case vs ! i of V_Address a \<Rightarrow> Inr a | _ \<Rightarrow> Inl Bad_Variant_Access)
      else Inl Out_Of_Range)"

definition EventUint :: "AbiValue list \<Rightarrow> nat \<Rightarrow> uint256 res" where
  "EventUint vs i =
     (if i < length vs then (case vs ! i of V_Uint256 v \<Rightarrow> Inr v | _ \<Rightarrow> Inl Bad_Variant_Access)
      else Inl Out_Of_Range)"

text \<open>\<open>GetPosition\<close> inserts an empty position when there is none; here it is read, and
  \<open>PutPosition\<close> is the write through the reference, which also performs the insertion.\<close>

definition GetPosition :: "DerivedState \<Rightarrow> address \<Rightarrow> PositionState" where
  "GetPosition state user =
     (case ds_positions state user of
        Some p \<Rightarrow> p
      | None \<Rightarrow> \<lparr>ps_user = user, ps_wethCollateral = 0, ps_scaledUsdcSupply = 0, ps_scaledUsdcDebt = 0\<rparr>)"

definition PutPosition :: "DerivedState \<Rightarrow> address \<Rightarrow> PositionState \<Rightarrow> MarketState \<Rightarrow> DerivedState" where
  "PutPosition state user p market =
     state\<lparr>ds_positions := (ds_positions state)(user \<mapsto> p), ds_market := market\<rparr>"

definition position_empty :: "PositionState \<Rightarrow> bool" where
  "position_empty p \<longleftrightarrow> IsZero (ps_wethCollateral p) \<and> IsZero (ps_scaledUsdcSupply p) \<and> IsZero (ps_scaledUsdcDebt p)"

definition RemoveEmptyPosition :: "DerivedState \<Rightarrow> address \<Rightarrow> DerivedState" where
  "RemoveEmptyPosition state user =
     (case ds_positions state user of
        None \<Rightarrow> state
      | Some p \<Rightarrow> if position_empty p then state\<lparr>ds_positions := (ds_positions state)(user := None)\<rparr> else state)"

definition SupplyAtIndex :: "uint256 \<Rightarrow> uint256 \<Rightarrow> uint256 res" where
  "SupplyAtIndex scaledAmount index = MulDivDown scaledAmount index projector_Ray"

definition projector_DebtAtIndex :: "uint256 \<Rightarrow> uint256 \<Rightarrow> uint256 res" where
  "projector_DebtAtIndex scaledAmount index = MulDivUp scaledAmount index projector_Ray"

definition CreateInitialState :: "ChainContracts \<Rightarrow> DerivedState" where
  "CreateInitialState contracts =
     \<lparr>ds_positions = Map.empty,
      ds_market = \<lparr>mk_contracts = contracts, mk_totalWethCollateral = 0, mk_totalScaledUsdcSupply = 0,
        mk_totalScaledUsdcDebt = 0, mk_availableUsdcLiquidity = 0, mk_protocolReserve = 0, mk_badDebt = 0,
        mk_borrowIndex = projector_Ray, mk_liquidityIndex = projector_Ray, mk_lastInterestTimestamp = 0,
        mk_wethPrice = 0, mk_wethPriceUpdatedAt = 0, mk_wethMaxPriceAge = 0,
        mk_usdcPrice = 0, mk_usdcPriceUpdatedAt = 0, mk_usdcMaxPriceAge = 0\<rparr>,
      ds_liquidations = []\<rparr>"

text \<open>The cases of \<open>ApplyEvent\<close>.\<close>

definition apply_supplied :: "ChainContracts \<Rightarrow> DerivedState \<Rightarrow> AbiValue list \<Rightarrow> DerivedState res" where
  "apply_supplied contracts state vs =
     bind_res (EventAddress vs 0) (\<lambda>user.
     bind_res (EventAddress vs 1) (\<lambda>asset.
     bind_res (EventUint vs 2) (\<lambda>amount.
     let position = GetPosition state user; market = ds_market state in
     if asset = cc_weth contracts then
       bind_res (u256_add (ps_wethCollateral position) amount) (\<lambda>c.
       bind_res (u256_add (mk_totalWethCollateral market) amount) (\<lambda>t.
       Inr (PutPosition state user (position\<lparr>ps_wethCollateral := c\<rparr>)
              (market\<lparr>mk_totalWethCollateral := t\<rparr>))))
     else if asset = cc_usdc contracts then
       bind_res (SupplyAtIndex (mk_totalScaledUsdcSupply market) (mk_liquidityIndex market)) (\<lambda>supplyBefore.
       bind_res (MulDivDown amount projector_Ray (mk_liquidityIndex market)) (\<lambda>scaledMint.
       bind_res (u256_add (ps_scaledUsdcSupply position) scaledMint) (\<lambda>p.
       bind_res (u256_add (mk_totalScaledUsdcSupply market) scaledMint) (\<lambda>t.
       bind_res (SupplyAtIndex t (mk_liquidityIndex market)) (\<lambda>supplyAfter.
       bind_res (u256_sub supplyAfter supplyBefore) (\<lambda>minted.
       bind_res (u256_sub amount minted) (\<lambda>dust.
       bind_res (u256_add (mk_protocolReserve market) dust) (\<lambda>reserve.
       bind_res (u256_add (mk_availableUsdcLiquidity market) amount) (\<lambda>liquidity.
       Inr (PutPosition state user (position\<lparr>ps_scaledUsdcSupply := p\<rparr>)
              (market\<lparr>mk_totalScaledUsdcSupply := t, mk_availableUsdcLiquidity := liquidity,
                      mk_protocolReserve := reserve\<rparr>)))))))))))
     else Inr (PutPosition state user position market))))"

definition apply_withdrawn :: "ChainContracts \<Rightarrow> DerivedState \<Rightarrow> AbiValue list \<Rightarrow> DerivedState res" where
  "apply_withdrawn contracts state vs =
     bind_res (EventAddress vs 0) (\<lambda>user.
     bind_res (EventAddress vs 1) (\<lambda>asset.
     bind_res (EventUint vs 2) (\<lambda>amount.
     let position = GetPosition state user; market = ds_market state in
     map_result (\<lambda>s. RemoveEmptyPosition s user)
     (if asset = cc_weth contracts then
       bind_res (u256_sub (ps_wethCollateral position) amount) (\<lambda>c.
       bind_res (u256_sub (mk_totalWethCollateral market) amount) (\<lambda>t.
       Inr (PutPosition state user (position\<lparr>ps_wethCollateral := c\<rparr>)
              (market\<lparr>mk_totalWethCollateral := t\<rparr>))))
     else if asset = cc_usdc contracts then
       bind_res (SupplyAtIndex (ps_scaledUsdcSupply position) (mk_liquidityIndex market)) (\<lambda>supplied.
       bind_res (if amount = supplied then Inr (ps_scaledUsdcSupply position)
                 else MulDivUp amount projector_Ray (mk_liquidityIndex market)) (\<lambda>scaledBurn.
       bind_res (SupplyAtIndex (mk_totalScaledUsdcSupply market) (mk_liquidityIndex market)) (\<lambda>supplyBefore.
       bind_res (u256_sub (ps_scaledUsdcSupply position) scaledBurn) (\<lambda>p.
       bind_res (u256_sub (mk_totalScaledUsdcSupply market) scaledBurn) (\<lambda>t.
       bind_res (SupplyAtIndex t (mk_liquidityIndex market)) (\<lambda>supplyAfter.
       bind_res (u256_sub supplyBefore supplyAfter) (\<lambda>burned.
       bind_res (u256_sub burned amount) (\<lambda>dust.
       bind_res (u256_add (mk_protocolReserve market) dust) (\<lambda>reserve.
       bind_res (u256_sub (mk_availableUsdcLiquidity market) amount) (\<lambda>liquidity.
       Inr (PutPosition state user (position\<lparr>ps_scaledUsdcSupply := p\<rparr>)
              (market\<lparr>mk_totalScaledUsdcSupply := t, mk_availableUsdcLiquidity := liquidity,
                      mk_protocolReserve := reserve\<rparr>))))))))))))
     else Inr (PutPosition state user position market)))))"

definition apply_borrowed :: "ChainContracts \<Rightarrow> DerivedState \<Rightarrow> AbiValue list \<Rightarrow> DerivedState res" where
  "apply_borrowed contracts state vs =
     bind_res (EventAddress vs 0) (\<lambda>user.
     bind_res (EventAddress vs 1) (\<lambda>asset.
     bind_res (EventUint vs 2) (\<lambda>amount.
     if asset \<noteq> cc_usdc contracts then Inr state
     else
       let position = GetPosition state user; market = ds_market state in
       bind_res (projector_DebtAtIndex (ps_scaledUsdcDebt position) (mk_borrowIndex market)) (\<lambda>debtBefore.
       bind_res (MulDivUp amount projector_Ray (mk_borrowIndex market)) (\<lambda>scaledMint.
       bind_res (u256_add (ps_scaledUsdcDebt position) scaledMint) (\<lambda>p.
       bind_res (u256_add (mk_totalScaledUsdcDebt market) scaledMint) (\<lambda>t.
       bind_res (projector_DebtAtIndex p (mk_borrowIndex market)) (\<lambda>debtAfter.
       bind_res (u256_sub debtAfter debtBefore) (\<lambda>minted.
       bind_res (u256_sub minted amount) (\<lambda>dust.
       bind_res (u256_add (mk_protocolReserve market) dust) (\<lambda>reserve.
       bind_res (u256_sub (mk_availableUsdcLiquidity market) amount) (\<lambda>liquidity.
       Inr (PutPosition state user (position\<lparr>ps_scaledUsdcDebt := p\<rparr>)
              (market\<lparr>mk_totalScaledUsdcDebt := t, mk_availableUsdcLiquidity := liquidity,
                      mk_protocolReserve := reserve\<rparr>))))))))))))))"

definition apply_repaid :: "ChainContracts \<Rightarrow> DerivedState \<Rightarrow> AbiValue list \<Rightarrow> DerivedState res" where
  "apply_repaid contracts state vs =
     bind_res (EventAddress vs 0) (\<lambda>user.
     bind_res (EventAddress vs 1) (\<lambda>asset.
     bind_res (EventUint vs 2) (\<lambda>repaidAmount.
     bind_res (EventUint vs 3) (\<lambda>remainingDebt.
     if asset \<noteq> cc_usdc contracts then Inr state
     else
       let position = GetPosition state user; market = ds_market state in
       bind_res (projector_DebtAtIndex (ps_scaledUsdcDebt position) (mk_borrowIndex market)) (\<lambda>currentDebt.
       bind_res (if IsZero remainingDebt then Inr (ps_scaledUsdcDebt position)
                 else MulDivDown repaidAmount projector_Ray (mk_borrowIndex market)) (\<lambda>scaledBurn.
       bind_res (u256_sub (ps_scaledUsdcDebt position) scaledBurn) (\<lambda>p.
       bind_res (u256_sub (mk_totalScaledUsdcDebt market) scaledBurn) (\<lambda>t.
       bind_res (projector_DebtAtIndex p (mk_borrowIndex market)) (\<lambda>projectedRemaining.
       if projectedRemaining \<noteq> remainingDebt
       then Inl (Runtime_Error ''Repaid event does not match reconstructed debt'')
       else
       bind_res (u256_sub currentDebt remainingDebt) (\<lambda>burned.
       bind_res (u256_sub repaidAmount burned) (\<lambda>dust.
       bind_res (u256_add (mk_protocolReserve market) dust) (\<lambda>reserve.
       bind_res (u256_add (mk_availableUsdcLiquidity market) repaidAmount) (\<lambda>liquidity.
       Inr (RemoveEmptyPosition (PutPosition state user (position\<lparr>ps_scaledUsdcDebt := p\<rparr>)
              (market\<lparr>mk_totalScaledUsdcDebt := t, mk_availableUsdcLiquidity := liquidity,
                      mk_protocolReserve := reserve\<rparr>)) user))))))))))))))"

definition apply_interest :: "DerivedState \<Rightarrow> AbiValue list \<Rightarrow> DerivedState res" where
  "apply_interest state vs =
     bind_res (EventUint vs 0) (\<lambda>timestamp.
     bind_res (EventUint vs 1) (\<lambda>borrowIndex.
     bind_res (EventUint vs 2) (\<lambda>liquidityIndex.
     bind_res (EventUint vs 3) (\<lambda>increase.
     bind_res (u256_add (mk_protocolReserve (ds_market state)) increase) (\<lambda>reserve.
     Inr (state\<lparr>ds_market := (ds_market state)\<lparr>mk_lastInterestTimestamp := timestamp,
            mk_borrowIndex := borrowIndex, mk_liquidityIndex := liquidityIndex,
            mk_protocolReserve := reserve\<rparr>\<rparr>))))))"

definition apply_liquidated :: "DerivedState \<Rightarrow> RawLog \<Rightarrow> AbiValue list \<Rightarrow> DerivedState res" where
  "apply_liquidated state source vs =
     bind_res (EventAddress vs 0) (\<lambda>liquidator.
     bind_res (EventAddress vs 1) (\<lambda>borrower.
     bind_res (EventAddress vs 2) (\<lambda>debtAsset.
     bind_res (EventAddress vs 3) (\<lambda>collateralAsset.
     bind_res (EventUint vs 4) (\<lambda>repaidAmount.
     bind_res (EventUint vs 5) (\<lambda>collateralSeized.
     let position = GetPosition state borrower; market = ds_market state in
     bind_res (projector_DebtAtIndex (ps_scaledUsdcDebt position) (mk_borrowIndex market)) (\<lambda>currentDebt.
     bind_res (if repaidAmount \<ge> currentDebt then Inr (ps_scaledUsdcDebt position)
               else MulDivDown repaidAmount projector_Ray (mk_borrowIndex market)) (\<lambda>scaledBurn.
     bind_res (u256_sub (ps_scaledUsdcDebt position) scaledBurn) (\<lambda>p.
     bind_res (u256_sub (mk_totalScaledUsdcDebt market) scaledBurn) (\<lambda>t.
     bind_res (projector_DebtAtIndex p (mk_borrowIndex market)) (\<lambda>remainingDebt.
     bind_res (u256_sub currentDebt remainingDebt) (\<lambda>burned.
     bind_res (u256_sub repaidAmount burned) (\<lambda>dust.
     bind_res (u256_add (mk_protocolReserve market) dust) (\<lambda>reserve.
     bind_res (u256_add (mk_availableUsdcLiquidity market) repaidAmount) (\<lambda>liquidity.
     bind_res (u256_sub (ps_wethCollateral position) collateralSeized) (\<lambda>c.
     bind_res (u256_sub (mk_totalWethCollateral market) collateralSeized) (\<lambda>tc.
     let moved = PutPosition state borrower (position\<lparr>ps_wethCollateral := c, ps_scaledUsdcDebt := p\<rparr>)
           (market\<lparr>mk_totalWethCollateral := tc, mk_totalScaledUsdcDebt := t,
                   mk_availableUsdcLiquidity := liquidity, mk_protocolReserve := reserve\<rparr>)
     in Inr (RemoveEmptyPosition (moved\<lparr>ds_liquidations := ds_liquidations state @
          [\<lparr>ls_chainId = rl_chainId source, ls_blockNumber = rl_blockNumber source,
            ls_blockHash = rl_blockHash source, ls_transactionHash = rl_transactionHash source,
            ls_logIndex = rl_logIndex source, ls_liquidator = liquidator, ls_borrower = borrower,
            ls_debtAsset = debtAsset, ls_collateralAsset = collateralAsset,
            ls_repaidAmount = repaidAmount, ls_collateralSeized = collateralSeized\<rparr>]\<rparr>) borrower))))))))))))))))))"

definition apply_bad_debt :: "DerivedState \<Rightarrow> AbiValue list \<Rightarrow> DerivedState res" where
  "apply_bad_debt state vs =
     bind_res (EventAddress vs 0) (\<lambda>borrower.
     bind_res (EventUint vs 1) (\<lambda>amount.
     let position = GetPosition state borrower; market = ds_market state in
     bind_res (u256_sub (mk_totalScaledUsdcDebt market) (ps_scaledUsdcDebt position)) (\<lambda>t.
     bind_res (u256_add (mk_badDebt market) amount) (\<lambda>b.
     Inr (RemoveEmptyPosition (PutPosition state borrower (position\<lparr>ps_scaledUsdcDebt := 0\<rparr>)
            (market\<lparr>mk_totalScaledUsdcDebt := t, mk_badDebt := b\<rparr>)) borrower)))))"

definition apply_price :: "ChainContracts \<Rightarrow> DerivedState \<Rightarrow> AbiValue list \<Rightarrow> DerivedState res" where
  "apply_price contracts state vs =
     bind_res (EventAddress vs 0) (\<lambda>asset.
     bind_res (EventUint vs 1) (\<lambda>price.
     bind_res (EventUint vs 2) (\<lambda>updatedAt.
     let market = ds_market state in
     Inr (if asset = cc_weth contracts
          then state\<lparr>ds_market := market\<lparr>mk_wethPrice := price, mk_wethPriceUpdatedAt := updatedAt\<rparr>\<rparr>
          else if asset = cc_usdc contracts
          then state\<lparr>ds_market := market\<lparr>mk_usdcPrice := price, mk_usdcPriceUpdatedAt := updatedAt\<rparr>\<rparr>
          else state))))"

definition apply_registered :: "ChainContracts \<Rightarrow> DerivedState \<Rightarrow> AbiValue list \<Rightarrow> DerivedState res" where
  "apply_registered contracts state vs =
     bind_res (EventAddress vs 0) (\<lambda>asset.
     bind_res (EventUint vs 1) (\<lambda>maxPriceAge.
     let market = ds_market state in
     Inr (if asset = cc_weth contracts then state\<lparr>ds_market := market\<lparr>mk_wethMaxPriceAge := maxPriceAge\<rparr>\<rparr>
          else if asset = cc_usdc contracts then state\<lparr>ds_market := market\<lparr>mk_usdcMaxPriceAge := maxPriceAge\<rparr>\<rparr>
          else state)))"

definition ApplyEvent :: "ChainContracts \<Rightarrow> DerivedState \<Rightarrow> DecodedProtocolEvent \<Rightarrow> DerivedState res" where
  "ApplyEvent contracts state event =
     (case de_kind event of
        Supplied \<Rightarrow> apply_supplied contracts state (de_values event)
      | Withdrawn \<Rightarrow> apply_withdrawn contracts state (de_values event)
      | Borrowed \<Rightarrow> apply_borrowed contracts state (de_values event)
      | Repaid \<Rightarrow> apply_repaid contracts state (de_values event)
      | InterestAccrued \<Rightarrow> apply_interest state (de_values event)
      | Liquidated \<Rightarrow> apply_liquidated state (de_source event) (de_values event)
      | BadDebtRecognized \<Rightarrow> apply_bad_debt state (de_values event)
      | PriceUpdated \<Rightarrow> apply_price contracts state (de_values event)
      | AssetRegistered \<Rightarrow> apply_registered contracts state (de_values event))"

definition Apply :: "(bytes \<Rightarrow> hash256) \<Rightarrow> ChainContracts \<Rightarrow> RawLog \<Rightarrow> DerivedState \<Rightarrow> DerivedState res" where
  "Apply keccak contracts log state =
     bind_res (EventDecoder_Decode keccak contracts log) (\<lambda>event.
     case event of None \<Rightarrow> Inr state | Some e \<Rightarrow> ApplyEvent contracts state e)"

text \<open>The comparison of \<open>Rebuild\<close>: block number, transaction index, log index.\<close>

definition log_key :: "RawLog \<Rightarrow> nat list" where
  "log_key log = [unat (rl_blockNumber log), unat (rl_transactionIndex log), unat (rl_logIndex log)]"

definition Rebuild :: "(bytes \<Rightarrow> hash256) \<Rightarrow> ChainContracts \<Rightarrow> RawLog list \<Rightarrow> DerivedState res" where
  "Rebuild keccak contracts logs =
     fold_res (Apply keccak contracts) (sort_key log_key (filter rl_canonical logs))
       (CreateInitialState contracts)"

end
