(* ===== verification/Projector_Accounting.thy ===== *)
theory Projector_Accounting
  imports State_Projector "HOL-Library.Multiset"
begin

text \<open>
  The accounting of the projector: the market totals are the sums over the positions, every event
  but an interest accrual conserves the balance of the pool, rounding always favours the reserve,
  and a rebuild depends only on the set of canonical logs and extends block by block.
\<close>

section \<open>Sums over positions\<close>

definition positions_sum :: "(PositionState \<Rightarrow> nat) \<Rightarrow> (address \<rightharpoonup> PositionState) \<Rightarrow> nat" where
  "positions_sum f m = (\<Sum>u \<in> dom m. f (the (m u)))"

text \<open>A position is written back, and dropped when it is empty.\<close>

definition written :: "(address \<rightharpoonup> PositionState) \<Rightarrow> address \<Rightarrow> PositionState \<Rightarrow> (address \<rightharpoonup> PositionState) \<Rightarrow> bool" where
  "written m u p m' \<longleftrightarrow> m' = m(u \<mapsto> p) \<or> (position_empty p \<and> m' = m(u := None))"

definition zero_on_empty :: "(PositionState \<Rightarrow> nat) \<Rightarrow> bool" where
  "zero_on_empty f \<longleftrightarrow> (\<forall>p. position_empty p \<longrightarrow> f p = 0)"

lemma positions_sum_empty [simp]: "positions_sum f Map.empty = 0"
  by (simp add: positions_sum_def)

lemma positions_sum_remove:
  assumes "finite (dom m)"
  shows "positions_sum f (m(u := None)) + (case m u of None \<Rightarrow> 0 | Some p \<Rightarrow> f p) = positions_sum f m"
proof (cases "m u")
  case None
  then have "m(u := None) = m" by (simp add: fun_upd_idem)
  with None show ?thesis by simp
next
  case (Some p)
  have "positions_sum f m = f (the (m u)) + (\<Sum>v \<in> dom m - {u}. f (the (m v)))"
    unfolding positions_sum_def using assms Some by (intro sum.remove) auto
  moreover have "positions_sum f (m(u := None)) = (\<Sum>v \<in> dom m - {u}. f (the (m v)))"
    unfolding positions_sum_def by (rule sum.cong) auto
  ultimately show ?thesis using Some by simp
qed

lemma positions_sum_update:
  assumes "finite (dom m)"
  shows "positions_sum f (m(u \<mapsto> p)) + (case m u of None \<Rightarrow> 0 | Some q \<Rightarrow> f q) = positions_sum f m + f p"
  using positions_sum_remove [OF assms, of f u] positions_sum_remove [of "m(u \<mapsto> p)" f u] assms by simp

lemma position_empty_fresh: "ds_positions s u = None \<Longrightarrow> position_empty (GetPosition s u)"
  by (simp add: GetPosition_def position_empty_def IsZero_def)

lemma positions_sum_written:
  assumes "finite (dom (ds_positions s))" "zero_on_empty f" "written (ds_positions s) u p m'"
  shows "positions_sum f m' + f (GetPosition s u) = positions_sum f (ds_positions s) + f p"
proof -
  have g: "f (GetPosition s u) = (case ds_positions s u of None \<Rightarrow> 0 | Some q \<Rightarrow> f q)"
    using assms(2) position_empty_fresh [of s u]
    by (auto simp: GetPosition_def zero_on_empty_def split: option.splits)
  from assms(3) consider "m' = (ds_positions s)(u \<mapsto> p)" | "position_empty p" "m' = (ds_positions s)(u := None)"
    by (auto simp: written_def)
  then show ?thesis
  proof cases
    case 1
    then show ?thesis unfolding g using positions_sum_update [OF assms(1)] by simp
  next
    case 2
    then have "f p = 0" using assms(2) by (simp add: zero_on_empty_def)
    with 2 show ?thesis unfolding g using positions_sum_remove [OF assms(1)] by simp
  qed
qed

lemma written_RemoveEmpty:
  "written (ds_positions s) u p (ds_positions (RemoveEmptyPosition (PutPosition s u p mk) u))"
  "ds_market (RemoveEmptyPosition s' u) = ds_market s'"
  "ds_liquidations (RemoveEmptyPosition s' u) = ds_liquidations s'"
  by (auto simp: written_def RemoveEmptyPosition_def PutPosition_def split: option.splits)

lemma written_Put:
  "written (ds_positions s) u p (ds_positions (PutPosition s u p mk))"
  "ds_market (PutPosition s u p mk) = mk"
  "ds_liquidations (PutPosition s u p mk) = ds_liquidations s"
  by (simp_all add: written_def PutPosition_def)

section \<open>The invariant\<close>

text \<open>Every position is filed under its user, and the three totals are sums over the positions.\<close>

definition projector_inv :: "DerivedState \<Rightarrow> bool" where
  "projector_inv s \<longleftrightarrow>
     finite (dom (ds_positions s)) \<and>
     (\<forall>u p. ds_positions s u = Some p \<longrightarrow> ps_user p = u) \<and>
     unat (mk_totalWethCollateral (ds_market s)) = positions_sum (\<lambda>p. unat (ps_wethCollateral p)) (ds_positions s) \<and>
     unat (mk_totalScaledUsdcSupply (ds_market s)) = positions_sum (\<lambda>p. unat (ps_scaledUsdcSupply p)) (ds_positions s) \<and>
     unat (mk_totalScaledUsdcDebt (ds_market s)) = positions_sum (\<lambda>p. unat (ps_scaledUsdcDebt p)) (ds_positions s)"

text \<open>The balance of the pool: what it holds and is owed on one side, what it owes on the other.\<close>

definition debt_nat :: "MarketState \<Rightarrow> PositionState \<Rightarrow> nat" where
  "debt_nat mk p = ceil_div (unat (ps_scaledUsdcDebt p) * unat (mk_borrowIndex mk)) 1000000000000000000000000000"

definition supply_nat :: "MarketState \<Rightarrow> nat" where
  "supply_nat mk = unat (mk_totalScaledUsdcSupply mk) * unat (mk_liquidityIndex mk) div 1000000000000000000000000000"

definition assets :: "DerivedState \<Rightarrow> nat" where
  "assets s = unat (mk_availableUsdcLiquidity (ds_market s)) + unat (mk_badDebt (ds_market s)) +
     positions_sum (debt_nat (ds_market s)) (ds_positions s)"

definition claims :: "DerivedState \<Rightarrow> nat" where
  "claims s = supply_nat (ds_market s) + unat (mk_protocolReserve (ds_market s))"

text \<open>What one event does to the position of \<open>u\<close>, which becomes \<open>p\<close>, and to the market.\<close>

definition moves_totals :: "DerivedState \<Rightarrow> DerivedState \<Rightarrow> address \<Rightarrow> PositionState \<Rightarrow> bool" where
  "moves_totals s s' u p \<longleftrightarrow> (let q = GetPosition s u; mk = ds_market s; mk' = ds_market s' in
     written (ds_positions s) u p (ds_positions s') \<and> ps_user p = ps_user q \<and>
     unat (mk_totalWethCollateral mk') + unat (ps_wethCollateral q)
       = unat (mk_totalWethCollateral mk) + unat (ps_wethCollateral p) \<and>
     unat (mk_totalScaledUsdcSupply mk') + unat (ps_scaledUsdcSupply q)
       = unat (mk_totalScaledUsdcSupply mk) + unat (ps_scaledUsdcSupply p) \<and>
     unat (mk_totalScaledUsdcDebt mk') + unat (ps_scaledUsdcDebt q)
       = unat (mk_totalScaledUsdcDebt mk) + unat (ps_scaledUsdcDebt p))"

definition moves_balance :: "DerivedState \<Rightarrow> DerivedState \<Rightarrow> address \<Rightarrow> PositionState \<Rightarrow> bool" where
  "moves_balance s s' u p \<longleftrightarrow> (let q = GetPosition s u; mk = ds_market s; mk' = ds_market s' in
     mk_borrowIndex mk' = mk_borrowIndex mk \<and> mk_liquidityIndex mk' = mk_liquidityIndex mk \<and>
     unat (mk_availableUsdcLiquidity mk') + unat (mk_badDebt mk') + debt_nat mk p +
       supply_nat mk + unat (mk_protocolReserve mk)
     = unat (mk_availableUsdcLiquidity mk) + unat (mk_badDebt mk) + debt_nat mk q +
       supply_nat mk' + unat (mk_protocolReserve mk'))"

lemma projector_inv_moves:
  assumes "projector_inv s" "moves_totals s s' u p"
  shows "projector_inv s'"
proof -
  have fin: "finite (dom (ds_positions s))" using assms(1) by (simp add: projector_inv_def)
  have w: "written (ds_positions s) u p (ds_positions s')" using assms(2) by (simp add: moves_totals_def Let_def)
  have z: "zero_on_empty (\<lambda>p. unat (ps_wethCollateral p))" "zero_on_empty (\<lambda>p. unat (ps_scaledUsdcSupply p))"
      "zero_on_empty (\<lambda>p. unat (ps_scaledUsdcDebt p))"
    by (simp_all add: zero_on_empty_def position_empty_def IsZero_def)
  have "ps_user (GetPosition s u) = u"
    using assms(1) by (simp add: projector_inv_def GetPosition_def split: option.splits)
  then have "ps_user p = u" using assms(2) by (simp add: moves_totals_def Let_def)
  with assms w fin show ?thesis
    using positions_sum_written [OF fin z(1) w] positions_sum_written [OF fin z(2) w]
      positions_sum_written [OF fin z(3) w]
    by (auto simp: projector_inv_def moves_totals_def Let_def written_def split: if_splits)
qed

lemma ceil_div_0 [simp]: "ceil_div 0 n = 0"
  by (simp add: ceil_div_def)

lemma balance_moves:
  assumes "projector_inv s" "moves_totals s s' u p" "moves_balance s s' u p"
  shows "assets s' + claims s = assets s + claims s'"
proof -
  have fin: "finite (dom (ds_positions s))" using assms(1) by (simp add: projector_inv_def)
  have w: "written (ds_positions s) u p (ds_positions s')" using assms(2) by (simp add: moves_totals_def Let_def)
  have z: "zero_on_empty (debt_nat (ds_market s))"
    by (simp add: zero_on_empty_def position_empty_def IsZero_def debt_nat_def)
  have d: "debt_nat (ds_market s') = debt_nat (ds_market s)"
    using assms(3) by (simp add: moves_balance_def Let_def debt_nat_def fun_eq_iff)
  show ?thesis
    using positions_sum_written [OF fin z w] assms(3)
    by (simp add: assets_def claims_def d moves_balance_def Let_def)
qed

section \<open>The events\<close>

lemma unat_projector_Ray [simp]: "unat projector_Ray = 1000000000000000000000000000"
  by (simp add: projector_Ray_def)

lemma AtIndex_Inr:
  "SupplyAtIndex a i = Inr v \<longleftrightarrow> unat v = unat a * unat i div 1000000000000000000000000000"
  "projector_DebtAtIndex a i = Inr v \<longleftrightarrow> unat v = ceil_div (unat a * unat i) 1000000000000000000000000000"
  by (simp_all add: SupplyAtIndex_def projector_DebtAtIndex_def u256)

lemmas move_defs = moves_totals_def moves_balance_def Let_def written_Put written_RemoveEmpty
  debt_nat_def supply_nat_def

text \<open>The shape in which an event leaves the state determines whose position moved, and how.\<close>

definition moved :: "DerivedState \<Rightarrow> DerivedState \<Rightarrow> bool" where
  "moved s s' \<longleftrightarrow> (\<exists>u p. moves_totals s s' u p \<and> moves_balance s s' u p)"

definition moved_if :: "bool \<Rightarrow> DerivedState \<Rightarrow> DerivedState \<Rightarrow> bool" where
  "moved_if c s s' \<longleftrightarrow> (\<exists>u p. moves_totals s s' u p \<and> (c \<longrightarrow> moves_balance s s' u p))"

lemma moved_PutI:
  "moves_totals s (PutPosition s u p mk) u p \<Longrightarrow> moves_balance s (PutPosition s u p mk) u p \<Longrightarrow>
    moved s (PutPosition s u p mk)"
  unfolding moved_def by blast

lemma moved_if_RemoveI:
  "moves_totals s (PutPosition s u p mk) u p \<Longrightarrow> (c \<Longrightarrow> moves_balance s (PutPosition s u p mk) u p) \<Longrightarrow>
    moved_if c s (RemoveEmptyPosition (PutPosition s u p mk) u)"
  unfolding moved_if_def moves_totals_def moves_balance_def Let_def written_RemoveEmpty(2) written_Put(2)
  using written_RemoveEmpty(1) by blast

lemma moved_RemoveI:
  "moves_totals s (PutPosition s u p mk) u p \<Longrightarrow> moves_balance s (PutPosition s u p mk) u p \<Longrightarrow>
    moved s (RemoveEmptyPosition (PutPosition s u p mk) u)"
  using moved_if_RemoveI [of s u p mk True] by (simp add: moved_if_def moved_def)

lemma RemoveEmpty_liquidations:
  "RemoveEmptyPosition (s\<lparr>ds_liquidations := l\<rparr>) u = (RemoveEmptyPosition s u)\<lparr>ds_liquidations := l\<rparr>"
  by (simp add: RemoveEmptyPosition_def split: option.splits)

lemma moved_liquidationI:
  "moves_totals s (PutPosition s u p mk) u p \<Longrightarrow> moves_balance s (PutPosition s u p mk) u p \<Longrightarrow>
    moved s (RemoveEmptyPosition ((PutPosition s u p mk)\<lparr>ds_liquidations := l\<rparr>) u)"
  using moved_RemoveI [of s u p mk]
  unfolding RemoveEmpty_liquidations moved_def moves_totals_def moves_balance_def Let_def by simp

lemma apply_supplied_moves:
  assumes "apply_supplied cc s vs = Inr s'"
  shows "moved s s'"
  using assms unfolding apply_supplied_def Let_def
  by (auto simp: map_result_Inr elim!: bind_resE intro!: moved_PutI split: if_split_asm;
      simp add: move_defs u256 AtIndex_Inr)

lemma apply_withdrawn_moves:
  assumes "apply_withdrawn cc s vs = Inr s'"
  shows "moved s s'"
  using assms unfolding apply_withdrawn_def Let_def
  by (auto simp: map_result_Inr elim!: bind_resE intro!: moved_RemoveI split: if_split_asm;
      simp add: move_defs u256 AtIndex_Inr)

lemma apply_borrowed_moves:
  assumes "apply_borrowed cc s vs = Inr s'"
  shows "moved s s' \<or> s' = s"
  using assms unfolding apply_borrowed_def Let_def
  by (auto simp: map_result_Inr elim!: bind_resE intro!: moved_PutI split: if_split_asm;
      simp add: move_defs u256 AtIndex_Inr)

lemma apply_repaid_moves:
  assumes "apply_repaid cc s vs = Inr s'"
  shows "moved s s' \<or> s' = s"
  using assms unfolding apply_repaid_def Let_def
  by (auto simp: map_result_Inr elim!: bind_resE intro!: moved_RemoveI split: if_split_asm;
      simp add: move_defs u256 AtIndex_Inr)

lemma apply_liquidated_moves:
  assumes "apply_liquidated s src vs = Inr s'"
  shows "moved s s'"
  using assms unfolding apply_liquidated_def Let_def
  by (auto simp: map_result_Inr elim!: bind_resE intro!: moved_liquidationI split: if_split_asm;
      simp add: move_defs u256 AtIndex_Inr)

lemma apply_bad_debt_moves:
  assumes "apply_bad_debt s vs = Inr s'" "EventUint vs 1 = Inr a" "EventAddress vs 0 = Inr b"
  shows "moved_if (unat a = debt_nat (ds_market s) (GetPosition s b)) s s'"
  using assms unfolding apply_bad_debt_def Let_def
  by (auto simp: map_result_Inr elim!: bind_resE intro!: moved_if_RemoveI split: if_split_asm;
      simp add: move_defs u256 AtIndex_Inr)

text \<open>The other events leave positions and totals alone.\<close>

definition same_totals :: "DerivedState \<Rightarrow> DerivedState \<Rightarrow> bool" where
  "same_totals s s' \<longleftrightarrow> ds_positions s' = ds_positions s \<and>
     mk_totalWethCollateral (ds_market s') = mk_totalWethCollateral (ds_market s) \<and>
     mk_totalScaledUsdcSupply (ds_market s') = mk_totalScaledUsdcSupply (ds_market s) \<and>
     mk_totalScaledUsdcDebt (ds_market s') = mk_totalScaledUsdcDebt (ds_market s)"

lemma apply_interest_same: "apply_interest s vs = Inr s' \<Longrightarrow> same_totals s s'"
  by (auto simp: apply_interest_def same_totals_def elim!: bind_resE)

lemma apply_price_same:
  "apply_price cc s vs = Inr s' \<Longrightarrow> same_totals s s' \<and> assets s' = assets s \<and> claims s' = claims s"
  by (auto simp: apply_price_def Let_def same_totals_def assets_def claims_def supply_nat_def
      debt_nat_def [abs_def] elim!: bind_resE)

lemma apply_registered_same:
  "apply_registered cc s vs = Inr s' \<Longrightarrow> same_totals s s' \<and> assets s' = assets s \<and> claims s' = claims s"
  by (auto simp: apply_registered_def Let_def same_totals_def assets_def claims_def supply_nat_def
      debt_nat_def [abs_def] elim!: bind_resE)

lemma projector_inv_same: "projector_inv s \<Longrightarrow> same_totals s s' \<Longrightarrow> projector_inv s'"
  by (simp add: projector_inv_def same_totals_def)

lemma projector_inv_moved: "projector_inv s \<Longrightarrow> moved_if c s s' \<or> moved s s' \<or> s' = s \<Longrightarrow> projector_inv s'"
  by (auto simp: moved_def moved_if_def intro: projector_inv_moves)

lemma apply_bad_debt_args:
  assumes "apply_bad_debt s vs = Inr s'"
  obtains a b where "EventUint vs 1 = Inr a" "EventAddress vs 0 = Inr b"
  using assms by (auto simp: apply_bad_debt_def elim!: bind_resE)

lemma ApplyEvent_inv:
  assumes "projector_inv s" "ApplyEvent cc s e = Inr s'"
  shows "projector_inv s'"
proof (cases "de_kind e")
  case BadDebtRecognized
  with assms(2) have b: "apply_bad_debt s (de_values e) = Inr s'" by (simp add: ApplyEvent_def)
  from apply_bad_debt_args [OF b] show ?thesis
    using apply_bad_debt_moves [OF b] projector_inv_moved [OF assms(1)] by metis
next
  case InterestAccrued
  then show ?thesis using assms apply_interest_same projector_inv_same by (auto simp: ApplyEvent_def)
next
  case AssetRegistered
  then show ?thesis using assms apply_registered_same projector_inv_same by (auto simp: ApplyEvent_def)
next
  case PriceUpdated
  then show ?thesis using assms apply_price_same projector_inv_same by (auto simp: ApplyEvent_def)
qed (use assms projector_inv_moved in \<open>auto simp: ApplyEvent_def
       dest!: apply_supplied_moves apply_withdrawn_moves apply_borrowed_moves apply_repaid_moves apply_liquidated_moves\<close>)

text \<open>An event that moves money: anything but an accrual, and a write-off only of what is owed.\<close>

definition conserving :: "DerivedState \<Rightarrow> DecodedProtocolEvent \<Rightarrow> bool" where
  "conserving s e \<longleftrightarrow> de_kind e \<noteq> InterestAccrued \<and>
     (de_kind e = BadDebtRecognized \<longrightarrow>
        (case (EventAddress (de_values e) 0, EventUint (de_values e) 1) of
           (Inr borrower, Inr amount) \<Rightarrow> unat amount = debt_nat (ds_market s) (GetPosition s borrower)
         | _ \<Rightarrow> False))"

lemma moved_conserves: "projector_inv s \<Longrightarrow> moved s s' \<or> s' = s \<Longrightarrow> assets s' + claims s = assets s + claims s'"
  by (auto simp: moved_def intro: balance_moves)

lemma ApplyEvent_conserves:
  assumes "projector_inv s" "ApplyEvent cc s e = Inr s'" "conserving s e"
  shows "assets s' + claims s = assets s + claims s'"
proof (cases "de_kind e")
  case BadDebtRecognized
  with assms(2) have b: "apply_bad_debt s (de_values e) = Inr s'" by (simp add: ApplyEvent_def)
  obtain a u where au: "EventUint (de_values e) 1 = Inr a" "EventAddress (de_values e) 0 = Inr u"
    using apply_bad_debt_args [OF b] .
  with assms(3) BadDebtRecognized have "unat a = debt_nat (ds_market s) (GetPosition s u)"
    by (simp add: conserving_def)
  with apply_bad_debt_moves [OF b au] have "moved s s'" by (simp add: moved_if_def moved_def)
  with moved_conserves [OF assms(1)] show ?thesis by simp
next
  case InterestAccrued
  with assms(3) show ?thesis by (simp add: conserving_def)
next
  case AssetRegistered
  then show ?thesis using assms(2) apply_registered_same by (auto simp: ApplyEvent_def)
next
  case PriceUpdated
  then show ?thesis using assms(2) apply_price_same by (auto simp: ApplyEvent_def)
qed (use assms(2) moved_conserves [OF assms(1)] in \<open>auto simp: ApplyEvent_def
       dest!: apply_supplied_moves apply_withdrawn_moves apply_borrowed_moves apply_repaid_moves apply_liquidated_moves\<close>)

lemma CreateInitialState_inv: "projector_inv (CreateInitialState cc)"
  by (simp add: projector_inv_def CreateInitialState_def)

lemma Apply_inv: "projector_inv s \<Longrightarrow> Apply keccak cc log s = Inr s' \<Longrightarrow> projector_inv s'"
  by (auto simp: Apply_def elim!: bind_resE split: option.splits intro: ApplyEvent_inv)

lemma Rebuild_inv: "Rebuild keccak cc logs = Inr s \<Longrightarrow> projector_inv s"
  unfolding Rebuild_def
  by (rule fold_res_invariant [where P = projector_inv])
     (auto intro: CreateInitialState_inv Apply_inv)

section \<open>Order of the logs\<close>

lemma sort_key_append:
  assumes "\<And>x y. x \<in> set xs \<Longrightarrow> y \<in> set ys \<Longrightarrow> f x \<le> f y"
  shows "sort_key f (xs @ ys) = sort_key f xs @ sort_key f ys"
proof (rule properties_for_sort_key)
  show "mset (sort_key f xs @ sort_key f ys) = mset (xs @ ys)" by simp
  show "filter (\<lambda>x. f k = f x) (sort_key f xs @ sort_key f ys) = filter (\<lambda>x. f k = f x) (xs @ ys)" for k
    using sort_key_stable [of f "f k" xs] sort_key_stable [of f "f k" ys] by (simp add: eq_commute)
  show "sorted (map f (sort_key f xs @ sort_key f ys))" using assms by (auto simp: sorted_append)
qed

text \<open>Rebuilding a longer history continues the rebuilt state with the later logs.\<close>

lemma Rebuild_append:
  assumes "\<And>x y. x \<in> set old \<Longrightarrow> y \<in> set new \<Longrightarrow> rl_canonical x \<Longrightarrow> rl_canonical y \<Longrightarrow> log_key x \<le> log_key y"
  shows "Rebuild keccak cc (old @ new) =
    bind_res (Rebuild keccak cc old)
      (fold_res (Apply keccak cc) (sort_key log_key (filter rl_canonical new)))"
  unfolding Rebuild_def filter_append using assms
  by (subst sort_key_append) (auto simp: fold_res_append)

lemma log_key_less_block: "unat (rl_blockNumber x) < unat (rl_blockNumber y) \<Longrightarrow> log_key x \<le> log_key y"
  by (simp add: log_key_def)

lemma Rebuild_perm:
  assumes "mset (filter rl_canonical logs) = mset (filter rl_canonical logs')"
    and "inj_on log_key {l \<in> set logs. rl_canonical l}"
  shows "Rebuild keccak cc logs = Rebuild keccak cc logs'"
proof -
  have "sort_key log_key (filter rl_canonical logs) = sort_key log_key (filter rl_canonical logs')"
    by (rule sort_key_inj_key_eq) (use assms in simp_all)
  then show ?thesis by (simp add: Rebuild_def)
qed

end
