(* ===== verification/Projector_Rounding.thy ===== *)
theory Projector_Rounding
  imports Projector_Accounting
begin

text \<open>
  Rounding in the projector. Scaled amounts are minted and burned so that the difference between the
  amount of an event and the change of the valuation never goes below zero: a withdrawal, a
  borrowing or a liquidation that the pool could have performed never makes the projector throw.
\<close>

section \<open>Floor and ceiling\<close>

lemma ceil_div_le_iff: "0 < r \<Longrightarrow> ceil_div x r \<le> k \<longleftrightarrow> x \<le> k * r"
proof -
  assume r: "0 < r"
  have eq: "x div r * r + x mod r = x" by (rule div_mult_mod_eq)
  have "x div r < k \<longleftrightarrow> x < k * r" using r by (rule div_less_iff_less_mult)
  moreover have "x div r \<le> k \<longleftrightarrow> x div r < k \<or> x div r = k" by auto
  moreover have "x mod r = 0 \<and> x div r = k \<longleftrightarrow> x = k * r" using r eq by auto
  ultimately show ?thesis using eq by (auto simp: ceil_div_def)
qed

lemma ceil_div_mult_ge: "0 < r \<Longrightarrow> x \<le> ceil_div x r * r"
  using ceil_div_le_iff [of r x "ceil_div x r"] by simp

lemma ceil_div_mono: "x \<le> y \<Longrightarrow> 0 < r \<Longrightarrow> ceil_div x r \<le> ceil_div y r"
  using ceil_div_mult_ge [of r y] by (simp add: ceil_div_le_iff)

lemma less_ceil_div_iff: "0 < r \<Longrightarrow> k < ceil_div x r \<longleftrightarrow> k * r < x"
  using ceil_div_le_iff [of r x k] by linarith

lemma floor_add_ge: "x div r + y div r \<le> (x + y) div (r :: nat)"
  by (simp add: div_add1_eq [of x y r])

lemma ceil_add_le: "0 < r \<Longrightarrow> ceil_div (x + y) r \<le> ceil_div x r + ceil_div y r"
  using ceil_div_mult_ge [of r x] ceil_div_mult_ge [of r y]
  by (simp add: ceil_div_le_iff add_mult_distrib)

lemma floor_add_le:
  assumes "0 < r"
  shows "(x + y) div r \<le> x div r + ceil_div y r"
proof -
  have "x + y < (x div r + ceil_div y r + 1) * r"
    using div_mult_mod_eq [of x r] mod_less_divisor [OF assms, of x] ceil_div_mult_ge [OF assms, of y]
    unfolding add_mult_distrib by linarith
  then show ?thesis using assms by (simp add: div_less_iff_less_mult flip: less_Suc_eq_le)
qed

lemma ceil_add_ge:
  assumes "0 < r"
  shows "ceil_div x r + y div r \<le> ceil_div (x + y) r"
proof (cases "ceil_div x r")
  case 0
  have "y div r \<le> ceil_div y r" by (simp add: ceil_div_def)
  also have "\<dots> \<le> ceil_div (x + y) r" using assms by (intro ceil_div_mono) simp_all
  finally show ?thesis using 0 by simp
next
  case (Suc k)
  then have "k * r < x" using less_ceil_div_iff [OF assms, of k x] by simp
  moreover have "y div r * r \<le> y" by simp
  ultimately have "(k + y div r) * r < x + y" unfolding add_mult_distrib by linarith
  then have "k + y div r < ceil_div (x + y) r" using less_ceil_div_iff [OF assms] by blast
  then show ?thesis using Suc by simp
qed

text \<open>A mint of \<open>floor (a r / l)\<close> is worth at most \<open>a\<close>, a burn of its ceiling at least \<open>a\<close>.\<close>

lemma mint_value_le: "0 < r \<Longrightarrow> ceil_div (a * r div l * l) r \<le> a"
  by (simp add: ceil_div_le_iff)

lemma burn_value_ge:
  assumes "0 < l" "0 < r"
  shows "a \<le> ceil_div (a * r) l * l div r"
proof -
  have "a * r div r \<le> ceil_div (a * r) l * l div r"
    by (rule div_le_mono) (rule ceil_div_mult_ge [OF assms(1)])
  with assms(2) show ?thesis by simp
qed

section \<open>Withdrawals\<close>

text \<open>The scaled amount a withdrawal burns, and the change of the valuation it causes.\<close>

abbreviation ray :: nat where "ray \<equiv> 1000000000000000000000000000"

definition burn_amount :: "nat \<Rightarrow> nat \<Rightarrow> nat \<Rightarrow> nat" where
  "burn_amount a p l = (if a = p * l div ray then p else ceil_div (a * ray) l)"

lemma burn_amount_bounds:
  assumes "a \<le> p * l div ray" "0 < l"
  shows "burn_amount a p l \<le> p" "a \<le> burn_amount a p l * l div ray"
proof -
  have "a * ray \<le> p * l div ray * ray" using assms(1) by (rule mult_le_mono1)
  then have "a * ray \<le> p * l" using div_times_less_eq_dividend [of "p * l" ray] by (rule le_trans)
  then show "burn_amount a p l \<le> p" using assms(2) by (simp add: burn_amount_def ceil_div_le_iff)
  have "(0 :: nat) < ray" by simp
  then show "a \<le> burn_amount a p l * l div ray"
    using burn_value_ge [OF assms(2), of ray a] by (simp only: burn_amount_def) simp
qed

lemma supply_burn_value:
  assumes "b \<le> t" "a \<le> b * l div ray"
  shows "(t - b) * l div ray + a \<le> t * l div ray"
proof -
  have "(t - b) * l + b * l = t * l" using assms(1) by (simp flip: add_mult_distrib)
  with floor_add_ge [of "(t - b) * l" ray "b * l"] assms(2) show ?thesis by simp
qed

lemma u256_sub_exI: "unat a = x \<Longrightarrow> unat b = y \<Longrightarrow> y \<le> x \<Longrightarrow> \<exists>c. u256_sub a b = Inr c \<and> unat c = x - y"
  using u256_sub_ex [of b a] by simp

lemma u256_add_exI: "unat a = x \<Longrightarrow> unat b = y \<Longrightarrow> x + y < two256 \<Longrightarrow> \<exists>c. u256_add a b = Inr c \<and> unat c = x + y"
  using u256_add_ex [of a b] by simp

lemma SupplyAtIndex_exI:
  "unat a = x \<Longrightarrow> unat i = y \<Longrightarrow> x * y div ray < two256 \<Longrightarrow> \<exists>v. SupplyAtIndex a i = Inr v \<and> unat v = x * y div ray"
  using ex_uint256 [of "x * y div ray"] by (simp add: AtIndex_Inr)

lemma DebtAtIndex_exI:
  "unat a = x \<Longrightarrow> unat i = y \<Longrightarrow> ceil_div (x * y) ray < two256 \<Longrightarrow>
    \<exists>v. projector_DebtAtIndex a i = Inr v \<and> unat v = ceil_div (x * y) ray"
  using ex_uint256 [of "ceil_div (x * y) ray"] by (simp add: AtIndex_Inr)

lemma MulDivUp_exI:
  "unat a = x \<Longrightarrow> unat b = y \<Longrightarrow> unat d = z \<Longrightarrow> z \<noteq> 0 \<Longrightarrow> ceil_div (x * y) z < two256 \<Longrightarrow>
    \<exists>c. MulDivUp a b d = Inr c \<and> unat c = ceil_div (x * y) z"
  using ex_uint256 [of "ceil_div (x * y) z"] by (simp add: MulDivUp_Inr)

lemma MulDivDown_exI:
  "unat a = x \<Longrightarrow> unat b = y \<Longrightarrow> unat d = z \<Longrightarrow> z \<noteq> 0 \<Longrightarrow> x * y div z < two256 \<Longrightarrow>
    \<exists>c. MulDivDown a b d = Inr c \<and> unat c = x * y div z"
  using MulDivDown_ex [of d a b] by simp

text \<open>A position never holds more than the total.\<close>

lemma position_le_total:
  assumes "projector_inv s"
  shows "unat (ps_wethCollateral (GetPosition s u)) \<le> unat (mk_totalWethCollateral (ds_market s))"
    and "unat (ps_scaledUsdcSupply (GetPosition s u)) \<le> unat (mk_totalScaledUsdcSupply (ds_market s))"
    and "unat (ps_scaledUsdcDebt (GetPosition s u)) \<le> unat (mk_totalScaledUsdcDebt (ds_market s))"
proof -
  have le: "f (GetPosition s u) \<le> positions_sum f (ds_positions s)" if "zero_on_empty f" for f
  proof -
    have fin: "finite (dom (ds_positions s))" using assms by (simp add: projector_inv_def)
    define e where "e = \<lparr>ps_user = u, ps_wethCollateral = 0, ps_scaledUsdcSupply = 0, ps_scaledUsdcDebt = 0\<rparr>"
    have e: "position_empty e" by (simp add: e_def position_empty_def IsZero_def)
    have "written (ds_positions s) u e ((ds_positions s)(u := None))" using e by (simp add: written_def)
    from positions_sum_written [OF fin that this] that e show ?thesis by (simp add: zero_on_empty_def)
  qed
  show "unat (ps_wethCollateral (GetPosition s u)) \<le> unat (mk_totalWethCollateral (ds_market s))"
    "unat (ps_scaledUsdcSupply (GetPosition s u)) \<le> unat (mk_totalScaledUsdcSupply (ds_market s))"
    "unat (ps_scaledUsdcDebt (GetPosition s u)) \<le> unat (mk_totalScaledUsdcDebt (ds_market s))"
    using assms le [of "\<lambda>p. unat (ps_wethCollateral p)"] le [of "\<lambda>p. unat (ps_scaledUsdcSupply p)"]
      le [of "\<lambda>p. unat (ps_scaledUsdcDebt p)"]
    by (simp_all add: projector_inv_def zero_on_empty_def position_empty_def IsZero_def)
qed

lemma event_values:
  "EventAddress (V_Address a # vs) 0 = Inr a"
  "EventAddress (v # V_Address a # vs) 1 = Inr a"
  "EventAddress (v # v' # V_Address a # vs) 2 = Inr a"
  "EventAddress (v # v' # v2 # V_Address a # vs) 3 = Inr a"
  "EventUint (v # v' # V_Uint256 x # vs) 2 = Inr x"
  "EventUint (v # v' # v2 # v3 # V_Uint256 x # vs) 4 = Inr x"
  "EventUint (v # v' # v2 # v3 # v4 # V_Uint256 x # vs) 5 = Inr x"
  by (simp_all add: EventAddress_def EventUint_def)

lemma apply_withdrawn_total:
  fixes s u
  defines "mk \<equiv> ds_market s" and "q \<equiv> GetPosition s u"
  assumes inv: "projector_inv s" and cc: "cc_usdc cc \<noteq> cc_weth cc"
    and l0: "unat (mk_liquidityIndex mk) \<noteq> 0"
    and a: "unat a \<le> unat (ps_scaledUsdcSupply q) * unat (mk_liquidityIndex mk) div ray"
    and liq: "unat a \<le> unat (mk_availableUsdcLiquidity mk)"
    and fits: "supply_nat mk + unat (mk_protocolReserve mk) < two256"
  shows "\<exists>s'. apply_withdrawn cc s [V_Address u, V_Address (cc_usdc cc), V_Uint256 a] = Inr s'"
proof -
  define p where "p = unat (ps_scaledUsdcSupply q)"
  define l where "l = unat (mk_liquidityIndex mk)"
  define t where "t = unat (mk_totalScaledUsdcSupply mk)"
  define b where "b = burn_amount (unat a) p l"
  have pt: "p \<le> t" using position_le_total(2) [OF inv, of u] by (simp add: p_def t_def q_def mk_def)
  have b: "b \<le> p" "unat a \<le> b * l div ray"
    using burn_amount_bounds [of "unat a" p l] a l0 by (simp_all add: b_def p_def l_def)
  have tv: "t * l div ray + unat (mk_protocolReserve mk) < two256"
    using fits by (simp add: supply_nat_def t_def l_def)
  have "p * l div ray \<le> t * l div ray" using pt by (intro div_le_mono mult_le_mono1)
  then obtain sup where sup: "SupplyAtIndex (ps_scaledUsdcSupply q) (mk_liquidityIndex mk) = Inr sup" "unat sup = p * l div ray"
    using SupplyAtIndex_exI [OF p_def [symmetric] l_def [symmetric]] tv by fastforce
  have "b < two256" using le_less_trans [OF b(1)] unat_less_two256 [of "ps_scaledUsdcSupply q"] by (simp add: p_def)
  then have "\<exists>v. MulDivUp a projector_Ray (mk_liquidityIndex mk) = Inr v \<and> unat v = ceil_div (unat a * ray) l"
    if "unat a \<noteq> p * l div ray"
    using MulDivUp_exI [OF refl unat_projector_Ray l_def [symmetric], of a] l0 that
    by (simp add: b_def burn_amount_def l_def)
  then obtain burn where burn: "(if a = sup then Inr (ps_scaledUsdcSupply q)
      else MulDivUp a projector_Ray (mk_liquidityIndex mk)) = Inr burn" "unat burn = b"
    using sup(2) by (cases "a = sup") (auto simp: b_def burn_amount_def p_def word_unat_eq_iff)
  have bt: "b \<le> t" using b(1) pt by simp
  have val: "(t - b) * l div ray + unat a \<le> t * l div ray" by (rule supply_burn_value [OF bt b(2)])
  obtain before where before: "SupplyAtIndex (mk_totalScaledUsdcSupply mk) (mk_liquidityIndex mk) = Inr before" "unat before = t * l div ray"
    using SupplyAtIndex_exI [OF t_def [symmetric] l_def [symmetric]] tv by auto
  obtain p' where p': "u256_sub (ps_scaledUsdcSupply q) burn = Inr p'"
    using u256_sub_exI [OF p_def [symmetric] burn(2) b(1)] by auto
  obtain t' where t': "u256_sub (mk_totalScaledUsdcSupply mk) burn = Inr t'" "unat t' = t - b"
    using u256_sub_exI [OF t_def [symmetric] burn(2) bt] by auto
  obtain after where after: "SupplyAtIndex t' (mk_liquidityIndex mk) = Inr after" "unat after = (t - b) * l div ray"
    using SupplyAtIndex_exI [OF t'(2) l_def [symmetric]] val tv by auto
  obtain burned where burned: "u256_sub before after = Inr burned" "unat burned = t * l div ray - (t - b) * l div ray"
    using u256_sub_exI [OF before(2) after(2)] val by auto
  obtain dust where dust: "u256_sub burned a = Inr dust" "unat dust = unat burned - unat a"
    using u256_sub_exI [OF refl refl] burned(2) val add_le_imp_le_diff add.commute by metis
  have "unat (mk_protocolReserve mk) + unat dust < two256" using dust(2) burned(2) tv by linarith
  then obtain reserve where reserve: "u256_add (mk_protocolReserve mk) dust = Inr reserve"
    using u256_add_exI [OF refl refl] by blast
  obtain rest where rest: "u256_sub (mk_availableUsdcLiquidity mk) a = Inr rest"
    using u256_sub_exI [OF refl refl liq] by auto
  show ?thesis
    unfolding apply_withdrawn_def Let_def mk_def [symmetric] event_values bind_res_simps if_not_P [OF cc]
      q_def [symmetric] simp_thms if_True sup(1) burn(1) before(1) p' t'(1) after(1) burned(1) dust(1) reserve rest
    by simp
qed

section \<open>Liquidations\<close>

definition repay_burn :: "nat \<Rightarrow> nat \<Rightarrow> nat \<Rightarrow> nat" where
  "repay_burn r d i = (if ceil_div (d * i) ray \<le> r then d else r * ray div i)"

lemma repay_burn_bounds:
  assumes "0 < i"
  shows "repay_burn r d i \<le> d"
    and "ceil_div (d * i) ray \<le> ceil_div ((d - repay_burn r d i) * i) ray + r"
    and "ceil_div ((d - repay_burn r d i) * i) ray \<le> ceil_div (d * i) ray"
proof -
  have r0: "(0 :: nat) < ray" by simp
  show le: "repay_burn r d i \<le> d"
  proof (cases "ceil_div (d * i) ray \<le> r")
    case False
    then have "r * ray < d * i" using less_ceil_div_iff [OF r0] by (simp add: not_le)
    then have "r * ray div i < d" using assms by (simp add: div_less_iff_less_mult)
    with False show ?thesis by (simp add: repay_burn_def)
  qed (simp add: repay_burn_def)
  show "ceil_div (d * i) ray \<le> ceil_div ((d - repay_burn r d i) * i) ray + r"
  proof (cases "ceil_div (d * i) ray \<le> r")
    case False
    then have b: "repay_burn r d i = r * ray div i" by (simp add: repay_burn_def)
    have "(d - repay_burn r d i) * i + repay_burn r d i * i = d * i" using le by (simp flip: add_mult_distrib)
    then have "ceil_div (d * i) ray
        \<le> ceil_div ((d - repay_burn r d i) * i) ray + ceil_div (repay_burn r d i * i) ray"
      using ceil_add_le [OF r0, of "(d - repay_burn r d i) * i" "repay_burn r d i * i"] by simp
    moreover have "ceil_div (repay_burn r d i * i) ray \<le> r"
      unfolding b using r0 by (rule mint_value_le)
    ultimately show ?thesis by simp
  qed simp
  show "ceil_div ((d - repay_burn r d i) * i) ray \<le> ceil_div (d * i) ray"
    using r0 by (intro ceil_div_mono mult_le_mono1) simp_all
qed

lemma apply_liquidated_total:
  fixes s u
  defines "mk \<equiv> ds_market s" and "q \<equiv> GetPosition s u"
  assumes inv: "projector_inv s" and i0: "unat (mk_borrowIndex mk) \<noteq> 0"
    and c: "unat c \<le> unat (ps_wethCollateral q)"
    and fits: "debt_nat mk q < two256" "unat (mk_protocolReserve mk) + unat r < two256"
      "unat (mk_availableUsdcLiquidity mk) + unat r < two256"
  shows "\<exists>s'. apply_liquidated s src
    [V_Address who, V_Address u, V_Address da, V_Address ca, V_Uint256 r, V_Uint256 c] = Inr s'"
proof -
  define d where "d = unat (ps_scaledUsdcDebt q)"
  define i where "i = unat (mk_borrowIndex mk)"
  define b where "b = repay_burn (unat r) d i"
  have i: "0 < i" using i0 by (simp add: i_def)
  note bounds = repay_burn_bounds [OF i, where r = "unat r" and d = d, folded b_def]
  obtain cur where cur: "projector_DebtAtIndex (ps_scaledUsdcDebt q) (mk_borrowIndex mk) = Inr cur" "unat cur = ceil_div (d * i) ray"
    using DebtAtIndex_exI [OF d_def [symmetric] i_def [symmetric]] fits(1) by (auto simp: debt_nat_def d_def i_def)
  have "b < two256" using le_less_trans [OF bounds(1)] unat_less_two256 [of "ps_scaledUsdcDebt q"] by (simp add: d_def)
  then have "\<exists>v. MulDivDown r projector_Ray (mk_borrowIndex mk) = Inr v \<and> unat v = unat r * ray div i"
    if "\<not> ceil_div (d * i) ray \<le> unat r"
    using MulDivDown_exI [OF refl unat_projector_Ray i_def [symmetric], of r] i that
    by (simp add: b_def repay_burn_def)
  then obtain burn where burn: "(if cur \<le> r then Inr (ps_scaledUsdcDebt q)
      else MulDivDown r projector_Ray (mk_borrowIndex mk)) = Inr burn" "unat burn = b"
    using cur(2) by (cases "cur \<le> r") (auto simp: b_def repay_burn_def d_def word_le_nat_alt)
  have bt: "b \<le> unat (mk_totalScaledUsdcDebt mk)"
    using bounds(1) position_le_total(3) [OF inv, of u] by (simp add: d_def q_def mk_def)
  obtain p' where p': "u256_sub (ps_scaledUsdcDebt q) burn = Inr p'" "unat p' = d - b"
    using u256_sub_exI [OF d_def [symmetric] burn(2) bounds(1)] by auto
  obtain t' where t': "u256_sub (mk_totalScaledUsdcDebt mk) burn = Inr t'"
    using u256_sub_exI [OF refl burn(2) bt] by auto
  obtain rem where rem: "projector_DebtAtIndex p' (mk_borrowIndex mk) = Inr rem" "unat rem = ceil_div ((d - b) * i) ray"
    using DebtAtIndex_exI [OF p'(2) i_def [symmetric]] le_less_trans [OF bounds(3)] cur(2) unat_less_two256 [of cur] by auto
  obtain burned where burned: "u256_sub cur rem = Inr burned" "unat burned = ceil_div (d * i) ray - ceil_div ((d - b) * i) ray"
    using u256_sub_exI [OF cur(2) rem(2) bounds(3)] by auto
  have "unat burned \<le> unat r" using burned(2) bounds(2) by linarith
  then obtain dust where dust: "u256_sub r burned = Inr dust" "unat dust = unat r - unat burned"
    using u256_sub_exI [OF refl refl] by blast
  have "unat (mk_protocolReserve mk) + unat dust < two256" using dust(2) fits(2) by linarith
  then obtain reserve where reserve: "u256_add (mk_protocolReserve mk) dust = Inr reserve"
    using u256_add_exI [OF refl refl] by blast
  obtain liq where liq: "u256_add (mk_availableUsdcLiquidity mk) r = Inr liq"
    using u256_add_exI [OF refl refl fits(3)] by auto
  obtain c' where c': "u256_sub (ps_wethCollateral q) c = Inr c'" using u256_sub_exI [OF refl refl c] by auto
  have "unat c \<le> unat (mk_totalWethCollateral mk)"
    using c position_le_total(1) [OF inv, of u] by (simp add: q_def mk_def)
  then obtain tc where tc: "u256_sub (mk_totalWethCollateral mk) c = Inr tc" using u256_sub_exI [OF refl refl] by auto
  show ?thesis
    unfolding apply_liquidated_def Let_def mk_def [symmetric] event_values bind_res_simps q_def [symmetric]
      cur(1) burn(1) p'(1) t' rem(1) burned(1) dust(1) reserve liq c' tc
    by simp
qed

section \<open>Logs of the protocol\<close>

text \<open>The log a contract emits for an event of the registry.\<close>

definition emitted :: "(bytes \<Rightarrow> hash256) \<Rightarrow> ChainContracts \<Rightarrow> EventDefinition \<Rightarrow> AbiValue list \<Rightarrow> RawLog \<Rightarrow> bool" where
  "emitted keccak cc e vs log \<longleftrightarrow>
     rl_topics log = event_topics (GetEventTopic keccak (signature e)) (parameters e) vs \<and>
     rl_data log = event_data (parameters e) vs \<and>
     IsExpectedEmitter cc (kind e) (rl_contractAddress log)"

lemma event_topics_hd: "event_topics t ps vs \<noteq> []" "hd (event_topics t ps vs) = t"
  by (simp_all add: event_topics_def)

lemma GetEvents_topic: "e \<in> set (GetEvents keccak) \<Longrightarrow> topic e = GetEventTopic keccak (signature e)"
  by (auto simp: GetEvents_def DefineEvent_def)

lemma Decode_emitted:
  assumes "topics_distinct keccak" "GetEvent keccak k = Inr e" "event_ok (parameters e) vs"
    "emitted keccak cc e vs log"
  shows "EventDecoder_Decode keccak cc log = Inr (Some \<lparr>de_kind = k, de_values = vs, de_source = log\<rparr>)"
proof -
  have e: "e \<in> set (GetEvents keccak)" "kind e = k" using GetEvent_total [of keccak k] assms(2) by auto
  have "MatchEvent keccak (hd (rl_topics log)) = Some k"
    using MatchEvent_topic [OF assms(1,2)] assms(4) by (simp add: emitted_def event_topics_hd GetEvents_topic [OF e(1)])
  moreover have "rl_topics log \<noteq> []" using assms(4) by (simp add: emitted_def event_topics_hd)
  moreover have "DecodeEvent keccak (signature e) (parameters e) (rl_topics log) (rl_data log) = Inr vs"
    using DecodeEvent_event [OF assms(3)] assms(4) by (simp add: emitted_def)
  ultimately show ?thesis using assms(2,4) e(2) by (simp add: EventDecoder_Decode_def emitted_def)
qed

section \<open>A worked example\<close>

text \<open>A stand-in for the hash that separates the nine signatures, and a supply of five wei.\<close>

definition demo_keccak :: "bytes \<Rightarrow> hash256" where
  "demo_keccak bs = take 32 (bs @ replicate 32 0)"

lemma demo_keccak_topics: "topics_distinct demo_keccak"
  by code_simp

definition demo_contracts :: ChainContracts where
  "demo_contracts = \<lparr>cc_pool = replicate 20 1, cc_oracle = replicate 20 2, cc_weth = replicate 20 3,
     cc_usdc = replicate 20 4\<rparr>"

definition demo_event :: EventDefinition where
  "demo_event = DefineEvent demo_keccak Supplied ''Supplied(address,address,uint256)''
     [iparam T_Address, iparam T_Address, dparam T_Uint256]"

definition demo_values :: "AbiValue list" where
  "demo_values = [V_Address (replicate 20 9), V_Address (replicate 20 3), V_Uint256 5]"

definition demo_log :: RawLog where
  "demo_log = \<lparr>rl_chainId = 31337, rl_blockNumber = 7, rl_blockHash = replicate 32 7,
     rl_transactionHash = replicate 32 8, rl_transactionIndex = 0, rl_logIndex = 0,
     rl_contractAddress = replicate 20 1,
     rl_topics = event_topics (GetEventTopic demo_keccak (signature demo_event)) (parameters demo_event) demo_values,
     rl_data = event_data (parameters demo_event) demo_values, rl_canonical = True\<rparr>"

lemma demo_facts:
  "GetEvent demo_keccak Supplied = Inr demo_event"
  "event_ok (parameters demo_event) demo_values"
  "emitted demo_keccak demo_contracts demo_event demo_values demo_log"
  by (simp_all add: GetEvent_def GetEvents_def DefineEvent_def demo_event_def event_ok_def demo_values_def
      emitted_def demo_log_def IsExpectedEmitter_def demo_contracts_def)

text \<open>The state after the supply: one position of five wei, and the total.\<close>

definition demo_state :: DerivedState where
  "demo_state = PutPosition (CreateInitialState demo_contracts) (replicate 20 9)
     \<lparr>ps_user = replicate 20 9, ps_wethCollateral = 5, ps_scaledUsdcSupply = 0, ps_scaledUsdcDebt = 0\<rparr>
     ((ds_market (CreateInitialState demo_contracts))\<lparr>mk_totalWethCollateral := 5\<rparr>)"

lemma Rebuild_demo: "Rebuild demo_keccak demo_contracts [demo_log] = Inr demo_state"
  using Decode_emitted [OF demo_keccak_topics demo_facts]
  by (simp add: Rebuild_def Apply_def ApplyEvent_def apply_supplied_def demo_state_def demo_values_def
      EventAddress_def EventUint_def GetPosition_def CreateInitialState_def demo_contracts_def u256_eval demo_log_def)

lemma ApplyEvent_demo:
  "ApplyEvent demo_contracts (CreateInitialState demo_contracts)
     \<lparr>de_kind = Supplied, de_values = demo_values, de_source = demo_log\<rparr> = Inr demo_state"
  by (simp add: ApplyEvent_def apply_supplied_def demo_state_def demo_values_def
      EventAddress_def EventUint_def GetPosition_def CreateInitialState_def demo_contracts_def u256_eval)

text \<open>A pool where one user has supplied and borrowed.\<close>

definition demo_pool :: DerivedState where
  "demo_pool = PutPosition (CreateInitialState demo_contracts) (replicate 20 9)
     \<lparr>ps_user = replicate 20 9, ps_wethCollateral = 50, ps_scaledUsdcSupply = 100, ps_scaledUsdcDebt = 30\<rparr>
     ((ds_market (CreateInitialState demo_contracts))\<lparr>mk_totalWethCollateral := 50,
        mk_totalScaledUsdcSupply := 100, mk_totalScaledUsdcDebt := 30, mk_availableUsdcLiquidity := 70\<rparr>)"

lemma demo_pool_inv: "projector_inv demo_pool"
  by (simp add: projector_inv_def demo_pool_def PutPosition_def CreateInitialState_def positions_sum_def)

section \<open>Properties\<close>

text \<open>C25. A log that a protocol contract emits for a registered event, with values of the declared types,
  is decoded to exactly that event. The hypothesis on the hash is that it separates the nine
  signatures.\<close>

theorem EventDecoder_recovers:
  assumes "topics_distinct keccak" "GetEvent keccak k = Inr e" "event_ok (parameters e) vs"
    and "emitted keccak cc e vs log"
  shows "EventDecoder_Decode keccak cc log = Inr (Some \<lparr>de_kind = k, de_values = vs, de_source = log\<rparr>)"
  using assms by (rule Decode_emitted)

theorem EventDecoder_recovers_witness:
  "EventDecoder_Decode demo_keccak demo_contracts demo_log
     = Inr (Some \<lparr>de_kind = Supplied, de_values = demo_values, de_source = demo_log\<rparr>)"
  by (rule EventDecoder_recovers [OF demo_keccak_topics demo_facts])

text \<open>C22. In every state a rebuild produces, each position is filed under its own user, and the total
  collateral, the total scaled supply and the total scaled debt are exactly the sums over the
  positions.\<close>

theorem Rebuild_totals:
  assumes "Rebuild keccak cc logs = Inr s"
  shows "(\<forall>u. pred_option (\<lambda>p. ps_user p = u) (ds_positions s u)) \<and>
    unat (mk_totalWethCollateral (ds_market s)) = positions_sum (\<lambda>p. unat (ps_wethCollateral p)) (ds_positions s) \<and>
    unat (mk_totalScaledUsdcSupply (ds_market s)) = positions_sum (\<lambda>p. unat (ps_scaledUsdcSupply p)) (ds_positions s) \<and>
    unat (mk_totalScaledUsdcDebt (ds_market s)) = positions_sum (\<lambda>p. unat (ps_scaledUsdcDebt p)) (ds_positions s)"
  using Rebuild_inv [OF assms] by (simp add: projector_inv_def option.pred_set)

theorem Rebuild_totals_witness:
  "unat (mk_totalWethCollateral (ds_market demo_state)) = positions_sum (\<lambda>p. unat (ps_wethCollateral p)) (ds_positions demo_state)"
  using Rebuild_totals [OF Rebuild_demo] by blast

text \<open>C21. Conservation. In a state that satisfies the invariant of the projector, as every rebuilt state does, an event that
  is projected without an exception keeps the balance of the pool (liquidity, bad debt and the debts of all
  positions, less the value of the supply and the protocol reserve), unless it is an interest accrual, or
  a write-off of an amount other than the debt of its borrower, which the projector does not compare.\<close>

theorem ApplyEvent_balance:
  assumes "projector_inv s" "ApplyEvent cc s e = Inr s'" "conserving s e"
  shows "int (assets s') - int (claims s') = int (assets s) - int (claims s)"
  using ApplyEvent_conserves [OF assms] by linarith

theorem ApplyEvent_balance_witness:
  "int (assets demo_state) - int (claims demo_state)
     = int (assets (CreateInitialState demo_contracts)) - int (claims (CreateInitialState demo_contracts))"
  by (rule ApplyEvent_balance [OF CreateInitialState_inv ApplyEvent_demo]) (simp add: conserving_def)

text \<open>A withdrawal of at most what the user's supply is worth and of at most the free liquidity is
  always projected: no rounding in the scaled amounts makes the reserve arithmetic underflow.\<close>

theorem apply_withdrawn_accepts:
  assumes "projector_inv s" "cc_usdc cc \<noteq> cc_weth cc" "unat (mk_liquidityIndex (ds_market s)) \<noteq> 0"
    and "unat a \<le> unat (ps_scaledUsdcSupply (GetPosition s u)) * unat (mk_liquidityIndex (ds_market s)) div 10 ^ 27"
    and "unat a \<le> unat (mk_availableUsdcLiquidity (ds_market s))"
    and "claims s < 2 ^ 256"
  shows "\<exists>s'. apply_withdrawn cc s [V_Address u, V_Address (cc_usdc cc), V_Uint256 a] = Inr s'"
  using apply_withdrawn_total [of s cc a u] assms by (simp add: claims_def two256_def)

theorem apply_withdrawn_accepts_witness:
  "\<exists>s'. apply_withdrawn demo_contracts demo_pool
     [V_Address (replicate 20 9), V_Address (cc_usdc demo_contracts), V_Uint256 40] = Inr s'"
  by (rule apply_withdrawn_accepts [OF demo_pool_inv])
     (simp_all add: demo_pool_def PutPosition_def CreateInitialState_def GetPosition_def demo_contracts_def
       claims_def supply_nat_def)

text \<open>A liquidation that seizes at most the borrower's collateral is always projected, whatever is
  repaid, as long as the sums fit in 256 bits: the burned scaled debt never exceeds the position's,
  and the debt it removes never exceeds the repayment.\<close>

theorem apply_liquidated_accepts:
  assumes "projector_inv s" "unat (mk_borrowIndex (ds_market s)) \<noteq> 0"
    and "unat c \<le> unat (ps_wethCollateral (GetPosition s u))"
    and "debt_nat (ds_market s) (GetPosition s u) < 2 ^ 256"
    and "unat (mk_protocolReserve (ds_market s)) + unat r < 2 ^ 256"
    and "unat (mk_availableUsdcLiquidity (ds_market s)) + unat r < 2 ^ 256"
  shows "\<exists>s'. apply_liquidated s source
    [V_Address who, V_Address u, V_Address da, V_Address ca, V_Uint256 r, V_Uint256 c] = Inr s'"
  using apply_liquidated_total [of s c u r] assms by (simp add: two256_def)

theorem apply_liquidated_accepts_witness:
  "\<exists>s'. apply_liquidated demo_pool demo_log
    [V_Address [], V_Address (replicate 20 9), V_Address [], V_Address [], V_Uint256 17, V_Uint256 20] = Inr s'"
  by (rule apply_liquidated_accepts [OF demo_pool_inv])
     (simp_all add: demo_pool_def PutPosition_def CreateInitialState_def GetPosition_def debt_nat_def ceil_div_def)

text \<open>The order of the chain: block by block, and inside a block by the index of the log, along which the transaction
  index does not fall.\<close>

definition in_block_order :: "RawLog \<Rightarrow> RawLog \<Rightarrow> bool" where
  "in_block_order x y \<longleftrightarrow> rl_blockNumber x = rl_blockNumber y \<and> rl_transactionIndex x \<le> rl_transactionIndex y \<and> rl_logIndex x < rl_logIndex y"

definition earlier_block :: "RawLog list \<Rightarrow> RawLog list \<Rightarrow> bool" where
  "earlier_block xs ys \<longleftrightarrow> (\<forall>x \<in> set xs. \<forall>y \<in> set ys. rl_blockNumber x < rl_blockNumber y)"

lemma sorted_wrt_concat:
  assumes "sorted_wrt (\<lambda>xs ys. \<forall>x \<in> set xs. \<forall>y \<in> set ys. R x y) xss" "\<And>xs. xs \<in> set xss \<Longrightarrow> sorted_wrt R xs"
  shows "sorted_wrt R (concat xss)"
  using assms by (induction xss) (auto simp: sorted_wrt_append)

lemma chain_order_keys:
  assumes "sorted_wrt earlier_block blocks" "\<forall>b \<in> set blocks. sorted_wrt in_block_order b"
  shows "sorted_wrt (\<lambda>x y. log_key x < log_key y) (concat blocks)"
proof (rule sorted_wrt_concat)
  show "sorted_wrt (\<lambda>xs ys. \<forall>x \<in> set xs. \<forall>y \<in> set ys. log_key x < log_key y) blocks"
    by (rule sorted_wrt_mono_rel [OF _ assms(1)]) (auto simp: earlier_block_def log_key_def word_less_nat_alt)
  show "sorted_wrt (\<lambda>x y. log_key x < log_key y) b" if "b \<in> set blocks" for b
    by (rule sorted_wrt_mono_rel [of _ in_block_order])
      (use assms(2) that in \<open>auto simp: in_block_order_def log_key_def word_less_nat_alt word_le_nat_alt le_less\<close>)
qed

lemma fold_res_concat: "fold_res f (concat xss) s = fold_res (fold_res f) xss s"
  by (induction xss arbitrary: s) (simp_all add: fold_res_append bind_res_def split: sum.split)

text \<open>C24. A rebuild repeats the indexing. Let \<open>blocks\<close> be the canonical logs block by block in the order of the chain, as the
  indexer applied them. From a table that holds these logs in any order, together with any logs that are no
  longer canonical, \<open>Rebuild\<close> computes the state that applying the blocks one after the other gives, or
  throws what that throws.\<close>

theorem Rebuild_incremental:
  assumes "mset (filter rl_canonical logs) = mset (concat blocks)"
    and "sorted_wrt earlier_block blocks" "\<forall>b \<in> set blocks. sorted_wrt in_block_order b"
  shows "Rebuild keccak cc logs = fold_res (fold_res (Apply keccak cc)) blocks (CreateInitialState cc)"
proof -
  have strict: "sorted_wrt (<) (map log_key (concat blocks))"
    using chain_order_keys [OF assms(2,3)] by (simp add: sorted_wrt_map)
  then have "distinct (map log_key (concat blocks))" "sorted (map log_key (concat blocks))"
    by (simp_all add: strict_sorted_iff)
  then have "sort_key log_key (filter rl_canonical logs) = concat blocks"
    by (intro sort_key_inj_key_eq [OF assms(1)]) (simp_all add: distinct_map mset_eq_setD [OF assms(1)] del: set_filter)
  then show ?thesis unfolding Rebuild_def by (simp only: fold_res_concat)
qed

theorem Rebuild_incremental_witness:
  "Rebuild demo_keccak demo_contracts
     [demo_log\<lparr>rl_blockNumber := 9\<rparr>, demo_log\<lparr>rl_logIndex := 8\<rparr>, demo_log\<lparr>rl_canonical := False\<rparr>, demo_log\<lparr>rl_logIndex := 3\<rparr>]
     = fold_res (fold_res (Apply demo_keccak demo_contracts))
        [[demo_log\<lparr>rl_logIndex := 3\<rparr>, demo_log\<lparr>rl_logIndex := 8\<rparr>], [demo_log\<lparr>rl_blockNumber := 9\<rparr>]] (CreateInitialState demo_contracts)"
  by (rule Rebuild_incremental) (simp_all add: demo_log_def earlier_block_def in_block_order_def)

end
