(* ===== verification/Effects.thy ===== *)
theory Effects
  imports Prelude
begin

text \<open>
  Programs with a state and exceptions. A C++ method that changes stored state and may throw is a
  function from the state to a result and the state it leaves, also when it throws: what was written
  before the exception stays written. A database transaction is all or nothing (\<open>transact\<close>). The
  rules at the end derive what a program establishes, on a return and on an exception, from its
  parts.
\<close>

type_synonym ('s, 'a) prog = "'s \<Rightarrow> 'a res \<times> 's"

definition ret :: "'a \<Rightarrow> ('s, 'a) prog" where
  "ret x s = (Inr x, s)"

definition raise :: "exn \<Rightarrow> ('s, 'a) prog" where
  "raise e s = (Inl e, s)"

definition bindp :: "('s, 'a) prog \<Rightarrow> ('a \<Rightarrow> ('s, 'b) prog) \<Rightarrow> ('s, 'b) prog" where
  "bindp m f s = (case m s of (Inl e, s') \<Rightarrow> (Inl e, s') | (Inr x, s') \<Rightarrow> f x s')"

text \<open>A computation without state, a read, a transaction and an assignment.\<close>

definition liftp :: "'a res \<Rightarrow> ('s, 'a) prog" where
  "liftp r s = (r, s)"

definition query :: "('s \<Rightarrow> 'a res) \<Rightarrow> ('s, 'a) prog" where
  "query f s = (f s, s)"

definition transact :: "('s \<Rightarrow> ('a \<times> 's) res) \<Rightarrow> ('s, 'a) prog" where
  "transact f s = (case f s of Inl e \<Rightarrow> (Inl e, s) | Inr (x, s') \<Rightarrow> (Inr x, s'))"

definition modify :: "('s \<Rightarrow> 's) \<Rightarrow> ('s, unit) prog" where
  "modify f s = (Inr (), f s)"

definition catchp :: "('s, 'a) prog \<Rightarrow> (exn \<Rightarrow> ('s, 'a) prog) \<Rightarrow> ('s, 'a) prog" where
  "catchp m h s = (case m s of (Inl e, s') \<Rightarrow> h e s' | (Inr x, s') \<Rightarrow> (Inr x, s'))"

fun for_each :: "('a \<Rightarrow> ('s, unit) prog) \<Rightarrow> 'a list \<Rightarrow> ('s, unit) prog" where
  "for_each f [] = ret ()"
| "for_each f (x # xs) = bindp (f x) (\<lambda>_. for_each f xs)"

named_theorems prog_simps "evaluation of the program combinators"

lemmas prog_defs [prog_simps] = ret_def raise_def liftp_def query_def modify_def

lemma bindp_simps [prog_simps]:
  "m s = (Inr x, s') \<Longrightarrow> bindp m f s = f x s'"
  "m s = (Inl e, s') \<Longrightarrow> bindp m f s = (Inl e, s')"
  by (simp_all add: bindp_def)

lemma catchp_simps [prog_simps]:
  "m s = (Inr x, s') \<Longrightarrow> catchp m h s = (Inr x, s')"
  "m s = (Inl e, s') \<Longrightarrow> catchp m h s = h e s'"
  by (simp_all add: catchp_def)

lemma transact_simps [prog_simps]:
  "f s = Inr (x, s') \<Longrightarrow> transact f s = (Inr x, s')"
  "f s = Inl e \<Longrightarrow> transact f s = (Inl e, s)"
  by (simp_all add: transact_def)

lemma bindp_cases:
  assumes "bindp m f s = (r, t)"
  obtains (Return) x s' where "m s = (Inr x, s')" "f x s' = (r, t)"
    | (Throw) e where "m s = (Inl e, t)" "r = Inl e"
  using assms by (auto simp: bindp_def split: prod.splits sum.splits)

section \<open>What a program establishes\<close>

text \<open>\<open>valid P m Q E\<close>: from a state in \<open>P\<close>, a return satisfies \<open>Q\<close> and an exception \<open>E\<close>.\<close>

definition valid :: "('s \<Rightarrow> bool) \<Rightarrow> ('s, 'a) prog \<Rightarrow> ('a \<Rightarrow> 's \<Rightarrow> bool) \<Rightarrow> (exn \<Rightarrow> 's \<Rightarrow> bool) \<Rightarrow> bool" where
  "valid P m Q E \<longleftrightarrow> (\<forall>s. P s \<longrightarrow> (case m s of (Inr x, t) \<Rightarrow> Q x t | (Inl e, t) \<Rightarrow> E e t))"

text \<open>\<open>keeps P m\<close>: \<open>P\<close> survives, whether the program returns or throws.\<close>

abbreviation keeps :: "('s \<Rightarrow> bool) \<Rightarrow> ('s, 'a) prog \<Rightarrow> bool" where
  "keeps P m \<equiv> valid P m (\<lambda>_. P) (\<lambda>_. P)"

lemma validD:
  "valid P m Q E \<Longrightarrow> P s \<Longrightarrow> m s = (Inr x, t) \<Longrightarrow> Q x t"
  "valid P m Q E \<Longrightarrow> P s \<Longrightarrow> m s = (Inl e, t) \<Longrightarrow> E e t"
  by (auto simp: valid_def dest: spec [of _ s])

lemma keepsD: "keeps P m \<Longrightarrow> P s \<Longrightarrow> P (snd (m s))"
  by (cases "m s"; cases "fst (m s)") (auto dest: validD)

lemma validI:
  assumes "\<And>s x t. P s \<Longrightarrow> m s = (Inr x, t) \<Longrightarrow> Q x t" "\<And>s e t. P s \<Longrightarrow> m s = (Inl e, t) \<Longrightarrow> E e t"
  shows "valid P m Q E"
  using assms by (auto simp: valid_def split: sum.splits prod.splits)

lemma valid_weaken:
  assumes "valid P' m Q' E'" "\<And>s. P s \<Longrightarrow> P' s" "\<And>x s. Q' x s \<Longrightarrow> Q x s" "\<And>e s. E' e s \<Longrightarrow> E e s"
  shows "valid P m Q E"
  by (rule validI) (use assms validD [OF assms(1)] in blast)+

lemma valid_pre: "valid P' m Q E \<Longrightarrow> (\<And>s. P s \<Longrightarrow> P' s) \<Longrightarrow> valid P m Q E"
  by (rule valid_weaken)

lemma valid_conj:
  assumes "valid P m Q E" "valid P' m Q' E'"
  shows "valid (\<lambda>s. P s \<and> P' s) m (\<lambda>x s. Q x s \<and> Q' x s) (\<lambda>e s. E e s \<and> E' e s)"
  by (rule validI) (use validD [OF assms(1)] validD [OF assms(2)] in blast)+

lemma valid_pre_conj: "(A \<Longrightarrow> valid P m Q E) \<Longrightarrow> valid (\<lambda>w. P w \<and> A) m Q E"
  by (auto simp: valid_def)

lemma bindp_liftp_Inr: "bindp (liftp (Inr x)) f = f x"
  by (simp add: bindp_def liftp_def fun_eq_iff)

lemma valid_ret: "(\<And>s. P s \<Longrightarrow> Q x s) \<Longrightarrow> valid P (ret x) Q E"
  by (simp add: valid_def ret_def)

lemma valid_raise: "(\<And>s. P s \<Longrightarrow> E e s) \<Longrightarrow> valid P (raise e) Q E"
  by (simp add: valid_def raise_def)

lemma valid_liftp: "(\<And>x s. P s \<Longrightarrow> r = Inr x \<Longrightarrow> Q x s) \<Longrightarrow> (\<And>e s. P s \<Longrightarrow> r = Inl e \<Longrightarrow> E e s) \<Longrightarrow> valid P (liftp r) Q E"
  by (auto simp: valid_def liftp_def split: sum.splits)

lemma valid_query:
  "(\<And>x s. P s \<Longrightarrow> f s = Inr x \<Longrightarrow> Q x s) \<Longrightarrow> (\<And>e s. P s \<Longrightarrow> f s = Inl e \<Longrightarrow> E e s) \<Longrightarrow> valid P (query f) Q E"
  by (auto simp: valid_def query_def split: sum.splits)

lemma valid_transact:
  "(\<And>x s t. P s \<Longrightarrow> f s = Inr (x, t) \<Longrightarrow> Q x t) \<Longrightarrow> (\<And>e s. P s \<Longrightarrow> f s = Inl e \<Longrightarrow> E e s) \<Longrightarrow>
    valid P (transact f) Q E"
  by (auto simp: valid_def transact_def split: sum.splits)

lemma valid_modify: "(\<And>s. P s \<Longrightarrow> Q () (f s)) \<Longrightarrow> valid P (modify f) Q E"
  by (simp add: valid_def modify_def)

lemma valid_bindp: "valid P m R E \<Longrightarrow> (\<And>x. valid (R x) (f x) Q E) \<Longrightarrow> valid P (bindp m f) Q E"
  by (rule validI) (auto elim!: bindp_cases dest: validD)

lemma valid_catchp: "valid P m Q R \<Longrightarrow> (\<And>e. valid (R e) (h e) Q E) \<Longrightarrow> valid P (catchp m h) Q E"
  by (rule validI) (auto simp: catchp_def dest: validD split: prod.splits sum.splits)

lemma valid_if: "(b \<Longrightarrow> valid P m Q E) \<Longrightarrow> (\<not> b \<Longrightarrow> valid P n Q E) \<Longrightarrow> valid P (if b then m else n) Q E"
  by simp

lemma valid_case_option:
  "(v = None \<Longrightarrow> valid P m Q E) \<Longrightarrow> (\<And>x. v = Some x \<Longrightarrow> valid P (f x) Q E) \<Longrightarrow>
    valid P (case v of None \<Rightarrow> m | Some x \<Rightarrow> f x) Q E"
  by (cases v) simp_all

lemma keeps_for_each: "(\<And>x. x \<in> set xs \<Longrightarrow> keeps P (f x)) \<Longrightarrow> keeps P (for_each f xs)"
  by (induction xs) (auto intro: valid_ret valid_bindp)

lemma keeps_query: "keeps P (query f)"
  by (rule valid_query)

lemma keeps_liftp: "keeps P (liftp r)"
  by (rule valid_liftp)

lemma keeps_ret: "keeps P (ret x)"
  by (rule valid_ret)

lemma keeps_raise: "keeps P (raise e)"
  by (rule valid_raise)

lemma keeps_bindp: "keeps P m \<Longrightarrow> (\<And>x. keeps P (f x)) \<Longrightarrow> keeps P (bindp m f)"
  by (rule valid_bindp)

lemmas keeps_intros = keeps_ret keeps_raise keeps_liftp keeps_query keeps_for_each keeps_bindp valid_if
  valid_case_option

end
