(* ===== verification/Json.thy ===== *)
theory Json
  imports Prelude
begin

text \<open>
  The JSON values of the third-party library \<open>nlohmann::json\<close> and the accessors the sources use.
  Objects are association lists with one entry per key. A number that is not a natural number is
  \<open>J_Frac m k\<close>, the double or the negative integer \<open>m / 2 ^ k\<close>. Parsing text and printing it are the
  library's; an access that the library answers with an exception is \<open>Json_Error\<close>.
\<close>

datatype json =
    J_Null
  | J_Bool bool
  | J_Num nat
  | J_Frac int nat
  | J_Str string
  | J_Arr "json list"
  | J_Obj "(string \<times> json) list"

fun json_find :: "string \<Rightarrow> json \<Rightarrow> json option" where
  "json_find key (J_Obj fields) = map_of fields key"
| "json_find key _ = None"

fun is_object :: "json \<Rightarrow> bool" where
  "is_object (J_Obj _) = True"
| "is_object _ = False"

text \<open>\<open>value(key, default)\<close> with a string default: only an object has it, and a present field must be a
  string.\<close>

definition json_value :: "json \<Rightarrow> string \<Rightarrow> string \<Rightarrow> string res" where
  "json_value j key otherwise =
     (if \<not> is_object j then Inl Json_Error
      else case json_find key j of
        None \<Rightarrow> Inr otherwise
      | Some (J_Str s) \<Rightarrow> Inr s
      | Some _ \<Rightarrow> Inl Json_Error)"

text \<open>Equality with an unsigned number: numbers compare by their value, whatever their kind.\<close>

fun json_is_number :: "json \<Rightarrow> nat \<Rightarrow> bool" where
  "json_is_number (J_Num m) n \<longleftrightarrow> m = n"
| "json_is_number (J_Frac m k) n \<longleftrightarrow> m = int n * 2 ^ k"
| "json_is_number _ n \<longleftrightarrow> False"

end
