(* ===== verification/Db.thy ===== *)
theory Db
  imports Effects Uint256 Json
begin

text \<open>
  The database vocabulary the stores share: \<open>BIGINT\<close> columns, tables as lists of rows
  with a primary key and the statements the sources execute on them, and the transactional outbox
  that the indexer, the risk worker and the liquidator write their events to. Text, \<open>NUMERIC\<close> and
  \<open>CHAR\<close> columns hold the text the program binds; timestamps such as \<open>indexed_at\<close>, which no
  statement of the program reads, are left out.
\<close>

section \<open>Values\<close>

text \<open>A 64-bit unsigned parameter bound to a \<open>BIGINT\<close>: the database rejects what does not fit.\<close>

definition bigint :: "uint64 \<Rightarrow> nat res" where
  "bigint n = (if unat n < 2 ^ 63 then Inr (unat n) else Inl Sql_Error)"

lemma bigint_Inr: "bigint n = Inr k \<longleftrightarrow> unat n < 2 ^ 63 \<and> k = unat n"
  by (auto simp: bigint_def)

section \<open>Tables\<close>

text \<open>\<open>INSERT\<close> (a duplicate key is an error), \<open>INSERT ... ON CONFLICT DO NOTHING\<close> and
  \<open>INSERT ... ON CONFLICT DO UPDATE SET\<close> every other column.\<close>

definition insert_row :: "('r \<Rightarrow> 'k) \<Rightarrow> 'r \<Rightarrow> 'r list \<Rightarrow> 'r list res" where
  "insert_row key r rows = (if key r \<in> key ` set rows then Inl Sql_Error else Inr (rows @ [r]))"

definition insert_ignore :: "('r \<Rightarrow> 'k) \<Rightarrow> 'r \<Rightarrow> 'r list \<Rightarrow> 'r list" where
  "insert_ignore key r rows = (if key r \<in> key ` set rows then rows else rows @ [r])"

definition upsert :: "('r \<Rightarrow> 'k) \<Rightarrow> 'r \<Rightarrow> 'r list \<Rightarrow> 'r list" where
  "upsert key r rows =
     (if key r \<in> key ` set rows then map (\<lambda>x. if key x = key r then r else x) rows else rows @ [r])"

lemma distinct_insert_row:
  "insert_row key r rows = Inr rows' \<Longrightarrow> distinct (map key rows) \<Longrightarrow> distinct (map key rows')"
  by (auto simp: insert_row_def split: if_splits)

lemma insert_ignore_keys: "key ` set (insert_ignore key r rows) = insert (key r) (key ` set rows)"
  by (auto simp: insert_ignore_def)

lemma distinct_insert_ignore: "distinct (map key rows) \<Longrightarrow> distinct (map key (insert_ignore key r rows))"
  by (simp add: insert_ignore_def)

lemma map_key_upsert: "map key (upsert key r rows) =
    (if key r \<in> key ` set rows then map key rows else map key rows @ [key r])"
  by (simp add: upsert_def)

lemma distinct_upsert: "distinct (map key rows) \<Longrightarrow> distinct (map key (upsert key r rows))"
  by (simp add: map_key_upsert)

lemma set_upsert:
  assumes "distinct (map key rows)"
  shows "set (upsert key r rows) = insert r {x \<in> set rows. key x \<noteq> key r}"
  using assms by (auto simp: upsert_def image_iff)

text \<open>On rows with pairwise different keys, an upsert replaces the row with the key, if any.\<close>

lemma insert_rows:
  assumes "distinct (map key (rows @ new))"
  shows "fold_res (insert_row key) new rows = Inr (rows @ new)"
  using assms
proof (induction new arbitrary: rows)
  case Nil
  then show ?case by simp
next
  case (Cons r new)
  then have "insert_row key r rows = Inr (rows @ [r])" by (auto simp: insert_row_def)
  with Cons show ?case by simp
qed

section \<open>The outbox\<close>

record OutboxRow =
  ob_event_id :: string
  ob_event_type :: string
  ob_aggregate_id :: string
  ob_chain_id :: string
  ob_block_number :: nat
  ob_block_hash :: string
  ob_transaction_hash :: "string option"
  ob_log_index :: "nat option"
  ob_canonical_version :: nat
  ob_payload :: json
  ob_published :: bool

definition outbox_insert :: "OutboxRow \<Rightarrow> OutboxRow list \<Rightarrow> OutboxRow list" where
  "outbox_insert r rows = insert_ignore ob_event_id r rows"

lemma outbox_insert_twice: "outbox_insert r' (outbox_insert r rows) = outbox_insert r rows"
  if "ob_event_id r' = ob_event_id r"
  using that by (auto simp: outbox_insert_def insert_ignore_def)

lemma outbox_insert_keeps: "set rows \<subseteq> set (outbox_insert r rows)"
  by (auto simp: outbox_insert_def insert_ignore_def)

end
