(* ===== verification/Indexer_Store.thy ===== *)
theory Indexer_Store
  imports Db State_Projector
begin

text \<open>
  \<open>cpp/indexer/src/PostgresStore.cpp\<close>: the tables of the indexer (\<open>database/migrations\<close> 001 to 008)
  and the statements the store executes on them. A read returns what the C++ code parses from the
  rows; \<open>CommitBlock\<close> and \<open>RewindTo\<close> are one transaction each, so they return the new database
  or, on an exception, leave the old one. The fifteen \<open>NUMERIC\<close> columns of a market are listed in
  the order of the statement. The \<open>JSONB\<close> array of topics is the list of its strings. The payload
  of a reorganisation event, which no consumer reads, holds the ancestor's hash as a string or null;
  whether the JSON library wraps the brace-initialised value in an array depends on the compiler.
\<close>

section \<open>Tables\<close>

record BlockRow =
  br_chain :: string
  br_number :: nat
  br_hash :: string
  br_parent :: string
  br_canonical :: bool

record LogRow =
  lr_chain :: string
  lr_number :: nat
  lr_block_hash :: string
  lr_tx_hash :: string
  lr_tx_index :: nat
  lr_log_index :: nat
  lr_contract :: string
  lr_topics :: "string list"
  lr_data :: string
  lr_canonical :: bool

record PositionRow =
  pw_chain :: string
  pw_user :: string
  pw_weth_collateral :: string
  pw_scaled_usdc_supply :: string
  pw_scaled_usdc_debt :: string

record MarketRow =
  mw_chain :: string
  mw_pool :: string
  mw_oracle :: string
  mw_weth :: string
  mw_usdc :: string
  mw_numbers :: "string list"

record LiquidationRow =
  lw_chain :: string
  lw_number :: nat
  lw_block_hash :: string
  lw_tx_hash :: string
  lw_log_index :: nat
  lw_liquidator :: string
  lw_borrower :: string
  lw_debt_asset :: string
  lw_collateral_asset :: string
  lw_repaid :: string
  lw_seized :: string

record IndexerDb =
  db_blocks :: "BlockRow list"
  db_logs :: "LogRow list"
  db_sync :: "string \<rightharpoonup> nat \<times> string"
  db_positions :: "PositionRow list"
  db_markets :: "MarketRow list"
  db_liquidations :: "LiquidationRow list"
  db_versions :: "string \<rightharpoonup> nat"
  db_outbox :: "OutboxRow list"

text \<open>The primary keys.\<close>

definition block_key :: "BlockRow \<Rightarrow> string \<times> string" where
  "block_key r = (br_chain r, br_hash r)"

definition log_row_key :: "LogRow \<Rightarrow> string \<times> string \<times> string \<times> nat" where
  "log_row_key r = (lr_chain r, lr_block_hash r, lr_tx_hash r, lr_log_index r)"

definition position_key :: "PositionRow \<Rightarrow> string \<times> string" where
  "position_key r = (pw_chain r, pw_user r)"

definition liquidation_key :: "LiquidationRow \<Rightarrow> string \<times> string \<times> string \<times> nat" where
  "liquidation_key r = (lw_chain r, lw_block_hash r, lw_tx_hash r, lw_log_index r)"

section \<open>Rows and values\<close>

definition database_hash_error :: exn where
  "database_hash_error = Invalid_Argument ''database hash must contain 32 bytes''"

definition db_ParseHash :: "string \<Rightarrow> hash256 res" where
  "db_ParseHash value = ParseHash database_hash_error value"

definition EncodeTopics :: "hash256 list \<Rightarrow> string list" where
  "EncodeTopics topics = map (\<lambda>t. Hex_Encode t True) topics"

definition ParseTopics :: "string list \<Rightarrow> hash256 list res" where
  "ParseTopics topics = map_res db_ParseHash topics"

definition ParseRawLog :: "LogRow \<Rightarrow> RawLog res" where
  "ParseRawLog r =
     bind_res (FromDecimal (lr_chain r)) (\<lambda>chainId.
     bind_res (db_ParseHash (lr_block_hash r)) (\<lambda>blockHash.
     bind_res (db_ParseHash (lr_tx_hash r)) (\<lambda>transactionHash.
     bind_res (Address_FromHex (lr_contract r)) (\<lambda>contractAddress.
     bind_res (ParseTopics (lr_topics r)) (\<lambda>topics.
     bind_res (Hex_Decode (lr_data r)) (\<lambda>d.
     Inr \<lparr>rl_chainId = chainId, rl_blockNumber = of_nat (lr_number r), rl_blockHash = blockHash,
          rl_transactionHash = transactionHash, rl_transactionIndex = of_nat (lr_tx_index r),
          rl_logIndex = of_nat (lr_log_index r), rl_contractAddress = contractAddress,
          rl_topics = topics, rl_data = d, rl_canonical = lr_canonical r\<rparr>))))))"

definition log_row :: "string \<Rightarrow> RawLog \<Rightarrow> LogRow res" where
  "log_row chain log =
     bind_res (bigint (rl_blockNumber log)) (\<lambda>number.
     bind_res (bigint (rl_transactionIndex log)) (\<lambda>txIndex.
     bind_res (bigint (rl_logIndex log)) (\<lambda>logIndex.
     Inr \<lparr>lr_chain = chain, lr_number = number, lr_block_hash = Hex_Encode (rl_blockHash log) True,
          lr_tx_hash = Hex_Encode (rl_transactionHash log) True, lr_tx_index = txIndex,
          lr_log_index = logIndex, lr_contract = Address_ToHex (rl_contractAddress log) True,
          lr_topics = EncodeTopics (rl_topics log), lr_data = Hex_Encode (rl_data log) True,
          lr_canonical = True\<rparr>)))"

definition position_row :: "string \<Rightarrow> address \<Rightarrow> PositionState \<Rightarrow> PositionRow" where
  "position_row chain user p =
     \<lparr>pw_chain = chain, pw_user = Address_ToHex user True,
      pw_weth_collateral = ToDecimal (ps_wethCollateral p),
      pw_scaled_usdc_supply = ToDecimal (ps_scaledUsdcSupply p),
      pw_scaled_usdc_debt = ToDecimal (ps_scaledUsdcDebt p)\<rparr>"

definition ParsePosition :: "PositionRow \<Rightarrow> PositionState res" where
  "ParsePosition r =
     bind_res (Address_FromHex (pw_user r)) (\<lambda>a.
     bind_res (FromDecimal (pw_weth_collateral r)) (\<lambda>c.
     bind_res (FromDecimal (pw_scaled_usdc_supply r)) (\<lambda>s.
     bind_res (FromDecimal (pw_scaled_usdc_debt r)) (\<lambda>d.
     Inr \<lparr>ps_user = a, ps_wethCollateral = c, ps_scaledUsdcSupply = s, ps_scaledUsdcDebt = d\<rparr>))))"

definition market_columns :: "MarketState \<Rightarrow> uint256 list" where
  "market_columns m =
     [mk_totalWethCollateral m, mk_totalScaledUsdcSupply m, mk_totalScaledUsdcDebt m,
      mk_availableUsdcLiquidity m, mk_protocolReserve m, mk_badDebt m, mk_borrowIndex m,
      mk_liquidityIndex m, mk_lastInterestTimestamp m, mk_wethPrice m, mk_wethPriceUpdatedAt m,
      mk_wethMaxPriceAge m, mk_usdcPrice m, mk_usdcPriceUpdatedAt m, mk_usdcMaxPriceAge m]"

definition market_row :: "string \<Rightarrow> MarketState \<Rightarrow> MarketRow" where
  "market_row chain m =
     \<lparr>mw_chain = chain, mw_pool = Address_ToHex (cc_pool (mk_contracts m)) True,
      mw_oracle = Address_ToHex (cc_oracle (mk_contracts m)) True,
      mw_weth = Address_ToHex (cc_weth (mk_contracts m)) True,
      mw_usdc = Address_ToHex (cc_usdc (mk_contracts m)) True,
      mw_numbers = map ToDecimal (market_columns m)\<rparr>"

definition ParseMarket :: "ChainContracts \<Rightarrow> MarketRow \<Rightarrow> MarketState res" where
  "ParseMarket contracts r =
     bind_res (Address_FromHex (mw_pool r)) (\<lambda>pool.
     bind_res (Address_FromHex (mw_oracle r)) (\<lambda>oracle.
     bind_res (Address_FromHex (mw_weth r)) (\<lambda>weth.
     bind_res (Address_FromHex (mw_usdc r)) (\<lambda>usdc.
     if pool \<noteq> cc_pool contracts \<or> oracle \<noteq> cc_oracle contracts \<or> weth \<noteq> cc_weth contracts \<or>
        usdc \<noteq> cc_usdc contracts
     then Inl (Runtime_Error ''configured contract addresses do not match indexed market state'')
     else bind_res (map_res FromDecimal (mw_numbers r)) (\<lambda>ns.
     Inr \<lparr>mk_contracts = contracts, mk_totalWethCollateral = ns ! 0, mk_totalScaledUsdcSupply = ns ! 1,
          mk_totalScaledUsdcDebt = ns ! 2, mk_availableUsdcLiquidity = ns ! 3, mk_protocolReserve = ns ! 4,
          mk_badDebt = ns ! 5, mk_borrowIndex = ns ! 6, mk_liquidityIndex = ns ! 7,
          mk_lastInterestTimestamp = ns ! 8, mk_wethPrice = ns ! 9, mk_wethPriceUpdatedAt = ns ! 10,
          mk_wethMaxPriceAge = ns ! 11, mk_usdcPrice = ns ! 12, mk_usdcPriceUpdatedAt = ns ! 13,
          mk_usdcMaxPriceAge = ns ! 14\<rparr>)))))"

definition liquidation_row :: "string \<Rightarrow> LiquidationState \<Rightarrow> LiquidationRow res" where
  "liquidation_row chain l =
     bind_res (bigint (ls_blockNumber l)) (\<lambda>number.
     bind_res (bigint (ls_logIndex l)) (\<lambda>logIndex.
     Inr \<lparr>lw_chain = chain, lw_number = number, lw_block_hash = Hex_Encode (ls_blockHash l) True,
          lw_tx_hash = Hex_Encode (ls_transactionHash l) True, lw_log_index = logIndex,
          lw_liquidator = Address_ToHex (ls_liquidator l) True,
          lw_borrower = Address_ToHex (ls_borrower l) True,
          lw_debt_asset = Address_ToHex (ls_debtAsset l) True,
          lw_collateral_asset = Address_ToHex (ls_collateralAsset l) True,
          lw_repaid = ToDecimal (ls_repaidAmount l), lw_seized = ToDecimal (ls_collateralSeized l)\<rparr>))"

definition ParseLiquidation :: "uint256 \<Rightarrow> LiquidationRow \<Rightarrow> LiquidationState res" where
  "ParseLiquidation chainId r =
     bind_res (db_ParseHash (lw_block_hash r)) (\<lambda>blockHash.
     bind_res (db_ParseHash (lw_tx_hash r)) (\<lambda>txHash.
     bind_res (Address_FromHex (lw_liquidator r)) (\<lambda>liquidator.
     bind_res (Address_FromHex (lw_borrower r)) (\<lambda>borrower.
     bind_res (Address_FromHex (lw_debt_asset r)) (\<lambda>debtAsset.
     bind_res (Address_FromHex (lw_collateral_asset r)) (\<lambda>collateralAsset.
     bind_res (FromDecimal (lw_repaid r)) (\<lambda>repaid.
     bind_res (FromDecimal (lw_seized r)) (\<lambda>seized.
     Inr \<lparr>ls_chainId = chainId, ls_blockNumber = of_nat (lw_number r), ls_blockHash = blockHash,
          ls_transactionHash = txHash, ls_logIndex = of_nat (lw_log_index r), ls_liquidator = liquidator,
          ls_borrower = borrower, ls_debtAsset = debtAsset, ls_collateralAsset = collateralAsset,
          ls_repaidAmount = repaid, ls_collateralSeized = seized\<rparr>))))))))"

section \<open>Reads\<close>

definition pg_LoadCursor :: "IndexerDb \<Rightarrow> uint256 \<Rightarrow> SyncCursor option res" where
  "pg_LoadCursor db chainId =
     (case db_sync db (ToDecimal chainId) of
        None \<Rightarrow> Inr None
      | Some (number, hash) \<Rightarrow> bind_res (db_ParseHash hash) (\<lambda>h.
          Inr (Some \<lparr>sc_chainId = chainId, sc_blockNumber = of_nat number, sc_blockHash = h\<rparr>)))"

definition pg_LoadCanonicalBlock :: "IndexerDb \<Rightarrow> uint256 \<Rightarrow> uint64 \<Rightarrow> IndexedBlock option res" where
  "pg_LoadCanonicalBlock db chainId blockNumber =
     bind_res (bigint blockNumber) (\<lambda>number.
     case filter (\<lambda>r. br_chain r = ToDecimal chainId \<and> br_number r = number \<and> br_canonical r) (db_blocks db) of
       [] \<Rightarrow> Inr None
     | r # _ \<Rightarrow> bind_res (db_ParseHash (br_hash r)) (\<lambda>hash.
                bind_res (db_ParseHash (br_parent r)) (\<lambda>parentHash.
                Inr (Some \<lparr>ib_chainId = chainId, ib_number = blockNumber, ib_hash = hash,
                           ib_parentHash = parentHash, ib_canonical = True\<rparr>))))"

definition pg_LoadCanonicalLogsThrough :: "IndexerDb \<Rightarrow> uint256 \<Rightarrow> uint64 \<Rightarrow> RawLog list res" where
  "pg_LoadCanonicalLogsThrough db chainId blockNumber =
     bind_res (bigint blockNumber) (\<lambda>number.
     map_res ParseRawLog
       (sort_key (\<lambda>r. [lr_number r, lr_tx_index r, lr_log_index r])
         (filter (\<lambda>r. lr_chain r = ToDecimal chainId \<and> lr_canonical r \<and> lr_number r \<le> number) (db_logs db))))"

text \<open>\<open>emplace\<close> keeps the position that is already there.\<close>

definition emplace_position :: "PositionRow \<Rightarrow> (address \<rightharpoonup> PositionState) \<Rightarrow> (address \<rightharpoonup> PositionState) res" where
  "emplace_position r m =
     map_result (\<lambda>p. if m (ps_user p) = None then m(ps_user p \<mapsto> p) else m) (ParsePosition r)"

definition pg_LoadDerivedState :: "IndexerDb \<Rightarrow> uint256 \<Rightarrow> ChainContracts \<Rightarrow> DerivedState res" where
  "pg_LoadDerivedState db chainId contracts =
     (let chain = ToDecimal chainId; initial = CreateInitialState contracts in
     bind_res (fold_res emplace_position (filter (\<lambda>r. pw_chain r = chain) (db_positions db)) Map.empty) (\<lambda>positions.
     bind_res (case filter (\<lambda>r. mw_chain r = chain) (db_markets db) of
                 [] \<Rightarrow> Inr (ds_market initial)
               | r # _ \<Rightarrow> ParseMarket contracts r) (\<lambda>market.
     bind_res (map_res (ParseLiquidation chainId)
                 (sort_key (\<lambda>r. [lw_number r, lw_log_index r])
                   (filter (\<lambda>r. lw_chain r = chain) (db_liquidations db)))) (\<lambda>liquidations.
     Inr \<lparr>ds_positions = positions, ds_market = market, ds_liquidations = liquidations\<rparr>))))"

section \<open>Writes\<close>

definition AdvanceCanonicalVersion :: "IndexerDb \<Rightarrow> string \<Rightarrow> (nat \<times> IndexerDb) res" where
  "AdvanceCanonicalVersion db chain =
     (let version = (case db_versions db chain of None \<Rightarrow> 1 | Some v \<Rightarrow> v + 1) in
      if version < 2 ^ 63 then Inr (version, db\<lparr>db_versions := (db_versions db)(chain \<mapsto> version)\<rparr>)
      else Inl Sql_Error)"

definition InsertOutboxEvent ::
  "IndexerDb \<Rightarrow> string \<Rightarrow> string \<Rightarrow> string \<Rightarrow> string \<Rightarrow> uint64 \<Rightarrow> hash256 \<Rightarrow> nat \<Rightarrow> json \<Rightarrow> IndexerDb res" where
  "InsertOutboxEvent db eventId eventType aggregateId chain blockNumber blockHash canonicalVersion payload =
     bind_res (bigint blockNumber) (\<lambda>number.
     Inr (db\<lparr>db_outbox := outbox_insert
       \<lparr>ob_event_id = eventId, ob_event_type = eventType, ob_aggregate_id = aggregateId, ob_chain_id = chain,
        ob_block_number = number, ob_block_hash = Hex_Encode blockHash True, ob_transaction_hash = None,
        ob_log_index = None, ob_canonical_version = canonicalVersion, ob_payload = payload,
        ob_published = False\<rparr> (db_outbox db)\<rparr>))"

definition ReplaceDerivedState :: "IndexerDb \<Rightarrow> uint256 \<Rightarrow> DerivedState \<Rightarrow> IndexerDb res" where
  "ReplaceDerivedState db chainId state =
     (let chain = ToDecimal chainId;
          positions = filter (\<lambda>r. pw_chain r \<noteq> chain) (db_positions db);
          markets = filter (\<lambda>r. mw_chain r \<noteq> chain) (db_markets db);
          liquidations = filter (\<lambda>r. lw_chain r \<noteq> chain) (db_liquidations db)
      in
      bind_res (fold_res (\<lambda>a. insert_row position_key (position_row chain a (the (ds_positions state a))))
                  (sorted_list_of_set (dom (ds_positions state))) positions) (\<lambda>positions.
      bind_res (insert_row mw_chain (market_row chain (ds_market state)) markets) (\<lambda>markets.
      bind_res (fold_res (\<lambda>l rows. bind_res (liquidation_row chain l) (\<lambda>r. insert_row liquidation_key r rows))
                  (ds_liquidations state) liquidations) (\<lambda>liquidations.
      Inr (db\<lparr>db_positions := positions, db_markets := markets, db_liquidations := liquidations\<rparr>)))))"

text \<open>The unique index on the canonical height.\<close>

definition one_canonical_height :: "BlockRow list \<Rightarrow> bool" where
  "one_canonical_height rows \<longleftrightarrow>
     distinct (map (\<lambda>r. (br_chain r, br_number r)) (filter br_canonical rows))"

definition upsert_block :: "IndexerDb \<Rightarrow> BlockRow \<Rightarrow> IndexerDb res" where
  "upsert_block db r =
     (let rows = upsert block_key r (db_blocks db) in
      if one_canonical_height rows then Inr (db\<lparr>db_blocks := rows\<rparr>) else Inl Sql_Error)"

definition set_cursor :: "IndexerDb \<Rightarrow> string \<Rightarrow> uint64 \<Rightarrow> hash256 \<Rightarrow> IndexerDb res" where
  "set_cursor db chain blockNumber blockHash =
     bind_res (bigint blockNumber) (\<lambda>number.
     Inr (db\<lparr>db_sync := (db_sync db)(chain \<mapsto> (number, Hex_Encode blockHash True))\<rparr>))"

definition pg_CommitBlock :: "IndexerDb \<Rightarrow> IndexedBlock \<Rightarrow> RawLog list \<Rightarrow> DerivedState \<Rightarrow> IndexerDb res" where
  "pg_CommitBlock db block logs state =
     (let chain = ToDecimal (ib_chainId block) in
     bind_res (bigint (ib_number block)) (\<lambda>number.
     bind_res (upsert_block db \<lparr>br_chain = chain, br_number = number, br_hash = Hex_Encode (ib_hash block) True,
                 br_parent = Hex_Encode (ib_parentHash block) True, br_canonical = True\<rparr>) (\<lambda>db.
     bind_res (map_res (log_row chain) logs) (\<lambda>rows.
     bind_res (ReplaceDerivedState (db\<lparr>db_logs := fold (upsert log_row_key) rows (db_logs db)\<rparr>)
                 (ib_chainId block) state) (\<lambda>db.
     bind_res (AdvanceCanonicalVersion db chain) (\<lambda>(canonicalVersion, db).
     bind_res (set_cursor db chain (ib_number block) (ib_hash block)) (\<lambda>db.
     InsertOutboxEvent db (''chain.block.processed:'' @ chain @ '':'' @ Hex_Encode (ib_hash block) False)
       ''chain.block.processed'' (''chain:'' @ chain) chain (ib_number block) (ib_hash block) canonicalVersion
       (J_Obj [(''parentHash'', J_Str (Hex_Encode (ib_parentHash block) True))]))))))))"

definition uncanonical_above :: "string \<Rightarrow> (nat \<Rightarrow> bool) \<Rightarrow> IndexerDb \<Rightarrow> IndexerDb" where
  "uncanonical_above chain beyond db =
     db\<lparr>db_blocks := map (\<lambda>r. if br_chain r = chain \<and> br_canonical r \<and> beyond (br_number r)
                             then r\<lparr>br_canonical := False\<rparr> else r) (db_blocks db),
        db_logs := map (\<lambda>r. if lr_chain r = chain \<and> lr_canonical r \<and> beyond (lr_number r)
                           then r\<lparr>lr_canonical := False\<rparr> else r) (db_logs db)\<rparr>"

definition pg_RewindTo :: "IndexerDb \<Rightarrow> uint256 \<Rightarrow> IndexedBlock option \<Rightarrow> DerivedState \<Rightarrow> IndexerDb res" where
  "pg_RewindTo db chainId ancestor state =
     (let chain = ToDecimal chainId in
     bind_res (AdvanceCanonicalVersion db chain) (\<lambda>(canonicalVersion, db).
     bind_res (case ancestor of
                 Some a \<Rightarrow> map_result (\<lambda>number. uncanonical_above chain (\<lambda>n. n > number) db) (bigint (ib_number a))
               | None \<Rightarrow> Inr (uncanonical_above chain (\<lambda>_. True) db)) (\<lambda>db.
     bind_res (ReplaceDerivedState db chainId state) (\<lambda>db.
     bind_res (case ancestor of
                 Some a \<Rightarrow> set_cursor db chain (ib_number a) (ib_hash a)
               | None \<Rightarrow> Inr (db\<lparr>db_sync := (db_sync db)(chain := None)\<rparr>)) (\<lambda>db.
     let ancestorNumber = (case ancestor of Some a \<Rightarrow> ib_number a | None \<Rightarrow> 0);
         ancestorHash = (case ancestor of Some a \<Rightarrow> ib_hash a | None \<Rightarrow> replicate 32 0)
     in InsertOutboxEvent db (''chain.reorg:'' @ chain @ '':'' @ show_nat canonicalVersion) ''chain.reorg''
          (''chain:'' @ chain) chain ancestorNumber ancestorHash canonicalVersion
          (J_Obj [(''ancestorBlockNumber'', J_Num (unat ancestorNumber)),
                  (''ancestorBlockHash'', case ancestor of
                      Some a \<Rightarrow> J_Str (Hex_Encode (ib_hash a) True) | None \<Rightarrow> J_Null)]))))))"

end
