(* ===== verification/Projector_Values.thy ===== *)
theory Projector_Values
  imports Projector_Accounting
begin

text \<open>
  The values the projector works on: lengths of hashes and addresses (the C++ array types), the
  chain of a log, and the order of the recorded liquidations. A rebuild from well-formed logs gives
  a well-formed state.
\<close>

section \<open>Well-formed values\<close>

definition log_wf :: "uint256 \<Rightarrow> RawLog \<Rightarrow> bool" where
  "log_wf cid l \<longleftrightarrow> rl_chainId l = cid \<and> length (rl_blockHash l) = 32 \<and> length (rl_transactionHash l) = 32 \<and>
     length (rl_contractAddress l) = 20 \<and> list_all (\<lambda>t. length t = 32) (rl_topics l) \<and> rl_canonical l"

definition position_wf :: "address \<Rightarrow> PositionState \<Rightarrow> bool" where
  "position_wf u p \<longleftrightarrow> length u = 20 \<and> ps_user p = u"

definition contracts_wf :: "ChainContracts \<Rightarrow> bool" where
  "contracts_wf cc \<longleftrightarrow> length (cc_pool cc) = 20 \<and> length (cc_oracle cc) = 20 \<and> length (cc_weth cc) = 20 \<and>
     length (cc_usdc cc) = 20"

definition liquidation_wf :: "uint256 \<Rightarrow> LiquidationState \<Rightarrow> bool" where
  "liquidation_wf cid l \<longleftrightarrow> ls_chainId l = cid \<and> length (ls_blockHash l) = 32 \<and>
     length (ls_transactionHash l) = 32 \<and> length (ls_liquidator l) = 20 \<and> length (ls_borrower l) = 20 \<and>
     length (ls_debtAsset l) = 20 \<and> length (ls_collateralAsset l) = 20"

definition liquidation_order :: "LiquidationState \<Rightarrow> nat list" where
  "liquidation_order l = [unat (ls_blockNumber l), unat (ls_logIndex l)]"

definition log_order :: "RawLog \<Rightarrow> nat list" where
  "log_order l = [unat (rl_blockNumber l), unat (rl_logIndex l)]"

definition core_wf :: "uint256 \<Rightarrow> ChainContracts \<Rightarrow> DerivedState \<Rightarrow> bool" where
  "core_wf cid cc s \<longleftrightarrow> projector_inv s \<and> (\<forall>u \<in> dom (ds_positions s). length u = 20) \<and>
     mk_contracts (ds_market s) = cc \<and> contracts_wf cc \<and> list_all (liquidation_wf cid) (ds_liquidations s)"

definition state_wf :: "uint256 \<Rightarrow> ChainContracts \<Rightarrow> DerivedState \<Rightarrow> bool" where
  "state_wf cid cc s \<longleftrightarrow> finite (dom (ds_positions s)) \<and>
     (\<forall>u p. ds_positions s u = Some p \<longrightarrow> position_wf u p) \<and>
     mk_contracts (ds_market s) = cc \<and> contracts_wf cc \<and>
     list_all (liquidation_wf cid) (ds_liquidations s) \<and> sorted (map liquidation_order (ds_liquidations s))"

lemma state_wfI: "core_wf cid cc s \<Longrightarrow> sorted (map liquidation_order (ds_liquidations s)) \<Longrightarrow> state_wf cid cc s"
  by (auto simp: core_wf_def state_wf_def projector_inv_def position_wf_def)

section \<open>What an event touches\<close>

definition touched :: "AbiValue list \<Rightarrow> address set" where
  "touched vs = {a. V_Address a \<in> set vs}"

lemma EventAddress_touched: "EventAddress vs i = Inr a \<Longrightarrow> a \<in> touched vs"
  by (auto simp: EventAddress_def touched_def split: if_splits AbiValue.splits) (metis nth_mem)

lemma dom_PutPosition: "dom (ds_positions (PutPosition s u p mk)) = insert u (dom (ds_positions s))"
  by (simp add: PutPosition_def)

lemma dom_RemoveEmptyPosition: "dom (ds_positions (RemoveEmptyPosition s u)) \<subseteq> dom (ds_positions s)"
  by (auto simp: RemoveEmptyPosition_def split: option.splits if_splits)

definition keeps_frame :: "AbiValue list \<Rightarrow> DerivedState \<Rightarrow> DerivedState \<Rightarrow> bool" where
  "keeps_frame vs s s' \<longleftrightarrow> dom (ds_positions s') \<subseteq> touched vs \<union> dom (ds_positions s) \<and>
     mk_contracts (ds_market s') = mk_contracts (ds_market s)"

lemma keeps_frame_Put:
  "u \<in> touched vs \<Longrightarrow> mk_contracts mk = mk_contracts (ds_market s) \<Longrightarrow> keeps_frame vs s (PutPosition s u p mk)"
  by (auto simp: keeps_frame_def PutPosition_def)

lemma keeps_frame_Remove: "keeps_frame vs s s' \<Longrightarrow> keeps_frame vs s (RemoveEmptyPosition s' u)"
  using dom_RemoveEmptyPosition [of s' u] by (auto simp: keeps_frame_def written_RemoveEmpty)

lemma keeps_frame_refl: "keeps_frame vs s s"
  by (simp add: keeps_frame_def)

lemma keeps_frame_market:
  "mk_contracts mk = mk_contracts (ds_market s) \<Longrightarrow> keeps_frame vs s (s\<lparr>ds_market := mk\<rparr>)"
  by (simp add: keeps_frame_def)

lemma keeps_frame_liquidations: "keeps_frame vs s s' \<Longrightarrow> keeps_frame vs s (s'\<lparr>ds_liquidations := l\<rparr>)"
  by (simp add: keeps_frame_def)

lemmas frame_intros = keeps_frame_Put keeps_frame_Remove keeps_frame_refl keeps_frame_market
  keeps_frame_liquidations EventAddress_touched

lemma ApplyEvent_frame:
  assumes "ApplyEvent cc s e = Inr s'"
  shows "keeps_frame (de_values e) s s'"
proof (cases "de_kind e")
  case Supplied
  with assms show ?thesis
    by (auto simp: ApplyEvent_def apply_supplied_def Let_def elim!: bind_resE intro!: frame_intros split: if_split_asm)
next
  case Withdrawn
  with assms show ?thesis
    by (auto simp: ApplyEvent_def apply_withdrawn_def Let_def map_result_Inr elim!: bind_resE
        intro!: frame_intros split: if_split_asm)
next
  case Borrowed
  with assms show ?thesis
    by (auto simp: ApplyEvent_def apply_borrowed_def Let_def elim!: bind_resE intro!: frame_intros split: if_split_asm)
next
  case Repaid
  with assms show ?thesis
    by (auto simp: ApplyEvent_def apply_repaid_def Let_def elim!: bind_resE intro!: frame_intros split: if_split_asm)
next
  case InterestAccrued
  with assms show ?thesis
    by (auto simp: ApplyEvent_def apply_interest_def elim!: bind_resE intro!: frame_intros)
next
  case Liquidated
  with assms show ?thesis
    by (auto simp: ApplyEvent_def apply_liquidated_def Let_def elim!: bind_resE intro!: frame_intros split: if_split_asm)
next
  case BadDebtRecognized
  with assms show ?thesis
    by (auto simp: ApplyEvent_def apply_bad_debt_def Let_def elim!: bind_resE intro!: frame_intros)
next
  case AssetRegistered
  with assms show ?thesis
    by (auto simp: ApplyEvent_def apply_registered_def Let_def elim!: bind_resE intro!: frame_intros)
next
  case PriceUpdated
  with assms show ?thesis
    by (auto simp: ApplyEvent_def apply_price_def Let_def elim!: bind_resE intro!: frame_intros)
qed

text \<open>Only a liquidation adds to the list, one entry at the place of its log.\<close>

definition adds_liquidation :: "RawLog \<Rightarrow> AbiValue list \<Rightarrow> DerivedState \<Rightarrow> DerivedState \<Rightarrow> bool" where
  "adds_liquidation log vs s s' \<longleftrightarrow> ds_liquidations s' = ds_liquidations s \<or>
     (\<exists>l. ds_liquidations s' = ds_liquidations s @ [l] \<and> ls_chainId l = rl_chainId log \<and>
        ls_blockNumber l = rl_blockNumber log \<and> ls_blockHash l = rl_blockHash log \<and>
        ls_transactionHash l = rl_transactionHash log \<and> ls_logIndex l = rl_logIndex log \<and>
        {ls_liquidator l, ls_borrower l, ls_debtAsset l, ls_collateralAsset l} \<subseteq> touched vs)"

lemma apply_liquidated_adds: "apply_liquidated s log vs = Inr s' \<Longrightarrow> adds_liquidation log vs s s'"
  by (auto simp: apply_liquidated_def Let_def adds_liquidation_def written_RemoveEmpty
      elim!: bind_resE intro: EventAddress_touched)

lemma ApplyEvent_adds:
  assumes "ApplyEvent cc s e = Inr s'"
  shows "adds_liquidation (de_source e) (de_values e) s s'"
proof (cases "de_kind e = Liquidated")
  case True
  with assms apply_liquidated_adds show ?thesis by (simp add: ApplyEvent_def)
next
  case False
  note defs = ApplyEvent_def apply_supplied_def apply_withdrawn_def apply_borrowed_def apply_repaid_def
    apply_interest_def apply_bad_debt_def apply_price_def apply_registered_def
  have "ds_liquidations s' = ds_liquidations s"
    using False assms
    by (cases "de_kind e")
       (auto simp: defs Let_def map_result_Inr written_Put written_RemoveEmpty elim!: bind_resE split: if_split_asm)
  then show ?thesis by (simp add: adds_liquidation_def)
qed

section \<open>Well-formed states\<close>

lemma event_ok_touched: "event_ok ps vs \<Longrightarrow> a \<in> touched vs \<Longrightarrow> length a = 20"
  unfolding event_ok_def touched_def list_all2_conv_all_nth
  by (metis abi_wf.simps(1) in_set_conv_nth mem_Collect_eq)

lemma Decode_event_ok:
  assumes "EventDecoder_Decode keccak cc log = Inr (Some e)" "list_all (\<lambda>t. length t = 32) (rl_topics log)"
  shows "de_source e = log" "\<exists>ps. event_ok ps (de_values e)"
  using assms
  by (auto simp: EventDecoder_Decode_def list_all_iff dest!: DecodeEvent_ok elim!: bind_resE split: if_splits option.splits)

lemma Apply_core_wf:
  assumes "Apply keccak cc' log s = Inr s'" "core_wf cid cc s" "log_wf cid log"
  shows "core_wf cid cc s'"
    and "map liquidation_order (ds_liquidations s') \<in>
      {map liquidation_order (ds_liquidations s), map liquidation_order (ds_liquidations s) @ [log_order log]}"
proof -
  obtain ev where ev: "EventDecoder_Decode keccak cc' log = Inr ev"
    and s': "(case ev of None \<Rightarrow> Inr s | Some e \<Rightarrow> ApplyEvent cc' s e) = Inr s'"
    using assms(1) by (auto simp: Apply_def elim!: bind_resE)
  have "core_wf cid cc s' \<and> map liquidation_order (ds_liquidations s') \<in>
      {map liquidation_order (ds_liquidations s), map liquidation_order (ds_liquidations s) @ [log_order log]}"
  proof (cases ev)
    case None
    with s' assms(2) show ?thesis by simp
  next
    case (Some e)
    with ev assms(3) obtain ps where e: "de_source e = log" "event_ok ps (de_values e)"
      using Decode_event_ok [of keccak cc' log e] by (auto simp: log_wf_def)
    from Some s' have ap: "ApplyEvent cc' s e = Inr s'" by simp
    have inv: "projector_inv s'" using ApplyEvent_inv [OF _ ap] assms(2) by (simp add: core_wf_def)
    have "\<forall>u \<in> dom (ds_positions s'). length u = 20" "mk_contracts (ds_market s') = cc"
      using ApplyEvent_frame [OF ap] event_ok_touched [OF e(2)] assms(2)
      by (auto simp: keeps_frame_def core_wf_def)
    with inv assms(2,3) ApplyEvent_adds [OF ap] event_ok_touched [OF e(2)] show ?thesis
      unfolding e(1) adds_liquidation_def
      by (auto simp: core_wf_def liquidation_wf_def log_wf_def liquidation_order_def log_order_def)
  qed
  then show "core_wf cid cc s'" "map liquidation_order (ds_liquidations s') \<in>
      {map liquidation_order (ds_liquidations s), map liquidation_order (ds_liquidations s) @ [log_order log]}"
    by auto
qed

lemma sorted_drop_or_keep: "sorted (a @ x # b) \<Longrightarrow> l \<in> {a, a @ [x]} \<Longrightarrow> sorted (l @ b)"
  by (auto simp: sorted_append)

lemma fold_Apply_state_wf:
  assumes "fold_res (Apply keccak cc') logs s = Inr s'" "core_wf cid cc s" "list_all (log_wf cid) logs"
    and "sorted (map liquidation_order (ds_liquidations s) @ map log_order logs)"
  shows "core_wf cid cc s' \<and> sorted (map liquidation_order (ds_liquidations s'))"
  using assms
proof (induction logs arbitrary: s)
  case Nil
  then show ?case by simp
next
  case (Cons log logs)
  from Cons.prems(1) obtain t where t: "Apply keccak cc' log s = Inr t"
    and rest: "fold_res (Apply keccak cc') logs t = Inr s'" by (auto elim!: bind_resE)
  note wf = Apply_core_wf [OF t Cons.prems(2)]
  show ?case
  proof (rule Cons.IH [OF rest])
    show "core_wf cid cc t" "list_all (log_wf cid) logs" using wf(1) Cons.prems(3) by simp_all
    show "sorted (map liquidation_order (ds_liquidations t) @ map log_order logs)"
      using sorted_drop_or_keep [of "map liquidation_order (ds_liquidations s)" "log_order log"] wf(2) Cons.prems(3,4)
      by simp
  qed
qed

lemma CreateInitialState_core_wf: "contracts_wf cc \<Longrightarrow> core_wf cid cc (CreateInitialState cc)"
  by (simp add: core_wf_def CreateInitialState_inv) (simp add: CreateInitialState_def)

lemma Rebuild_sorted:
  assumes "list_all rl_canonical logs" "sorted (map log_key logs)"
  shows "Rebuild keccak cc logs = fold_res (Apply keccak cc) logs (CreateInitialState cc)"
proof -
  have "filter rl_canonical logs = logs" using assms(1) by (simp add: filter_id_conv list_all_iff)
  with assms(2) show ?thesis by (simp add: Rebuild_def sort_key_id_if_sorted)
qed

lemma log_wf_canonical: "list_all (log_wf cid) logs \<Longrightarrow> list_all rl_canonical logs"
  by (auto simp: list_all_iff log_wf_def)

lemma Rebuild_state_wf:
  assumes "Rebuild keccak cc logs = Inr s" "contracts_wf cc" "list_all (log_wf cid) logs"
    and "sorted (map log_key logs)" "sorted (map log_order logs)"
  shows "state_wf cid cc s"
proof -
  have "fold_res (Apply keccak cc) logs (CreateInitialState cc) = Inr s"
    using assms Rebuild_sorted [OF log_wf_canonical] by metis
  from fold_Apply_state_wf [OF this CreateInitialState_core_wf [OF assms(2)] assms(3)] assms(5)
  show ?thesis by (intro state_wfI) (simp_all add: CreateInitialState_def)
qed

end
