(* ===== verification/Store_Round_Trip.thy ===== *)
theory Store_Round_Trip
  imports Indexer_Store Projector_Values
begin

text \<open>
  What the store writes it reads back: logs, blocks and the derived state survive the trip through
  the text columns of the tables, and a row written by the indexer never makes a read throw.
\<close>

section \<open>Rows\<close>

lemma of_nat_unat_bigint: "bigint n = Inr k \<Longrightarrow> of_nat k = n"
  by (simp add: bigint_Inr)

lemma db_ParseHash_Encode [simp]: "length h = 32 \<Longrightarrow> db_ParseHash (Hex_Encode h True) = Inr h"
  by (simp add: db_ParseHash_def ParseHash_Encode)

lemma ParseTopics_Encode: "list_all (\<lambda>t. length t = 32) ts \<Longrightarrow> ParseTopics (EncodeTopics ts) = Inr ts"
  unfolding ParseTopics_def EncodeTopics_def db_ParseHash_def by (rule hex_hash.list_dec_enc)

lemma ParseRawLog_log_row:
  assumes "log_wf cid l" "log_row (ToDecimal cid) l = Inr r"
  shows "ParseRawLog r = Inr l"
  using assms
  by (auto simp: log_row_def log_wf_def res_simps ParseRawLog_def FromDecimal_ToDecimal ParseTopics_Encode
      Address_FromHex_ToHex Hex_Decode_Encode of_nat_unat_bigint)

lemma log_row_fields:
  assumes "log_row chain l = Inr r"
  shows "lr_chain r = chain" "lr_canonical r" "lr_number r = unat (rl_blockNumber l)"
    "lr_tx_index r = unat (rl_transactionIndex l)" "lr_log_index r = unat (rl_logIndex l)"
    "lr_block_hash r = Hex_Encode (rl_blockHash l) True" "lr_tx_hash r = Hex_Encode (rl_transactionHash l) True"
    "unat (rl_blockNumber l) < 2 ^ 63"
  using assms by (auto simp: log_row_def res_simps bigint_Inr)

lemma ParsePosition_row:
  assumes "position_wf u p"
  shows "ParsePosition (position_row chain u p) = Inr p"
  using assms
  by (simp add: ParsePosition_def position_row_def position_wf_def FromDecimal_ToDecimal Address_FromHex_ToHex)

lemma map_res_ToDecimal: "map_res FromDecimal (map ToDecimal ns) = Inr ns"
  by (rule decimal_text.list_dec_enc) (simp add: list_all_iff)

lemma ParseMarket_row:
  assumes "contracts_wf (mk_contracts m)"
  shows "ParseMarket (mk_contracts m) (market_row chain m) = Inr m"
  using assms
  by (simp add: ParseMarket_def market_row_def contracts_wf_def Address_FromHex_ToHex map_res_ToDecimal del: map_res.simps)
     (simp add: market_columns_def)

lemma ParseLiquidation_row:
  assumes "liquidation_wf cid l" "liquidation_row chain l = Inr r"
  shows "ParseLiquidation cid r = Inr l"
  using assms
  by (auto simp: liquidation_row_def liquidation_wf_def res_simps ParseLiquidation_def FromDecimal_ToDecimal
      Address_FromHex_ToHex of_nat_unat_bigint)

lemma liquidation_row_fields:
  assumes "liquidation_row chain l = Inr r"
  shows "lw_chain r = chain" "[lw_number r, lw_log_index r] = liquidation_order l"
  using assms by (auto simp: liquidation_row_def res_simps bigint_Inr liquidation_order_def)

section \<open>The derived state\<close>

lemma insert_rows_only: "fold_res (insert_row key) rs rows = Inr rows' \<Longrightarrow> rows' = rows @ rs"
  by (induction rs arbitrary: rows) (fastforce simp: res_simps insert_row_def split: if_splits)+

lemma fold_res_bind_rows:
  assumes "fold_res (\<lambda>l rows. bind_res (g l) (\<lambda>r. insert_row key r rows)) ls rows = Inr rows'"
  shows "\<exists>rs. map_res g ls = Inr rs \<and> rows' = rows @ rs"
  using assms
proof (induction ls arbitrary: rows)
  case Nil
  then show ?case by simp
next
  case (Cons l ls)
  from Cons.prems obtain r where r: "g l = Inr r" "insert_row key r rows = Inr (rows @ [r])"
    and rest: "fold_res (\<lambda>l rows. bind_res (g l) (\<lambda>r. insert_row key r rows)) ls (rows @ [r]) = Inr rows'"
    by (auto simp: res_simps insert_row_def split: if_splits)
  from Cons.IH [OF rest] r(1) show ?case by auto
qed

lemma emplace_positions:
  assumes "distinct us" "\<And>u. u \<in> set us \<Longrightarrow> m u = None \<and> position_wf u (f u)"
  shows "fold_res emplace_position (map (\<lambda>u. position_row chain u (f u)) us) m
    = Inr (\<lambda>u. if u \<in> set us then Some (f u) else m u)"
  using assms
proof (induction us arbitrary: m)
  case Nil
  then show ?case by simp
next
  case (Cons u us)
  have u: "emplace_position (position_row chain u (f u)) m = Inr (m(u \<mapsto> f u))"
    using Cons.prems(2) [of u]
    by (simp add: emplace_position_def ParsePosition_row position_wf_def)
  have "fold_res emplace_position (map (\<lambda>u. position_row chain u (f u)) us) (m(u \<mapsto> f u))
    = Inr (\<lambda>v. if v \<in> set us then Some (f v) else (m(u \<mapsto> f u)) v)"
    using Cons.prems by (intro Cons.IH) auto
  then show ?case using Cons.prems(1) by (auto simp: u fun_eq_iff)
qed

text \<open>What \<open>ReplaceDerivedState\<close> writes, \<open>LoadDerivedState\<close> returns.\<close>

lemma Load_Replace:
  assumes wf: "state_wf cid cc s" and eq: "ReplaceDerivedState db cid s = Inr db'"
  shows "pg_LoadDerivedState db' cid cc = Inr s"
proof -
  let ?chain = "ToDecimal cid" and ?us = "sorted_list_of_set (dom (ds_positions s))"
  have fin: "finite (dom (ds_positions s))" using wf by (simp add: state_wf_def)
  let ?rows = "map (\<lambda>a. position_row ?chain a (the (ds_positions s a))) ?us"
  obtain ps ms ls where
    ps: "fold_res (insert_row position_key) ?rows (filter (\<lambda>r. pw_chain r \<noteq> ?chain) (db_positions db)) = Inr ps"
    and ms: "insert_row mw_chain (market_row ?chain (ds_market s)) (filter (\<lambda>r. mw_chain r \<noteq> ?chain) (db_markets db)) = Inr ms"
    and ls: "fold_res (\<lambda>l rows. bind_res (liquidation_row ?chain l) (\<lambda>r. insert_row liquidation_key r rows))
       (ds_liquidations s) (filter (\<lambda>r. lw_chain r \<noteq> ?chain) (db_liquidations db)) = Inr ls"
    and db': "db' = db\<lparr>db_positions := ps, db_markets := ms, db_liquidations := ls\<rparr>"
    using eq by (auto simp: ReplaceDerivedState_def Let_def res_simps fold_res_map [symmetric])
  obtain rs where rs: "map_res (liquidation_row ?chain) (ds_liquidations s) = Inr rs"
    and ls': "ls = filter (\<lambda>r. lw_chain r \<noteq> ?chain) (db_liquidations db) @ rs"
    using fold_res_bind_rows [OF ls] by auto
  have "filter (\<lambda>r. pw_chain r = ?chain) ps = ?rows"
    using insert_rows_only [OF ps] by (simp add: filter_empty_conv position_row_def filter_id_conv)
  moreover have "fold_res emplace_position ?rows Map.empty = Inr (ds_positions s)"
  proof -
    have "fold_res emplace_position ?rows Map.empty
        = Inr (\<lambda>u. if u \<in> set ?us then Some (the (ds_positions s u)) else None)"
      using wf fin by (intro emplace_positions) (auto simp: state_wf_def)
    moreover have "(\<lambda>u. if u \<in> set ?us then Some (the (ds_positions s u)) else None) = ds_positions s"
      using fin by (auto simp: fun_eq_iff domIff)
    ultimately show ?thesis by simp
  qed
  moreover have "filter (\<lambda>r. mw_chain r = ?chain) ms = [market_row ?chain (ds_market s)]"
    using ms by (auto simp: insert_row_def filter_empty_conv market_row_def split: if_splits)
  moreover have "filter (\<lambda>r. lw_chain r = ?chain) ls = rs"
  proof -
    have "\<forall>r \<in> set rs. lw_chain r = ?chain"
      using map_res_set [OF rs] liquidation_row_fields(1) by blast
    then show ?thesis unfolding ls' by (simp add: filter_empty_conv filter_id_conv)
  qed
  moreover have "sort_key (\<lambda>r. [lw_number r, lw_log_index r]) rs = rs"
  proof -
    have "map (\<lambda>r. [lw_number r, lw_log_index r]) rs = map liquidation_order (ds_liquidations s)"
      using rs liquidation_row_fields(2) by (rule map_res_map)
    then show ?thesis using wf by (intro sort_key_id_if_sorted) (simp add: state_wf_def)
  qed
  moreover have "map_res (ParseLiquidation cid) rs = Inr (ds_liquidations s)"
    by (rule map_res_Parse [OF rs]) (use wf in \<open>auto simp: state_wf_def list_all_iff intro: ParseLiquidation_row\<close>)
  moreover have "ParseMarket cc (market_row ?chain (ds_market s)) = Inr (ds_market s)"
    using wf ParseMarket_row [of "ds_market s" ?chain] by (simp add: state_wf_def)
  ultimately show ?thesis by (simp add: pg_LoadDerivedState_def Let_def db')
qed

end
