(* ===== verification/Rpc_Types.thy ===== *)
theory Rpc_Types
  imports Abi
begin

text \<open>
  The values that JSON-RPC answers carry (\<open>cpp/common/include/dlp/ethereum/RpcClient.hpp\<close>): block
  headers, logs, calls and receipts.
\<close>

record BlockHeader =
  bh_number :: uint256
  bh_hash :: hash256
  bh_parentHash :: hash256
  bh_timestamp :: uint256
  bh_baseFeePerGas :: "uint256 option"

record RpcLog =
  rp_address :: address
  rp_topics :: "hash256 list"
  rp_data :: bytes
  rp_blockNumber :: uint256
  rp_transactionHash :: hash256
  rp_transactionIndex :: uint256
  rp_blockHash :: hash256
  rp_logIndex :: uint256
  rp_removed :: bool

record TransactionCall =
  ca_from :: "address option"
  ca_to :: address
  ca_data :: bytes
  ca_value :: uint256

record TransactionReceipt =
  rc_transactionHash :: hash256
  rc_blockNumber :: uint256
  rc_blockHash :: hash256
  rc_succeeded :: bool
  rc_gasUsed :: uint256
  rc_effectiveGasPrice :: uint256

end
