(* ===== verification/Indexer.thy ===== *)
theory Indexer
  imports Effects State_Projector Rpc_Types
begin

text \<open>
  \<open>cpp/indexer/src/Indexer.cpp\<close>: following the chain head, detecting reorganisations, rewinding to
  the common ancestor and indexing one block after another. The two interfaces it is written
  against are records of operations: \<open>IndexerStore\<close> over a database type, and \<open>ChainClient\<close>,
  whose answers may change from one call to the next, so each call is given the number of the
  calls before it. \<open>SyncToHead\<close> loops until it has caught up; the model counts rounds with fuel and
  answers \<open>None\<close> when it runs out. \<open>std::sort\<close> is a stable sort here; it differs only on equal keys.
\<close>

section \<open>Interfaces\<close>

record ChainClient =
  cl_GetChainId :: "nat \<Rightarrow> uint256 res"
  cl_GetBlockNumber :: "nat \<Rightarrow> uint64 res"
  cl_GetBlockByNumber :: "nat \<Rightarrow> uint64 \<Rightarrow> BlockHeader option res"
  cl_GetLogs :: "nat \<Rightarrow> uint64 \<Rightarrow> RpcLog list res"

record 'db IndexerStore =
  st_LoadCursor :: "'db \<Rightarrow> uint256 \<Rightarrow> SyncCursor option res"
  st_LoadCanonicalBlock :: "'db \<Rightarrow> uint256 \<Rightarrow> uint64 \<Rightarrow> IndexedBlock option res"
  st_LoadCanonicalLogsThrough :: "'db \<Rightarrow> uint256 \<Rightarrow> uint64 \<Rightarrow> RawLog list res"
  st_LoadDerivedState :: "'db \<Rightarrow> uint256 \<Rightarrow> ChainContracts \<Rightarrow> DerivedState res"
  st_CommitBlock :: "'db \<Rightarrow> IndexedBlock \<Rightarrow> RawLog list \<Rightarrow> DerivedState \<Rightarrow> 'db res"
  st_RewindTo :: "'db \<Rightarrow> uint256 \<Rightarrow> IndexedBlock option \<Rightarrow> DerivedState \<Rightarrow> 'db res"

record IndexerStatus =
  is_chainHead :: uint64
  is_indexedBlock :: uint64
  is_reorgs :: uint64

text \<open>The indexer object: its collaborators and configuration, and the state it runs on.\<close>

record 'db Indexer =
  ix_chain :: ChainClient
  ix_store :: "'db IndexerStore"
  ix_contracts :: ChainContracts
  ix_startBlock :: uint64
  ix_keccak :: "bytes \<Rightarrow> hash256"

record 'db World =
  w_db :: 'db
  w_calls :: nat
  w_status :: IndexerStatus

definition chain_call :: "(nat \<Rightarrow> 'a res) \<Rightarrow> ('db World, 'a) prog" where
  "chain_call f w = (f (w_calls w), w\<lparr>w_calls := Suc (w_calls w)\<rparr>)"

definition store_read :: "('db \<Rightarrow> 'a res) \<Rightarrow> ('db World, 'a) prog" where
  "store_read f = query (\<lambda>w. f (w_db w))"

definition store_write :: "('db \<Rightarrow> 'db res) \<Rightarrow> ('db World, unit) prog" where
  "store_write f = transact (\<lambda>w. map_result (\<lambda>db. ((), w\<lparr>w_db := db\<rparr>)) (f (w_db w)))"

definition set_status :: "(IndexerStatus \<Rightarrow> IndexerStatus) \<Rightarrow> ('db World, unit) prog" where
  "set_status f = modify (\<lambda>w. w\<lparr>w_status := f (w_status w)\<rparr>)"

section \<open>Reorganisations\<close>

definition blocks_match :: "IndexedBlock option \<Rightarrow> BlockHeader option \<Rightarrow> bool" where
  "blocks_match stored header =
     (case (stored, header) of (Some b, Some h) \<Rightarrow> ib_hash b = bh_hash h | _ \<Rightarrow> False)"

function ancestor_loop ::
  "'db Indexer \<Rightarrow> uint256 \<Rightarrow> uint64 \<Rightarrow> ('db World, IndexedBlock option) prog" where
  "ancestor_loop ix chainId blockNumber =
     (if blockNumber < ix_startBlock ix then ret None
      else
        bindp (store_read (\<lambda>db. st_LoadCanonicalBlock (ix_store ix) db chainId blockNumber)) (\<lambda>storedBlock.
        bindp (chain_call (\<lambda>t. cl_GetBlockByNumber (ix_chain ix) t blockNumber)) (\<lambda>chainBlock.
        if blocks_match storedBlock chainBlock then ret storedBlock
        else if blockNumber = ix_startBlock ix then ret None
        else ancestor_loop ix chainId (blockNumber - 1))))"
  by pat_completeness auto

lemma unat_pred_less: "\<not> n < a \<Longrightarrow> n \<noteq> a \<Longrightarrow> unat (n - 1) < unat n"
  for n :: "'a::len word"
  using measure_unat [of n] by (metis not_less word_le_0_iff word_zero_le order.antisym)

termination ancestor_loop
  by (relation "measure (\<lambda>(_, _, n). unat n)") (auto intro: unat_pred_less)

declare ancestor_loop.simps [simp del]

definition FindCommonAncestor ::
  "'db Indexer \<Rightarrow> uint256 \<Rightarrow> uint64 \<Rightarrow> ('db World, IndexedBlock option) prog" where
  "FindCommonAncestor ix chainId upperBound = ancestor_loop ix chainId upperBound"

definition Rewind :: "'db Indexer \<Rightarrow> uint256 \<Rightarrow> IndexedBlock option \<Rightarrow> ('db World, unit) prog" where
  "Rewind ix chainId ancestor =
     bindp (set_status (\<lambda>s. s\<lparr>is_reorgs := is_reorgs s + 1\<rparr>)) (\<lambda>_.
     bindp (case ancestor of
              Some a \<Rightarrow>
                bindp (store_read (\<lambda>db. st_LoadCanonicalLogsThrough (ix_store ix) db chainId (ib_number a))) (\<lambda>logs.
                liftp (Rebuild (ix_keccak ix) (ix_contracts ix) logs))
            | None \<Rightarrow> ret (CreateInitialState (ix_contracts ix))) (\<lambda>state.
     store_write (\<lambda>db. st_RewindTo (ix_store ix) db chainId ancestor state)))"

definition ReconcileCursor :: "'db Indexer \<Rightarrow> uint256 \<Rightarrow> uint64 \<Rightarrow> ('db World, SyncCursor option) prog" where
  "ReconcileCursor ix chainId chainHead =
     bindp (store_read (\<lambda>db. st_LoadCursor (ix_store ix) db chainId)) (\<lambda>cursor.
     case cursor of
       None \<Rightarrow> ret None
     | Some c \<Rightarrow>
         bindp (if sc_blockNumber c \<le> chainHead
                then bindp (chain_call (\<lambda>t. cl_GetBlockByNumber (ix_chain ix) t (sc_blockNumber c))) (\<lambda>chainBlock.
                     ret (case chainBlock of Some h \<Rightarrow> bh_hash h = sc_blockHash c | None \<Rightarrow> False))
                else ret False) (\<lambda>current.
         if current then ret (Some c)
         else
           bindp (FindCommonAncestor ix chainId (min (sc_blockNumber c) chainHead)) (\<lambda>ancestor.
           bindp (Rewind ix chainId ancestor) (\<lambda>_.
           case ancestor of
             None \<Rightarrow> ret None
           | Some a \<Rightarrow> ret (Some \<lparr>sc_chainId = chainId, sc_blockNumber = ib_number a, sc_blockHash = ib_hash a\<rparr>)))))"

section \<open>Indexing a block\<close>

definition accept_log :: "uint256 \<Rightarrow> uint64 \<Rightarrow> hash256 \<Rightarrow> RpcLog \<Rightarrow> RawLog res" where
  "accept_log chainId blockNumber hash rpcLog =
     bind_res (ToUint64 (rp_blockNumber rpcLog)) (\<lambda>number.
     if number \<noteq> blockNumber \<or> rp_blockHash rpcLog \<noteq> hash
     then Inl (Runtime_Error ''block changed while its logs were being fetched'')
     else
     bind_res (ToUint64 (rp_transactionIndex rpcLog)) (\<lambda>transactionIndex.
     bind_res (ToUint64 (rp_logIndex rpcLog)) (\<lambda>logIndex.
     Inr \<lparr>rl_chainId = chainId, rl_blockNumber = blockNumber, rl_blockHash = rp_blockHash rpcLog,
          rl_transactionHash = rp_transactionHash rpcLog, rl_transactionIndex = transactionIndex,
          rl_logIndex = logIndex, rl_contractAddress = rp_address rpcLog, rl_topics = rp_topics rpcLog,
          rl_data = rp_data rpcLog, rl_canonical = True\<rparr>)))"

definition block_logs :: "uint256 \<Rightarrow> uint64 \<Rightarrow> hash256 \<Rightarrow> RpcLog list \<Rightarrow> RawLog list res" where
  "block_logs chainId blockNumber hash rpcLogs =
     map_res (accept_log chainId blockNumber hash)
       (filter (\<lambda>l. \<not> rp_removed l) (sort_key (\<lambda>l. unat (rp_logIndex l)) rpcLogs))"

definition IndexBlock :: "'db Indexer \<Rightarrow> uint256 \<Rightarrow> BlockHeader \<Rightarrow> ('db World, unit) prog" where
  "IndexBlock ix chainId header =
     bindp (liftp (ToUint64 (bh_number header))) (\<lambda>blockNumber.
     bindp (chain_call (\<lambda>t. cl_GetLogs (ix_chain ix) t blockNumber)) (\<lambda>rpcLogs.
     bindp (liftp (block_logs chainId blockNumber (bh_hash header) rpcLogs)) (\<lambda>logs.
     bindp (store_read (\<lambda>db. st_LoadDerivedState (ix_store ix) db chainId (ix_contracts ix))) (\<lambda>loaded.
     bindp (liftp (fold_res (Apply (ix_keccak ix) (ix_contracts ix)) logs loaded)) (\<lambda>state.
     store_write (\<lambda>db. st_CommitBlock (ix_store ix) db
       \<lparr>ib_chainId = chainId, ib_number = blockNumber, ib_hash = bh_hash header,
        ib_parentHash = bh_parentHash header, ib_canonical = True\<rparr> logs state))))))"

section \<open>Following the head\<close>

fun sync_loop :: "nat \<Rightarrow> 'db Indexer \<Rightarrow> uint256 \<Rightarrow> nat \<Rightarrow> ('db World, nat option) prog" where
  "sync_loop 0 ix chainId indexedCount = ret None"
| "sync_loop (Suc fuel) ix chainId indexedCount =
     bindp (chain_call (cl_GetBlockNumber (ix_chain ix))) (\<lambda>chainHead.
     bindp (set_status (\<lambda>s. s\<lparr>is_chainHead := chainHead\<rparr>)) (\<lambda>_.
     bindp (ReconcileCursor ix chainId chainHead) (\<lambda>cursor.
     bindp (set_status (\<lambda>s. s\<lparr>is_indexedBlock := (case cursor of Some c \<Rightarrow> sc_blockNumber c | None \<Rightarrow> 0)\<rparr>)) (\<lambda>_.
     if (case cursor of Some c \<Rightarrow> sc_blockNumber c = 18446744073709551615 | None \<Rightarrow> False) then ret (Some indexedCount)
     else
       let nextBlock = (case cursor of Some c \<Rightarrow> sc_blockNumber c + 1 | None \<Rightarrow> ix_startBlock ix) in
       if nextBlock > chainHead then ret (Some indexedCount)
       else
       bindp (chain_call (\<lambda>t. cl_GetBlockByNumber (ix_chain ix) t nextBlock)) (\<lambda>found.
       case found of
         None \<Rightarrow> raise (Runtime_Error ''chain did not return the requested block'')
       | Some header \<Rightarrow>
       bindp (liftp (ToUint64 (bh_number header))) (\<lambda>number.
       if number \<noteq> nextBlock then raise (Runtime_Error ''RPC block number does not match the request'')
       else case cursor of
         Some c \<Rightarrow>
           if bh_parentHash header \<noteq> sc_blockHash c
           then bindp (FindCommonAncestor ix chainId (min (sc_blockNumber c) chainHead)) (\<lambda>ancestor.
                bindp (Rewind ix chainId ancestor) (\<lambda>_.
                sync_loop fuel ix chainId indexedCount))
           else bindp (IndexBlock ix chainId header) (\<lambda>_.
                bindp (set_status (\<lambda>s. s\<lparr>is_indexedBlock := number\<rparr>)) (\<lambda>_.
                sync_loop fuel ix chainId (Suc indexedCount)))
       | None \<Rightarrow>
           bindp (IndexBlock ix chainId header) (\<lambda>_.
           bindp (set_status (\<lambda>s. s\<lparr>is_indexedBlock := number\<rparr>)) (\<lambda>_.
           sync_loop fuel ix chainId (Suc indexedCount)))))))))"

definition SyncToHead :: "nat \<Rightarrow> 'db Indexer \<Rightarrow> ('db World, nat option) prog" where
  "SyncToHead fuel ix =
     bindp (chain_call (cl_GetChainId (ix_chain ix))) (\<lambda>chainId. sync_loop fuel ix chainId 0)"

end
