(* ===== verification/Indexer_Correct.thy ===== *)
theory Indexer_Correct
  imports Indexer Projector_Values
begin

text \<open>
  What the indexer promises, for any store that keeps the contract \<open>indexer_store\<close>. The contract is
  stated over a view of the database: the cursor, the canonical blocks, the canonical logs in chain
  order and the derived state. Whatever the chain answers, and whether a round returns or throws, the
  derived state stays the projection of the canonical logs and the cursor the last canonical block.
\<close>

section \<open>The view of a store\<close>

record StoreView =
  v_tip :: "SyncCursor option"
  v_block :: "uint64 \<Rightarrow> IndexedBlock option"
  v_history :: "RawLog list"
  v_derived :: DerivedState

definition view_commit :: "StoreView \<Rightarrow> IndexedBlock \<Rightarrow> RawLog list \<Rightarrow> DerivedState \<Rightarrow> StoreView" where
  "view_commit v b logs s =
     \<lparr>v_tip = Some \<lparr>sc_chainId = ib_chainId b, sc_blockNumber = ib_number b, sc_blockHash = ib_hash b\<rparr>,
      v_block = (v_block v)(ib_number b := Some b), v_history = v_history v @ logs, v_derived = s\<rparr>"

definition view_rewind :: "StoreView \<Rightarrow> uint256 \<Rightarrow> IndexedBlock option \<Rightarrow> DerivedState \<Rightarrow> StoreView" where
  "view_rewind v cid ancestor s =
     (case ancestor of
        None \<Rightarrow> \<lparr>v_tip = None, v_block = (\<lambda>_. None), v_history = [], v_derived = s\<rparr>
      | Some a \<Rightarrow>
          \<lparr>v_tip = Some \<lparr>sc_chainId = cid, sc_blockNumber = ib_number a, sc_blockHash = ib_hash a\<rparr>,
           v_block = (\<lambda>n. if n \<le> ib_number a then v_block v n else None),
           v_history = filter (\<lambda>l. rl_blockNumber l \<le> ib_number a) (v_history v), v_derived = s\<rparr>)"

text \<open>The logs of a new block: well-formed, in chain order, one per log index.\<close>

definition new_logs :: "uint256 \<Rightarrow> IndexedBlock \<Rightarrow> RawLog list \<Rightarrow> bool" where
  "new_logs cid b logs \<longleftrightarrow> list_all (log_wf cid) logs \<and>
     list_all (\<lambda>l. rl_blockNumber l = ib_number b \<and> rl_blockHash l = ib_hash b) logs \<and>
     sorted (map log_key logs) \<and> sorted (map log_order logs) \<and> distinct (map rl_logIndex logs)"

text \<open>The block extends the canonical chain: it is above it and its hash is new to it.\<close>

definition extends :: "uint256 \<Rightarrow> StoreView \<Rightarrow> IndexedBlock \<Rightarrow> bool" where
  "extends cid v b \<longleftrightarrow> ib_chainId b = cid \<and> ib_canonical b \<and> length (ib_hash b) = 32 \<and>
     length (ib_parentHash b) = 32 \<and>
     (\<forall>l \<in> set (v_history v). rl_blockNumber l < ib_number b \<and> rl_blockHash l \<noteq> ib_hash b) \<and>
     (\<forall>n b'. v_block v n = Some b' \<longrightarrow> n < ib_number b \<and> ib_hash b' \<noteq> ib_hash b)"

definition is_ancestor :: "StoreView \<Rightarrow> IndexedBlock option \<Rightarrow> bool" where
  "is_ancestor v ancestor = (case ancestor of None \<Rightarrow> True | Some a \<Rightarrow> v_block v (ib_number a) = Some a)"

section \<open>The invariant\<close>

definition tip_inv :: "uint256 \<Rightarrow> StoreView \<Rightarrow> bool" where
  "tip_inv cid v =
     (case v_tip v of
        None \<Rightarrow> v_history v = [] \<and> (\<forall>n. v_block v n = None)
      | Some c \<Rightarrow> sc_chainId c = cid \<and>
          (\<exists>b. v_block v (sc_blockNumber c) = Some b \<and> ib_hash b = sc_blockHash c) \<and>
          (\<forall>l \<in> set (v_history v). rl_blockNumber l \<le> sc_blockNumber c) \<and>
          (\<forall>n. v_block v n \<noteq> None \<longrightarrow> n \<le> sc_blockNumber c))"

definition history_inv :: "uint256 \<Rightarrow> (hash256 \<Rightarrow> uint64) \<Rightarrow> StoreView \<Rightarrow> bool" where
  "history_inv cid height v \<longleftrightarrow>
     list_all (log_wf cid) (v_history v) \<and> sorted (map log_key (v_history v)) \<and>
     sorted (map log_order (v_history v)) \<and>
     (\<forall>l \<in> set (v_history v). height (rl_blockHash l) = rl_blockNumber l) \<and>
     (\<forall>n b. v_block v n = Some b \<longrightarrow> ib_number b = n \<and> height (ib_hash b) = n)"

definition view_inv ::
  "(bytes \<Rightarrow> hash256) \<Rightarrow> ChainContracts \<Rightarrow> uint256 \<Rightarrow> (hash256 \<Rightarrow> uint64) \<Rightarrow> StoreView \<Rightarrow> bool" where
  "view_inv keccak cc cid height v \<longleftrightarrow>
     Rebuild keccak cc (v_history v) = Inr (v_derived v) \<and> history_inv cid height v \<and> tip_inv cid v"

text \<open>What the indexer relies on about the chain: a header served for a number carries a hash that
  belongs to that height only, and the logs of a block have one entry per log index, with
  transaction indices that follow the log indices.\<close>

definition rpc_logs_sane :: "RpcLog list \<Rightarrow> bool" where
  "rpc_logs_sane ls \<longleftrightarrow>
     distinct (map rp_logIndex ls) \<and>
     (\<forall>a \<in> set ls. \<forall>b \<in> set ls. rp_logIndex a \<le> rp_logIndex b \<longrightarrow> rp_transactionIndex a \<le> rp_transactionIndex b) \<and>
     list_all (\<lambda>l. length (rp_address l) = 20 \<and> length (rp_transactionHash l) = 32 \<and>
       list_all (\<lambda>t. length t = 32) (rp_topics l)) ls"

definition chain_sane :: "ChainClient \<Rightarrow> (hash256 \<Rightarrow> uint64) \<Rightarrow> bool" where
  "chain_sane c height \<longleftrightarrow>
     (\<forall>t n h. cl_GetBlockByNumber c t n = Inr (Some h) \<longrightarrow>
        length (bh_hash h) = 32 \<and> length (bh_parentHash h) = 32 \<and>
        (ToUint64 (bh_number h) = Inr n \<longrightarrow> height (bh_hash h) = n)) \<and>
     (\<forall>t n ls. cl_GetLogs c t n = Inr ls \<longrightarrow> rpc_logs_sane ls)"

section \<open>Logs of a block\<close>

lemma accept_log_fields:
  assumes "accept_log cid n h r = Inr l"
  shows "rl_chainId l = cid" "rl_blockNumber l = n" "rl_blockHash l = h" "rl_canonical l"
    "unat (rl_logIndex l) = unat (rp_logIndex r)" "unat (rl_transactionIndex l) = unat (rp_transactionIndex r)"
    "rl_contractAddress l = rp_address r" "rl_topics l = rp_topics r" "rl_transactionHash l = rp_transactionHash r"
  using assms by (auto simp: accept_log_def ToUint64_Inr elim!: bind_resE split: if_split_asm)

lemma map_res_sorted:
  assumes "map_res g rs = Inr ls" "sorted_wrt P rs" "\<And>a b x y. g a = Inr x \<Longrightarrow> g b = Inr y \<Longrightarrow> P a b \<Longrightarrow> Q x y"
  shows "sorted_wrt Q ls"
  using assms(1,2)
proof (induction rs arbitrary: ls)
  case Nil
  then show ?case by simp
next
  case (Cons r rs)
  then obtain x xs where x: "g r = Inr x" "map_res g rs = Inr xs" "ls = x # xs" by (auto elim!: bind_resE)
  have "Q x y" if y: "y \<in> set xs" for y
  proof -
    obtain b where "b \<in> set rs" "g b = Inr y" using map_res_set [OF x(2) y] by blast
    with Cons.prems(2) x(1) assms(3) show ?thesis by auto
  qed
  with Cons.IH [OF x(2)] Cons.prems(2) x(3) show ?case by simp
qed

lemma block_logs_new:
  assumes "block_logs cid n h rpc = Inr logs" "rpc_logs_sane rpc" "length h = 32"
    and "ib_number b = n" "ib_hash b = h"
  shows "new_logs cid b logs"
proof -
  define rs where "rs = filter (\<lambda>l. \<not> rp_removed l) (sort_key (\<lambda>l. unat (rp_logIndex l)) rpc)"
  have eq: "map_res (accept_log cid n h) rs = Inr logs" using assms(1) by (simp add: block_logs_def rs_def)
  have sub: "set rs \<subseteq> set rpc" by (auto simp: rs_def)
  have f: "rl_chainId l = cid \<and> rl_blockNumber l = n \<and> rl_blockHash l = h \<and> log_wf cid l" if l: "l \<in> set logs" for l
  proof -
    obtain r where "r \<in> set rs" "accept_log cid n h r = Inr l" using map_res_set [OF eq l] by blast
    moreover from this sub have "length (rp_address r) = 20 \<and> length (rp_transactionHash r) = 32 \<and>
        list_all (\<lambda>t. length t = 32) (rp_topics r)"
      using assms(2) by (auto simp: rpc_logs_sane_def list_all_iff)
    ultimately show ?thesis using accept_log_fields [of cid n h r l] assms(3) by (simp add: log_wf_def)
  qed
  have dis: "distinct (map rp_logIndex rs)"
    using assms(2) unfolding rs_def rpc_logs_sane_def by (intro distinct_map_filter) (simp add: distinct_map)
  have "sorted (map (\<lambda>l. unat (rp_logIndex l)) rs)"
    unfolding rs_def by (intro sorted_filter) simp
  then have "sorted_wrt (\<lambda>a b. unat (rp_logIndex a) \<le> unat (rp_logIndex b)) rs" by (simp add: sorted_map)
  then have ord: "sorted_wrt (\<lambda>a b. unat (rp_logIndex a) \<le> unat (rp_logIndex b) \<and>
      unat (rp_transactionIndex a) \<le> unat (rp_transactionIndex b) \<and> rp_logIndex a \<noteq> rp_logIndex b) rs"
    using dis sub assms(2)
    by (induction rs) (auto simp: rpc_logs_sane_def word_le_nat_alt)
  have "sorted_wrt (\<lambda>x y. unat (rl_logIndex x) < unat (rl_logIndex y) \<and> log_key x \<le> log_key y \<and>
      log_order x \<le> log_order y) logs"
    by (rule map_res_sorted [OF eq ord])
       (use accept_log_fields in \<open>auto simp: log_key_def log_order_def word_unat_eq_iff\<close>)
  then have "sorted (map log_key logs)" "sorted (map log_order logs)" "distinct (map rl_logIndex logs)"
    by (induction logs) auto
  with f assms(4,5) show ?thesis by (auto simp: new_logs_def list_all_iff)
qed

section \<open>Steps of the view\<close>

lemma log_order_less_block: "unat (rl_blockNumber x) < unat (rl_blockNumber y) \<Longrightarrow> log_order x \<le> log_order y"
  by (simp add: log_order_def)

lemma view_inv_commit:
  assumes inv: "view_inv keccak cc cid height v" and ext: "extends cid v b" and new: "new_logs cid b logs"
    and h: "height (ib_hash b) = ib_number b"
    and s: "fold_res (Apply keccak cc) logs (v_derived v) = Inr s"
  shows "view_inv keccak cc cid height (view_commit v b logs s)"
proof -
  let ?hist = "v_history v"
  have hist: "list_all (log_wf cid) ?hist" "sorted (map log_key ?hist)" "sorted (map log_order ?hist)"
    using inv by (simp_all add: view_inv_def history_inv_def)
  have less: "unat (rl_blockNumber x) < unat (rl_blockNumber y)" if "x \<in> set ?hist" "y \<in> set logs" for x y
    using that ext new by (auto simp: extends_def new_logs_def list_all_iff word_less_nat_alt)
  have sorted: "sorted (map log_key (?hist @ logs))" "sorted (map log_order (?hist @ logs))"
    using hist new less log_key_less_block log_order_less_block by (auto simp: sorted_append new_logs_def)
  have wf: "list_all (log_wf cid) (?hist @ logs)" using hist(1) new by (simp add: new_logs_def)
  have "Rebuild keccak cc ?hist = Inr (v_derived v)" using inv by (simp add: view_inv_def)
  then have "Rebuild keccak cc (?hist @ logs) = Inr s"
    using Rebuild_sorted [OF log_wf_canonical [OF wf] sorted(1)] Rebuild_sorted [OF log_wf_canonical [OF hist(1)] hist(2)] s
    by (simp add: fold_res_append)
  moreover have "history_inv cid height (view_commit v b logs s)"
    using inv wf sorted new h
    by (auto simp: view_inv_def history_inv_def view_commit_def new_logs_def list_all_iff)
  moreover have "tip_inv cid (view_commit v b logs s)"
    using ext new by (auto simp: tip_inv_def view_commit_def extends_def new_logs_def list_all_iff intro: less_imp_le)
  ultimately show ?thesis by (simp add: view_inv_def) (simp add: view_commit_def)
qed

lemma view_inv_rewind:
  assumes inv: "view_inv keccak cc cid height v" and a: "is_ancestor v ancestor"
    and s: "case ancestor of None \<Rightarrow> s = CreateInitialState cc
      | Some a \<Rightarrow> Rebuild keccak cc (filter (\<lambda>l. rl_blockNumber l \<le> ib_number a) (v_history v)) = Inr s"
  shows "view_inv keccak cc cid height (view_rewind v cid ancestor s)"
proof (cases ancestor)
  case None
  with s show ?thesis
    by (simp add: view_inv_def history_inv_def tip_inv_def view_rewind_def Rebuild_def)
next
  case (Some b)
  let ?P = "\<lambda>l. rl_blockNumber l \<le> ib_number b"
  have "sorted (map log_key (filter ?P (v_history v)))" "sorted (map log_order (filter ?P (v_history v)))"
    using inv by (auto simp: view_inv_def history_inv_def intro: sorted_filter)
  with inv have "history_inv cid height (view_rewind v cid ancestor s)"
    by (auto simp: view_inv_def history_inv_def view_rewind_def Some list_all_iff)
  moreover have "tip_inv cid (view_rewind v cid ancestor s)"
    using a by (auto simp: tip_inv_def view_rewind_def Some is_ancestor_def)
  ultimately show ?thesis using s Some by (simp add: view_inv_def) (simp add: view_rewind_def)
qed

lemma rewind_state_wf:
  assumes "view_inv keccak cc cid height v" "contracts_wf cc"
    and "Rebuild keccak cc (filter P (v_history v)) = Inr s"
  shows "state_wf cid cc s"
  using assms by (intro Rebuild_state_wf [OF assms(3,2)])
    (auto simp: view_inv_def history_inv_def list_all_iff intro: sorted_filter)

lemma commit_state_wf:
  assumes inv: "view_inv keccak cc cid height (view_commit v b logs s)" and "contracts_wf cc"
  shows "state_wf cid cc s"
proof -
  let ?v = "view_commit v b logs s"
  have s: "Rebuild keccak cc (v_history ?v) = Inr s" using inv by (simp add: view_inv_def view_commit_def)
  show ?thesis
    by (rule Rebuild_state_wf [OF s assms(2)]) (use inv in \<open>auto simp: view_inv_def history_inv_def\<close>)
qed

text \<open>The block after the cursor extends the chain.\<close>

definition is_next :: "uint64 \<Rightarrow> SyncCursor option \<Rightarrow> uint64 \<Rightarrow> bool" where
  "is_next start cursor n =
     (case cursor of None \<Rightarrow> n = start
      | Some c \<Rightarrow> sc_blockNumber c \<noteq> 18446744073709551615 \<and> n = sc_blockNumber c + 1)"

lemma unat_Suc_word:
  fixes k :: uint64
  assumes "k \<noteq> 18446744073709551615"
  shows "unat (k + 1) = Suc (unat k)"
proof -
  have "1 + k \<noteq> 0"
  proof
    assume "1 + k = 0"
    then have "k = - 1" by (simp add: add_eq_0_iff)
    with assms show False by simp
  qed
  then show ?thesis using unatSuc [of k] by (simp add: add.commute)
qed

lemma less_Suc_word: "(m :: uint64) \<le> k \<Longrightarrow> k \<noteq> 18446744073709551615 \<Longrightarrow> m < k + 1"
  by (simp add: word_less_nat_alt word_le_nat_alt unat_Suc_word)

lemma extends_next:
  assumes inv: "view_inv keccak cc cid height v" and next_b: "is_next start (v_tip v) (ib_number b)"
    and "height (ib_hash b) = ib_number b" "ib_chainId b = cid" "ib_canonical b"
    and "length (ib_hash b) = 32" "length (ib_parentHash b) = 32"
  shows "extends cid v b"
proof (cases "v_tip v")
  case None
  with inv have "v_history v = []" "\<forall>n. v_block v n = None" by (simp_all add: view_inv_def tip_inv_def)
  with assms show ?thesis by (simp add: extends_def)
next
  case (Some c)
  have lt: "n < ib_number b" if "n \<le> sc_blockNumber c" for n
    using that next_b Some less_Suc_word by (simp add: is_next_def)
  have "rl_blockNumber l < ib_number b \<and> rl_blockHash l \<noteq> ib_hash b" if "l \<in> set (v_history v)" for l
  proof -
    have "rl_blockNumber l < ib_number b" "height (rl_blockHash l) = rl_blockNumber l"
      using that lt inv Some by (auto simp: view_inv_def tip_inv_def history_inv_def)
    with assms(3) show ?thesis by auto
  qed
  moreover have "n < ib_number b \<and> ib_hash b' \<noteq> ib_hash b" if "v_block v n = Some b'" for n b'
  proof -
    have "n < ib_number b" "height (ib_hash b') = n"
      using that lt inv Some by (auto simp: view_inv_def tip_inv_def history_inv_def)
    with assms(3) show ?thesis by auto
  qed
  ultimately show ?thesis using assms by (simp add: extends_def)
qed

section \<open>The contract of a store\<close>

text \<open>
  What the indexer expects of its store: reads return the view, \<open>CommitBlock\<close> and \<open>RewindTo\<close>, when
  they return, have taken the step of the view. \<open>ok\<close> is the store's own invariant.
\<close>

locale indexer_store =
  fixes st :: "'db IndexerStore"
    and cid :: uint256
    and cc :: ChainContracts
    and ok :: "'db \<Rightarrow> bool"
    and view :: "'db \<Rightarrow> StoreView"
  assumes load_cursor: "ok db \<Longrightarrow> st_LoadCursor st db cid = Inr (v_tip (view db))"
    and load_block: "ok db \<Longrightarrow> st_LoadCanonicalBlock st db cid n = Inr found \<Longrightarrow> found = v_block (view db) n"
    and load_logs: "ok db \<Longrightarrow> st_LoadCanonicalLogsThrough st db cid n = Inr ls \<Longrightarrow>
      ls = filter (\<lambda>l. rl_blockNumber l \<le> n) (v_history (view db))"
    and load_derived: "ok db \<Longrightarrow> st_LoadDerivedState st db cid cc = Inr (v_derived (view db))"
    and commit: "ok db \<Longrightarrow> extends cid (view db) b \<Longrightarrow> new_logs cid b ls \<Longrightarrow> state_wf cid cc s \<Longrightarrow>
      st_CommitBlock st db b ls s = Inr db' \<Longrightarrow> ok db' \<and> view db' = view_commit (view db) b ls s"
    and rewind: "ok db \<Longrightarrow> is_ancestor (view db) a \<Longrightarrow> state_wf cid cc s \<Longrightarrow>
      st_RewindTo st db cid a s = Inr db' \<Longrightarrow> ok db' \<and> view db' = view_rewind (view db) cid a s"
begin

text \<open>The state of the indexer is sound when the view satisfies the invariant.\<close>

definition sound :: "(bytes \<Rightarrow> hash256) \<Rightarrow> (hash256 \<Rightarrow> uint64) \<Rightarrow> 'db World \<Rightarrow> bool" where
  "sound keccak height w \<longleftrightarrow> ok (w_db w) \<and> view_inv keccak cc cid height (view (w_db w))"

definition at_tip :: "(bytes \<Rightarrow> hash256) \<Rightarrow> (hash256 \<Rightarrow> uint64) \<Rightarrow> SyncCursor option \<Rightarrow> 'db World \<Rightarrow> bool" where
  "at_tip keccak height c w \<longleftrightarrow> sound keccak height w \<and> v_tip (view (w_db w)) = c"

lemma sound_calls [simp]:
  "sound keccak height (w\<lparr>w_calls := k\<rparr>) = sound keccak height w"
  "sound keccak height (w\<lparr>w_status := x\<rparr>) = sound keccak height w"
  "at_tip keccak height c (w\<lparr>w_calls := k\<rparr>) = at_tip keccak height c w"
  "at_tip keccak height c (w\<lparr>w_status := x\<rparr>) = at_tip keccak height c w"
  by (simp_all add: sound_def at_tip_def)

lemma at_tip_sound: "at_tip keccak height c w \<Longrightarrow> sound keccak height w"
  by (simp add: at_tip_def)

end

text \<open>Steps that do not touch the database keep every property of it.\<close>

definition db_only :: "('db World \<Rightarrow> bool) \<Rightarrow> bool" where
  "db_only P \<longleftrightarrow> (\<forall>w k x. P (w\<lparr>w_calls := k\<rparr>) = P w \<and> P (w\<lparr>w_status := x\<rparr>) = P w)"

lemma valid_chain_call:
  assumes "db_only P" "\<And>t x w. P w \<Longrightarrow> f t = Inr x \<Longrightarrow> Q x w" "\<And>x. db_only (Q x)" "\<And>e w. P w \<Longrightarrow> E e w" "\<And>e. db_only (E e)"
  shows "valid P (chain_call f) Q E"
  using assms by (auto simp: valid_def chain_call_def db_only_def split: sum.splits)

lemma valid_set_status:
  assumes "db_only P" "\<And>w. P w \<Longrightarrow> Q () w" "db_only (Q ())"
  shows "valid P (set_status f) Q E"
  using assms by (auto simp: valid_def set_status_def modify_def db_only_def)

lemma valid_store_read:
  "(\<And>x w. P w \<Longrightarrow> f (w_db w) = Inr x \<Longrightarrow> Q x w) \<Longrightarrow> (\<And>e w. P w \<Longrightarrow> E e w) \<Longrightarrow> valid P (store_read f) Q E"
  unfolding store_read_def by (rule valid_query)

lemma valid_store_write:
  "(\<And>w db. P w \<Longrightarrow> f (w_db w) = Inr db \<Longrightarrow> Q () (w\<lparr>w_db := db\<rparr>)) \<Longrightarrow> (\<And>e w. P w \<Longrightarrow> E e w) \<Longrightarrow>
    valid P (store_write f) Q E"
  unfolding store_write_def by (rule valid_transact) (auto simp: map_result_Inr)

lemma caught_up_bound:
  fixes n h :: uint64
  assumes "n \<le> h" "n = 18446744073709551615 \<or> h < n + 1"
  shows "n = h"
proof (cases "n = 18446744073709551615")
  case True
  then have "n = - 1" by simp
  then have "h \<le> n" using word_order.extremum [of h] by (simp only:)
  with assms(1) show ?thesis by simp
next
  case False
  with assms show ?thesis by (simp add: word_less_nat_alt word_le_nat_alt unat_Suc_word word_unat_eq_iff)
qed

lemma keeps_status:
  "(\<And>s. is_chainHead (f s) = is_chainHead s) \<Longrightarrow> keeps (\<lambda>w. is_chainHead (w_status w) = h) (set_status f)"
  "keeps (\<lambda>w. is_chainHead (w_status w) = h) (chain_call g)"
  "keeps (\<lambda>w. is_chainHead (w_status w) = h) (store_read k)"
  "keeps (\<lambda>w. is_chainHead (w_status w) = h) (store_write u)"
  by (auto simp: valid_def set_status_def modify_def chain_call_def store_read_def query_def store_write_def transact_def
      map_result_Inr split: sum.splits)

lemma ancestor_loop_head: "keeps (\<lambda>w. is_chainHead (w_status w) = h) (ancestor_loop ix cid n)"
proof (induction "unat n" arbitrary: n rule: less_induct)
  case less
  show ?case
    unfolding ancestor_loop.simps [of ix cid n]
    by (intro keeps_intros keeps_status less) (rule unat_pred_less)
qed

lemma ReconcileCursor_head: "keeps (\<lambda>w. is_chainHead (w_status w) = h) (ReconcileCursor ix cid head)"
  unfolding ReconcileCursor_def FindCommonAncestor_def Rewind_def
  by (intro keeps_intros keeps_status ancestor_loop_head) simp

text \<open>The chain has answered with this hash for this number.\<close>

definition served :: "'db Indexer \<Rightarrow> uint64 \<Rightarrow> hash256 \<Rightarrow> bool" where
  "served ix n hash \<longleftrightarrow> (\<exists>t h. cl_GetBlockByNumber (ix_chain ix) t n = Inr (Some h) \<and> bh_hash h = hash)"

text \<open>The cursor is the head that the chain has told and the status reports, and the chain has served
  its hash.\<close>

definition told :: "'db Indexer \<Rightarrow> uint64 \<Rightarrow> bool" where
  "told ix n \<longleftrightarrow> (\<exists>t. cl_GetBlockNumber (ix_chain ix) t = Inr n)"

definition caught_up :: "'db Indexer \<Rightarrow> SyncCursor option \<Rightarrow> IndexerStatus \<Rightarrow> bool" where
  "caught_up ix cursor s \<longleftrightarrow> told ix (is_chainHead s) \<and>
     (case cursor of
        None \<Rightarrow> is_chainHead s < ix_startBlock ix \<and> is_indexedBlock s = 0
      | Some c \<Rightarrow> sc_blockNumber c = is_chainHead s \<and> is_indexedBlock s = is_chainHead s \<and>
          served ix (sc_blockNumber c) (sc_blockHash c))"

text \<open>The indexer is set up for the store and the contracts, on a sane chain.\<close>

definition set_up :: "'db Indexer \<Rightarrow> 'db IndexerStore \<Rightarrow> ChainContracts \<Rightarrow> (hash256 \<Rightarrow> uint64) \<Rightarrow> bool" where
  "set_up ix st cc height \<longleftrightarrow> ix_store ix = st \<and> ix_contracts ix = cc \<and> contracts_wf cc \<and>
     chain_sane (ix_chain ix) height"

context indexer_store
begin

lemma db_only_sound [simp, intro]: "db_only (sound keccak height)" "db_only (at_tip keccak height c)"
  by (simp_all add: db_only_def)

lemma db_only_conj [simp, intro]: "db_only P \<Longrightarrow> db_only (\<lambda>w. P w \<and> A)" "db_only P \<Longrightarrow> db_only (\<lambda>w. A \<and> P w)"
  by (auto simp: db_only_def)

lemma db_only_view [simp, intro]: "db_only (\<lambda>w. P (view (w_db w)))"
  by (simp add: db_only_def)

text \<open>The search for the common ancestor only reads, and returns a canonical block that is not above
  the bound.\<close>

lemma ancestor_loop_valid:
  assumes "set_up ix st cc height"
  shows "valid (at_tip keccak height c) (ancestor_loop ix cid n)
    (\<lambda>a w. (at_tip keccak height c w \<and> is_ancestor (view (w_db w)) a) \<and> (\<forall>b. a = Some b \<longrightarrow> ib_number b \<le> n \<and> served ix (ib_number b) (ib_hash b))) (\<lambda>_. sound keccak height)"
proof (induction "unat n" arbitrary: n rule: less_induct)
  case less
  have rec: "valid (at_tip keccak height c) (ancestor_loop ix cid (n - 1))
      (\<lambda>a w. (at_tip keccak height c w \<and> is_ancestor (view (w_db w)) a) \<and> (\<forall>b. a = Some b \<longrightarrow> ib_number b \<le> n \<and> served ix (ib_number b) (ib_hash b))) (\<lambda>_. sound keccak height)"
    if "\<not> n < ix_startBlock ix" "n \<noteq> ix_startBlock ix"
    by (rule valid_weaken [OF less [OF unat_pred_less [OF that]]])
       (use unat_pred_less [OF that] in \<open>auto simp: word_le_nat_alt\<close>)
  show ?case
    unfolding ancestor_loop.simps [of ix cid n]
  proof (rule valid_if)
    assume "n < ix_startBlock ix"
    show "valid (at_tip keccak height c) (ret None)
      (\<lambda>a w. (at_tip keccak height c w \<and> is_ancestor (view (w_db w)) a) \<and> (\<forall>b. a = Some b \<longrightarrow> ib_number b \<le> n \<and> served ix (ib_number b) (ib_hash b))) (\<lambda>_. sound keccak height)"
      by (rule valid_ret) (simp add: is_ancestor_def)
  next
    assume start: "\<not> n < ix_startBlock ix"
    let ?I = "\<lambda>b w. at_tip keccak height c w \<and> v_block (view (w_db w)) n = b"
    show "valid (at_tip keccak height c)
       (bindp (store_read (\<lambda>db. st_LoadCanonicalBlock (ix_store ix) db cid n)) (\<lambda>storedBlock.
        bindp (chain_call (\<lambda>t. cl_GetBlockByNumber (ix_chain ix) t n)) (\<lambda>chainBlock.
        if blocks_match storedBlock chainBlock then ret storedBlock
        else if n = ix_startBlock ix then ret None else ancestor_loop ix cid (n - 1))))
       (\<lambda>a w. (at_tip keccak height c w \<and> is_ancestor (view (w_db w)) a) \<and> (\<forall>b. a = Some b \<longrightarrow> ib_number b \<le> n \<and> served ix (ib_number b) (ib_hash b))) (\<lambda>_. sound keccak height)"
    proof (rule valid_bindp [where R = ?I])
      show "valid (at_tip keccak height c) (store_read (\<lambda>db. st_LoadCanonicalBlock (ix_store ix) db cid n)) ?I
          (\<lambda>_. sound keccak height)"
        using assms load_block by (intro valid_store_read) (auto simp: set_up_def at_tip_def sound_def)
      fix b
      show "valid (?I b)
        (bindp (chain_call (\<lambda>t. cl_GetBlockByNumber (ix_chain ix) t n)) (\<lambda>chainBlock.
          if blocks_match b chainBlock then ret b
          else if n = ix_startBlock ix then ret None else ancestor_loop ix cid (n - 1)))
        (\<lambda>a w. (at_tip keccak height c w \<and> is_ancestor (view (w_db w)) a) \<and> (\<forall>b. a = Some b \<longrightarrow> ib_number b \<le> n \<and> served ix (ib_number b) (ib_hash b))) (\<lambda>_. sound keccak height)"
      proof (rule valid_bindp [where R = "\<lambda>h w. ?I b w \<and> (\<forall>x. h = Some x \<longrightarrow> served ix n (bh_hash x))"])
        show "valid (?I b) (chain_call (\<lambda>t. cl_GetBlockByNumber (ix_chain ix) t n))
            (\<lambda>h w. ?I b w \<and> (\<forall>x. h = Some x \<longrightarrow> served ix n (bh_hash x))) (\<lambda>_. sound keccak height)"
          by (rule valid_chain_call) (auto simp: db_only_def at_tip_def served_def)
        fix h
        show "valid (\<lambda>w. ?I b w \<and> (\<forall>x. h = Some x \<longrightarrow> served ix n (bh_hash x))) (if blocks_match b h then ret b
          else if n = ix_startBlock ix then ret None else ancestor_loop ix cid (n - 1))
          (\<lambda>a w. (at_tip keccak height c w \<and> is_ancestor (view (w_db w)) a) \<and> (\<forall>b. a = Some b \<longrightarrow> ib_number b \<le> n \<and> served ix (ib_number b) (ib_hash b))) (\<lambda>_. sound keccak height)"
          by (intro valid_if valid_ret valid_weaken [OF rec [OF start]])
             (auto simp: blocks_match_def is_ancestor_def at_tip_def sound_def view_inv_def history_inv_def split: option.splits)
      qed
    qed
  qed
qed

definition cursor_of :: "IndexedBlock \<Rightarrow> SyncCursor" where
  "cursor_of b = \<lparr>sc_chainId = cid, sc_blockNumber = ib_number b, sc_blockHash = ib_hash b\<rparr>"

lemma rewind_step:
  assumes "at_tip keccak height c w" "is_ancestor (view (w_db w)) a" "contracts_wf cc"
    and s: "case a of None \<Rightarrow> s = CreateInitialState cc
      | Some b \<Rightarrow> Rebuild keccak cc (filter (\<lambda>l. rl_blockNumber l \<le> ib_number b) (v_history (view (w_db w)))) = Inr s"
    and db: "st_RewindTo st (w_db w) cid a s = Inr db"
  shows "at_tip keccak height (map_option cursor_of a) (w\<lparr>w_db := db\<rparr>)"
proof -
  have inv: "ok (w_db w)" "view_inv keccak cc cid height (view (w_db w))"
    using assms(1) by (simp_all add: at_tip_def sound_def)
  have "state_wf cid cc s"
  proof (cases a)
    case None
    with s CreateInitialState_core_wf [OF assms(3)] show ?thesis
      by (intro state_wfI) (simp_all add: CreateInitialState_def)
  next
    case (Some b)
    with s rewind_state_wf [OF inv(2) assms(3)] show ?thesis by simp
  qed
  from rewind [OF inv(1) assms(2) this db] view_inv_rewind [OF inv(2) assms(2) s]
  show ?thesis by (cases a) (simp_all add: at_tip_def sound_def view_rewind_def cursor_of_def)
qed

lemma Rewind_valid:
  assumes set_up: "set_up ix st cc height"
  shows "valid (\<lambda>w. at_tip (ix_keccak ix) height c w \<and> is_ancestor (view (w_db w)) a) (Rewind ix cid a)
    (\<lambda>_. at_tip (ix_keccak ix) height (map_option cursor_of a)) (\<lambda>_. sound (ix_keccak ix) height)"
proof -
  let ?k = "ix_keccak ix"
  let ?P = "\<lambda>w. at_tip ?k height c w \<and> is_ancestor (view (w_db w)) a"
  let ?S = "\<lambda>s w. ?P w \<and> (case a of None \<Rightarrow> s = CreateInitialState cc
      | Some b \<Rightarrow> Rebuild ?k cc (filter (\<lambda>l. rl_blockNumber l \<le> ib_number b) (v_history (view (w_db w)))) = Inr s)"
  have cc: "ix_contracts ix = cc" "ix_store ix = st" "contracts_wf cc" using set_up by (simp_all add: set_up_def)
  have only: "db_only ?P" by (simp add: db_only_def)
  have state: "valid ?P (case a of
        Some b \<Rightarrow> bindp (store_read (\<lambda>db. st_LoadCanonicalLogsThrough (ix_store ix) db cid (ib_number b)))
          (\<lambda>logs. liftp (Rebuild ?k (ix_contracts ix) logs))
      | None \<Rightarrow> ret (CreateInitialState (ix_contracts ix))) ?S (\<lambda>_. sound ?k height)"
  proof (cases a)
    case None
    then show ?thesis using cc by (auto intro: valid_ret)
  next
    case (Some b)
    let ?L = "\<lambda>logs w. ?P w \<and> logs = filter (\<lambda>l. rl_blockNumber l \<le> ib_number b) (v_history (view (w_db w)))"
    have "valid ?P (store_read (\<lambda>db. st_LoadCanonicalLogsThrough (ix_store ix) db cid (ib_number b))) ?L (\<lambda>_. sound ?k height)"
      using load_logs cc by (intro valid_store_read) (auto simp: at_tip_def sound_def)
    moreover have "valid (?L logs) (liftp (Rebuild ?k (ix_contracts ix) logs)) ?S (\<lambda>_. sound ?k height)" for logs
      using Some cc by (intro valid_liftp) (auto simp: at_tip_def)
    ultimately show ?thesis using Some by (auto intro: valid_bindp)
  qed
  have "valid (?S s) (store_write (\<lambda>db. st_RewindTo (ix_store ix) db cid a s))
      (\<lambda>_. at_tip ?k height (map_option cursor_of a)) (\<lambda>_. sound ?k height)" for s
    using cc rewind_step by (intro valid_store_write) (auto simp: at_tip_def)
  then show ?thesis
    unfolding Rewind_def using only
    by (intro valid_bindp [where R = "\<lambda>_. ?P"] valid_bindp [OF state] valid_set_status) auto
qed

lemma ReconcileCursor_valid:
  assumes set_up: "set_up ix st cc height"
  shows "valid (sound (ix_keccak ix) height) (ReconcileCursor ix cid head)
    (\<lambda>c w. at_tip (ix_keccak ix) height c w \<and> (\<forall>d. c = Some d \<longrightarrow> sc_blockNumber d \<le> head \<and> served ix (sc_blockNumber d) (sc_blockHash d)))
    (\<lambda>_. sound (ix_keccak ix) height)"
proof -
  let ?k = "ix_keccak ix"
  let ?Q = "\<lambda>c w. at_tip ?k height c w \<and> (\<forall>d. c = Some d \<longrightarrow> sc_blockNumber d \<le> head \<and> served ix (sc_blockNumber d) (sc_blockHash d))"
  have cursor: "valid (sound ?k height) (store_read (\<lambda>db. st_LoadCursor (ix_store ix) db cid)) (at_tip ?k height) (\<lambda>_. sound ?k height)"
    using load_cursor set_up by (intro valid_store_read) (auto simp: set_up_def at_tip_def sound_def)
  have call: "valid (at_tip ?k height c) (chain_call (\<lambda>t. cl_GetBlockByNumber (ix_chain ix) t n))
      (\<lambda>found w. at_tip ?k height c w \<and> (\<forall>x. found = Some x \<longrightarrow> served ix n (bh_hash x))) (\<lambda>_. sound ?k height)" for c n
    by (rule valid_chain_call) (auto simp: served_def intro: at_tip_sound)
  have current: "valid (at_tip ?k height (Some c))
      (if sc_blockNumber c \<le> head
       then bindp (chain_call (\<lambda>t. cl_GetBlockByNumber (ix_chain ix) t (sc_blockNumber c))) (\<lambda>chainBlock.
            ret (case chainBlock of Some h \<Rightarrow> bh_hash h = sc_blockHash c | None \<Rightarrow> False))
       else ret False) (\<lambda>current w. at_tip ?k height (Some c) w \<and> (current \<longrightarrow> sc_blockNumber c \<le> head \<and> served ix (sc_blockNumber c) (sc_blockHash c)))
      (\<lambda>_. sound ?k height)" for c
    by (intro valid_if valid_bindp [OF call] valid_ret) (auto split: option.splits)
  have search: "valid (at_tip ?k height (Some c))
      (bindp (FindCommonAncestor ix cid (min (sc_blockNumber c) head)) (\<lambda>ancestor.
       bindp (Rewind ix cid ancestor) (\<lambda>_.
       case ancestor of None \<Rightarrow> ret None
       | Some a \<Rightarrow> ret (Some \<lparr>sc_chainId = cid, sc_blockNumber = ib_number a, sc_blockHash = ib_hash a\<rparr>))))
      ?Q (\<lambda>_. sound ?k height)" for c
    unfolding FindCommonAncestor_def
    by (intro valid_bindp [OF ancestor_loop_valid [OF set_up]] valid_pre_conj valid_bindp [OF Rewind_valid [OF set_up]])
       (auto intro!: valid_ret simp: cursor_of_def split: option.splits)
  show ?thesis
    unfolding ReconcileCursor_def
  proof (intro valid_bindp [OF cursor] valid_case_option)
    fix c :: "SyncCursor option"
    assume "c = None"
    then show "valid (at_tip ?k height c) (ret None) ?Q (\<lambda>_. sound ?k height)"
      by (intro valid_ret) simp
  next
    fix c :: "SyncCursor option" and d
    assume "c = Some d"
    then show "valid (at_tip ?k height c)
      (bindp (if sc_blockNumber d \<le> head
         then bindp (chain_call (\<lambda>t. cl_GetBlockByNumber (ix_chain ix) t (sc_blockNumber d))) (\<lambda>chainBlock.
              ret (case chainBlock of Some h \<Rightarrow> bh_hash h = sc_blockHash d | None \<Rightarrow> False))
         else ret False) (\<lambda>current.
       if current then ret (Some d)
       else bindp (FindCommonAncestor ix cid (min (sc_blockNumber d) head)) (\<lambda>ancestor.
            bindp (Rewind ix cid ancestor) (\<lambda>_.
            case ancestor of None \<Rightarrow> ret None
            | Some a \<Rightarrow> ret (Some \<lparr>sc_chainId = cid, sc_blockNumber = ib_number a, sc_blockHash = ib_hash a\<rparr>)))))
      ?Q (\<lambda>_. sound ?k height)"
      by (simp only:) (intro valid_bindp [OF current] valid_pre_conj valid_if valid_ret search; simp)
  qed
qed

lemma index_step:
  assumes tip: "at_tip keccak height c w" and cc: "contracts_wf cc"
    and next_n: "is_next start c n" and h: "height hash = n" "length hash = 32" "length parent = 32"
    and logs: "block_logs cid n hash rpc = Inr logs" "rpc_logs_sane rpc"
    and s: "fold_res (Apply keccak cc) logs (v_derived (view (w_db w))) = Inr s"
    and db: "st_CommitBlock st (w_db w) \<lparr>ib_chainId = cid, ib_number = n, ib_hash = hash, ib_parentHash = parent,
       ib_canonical = True\<rparr> logs s = Inr db"
  shows "at_tip keccak height (Some \<lparr>sc_chainId = cid, sc_blockNumber = n, sc_blockHash = hash\<rparr>) (w\<lparr>w_db := db\<rparr>)"
proof -
  let ?b = "\<lparr>ib_chainId = cid, ib_number = n, ib_hash = hash, ib_parentHash = parent, ib_canonical = True\<rparr>"
  have inv: "ok (w_db w)" "view_inv keccak cc cid height (view (w_db w))" "v_tip (view (w_db w)) = c"
    using tip by (simp_all add: at_tip_def sound_def)
  have ext: "extends cid (view (w_db w)) ?b"
    by (rule extends_next [OF inv(2)]) (use next_n h inv(3) in simp_all)
  have new: "new_logs cid ?b logs" by (rule block_logs_new [OF logs h(2)]) simp_all
  have inv': "view_inv keccak cc cid height (view_commit (view (w_db w)) ?b logs s)"
    by (rule view_inv_commit [OF inv(2) ext new _ s]) (simp add: h(1))
  from commit [OF inv(1) ext new commit_state_wf [OF inv' cc] db] inv'
  show ?thesis by (simp add: at_tip_def sound_def) (simp add: view_commit_def)
qed

lemma IndexBlock_valid:
  assumes set_up: "set_up ix st cc height"
    and next_n: "is_next start c n" and n: "ToUint64 (bh_number header) = Inr n"
    and h: "height (bh_hash header) = n" "length (bh_hash header) = 32" "length (bh_parentHash header) = 32"
  shows "valid (at_tip (ix_keccak ix) height c) (IndexBlock ix cid header)
    (\<lambda>_. at_tip (ix_keccak ix) height (Some \<lparr>sc_chainId = cid, sc_blockNumber = n, sc_blockHash = bh_hash header\<rparr>))
    (\<lambda>_. sound (ix_keccak ix) height)"
proof -
  let ?k = "ix_keccak ix" and ?T = "at_tip (ix_keccak ix) height c"
  have ix: "ix_contracts ix = cc" "ix_store ix = st" "contracts_wf cc" "chain_sane (ix_chain ix) height"
    using set_up by (simp_all add: set_up_def)
  have logs: "valid ?T (chain_call (\<lambda>t. cl_GetLogs (ix_chain ix) t n)) (\<lambda>rpc w. ?T w \<and> rpc_logs_sane rpc) (\<lambda>_. sound ?k height)"
    using ix(4) by (intro valid_chain_call) (auto simp: chain_sane_def intro: at_tip_sound)
  have raw: "valid (\<lambda>w. ?T w \<and> rpc_logs_sane rpc) (liftp (block_logs cid n (bh_hash header) rpc))
      (\<lambda>ls w. ?T w \<and> rpc_logs_sane rpc \<and> block_logs cid n (bh_hash header) rpc = Inr ls) (\<lambda>_. sound ?k height)" for rpc
    by (intro valid_liftp) (auto simp: at_tip_def)
  have derived: "valid (\<lambda>w. ?T w \<and> A) (store_read (\<lambda>db. st_LoadDerivedState (ix_store ix) db cid (ix_contracts ix)))
      (\<lambda>d w. ?T w \<and> A \<and> d = v_derived (view (w_db w))) (\<lambda>_. sound ?k height)" for A
    using ix load_derived by (intro valid_store_read) (auto simp: at_tip_def sound_def)
  have project: "valid (\<lambda>w. ?T w \<and> A \<and> d = v_derived (view (w_db w))) (liftp (fold_res (Apply ?k (ix_contracts ix)) ls d))
      (\<lambda>s w. ?T w \<and> A \<and> fold_res (Apply ?k cc) ls (v_derived (view (w_db w))) = Inr s) (\<lambda>_. sound ?k height)" for A d ls
    using ix by (intro valid_liftp) (auto simp: at_tip_def)
  have store: "valid (\<lambda>w. ?T w \<and> (rpc_logs_sane rpc \<and> block_logs cid n (bh_hash header) rpc = Inr ls) \<and>
        fold_res (Apply ?k cc) ls (v_derived (view (w_db w))) = Inr s)
      (store_write (\<lambda>db. st_CommitBlock (ix_store ix) db \<lparr>ib_chainId = cid, ib_number = n, ib_hash = bh_hash header,
        ib_parentHash = bh_parentHash header, ib_canonical = True\<rparr> ls s))
      (\<lambda>_. at_tip ?k height (Some \<lparr>sc_chainId = cid, sc_blockNumber = n, sc_blockHash = bh_hash header\<rparr>))
      (\<lambda>_. sound ?k height)" for rpc ls s
    unfolding ix(2)
    by (rule valid_store_write) (use index_step [where height = height] ix(3) next_n h at_tip_sound in blast)+
  show ?thesis
    unfolding IndexBlock_def n bindp_liftp_Inr
    by (intro valid_bindp [OF logs] valid_bindp [OF raw] valid_bindp [OF derived] valid_bindp [OF project] store)
qed

lemma valid_status: "valid (at_tip k height c) (set_status f) (\<lambda>_. at_tip k height c) E"
  "valid (sound k height) (set_status f) (\<lambda>_. sound k height) E"
  by (rule valid_set_status; simp)+

lemma valid_found:
  assumes "chain_sane (ix_chain ix) height"
  shows "valid (at_tip k height c) (chain_call (\<lambda>t. cl_GetBlockByNumber (ix_chain ix) t n))
    (\<lambda>found w. at_tip k height c w \<and> (\<forall>h. found = Some h \<longrightarrow> length (bh_hash h) = 32 \<and> length (bh_parentHash h) = 32 \<and>
        (ToUint64 (bh_number h) = Inr n \<longrightarrow> height (bh_hash h) = n))) (\<lambda>_. sound k height)"
  using assms by (intro valid_chain_call) (auto simp: chain_sane_def intro: at_tip_sound)

lemma valid_number:
  "valid (at_tip k height c) (liftp (ToUint64 v)) (\<lambda>n w. at_tip k height c w \<and> ToUint64 v = Inr n) (\<lambda>_. sound k height)"
  by (rule valid_liftp) (auto intro: at_tip_sound)

lemma reconciled:
  assumes set_up: "set_up ix st cc height"
  shows "valid (\<lambda>w. sound (ix_keccak ix) height w \<and> is_chainHead (w_status w) = head) (ReconcileCursor ix cid head)
    (\<lambda>c w. (at_tip (ix_keccak ix) height c w \<and> (\<forall>d. c = Some d \<longrightarrow> sc_blockNumber d \<le> head \<and> served ix (sc_blockNumber d) (sc_blockHash d))) \<and>
       is_chainHead (w_status w) = head) (\<lambda>_. sound (ix_keccak ix) height)"
  by (rule valid_weaken [OF valid_conj [OF ReconcileCursor_valid [OF set_up] ReconcileCursor_head]]) auto

text \<open>A round keeps the invariant, and one that returns has reached the head it was told last.\<close>

lemma sync_loop_valid:
  assumes set_up: "set_up ix st cc height"
  shows "valid (sound (ix_keccak ix) height) (sync_loop fuel ix cid done_blocks)
    (\<lambda>r w. sound (ix_keccak ix) height w \<and>
       (r \<noteq> None \<longrightarrow> caught_up ix (v_tip (view (w_db w))) (w_status w)))
    (\<lambda>_. sound (ix_keccak ix) height)"
proof (induction fuel arbitrary: done_blocks)
  case 0
  show ?case by (simp add: valid_ret)
next
  case (Suc fuel)
  let ?k = "ix_keccak ix" and ?E = "\<lambda>_. sound (ix_keccak ix) height"
  let ?Q = "\<lambda>r w. sound ?k height w \<and> (r \<noteq> None \<longrightarrow> caught_up ix (v_tip (view (w_db w))) (w_status w))"
  let ?S = "\<lambda>c h w. (at_tip ?k height c w \<and> (\<forall>d. c = Some d \<longrightarrow> sc_blockNumber d \<le> h \<and> served ix (sc_blockNumber d) (sc_blockHash d))) \<and> is_chainHead (w_status w) = h \<and>
      is_indexedBlock (w_status w) = (case c of Some d \<Rightarrow> sc_blockNumber d | None \<Rightarrow> 0)"
  have again: "valid (at_tip ?k height c) (sync_loop fuel ix cid m) ?Q ?E" for c m
    by (rule valid_weaken [OF Suc]) (auto intro: at_tip_sound)
  have err: "valid (at_tip ?k height c) (raise e) ?Q ?E" for c e
    by (rule valid_raise) (rule at_tip_sound)
  have reorg: "valid (at_tip ?k height c) (bindp (FindCommonAncestor ix cid n) (\<lambda>a. bindp (Rewind ix cid a) (\<lambda>_.
      sync_loop fuel ix cid m))) ?Q ?E" for c n m
    unfolding FindCommonAncestor_def
    by (intro valid_bindp [OF ancestor_loop_valid [OF set_up]] valid_pre_conj valid_bindp [OF Rewind_valid [OF set_up]] again)
  have index: "valid (at_tip ?k height c) (bindp (IndexBlock ix cid h) (\<lambda>_. bindp (set_status f) (\<lambda>_.
      sync_loop fuel ix cid m))) ?Q ?E"
    if "is_next start c n" "ToUint64 (bh_number h) = Inr n" "height (bh_hash h) = n"
      "length (bh_hash h) = 32" "length (bh_parentHash h) = 32" for c n h f m start
    by (intro valid_bindp [OF IndexBlock_valid [OF set_up that]] valid_bindp [OF valid_status(1)] again)
  have sane: "chain_sane (ix_chain ix) height" using set_up by (simp add: set_up_def)
  have head: "valid (sound ?k height) (chain_call (cl_GetBlockNumber (ix_chain ix)))
      (\<lambda>h w. sound ?k height w \<and> told ix h) ?E"
    by (rule valid_chain_call) (auto simp: told_def)
  have report: "valid (sound ?k height) (set_status (\<lambda>s. s\<lparr>is_chainHead := h\<rparr>))
      (\<lambda>_ w. sound ?k height w \<and> is_chainHead (w_status w) = h) ?E" for h
    by (auto simp: valid_def set_status_def modify_def)
  have shown: "valid (\<lambda>w. (at_tip ?k height c w \<and> (\<forall>d. c = Some d \<longrightarrow> sc_blockNumber d \<le> h \<and> served ix (sc_blockNumber d) (sc_blockHash d))) \<and> is_chainHead (w_status w) = h)
      (set_status (\<lambda>s. s\<lparr>is_indexedBlock := (case c of Some d \<Rightarrow> sc_blockNumber d | None \<Rightarrow> 0)\<rparr>)) (\<lambda>_. ?S c h) ?E" for c h
    by (auto simp: valid_def set_status_def modify_def)
  have stop: "valid (?S c h) (ret x) ?Q ?E"
    if "told ix h" "(case c of Some d \<Rightarrow> sc_blockNumber d = 18446744073709551615 | None \<Rightarrow> False) \<or>
      h < (case c of Some d \<Rightarrow> sc_blockNumber d + 1 | None \<Rightarrow> ix_startBlock ix)" for c h and x :: "nat option"
    by (rule valid_ret) (use that in \<open>auto simp: at_tip_def caught_up_def dest: caught_up_bound split: option.splits\<close>)
  have go_on: "valid (?S c h) m ?Q ?E" if "valid (at_tip ?k height c) m ?Q ?E" for c h m
    by (rule valid_pre [OF that]) simp
  show ?case
    unfolding sync_loop.simps Let_def
    apply (intro valid_bindp [OF head] valid_pre_conj valid_bindp [OF report] valid_bindp [OF reconciled [OF set_up]]
      valid_bindp [OF shown] valid_if stop)
        apply simp
       apply simp
      apply simp
     apply simp
    apply (rule go_on)
     apply (intro valid_bindp [OF valid_found [OF sane]] valid_case_option valid_if
       valid_pre_conj err valid_bindp [OF valid_number] reorg)
      apply (rule index; auto simp: is_next_def split: option.splits)+
    done
qed

lemma SyncToHead_valid:
  assumes set_up: "set_up ix st cc height" and id: "\<And>t c. cl_GetChainId (ix_chain ix) t = Inr c \<Longrightarrow> c = cid"
  shows "valid (sound (ix_keccak ix) height) (SyncToHead fuel ix)
    (\<lambda>r w. sound (ix_keccak ix) height w \<and>
       (r \<noteq> None \<longrightarrow> caught_up ix (v_tip (view (w_db w))) (w_status w)))
    (\<lambda>_. sound (ix_keccak ix) height)"
  unfolding SyncToHead_def
proof (rule valid_bindp [where R = "\<lambda>c w. sound (ix_keccak ix) height w \<and> c = cid"])
  show "valid (sound (ix_keccak ix) height) (chain_call (cl_GetChainId (ix_chain ix)))
      (\<lambda>c w. sound (ix_keccak ix) height w \<and> c = cid) (\<lambda>_. sound (ix_keccak ix) height)"
    by (rule valid_chain_call) (auto dest: id)
  show "valid (\<lambda>w. sound (ix_keccak ix) height w \<and> c = cid) (sync_loop fuel ix c 0)
      (\<lambda>r w. sound (ix_keccak ix) height w \<and>
        (r \<noteq> None \<longrightarrow> caught_up ix (v_tip (view (w_db w))) (w_status w)))
      (\<lambda>_. sound (ix_keccak ix) height)" for c
    by (rule valid_pre_conj) (use sync_loop_valid [OF set_up] in simp)
qed

end

end
