(* ===== verification/Indexer_Progress.thy ===== *)
theory Indexer_Progress
  imports Indexer_Correct
begin

text \<open>
  \<open>SyncToHead\<close> loops until it has caught up with the head. On a chain that does not change while it
  runs and whose blocks link to their parents, it ends: a round that neither returns nor throws
  indexes the next block, after at most one rewind.
\<close>

section \<open>A chain at rest\<close>

definition stable_chain :: "ChainClient \<Rightarrow> uint64 \<Rightarrow> (uint64 \<Rightarrow> BlockHeader) \<Rightarrow> bool" where
  "stable_chain c head hdr \<longleftrightarrow>
     (\<forall>t. cl_GetBlockNumber c t = Inr head) \<and>
     (\<forall>t n. cl_GetBlockByNumber c t n = Inr (if n \<le> head then Some (hdr n) else None)) \<and>
     (\<forall>n \<le> head. ToUint64 (bh_number (hdr n)) = Inr n) \<and>
     (\<forall>n < head. bh_parentHash (hdr (n + 1)) = bh_hash (hdr n))"

definition on_chain :: "uint64 \<Rightarrow> (uint64 \<Rightarrow> BlockHeader) \<Rightarrow> SyncCursor option \<Rightarrow> bool" where
  "on_chain head hdr c = (case c of None \<Rightarrow> True
     | Some d \<Rightarrow> sc_blockNumber d \<le> head \<and> bh_hash (hdr (sc_blockNumber d)) = sc_blockHash d)"

text \<open>The rounds that are left, at most.\<close>

definition rounds :: "uint64 \<Rightarrow> (uint64 \<Rightarrow> BlockHeader) \<Rightarrow> SyncCursor option \<Rightarrow> nat" where
  "rounds head hdr c = (case c of None \<Rightarrow> Suc (unat head)
     | Some d \<Rightarrow> if on_chain head hdr c then unat head - unat (sc_blockNumber d) else Suc (unat head))"

lemma rounds_le: "rounds head hdr c \<le> Suc (unat head)"
  by (auto simp: rounds_def split: option.splits)

lemma served_stable:
  "stable_chain (ix_chain ix) head hdr \<Longrightarrow> served ix n hash \<longleftrightarrow> n \<le> head \<and> bh_hash (hdr n) = hash"
  by (auto simp: stable_chain_def served_def)

lemma valid_constant_call:
  "db_only P \<Longrightarrow> (\<And>t. f t = Inr v) \<Longrightarrow> valid P (chain_call f) (\<lambda>x w. P w \<and> x = v) E"
  by (simp add: valid_def chain_call_def db_only_def)

context indexer_store
begin

lemma reconcile_rounds:
  assumes set_up: "set_up ix st cc height" and chain: "stable_chain (ix_chain ix) head hdr"
  shows "valid (at_tip (ix_keccak ix) height c) (ReconcileCursor ix cid head)
    (\<lambda>c' w. at_tip (ix_keccak ix) height c' w \<and> on_chain head hdr c' \<and> rounds head hdr c' \<le> rounds head hdr c) (\<lambda>_ _. True)"
proof (cases "on_chain head hdr c \<and> c \<noteq> None")
  case True
  then obtain d where d: "c = Some d" "sc_blockNumber d \<le> head" "bh_hash (hdr (sc_blockNumber d)) = sc_blockHash d"
    by (auto simp: on_chain_def)
  have load: "valid (at_tip (ix_keccak ix) height c) (store_read (\<lambda>db. st_LoadCursor (ix_store ix) db cid))
      (\<lambda>x w. at_tip (ix_keccak ix) height c w \<and> x = Some d) (\<lambda>_ _. True)"
    using load_cursor set_up d by (intro valid_store_read) (auto simp: set_up_def at_tip_def sound_def)
  have same: "valid (at_tip (ix_keccak ix) height c) (chain_call (\<lambda>t. cl_GetBlockByNumber (ix_chain ix) t (sc_blockNumber d)))
      (\<lambda>x w. at_tip (ix_keccak ix) height c w \<and> x = Some (hdr (sc_blockNumber d))) (\<lambda>_ _. True)"
    using chain d by (intro valid_constant_call) (auto simp: stable_chain_def)
  show ?thesis
    unfolding ReconcileCursor_def
    apply (rule valid_bindp [OF load], rule valid_pre_conj, simp add: d)
    apply (rule valid_bindp [OF valid_bindp [OF same [unfolded d(1)] valid_ret
        [where Q = "\<lambda>x w. at_tip (ix_keccak ix) height (Some d) w \<and> x"]]])
     apply (use d in \<open>auto simp: valid_def ret_def on_chain_def\<close>)
    done
next
  case False
  then have most: "rounds head hdr c = Suc (unat head)" by (auto simp: rounds_def on_chain_def split: option.splits)
  show ?thesis
    by (rule valid_weaken [OF ReconcileCursor_valid [OF set_up]])
       (use served_stable [OF chain] rounds_le in \<open>auto simp: most on_chain_def intro: at_tip_sound split: option.splits\<close>)
qed

text \<open>The block after a cursor on the chain links to it, so a round indexes it.\<close>

lemma next_rounds:
  assumes "on_chain head hdr c" "\<not> (case c of Some d \<Rightarrow> sc_blockNumber d = 18446744073709551615 | None \<Rightarrow> False)"
    and "n = (case c of Some d \<Rightarrow> sc_blockNumber d + 1 | None \<Rightarrow> ix_startBlock ix)" "\<not> n > head"
  shows "rounds head hdr (Some \<lparr>sc_chainId = cid, sc_blockNumber = n, sc_blockHash = bh_hash (hdr n)\<rparr>) < rounds head hdr c"
proof (cases c)
  case None
  with assms(4) show ?thesis by (simp add: rounds_def on_chain_def not_less less_Suc_eq_le)
next
  case (Some d)
  then have "unat n = Suc (unat (sc_blockNumber d))" using assms(2,3) by (simp add: unat_Suc_word)
  with Some assms(1,4) show ?thesis
    by (simp add: rounds_def on_chain_def word_le_nat_alt not_less)
qed

lemma sync_loop_ends:
  assumes set_up: "set_up ix st cc height" and chain: "stable_chain (ix_chain ix) head hdr"
  shows "rounds head hdr c < fuel \<Longrightarrow>
    valid (at_tip (ix_keccak ix) height c) (sync_loop fuel ix cid done_blocks) (\<lambda>r _. r \<noteq> None) (\<lambda>_ _. True)"
proof (induction fuel arbitrary: c done_blocks)
  case 0
  then show ?case by simp
next
  case (Suc fuel)
  let ?T = "at_tip (ix_keccak ix) height" and ?E = "\<lambda>_ _. True"
  have hdr: "\<And>t n. n \<le> head \<Longrightarrow> cl_GetBlockByNumber (ix_chain ix) t n = Inr (Some (hdr n))"
    "\<And>n. n \<le> head \<Longrightarrow> ToUint64 (bh_number (hdr n)) = Inr n" "\<And>t. cl_GetBlockNumber (ix_chain ix) t = Inr head"
    "\<And>n. n < head \<Longrightarrow> bh_parentHash (hdr (n + 1)) = bh_hash (hdr n)"
    using chain by (simp_all add: stable_chain_def)
  have "chain_sane (ix_chain ix) height" using set_up by (simp add: set_up_def)
  then have sane: "length (bh_hash (hdr n)) = 32 \<and> length (bh_parentHash (hdr n)) = 32 \<and> height (bh_hash (hdr n)) = n"
    if "n \<le> head" for n
    using hdr(1,2) [OF that] unfolding chain_sane_def by blast
  have index: "valid (?T b) (bindp (IndexBlock ix cid (hdr n)) (\<lambda>_. bindp (set_status f) (\<lambda>_. sync_loop fuel ix cid m)))
      (\<lambda>r _. r \<noteq> None) ?E"
    if "on_chain head hdr b" "rounds head hdr b \<le> rounds head hdr c" "n \<le> head"
      "\<not> (case b of Some d \<Rightarrow> sc_blockNumber d = 18446744073709551615 | None \<Rightarrow> False)"
      "n = (case b of Some d \<Rightarrow> sc_blockNumber d + 1 | None \<Rightarrow> ix_startBlock ix)" for b n f m
  proof -
    let ?c = "Some \<lparr>sc_chainId = cid, sc_blockNumber = n, sc_blockHash = bh_hash (hdr n)\<rparr>"
    have "rounds head hdr ?c < rounds head hdr b" using next_rounds [of head hdr b n ix] that by auto
    then have "rounds head hdr ?c < fuel" using that(2) Suc.prems by simp
    moreover have "valid (?T b) (IndexBlock ix cid (hdr n)) (\<lambda>_. ?T ?c) ?E"
      by (rule valid_weaken [OF IndexBlock_valid [OF set_up, where n = n and c = b and start = "ix_startBlock ix"]])
         (use that sane hdr in \<open>auto simp: is_next_def split: option.splits\<close>)
    ultimately show ?thesis
      by (intro valid_bindp [OF _ valid_bindp [OF valid_status(1) Suc.IH]])
  qed
  have link: "bh_parentHash (hdr n) = sc_blockHash d"
    if "on_chain head hdr (Some d)" "sc_blockNumber d \<noteq> 18446744073709551615" "n = sc_blockNumber d + 1" "n \<le> head" for n d
    using that hdr(4) [of "sc_blockNumber d"] less_Suc_word [OF order.refl that(2)]
    by (simp add: on_chain_def)
  show ?case
    unfolding sync_loop.simps Let_def
    apply (rule valid_bindp [OF valid_constant_call [where P = "?T c"]], simp, rule hdr(3), rule valid_pre_conj, hypsubst)
    apply (intro valid_bindp [OF valid_status(1)] valid_bindp [OF reconcile_rounds [OF set_up chain]] valid_pre_conj)
    apply (intro valid_bindp [OF valid_status(1)] valid_if valid_ret)
      apply simp
     apply simp
    apply (elim conjE)
    apply (rule valid_bindp [OF valid_constant_call], simp, rule hdr(1), simp add: not_less, rule valid_pre_conj, hypsubst)
    apply (auto simp: hdr(2) bindp_liftp_Inr not_less link index simp del: not_None_eq split: option.split)
    done
qed

text \<open>One round more than blocks is enough.\<close>

lemma SyncToHead_ends:
  assumes set_up: "set_up ix st cc height" and chain: "stable_chain (ix_chain ix) head hdr"
    and id: "\<And>t c. cl_GetChainId (ix_chain ix) t = Inr c \<Longrightarrow> c = cid"
    and fuel: "Suc (unat head) < fuel"
  shows "valid (sound (ix_keccak ix) height) (SyncToHead fuel ix) (\<lambda>r _. r \<noteq> None) (\<lambda>_ _. True)"
  unfolding SyncToHead_def
proof (rule valid_bindp [where R = "\<lambda>c w. sound (ix_keccak ix) height w \<and> c = cid"])
  show "valid (sound (ix_keccak ix) height) (chain_call (cl_GetChainId (ix_chain ix)))
      (\<lambda>c w. sound (ix_keccak ix) height w \<and> c = cid) (\<lambda>_ _. True)"
    by (rule valid_chain_call) (auto dest: id simp: db_only_def)
  have "rounds head hdr c < fuel" for c using rounds_le [of head hdr c] fuel by simp
  note ends = sync_loop_ends [OF set_up chain this]
  show "valid (\<lambda>w. sound (ix_keccak ix) height w \<and> x = cid) (sync_loop fuel ix x 0) (\<lambda>r _. r \<noteq> None) (\<lambda>_ _. True)" for x
    by (rule validI) (use validD [OF ends] in \<open>auto simp: at_tip_def\<close>)
qed

end

end
