(* ===== verification/Store_Laws.thy ===== *)
theory Store_Laws
  imports Store_Round_Trip Indexer_Progress
begin

text \<open>
  \<open>PostgresStore\<close> keeps the contract of the indexer: its tables, read through the statements of the
  store, are a view, and \<open>CommitBlock\<close> and \<open>RewindTo\<close> take the steps of the view. The properties of
  the indexer follow for the database of the program.
\<close>

section \<open>Rows of a table\<close>

lemma mset_filter_upsert:
  assumes d: "distinct (map key xs)" and old: "\<forall>x \<in> set xs. P x \<longrightarrow> key x \<noteq> key r" and "P r"
  shows "mset (filter P (upsert key r xs)) = add_mset r (mset (filter P xs))"
proof (cases "key r \<in> key ` set xs")
  case False
  with \<open>P r\<close> show ?thesis by (simp add: upsert_def)
next
  case True
  then obtain x where "x \<in> set xs" and kx: "key r = key x" by auto
  then obtain ys zs where xs: "xs = ys @ x # zs" by (meson split_list)
  have other: "\<forall>y \<in> set ys \<union> set zs. key y \<noteq> key r" using d kx unfolding xs by (auto simp: image_iff)
  have "map (\<lambda>y. if key y = key r then r else y) ys = ys" "map (\<lambda>y. if key y = key r then r else y) zs = zs"
    using other by (auto intro: map_idI)
  with True have "upsert key r xs = ys @ r # zs" by (simp add: upsert_def xs kx)
  moreover have "\<not> P x" using old kx unfolding xs by auto
  ultimately show ?thesis using \<open>P r\<close> by (simp add: xs)
qed

lemma mset_filter_upserts:
  assumes "distinct (map key xs)" "distinct (map key rs)" "\<forall>r \<in> set rs. P r"
    and "\<forall>x \<in> set xs. P x \<longrightarrow> key x \<notin> key ` set rs"
  shows "mset (filter P (fold (upsert key) rs xs)) = mset (filter P xs @ rs) \<and>
    distinct (map key (fold (upsert key) rs xs))"
  using assms
proof (induction rs arbitrary: xs)
  case Nil
  then show ?case by simp
next
  case (Cons r rs)
  have step: "mset (filter P (upsert key r xs)) = add_mset r (mset (filter P xs))"
    using Cons.prems by (intro mset_filter_upsert) auto
  have "mset (filter P (fold (upsert key) rs (upsert key r xs))) = mset (filter P (upsert key r xs) @ rs) \<and>
      distinct (map key (fold (upsert key) rs (upsert key r xs)))"
  proof (rule Cons.IH)
    show "distinct (map key (upsert key r xs))" using Cons.prems(1) by (rule distinct_upsert)
    show "\<forall>x \<in> set (upsert key r xs). P x \<longrightarrow> key x \<notin> key ` set rs"
      using Cons.prems by (auto simp: set_upsert)
  qed (use Cons.prems in auto)
  with step show ?case by simp
qed

lemma filter_unique:
  assumes "distinct (map g xs)" "x \<in> set xs" "g x = k"
  shows "filter (\<lambda>y. g y = k) xs = [x]"
proof -
  obtain ys zs where xs: "xs = ys @ x # zs" using split_list [OF assms(2)] by blast
  have "\<forall>y \<in> set ys \<union> set zs. g y \<noteq> k" using assms(1,3) unfolding xs by (auto simp: image_iff)
  then show ?thesis using assms(3) by (simp add: xs filter_empty_conv)
qed

lemma map_res_append: "map_res f (xs @ ys) = bind_res (map_res f xs) (\<lambda>us. map_result (\<lambda>vs. us @ vs) (map_res f ys))"
proof (induction xs)
  case Nil
  then show ?case by (cases "map_res f ys") simp_all
next
  case (Cons x xs)
  then show ?case
    by (cases "f x"; cases "map_res f xs"; cases "map_res f ys") simp_all
qed

lemma map_res_filter:
  assumes "map_res f xs = Inr ys" "\<And>x y. x \<in> set xs \<Longrightarrow> f x = Inr y \<Longrightarrow> P x = Q y"
  shows "map_res f (filter P xs) = Inr (filter Q ys)"
  using assms
proof (induction xs arbitrary: ys)
  case Nil
  then show ?case by simp
next
  case (Cons x xs)
  then obtain y zs where "f x = Inr y" "map_res f xs = Inr zs" "ys = y # zs" by (auto elim!: bind_resE)
  with Cons show ?case by auto
qed

section \<open>The view of the database\<close>

definition canonical_log_rows :: "uint256 \<Rightarrow> IndexerDb \<Rightarrow> LogRow list" where
  "canonical_log_rows cid db = filter (\<lambda>r. lr_chain r = ToDecimal cid \<and> lr_canonical r) (db_logs db)"

definition row_order :: "LogRow \<Rightarrow> nat list" where
  "row_order r = [lr_number r, lr_tx_index r, lr_log_index r]"

definition pg_view :: "uint256 \<Rightarrow> ChainContracts \<Rightarrow> IndexerDb \<Rightarrow> StoreView" where
  "pg_view cid cc db =
     \<lparr>v_tip = (case pg_LoadCursor db cid of Inr c \<Rightarrow> c | Inl _ \<Rightarrow> None),
      v_block = (\<lambda>n. case pg_LoadCanonicalBlock db cid n of Inr b \<Rightarrow> b | Inl _ \<Rightarrow> None),
      v_history = (case map_res ParseRawLog (sort_key row_order (canonical_log_rows cid db)) of
                     Inr ls \<Rightarrow> ls | Inl _ \<Rightarrow> []),
      v_derived = (case pg_LoadDerivedState db cid cc of Inr s \<Rightarrow> s | Inl _ \<Rightarrow> CreateInitialState cc)\<rparr>"

definition block_row_ok :: "BlockRow \<Rightarrow> bool" where
  "block_row_ok r \<longleftrightarrow> br_number r < 2 ^ 63 \<and>
     (\<exists>h p. length h = 32 \<and> length p = 32 \<and> br_hash r = Hex_Encode h True \<and> br_parent r = Hex_Encode p True)"

definition log_row_ok :: "uint256 \<Rightarrow> LogRow \<Rightarrow> bool" where
  "log_row_ok cid r \<longleftrightarrow> (\<exists>l. log_wf cid l \<and> log_row (ToDecimal cid) l = Inr r)"

definition cursor_ok :: "(nat \<times> string) option \<Rightarrow> bool" where
  "cursor_ok c = (case c of None \<Rightarrow> True
     | Some (n, h) \<Rightarrow> n < 2 ^ 63 \<and> (\<exists>b. length b = 32 \<and> h = Hex_Encode b True))"

definition pg_ok :: "uint256 \<Rightarrow> IndexerDb \<Rightarrow> bool" where
  "pg_ok cid db \<longleftrightarrow>
     distinct (map block_key (db_blocks db)) \<and> one_canonical_height (db_blocks db) \<and>
     distinct (map log_row_key (db_logs db)) \<and>
     (\<forall>r \<in> set (canonical_log_rows cid db). log_row_ok cid r) \<and>
     inj_on row_order (set (canonical_log_rows cid db)) \<and>
     (\<forall>r \<in> set (db_blocks db). br_chain r = ToDecimal cid \<longrightarrow> br_canonical r \<longrightarrow> block_row_ok r) \<and>
     cursor_ok (db_sync db (ToDecimal cid))"

definition pg_store :: "IndexerDb IndexerStore" where
  "pg_store = \<lparr>st_LoadCursor = pg_LoadCursor, st_LoadCanonicalBlock = pg_LoadCanonicalBlock,
     st_LoadCanonicalLogsThrough = pg_LoadCanonicalLogsThrough, st_LoadDerivedState = pg_LoadDerivedState,
     st_CommitBlock = pg_CommitBlock, st_RewindTo = pg_RewindTo\<rparr>"

section \<open>Reads\<close>

lemma of_nat_unat64: "n < 2 ^ 63 \<Longrightarrow> unat (of_nat n :: uint64) = n"
  by (simp add: unsigned_of_nat take_bit_nat_eq_self)

lemma pg_load_cursor: "pg_ok cid db \<Longrightarrow> pg_LoadCursor db cid = Inr (v_tip (pg_view cid cc db))"
  by (auto simp: pg_ok_def cursor_ok_def pg_LoadCursor_def pg_view_def split: option.splits)

lemma log_row_ok_Parse: "log_row_ok cid r \<Longrightarrow> \<exists>l. ParseRawLog r = Inr l \<and> log_wf cid l \<and> log_row (ToDecimal cid) l = Inr r"
  using ParseRawLog_log_row by (auto simp: log_row_ok_def)

lemma pg_history_parse:
  assumes "pg_ok cid db"
  shows "map_res ParseRawLog (sort_key row_order (canonical_log_rows cid db)) = Inr (v_history (pg_view cid cc db))"
proof -
  have "map_res ParseRawLog rs = Inr (map (\<lambda>r. case ParseRawLog r of Inr l \<Rightarrow> l) rs)"
    if "\<forall>r \<in> set rs. log_row_ok cid r" for rs
    using that by (induction rs) (auto dest!: log_row_ok_Parse)
  moreover have "\<forall>r \<in> set (sort_key row_order (canonical_log_rows cid db)). log_row_ok cid r"
    using assms by (simp add: pg_ok_def)
  ultimately show ?thesis by (simp add: pg_view_def)
qed

lemma parsed_number: "log_row_ok cid r \<Longrightarrow> ParseRawLog r = Inr l \<Longrightarrow> unat (rl_blockNumber l) = lr_number r"
  using log_row_ok_Parse log_row_fields(3) by fastforce

lemma pg_load_logs:
  assumes "pg_ok cid db" "pg_LoadCanonicalLogsThrough db cid n = Inr ls"
  shows "ls = filter (\<lambda>l. rl_blockNumber l \<le> n) (v_history (pg_view cid cc db))"
proof -
  have n: "unat n < 2 ^ 63" and ls: "map_res ParseRawLog (sort_key row_order
      (filter (\<lambda>r. lr_chain r = ToDecimal cid \<and> lr_canonical r \<and> lr_number r \<le> unat n) (db_logs db))) = Inr ls"
    using assms(2) by (auto simp: pg_LoadCanonicalLogsThrough_def bigint_Inr row_order_def [abs_def] elim!: bind_resE)
  have "filter (\<lambda>r. lr_chain r = ToDecimal cid \<and> lr_canonical r \<and> lr_number r \<le> unat n) (db_logs db)
      = filter (\<lambda>r. lr_number r \<le> unat n) (canonical_log_rows cid db)"
    by (auto simp: canonical_log_rows_def intro: filter_cong)
  then have "map_res ParseRawLog (filter (\<lambda>r. lr_number r \<le> unat n) (sort_key row_order (canonical_log_rows cid db))) = Inr ls"
    using ls by (simp add: filter_sort)
  moreover have "map_res ParseRawLog (filter (\<lambda>r. lr_number r \<le> unat n) (sort_key row_order (canonical_log_rows cid db)))
      = Inr (filter (\<lambda>l. rl_blockNumber l \<le> n) (v_history (pg_view cid cc db)))"
    by (rule map_res_filter [OF pg_history_parse [OF assms(1)]])
       (use assms(1) in \<open>auto simp: pg_ok_def word_le_nat_alt dest!: parsed_number [rotated]\<close>)
  ultimately show ?thesis by simp
qed

section \<open>Canonical blocks\<close>

definition block_here :: "uint256 \<Rightarrow> nat \<Rightarrow> BlockRow \<Rightarrow> bool" where
  "block_here cid m r \<longleftrightarrow> br_chain r = ToDecimal cid \<and> br_number r = m \<and> br_canonical r"

text \<open>At most one row is canonical at a height, so a lookup depends on the set of rows only.\<close>

lemma block_lookup:
  assumes "one_canonical_height rows"
  shows "r \<in> set rows \<Longrightarrow> block_here cid m r \<Longrightarrow> filter (block_here cid m) rows = [r]"
    and "(\<And>r. r \<in> set rows \<Longrightarrow> \<not> block_here cid m r) \<Longrightarrow> filter (block_here cid m) rows = []"
proof -
  have eq: "filter (block_here cid m) rows
      = filter (\<lambda>r. (br_chain r, br_number r) = (ToDecimal cid, m)) (filter br_canonical rows)"
    by (auto simp: block_here_def intro: filter_cong)
  show "r \<in> set rows \<Longrightarrow> block_here cid m r \<Longrightarrow> filter (block_here cid m) rows = [r]"
    unfolding eq using assms unfolding one_canonical_height_def
    by (rule filter_unique) (auto simp: block_here_def)
  show "(\<And>r. r \<in> set rows \<Longrightarrow> \<not> block_here cid m r) \<Longrightarrow> filter (block_here cid m) rows = []"
    by (simp add: filter_empty_conv)
qed

lemma block_lookup_cong:
  assumes "one_canonical_height rows" "one_canonical_height rows'"
    and "\<And>r. block_here cid m r \<Longrightarrow> r \<in> set rows \<longleftrightarrow> r \<in> set rows'"
  shows "filter (block_here cid m) rows = filter (block_here cid m) rows'"
proof (cases "\<exists>r \<in> set rows. block_here cid m r")
  case True
  then obtain r where "r \<in> set rows" "block_here cid m r" by blast
  with assms block_lookup(1) show ?thesis by metis
next
  case False
  with assms(3) show ?thesis by (metis (no_types, lifting) filter_False)
qed

lemma LoadCanonicalBlock_eq:
  "pg_LoadCanonicalBlock db cid n =
     (if unat n < 2 ^ 63 then
        case filter (block_here cid (unat n)) (db_blocks db) of
          [] \<Rightarrow> Inr None
        | r # _ \<Rightarrow> bind_res (db_ParseHash (br_hash r)) (\<lambda>hash. bind_res (db_ParseHash (br_parent r)) (\<lambda>parentHash.
            Inr (Some \<lparr>ib_chainId = cid, ib_number = n, ib_hash = hash, ib_parentHash = parentHash, ib_canonical = True\<rparr>)))
      else Inl Sql_Error)"
  by (simp add: pg_LoadCanonicalBlock_def bigint_def block_here_def [abs_def])

text \<open>A canonical row is a canonical block of the view.\<close>

lemma row_in_view:
  assumes "pg_ok cid db" "r \<in> set (db_blocks db)" "block_here cid m r"
  shows "\<exists>b. v_block (pg_view cid cc db) (of_nat m) = Some b \<and> br_hash r = Hex_Encode (ib_hash b) True"
proof -
  have "block_row_ok r" using assms by (auto simp: pg_ok_def block_here_def)
  then obtain h p where hp: "length h = 32" "length p = 32" "br_hash r = Hex_Encode h True" "br_parent r = Hex_Encode p True"
      "m < 2 ^ 63"
    using assms(3) by (auto simp: block_row_ok_def block_here_def)
  have "filter (block_here cid m) (db_blocks db) = [r]"
    using assms by (intro block_lookup(1)) (simp_all add: pg_ok_def)
  with hp show ?thesis by (simp add: pg_view_def LoadCanonicalBlock_eq of_nat_unat64)
qed

section \<open>Commit\<close>

lemma LoadDerivedState_cong:
  assumes "db_positions db' = db_positions db" "db_markets db' = db_markets db"
    "db_liquidations db' = db_liquidations db"
  shows "pg_LoadDerivedState db' cid cc = pg_LoadDerivedState db cid cc"
  using assms by (simp add: pg_LoadDerivedState_def Let_def)

lemma Replace_frame:
  assumes "ReplaceDerivedState db cid s = Inr db'"
  shows "db_blocks db' = db_blocks db" "db_logs db' = db_logs db" "db_sync db' = db_sync db"
  using assms by (auto simp: ReplaceDerivedState_def Let_def elim!: bind_resE)

lemma Advance_frame:
  assumes "AdvanceCanonicalVersion db chain = Inr (v, db')"
  shows "db_blocks db' = db_blocks db" "db_logs db' = db_logs db" "db_sync db' = db_sync db"
    "db_positions db' = db_positions db" "db_markets db' = db_markets db" "db_liquidations db' = db_liquidations db"
    "db_outbox db' = db_outbox db"
  using assms by (auto simp: AdvanceCanonicalVersion_def Let_def split: if_splits)

lemma Outbox_frame:
  assumes "InsertOutboxEvent db a b c d n h v p = Inr db'"
  shows "db_blocks db' = db_blocks db" "db_logs db' = db_logs db" "db_sync db' = db_sync db"
    "db_positions db' = db_positions db" "db_markets db' = db_markets db" "db_liquidations db' = db_liquidations db"
  using assms by (auto simp: InsertOutboxEvent_def elim!: bind_resE)

text \<open>What a commit leaves in the tables.\<close>

lemma CommitBlock_tables:
  assumes "pg_CommitBlock db b ls s = Inr db'" "state_wf cid cc s" "ib_chainId b = cid"
  obtains rows where "unat (ib_number b) < 2 ^ 63" "map_res (log_row (ToDecimal cid)) ls = Inr rows"
    "db_blocks db' = upsert block_key \<lparr>br_chain = ToDecimal cid, br_number = unat (ib_number b),
       br_hash = Hex_Encode (ib_hash b) True, br_parent = Hex_Encode (ib_parentHash b) True, br_canonical = True\<rparr> (db_blocks db)"
    "one_canonical_height (db_blocks db')"
    "db_logs db' = fold (upsert log_row_key) rows (db_logs db)"
    "db_sync db' = (db_sync db)(ToDecimal cid \<mapsto> (unat (ib_number b), Hex_Encode (ib_hash b) True))"
    "pg_LoadDerivedState db' cid cc = Inr s"
proof -
  let ?r = "\<lparr>br_chain = ToDecimal cid, br_number = unat (ib_number b), br_hash = Hex_Encode (ib_hash b) True,
     br_parent = Hex_Encode (ib_parentHash b) True, br_canonical = True\<rparr>"
  from assms(1) obtain d1 rows d2 v d3 d4 where n: "unat (ib_number b) < 2 ^ 63"
    and d1: "upsert_block db ?r = Inr d1"
    and rows: "map_res (log_row (ToDecimal cid)) ls = Inr rows"
    and d2: "ReplaceDerivedState (d1\<lparr>db_logs := fold (upsert log_row_key) rows (db_logs d1)\<rparr>) cid s = Inr d2"
    and d3: "AdvanceCanonicalVersion d2 (ToDecimal cid) = Inr (v, d3)"
    and d4: "set_cursor d3 (ToDecimal cid) (ib_number b) (ib_hash b) = Inr d4"
    and out: "InsertOutboxEvent d4 (''chain.block.processed:'' @ ToDecimal cid @ '':'' @ Hex_Encode (ib_hash b) False)
       ''chain.block.processed'' (''chain:'' @ ToDecimal cid) (ToDecimal cid) (ib_number b) (ib_hash b) v
       (J_Obj [(''parentHash'', J_Str (Hex_Encode (ib_parentHash b) True))]) = Inr db'"
    unfolding pg_CommitBlock_def Let_def assms(3) by (auto simp: bigint_Inr elim!: bind_resE)
  have d4': "d4 = d3\<lparr>db_sync := (db_sync d3)(ToDecimal cid \<mapsto> (unat (ib_number b), Hex_Encode (ib_hash b) True))\<rparr>"
    using d4 by (auto simp: set_cursor_def bigint_Inr elim!: bind_resE)
  have d1': "d1 = db\<lparr>db_blocks := upsert block_key ?r (db_blocks db)\<rparr>" "one_canonical_height (upsert block_key ?r (db_blocks db))"
    using d1 by (auto simp: upsert_block_def Let_def split: if_splits)
  note frames = Outbox_frame [OF out] Advance_frame [OF d3] Replace_frame [OF d2]
  have "pg_LoadDerivedState db' cid cc = pg_LoadDerivedState d2 cid cc"
    by (rule LoadDerivedState_cong) (simp_all add: frames d4')
  then show thesis
    using Load_Replace [OF assms(2) d2] by (intro that [OF n rows]) (simp_all add: frames d4' d1')
qed

lemma map_res_mem: "map_res f xs = Inr ys \<Longrightarrow> x \<in> set xs \<Longrightarrow> f x = Inr y \<Longrightarrow> y \<in> set ys"
  by (induction xs arbitrary: ys) (auto elim!: bind_resE)

lemma Hex_Encode_inject: "Hex_Encode a True = Hex_Encode b True \<longleftrightarrow> a = b"
  by (metis Hex_Decode_Encode sum.inject(2))

text \<open>A canonical row comes from a log of the view.\<close>

lemma row_in_history:
  assumes "pg_ok cid db" "r \<in> set (canonical_log_rows cid db)"
  obtains l where "l \<in> set (v_history (pg_view cid cc db))" "log_wf cid l" "log_row (ToDecimal cid) l = Inr r"
proof -
  have "log_row_ok cid r" using assms by (simp add: pg_ok_def)
  then obtain l where l: "ParseRawLog r = Inr l" "log_wf cid l" "log_row (ToDecimal cid) l = Inr r"
    using log_row_ok_Parse by blast
  have "l \<in> set (v_history (pg_view cid cc db))"
    by (rule map_res_mem [OF pg_history_parse [OF assms(1)] _ l(1)]) (use assms(2) in simp)
  with l that show thesis by blast
qed

lemma new_rows:
  assumes new: "new_logs cid b ls" and rows: "map_res (log_row (ToDecimal cid)) ls = Inr rows"
  shows "\<forall>r \<in> set rows. log_row_ok cid r \<and> lr_chain r = ToDecimal cid \<and> lr_canonical r \<and>
      lr_number r = unat (ib_number b) \<and> lr_block_hash r = Hex_Encode (ib_hash b) True"
    and "sorted (map row_order rows)" "distinct (map row_order rows)" "distinct (map log_row_key rows)"
    and "map_res ParseRawLog rows = Inr ls"
proof -
  show "\<forall>r \<in> set rows. log_row_ok cid r \<and> lr_chain r = ToDecimal cid \<and> lr_canonical r \<and>
      lr_number r = unat (ib_number b) \<and> lr_block_hash r = Hex_Encode (ib_hash b) True"
  proof
    fix r assume "r \<in> set rows"
    then obtain l where l: "l \<in> set ls" "log_row (ToDecimal cid) l = Inr r" using map_res_set [OF rows] by blast
    then show "log_row_ok cid r \<and> lr_chain r = ToDecimal cid \<and> lr_canonical r \<and>
      lr_number r = unat (ib_number b) \<and> lr_block_hash r = Hex_Encode (ib_hash b) True"
      using new log_row_fields [OF l(2)] by (auto simp: new_logs_def list_all_iff log_row_ok_def)
  qed
  have order: "map row_order rows = map log_key ls"
    by (rule map_res_map [OF rows]) (auto simp: row_order_def log_key_def dest: log_row_fields)
  then show "sorted (map row_order rows)" using new by (simp add: new_logs_def)
  have "map lr_log_index rows = map (\<lambda>l. unat (rl_logIndex l)) ls"
    by (rule map_res_map [OF rows]) (rule log_row_fields)
  moreover have "distinct (map (\<lambda>l. unat (rl_logIndex l)) ls)"
    using new by (simp add: new_logs_def distinct_map inj_on_def word_unat_eq_iff)
  ultimately have "distinct (map lr_log_index rows)" by simp
  then show "distinct (map row_order rows)" "distinct (map log_row_key rows)"
    by (auto simp: distinct_map inj_on_def row_order_def log_row_key_def)
  show "map_res ParseRawLog rows = Inr ls"
    by (rule map_res_Parse [OF rows]) (use new in \<open>auto simp: new_logs_def list_all_iff intro: ParseRawLog_log_row\<close>)
qed

lemma commit_history:
  assumes ok: "pg_ok cid db" and ext: "extends cid (pg_view cid cc db) b" and new: "new_logs cid b ls"
    and rows: "map_res (log_row (ToDecimal cid)) ls = Inr rows"
    and logs: "db_logs db' = fold (upsert log_row_key) rows (db_logs db)"
  shows "distinct (map log_row_key (db_logs db'))"
    and "\<forall>r \<in> set (canonical_log_rows cid db'). log_row_ok cid r"
    and "inj_on row_order (set (canonical_log_rows cid db'))"
    and "map_res ParseRawLog (sort_key row_order (canonical_log_rows cid db'))
      = Inr (v_history (pg_view cid cc db) @ ls)"
proof -
  note nr = new_rows [OF new rows]
  let ?P = "\<lambda>r. lr_chain r = ToDecimal cid \<and> lr_canonical r"
  have old: "lr_number r < unat (ib_number b) \<and> lr_block_hash r \<noteq> Hex_Encode (ib_hash b) True"
    if r: "r \<in> set (canonical_log_rows cid db)" for r
  proof -
    obtain l where "l \<in> set (v_history (pg_view cid cc db))" "log_row (ToDecimal cid) l = Inr r"
      using row_in_history [OF ok r] by blast
    with ext log_row_fields(3,6) [of "ToDecimal cid" l r] show ?thesis
      by (auto simp: extends_def word_less_nat_alt Hex_Encode_inject)
  qed
  have "mset (filter ?P (fold (upsert log_row_key) rows (db_logs db))) = mset (filter ?P (db_logs db) @ rows) \<and>
      distinct (map log_row_key (fold (upsert log_row_key) rows (db_logs db)))"
  proof (rule mset_filter_upserts)
    show "\<forall>x \<in> set (db_logs db). ?P x \<longrightarrow> log_row_key x \<notin> log_row_key ` set rows"
      using old nr(1) by (auto simp: canonical_log_rows_def log_row_key_def)
  qed (use ok nr in \<open>auto simp: pg_ok_def\<close>)
  then have ms: "mset (canonical_log_rows cid db') = mset (canonical_log_rows cid db @ rows)"
    and "distinct (map log_row_key (db_logs db'))" by (simp_all add: canonical_log_rows_def logs)
  then show "distinct (map log_row_key (db_logs db'))" by simp
  have set: "set (canonical_log_rows cid db') = set (canonical_log_rows cid db) \<union> set rows"
    using arg_cong [OF ms, of set_mset] by simp
  then show "\<forall>r \<in> set (canonical_log_rows cid db'). log_row_ok cid r" using ok nr(1) by (auto simp: pg_ok_def)
  have less: "lr_number x < lr_number y" if "x \<in> set (canonical_log_rows cid db)" "y \<in> set rows" for x y
    using that old nr(1) by simp
  have "inj_on row_order (set (canonical_log_rows cid db))" using ok by (simp add: pg_ok_def)
  moreover have "inj_on row_order (set rows)" using nr(3) by (simp add: distinct_map)
  ultimately show inj: "inj_on row_order (set (canonical_log_rows cid db'))"
    unfolding set using less by (fastforce simp: inj_on_Un row_order_def)
  have "sort_key row_order (canonical_log_rows cid db') = sort_key row_order (canonical_log_rows cid db) @ rows"
  proof (rule sort_key_inj_key_eq)
    show "mset (canonical_log_rows cid db') = mset (sort_key row_order (canonical_log_rows cid db) @ rows)" using ms by simp
    show "sorted (map row_order (sort_key row_order (canonical_log_rows cid db) @ rows))"
      using nr(2) less by (auto simp: sorted_append row_order_def)
  qed (rule inj)
  then show "map_res ParseRawLog (sort_key row_order (canonical_log_rows cid db'))
      = Inr (v_history (pg_view cid cc db) @ ls)"
    using pg_history_parse [OF ok, of cc] nr(5) by (simp add: map_res_append)
qed

lemma commit_blocks:
  assumes ok: "pg_ok cid db" and ext: "extends cid (pg_view cid cc db) b"
    and n: "unat (ib_number b) < 2 ^ 63"
    and blocks: "db_blocks db' = upsert block_key \<lparr>br_chain = ToDecimal cid, br_number = unat (ib_number b),
       br_hash = Hex_Encode (ib_hash b) True, br_parent = Hex_Encode (ib_parentHash b) True, br_canonical = True\<rparr> (db_blocks db)"
      (is "_ = upsert block_key ?r _")
    and one: "one_canonical_height (db_blocks db')"
  shows "v_block (pg_view cid cc db') = (v_block (pg_view cid cc db))(ib_number b := Some b)"
    and "distinct (map block_key (db_blocks db'))"
    and "\<forall>r \<in> set (db_blocks db'). br_chain r = ToDecimal cid \<longrightarrow> br_canonical r \<longrightarrow> block_row_ok r"
proof -
  have b: "ib_chainId b = cid" "ib_canonical b" "length (ib_hash b) = 32" "length (ib_parentHash b) = 32"
    using ext by (simp_all add: extends_def)
  have set: "set (db_blocks db') = insert ?r {x \<in> set (db_blocks db). block_key x \<noteq> block_key ?r}"
    unfolding blocks using ok by (intro set_upsert) (simp add: pg_ok_def)
  show "distinct (map block_key (db_blocks db'))" unfolding blocks using ok by (intro distinct_upsert) (simp add: pg_ok_def)
  have "block_row_ok ?r" unfolding block_row_ok_def using n b by auto
  then show "\<forall>r \<in> set (db_blocks db'). br_chain r = ToDecimal cid \<longrightarrow> br_canonical r \<longrightarrow> block_row_ok r"
    using ok by (auto simp: set pg_ok_def)
  have new: "block_key x \<noteq> block_key ?r" if "x \<in> set (db_blocks db)" "block_here cid k x" for x k
    using row_in_view [OF ok that, of cc] ext by (fastforce simp: block_key_def extends_def Hex_Encode_inject)
  have "v_block (pg_view cid cc db') m = ((v_block (pg_view cid cc db))(ib_number b := Some b)) m" for m
  proof (cases "m = ib_number b")
    case True
    have "filter (block_here cid (unat m)) (db_blocks db') = [?r]"
      by (rule block_lookup(1) [OF one]) (simp_all add: set block_here_def True)
    with True n b show ?thesis by (simp add: pg_view_def LoadCanonicalBlock_eq)
  next
    case False
    have "filter (block_here cid (unat m)) (db_blocks db') = filter (block_here cid (unat m)) (db_blocks db)"
      by (rule block_lookup_cong [OF one])
         (use ok False new in \<open>auto simp: pg_ok_def set block_here_def word_unat_eq_iff\<close>)
    with False show ?thesis by (simp add: pg_view_def LoadCanonicalBlock_eq)
  qed
  then show "v_block (pg_view cid cc db') = (v_block (pg_view cid cc db))(ib_number b := Some b)" ..
qed

lemma pg_commit:
  assumes ok: "pg_ok cid db" and ext: "extends cid (pg_view cid cc db) b" and new: "new_logs cid b ls"
    and wf: "state_wf cid cc s" and db': "pg_CommitBlock db b ls s = Inr db'"
  shows "pg_ok cid db' \<and> pg_view cid cc db' = view_commit (pg_view cid cc db) b ls s"
proof -
  have b: "ib_chainId b = cid" "length (ib_hash b) = 32" using ext by (simp_all add: extends_def)
  show ?thesis
  proof (rule CommitBlock_tables [OF db' wf b(1)])
    fix rows
    assume n: "unat (ib_number b) < 2 ^ 63" and rows: "map_res (log_row (ToDecimal cid)) ls = Inr rows"
      and blocks: "db_blocks db' = upsert block_key \<lparr>br_chain = ToDecimal cid, br_number = unat (ib_number b),
       br_hash = Hex_Encode (ib_hash b) True, br_parent = Hex_Encode (ib_parentHash b) True, br_canonical = True\<rparr> (db_blocks db)"
      and one: "one_canonical_height (db_blocks db')"
      and logs: "db_logs db' = fold (upsert log_row_key) rows (db_logs db)"
      and sync: "db_sync db' = (db_sync db)(ToDecimal cid \<mapsto> (unat (ib_number b), Hex_Encode (ib_hash b) True))"
      and derived: "pg_LoadDerivedState db' cid cc = Inr s"
    note cb = commit_blocks [OF ok ext n blocks one] and ch = commit_history [OF ok ext new rows logs]
    have "cursor_ok (db_sync db' (ToDecimal cid))" using n b by (auto simp: sync cursor_ok_def)
    then have ok': "pg_ok cid db'" using cb(2,3) ch(1,2,3) one by (simp add: pg_ok_def)
    have "v_history (pg_view cid cc db') = v_history (pg_view cid cc db) @ ls"
      using pg_history_parse [OF ok', of cc] ch(4) by simp
    moreover have "v_tip (pg_view cid cc db') = Some \<lparr>sc_chainId = cid, sc_blockNumber = ib_number b, sc_blockHash = ib_hash b\<rparr>"
      using n b by (simp add: pg_view_def pg_LoadCursor_def sync)
    moreover have "v_derived (pg_view cid cc db') = s" by (simp add: pg_view_def derived)
    ultimately have "pg_view cid cc db' = view_commit (pg_view cid cc db) b ls s"
      using cb(1) b by (intro StoreView.equality) (simp_all add: view_commit_def)
    with ok' show ?thesis ..
  qed
qed

section \<open>Rewind\<close>

lemma filter_switched_off:
  "(\<And>r. C r \<Longrightarrow> \<not> P (u r)) \<Longrightarrow> filter P (map (\<lambda>r. if C r then u r else r) rows) = filter (\<lambda>r. P r \<and> \<not> C r) rows"
  by (induction rows) auto

text \<open>What a rewind leaves in the tables: the rows above the ancestor are canonical no longer.\<close>

definition above_ancestor :: "IndexedBlock option \<Rightarrow> nat \<Rightarrow> bool" where
  "above_ancestor a k = (case a of None \<Rightarrow> True | Some b \<Rightarrow> k > unat (ib_number b))"

lemma RewindTo_tables:
  assumes "pg_RewindTo db cid a s = Inr db'" "state_wf cid cc s"
  shows "db_blocks db' = db_blocks (uncanonical_above (ToDecimal cid) (above_ancestor a) db)"
    and "db_logs db' = db_logs (uncanonical_above (ToDecimal cid) (above_ancestor a) db)"
    and "db_sync db' (ToDecimal cid) = map_option (\<lambda>b. (unat (ib_number b), Hex_Encode (ib_hash b) True)) a"
    and "pg_LoadDerivedState db' cid cc = Inr s"
    and "case a of None \<Rightarrow> True | Some b \<Rightarrow> unat (ib_number b) < 2 ^ 63"
proof -
  from assms(1) obtain v d1 d2 d3 d4 n h p t where
    d1: "AdvanceCanonicalVersion db (ToDecimal cid) = Inr (v, d1)"
    and d2: "(case a of Some b \<Rightarrow> map_result (\<lambda>number. uncanonical_above (ToDecimal cid) (\<lambda>n. n > number) d1) (bigint (ib_number b))
       | None \<Rightarrow> Inr (uncanonical_above (ToDecimal cid) (\<lambda>_. True) d1)) = Inr d2"
    and d3: "ReplaceDerivedState d2 cid s = Inr d3"
    and d4: "(case a of Some b \<Rightarrow> set_cursor d3 (ToDecimal cid) (ib_number b) (ib_hash b)
       | None \<Rightarrow> Inr (d3\<lparr>db_sync := (db_sync d3)(ToDecimal cid := None)\<rparr>)) = Inr d4"
    and out: "InsertOutboxEvent d4 t ''chain.reorg'' (''chain:'' @ ToDecimal cid) (ToDecimal cid) n h v p = Inr db'"
    unfolding pg_RewindTo_def Let_def by (auto elim!: bind_resE)
  show "case a of None \<Rightarrow> True | Some b \<Rightarrow> unat (ib_number b) < 2 ^ 63"
    using d2 by (auto simp: map_result_Inr bigint_Inr split: option.splits)
  have d2': "d2 = uncanonical_above (ToDecimal cid) (above_ancestor a) d1"
    using d2 by (auto simp: map_result_Inr bigint_Inr above_ancestor_def [abs_def] split: option.splits)
  have d4': "d4 = d3\<lparr>db_sync := (db_sync d3)(ToDecimal cid := map_option (\<lambda>b. (unat (ib_number b), Hex_Encode (ib_hash b) True)) a)\<rparr>"
    using d4 by (auto simp: set_cursor_def bigint_Inr elim!: bind_resE split: option.splits)
  note frames = Outbox_frame [OF out] Advance_frame [OF d1] Replace_frame [OF d3]
  show "db_blocks db' = db_blocks (uncanonical_above (ToDecimal cid) (above_ancestor a) db)"
    "db_logs db' = db_logs (uncanonical_above (ToDecimal cid) (above_ancestor a) db)"
    "db_sync db' (ToDecimal cid) = map_option (\<lambda>b. (unat (ib_number b), Hex_Encode (ib_hash b) True)) a"
    by (simp_all add: frames d4' d2' uncanonical_above_def)
  have "pg_LoadDerivedState db' cid cc = pg_LoadDerivedState d3 cid cc"
    by (rule LoadDerivedState_cong) (simp_all add: frames d4')
  then show "pg_LoadDerivedState db' cid cc = Inr s" using Load_Replace [OF assms(2) d3] by simp
qed

lemma rewind_ok:
  assumes ok: "pg_ok cid db"
    and blocks: "db_blocks db' = db_blocks (uncanonical_above (ToDecimal cid) beyond db)"
    and logs: "db_logs db' = db_logs (uncanonical_above (ToDecimal cid) beyond db)"
    and cursor: "cursor_ok (db_sync db' (ToDecimal cid))"
  shows "pg_ok cid db'"
    and "canonical_log_rows cid db' = filter (\<lambda>r. \<not> beyond (lr_number r)) (canonical_log_rows cid db)"
    and "filter (block_here cid m) (db_blocks db') = (if beyond m then [] else filter (block_here cid m) (db_blocks db))"
proof -
  show rows: "canonical_log_rows cid db' = filter (\<lambda>r. \<not> beyond (lr_number r)) (canonical_log_rows cid db)"
    unfolding canonical_log_rows_def logs uncanonical_above_def
    by (simp add: filter_switched_off) (auto intro: filter_cong)
  have "filter (block_here cid m) (db_blocks db') = filter (\<lambda>r. block_here cid m r \<and> \<not> beyond m) (db_blocks db)"
    unfolding blocks uncanonical_above_def
    by (simp add: filter_switched_off block_here_def) (auto intro: filter_cong)
  then show "filter (block_here cid m) (db_blocks db') = (if beyond m then [] else filter (block_here cid m) (db_blocks db))"
    by simp
  have "map block_key (db_blocks db') = map block_key (db_blocks db)" "map log_row_key (db_logs db') = map log_row_key (db_logs db)"
    by (simp_all add: blocks logs uncanonical_above_def block_key_def log_row_key_def)
  moreover have "one_canonical_height (db_blocks db')"
  proof -
    have "filter br_canonical (db_blocks db')
        = filter (\<lambda>r. \<not> (br_chain r = ToDecimal cid \<and> beyond (br_number r))) (filter br_canonical (db_blocks db))"
      unfolding blocks uncanonical_above_def
      by (simp add: filter_switched_off) (auto intro: filter_cong)
    moreover have "distinct (map (\<lambda>r. (br_chain r, br_number r)) (filter br_canonical (db_blocks db)))"
      using ok by (simp add: pg_ok_def one_canonical_height_def)
    ultimately show ?thesis unfolding one_canonical_height_def by (simp only: distinct_map_filter)
  qed
  moreover have "\<forall>r \<in> set (db_blocks db'). br_chain r = ToDecimal cid \<longrightarrow> br_canonical r \<longrightarrow> block_row_ok r"
    using ok by (auto simp: blocks uncanonical_above_def pg_ok_def)
  ultimately show "pg_ok cid db'"
    using ok cursor by (auto simp: pg_ok_def rows intro: inj_on_subset)
qed

lemma pg_rewind:
  assumes ok: "pg_ok cid db" and a: "is_ancestor (pg_view cid cc db) a"
    and wf: "state_wf cid cc s" and db': "pg_RewindTo db cid a s = Inr db'"
  shows "pg_ok cid db' \<and> pg_view cid cc db' = view_rewind (pg_view cid cc db) cid a s"
proof -
  note t = RewindTo_tables [OF db' wf]
  have hash: "length (ib_hash b) = 32" if "a = Some b" for b
  proof -
    have "pg_LoadCanonicalBlock db cid (ib_number b) = Inr (Some b)"
      using a that by (auto simp: is_ancestor_def pg_view_def split: sum.splits)
    then show ?thesis
      by (cases b) (auto simp: LoadCanonicalBlock_eq db_ParseHash_def dest!: ParseHash_length elim!: bind_resE split: if_splits list.splits)
  qed
  have "cursor_ok (db_sync db' (ToDecimal cid))"
    using t(3,5) hash by (auto simp: cursor_ok_def split: option.splits)
  note r = rewind_ok [OF ok t(1,2) this]
  have "map_res ParseRawLog (sort_key row_order (canonical_log_rows cid db'))
      = Inr (filter (\<lambda>l. \<not> above_ancestor a (unat (rl_blockNumber l))) (v_history (pg_view cid cc db)))"
    unfolding r(2) filter_sort [symmetric]
    by (rule map_res_filter [OF pg_history_parse [OF ok]])
       (use ok in \<open>auto simp: pg_ok_def dest!: parsed_number [rotated]\<close>)
  then have "v_history (pg_view cid cc db') = filter (\<lambda>l. \<not> above_ancestor a (unat (rl_blockNumber l))) (v_history (pg_view cid cc db))"
    by (simp add: pg_view_def)
  moreover have "v_block (pg_view cid cc db') m = (if above_ancestor a (unat m) then None else v_block (pg_view cid cc db) m)" for m
    by (simp add: pg_view_def LoadCanonicalBlock_eq r(3))
  moreover have "v_derived (pg_view cid cc db') = s" by (simp add: pg_view_def t(4))
  moreover have "v_tip (pg_view cid cc db') = map_option (\<lambda>b. \<lparr>sc_chainId = cid, sc_blockNumber = ib_number b, sc_blockHash = ib_hash b\<rparr>) a"
    using hash by (cases a) (simp_all add: pg_view_def pg_LoadCursor_def t(3))
  ultimately have "pg_view cid cc db' = view_rewind (pg_view cid cc db) cid a s"
    by (cases a) (auto intro!: StoreView.equality simp: view_rewind_def above_ancestor_def fun_eq_iff word_le_nat_alt not_less)
  with r(1) show ?thesis ..
qed

text \<open>The derived state can also be read back.\<close>

definition pg_sound :: "uint256 \<Rightarrow> ChainContracts \<Rightarrow> IndexerDb \<Rightarrow> bool" where
  "pg_sound cid cc db \<longleftrightarrow> pg_ok cid db \<and> pg_LoadDerivedState db cid cc = Inr (v_derived (pg_view cid cc db))"

interpretation pg: indexer_store pg_store cid cc "pg_sound cid cc" "pg_view cid cc" for cid cc
proof
  show "pg_sound cid cc db \<Longrightarrow> st_LoadCursor pg_store db cid = Inr (v_tip (pg_view cid cc db))" for db
    by (simp add: pg_store_def pg_sound_def pg_load_cursor)
  show "st_LoadCanonicalBlock pg_store db cid n = Inr found \<Longrightarrow> found = v_block (pg_view cid cc db) n" for db n found
    by (simp add: pg_store_def pg_view_def)
  show "pg_sound cid cc db \<Longrightarrow> st_LoadCanonicalLogsThrough pg_store db cid n = Inr ls \<Longrightarrow>
      ls = filter (\<lambda>l. rl_blockNumber l \<le> n) (v_history (pg_view cid cc db))" for db n ls
    by (simp add: pg_store_def pg_sound_def pg_load_logs)
  show "pg_sound cid cc db \<Longrightarrow> st_LoadDerivedState pg_store db cid cc = Inr (v_derived (pg_view cid cc db))" for db
    by (simp add: pg_store_def pg_sound_def)
  show "pg_sound cid cc db \<Longrightarrow> extends cid (pg_view cid cc db) b \<Longrightarrow> new_logs cid b ls \<Longrightarrow> state_wf cid cc s \<Longrightarrow>
      st_CommitBlock pg_store db b ls s = Inr db' \<Longrightarrow>
      pg_sound cid cc db' \<and> pg_view cid cc db' = view_commit (pg_view cid cc db) b ls s" for db b ls s db'
  proof -
    assume a: "pg_sound cid cc db" "extends cid (pg_view cid cc db) b" "new_logs cid b ls" "state_wf cid cc s"
      "st_CommitBlock pg_store db b ls s = Inr db'"
    have "pg_ok cid db' \<and> pg_view cid cc db' = view_commit (pg_view cid cc db) b ls s"
      by (rule pg_commit) (use a in \<open>simp_all add: pg_store_def pg_sound_def\<close>)
    moreover have "pg_LoadDerivedState db' cid cc = Inr s"
      by (rule CommitBlock_tables [of db b ls s db' cid cc]) (use a in \<open>simp_all add: pg_store_def extends_def\<close>)
    ultimately show "pg_sound cid cc db' \<and> pg_view cid cc db' = view_commit (pg_view cid cc db) b ls s"
      by (simp add: pg_sound_def) (simp add: view_commit_def)
  qed
  show "pg_sound cid cc db \<Longrightarrow> is_ancestor (pg_view cid cc db) a \<Longrightarrow> state_wf cid cc s \<Longrightarrow>
      st_RewindTo pg_store db cid a s = Inr db' \<Longrightarrow>
      pg_sound cid cc db' \<and> pg_view cid cc db' = view_rewind (pg_view cid cc db) cid a s" for db a s db'
  proof -
    assume a: "pg_sound cid cc db" "is_ancestor (pg_view cid cc db) a" "state_wf cid cc s"
      "st_RewindTo pg_store db cid a s = Inr db'"
    have "pg_ok cid db' \<and> pg_view cid cc db' = view_rewind (pg_view cid cc db) cid a s"
      by (rule pg_rewind) (use a in \<open>simp_all add: pg_store_def pg_sound_def\<close>)
    moreover have "pg_LoadDerivedState db' cid cc = Inr s"
      by (rule RewindTo_tables(4)) (use a in \<open>simp_all add: pg_store_def\<close>)
    ultimately show "pg_sound cid cc db' \<and> pg_view cid cc db' = view_rewind (pg_view cid cc db) cid a s"
      by (simp add: pg_sound_def) (simp add: view_rewind_def split: option.splits)
  qed
qed

end
