(* ===== verification/Indexer_Properties.thy ===== *)
theory Indexer_Properties
  imports Store_Laws Projector_Rounding
begin

text \<open>
  The indexer on its PostgreSQL store: what holds of the database after any sequence of rounds of
  \<open>SyncToHead\<close>, whatever the chain answered and wherever a round stopped.
\<close>

section \<open>Databases the indexer can leave\<close>

definition empty_db :: IndexerDb where
  "empty_db = \<lparr>db_blocks = [], db_logs = [], db_sync = Map.empty, db_positions = [], db_markets = [],
     db_liquidations = [], db_versions = Map.empty, db_outbox = []\<rparr>"

text \<open>A process may run any number of rounds, be stopped between two rounds and be started again:
  each round starts from the database alone.\<close>

inductive indexer_leaves :: "IndexerDb Indexer \<Rightarrow> IndexerDb \<Rightarrow> bool" for ix where
  fresh: "indexer_leaves ix empty_db"
| round: "indexer_leaves ix (w_db w) \<Longrightarrow> SyncToHead fuel ix w = (r, w') \<Longrightarrow> indexer_leaves ix (w_db w')"

lemma empty_db_sound: "pg_sound cid cc empty_db" "view_inv keccak cc cid height (pg_view cid cc empty_db)"
proof -
  have derived: "pg_LoadDerivedState empty_db cid cc = Inr (CreateInitialState cc)"
    by (simp add: empty_db_def pg_LoadDerivedState_def Let_def CreateInitialState_def)
  then show "pg_sound cid cc empty_db"
    by (simp add: pg_sound_def pg_view_def)
       (simp add: empty_db_def pg_ok_def canonical_log_rows_def cursor_ok_def one_canonical_height_def)
  have "pg_view cid cc empty_db = \<lparr>v_tip = None, v_block = (\<lambda>_. None), v_history = [], v_derived = CreateInitialState cc\<rparr>"
    using derived
    by (auto simp: pg_view_def empty_db_def pg_LoadCursor_def LoadCanonicalBlock_eq canonical_log_rows_def fun_eq_iff)
  then show "view_inv keccak cc cid height (pg_view cid cc empty_db)"
    by (simp add: view_inv_def history_inv_def tip_inv_def Rebuild_def)
qed

lemma indexer_leaves_sound:
  assumes "indexer_leaves ix db" and set_up: "set_up ix pg_store cc height"
    and id: "\<forall>t c. cl_GetChainId (ix_chain ix) t = Inr c \<longrightarrow> c = cid"
  shows "pg_sound cid cc db \<and> view_inv (ix_keccak ix) cc cid height (pg_view cid cc db)"
  using assms(1)
proof induction
  case fresh
  show ?case using empty_db_sound by blast
next
  case (round w fuel r w')
  have "pg.sound cid cc (ix_keccak ix) height w" using round.IH by (simp add: pg.sound_def)
  moreover have "keeps (pg.sound cid cc (ix_keccak ix) height) (SyncToHead fuel ix)"
    by (rule valid_weaken [OF pg.SyncToHead_valid [OF set_up]]) (use id in auto)
  ultimately have "pg.sound cid cc (ix_keccak ix) height (snd (SyncToHead fuel ix w))" by (simp add: keepsD)
  with round.hyps(2) show ?case by (simp add: pg.sound_def)
qed

lemma canonical_logs_through_tip:
  assumes "pg_sound cid cc db" "view_inv keccak cc cid height (pg_view cid cc db)"
    and "pg_LoadCursor db cid = Inr (Some c)"
  shows "pg_LoadCanonicalLogsThrough db cid (sc_blockNumber c) = Inr (v_history (pg_view cid cc db))"
    and "\<exists>b. pg_LoadCanonicalBlock db cid (sc_blockNumber c) = Inr (Some b) \<and> ib_hash b = sc_blockHash c"
proof -
  let ?v = "pg_view cid cc db" and ?n = "sc_blockNumber c"
  have ok: "pg_ok cid db" using assms(1) by (simp add: pg_sound_def)
  have tip: "v_tip ?v = Some c" using assms(3) by (simp add: pg_view_def)
  have inv: "tip_inv cid ?v" using assms(2) by (simp add: view_inv_def)
  have n: "unat ?n < 2 ^ 63"
    using ok assms(3) by (auto simp: pg_ok_def cursor_ok_def pg_LoadCursor_def of_nat_unat64 split: option.splits)
  have "filter (\<lambda>r. lr_number r \<le> unat ?n) (sort_key row_order (canonical_log_rows cid db))
      = sort_key row_order (canonical_log_rows cid db)"
  proof (rule filter_True)
    have "lr_number r \<le> unat ?n" if "r \<in> set (canonical_log_rows cid db)" for r
      using row_in_history [OF ok that, of cc] inv tip log_row_fields(3)
      by (metis (no_types, lifting) option.simps(5) tip_inv_def word_le_nat_alt)
    then show "\<forall>r \<in> set (sort_key row_order (canonical_log_rows cid db)). lr_number r \<le> unat ?n" by simp
  qed
  moreover have "filter (\<lambda>r. lr_chain r = ToDecimal cid \<and> lr_canonical r \<and> lr_number r \<le> unat ?n) (db_logs db)
      = filter (\<lambda>r. lr_number r \<le> unat ?n) (canonical_log_rows cid db)"
    by (auto simp: canonical_log_rows_def intro: filter_cong)
  ultimately show "pg_LoadCanonicalLogsThrough db cid ?n = Inr (v_history ?v)"
    using pg_history_parse [OF ok, of cc] n
    by (simp add: pg_LoadCanonicalLogsThrough_def bigint_def row_order_def [abs_def] filter_sort)
  show "\<exists>b. pg_LoadCanonicalBlock db cid ?n = Inr (Some b) \<and> ib_hash b = sc_blockHash c"
    using inv tip by (auto simp: tip_inv_def pg_view_def split: sum.splits)
qed

text \<open>C1. The derived state is the canonical history. After any number of rounds of \<open>SyncToHead\<close>
  that started on an empty database, whatever the chain answered (reorganisations, errors, a head
  that moves) and whether the rounds returned or threw, the store reads back: without a cursor the
  initial state; with a cursor a canonical block whose hash is the cursor's, and a derived state that
  is the projection of exactly the canonical logs up to it. The chain is only assumed to serve, for
  a number, hashes that belong to that height, and logs with distinct indices.\<close>

theorem SyncToHead_derived_state:
  assumes "indexer_leaves ix db" "set_up ix pg_store cc height"
    and "\<forall>t c. cl_GetChainId (ix_chain ix) t = Inr c \<longrightarrow> c = cid"
  shows "case pg_LoadCursor db cid of
      Inl _ \<Rightarrow> False
    | Inr None \<Rightarrow> pg_LoadDerivedState db cid cc = Inr (CreateInitialState cc)
    | Inr (Some c) \<Rightarrow> \<exists>b logs s.
        pg_LoadCanonicalBlock db cid (sc_blockNumber c) = Inr (Some b) \<and> ib_hash b = sc_blockHash c \<and>
        pg_LoadCanonicalLogsThrough db cid (sc_blockNumber c) = Inr logs \<and>
        pg_LoadDerivedState db cid cc = Inr s \<and> Rebuild (ix_keccak ix) cc logs = Inr s"
proof -
  let ?v = "pg_view cid cc db"
  have sound: "pg_sound cid cc db" "view_inv (ix_keccak ix) cc cid height ?v"
    using indexer_leaves_sound [OF assms] by blast+
  have cursor: "pg_LoadCursor db cid = Inr (v_tip ?v)" using sound by (simp add: pg_sound_def pg_load_cursor)
  have derived: "pg_LoadDerivedState db cid cc = Inr (v_derived ?v)" "Rebuild (ix_keccak ix) cc (v_history ?v) = Inr (v_derived ?v)"
    using sound by (simp_all add: pg_sound_def view_inv_def)
  show ?thesis
  proof (cases "v_tip ?v")
    case None
    then have "v_history ?v = []" using sound by (simp add: view_inv_def tip_inv_def)
    with derived have "v_derived ?v = CreateInitialState cc" by (simp add: Rebuild_def)
    with None derived show ?thesis by (simp add: cursor)
  next
    case (Some c)
    with canonical_logs_through_tip [OF sound] derived show ?thesis by (fastforce simp: cursor)
  qed
qed

section \<open>A run\<close>

definition demo_header :: "uint64 \<Rightarrow> BlockHeader" where
  "demo_header n = \<lparr>bh_number = ucast n, bh_hash = replicate 32 (ucast n), bh_parentHash = replicate 32 (ucast (n - 1)),
     bh_timestamp = 100, bh_baseFeePerGas = None\<rparr>"

definition demo_rpc_log :: RpcLog where
  "demo_rpc_log = \<lparr>rp_address = rl_contractAddress demo_log, rp_topics = rl_topics demo_log, rp_data = rl_data demo_log,
     rp_blockNumber = 7, rp_transactionHash = rl_transactionHash demo_log, rp_transactionIndex = 0,
     rp_blockHash = replicate 32 7, rp_logIndex = 0, rp_removed = False\<rparr>"

definition demo_chain :: ChainClient where
  "demo_chain = \<lparr>cl_GetChainId = (\<lambda>_. Inr 31337), cl_GetBlockNumber = (\<lambda>_. Inr 7),
     cl_GetBlockByNumber = (\<lambda>_ n. Inr (if n \<le> 7 then Some (demo_header n) else None)),
     cl_GetLogs = (\<lambda>_ n. Inr (if n = 7 then [demo_rpc_log] else []))\<rparr>"

definition demo_indexer :: "IndexerDb Indexer" where
  "demo_indexer = \<lparr>ix_chain = demo_chain, ix_store = pg_store, ix_contracts = demo_contracts, ix_startBlock = 7,
     ix_keccak = demo_keccak\<rparr>"

definition demo_world :: "IndexerDb World" where
  "demo_world = \<lparr>w_db = empty_db, w_calls = 0, w_status = \<lparr>is_chainHead = 0, is_indexedBlock = 0, is_reorgs = 0\<rparr>\<rparr>"

lemma demo_number: "ToUint64 (ucast n) = Inr n"
proof -
  have "unat n < 2 ^ LENGTH(64)" by (rule unsigned_less)
  then show ?thesis by (simp add: ToUint64_def unsigned_ucast_eq take_bit_nat_eq_self take_bit_word_eq_self)
qed

lemma demo_height: "n \<le> 7 \<Longrightarrow> ucast (ucast n :: byte) = n" for n :: uint64
  by (rule word_unat_eq_iff [THEN iffD2])
     (simp add: word_le_nat_alt unsigned_ucast_eq unsigned_take_bit_eq take_bit_nat_eq_self)

lemma demo_set_up: "set_up demo_indexer pg_store demo_contracts (\<lambda>h. ucast (hd h))"
  by (simp add: set_up_def demo_indexer_def demo_contracts_def contracts_wf_def chain_sane_def demo_chain_def
      demo_header_def rpc_logs_sane_def demo_rpc_log_def demo_log_def event_topics_def demo_height
      GetEventTopic_def Keccak_Hash_string_def demo_keccak_def demo_event_def DefineEvent_def demo_values_def)

lemma demo_stable: "stable_chain (ix_chain demo_indexer) 7 demo_header"
  by (simp add: stable_chain_def demo_indexer_def demo_chain_def demo_header_def demo_number)

lemma demo_block_logs: "block_logs 31337 7 (replicate 32 7) [demo_rpc_log] = Inr [demo_log]"
  by (simp add: block_logs_def accept_log_def demo_rpc_log_def ToUint64_def demo_log_def)

lemma demo_apply: "Apply demo_keccak demo_contracts demo_log (CreateInitialState demo_contracts) = Inr demo_state"
  using Rebuild_demo by (auto simp: Rebuild_def demo_log_def elim!: bind_resE)

lemma demo_commit:
  "\<exists>db. pg_CommitBlock empty_db \<lparr>ib_chainId = 31337, ib_number = 7, ib_hash = replicate 32 7,
      ib_parentHash = replicate 32 6, ib_canonical = True\<rparr> [demo_log] demo_state = Inr db \<and>
     db_sync db (ToDecimal 31337) = Some (7, Hex_Encode (replicate 32 7) True)"
  by (simp add: pg_CommitBlock_def empty_db_def Let_def bigint_def upsert_block_def one_canonical_height_def upsert_def
      log_row_def demo_log_def ReplaceDerivedState_def demo_state_def PutPosition_def CreateInitialState_def insert_row_def
      AdvanceCanonicalVersion_def set_cursor_def InsertOutboxEvent_def)

lemma demo_fields [simp]:
  "ix_chain demo_indexer = demo_chain" "ix_store demo_indexer = pg_store" "ix_contracts demo_indexer = demo_contracts"
  "ix_startBlock demo_indexer = 7" "ix_keccak demo_indexer = demo_keccak"
  "cl_GetChainId demo_chain t = Inr 31337" "cl_GetBlockNumber demo_chain t = Inr 7"
  "cl_GetBlockByNumber demo_chain t 7 = Inr (Some (demo_header 7))" "cl_GetLogs demo_chain t 7 = Inr [demo_rpc_log]"
  "st_LoadCursor pg_store = pg_LoadCursor" "st_LoadDerivedState pg_store = pg_LoadDerivedState"
  "st_CommitBlock pg_store = pg_CommitBlock"
  by (simp_all add: demo_indexer_def demo_chain_def pg_store_def)

lemma demo_round:
  "\<exists>db w b. SyncToHead (Suc (Suc k)) demo_indexer demo_world = (Inr (Some 1), w) \<and> w_db w = db \<and> is_indexedBlock (w_status w) = 7 \<and>
     pg_CommitBlock empty_db b [demo_log] demo_state = Inr db \<and>
     pg_LoadCursor db 31337 = Inr (Some \<lparr>sc_chainId = 31337, sc_blockNumber = 7, sc_blockHash = replicate 32 7\<rparr>)"
proof -
  obtain db where db: "pg_CommitBlock empty_db \<lparr>ib_chainId = 31337, ib_number = 7, ib_hash = replicate 32 7,
      ib_parentHash = replicate 32 6, ib_canonical = True\<rparr> [demo_log] demo_state = Inr db"
     "db_sync db (ToDecimal 31337) = Some (7, Hex_Encode (replicate 32 7) True)"
    using demo_commit by blast
  have cursor: "pg_LoadCursor db 31337 = Inr (Some \<lparr>sc_chainId = 31337, sc_blockNumber = 7, sc_blockHash = replicate 32 7\<rparr>)"
    by (simp add: pg_LoadCursor_def db(2))
  have start: "pg_LoadCursor empty_db 31337 = Inr None" "pg_LoadDerivedState empty_db 31337 demo_contracts = Inr (CreateInitialState demo_contracts)"
    by (simp_all add: empty_db_def pg_LoadCursor_def pg_LoadDerivedState_def Let_def CreateInitialState_def)
  note run = prog_simps chain_call_def set_status_def store_read_def store_write_def demo_fields
  have reconcile: "ReconcileCursor demo_indexer 31337 7 w = (Inr None, w)" if "w_db w = empty_db" for w
    using that start(1) by (simp add: ReconcileCursor_def run)
  have reconcile': "ReconcileCursor demo_indexer 31337 7 w = (Inr (Some \<lparr>sc_chainId = 31337, sc_blockNumber = 7,
      sc_blockHash = replicate 32 7\<rparr>), w\<lparr>w_calls := Suc (w_calls w)\<rparr>)" if "w_db w = db" for w
    using that cursor by (simp add: ReconcileCursor_def run demo_header_def)
  have index: "IndexBlock demo_indexer 31337 (demo_header 7) w = (Inr (), w\<lparr>w_calls := Suc (w_calls w), w_db := db\<rparr>)"
    if "w_db w = empty_db" for w
    using that db(1) start(2) demo_block_logs demo_apply
    by (simp add: IndexBlock_def run demo_header_def ToUint64_def)
  have "ToUint64 (bh_number (demo_header 7)) = Inr 7" unfolding demo_header_def by (simp only: BlockHeader.simps demo_number)
  then have "\<exists>w. SyncToHead (Suc (Suc k)) demo_indexer demo_world = (Inr (Some 1), w) \<and> w_db w = db \<and> is_indexedBlock (w_status w) = 7"
    by (simp add: SyncToHead_def run demo_world_def reconcile reconcile' index word_less_nat_alt)
  with db(1) cursor show ?thesis by blast
qed

text \<open>A supply is indexed on a fresh database: the store holds the position and the total.\<close>

theorem SyncToHead_derived_state_witness:
  "\<exists>db b logs s. indexer_leaves demo_indexer db \<and>
     pg_LoadCursor db 31337 = Inr (Some \<lparr>sc_chainId = 31337, sc_blockNumber = 7, sc_blockHash = replicate 32 7\<rparr>) \<and>
     pg_LoadCanonicalBlock db 31337 7 = Inr (Some b) \<and> ib_hash b = replicate 32 7 \<and>
     pg_LoadCanonicalLogsThrough db 31337 7 = Inr logs \<and>
     pg_LoadDerivedState db 31337 demo_contracts = Inr s \<and> Rebuild demo_keccak demo_contracts logs = Inr s"
proof -
  obtain w where w: "SyncToHead (Suc (Suc 0)) demo_indexer demo_world = (Inr (Some 1), w)"
    "pg_LoadCursor (w_db w) 31337 = Inr (Some \<lparr>sc_chainId = 31337, sc_blockNumber = 7, sc_blockHash = replicate 32 7\<rparr>)"
    using demo_round by blast
  have "indexer_leaves demo_indexer (w_db demo_world)" by (simp add: demo_world_def indexer_leaves.fresh)
  then have run: "indexer_leaves demo_indexer (w_db w)" using w(1) by (rule indexer_leaves.round)
  show ?thesis
    using SyncToHead_derived_state [OF run demo_set_up, of 31337] w(2) run by auto
qed

section \<open>Reaching the head\<close>

text \<open>C2. \<open>SyncToHead\<close> ends, at the head. On a chain that stays as it is while the loop runs and whose
  blocks link to their parents, from any database the indexer can have left (behind, ahead, or on
  another fork), one round more than there are blocks is enough: the loop does not run out of rounds,
  and unless an operation throws, the cursor is then the head block of that chain, or nothing is
  indexed because the chain has not reached the start block. The status reports that head and block.\<close>

theorem SyncToHead_reaches_head:
  assumes "indexer_leaves ix (w_db w)" "set_up ix pg_store cc height"
    and "\<forall>t c. cl_GetChainId (ix_chain ix) t = Inr c \<longrightarrow> c = cid"
    and "stable_chain (ix_chain ix) head hdr" "Suc (unat head) < fuel"
    and "SyncToHead fuel ix w = (r, w')"
  shows "r \<noteq> Inr None \<and>
    (\<forall>k. r = Inr (Some k) \<longrightarrow> is_chainHead (w_status w') = head \<and>
      (if head < ix_startBlock ix \<and> pg_LoadCursor (w_db w') cid = Inr None then is_indexedBlock (w_status w') = 0
       else pg_LoadCursor (w_db w') cid =
          Inr (Some \<lparr>sc_chainId = cid, sc_blockNumber = head, sc_blockHash = bh_hash (hdr head)\<rparr>) \<and>
         is_indexedBlock (w_status w') = head))"
proof (intro conjI)
  have "pg.sound cid cc (ix_keccak ix) height w"
    using indexer_leaves_sound [OF assms(1,2,3)] by (simp add: pg.sound_def)
  have id: "\<And>t c. cl_GetChainId (ix_chain ix) t = Inr c \<Longrightarrow> c = cid" using assms(3) by blast
  have "valid (pg.sound cid cc (ix_keccak ix) height) (SyncToHead fuel ix) (\<lambda>r _. r \<noteq> None) (\<lambda>_ _. True)"
    by (rule pg.SyncToHead_ends [OF assms(2,4) _ assms(5)]) (rule id)
  note ends = validD(1) [OF this \<open>pg.sound cid cc (ix_keccak ix) height w\<close>]
  have "valid (pg.sound cid cc (ix_keccak ix) height) (SyncToHead fuel ix)
      (\<lambda>r w. pg.sound cid cc (ix_keccak ix) height w \<and> (r \<noteq> None \<longrightarrow> caught_up ix (v_tip (pg_view cid cc (w_db w))) (w_status w)))
      (\<lambda>_. pg.sound cid cc (ix_keccak ix) height)"
    by (rule pg.SyncToHead_valid [OF assms(2)]) (rule id)
  note out = validD(1) [OF this \<open>pg.sound cid cc (ix_keccak ix) height w\<close>]
  show "r \<noteq> Inr None" using ends assms(6) by auto
  show "\<forall>k. r = Inr (Some k) \<longrightarrow> is_chainHead (w_status w') = head \<and>
      (if head < ix_startBlock ix \<and> pg_LoadCursor (w_db w') cid = Inr None then is_indexedBlock (w_status w') = 0
       else pg_LoadCursor (w_db w') cid =
          Inr (Some \<lparr>sc_chainId = cid, sc_blockNumber = head, sc_blockHash = bh_hash (hdr head)\<rparr>) \<and>
         is_indexedBlock (w_status w') = head)"
  proof (intro allI impI)
    fix k
    assume "r = Inr (Some k)"
    with assms(6) out have w': "pg.sound cid cc (ix_keccak ix) height w'"
      "caught_up ix (v_tip (pg_view cid cc (w_db w'))) (w_status w')" by auto
    have cursor: "pg_LoadCursor (w_db w') cid = Inr (v_tip (pg_view cid cc (w_db w')))"
      using w'(1) by (simp add: pg.sound_def pg_sound_def pg_load_cursor)
    have head: "is_chainHead (w_status w') = head" using w'(2) assms(4) by (auto simp: caught_up_def told_def stable_chain_def)
    show "is_chainHead (w_status w') = head \<and>
      (if head < ix_startBlock ix \<and> pg_LoadCursor (w_db w') cid = Inr None then is_indexedBlock (w_status w') = 0
       else pg_LoadCursor (w_db w') cid =
          Inr (Some \<lparr>sc_chainId = cid, sc_blockNumber = head, sc_blockHash = bh_hash (hdr head)\<rparr>) \<and>
         is_indexedBlock (w_status w') = head)"
    proof (cases "v_tip (pg_view cid cc (w_db w'))")
      case None
      with w'(2) cursor head show ?thesis by (simp add: caught_up_def)
    next
      case (Some c)
      have "sc_chainId c = cid" using w'(1) Some by (auto simp: pg.sound_def view_inv_def tip_inv_def)
      with Some w'(2) head cursor show ?thesis
        by (cases c) (auto simp: caught_up_def served_stable [OF assms(4)])
    qed
  qed
qed

theorem SyncToHead_reaches_head_witness:
  "\<exists>w'. SyncToHead (Suc (Suc 7)) demo_indexer demo_world = (Inr (Some 1), w') \<and>
     pg_LoadCursor (w_db w') 31337 = Inr (Some \<lparr>sc_chainId = 31337, sc_blockNumber = 7, sc_blockHash = replicate 32 7\<rparr>) \<and>
     is_chainHead (w_status w') = 7 \<and> is_indexedBlock (w_status w') = 7"
proof -
  obtain w' where run: "SyncToHead (Suc (Suc 7)) demo_indexer demo_world = (Inr (Some 1), w')" using demo_round by blast
  have "indexer_leaves demo_indexer (w_db demo_world)" by (simp add: demo_world_def indexer_leaves.fresh)
  from SyncToHead_reaches_head [OF this demo_set_up _ demo_stable _ run, of 31337] run show ?thesis by (simp add: demo_header_def)
qed

section \<open>The common ancestor\<close>

lemma le_pred_word: "m \<le> n \<longleftrightarrow> m = n \<or> m \<le> n - 1" if "n \<noteq> 0" for m n :: uint64
proof -
  have "unat n = Suc (unat (n - 1))" using that by (simp add: unat_minus_one unat_gt_0 Suc_diff_1)
  then show ?thesis by (auto simp: word_le_nat_alt word_unat_eq_iff le_Suc_eq)
qed

lemma ancestor_loop_highest:
  assumes "\<forall>n \<le> upper. st_LoadCanonicalBlock (ix_store ix) (w_db w) cid n = Inr (blk n)"
    and "\<forall>t. \<forall>n \<le> upper. cl_GetBlockByNumber (ix_chain ix) t n = Inr (hdr n)"
  shows "\<exists>found w'. ancestor_loop ix cid upper w = (Inr found, w') \<and> w_db w' = w_db w \<and> w_status w' = w_status w \<and>
    (case found of
       None \<Rightarrow> \<forall>n. ix_startBlock ix \<le> n \<and> n \<le> upper \<longrightarrow> \<not> blocks_match (blk n) (hdr n)
     | Some b \<Rightarrow> \<exists>n. ix_startBlock ix \<le> n \<and> n \<le> upper \<and> blk n = Some b \<and> blocks_match (blk n) (hdr n) \<and>
         (\<forall>m. n < m \<and> m \<le> upper \<longrightarrow> \<not> blocks_match (blk m) (hdr m)))"
  using assms
proof (induction "unat upper" arbitrary: upper w rule: less_induct)
  case less
  let ?w = "w\<lparr>w_calls := Suc (w_calls w)\<rparr>"
  have step: "ancestor_loop ix cid upper w = (if upper < ix_startBlock ix then (Inr None, w)
      else if blocks_match (blk upper) (hdr upper) then (Inr (blk upper), ?w)
      else if upper = ix_startBlock ix then (Inr None, ?w) else ancestor_loop ix cid (upper - 1) ?w)"
    using less.prems by (subst ancestor_loop.simps) (simp add: prog_simps store_read_def chain_call_def)
  show ?case
  proof (cases "upper < ix_startBlock ix \<or> blocks_match (blk upper) (hdr upper) \<or> upper = ix_startBlock ix")
    case True
    then consider (below) "upper < ix_startBlock ix"
      | (match) b where "\<not> upper < ix_startBlock ix" "blocks_match (blk upper) (hdr upper)" "blk upper = Some b"
      | (start) "\<not> blocks_match (blk upper) (hdr upper)" "upper = ix_startBlock ix"
      unfolding blocks_match_def by (cases "blk upper") fastforce+
    then show ?thesis
    proof cases
      case below
      then show ?thesis by (intro exI [of _ None] exI [of _ w]) (auto simp: step)
    next
      case match
      then show ?thesis
        by (intro exI [of _ "Some b"] exI [of _ ?w]) (auto simp: step not_less intro!: exI [of _ upper])
    next
      case start
      with step show ?thesis by (intro exI [of _ None] exI [of _ ?w]) auto
    qed
  next
    case False
    then have smaller: "unat (upper - 1) < unat upper" and "upper \<noteq> 0"
      by (auto intro: unat_pred_less simp: word_gt_0)
    note le = le_pred_word [OF \<open>upper \<noteq> 0\<close>]
    obtain found w' where ih: "ancestor_loop ix cid (upper - 1) ?w = (Inr found, w')" "w_db w' = w_db w" "w_status w' = w_status w"
      "case found of
         None \<Rightarrow> \<forall>n. ix_startBlock ix \<le> n \<and> n \<le> upper - 1 \<longrightarrow> \<not> blocks_match (blk n) (hdr n)
       | Some b \<Rightarrow> \<exists>n. ix_startBlock ix \<le> n \<and> n \<le> upper - 1 \<and> blk n = Some b \<and> blocks_match (blk n) (hdr n) \<and>
           (\<forall>m. n < m \<and> m \<le> upper - 1 \<longrightarrow> \<not> blocks_match (blk m) (hdr m))"
      using less.hyps [OF smaller, of ?w] less.prems le by auto
    have run: "ancestor_loop ix cid upper w = (Inr found, w')" using False ih(1) by (simp add: step)
    show ?thesis
    proof (cases found)
      case None
      with ih(4) False le have "\<forall>n. ix_startBlock ix \<le> n \<and> n \<le> upper \<longrightarrow> \<not> blocks_match (blk n) (hdr n)" by auto
      with None run ih(2,3) show ?thesis by auto
    next
      case (Some b)
      with ih(4) obtain n where n: "ix_startBlock ix \<le> n" "n \<le> upper - 1" "blk n = Some b" "blocks_match (blk n) (hdr n)"
        "\<forall>m. n < m \<and> m \<le> upper - 1 \<longrightarrow> \<not> blocks_match (blk m) (hdr m)" by auto
      then have "n \<le> upper" "\<forall>m. n < m \<and> m \<le> upper \<longrightarrow> \<not> blocks_match (blk m) (hdr m)" using le False by auto
      with n have "\<exists>n. ix_startBlock ix \<le> n \<and> n \<le> upper \<and> blk n = Some b \<and> blocks_match (blk n) (hdr n) \<and>
          (\<forall>m. n < m \<and> m \<le> upper \<longrightarrow> \<not> blocks_match (blk m) (hdr m))" by blast
      with Some run ih(2,3) show ?thesis by simp
    qed
  qed
qed

text \<open>\<open>FindCommonAncestor\<close> returns the highest canonical block, from the start block to the bound,
  that the chain still has, or nothing if there is none; and it changes no data.\<close>

theorem FindCommonAncestor_highest:
  assumes "\<forall>n \<le> upper. st_LoadCanonicalBlock (ix_store ix) (w_db w) cid n = Inr (blk n)"
    and "\<forall>t. \<forall>n \<le> upper. cl_GetBlockByNumber (ix_chain ix) t n = Inr (hdr n)"
  shows "\<exists>found w'. FindCommonAncestor ix cid upper w = (Inr found, w') \<and> w_db w' = w_db w \<and> w_status w' = w_status w \<and>
    (case found of
       None \<Rightarrow> \<forall>n. ix_startBlock ix \<le> n \<and> n \<le> upper \<longrightarrow> \<not> blocks_match (blk n) (hdr n)
     | Some b \<Rightarrow> \<exists>n. ix_startBlock ix \<le> n \<and> n \<le> upper \<and> blk n = Some b \<and> blocks_match (blk n) (hdr n) \<and>
         (\<forall>m. n < m \<and> m \<le> upper \<longrightarrow> \<not> blocks_match (blk m) (hdr m)))"
  unfolding FindCommonAncestor_def using assms by (rule ancestor_loop_highest)

theorem FindCommonAncestor_highest_witness:
  "\<exists>w'. FindCommonAncestor demo_indexer 31337 7 demo_world = (Inr None, w') \<and> w_db w' = empty_db"
proof -
  have "\<forall>n \<le> 7. st_LoadCanonicalBlock (ix_store demo_indexer) (w_db demo_world) 31337 n = Inr None"
    by (auto simp: pg_store_def pg_LoadCanonicalBlock_def demo_world_def empty_db_def bigint_def word_le_nat_alt)
  moreover have "\<forall>t. \<forall>n \<le> 7. cl_GetBlockByNumber (ix_chain demo_indexer) t n = Inr (if n \<le> 7 then Some (demo_header n) else None)"
    by (simp add: demo_chain_def)
  ultimately have "\<exists>found w'. FindCommonAncestor demo_indexer 31337 7 demo_world = (Inr found, w') \<and> w_db w' = w_db demo_world \<and>
      w_status w' = w_status demo_world \<and> (case found of
       None \<Rightarrow> \<forall>n. ix_startBlock demo_indexer \<le> n \<and> n \<le> 7 \<longrightarrow> \<not> blocks_match None (if n \<le> 7 then Some (demo_header n) else None)
     | Some b \<Rightarrow> \<exists>n. ix_startBlock demo_indexer \<le> n \<and> n \<le> 7 \<and> None = Some b \<and>
         blocks_match None (if n \<le> 7 then Some (demo_header n) else None) \<and>
         (\<forall>m. n < m \<and> m \<le> 7 \<longrightarrow> \<not> blocks_match None (if m \<le> 7 then Some (demo_header m) else None)))"
    by (rule FindCommonAncestor_highest)
  then show ?thesis by (auto simp: demo_world_def split: option.splits)
qed

section \<open>What a transaction of the store does\<close>

lemma Replace_rows:
  assumes "ReplaceDerivedState db cid s = Inr db'"
  obtains rs where
    "db_positions db' = filter (\<lambda>r. pw_chain r \<noteq> ToDecimal cid) (db_positions db) @
       map (\<lambda>a. position_row (ToDecimal cid) a (the (ds_positions s a))) (sorted_list_of_set (dom (ds_positions s)))"
    "db_markets db' = filter (\<lambda>r. mw_chain r \<noteq> ToDecimal cid) (db_markets db) @ [market_row (ToDecimal cid) (ds_market s)]"
    "db_liquidations db' = filter (\<lambda>r. lw_chain r \<noteq> ToDecimal cid) (db_liquidations db) @ rs"
    "\<forall>r \<in> set rs. lw_chain r = ToDecimal cid"
proof -
  let ?chain = "ToDecimal cid"
  let ?rows = "map (\<lambda>a. position_row ?chain a (the (ds_positions s a))) (sorted_list_of_set (dom (ds_positions s)))"
  obtain ps ms ls where
    ps: "fold_res (insert_row position_key) ?rows (filter (\<lambda>r. pw_chain r \<noteq> ?chain) (db_positions db)) = Inr ps"
    and ms: "insert_row mw_chain (market_row ?chain (ds_market s)) (filter (\<lambda>r. mw_chain r \<noteq> ?chain) (db_markets db)) = Inr ms"
    and ls: "fold_res (\<lambda>l rows. bind_res (liquidation_row ?chain l) (\<lambda>r. insert_row liquidation_key r rows))
       (ds_liquidations s) (filter (\<lambda>r. lw_chain r \<noteq> ?chain) (db_liquidations db)) = Inr ls"
    and db': "db' = db\<lparr>db_positions := ps, db_markets := ms, db_liquidations := ls\<rparr>"
    using assms by (auto simp: ReplaceDerivedState_def Let_def res_simps fold_res_map [symmetric])
  obtain rs where rs: "map_res (liquidation_row ?chain) (ds_liquidations s) = Inr rs"
    and ls': "ls = filter (\<lambda>r. lw_chain r \<noteq> ?chain) (db_liquidations db) @ rs"
    using fold_res_bind_rows [OF ls] by auto
  have "\<forall>r \<in> set rs. lw_chain r = ?chain" using map_res_set [OF rs] liquidation_row_fields(1) by blast
  with ls' insert_rows_only [OF ps] ms show thesis
    by (intro that) (auto simp: db' insert_row_def split: if_splits)
qed

lemma Replace_other_chain:
  assumes "ReplaceDerivedState db cid s = Inr db'" "other \<noteq> cid"
  shows "pg_LoadDerivedState db' other cc = pg_LoadDerivedState db other cc"
proof -
  have ne: "ToDecimal other \<noteq> ToDecimal cid" using assms(2) FromDecimal_ToDecimal by (metis sum.inject(2))
  obtain rs where rows:
    "db_positions db' = filter (\<lambda>r. pw_chain r \<noteq> ToDecimal cid) (db_positions db) @
       map (\<lambda>a. position_row (ToDecimal cid) a (the (ds_positions s a))) (sorted_list_of_set (dom (ds_positions s)))"
    "db_markets db' = filter (\<lambda>r. mw_chain r \<noteq> ToDecimal cid) (db_markets db) @ [market_row (ToDecimal cid) (ds_market s)]"
    "db_liquidations db' = filter (\<lambda>r. lw_chain r \<noteq> ToDecimal cid) (db_liquidations db) @ rs"
    "\<forall>r \<in> set rs. lw_chain r = ToDecimal cid" by (rule Replace_rows [OF assms(1)])
  have keep: "filter (\<lambda>r. f r = ToDecimal other) (filter (\<lambda>r. f r \<noteq> ToDecimal cid) xs) = filter (\<lambda>r. f r = ToDecimal other) xs"
    for f :: "'a \<Rightarrow> string" and xs
    using ne by (auto intro!: filter_cong)
  have "filter (\<lambda>r. pw_chain r = ToDecimal other) (db_positions db') = filter (\<lambda>r. pw_chain r = ToDecimal other) (db_positions db)"
    "filter (\<lambda>r. mw_chain r = ToDecimal other) (db_markets db') = filter (\<lambda>r. mw_chain r = ToDecimal other) (db_markets db)"
    "filter (\<lambda>r. lw_chain r = ToDecimal other) (db_liquidations db') = filter (\<lambda>r. lw_chain r = ToDecimal other) (db_liquidations db)"
    using rows(4) ne keep [of pw_chain] keep [of mw_chain] keep [of lw_chain]
    by (auto simp: rows(1,2,3) position_row_def market_row_def filter_empty_conv simp del: filter_filter)
  then show ?thesis by (simp add: pg_LoadDerivedState_def Let_def)
qed

lemma demo_state_wf: "state_wf 31337 demo_contracts demo_state"
proof -
  have "contracts_wf demo_contracts" "log_wf 31337 demo_log"
    by (simp_all add: demo_contracts_def contracts_wf_def log_wf_def demo_log_def event_topics_def GetEventTopic_def
        Keccak_Hash_string_def demo_keccak_def demo_event_def DefineEvent_def demo_values_def)
  then show ?thesis by (intro Rebuild_state_wf [OF Rebuild_demo]) simp_all
qed

text \<open>The derived state survives the database: what \<open>ReplaceDerivedState\<close> writes (every position,
  every column of the market, every liquidation, as decimal and hexadecimal text) is what
  \<open>LoadDerivedState\<close> returns, and the state of every other chain in the tables is as before.\<close>

theorem DerivedState_round_trip:
  assumes "state_wf cid cc s" "ReplaceDerivedState db cid s = Inr db'"
  shows "pg_LoadDerivedState db' cid cc = Inr s \<and>
    (\<forall>other cc'. other \<noteq> cid \<longrightarrow> pg_LoadDerivedState db' other cc' = pg_LoadDerivedState db other cc')"
  using Load_Replace [OF assms] Replace_other_chain [OF assms(2)] by blast

theorem DerivedState_round_trip_witness:
  "\<exists>db'. ReplaceDerivedState empty_db 31337 demo_state = Inr db' \<and> pg_LoadDerivedState db' 31337 demo_contracts = Inr demo_state"
proof -
  have "\<exists>db'. ReplaceDerivedState empty_db 31337 demo_state = Inr db'"
    by (simp add: empty_db_def ReplaceDerivedState_def demo_state_def PutPosition_def CreateInitialState_def insert_row_def Let_def)
  then obtain db' where db': "ReplaceDerivedState empty_db 31337 demo_state = Inr db'" ..
  from DerivedState_round_trip [OF demo_state_wf db'] db' show ?thesis by blast
qed

lemma Replace_versions:
  "ReplaceDerivedState db cid s = Inr db' \<Longrightarrow> db_versions db' = db_versions db \<and> db_outbox db' = db_outbox db"
  by (auto simp: ReplaceDerivedState_def Let_def elim!: bind_resE)

definition next_version :: "IndexerDb \<Rightarrow> uint256 \<Rightarrow> nat" where
  "next_version db cid = (case db_versions db (ToDecimal cid) of None \<Rightarrow> 1 | Some v \<Rightarrow> v + 1)"

lemma Advance_version:
  "AdvanceCanonicalVersion db (ToDecimal cid) = Inr (v, db') \<Longrightarrow>
     v = next_version db cid \<and> db_versions db' = (db_versions db)(ToDecimal cid \<mapsto> v) \<and> db_outbox db' = db_outbox db"
  by (auto simp: AdvanceCanonicalVersion_def next_version_def Let_def split: if_splits)

lemma outbox_insert_cases:
  "outbox_insert r rows = (if ob_event_id r \<in> ob_event_id ` set rows then rows else rows @ [r])"
  by (simp add: outbox_insert_def insert_ignore_def)

lemma CommitBlock_outbox:
  assumes "pg_CommitBlock db b logs s = Inr db'"
  shows "db_versions db' (ToDecimal (ib_chainId b)) = Some (next_version db (ib_chainId b)) \<and>
    db_outbox db' = outbox_insert
      \<lparr>ob_event_id = ''chain.block.processed:'' @ ToDecimal (ib_chainId b) @ '':'' @ Hex_Encode (ib_hash b) False,
       ob_event_type = ''chain.block.processed'', ob_aggregate_id = ''chain:'' @ ToDecimal (ib_chainId b),
       ob_chain_id = ToDecimal (ib_chainId b), ob_block_number = unat (ib_number b),
       ob_block_hash = Hex_Encode (ib_hash b) True, ob_transaction_hash = None, ob_log_index = None,
       ob_canonical_version = next_version db (ib_chainId b),
       ob_payload = J_Obj [(''parentHash'', J_Str (Hex_Encode (ib_parentHash b) True))], ob_published = False\<rparr> (db_outbox db)"
  using assms unfolding pg_CommitBlock_def Let_def
  by (auto simp: InsertOutboxEvent_def set_cursor_def upsert_block_def bigint_Inr next_version_def Let_def
      simp del: append.simps dest!: Advance_version Replace_versions elim!: bind_resE split: if_splits)

lemma RewindTo_outbox:
  assumes "pg_RewindTo db cid a s = Inr db'"
  shows "db_versions db' (ToDecimal cid) = Some (next_version db cid) \<and>
    db_outbox db' = outbox_insert
      \<lparr>ob_event_id = ''chain.reorg:'' @ ToDecimal cid @ '':'' @ show_nat (next_version db cid),
       ob_event_type = ''chain.reorg'', ob_aggregate_id = ''chain:'' @ ToDecimal cid, ob_chain_id = ToDecimal cid,
       ob_block_number = (case a of Some b \<Rightarrow> unat (ib_number b) | None \<Rightarrow> 0),
       ob_block_hash = Hex_Encode (case a of Some b \<Rightarrow> ib_hash b | None \<Rightarrow> replicate 32 0) True,
       ob_transaction_hash = None, ob_log_index = None, ob_canonical_version = next_version db cid,
       ob_payload = J_Obj [(''ancestorBlockNumber'', J_Num (case a of Some b \<Rightarrow> unat (ib_number b) | None \<Rightarrow> 0)),
         (''ancestorBlockHash'', case a of Some b \<Rightarrow> J_Str (Hex_Encode (ib_hash b) True) | None \<Rightarrow> J_Null)],
       ob_published = False\<rparr> (db_outbox db)"
  using assms unfolding pg_RewindTo_def Let_def
  by (auto simp: InsertOutboxEvent_def set_cursor_def uncanonical_above_def bigint_Inr next_version_def map_result_Inr
      simp del: append.simps dest!: Advance_version Replace_versions elim!: bind_resE split: option.splits)

text \<open>Each transaction that changes the canonical chain takes the next canonical version of the
  chain, and its event, with that version, is appended to the outbox unless an event with its id is
  there already: a block that becomes canonical again after two reorganisations keeps the event of
  the first time. No id is there twice and no earlier event is lost.\<close>

theorem store_events:
  assumes "distinct (map ob_event_id (db_outbox db))"
  shows "(pg_CommitBlock db b logs s = Inr db' \<longrightarrow>
      db_versions db' (ToDecimal (ib_chainId b)) = Some (next_version db (ib_chainId b)) \<and>
      distinct (map ob_event_id (db_outbox db')) \<and>
      (let id = ''chain.block.processed:'' @ ToDecimal (ib_chainId b) @ '':'' @ Hex_Encode (ib_hash b) False in
       if id \<in> ob_event_id ` set (db_outbox db) then db_outbox db' = db_outbox db
       else \<exists>r. db_outbox db' = db_outbox db @ [r] \<and> ob_event_id r = id \<and> \<not> ob_published r \<and>
         ob_canonical_version r = next_version db (ib_chainId b) \<and> ob_block_number r = unat (ib_number b))) \<and>
    (pg_RewindTo db cid a s = Inr db' \<longrightarrow>
      db_versions db' (ToDecimal cid) = Some (next_version db cid) \<and>
      distinct (map ob_event_id (db_outbox db')) \<and>
      (let id = ''chain.reorg:'' @ ToDecimal cid @ '':'' @ show_nat (next_version db cid) in
       if id \<in> ob_event_id ` set (db_outbox db) then db_outbox db' = db_outbox db
       else \<exists>r. db_outbox db' = db_outbox db @ [r] \<and> ob_event_id r = id \<and> \<not> ob_published r \<and>
         ob_canonical_version r = next_version db cid))"
proof (intro conjI impI)
  have dist: "distinct (map ob_event_id (outbox_insert r (db_outbox db)))" for r
    using distinct_insert_ignore [OF assms] by (simp add: outbox_insert_def)
  {
    assume "pg_CommitBlock db b logs s = Inr db'"
    note out = CommitBlock_outbox [OF this]
    from out show "db_versions db' (ToDecimal (ib_chainId b)) = Some (next_version db (ib_chainId b))" by blast
    from out dist show "distinct (map ob_event_id (db_outbox db'))" by simp
    from out show "let id = ''chain.block.processed:'' @ ToDecimal (ib_chainId b) @ '':'' @ Hex_Encode (ib_hash b) False in
       if id \<in> ob_event_id ` set (db_outbox db) then db_outbox db' = db_outbox db
       else \<exists>r. db_outbox db' = db_outbox db @ [r] \<and> ob_event_id r = id \<and> \<not> ob_published r \<and>
         ob_canonical_version r = next_version db (ib_chainId b) \<and> ob_block_number r = unat (ib_number b)"
      unfolding Let_def by (simp add: outbox_insert_cases del: append.simps)
  next
    assume "pg_RewindTo db cid a s = Inr db'"
    note out = RewindTo_outbox [OF this]
    from out show "db_versions db' (ToDecimal cid) = Some (next_version db cid)" by blast
    from out dist show "distinct (map ob_event_id (db_outbox db'))" by auto
    from out show "let id = ''chain.reorg:'' @ ToDecimal cid @ '':'' @ show_nat (next_version db cid) in
       if id \<in> ob_event_id ` set (db_outbox db) then db_outbox db' = db_outbox db
       else \<exists>r. db_outbox db' = db_outbox db @ [r] \<and> ob_event_id r = id \<and> \<not> ob_published r \<and>
         ob_canonical_version r = next_version db cid"
      unfolding Let_def by (simp add: outbox_insert_cases del: append.simps)
  }
qed

theorem store_events_witness:
  "\<exists>db r. pg_CommitBlock empty_db \<lparr>ib_chainId = 31337, ib_number = 7, ib_hash = replicate 32 7,
      ib_parentHash = replicate 32 6, ib_canonical = True\<rparr> [demo_log] demo_state = Inr db \<and>
     db_versions db (ToDecimal 31337) = Some 1 \<and> db_outbox db = [r] \<and> ob_block_number r = 7"
proof -
  obtain db where db: "pg_CommitBlock empty_db \<lparr>ib_chainId = 31337, ib_number = 7, ib_hash = replicate 32 7,
      ib_parentHash = replicate 32 6, ib_canonical = True\<rparr> [demo_log] demo_state = Inr db"
    using demo_commit by blast
  have empty: "db_outbox empty_db = []" "db_versions empty_db = Map.empty" by (simp_all add: empty_db_def)
  from store_events [of empty_db "\<lparr>ib_chainId = 31337, ib_number = 7, ib_hash = replicate 32 7,
      ib_parentHash = replicate 32 6, ib_canonical = True\<rparr>" "[demo_log]" demo_state db 31337 None] db
  show ?thesis by (auto simp: empty next_version_def Let_def simp del: append.simps(2))
qed

end
