(* ===== verification/Tx_Store.thy ===== *)
theory Tx_Store
  imports Db Rpc_Types "HOL-Library.Char_ord"
begin

text \<open>
  \<open>TxTypes.cpp\<close> and \<open>PostgresTransactionStore.cpp\<close> of \<open>cpp/tx-manager\<close>: the jobs of the transaction
  manager and the table \<open>tx_jobs\<close> they live in. Text columns are strings; a \<open>NUMERIC\<close> column is the
  number its decimal text denotes, and reads back as that text. A statement that breaks the unique
  index on the active nonces, or a value that does not fit its column, is \<open>Sql_Error\<close> and changes
  nothing. \<open>NOW()\<close> is an argument of the statement that uses it; rows of the same instant are
  ordered by the codes of the characters of their ids.
\<close>

section \<open>Jobs\<close>

datatype TxStatus = Pending | Submitted | Included | Finalized | Failed | Replaced | Reorged

fun TxStatus_ToString :: "TxStatus \<Rightarrow> string" where
  "TxStatus_ToString Pending = ''Pending''"
| "TxStatus_ToString Submitted = ''Submitted''"
| "TxStatus_ToString Included = ''Included''"
| "TxStatus_ToString Finalized = ''Finalized''"
| "TxStatus_ToString Failed = ''Failed''"
| "TxStatus_ToString Replaced = ''Replaced''"
| "TxStatus_ToString Reorged = ''Reorged''"

definition TxStatusFromString :: "string \<Rightarrow> TxStatus res" where
  "TxStatusFromString value =
     (if value = ''Pending'' then Inr Pending
      else if value = ''Submitted'' then Inr Submitted
      else if value = ''Included'' then Inr Included
      else if value = ''Finalized'' then Inr Finalized
      else if value = ''Failed'' then Inr Failed
      else if value = ''Replaced'' then Inr Replaced
      else if value = ''Reorged'' then Inr Reorged
      else Inl (Invalid_Argument ''unknown transaction status''))"

record TxJob =
  tj_jobId :: string
  tj_chainId :: uint256
  tj_wallet :: address
  tj_to :: address
  tj_value :: uint256
  tj_data :: bytes
  tj_status :: TxStatus
  tj_nonce :: "uint256 option"
  tj_maxPriorityFeePerGas :: "uint256 option"
  tj_maxFeePerGas :: "uint256 option"
  tj_gasLimit :: "uint256 option"
  tj_rawTransaction :: bytes
  tj_transactionHash :: "hash256 option"
  tj_retryCount :: uint32
  tj_submittedBlockNumber :: "uint64 option"
  tj_includedBlockNumber :: "uint64 option"
  tj_includedBlockHash :: "hash256 option"
  tj_confirmationCount :: uint64
  tj_errorMessage :: string

record FeeQuote =
  fq_maxPriorityFeePerGas :: uint256
  fq_maxFeePerGas :: uint256

section \<open>The table\<close>

record TxJobRow =
  tr_job_id :: string
  tr_chain_id :: nat
  tr_wallet :: string
  tr_to :: string
  tr_value :: nat
  tr_calldata :: string
  tr_status :: string
  tr_nonce :: "nat option"
  tr_max_priority_fee :: "nat option"
  tr_max_fee :: "nat option"
  tr_gas_limit :: "nat option"
  tr_raw :: "string option"
  tr_tx_hash :: "string option"
  tr_retry_count :: nat
  tr_submitted_block :: "nat option"
  tr_included_block :: "nat option"
  tr_included_hash :: "string option"
  tr_confirmations :: nat
  tr_error :: "string option"
  tr_created_at :: nat

definition tx_hash_error :: exn where
  "tx_hash_error = Invalid_Argument ''database transaction hash must contain 32 bytes''"

definition tx_ParseHash :: "string \<Rightarrow> hash256 res" where
  "tx_ParseHash value = ParseHash tx_hash_error value"

definition OptionalField :: "('c \<Rightarrow> 'v res) \<Rightarrow> 'c option \<Rightarrow> 'v option res" where
  "OptionalField parser field = (case field of None \<Rightarrow> Inr None | Some c \<Rightarrow> map_result Some (parser c))"

definition numeric_field :: "nat \<Rightarrow> uint256 res" where
  "numeric_field n = FromDecimal (show_nat n)"

text \<open>An unsigned 64-bit column is read from a \<open>BIGINT\<close> that is not negative.\<close>

definition ParseJob :: "TxJobRow \<Rightarrow> TxJob res" where
  "ParseJob r =
     bind_res (numeric_field (tr_chain_id r)) (\<lambda>chain.
     bind_res (Address_FromHex (tr_wallet r)) (\<lambda>wallet.
     bind_res (Address_FromHex (tr_to r)) (\<lambda>to.
     bind_res (numeric_field (tr_value r)) (\<lambda>val.
     bind_res (Hex_Decode (tr_calldata r)) (\<lambda>data.
     bind_res (TxStatusFromString (tr_status r)) (\<lambda>status.
     bind_res (OptionalField numeric_field (tr_nonce r)) (\<lambda>nonce.
     bind_res (OptionalField numeric_field (tr_max_priority_fee r)) (\<lambda>priority.
     bind_res (OptionalField numeric_field (tr_max_fee r)) (\<lambda>fee.
     bind_res (OptionalField numeric_field (tr_gas_limit r)) (\<lambda>gas.
     bind_res (case tr_raw r of None \<Rightarrow> Inr [] | Some s \<Rightarrow> Hex_Decode s) (\<lambda>raw.
     bind_res (OptionalField tx_ParseHash (tr_tx_hash r)) (\<lambda>hash.
     bind_res (OptionalField tx_ParseHash (tr_included_hash r)) (\<lambda>blockHash.
     Inr \<lparr>tj_jobId = tr_job_id r, tj_chainId = chain, tj_wallet = wallet, tj_to = to, tj_value = val, tj_data = data,
          tj_status = status, tj_nonce = nonce, tj_maxPriorityFeePerGas = priority, tj_maxFeePerGas = fee,
          tj_gasLimit = gas, tj_rawTransaction = raw, tj_transactionHash = hash, tj_retryCount = of_nat (tr_retry_count r),
          tj_submittedBlockNumber = map_option of_nat (tr_submitted_block r),
          tj_includedBlockNumber = map_option of_nat (tr_included_block r), tj_includedBlockHash = blockHash,
          tj_confirmationCount = of_nat (tr_confirmations r),
          tj_errorMessage = (case tr_error r of None \<Rightarrow> [] | Some e \<Rightarrow> e)\<rparr>)))))))))))))"

text \<open>The unique index on \<open>(chain_id, wallet_address, nonce)\<close> of the rows that hold a nonce.\<close>

definition holds_nonce :: "TxJobRow \<Rightarrow> bool" where
  "holds_nonce r \<longleftrightarrow> tr_nonce r \<noteq> None \<and> tr_status r \<notin> {''Failed'', ''Replaced'', ''Reorged''}"

definition active_nonce_unique :: "TxJobRow list \<Rightarrow> bool" where
  "active_nonce_unique rows \<longleftrightarrow>
     distinct (map (\<lambda>r. (tr_chain_id r, tr_wallet r, tr_nonce r)) (filter holds_nonce rows))"

section \<open>Statements\<close>

definition tx_row :: "nat \<Rightarrow> TxJob \<Rightarrow> TxJobRow" where
  "tx_row now job =
     \<lparr>tr_job_id = tj_jobId job, tr_chain_id = unat (tj_chainId job), tr_wallet = Address_ToHex (tj_wallet job) True,
      tr_to = Address_ToHex (tj_to job) True, tr_value = unat (tj_value job),
      tr_calldata = Hex_Encode (tj_data job) True, tr_status = TxStatus_ToString (tj_status job),
      tr_nonce = None, tr_max_priority_fee = None, tr_max_fee = None, tr_gas_limit = None, tr_raw = None,
      tr_tx_hash = None, tr_retry_count = 0, tr_submitted_block = None, tr_included_block = None,
      tr_included_hash = None, tr_confirmations = 0, tr_error = None, tr_created_at = now\<rparr>"

definition tx_Insert :: "nat \<Rightarrow> TxJob \<Rightarrow> TxJobRow list \<Rightarrow> bool \<times> TxJobRow list" where
  "tx_Insert now job rows =
     (tj_jobId job \<notin> tr_job_id ` set rows, insert_ignore tr_job_id (tx_row now job) rows)"

definition tx_active :: "uint256 \<Rightarrow> address \<Rightarrow> TxJobRow \<Rightarrow> bool" where
  "tx_active chain wallet r \<longleftrightarrow> tr_chain_id r = unat chain \<and> tr_wallet r = Address_ToHex wallet True \<and>
     tr_status r \<in> {''Pending'', ''Submitted'', ''Included''}"

definition tx_LoadActive :: "TxJobRow list \<Rightarrow> uint256 \<Rightarrow> address \<Rightarrow> TxJob list res" where
  "tx_LoadActive rows chain wallet =
     map_res ParseJob (sort_key tr_created_at (sort_key tr_job_id (filter (tx_active chain wallet) rows)))"

definition tx_LoadHighestNonce :: "TxJobRow list \<Rightarrow> uint256 \<Rightarrow> address \<Rightarrow> uint256 option res" where
  "tx_LoadHighestNonce rows chain wallet =
     (case map (\<lambda>r. the (tr_nonce r))
             (filter (\<lambda>r. tr_chain_id r = unat chain \<and> tr_wallet r = Address_ToHex wallet True \<and>
                          tr_nonce r \<noteq> None \<and> tr_status r \<notin> {''Failed'', ''Reorged''}) rows) of
        [] \<Rightarrow> Inr None
      | n # ns \<Rightarrow> map_result Some (numeric_field (fold max ns n)))"

text \<open>The row that \<open>Save\<close> leaves for a job: the columns it does not set stay as they are.\<close>

definition saved_row :: "TxJob \<Rightarrow> TxJobRow \<Rightarrow> TxJobRow" where
  "saved_row job r = r\<lparr>tr_status := TxStatus_ToString (tj_status job), tr_nonce := map_option unat (tj_nonce job),
     tr_max_priority_fee := map_option unat (tj_maxPriorityFeePerGas job),
     tr_max_fee := map_option unat (tj_maxFeePerGas job), tr_gas_limit := map_option unat (tj_gasLimit job),
     tr_raw := (if tj_rawTransaction job = [] then None else Some (Hex_Encode (tj_rawTransaction job) True)),
     tr_tx_hash := map_option (\<lambda>h. Hex_Encode h True) (tj_transactionHash job),
     tr_retry_count := unat (tj_retryCount job),
     tr_submitted_block := map_option unat (tj_submittedBlockNumber job),
     tr_included_block := map_option unat (tj_includedBlockNumber job),
     tr_included_hash := map_option (\<lambda>h. Hex_Encode h True) (tj_includedBlockHash job),
     tr_confirmations := unat (tj_confirmationCount job),
     tr_error := (if tj_errorMessage job = [] then None else Some (tj_errorMessage job))\<rparr>"

definition fits_bigint :: "uint64 option \<Rightarrow> bool" where
  "fits_bigint n = (case n of None \<Rightarrow> True | Some k \<Rightarrow> unat k < 2 ^ 63)"

definition tx_Save :: "TxJob \<Rightarrow> TxJobRow list \<Rightarrow> TxJobRow list res" where
  "tx_Save job rows =
     (let rows' = map (\<lambda>r. if tr_job_id r = tj_jobId job then saved_row job r else r) rows in
      if unat (tj_retryCount job) < 2 ^ 31 \<and> fits_bigint (tj_submittedBlockNumber job) \<and>
         fits_bigint (tj_includedBlockNumber job) \<and> unat (tj_confirmationCount job) < 2 ^ 63 \<and> active_nonce_unique rows'
      then Inr rows' else Inl Sql_Error)"

end
