(* ===== verification/Service_Db.thy ===== *)
theory Service_Db
  imports Indexer_Store Tx_Store Risk
begin

text \<open>
  The tables that the risk worker, the liquidator and the transaction manager share with the
  indexer (\<open>database/migrations\<close> 007 to 009): events a consumer has processed, the jobs of the
  liquidator and the transactions. A \<open>TIMESTAMPTZ\<close> is a number of seconds.
\<close>

record LiquidationJobRow =
  jr_job_id :: string
  jr_source_event_id :: string
  jr_chain_id :: string
  jr_borrower :: string
  jr_debt_asset :: string
  jr_collateral_asset :: string
  jr_health_factor :: string
  jr_max_repay :: string
  jr_expected_bonus :: string
  jr_expected_collateral :: string
  jr_expected_bad_debt :: string
  jr_block_number :: nat
  jr_block_hash :: string
  jr_canonical_version :: nat
  jr_status :: string
  jr_worker_id :: "string option"
  jr_lease_until :: "int option"
  jr_fencing_token :: nat
  jr_tx_job_id :: "string option"
  jr_error :: "string option"
  jr_created_at :: nat

record ServiceDb = IndexerDb +
  sd_processed :: "(string \<times> string) list"
  sd_jobs :: "LiquidationJobRow list"
  sd_tx :: "TxJobRow list"

text \<open>\<open>INSERT INTO processed_events ... ON CONFLICT DO NOTHING\<close>, and whether it added a row.\<close>

definition mark_processed :: "string \<Rightarrow> string \<Rightarrow> ServiceDb \<Rightarrow> bool \<times> ServiceDb" where
  "mark_processed consumer eventId db =
     (if (consumer, eventId) \<in> set (sd_processed db) then (False, db)
      else (True, db\<lparr>sd_processed := sd_processed db @ [(consumer, eventId)]\<rparr>))"

text \<open>A \<open>BIGINT\<close> column with the check \<open>> 0\<close>.\<close>

definition positive_bigint :: "uint64 \<Rightarrow> nat res" where
  "positive_bigint n = (if n = 0 then Inl Sql_Error else bigint n)"

end
