(* ===== verification/Messaging.thy ===== *)
theory Messaging
  imports Db Hex "HOL-Library.Char_ord"
begin

text \<open>
  \<open>Event.cpp\<close> and \<open>Outbox.cpp\<close> of \<open>cpp/messaging\<close>: the event envelope with its JSON form, and the
  publisher that drains the transactional outbox. The message broker behind \<open>Publish\<close> is an
  argument: its answer to the n-th message is an acknowledgement or an exception. The text of a JSON
  value is the library's. The rows of the outbox carry here, beside the columns of the writers, the
  time at which they were inserted.
\<close>

section \<open>Events\<close>

definition CHAIN_BLOCK_PROCESSED :: string where "CHAIN_BLOCK_PROCESSED = ''chain.block.processed''"

definition CHAIN_REORG :: string where "CHAIN_REORG = ''chain.reorg''"

definition RISK_LIQUIDATION_DETECTED :: string where "RISK_LIQUIDATION_DETECTED = ''risk.liquidation.detected''"

record EventEnvelope =
  ev_eventId :: string
  ev_eventType :: string
  ev_aggregateId :: string
  ev_chainId :: uint256
  ev_blockNumber :: uint64
  ev_blockHash :: hash256
  ev_transactionHash :: "hash256 option"
  ev_logIndex :: "uint64 option"
  ev_canonicalVersion :: uint64
  ev_createdAt :: uint64
  ev_payload :: json

definition event_ParseHash :: "string \<Rightarrow> hash256 res" where
  "event_ParseHash value = ParseHash (Invalid_Argument ''event hash must contain 32 bytes'') value"

text \<open>\<open>at(key)\<close>, \<open>get<std::string>()\<close> and \<open>get<std::uint64_t>()\<close>: a number of any kind is converted, a
  negative one wraps and a fraction is cut off.\<close>

definition json_at :: "json \<Rightarrow> string \<Rightarrow> json res" where
  "json_at j key = (case json_find key j of Some v \<Rightarrow> Inr v | None \<Rightarrow> Inl Json_Error)"

fun json_string :: "json \<Rightarrow> string res" where
  "json_string (J_Str s) = Inr s"
| "json_string _ = Inl Json_Error"

fun json_uint64 :: "json \<Rightarrow> uint64 res" where
  "json_uint64 (J_Num n) = Inr (of_nat n)"
| "json_uint64 (J_Frac m k) = Inr (of_int (sgn m * (\<bar>m\<bar> div 2 ^ k)))"
| "json_uint64 _ = Inl Json_Error"

definition string_at :: "json \<Rightarrow> string \<Rightarrow> string res" where
  "string_at j key = bind_res (json_at j key) json_string"

definition uint64_at :: "json \<Rightarrow> string \<Rightarrow> uint64 res" where
  "uint64_at j key = bind_res (json_at j key) json_uint64"

text \<open>The value that \<open>Serialize\<close> prints, its keys in the order of the library's map.\<close>

definition Serialize :: "EventEnvelope \<Rightarrow> json" where
  "Serialize event =
     J_Obj ([(''aggregateId'', J_Str (ev_aggregateId event)), (''blockHash'', J_Str (Hex_Encode (ev_blockHash event) True)),
        (''blockNumber'', J_Num (unat (ev_blockNumber event))),
        (''canonicalVersion'', J_Num (unat (ev_canonicalVersion event))),
        (''chainId'', J_Str (ToDecimal (ev_chainId event))), (''createdAt'', J_Num (unat (ev_createdAt event))),
        (''eventId'', J_Str (ev_eventId event)), (''eventType'', J_Str (ev_eventType event))] @
       (case ev_logIndex event of Some n \<Rightarrow> [(''logIndex'', J_Num (unat n))] | None \<Rightarrow> []) @
       [(''payload'', ev_payload event)] @
       (case ev_transactionHash event of Some h \<Rightarrow> [(''transactionHash'', J_Str (Hex_Encode h True))] | None \<Rightarrow> []))"

definition Deserialize :: "json \<Rightarrow> EventEnvelope res" where
  "Deserialize j =
     bind_res (string_at j ''eventId'') (\<lambda>eventId.
     bind_res (string_at j ''eventType'') (\<lambda>eventType.
     bind_res (string_at j ''aggregateId'') (\<lambda>aggregateId.
     bind_res (bind_res (string_at j ''chainId'') FromDecimal) (\<lambda>chainId.
     bind_res (uint64_at j ''blockNumber'') (\<lambda>blockNumber.
     bind_res (bind_res (string_at j ''blockHash'') event_ParseHash) (\<lambda>blockHash.
     bind_res (uint64_at j ''canonicalVersion'') (\<lambda>canonicalVersion.
     bind_res (uint64_at j ''createdAt'') (\<lambda>createdAt.
     bind_res (json_at j ''payload'') (\<lambda>payload.
     bind_res (if json_find ''transactionHash'' j \<noteq> None
               then map_result Some (bind_res (string_at j ''transactionHash'') event_ParseHash) else Inr None) (\<lambda>transactionHash.
     bind_res (if json_find ''logIndex'' j \<noteq> None then map_result Some (uint64_at j ''logIndex'') else Inr None) (\<lambda>logIndex.
     Inr \<lparr>ev_eventId = eventId, ev_eventType = eventType, ev_aggregateId = aggregateId, ev_chainId = chainId,
          ev_blockNumber = blockNumber, ev_blockHash = blockHash, ev_transactionHash = transactionHash,
          ev_logIndex = logIndex, ev_canonicalVersion = canonicalVersion, ev_createdAt = createdAt,
          ev_payload = payload\<rparr>)))))))))))"

section \<open>The outbox\<close>

record OutboxEntry = OutboxRow +
  oe_created_at :: nat

definition outbox_ParseHash :: "string \<Rightarrow> hash256 res" where
  "outbox_ParseHash value = ParseHash (Invalid_Argument ''outbox hash must contain 32 bytes'') value"

definition ParseEvent :: "OutboxEntry \<Rightarrow> EventEnvelope res" where
  "ParseEvent r =
     bind_res (FromDecimal (ob_chain_id r)) (\<lambda>chainId.
     bind_res (outbox_ParseHash (ob_block_hash r)) (\<lambda>blockHash.
     bind_res (opt_res outbox_ParseHash (ob_transaction_hash r)) (\<lambda>transactionHash.
     Inr \<lparr>ev_eventId = ob_event_id r, ev_eventType = ob_event_type r, ev_aggregateId = ob_aggregate_id r,
          ev_chainId = chainId, ev_blockNumber = of_nat (ob_block_number r), ev_blockHash = blockHash,
          ev_transactionHash = transactionHash, ev_logIndex = map_option of_nat (ob_log_index r),
          ev_canonicalVersion = of_nat (ob_canonical_version r), ev_createdAt = of_nat (oe_created_at r),
          ev_payload = ob_payload r\<rparr>)))"

definition LoadUnpublished :: "OutboxEntry list \<Rightarrow> nat \<Rightarrow> EventEnvelope list res" where
  "LoadUnpublished rows limit =
     map_res ParseEvent
       (take limit (sort_key oe_created_at (sort_key ob_event_id (filter (\<lambda>r. \<not> ob_published r) rows))))"

definition CountUnpublished :: "OutboxEntry list \<Rightarrow> nat" where
  "CountUnpublished rows = length (filter (\<lambda>r. \<not> ob_published r) rows)"

definition MarkPublished :: "string \<Rightarrow> 'a OutboxRow_scheme list \<Rightarrow> 'a OutboxRow_scheme list" where
  "MarkPublished eventId rows = map (\<lambda>r. if ob_event_id r = eventId then r\<lparr>ob_published := True\<rparr> else r) rows"

section \<open>The publisher\<close>

text \<open>\<open>OutboxPublisher\<close> is written against two interfaces, \<open>OutboxStore\<close> and \<open>EventPublisher\<close>. It is a resumption: it stops
  at each call of an interface with a continuation for the answer, so that the same program can be run
  alone and between the transactions of other processes.\<close>

datatype 'a outbox_calls =
    Returned 'a
  | Thrown exn
  | CallLoad nat "EventEnvelope list res \<Rightarrow> 'a outbox_calls"
  | CallPublish EventEnvelope "unit res \<Rightarrow> 'a outbox_calls"
  | CallMark string "unit res \<Rightarrow> 'a outbox_calls"

definition answered :: "'a res \<Rightarrow> 'a outbox_calls" where
  "answered r = (case r of Inr x \<Rightarrow> Returned x | Inl e \<Rightarrow> Thrown e)"

primrec andthen :: "'a outbox_calls \<Rightarrow> ('a \<Rightarrow> 'b outbox_calls) \<Rightarrow> 'b outbox_calls" where
  "andthen (Returned x) f = f x"
| "andthen (Thrown e) f = Thrown e"
| "andthen (CallLoad limit k) f = CallLoad limit (\<lambda>r. andthen (k r) f)"
| "andthen (CallPublish event k) f = CallPublish event (\<lambda>r. andthen (k r) f)"
| "andthen (CallMark eventId k) f = CallMark eventId (\<lambda>r. andthen (k r) f)"

definition publish_calls :: "EventEnvelope \<Rightarrow> unit outbox_calls" where
  "publish_calls event =
     andthen (CallPublish event answered) (\<lambda>_.
     CallMark (ev_eventId event) answered)"

fun publish_all :: "EventEnvelope list \<Rightarrow> unit outbox_calls" where
  "publish_all [] = Returned ()"
| "publish_all (event # events) = andthen (publish_calls event) (\<lambda>_. publish_all events)"

definition RunOnce_calls :: "nat \<Rightarrow> nat outbox_calls" where
  "RunOnce_calls limit =
     andthen (CallLoad limit answered) (\<lambda>events.
     andthen (publish_all events) (\<lambda>_.
     Returned (length events)))"

text \<open>Run alone, on the table and a broker whose log holds the messages it has acknowledged.\<close>

record PublisherState =
  pb_rows :: "OutboxEntry list"
  pb_messages :: nat
  pb_acknowledged :: "EventEnvelope list"

definition Publish :: "(nat \<Rightarrow> EventEnvelope \<Rightarrow> unit res) \<Rightarrow> EventEnvelope \<Rightarrow> (PublisherState, unit) prog" where
  "Publish broker event s =
     (case broker (pb_messages s) event of
        Inl e \<Rightarrow> (Inl e, s\<lparr>pb_messages := Suc (pb_messages s)\<rparr>)
      | Inr u \<Rightarrow> (Inr u, s\<lparr>pb_messages := Suc (pb_messages s), pb_acknowledged := pb_acknowledged s @ [event]\<rparr>))"

primrec run_calls :: "(nat \<Rightarrow> EventEnvelope \<Rightarrow> unit res) \<Rightarrow> 'a outbox_calls \<Rightarrow> (PublisherState, 'a) prog" where
  "run_calls broker (Returned x) = ret x"
| "run_calls broker (Thrown e) = raise e"
| "run_calls broker (CallLoad limit k) = (\<lambda>s. run_calls broker (k (LoadUnpublished (pb_rows s) limit)) s)"
| "run_calls broker (CallPublish event k) = (\<lambda>s. case Publish broker event s of (r, s') \<Rightarrow> run_calls broker (k r) s')"
| "run_calls broker (CallMark eventId k) =
     (\<lambda>s. run_calls broker (k (Inr ())) (s\<lparr>pb_rows := MarkPublished eventId (pb_rows s)\<rparr>))"

definition outbox_RunOnce :: "(nat \<Rightarrow> EventEnvelope \<Rightarrow> unit res) \<Rightarrow> nat \<Rightarrow> (PublisherState, nat) prog" where
  "outbox_RunOnce broker limit = run_calls broker (RunOnce_calls limit)"

subsection \<open>The same as a program\<close>

definition publish_event :: "(nat \<Rightarrow> EventEnvelope \<Rightarrow> unit res) \<Rightarrow> EventEnvelope \<Rightarrow> (PublisherState, unit) prog" where
  "publish_event broker event =
     bindp (Publish broker event) (\<lambda>_.
     modify (\<lambda>s. s\<lparr>pb_rows := MarkPublished (ev_eventId event) (pb_rows s)\<rparr>))"

lemma run_answered [simp]: "run_calls broker (answered r) = liftp r"
  by (auto simp: answered_def ret_def raise_def liftp_def split: sum.split)

lemma run_andthen: "run_calls broker (andthen m f) = bindp (run_calls broker m) (\<lambda>x. run_calls broker (f x))"
  by (induction m) (auto simp: fun_eq_iff bindp_def ret_def raise_def split: prod.split sum.split)

lemma run_publish_calls: "run_calls broker (publish_calls event) = publish_event broker event"
  by (auto simp: publish_calls_def publish_event_def run_andthen fun_eq_iff bindp_def liftp_def modify_def split: prod.split sum.split)

lemma run_publish_all: "run_calls broker (publish_all events) = for_each (publish_event broker) events"
  by (induction events) (simp_all add: run_andthen run_publish_calls)

lemma outbox_RunOnce_eq:
  "outbox_RunOnce broker limit =
     bindp (query (\<lambda>s. LoadUnpublished (pb_rows s) limit)) (\<lambda>events.
     bindp (for_each (publish_event broker) events) (\<lambda>_.
     ret (length events)))"
  unfolding outbox_RunOnce_def RunOnce_calls_def run_andthen run_publish_all
  by (auto simp: fun_eq_iff bindp_def query_def liftp_def run_andthen run_publish_all split: sum.split)

end
