(* ===== verification/Risk_Worker.thy ===== *)
theory Risk_Worker
  imports Service_Db Messaging
begin

text \<open>
  \<open>PostgresRiskRepository.cpp\<close> and \<open>RiskWorker.cpp\<close> of \<open>cpp/risk-engine\<close>: the reads of the risk
  engine from the indexed tables, and the worker that scans after an event and commits the
  candidates to the outbox together with the mark that the event was processed.
\<close>

section \<open>The repository\<close>

definition risk_hash_error :: exn where
  "risk_hash_error = Invalid_Argument ''database block hash must contain 32 bytes''"

definition risk_ParsePosition :: "PositionRow \<Rightarrow> IndexedPosition res" where
  "risk_ParsePosition r =
     bind_res (Address_FromHex (pw_user r)) (\<lambda>user.
     bind_res (FromDecimal (pw_weth_collateral r)) (\<lambda>collateral.
     bind_res (FromDecimal (pw_scaled_usdc_debt r)) (\<lambda>debt.
     Inr \<lparr>ip_user = user, ip_wethCollateral = collateral, ip_scaledUsdcDebt = debt\<rparr>)))"

text \<open>The join of the market with the cursor and the version of its chain has at most one row.\<close>

definition risk_LoadMarket :: "'a IndexerDb_scheme \<Rightarrow> uint256 \<Rightarrow> MarketSnapshot res" where
  "risk_LoadMarket db chainId =
     (let chain = ToDecimal chainId in
      case (filter (\<lambda>r. mw_chain r = chain) (db_markets db), db_sync db chain, db_versions db chain) of
        (r # _, Some (number, hash), Some version) \<Rightarrow>
          bind_res (ParseHash risk_hash_error hash) (\<lambda>blockHash.
          bind_res (Address_FromHex (mw_pool r)) (\<lambda>pool.
          bind_res (Address_FromHex (mw_oracle r)) (\<lambda>oracle.
          bind_res (Address_FromHex (mw_weth r)) (\<lambda>weth.
          bind_res (Address_FromHex (mw_usdc r)) (\<lambda>usdc.
          bind_res (FromDecimal (mw_numbers r ! 6)) (\<lambda>borrowIndex.
          bind_res (FromDecimal (mw_numbers r ! 9)) (\<lambda>wethPrice.
          bind_res (FromDecimal (mw_numbers r ! 10)) (\<lambda>wethUpdated.
          bind_res (FromDecimal (mw_numbers r ! 11)) (\<lambda>wethAge.
          bind_res (FromDecimal (mw_numbers r ! 12)) (\<lambda>usdcPrice.
          bind_res (FromDecimal (mw_numbers r ! 13)) (\<lambda>usdcUpdated.
          bind_res (FromDecimal (mw_numbers r ! 14)) (\<lambda>usdcAge.
          bind_res (FromDecimal (mw_numbers r ! 3)) (\<lambda>liquidity.
          bind_res (FromDecimal (mw_numbers r ! 2)) (\<lambda>scaledDebt.
          bind_res (FromDecimal (mw_numbers r ! 8)) (\<lambda>lastInterest.
          Inr \<lparr>ms_chainId = chainId, ms_indexedBlock = of_nat number, ms_indexedBlockHash = blockHash, ms_pool = pool,
               ms_oracle = oracle, ms_weth = weth, ms_usdc = usdc, ms_borrowIndex = borrowIndex,
               ms_wethPrice = wethPrice, ms_wethPriceUpdatedAt = wethUpdated, ms_wethMaxPriceAge = wethAge,
               ms_usdcPrice = usdcPrice, ms_usdcPriceUpdatedAt = usdcUpdated, ms_usdcMaxPriceAge = usdcAge,
               ms_observedAt = 0, ms_availableUsdcLiquidity = liquidity, ms_totalScaledUsdcDebt = scaledDebt,
               ms_lastInterestTimestamp = lastInterest, ms_canonicalVersion = of_nat version\<rparr>)))))))))))))))
      | _ \<Rightarrow> Inl (Runtime_Error ''indexed market state is unavailable''))"

definition risk_LoadPosition :: "'a IndexerDb_scheme \<Rightarrow> uint256 \<Rightarrow> address \<Rightarrow> IndexedPosition option res" where
  "risk_LoadPosition db chainId user =
     (case filter (\<lambda>r. pw_chain r = ToDecimal chainId \<and> pw_user r = Address_ToHex user True) (db_positions db) of
        [] \<Rightarrow> Inr None
      | r # _ \<Rightarrow> map_result Some (risk_ParsePosition r))"

definition numeric_positive :: "string \<Rightarrow> bool" where
  "numeric_positive s = (case FromDecimal s of Inr v \<Rightarrow> v > 0 | Inl _ \<Rightarrow> False)"

definition risk_LoadPositions :: "'a IndexerDb_scheme \<Rightarrow> uint256 \<Rightarrow> nat \<Rightarrow> IndexedPosition list res" where
  "risk_LoadPositions db chainId limit =
     map_res risk_ParsePosition
       (take limit (sort_key pw_user
         (filter (\<lambda>r. pw_chain r = ToDecimal chainId \<and> numeric_positive (pw_scaled_usdc_debt r)) (db_positions db))))"

definition PostgresRiskRepository :: "'a IndexerDb_scheme \<Rightarrow> RiskRepository" where
  "PostgresRiskRepository db =
     \<lparr>repo_LoadMarket = risk_LoadMarket db, repo_LoadPosition = risk_LoadPosition db, repo_LoadPositions = risk_LoadPositions db\<rparr>"

section \<open>The worker\<close>

definition RiskEventId :: "LiquidationCandidate \<Rightarrow> string" where
  "RiskEventId c = RISK_LIQUIDATION_DETECTED @ '':'' @ ToDecimal (lc_chainId c) @ '':'' @
     Hex_Encode (lc_blockHash c) False @ '':'' @ Address_ToHex (lc_borrower c) False"

definition CandidatePayload :: "LiquidationCandidate \<Rightarrow> json" where
  "CandidatePayload c =
     J_Obj [(''borrower'', J_Str (Address_ToHex (lc_borrower c) True)),
       (''collateralAsset'', J_Str (Address_ToHex (lc_collateralAsset c) True)),
       (''debtAsset'', J_Str (Address_ToHex (lc_debtAsset c) True)),
       (''expectedBadDebt'', J_Str (ToDecimal (lc_expectedBadDebt c))),
       (''expectedBonus'', J_Str (ToDecimal (lc_expectedBonus c))),
       (''expectedCollateral'', J_Str (ToDecimal (lc_expectedCollateral c))),
       (''healthFactor'', J_Str (ToDecimal (lc_healthFactor c))), (''maxRepay'', J_Str (ToDecimal (lc_maxRepay c)))]"

definition candidate_row :: "LiquidationCandidate \<Rightarrow> OutboxRow res" where
  "candidate_row c =
     bind_res (bigint (lc_blockNumber c)) (\<lambda>number.
     bind_res (positive_bigint (lc_canonicalVersion c)) (\<lambda>version.
     Inr \<lparr>ob_event_id = RiskEventId c, ob_event_type = RISK_LIQUIDATION_DETECTED,
          ob_aggregate_id = ''position:'' @ Address_ToHex (lc_borrower c) False,
          ob_chain_id = ToDecimal (lc_chainId c), ob_block_number = number,
          ob_block_hash = Hex_Encode (lc_blockHash c) True, ob_transaction_hash = None, ob_log_index = None,
          ob_canonical_version = version, ob_payload = CandidatePayload c, ob_published = False\<rparr>))"

definition CommitScan :: "string \<Rightarrow> LiquidationCandidate list \<Rightarrow> ServiceDb \<Rightarrow> (bool \<times> ServiceDb) res" where
  "CommitScan sourceEventId found db =
     (case mark_processed ''risk-engine'' sourceEventId db of
        (False, db) \<Rightarrow> Inr (False, db)
      | (True, db) \<Rightarrow>
          map_result (\<lambda>outbox. (True, db\<lparr>db_outbox := outbox\<rparr>))
            (fold_res (\<lambda>c outbox. map_result (\<lambda>r. outbox_insert r outbox) (candidate_row c)) found (db_outbox db)))"

record RiskWorkResult =
  rw_committed :: bool
  rw_positionsScanned :: nat
  rw_liquidationCandidates :: nat

definition ProcessWithStats :: "uint256 \<Rightarrow> nat \<Rightarrow> string \<Rightarrow> uint64 \<Rightarrow> (ServiceDb, RiskWorkResult) prog" where
  "ProcessWithStats chainId scanLimit sourceEventId evaluatedAt =
     bindp (query (\<lambda>db. ScanWithStats (PostgresRiskRepository db) chainId scanLimit evaluatedAt)) (\<lambda>scan.
     bindp (transact (CommitScan sourceEventId (candidates scan))) (\<lambda>committed.
     ret \<lparr>rw_committed = committed, rw_positionsScanned = positionsScanned scan,
          rw_liquidationCandidates = length (candidates scan)\<rparr>))"

definition RescanEventId :: "MarketSnapshot \<Rightarrow> uint64 \<Rightarrow> string" where
  "RescanEventId market evaluatedAt =
     ''risk.rescan:'' @ ToDecimal (ms_chainId market) @ '':'' @ show_nat (unat (ms_canonicalVersion market)) @ '':'' @
     show_nat (unat evaluatedAt)"

definition RescanWithStats :: "uint256 \<Rightarrow> nat \<Rightarrow> uint64 \<Rightarrow> (ServiceDb, RiskWorkResult) prog" where
  "RescanWithStats chainId scanLimit evaluatedAt =
     bindp (query (\<lambda>db. risk_LoadMarket db chainId)) (\<lambda>market.
     ProcessWithStats chainId scanLimit (RescanEventId market evaluatedAt) evaluatedAt)"

definition Process :: "uint256 \<Rightarrow> nat \<Rightarrow> string \<Rightarrow> uint64 \<Rightarrow> (ServiceDb, bool) prog" where
  "Process chainId scanLimit sourceEventId evaluatedAt =
     bindp (ProcessWithStats chainId scanLimit sourceEventId evaluatedAt) (\<lambda>r. ret (rw_committed r))"

definition Rescan :: "uint256 \<Rightarrow> nat \<Rightarrow> uint64 \<Rightarrow> (ServiceDb, bool) prog" where
  "Rescan chainId scanLimit evaluatedAt = bindp (RescanWithStats chainId scanLimit evaluatedAt) (\<lambda>r. ret (rw_committed r))"

end
