(* ===== verification/Indexed_View.thy ===== *)
theory Indexed_View
  imports Indexer_Properties Risk_Worker
begin

text \<open>
  What the risk engine reads is what the indexer projected: the repository of the risk engine
  (\<open>PostgresRiskRepository.cpp\<close>) and the store of the indexer (\<open>PostgresStore.cpp\<close>) share tables only,
  with their own statements and their own conversions on each side.
\<close>

definition indexed_of :: "PositionState \<Rightarrow> IndexedPosition" where
  "indexed_of p = \<lparr>ip_user = ps_user p, ip_wethCollateral = ps_wethCollateral p, ip_scaledUsdcDebt = ps_scaledUsdcDebt p\<rparr>"

definition snapshot_of :: "uint256 \<Rightarrow> MarketState \<Rightarrow> IndexedBlock \<Rightarrow> nat \<Rightarrow> MarketSnapshot" where
  "snapshot_of cid m b version =
     \<lparr>ms_chainId = cid, ms_indexedBlock = ib_number b, ms_indexedBlockHash = ib_hash b, ms_pool = cc_pool (mk_contracts m),
      ms_oracle = cc_oracle (mk_contracts m), ms_weth = cc_weth (mk_contracts m), ms_usdc = cc_usdc (mk_contracts m),
      ms_borrowIndex = mk_borrowIndex m, ms_wethPrice = mk_wethPrice m, ms_wethPriceUpdatedAt = mk_wethPriceUpdatedAt m,
      ms_wethMaxPriceAge = mk_wethMaxPriceAge m, ms_usdcPrice = mk_usdcPrice m,
      ms_usdcPriceUpdatedAt = mk_usdcPriceUpdatedAt m, ms_usdcMaxPriceAge = mk_usdcMaxPriceAge m, ms_observedAt = 0,
      ms_availableUsdcLiquidity = mk_availableUsdcLiquidity m, ms_totalScaledUsdcDebt = mk_totalScaledUsdcDebt m,
      ms_lastInterestTimestamp = mk_lastInterestTimestamp m, ms_canonicalVersion = of_nat version\<rparr>"

text \<open>The accounts with debt, in the order of their addresses as text.\<close>

definition debtors :: "(address \<rightharpoonup> PositionState) \<Rightarrow> address list" where
  "debtors ps = sort_key (\<lambda>a. Address_ToHex a True)
     (filter (\<lambda>a. 0 < ps_scaledUsdcDebt (the (ps a))) (sorted_list_of_set (dom ps)))"

section \<open>Rows of the tables\<close>

lemma insort_key_map: "insort_key f (g x) (map g xs) = map g (insort_key (\<lambda>y. f (g y)) x xs)"
  by (induction xs) auto

lemma sort_key_map: "sort_key f (map g xs) = map g (sort_key (\<lambda>y. f (g y)) xs)"
  by (induction xs) (simp_all add: insort_key_map)

lemma filter_self: "distinct xs \<Longrightarrow> filter (\<lambda>a. a = u) xs = (if u \<in> set xs then [u] else [])"
  by (induction xs) (auto simp: filter_empty_conv)

lemma view_market:
  assumes "filter (\<lambda>r. mw_chain r = ToDecimal cid) (db_markets db) = [market_row (ToDecimal cid) m]" "contracts_wf (mk_contracts m)"
    and "db_sync db (ToDecimal cid) = Some (unat (ib_number b), Hex_Encode (ib_hash b) True)" "length (ib_hash b) = 32"
    and "db_versions db (ToDecimal cid) = Some v"
  shows "risk_LoadMarket db cid = Inr (snapshot_of cid m b v)"
  using assms
  by (simp add: risk_LoadMarket_def Let_def ParseHash_Encode market_row_def market_columns_def contracts_wf_def
      Address_FromHex_ToHex FromDecimal_ToDecimal snapshot_of_def)

lemma risk_ParsePosition_row: "position_wf u p \<Longrightarrow> risk_ParsePosition (position_row chain u p) = Inr (indexed_of p)"
  by (simp add: risk_ParsePosition_def position_row_def position_wf_def Address_FromHex_ToHex FromDecimal_ToDecimal indexed_of_def)

text \<open>The rows of a chain in the table of positions, as the indexer writes them.\<close>

definition shows_positions :: "uint256 \<Rightarrow> (address \<rightharpoonup> PositionState) \<Rightarrow> 'a IndexerDb_scheme \<Rightarrow> bool" where
  "shows_positions cid ps db \<longleftrightarrow> filter (\<lambda>r. pw_chain r = ToDecimal cid) (db_positions db) =
     map (\<lambda>a. position_row (ToDecimal cid) a (the (ps a))) (sorted_list_of_set (dom ps))"

lemma user_rows:
  assumes rows: "shows_positions cid ps db" and fin: "finite (dom ps)"
  shows "filter (\<lambda>r. pw_chain r = ToDecimal cid \<and> pw_user r = Address_ToHex u True) (db_positions db) =
    (case ps u of None \<Rightarrow> [] | Some p \<Rightarrow> [position_row (ToDecimal cid) u p])"
proof -
  let ?row = "\<lambda>a. position_row (ToDecimal cid) a (the (ps a))" and ?us = "sorted_list_of_set (dom ps)"
  have "filter (\<lambda>r. pw_chain r = ToDecimal cid \<and> pw_user r = Address_ToHex u True) (db_positions db) =
      filter (\<lambda>r. pw_user r = Address_ToHex u True) (filter (\<lambda>r. pw_chain r = ToDecimal cid) (db_positions db))"
    by (simp add: conj_commute)
  also have "\<dots> = map ?row (filter (\<lambda>a. Address_ToHex a True = Address_ToHex u True) ?us)"
    using rows by (simp add: shows_positions_def filter_map comp_def position_row_def)
  also have "filter (\<lambda>a. Address_ToHex a True = Address_ToHex u True) ?us = filter (\<lambda>a. a = u) ?us"
    by (rule filter_cong) (auto simp: Address_ToHex_def Hex_Encode_inject)
  also have "\<dots> = (if u \<in> dom ps then [u] else [])"
    using fin distinct_sorted_list_of_set [of "dom ps"] by (simp add: filter_self)
  finally show ?thesis by (auto simp: domIff)
qed

lemma view_position:
  assumes "shows_positions cid ps db" "finite (dom ps)" "\<And>u p. ps u = Some p \<Longrightarrow> position_wf u p"
  shows "risk_LoadPosition db cid u = Inr (map_option indexed_of (ps u))"
  using user_rows [OF assms(1,2)] assms(3) by (simp add: risk_LoadPosition_def risk_ParsePosition_row split: option.splits)

lemma view_positions:
  assumes rows: "shows_positions cid ps db" and fin: "finite (dom ps)" and wf: "\<And>u p. ps u = Some p \<Longrightarrow> position_wf u p"
  shows "risk_LoadPositions db cid limit = Inr (map (\<lambda>a. indexed_of (the (ps a))) (take limit (debtors ps)))"
proof -
  let ?row = "\<lambda>a. position_row (ToDecimal cid) a (the (ps a))" and ?us = "sorted_list_of_set (dom ps)"
  have "filter (\<lambda>r. pw_chain r = ToDecimal cid \<and> numeric_positive (pw_scaled_usdc_debt r)) (db_positions db) =
      filter (\<lambda>r. numeric_positive (pw_scaled_usdc_debt r)) (filter (\<lambda>r. pw_chain r = ToDecimal cid) (db_positions db))"
    by (simp add: conj_commute)
  also have "\<dots> = map ?row (filter (\<lambda>a. 0 < ps_scaledUsdcDebt (the (ps a))) ?us)"
    using rows by (simp add: shows_positions_def filter_map comp_def position_row_def numeric_positive_def FromDecimal_ToDecimal)
  finally have "risk_LoadPositions db cid limit = map_res risk_ParsePosition (map ?row (take limit (debtors ps)))"
    by (simp add: risk_LoadPositions_def sort_key_map debtors_def take_map position_row_def)
  moreover have "map_res risk_ParsePosition (map ?row as) = Inr (map (\<lambda>a. indexed_of (the (ps a))) as)" if "set as \<subseteq> dom ps" for as
    using that by (induction as) (auto simp: risk_ParsePosition_row wf)
  moreover have "set (take limit (debtors ps)) \<subseteq> dom ps"
    using fin set_take_subset [of limit "debtors ps"] by (auto simp: debtors_def)
  ultimately show ?thesis by simp
qed

lemma Replace_shows:
  assumes "ReplaceDerivedState db cid s = Inr db'"
  shows "shows_positions cid (ds_positions s) db'"
    "filter (\<lambda>r. mw_chain r = ToDecimal cid) (db_markets db') = [market_row (ToDecimal cid) (ds_market s)]"
  using assms by (rule Replace_rows, auto simp: shows_positions_def filter_empty_conv position_row_def market_row_def filter_id_conv)+

lemma Replace_liquidations:
  assumes "ReplaceDerivedState db cid s = Inr db'"
  shows "map_res (liquidation_row (ToDecimal cid)) (ds_liquidations s) = Inr (filter (\<lambda>r. lw_chain r = ToDecimal cid) (db_liquidations db'))"
proof -
  let ?chain = "ToDecimal cid"
  obtain ls where ls: "fold_res (\<lambda>l rows. bind_res (liquidation_row ?chain l) (\<lambda>r. insert_row liquidation_key r rows))
       (ds_liquidations s) (filter (\<lambda>r. lw_chain r \<noteq> ?chain) (db_liquidations db)) = Inr ls" "db_liquidations db' = ls"
    using assms by (auto simp: ReplaceDerivedState_def Let_def res_simps)
  from fold_res_bind_rows [OF ls(1)] obtain rs where rs: "map_res (liquidation_row ?chain) (ds_liquidations s) = Inr rs"
    "ls = filter (\<lambda>r. lw_chain r \<noteq> ?chain) (db_liquidations db) @ rs" by auto
  have "\<forall>r \<in> set rs. lw_chain r = ?chain" using map_res_set [OF rs(1)] liquidation_row_fields(1) by blast
  with rs ls(2) show ?thesis by (simp add: filter_empty_conv filter_id_conv)
qed

text \<open>The tables show a state at a block.\<close>

definition shows_state :: "uint256 \<Rightarrow> DerivedState \<Rightarrow> IndexedBlock \<Rightarrow> IndexerDb \<Rightarrow> bool" where
  "shows_state cid s b db \<longleftrightarrow> shows_positions cid (ds_positions s) db \<and>
     filter (\<lambda>r. mw_chain r = ToDecimal cid) (db_markets db) = [market_row (ToDecimal cid) (ds_market s)] \<and>
     map_res (liquidation_row (ToDecimal cid)) (ds_liquidations s) = Inr (filter (\<lambda>r. lw_chain r = ToDecimal cid) (db_liquidations db)) \<and>
     db_sync db (ToDecimal cid) = Some (unat (ib_number b), Hex_Encode (ib_hash b) True)"

text \<open>The last steps of both transactions.\<close>

lemma tail_shows:
  assumes "ReplaceDerivedState d1 cid s = Inr d2" "db_positions d3 = db_positions d2" "db_markets d3 = db_markets d2" "db_liquidations d3 = db_liquidations d2"
    and "set_cursor d3 (ToDecimal cid) (ib_number b) (ib_hash b) = Inr d4"
    and "InsertOutboxEvent d4 e f g h i j k l = Inr db'"
  shows "shows_state cid s b db'"
proof -
  have d4: "d4 = d3\<lparr>db_sync := (db_sync d3)(ToDecimal cid \<mapsto> (unat (ib_number b), Hex_Encode (ib_hash b) True))\<rparr>"
    using assms(5) by (auto simp: set_cursor_def bigint_Inr elim!: bind_resE)
  show ?thesis
    using Replace_shows [OF assms(1)] Replace_liquidations [OF assms(1)] Outbox_frame [OF assms(6)] assms(2-4)
    by (simp add: shows_state_def shows_positions_def d4)
qed

lemma Commit_shows:
  assumes "pg_CommitBlock db b logs s = Inr db'" "ib_chainId b = cid"
  shows "shows_state cid s b db'"
proof -
  from assms obtain d1 d2 v d3 d4 e f g h p where "ReplaceDerivedState d1 cid s = Inr d2"
    "AdvanceCanonicalVersion d2 (ToDecimal cid) = Inr (v, d3)"
    "set_cursor d3 (ToDecimal cid) (ib_number b) (ib_hash b) = Inr d4"
    "InsertOutboxEvent d4 e f g h (ib_number b) (ib_hash b) v p = Inr db'"
    unfolding pg_CommitBlock_def Let_def by (auto elim!: bind_resE)
  from tail_shows [OF this(1) _ _ _ this(3,4)] Advance_frame [OF this(2)] show ?thesis by simp
qed

lemma Rewind_shows:
  assumes "pg_RewindTo db cid (Some b) s = Inr db'"
  shows "shows_state cid s b db'"
proof -
  from assms obtain d1 d2 d3 e f g h i j k l where "ReplaceDerivedState d1 cid s = Inr d2"
    "set_cursor d2 (ToDecimal cid) (ib_number b) (ib_hash b) = Inr d3" "InsertOutboxEvent d3 e f g h i j k l = Inr db'"
    unfolding pg_RewindTo_def Let_def by (auto elim!: bind_resE)
  from tail_shows [OF this(1) refl refl refl this(2,3)] show ?thesis .
qed

section \<open>The view of the risk engine\<close>

text \<open>The indexer has written a state at a block.\<close>

definition wrote_state :: "IndexerDb \<Rightarrow> uint256 \<Rightarrow> IndexedBlock \<Rightarrow> DerivedState \<Rightarrow> IndexerDb \<Rightarrow> bool" where
  "wrote_state db cid b s db' \<longleftrightarrow>
     (\<exists>logs. pg_CommitBlock db b logs s = Inr db') \<and> ib_chainId b = cid \<or> pg_RewindTo db cid (Some b) s = Inr db'"

lemma wrote_shows:
  assumes "wrote_state db cid b s db'"
  shows "shows_state cid s b db'" "db_versions db' (ToDecimal cid) = Some (next_version db cid)"
  using assms Commit_shows [of db b _ s db' cid] Rewind_shows [of db cid b s db'] CommitBlock_outbox [of db b _ s db']
    RewindTo_outbox [of db cid "Some b" s db'] by (auto simp: wrote_state_def)

lemma risk_view:
  assumes "wrote_state db cid b s db'" "state_wf cid cc s" "length (ib_hash b) = 32"
  shows "risk_LoadMarket db' cid = Inr (snapshot_of cid (ds_market s) b (next_version db cid))"
    "risk_LoadPosition db' cid u = Inr (map_option indexed_of (ds_positions s u))"
    "risk_LoadPositions db' cid limit =
       Inr (map (\<lambda>a. indexed_of (the (ds_positions s a))) (take limit (debtors (ds_positions s))))"
proof -
  have wf: "finite (dom (ds_positions s))" "\<And>u p. ds_positions s u = Some p \<Longrightarrow> position_wf u p" "contracts_wf (mk_contracts (ds_market s))"
    using assms(2) by (auto simp: state_wf_def)
  have rows: "shows_positions cid (ds_positions s) db'"
    "filter (\<lambda>r. mw_chain r = ToDecimal cid) (db_markets db') = [market_row (ToDecimal cid) (ds_market s)]"
    "db_sync db' (ToDecimal cid) = Some (unat (ib_number b), Hex_Encode (ib_hash b) True)"
    using wrote_shows(1) [OF assms(1)] by (auto simp: shows_state_def)
  show "risk_LoadMarket db' cid = Inr (snapshot_of cid (ds_market s) b (next_version db cid))"
    by (rule view_market [OF rows(2) wf(3) rows(3) assms(3) wrote_shows(2) [OF assms(1)]])
  show "risk_LoadPosition db' cid u = Inr (map_option indexed_of (ds_positions s u))"
    by (rule view_position [OF rows(1) wf(1,2)])
  show "risk_LoadPositions db' cid limit =
       Inr (map (\<lambda>a. indexed_of (the (ds_positions s a))) (take limit (debtors (ds_positions s))))"
    by (rule view_positions [OF rows(1) wf(1,2)])
qed

text \<open>C9. The risk engine sees the projected state. After the indexer has committed a block, or rewound to
  one, with a state, the risk engine's own statements return exactly that state: the market of the
  state with the block and the new canonical version, each account's position or none, and for a scan
  the first accounts with debt, in the order of their addresses.\<close>

theorem risk_sees_projected_state:
  assumes "wrote_state db cid b s db'" "state_wf cid cc s" "length (ib_hash b) = 32"
  shows "repo_LoadMarket (PostgresRiskRepository db') cid = Inr (snapshot_of cid (ds_market s) b (next_version db cid)) \<and>
    (\<forall>u. repo_LoadPosition (PostgresRiskRepository db') cid u = Inr (map_option indexed_of (ds_positions s u))) \<and>
    (\<forall>limit. repo_LoadPositions (PostgresRiskRepository db') cid limit =
       Inr (map (\<lambda>a. indexed_of (the (ds_positions s a))) (take limit (debtors (ds_positions s)))))"
  using risk_view [OF assms] by (simp add: PostgresRiskRepository_def)

lemma demo_wrote:
  "\<exists>db. wrote_state empty_db 31337 \<lparr>ib_chainId = 31337, ib_number = 7, ib_hash = replicate 32 7,
      ib_parentHash = replicate 32 6, ib_canonical = True\<rparr> demo_state db"
  using demo_commit by (fastforce simp: wrote_state_def)

theorem risk_sees_projected_state_witness:
  "\<exists>db r. wrote_state empty_db 31337 \<lparr>ib_chainId = 31337, ib_number = 7, ib_hash = replicate 32 7,
      ib_parentHash = replicate 32 6, ib_canonical = True\<rparr> demo_state db \<and>
     repo_LoadMarket (PostgresRiskRepository db) 31337 = Inr r \<and> ms_indexedBlock r = 7 \<and>
     repo_LoadPosition (PostgresRiskRepository db) 31337 (replicate 20 1) = Inr (map_option indexed_of (ds_positions demo_state (replicate 20 1)))"
proof -
  let ?b = "\<lparr>ib_chainId = 31337, ib_number = 7, ib_hash = replicate 32 7, ib_parentHash = replicate 32 6, ib_canonical = True\<rparr>"
  obtain db where db: "wrote_state empty_db 31337 ?b demo_state db" using demo_wrote by blast
  have "length (ib_hash ?b) = 32" by simp
  from risk_sees_projected_state [OF db demo_state_wf this] db show ?thesis by (auto simp: snapshot_of_def)
qed

end
