(* ===== verification/Rpc_Client.thy ===== *)
theory Rpc_Client
  imports Rpc_Types Effects Json "HOL-Library.Char_ord"
begin

text \<open>
  \<open>RpcClient.cpp\<close> and \<open>RpcEndpoints.cpp\<close> of \<open>cpp/common\<close>: endpoint lists, the JSON-RPC call, the
  encoding of requests and the strict parsing of answers. The network is the argument \<open>rk_node\<close>: what
  the node sends back for the n-th request of a client, either no answer (the text of the
  \<open>system_error\<close>) or an HTTP status with its body, parsed by the JSON library (\<open>None\<close> when the library
  rejects the text). The request counter of the client is the state.
\<close>

section \<open>Endpoints\<close>

definition is_space :: "char \<Rightarrow> bool" where
  "is_space c \<longleftrightarrow> (let n = (of_char c :: nat) in n = 32 \<or> 9 \<le> n \<and> n \<le> 13)"

definition is_digit :: "char \<Rightarrow> bool" where
  "is_digit c \<longleftrightarrow> (let n = (of_char c :: nat) in 48 \<le> n \<and> n \<le> 57)"

definition Trim :: "string \<Rightarrow> string" where
  "Trim value = rev (dropWhile is_space (rev (dropWhile is_space value)))"

text \<open>One round per separator; the text after the last one is the last endpoint.\<close>

function ParseRpcEndpoints :: "string \<Rightarrow> string list" where
  "ParseRpcEndpoints endpoints =
     (if endpoints = [] then []
      else let endpoint = Trim (takeWhile (\<lambda>c. c \<noteq> CHR '','') endpoints);
               found = (if endpoint \<noteq> [] then [endpoint] else [])
           in case dropWhile (\<lambda>c. c \<noteq> CHR '','') endpoints of
                [] \<Rightarrow> found
              | _ # rest \<Rightarrow> found @ ParseRpcEndpoints rest)"
  by pat_completeness auto
termination
proof (relation "measure length", simp)
  fix endpoints :: string and endpoint found c rest
  assume "dropWhile (\<lambda>c. c \<noteq> CHR '','') endpoints = c # rest"
  then have "length (c # rest) \<le> length endpoints" by (metis length_dropWhile_le)
  then show "(rest, endpoints) \<in> measure length" by simp
qed

definition MergeRpcEndpoints :: "string \<Rightarrow> string list \<Rightarrow> string list" where
  "MergeRpcEndpoints primary additional =
     foldl (\<lambda>result endpoint. if endpoint \<in> set result then result else result @ [endpoint]) [primary] additional"

record ParsedEndpoint =
  pe_host :: string
  pe_port :: string
  pe_target :: string

definition invalid_endpoint :: "string \<Rightarrow> exn" where
  "invalid_endpoint message = Rpc_Exception InvalidEndpoint message"

definition ParseEndpoint :: "string \<Rightarrow> ParsedEndpoint res" where
  "ParseEndpoint endpoint =
     (if take 7 endpoint \<noteq> ''http://'' then Inl (invalid_endpoint ''RPC endpoint must use http://'')
      else
        let endpoint = drop 7 endpoint;
            authority = takeWhile (\<lambda>c. c \<noteq> CHR ''/'') endpoint;
            path = dropWhile (\<lambda>c. c \<noteq> CHR ''/'') endpoint;
            target = (if path = [] then ''/'' else path)
        in if authority = [] then Inl (invalid_endpoint ''RPC endpoint host is empty'')
           else
             let last = rev (takeWhile (\<lambda>c. c \<noteq> CHR '':'') (rev authority));
                 hasPort = CHR '':'' \<in> set authority;
                 host = (if hasPort then take (length authority - length last - 1) authority else authority);
                 port = (if hasPort then last else ''80'')
             in if host = [] \<or> port = [] \<or> \<not> list_all is_digit port
                then Inl (invalid_endpoint ''RPC endpoint host or port is invalid'')
                else Inr \<lparr>pe_host = host, pe_port = port, pe_target = target\<rparr>)"

section \<open>Parsing answers\<close>

text \<open>\<open>what()\<close>: the message of an exception; the texts of library exceptions are an argument.\<close>

fun exn_what :: "(exn \<Rightarrow> string) \<Rightarrow> exn \<Rightarrow> string" where
  "exn_what lib (Invalid_Argument m) = m"
| "exn_what lib (Overflow_Error m) = m"
| "exn_what lib (Domain_Error m) = m"
| "exn_what lib (Runtime_Error m) = m"
| "exn_what lib (Rpc_Exception k m) = m"
| "exn_what lib e = lib e"

definition invalid_response :: "string \<Rightarrow> exn" where
  "invalid_response message = Rpc_Exception InvalidResponse message"

text \<open>\<open>catch(const RpcException&) { throw; } catch(const std::exception&) { throw RpcException(...); }\<close>\<close>

definition rewrap :: "(exn \<Rightarrow> string) \<Rightarrow> string \<Rightarrow> 'a res \<Rightarrow> 'a res" where
  "rewrap lib prefix r =
     (case r of
        Inl (Rpc_Exception k m) \<Rightarrow> Inl (Rpc_Exception k m)
      | Inl e \<Rightarrow> Inl (invalid_response (prefix @ exn_what lib e))
      | Inr x \<Rightarrow> Inr x)"

definition RequireString :: "json \<Rightarrow> string \<Rightarrow> string res" where
  "RequireString object field =
     (case json_find field object of
        Some (J_Str s) \<Rightarrow> Inr s
      | _ \<Rightarrow> Inl (invalid_response (''RPC response field is missing or has the wrong type: '' @ field)))"

definition ParseQuantity :: "(exn \<Rightarrow> string) \<Rightarrow> json \<Rightarrow> string \<Rightarrow> uint256 res" where
  "ParseQuantity lib object field =
     rewrap lib (''invalid Ethereum quantity in field '' @ field @ '': '')
       (bind_res (RequireString object field) FromHex)"

definition rpc_ParseHash :: "(exn \<Rightarrow> string) \<Rightarrow> json \<Rightarrow> string \<Rightarrow> hash256 res" where
  "rpc_ParseHash lib object field =
     rewrap lib (''invalid Ethereum hash in field '' @ field @ '': '')
       (bind_res (RequireString object field)
         (ParseHash (Invalid_Argument ''hash must contain exactly 32 bytes'')))"

definition ParseAddress :: "(exn \<Rightarrow> string) \<Rightarrow> json \<Rightarrow> string \<Rightarrow> address res" where
  "ParseAddress lib object field =
     rewrap lib (''invalid Ethereum address in field '' @ field @ '': '')
       (bind_res (RequireString object field) Address_FromHex)"

text \<open>The keys of an object literal stand in the order of the library's map.\<close>

definition EncodeCall :: "TransactionCall \<Rightarrow> json" where
  "EncodeCall call =
     J_Obj ([(''data'', J_Str (Hex_Encode (ca_data call) True))] @
       (case ca_from call of Some a \<Rightarrow> [(''from'', J_Str (Address_ToHex a True))] | None \<Rightarrow> []) @
       [(''to'', J_Str (Address_ToHex (ca_to call) True))] @
       (if \<not> IsZero (ca_value call) then [(''value'', J_Str (ToQuantity (ca_value call)))] else []))"

definition ParseBytesResult :: "(exn \<Rightarrow> string) \<Rightarrow> json \<Rightarrow> string \<Rightarrow> bytes res" where
  "ParseBytesResult lib result method =
     (case result of
        J_Str s \<Rightarrow>
          (case Hex_Decode s of
             Inl e \<Rightarrow> Inl (invalid_response (method @ '' returned invalid hex data: '' @ exn_what lib e))
           | Inr bs \<Rightarrow> Inr bs)
      | _ \<Rightarrow> Inl (invalid_response (method @ '' result is not a hex string'')))"

section \<open>The call\<close>

datatype http_answer = No_Answer string | Http_Response nat "json option"

record RpcClient =
  rk_endpoint :: ParsedEndpoint
  rk_timeout :: int
  rk_node :: "ParsedEndpoint \<Rightarrow> nat \<Rightarrow> json \<Rightarrow> http_answer"
  rk_what :: "exn \<Rightarrow> string"
  rk_observer :: bool

definition RpcClient_new ::
  "(ParsedEndpoint \<Rightarrow> nat \<Rightarrow> json \<Rightarrow> http_answer) \<Rightarrow> (exn \<Rightarrow> string) \<Rightarrow> bool \<Rightarrow> string \<Rightarrow> int \<Rightarrow> RpcClient res" where
  "RpcClient_new node lib observer endpoint timeout =
     bind_res (ParseEndpoint endpoint) (\<lambda>parsed.
     if timeout \<le> 0 then Inl (invalid_endpoint ''RPC timeout must be positive'')
     else Inr \<lparr>rk_endpoint = parsed, rk_timeout = timeout, rk_node = node, rk_what = lib, rk_observer = observer\<rparr>)"

definition request_payload :: "uint64 \<Rightarrow> string \<Rightarrow> json \<Rightarrow> json" where
  "request_payload requestId method rpcParameters =
     J_Obj [(''id'', J_Num (unat requestId)), (''jsonrpc'', J_Str ''2.0''), (''method'', J_Str method),
            (''params'', rpcParameters)]"

definition check_answer :: "uint64 \<Rightarrow> json \<Rightarrow> json res" where
  "check_answer requestId decoded =
     bind_res (json_value decoded ''jsonrpc'' []) (\<lambda>version.
     if version \<noteq> ''2.0'' then Inl (Rpc_Exception Protocol ''RPC response has an invalid JSON-RPC version'')
     else if \<not> (case json_find ''id'' decoded of Some i \<Rightarrow> json_is_number i (unat requestId) | None \<Rightarrow> False)
     then Inl (Rpc_Exception Protocol ''RPC response ID does not match the request'')
     else
       bind_res (case json_find ''error'' decoded of
                   None \<Rightarrow> Inr ()
                 | Some J_Null \<Rightarrow> Inr ()
                 | Some error \<Rightarrow>
                     bind_res (json_value error ''message'' ''unknown RPC error'') (\<lambda>message.
                     Inl (Rpc_Exception Remote message))) (\<lambda>_.
       case json_find ''result'' decoded of
         None \<Rightarrow> Inl (invalid_response ''RPC response does not contain a result'')
       | Some result \<Rightarrow> Inr result))"

definition read_answer :: "RpcClient \<Rightarrow> uint64 \<Rightarrow> http_answer \<Rightarrow> json res" where
  "read_answer client requestId answer =
     (case answer of
        No_Answer message \<Rightarrow> Inl (Rpc_Exception Transport (''RPC transport failed: '' @ message))
      | Http_Response status body \<Rightarrow>
          if status \<noteq> 200
          then Inl (Rpc_Exception Http (''RPC HTTP request failed with status '' @ show_nat status))
          else case body of
            None \<Rightarrow> Inl (invalid_response ''RPC response is not a JSON object'')
          | Some decoded \<Rightarrow>
              if \<not> is_object decoded then Inl (invalid_response ''RPC response is not a JSON object'')
              else rewrap (rk_what client) ''RPC JSON handling failed: '' (check_answer requestId decoded))"

definition Call :: "RpcClient \<Rightarrow> string \<Rightarrow> json \<Rightarrow> (nat, json) prog" where
  "Call client method rpcParameters n =
     (let requestId = (of_nat n :: uint64) in
      (read_answer client requestId
         (rk_node client (rk_endpoint client) n (request_payload requestId method rpcParameters)), Suc n))"

section \<open>The methods\<close>

definition call_quantity :: "RpcClient \<Rightarrow> string \<Rightarrow> json \<Rightarrow> (nat, uint256) prog" where
  "call_quantity client method rpcParameters =
     bindp (Call client method rpcParameters) (\<lambda>result.
     liftp (ParseQuantity (rk_what client) (J_Obj [(''result'', result)]) ''result''))"

definition rpc_GetChainId :: "RpcClient \<Rightarrow> (nat, uint256) prog" where
  "rpc_GetChainId client = call_quantity client ''eth_chainId'' (J_Arr [])"

definition rpc_GetBlockNumber :: "RpcClient \<Rightarrow> (nat, uint256) prog" where
  "rpc_GetBlockNumber client =
     bindp (call_quantity client ''eth_blockNumber'' (J_Arr [])) (\<lambda>blockNumber.
     bindp (if rk_observer client then bindp (liftp (ToUint64 blockNumber)) (\<lambda>_. ret ()) else ret ()) (\<lambda>_.
     ret blockNumber))"

definition ParseHeader :: "(exn \<Rightarrow> string) \<Rightarrow> json \<Rightarrow> BlockHeader option res" where
  "ParseHeader lib result =
     (if result = J_Null then Inr None
      else if \<not> is_object result then Inl (invalid_response ''eth_getBlockByNumber result is not an object'')
      else
        bind_res (ParseQuantity lib result ''number'') (\<lambda>number.
        bind_res (rpc_ParseHash lib result ''hash'') (\<lambda>hash.
        bind_res (rpc_ParseHash lib result ''parentHash'') (\<lambda>parentHash.
        bind_res (ParseQuantity lib result ''timestamp'') (\<lambda>timestamp.
        bind_res (if json_find ''baseFeePerGas'' result \<notin> {None, Some J_Null}
                  then map_result Some (ParseQuantity lib result ''baseFeePerGas'') else Inr None) (\<lambda>fee.
        Inr (Some \<lparr>bh_number = number, bh_hash = hash, bh_parentHash = parentHash, bh_timestamp = timestamp,
                   bh_baseFeePerGas = fee\<rparr>)))))))"

definition rpc_GetBlockByNumber :: "RpcClient \<Rightarrow> uint256 \<Rightarrow> (nat, BlockHeader option) prog" where
  "rpc_GetBlockByNumber client number =
     bindp (Call client ''eth_getBlockByNumber'' (J_Arr [J_Str (ToQuantity number), J_Bool False])) (\<lambda>result.
     liftp (ParseHeader (rk_what client) result))"

record LogFilter =
  lf_fromBlock :: "uint256 option"
  lf_toBlock :: "uint256 option"
  lf_address :: "address option"
  lf_topics :: "hash256 option list"

definition EncodeFilter :: "LogFilter \<Rightarrow> json" where
  "EncodeFilter logFilter =
     J_Obj ((case lf_address logFilter of Some a \<Rightarrow> [(''address'', J_Str (Address_ToHex a True))] | None \<Rightarrow> []) @
       (case lf_fromBlock logFilter of Some n \<Rightarrow> [(''fromBlock'', J_Str (ToQuantity n))] | None \<Rightarrow> []) @
       (case lf_toBlock logFilter of Some n \<Rightarrow> [(''toBlock'', J_Str (ToQuantity n))] | None \<Rightarrow> []) @
       (if lf_topics logFilter \<noteq> []
        then [(''topics'', J_Arr (map (\<lambda>t. case t of Some h \<Rightarrow> J_Str (Hex_Encode h True) | None \<Rightarrow> J_Null) (lf_topics logFilter)))]
        else []))"

definition ParseLog :: "(exn \<Rightarrow> string) \<Rightarrow> json \<Rightarrow> RpcLog res" where
  "ParseLog lib encodedLog =
     (if \<not> is_object encodedLog then Inl (invalid_response ''eth_getLogs returned a non-object entry'')
      else case json_find ''topics'' encodedLog of
        Some (J_Arr encodedTopics) \<Rightarrow>
          bind_res (map_res (\<lambda>topic. rpc_ParseHash lib (J_Obj [(''topic'', topic)]) ''topic'') encodedTopics) (\<lambda>topics.
          bind_res (rewrap lib ''invalid RPC log data: ''
                      (bind_res (RequireString encodedLog ''data'') Hex_Decode)) (\<lambda>data.
          case json_find ''removed'' encodedLog of
            Some (J_Bool removed) \<Rightarrow>
              bind_res (ParseAddress lib encodedLog ''address'') (\<lambda>addr.
              bind_res (ParseQuantity lib encodedLog ''blockNumber'') (\<lambda>blockNumber.
              bind_res (rpc_ParseHash lib encodedLog ''blockHash'') (\<lambda>blockHash.
              bind_res (rpc_ParseHash lib encodedLog ''transactionHash'') (\<lambda>transactionHash.
              bind_res (ParseQuantity lib encodedLog ''transactionIndex'') (\<lambda>transactionIndex.
              bind_res (ParseQuantity lib encodedLog ''logIndex'') (\<lambda>logIndex.
              Inr \<lparr>rp_address = addr, rp_topics = topics, rp_data = data, rp_blockNumber = blockNumber,
                   rp_transactionHash = transactionHash, rp_transactionIndex = transactionIndex,
                   rp_blockHash = blockHash, rp_logIndex = logIndex, rp_removed = removed\<rparr>))))))
          | _ \<Rightarrow> Inl (invalid_response ''RPC log removed flag is missing or invalid'')))
      | _ \<Rightarrow> Inl (invalid_response ''RPC log topics are missing or invalid''))"

definition ParseLogs :: "(exn \<Rightarrow> string) \<Rightarrow> json \<Rightarrow> RpcLog list res" where
  "ParseLogs lib result =
     (case result of
        J_Arr entries \<Rightarrow> map_res (ParseLog lib) entries
      | _ \<Rightarrow> Inl (invalid_response ''eth_getLogs result is not an array''))"

definition rpc_GetLogs :: "RpcClient \<Rightarrow> LogFilter \<Rightarrow> (nat, RpcLog list) prog" where
  "rpc_GetLogs client logFilter =
     bindp (Call client ''eth_getLogs'' (J_Arr [EncodeFilter logFilter])) (\<lambda>result.
     liftp (ParseLogs (rk_what client) result))"

definition rpc_EthCall :: "RpcClient \<Rightarrow> TransactionCall \<Rightarrow> string \<Rightarrow> (nat, bytes) prog" where
  "rpc_EthCall client call block =
     bindp (Call client ''eth_call'' (J_Arr [EncodeCall call, J_Str block])) (\<lambda>result.
     liftp (ParseBytesResult (rk_what client) result ''eth_call''))"

definition rpc_EstimateGas :: "RpcClient \<Rightarrow> TransactionCall \<Rightarrow> (nat, uint256) prog" where
  "rpc_EstimateGas client call = call_quantity client ''eth_estimateGas'' (J_Arr [EncodeCall call])"

definition rpc_GetTransactionCount :: "RpcClient \<Rightarrow> address \<Rightarrow> string \<Rightarrow> (nat, uint256) prog" where
  "rpc_GetTransactionCount client addr block =
     call_quantity client ''eth_getTransactionCount'' (J_Arr [J_Str (Address_ToHex addr True), J_Str block])"

definition rpc_GetMaxPriorityFeePerGas :: "RpcClient \<Rightarrow> (nat, uint256) prog" where
  "rpc_GetMaxPriorityFeePerGas client = call_quantity client ''eth_maxPriorityFeePerGas'' (J_Arr [])"

definition rpc_SendRawTransaction :: "RpcClient \<Rightarrow> bytes \<Rightarrow> (nat, hash256) prog" where
  "rpc_SendRawTransaction client rawTransaction =
     bindp (Call client ''eth_sendRawTransaction'' (J_Arr [J_Str (Hex_Encode rawTransaction True)])) (\<lambda>result.
     liftp (rpc_ParseHash (rk_what client) (J_Obj [(''result'', result)]) ''result''))"

definition ParseReceipt :: "(exn \<Rightarrow> string) \<Rightarrow> json \<Rightarrow> TransactionReceipt option res" where
  "ParseReceipt lib result =
     (if result = J_Null then Inr None
      else if \<not> is_object result then Inl (invalid_response ''eth_getTransactionReceipt result is not an object'')
      else
        bind_res (rpc_ParseHash lib result ''transactionHash'') (\<lambda>transactionHash.
        bind_res (ParseQuantity lib result ''blockNumber'') (\<lambda>blockNumber.
        bind_res (rpc_ParseHash lib result ''blockHash'') (\<lambda>blockHash.
        bind_res (ParseQuantity lib result ''status'') (\<lambda>status.
        bind_res (ParseQuantity lib result ''gasUsed'') (\<lambda>gasUsed.
        bind_res (ParseQuantity lib result ''effectiveGasPrice'') (\<lambda>price.
        Inr (Some \<lparr>rc_transactionHash = transactionHash, rc_blockNumber = blockNumber, rc_blockHash = blockHash,
                   rc_succeeded = (\<not> IsZero status), rc_gasUsed = gasUsed, rc_effectiveGasPrice = price\<rparr>))))))))"

definition rpc_GetTransactionReceipt :: "RpcClient \<Rightarrow> hash256 \<Rightarrow> (nat, TransactionReceipt option) prog" where
  "rpc_GetTransactionReceipt client transactionHash =
     bindp (Call client ''eth_getTransactionReceipt'' (J_Arr [J_Str (Hex_Encode transactionHash True)])) (\<lambda>result.
     liftp (ParseReceipt (rk_what client) result))"

end
