(* ===== verification/Failover.thy ===== *)
theory Failover
  imports Rpc_Client Tx_Store State_Projector
begin

text \<open>
  \<open>cpp/tx-manager/src/TransactionRpc.cpp\<close> and \<open>cpp/indexer/src/RpcChainClient.cpp\<close>: one logical client
  over several RPC endpoints. Both go through the endpoints in a ring, starting from the active one,
  and take the first that passes their validation and answers; the transaction client also
  broadcasts to all. The request counters of the endpoints, the validation marks, the chain id, the
  checkpoint and the active index are the state.
\<close>

section \<open>Trying endpoints in turn\<close>

text \<open>\<open>std::rethrow_exception\<close> of the last failure; of a null pointer it is undefined.\<close>

definition rethrow :: "exn option \<Rightarrow> ('s, 'a) prog" where
  "rethrow lastFailure = raise (case lastFailure of Some e \<Rightarrow> e | None \<Rightarrow> Null_Dereference)"

fun failover :: "(nat \<Rightarrow> ('s, 'a) prog) \<Rightarrow> nat list \<Rightarrow> exn option \<Rightarrow> ('s, 'a) prog" where
  "failover attempt [] lastFailure = rethrow lastFailure"
| "failover attempt (index # rest) lastFailure = catchp (attempt index) (\<lambda>e. failover attempt rest (Some e))"

definition ring :: "nat \<Rightarrow> nat \<Rightarrow> nat list" where
  "ring start n = map (\<lambda>offset. (start + offset) mod n) [0..<n]"

section \<open>The client of the transaction manager\<close>

record TxRpcState =
  rs_requests :: "nat list"
  rs_validated :: "bool list"
  rs_chainId :: "uint256 option"
  rs_activeIndex :: nat

definition on_endpoint :: "RpcClient list \<Rightarrow> nat \<Rightarrow> (RpcClient \<Rightarrow> (nat, 'a) prog) \<Rightarrow> (TxRpcState, 'a) prog" where
  "on_endpoint endpoints index operation s =
     (case operation (endpoints ! index) (rs_requests s ! index) of
        (r, n) \<Rightarrow> (r, s\<lparr>rs_requests := (rs_requests s)[index := n]\<rparr>))"

definition RpcTransactionClient_new ::
  "(string \<Rightarrow> RpcClient res) \<Rightarrow> string \<Rightarrow> string list \<Rightarrow> (RpcClient list \<times> TxRpcState) res" where
  "RpcTransactionClient_new newClient primaryEndpoint additionalEndpoints =
     bind_res (map_res newClient (primaryEndpoint # additionalEndpoints)) (\<lambda>endpoints.
     Inr (endpoints, \<lparr>rs_requests = replicate (length endpoints) 1, rs_validated = replicate (length endpoints) False,
                      rs_chainId = None, rs_activeIndex = 0\<rparr>))"

definition Validate :: "RpcClient list \<Rightarrow> nat \<Rightarrow> (TxRpcState, unit) prog" where
  "Validate endpoints index =
     bindp (query Inr) (\<lambda>s.
     if rs_validated s ! index then ret ()
     else
       bindp (on_endpoint endpoints index rpc_GetChainId) (\<lambda>chainId.
       bindp (case rs_chainId s of
                None \<Rightarrow> modify (\<lambda>s. s\<lparr>rs_chainId := Some chainId\<rparr>)
              | Some known \<Rightarrow>
                  if chainId \<noteq> known
                  then raise (Runtime_Error ''transaction RPC endpoint belongs to a different chain'') else ret ()) (\<lambda>_.
       modify (\<lambda>s. s\<lparr>rs_validated := (rs_validated s)[index := True]\<rparr>))))"

definition execute_attempt :: "RpcClient list \<Rightarrow> (RpcClient \<Rightarrow> (nat, 'a) prog) \<Rightarrow> nat \<Rightarrow> (TxRpcState, 'a) prog" where
  "execute_attempt endpoints operation index =
     bindp (Validate endpoints index) (\<lambda>_.
     bindp (on_endpoint endpoints index operation) (\<lambda>result.
     bindp (modify (\<lambda>s. s\<lparr>rs_activeIndex := index\<rparr>)) (\<lambda>_.
     ret result)))"

definition ExecuteFrom :: "RpcClient list \<Rightarrow> nat \<Rightarrow> (RpcClient \<Rightarrow> (nat, 'a) prog) \<Rightarrow> (TxRpcState, 'a) prog" where
  "ExecuteFrom endpoints start operation =
     failover (execute_attempt endpoints operation) (ring start (length endpoints)) None"

definition Execute :: "RpcClient list \<Rightarrow> (RpcClient \<Rightarrow> (nat, 'a) prog) \<Rightarrow> (TxRpcState, 'a) prog" where
  "Execute endpoints operation =
     bindp (query (\<lambda>s. Inr (rs_activeIndex s))) (\<lambda>start. ExecuteFrom endpoints start operation)"

definition ExecutePrimary :: "RpcClient list \<Rightarrow> (RpcClient \<Rightarrow> (nat, 'a) prog) \<Rightarrow> (TxRpcState, 'a) prog" where
  "ExecutePrimary endpoints operation = ExecuteFrom endpoints 0 operation"

text \<open>The body of the broadcast loop, with the exception it catches as a value.\<close>

definition tryp :: "('s, 'a) prog \<Rightarrow> ('s, 'a res) prog" where
  "tryp m s = (case m s of (r, s') \<Rightarrow> (Inr r, s'))"

definition send_attempt :: "RpcClient list \<Rightarrow> bytes \<Rightarrow> nat \<Rightarrow> (TxRpcState, hash256) prog" where
  "send_attempt endpoints rawTransaction index =
     bindp (Validate endpoints index) (\<lambda>_.
     on_endpoint endpoints index (\<lambda>client. rpc_SendRawTransaction client rawTransaction))"

fun broadcast_loop ::
  "RpcClient list \<Rightarrow> bytes \<Rightarrow> nat list \<Rightarrow> hash256 option \<Rightarrow> exn option \<Rightarrow> (TxRpcState, hash256) prog" where
  "broadcast_loop endpoints rawTransaction [] transactionHash lastFailure =
     (case transactionHash of Some h \<Rightarrow> ret h | None \<Rightarrow> rethrow lastFailure)"
| "broadcast_loop endpoints rawTransaction (index # rest) transactionHash lastFailure =
     bindp (tryp (send_attempt endpoints rawTransaction index)) (\<lambda>r.
     case r of
       Inr submittedHash \<Rightarrow>
         broadcast_loop endpoints rawTransaction rest
           (if transactionHash = None then Some submittedHash else transactionHash) lastFailure
     | Inl e \<Rightarrow> broadcast_loop endpoints rawTransaction rest transactionHash (Some e))"

definition Broadcast :: "RpcClient list \<Rightarrow> bytes \<Rightarrow> (TxRpcState, hash256) prog" where
  "Broadcast endpoints rawTransaction =
     broadcast_loop endpoints rawTransaction [0..<length endpoints] None None"

definition fee_quote :: "RpcClient \<Rightarrow> (nat, FeeQuote) prog" where
  "fee_quote client =
     bindp (rpc_GetBlockNumber client) (\<lambda>head.
     bindp (rpc_GetBlockByNumber client head) (\<lambda>block.
     case (case block of Some b \<Rightarrow> bh_baseFeePerGas b | None \<Rightarrow> None) of
       None \<Rightarrow> raise (Runtime_Error ''latest block does not contain an EIP-1559 base fee'')
     | Some baseFee \<Rightarrow>
         bindp (rpc_GetMaxPriorityFeePerGas client) (\<lambda>priorityFee.
         bindp (liftp (u256_mul baseFee 2)) (\<lambda>twice.
         bindp (liftp (u256_add twice priorityFee)) (\<lambda>fee.
         ret \<lparr>fq_maxPriorityFeePerGas = priorityFee, fq_maxFeePerGas = fee\<rparr>)))))"

definition tx_GetChainId :: "RpcClient list \<Rightarrow> (TxRpcState, uint256) prog" where
  "tx_GetChainId endpoints = Execute endpoints rpc_GetChainId"

definition block_number_64 :: "RpcClient \<Rightarrow> (nat, uint64) prog" where
  "block_number_64 client = bindp (rpc_GetBlockNumber client) (\<lambda>n. liftp (ToUint64 n))"

definition tx_GetBlockNumber :: "RpcClient list \<Rightarrow> (TxRpcState, uint64) prog" where
  "tx_GetBlockNumber endpoints = Execute endpoints block_number_64"

definition tx_GetBlock :: "RpcClient list \<Rightarrow> uint64 \<Rightarrow> (TxRpcState, BlockHeader option) prog" where
  "tx_GetBlock endpoints number = Execute endpoints (\<lambda>client. rpc_GetBlockByNumber client (Uint256_of number))"

definition tx_GetPendingNonce :: "RpcClient list \<Rightarrow> address \<Rightarrow> (TxRpcState, uint256) prog" where
  "tx_GetPendingNonce endpoints wallet =
     ExecutePrimary endpoints (\<lambda>client. rpc_GetTransactionCount client wallet ''pending'')"

definition tx_EstimateGas :: "RpcClient list \<Rightarrow> TransactionCall \<Rightarrow> (TxRpcState, uint256) prog" where
  "tx_EstimateGas endpoints call = Execute endpoints (\<lambda>client. rpc_EstimateGas client call)"

definition tx_GetFeeQuote :: "RpcClient list \<Rightarrow> (TxRpcState, FeeQuote) prog" where
  "tx_GetFeeQuote endpoints = Execute endpoints fee_quote"

definition tx_SendRawTransaction :: "RpcClient list \<Rightarrow> bytes \<Rightarrow> (TxRpcState, hash256) prog" where
  "tx_SendRawTransaction endpoints rawTransaction = Broadcast endpoints rawTransaction"

definition tx_GetReceipt :: "RpcClient list \<Rightarrow> hash256 \<Rightarrow> (TxRpcState, TransactionReceipt option) prog" where
  "tx_GetReceipt endpoints transactionHash =
     Execute endpoints (\<lambda>client. rpc_GetTransactionReceipt client transactionHash)"

section \<open>The client of the indexer\<close>

record ChainRpc =
  cn_clients :: "RpcClient list"
  cn_contracts :: ChainContracts

record ChainRpcState =
  cs_requests :: "nat list"
  cs_activeIndex :: nat
  cs_chainId :: "uint256 option"
  cs_checkpoint :: "BlockHeader option"

definition on_client :: "ChainRpc \<Rightarrow> nat \<Rightarrow> (RpcClient \<Rightarrow> (nat, 'a) prog) \<Rightarrow> (ChainRpcState, 'a) prog" where
  "on_client chain index operation s =
     (case operation (cn_clients chain ! index) (cs_requests s ! index) of
        (r, n) \<Rightarrow> (r, s\<lparr>cs_requests := (cs_requests s)[index := n]\<rparr>))"

definition RpcChainClient_new ::
  "(string \<Rightarrow> RpcClient res) \<Rightarrow> string list \<Rightarrow> ChainContracts \<Rightarrow> (ChainRpc \<times> ChainRpcState) res" where
  "RpcChainClient_new newClient endpoints contracts =
     (if endpoints = [] then Inl (Invalid_Argument ''indexer requires at least one RPC endpoint'')
      else bind_res (map_res newClient endpoints) (\<lambda>clients.
           Inr (\<lparr>cn_clients = clients, cn_contracts = contracts\<rparr>,
                \<lparr>cs_requests = replicate (length clients) 1, cs_activeIndex = 0, cs_chainId = None, cs_checkpoint = None\<rparr>)))"

definition check_checkpoint :: "ChainRpc \<Rightarrow> nat \<Rightarrow> (ChainRpcState, unit) prog" where
  "check_checkpoint chain index =
     bindp (query Inr) (\<lambda>s.
     case cs_checkpoint s of
       None \<Rightarrow> ret ()
     | Some checkpoint \<Rightarrow>
         if index = cs_activeIndex s then ret ()
         else
           bindp (on_client chain index (\<lambda>client. rpc_GetBlockByNumber client (bh_number checkpoint))) (\<lambda>candidateBlock.
           if map_option bh_hash candidateBlock \<noteq> Some (bh_hash checkpoint)
           then raise (Runtime_Error ''RPC failover candidate has a different canonical block'') else ret ()))"

definition ValidateCandidate :: "ChainRpc \<Rightarrow> nat \<Rightarrow> (ChainRpcState, unit) prog" where
  "ValidateCandidate chain index =
     bindp (query Inr) (\<lambda>s.
     if index = cs_activeIndex s \<and> cs_chainId s \<noteq> None then ret ()
     else
       bindp (on_client chain index rpc_GetChainId) (\<lambda>candidateChainId.
       bindp (case cs_chainId s of
                None \<Rightarrow> modify (\<lambda>s. s\<lparr>cs_chainId := Some candidateChainId\<rparr>)
              | Some known \<Rightarrow>
                  if candidateChainId \<noteq> known
                  then raise (Runtime_Error ''RPC failover candidate belongs to a different chain'') else ret ()) (\<lambda>_.
       check_checkpoint chain index)))"

definition chain_attempt :: "ChainRpc \<Rightarrow> (RpcClient \<Rightarrow> (nat, 'a) prog) \<Rightarrow> nat \<Rightarrow> (ChainRpcState, 'a) prog" where
  "chain_attempt chain operation index =
     bindp (ValidateCandidate chain index) (\<lambda>_.
     bindp (on_client chain index operation) (\<lambda>result.
     bindp (modify (\<lambda>s. s\<lparr>cs_activeIndex := index\<rparr>)) (\<lambda>_.
     ret result)))"

definition chain_Execute :: "ChainRpc \<Rightarrow> (RpcClient \<Rightarrow> (nat, 'a) prog) \<Rightarrow> (ChainRpcState, 'a) prog" where
  "chain_Execute chain operation =
     bindp (query (\<lambda>s. Inr (cs_activeIndex s))) (\<lambda>start.
     failover (chain_attempt chain operation) (ring start (length (cn_clients chain))) None)"

definition UpdateCheckpoint :: "BlockHeader option \<Rightarrow> (ChainRpcState, unit) prog" where
  "UpdateCheckpoint block =
     modify (\<lambda>s. case block of Some b \<Rightarrow> s\<lparr>cs_checkpoint := Some b\<rparr> | None \<Rightarrow> s)"

definition chain_GetChainId :: "ChainRpc \<Rightarrow> (ChainRpcState, uint256) prog" where
  "chain_GetChainId chain = chain_Execute chain rpc_GetChainId"

definition chain_GetBlockNumber :: "ChainRpc \<Rightarrow> (ChainRpcState, uint64) prog" where
  "chain_GetBlockNumber chain = chain_Execute chain block_number_64"

definition chain_GetBlockByNumber :: "ChainRpc \<Rightarrow> uint64 \<Rightarrow> (ChainRpcState, BlockHeader option) prog" where
  "chain_GetBlockByNumber chain number =
     bindp (chain_Execute chain (\<lambda>client. rpc_GetBlockByNumber client (Uint256_of number))) (\<lambda>block.
     bindp (UpdateCheckpoint block) (\<lambda>_.
     ret block))"

definition logs_of :: "uint256 \<Rightarrow> address \<Rightarrow> RpcClient \<Rightarrow> (nat, RpcLog list) prog" where
  "logs_of number addr client =
     rpc_GetLogs client \<lparr>lf_fromBlock = Some number, lf_toBlock = Some number, lf_address = Some addr, lf_topics = []\<rparr>"

definition chain_logs :: "ChainContracts \<Rightarrow> uint256 \<Rightarrow> RpcClient \<Rightarrow> (nat, RpcLog list) prog" where
  "chain_logs contracts number client =
     bindp (logs_of number (cc_pool contracts) client) (\<lambda>logs.
     bindp (logs_of number (cc_oracle contracts) client) (\<lambda>oracleLogs.
     ret (logs @ oracleLogs)))"

text \<open>Log indices are unique in a block; logs of equal index keep their order here, which \<open>std::sort\<close>
  leaves open.\<close>

definition chain_GetLogs :: "ChainRpc \<Rightarrow> uint64 \<Rightarrow> (ChainRpcState, RpcLog list) prog" where
  "chain_GetLogs chain blockNumber =
     bindp (chain_Execute chain (chain_logs (cn_contracts chain) (Uint256_of blockNumber))) (\<lambda>result.
     ret (sort_key rp_logIndex result))"

end
