(* ===== verification/Api_Server.thy ===== *)
theory Api_Server
  imports Risk_Worker Failover
begin

text \<open>
  The read API (\<open>cpp/api-server/src\<close>): \<open>ApiStore.cpp\<close>, \<open>ApiChain.cpp\<close>, \<open>ApiService.cpp\<close> and the request
  handling of \<open>HttpServer.cpp\<close>. Each read of the database is a transaction of its own, so it may find
  another state than the read before: \<open>as_db sv n\<close> is the database at the n-th read. The body of a
  response is the JSON value whose text is sent. Parsing the text of a request body is a parameter, as
  is the clock. Sockets, threads and the log line of a failed request are left out.
\<close>

section \<open>The store\<close>

record LiquidationRecord =
  lz_blockNumber :: uint64
  lz_transactionHash :: hash256
  lz_liquidator :: address
  lz_borrower :: address
  lz_repaidAmount :: uint256
  lz_collateralSeized :: uint256

record ProtocolStats =
  st_positionCount :: uint64
  st_liquidationCount :: uint64
  st_totalWethCollateral :: uint256
  st_totalScaledUsdcDebt :: uint256
  st_availableUsdcLiquidity :: uint256
  st_protocolReserve :: uint256
  st_badDebt :: uint256

definition api_ParseHash :: "string \<Rightarrow> hash256 res" where
  "api_ParseHash value = ParseHash (Invalid_Argument ''database transaction hash must contain 32 bytes'') value"

definition ParseRecord :: "LiquidationRow \<Rightarrow> LiquidationRecord res" where
  "ParseRecord r =
     bind_res (api_ParseHash (lw_tx_hash r)) (\<lambda>transactionHash.
     bind_res (Address_FromHex (lw_liquidator r)) (\<lambda>liquidator.
     bind_res (Address_FromHex (lw_borrower r)) (\<lambda>borrower.
     bind_res (FromDecimal (lw_repaid r)) (\<lambda>repaid.
     bind_res (FromDecimal (lw_seized r)) (\<lambda>seized.
     Inr \<lparr>lz_blockNumber = of_nat (lw_number r), lz_transactionHash = transactionHash, lz_liquidator = liquidator,
          lz_borrower = borrower, lz_repaidAmount = repaid, lz_collateralSeized = seized\<rparr>)))))"

text \<open>Rows with the same block number and log index have no order among themselves.\<close>

definition LoadLiquidations :: "IndexerDb \<Rightarrow> uint256 \<Rightarrow> nat \<Rightarrow> LiquidationRecord list res" where
  "LoadLiquidations db chainId limit =
     map_res ParseRecord
       (take limit (rev (sort_key (\<lambda>r. [lw_number r, lw_log_index r])
         (filter (\<lambda>r. lw_chain r = ToDecimal chainId) (db_liquidations db)))))"

definition LoadProtocolStats :: "IndexerDb \<Rightarrow> uint256 \<Rightarrow> ProtocolStats res" where
  "LoadProtocolStats db chainId =
     (let chain = ToDecimal chainId in
      case filter (\<lambda>r. mw_chain r = chain) (db_markets db) of
        [] \<Rightarrow> Inl (Runtime_Error ''indexed protocol statistics are unavailable'')
      | r # _ \<Rightarrow>
          bind_res (FromDecimal (mw_numbers r ! 0)) (\<lambda>collateral.
          bind_res (FromDecimal (mw_numbers r ! 2)) (\<lambda>debt.
          bind_res (FromDecimal (mw_numbers r ! 3)) (\<lambda>liquidity.
          bind_res (FromDecimal (mw_numbers r ! 4)) (\<lambda>reserve.
          bind_res (FromDecimal (mw_numbers r ! 5)) (\<lambda>badDebt.
          Inr \<lparr>st_positionCount = of_nat (length (filter (\<lambda>p. pw_chain p = chain) (db_positions db))),
               st_liquidationCount = of_nat (length (filter (\<lambda>l. lw_chain l = chain) (db_liquidations db))),
               st_totalWethCollateral = collateral, st_totalScaledUsdcDebt = debt, st_availableUsdcLiquidity = liquidity,
               st_protocolReserve = reserve, st_badDebt = badDebt\<rparr>))))))"

definition LoadUsdcSupply :: "IndexerDb \<Rightarrow> uint256 \<Rightarrow> address \<Rightarrow> uint256 res" where
  "LoadUsdcSupply db chainId user =
     (let chain = ToDecimal chainId in
      case (filter (\<lambda>p. pw_chain p = chain \<and> pw_user p = Address_ToHex user True) (db_positions db),
            filter (\<lambda>m. mw_chain m = chain) (db_markets db)) of
        (p # _, m # _) \<Rightarrow>
          bind_res (FromDecimal (pw_scaled_usdc_supply p)) (\<lambda>supply.
          bind_res (FromDecimal (mw_numbers m ! 7)) (\<lambda>index.
          MulDivDown supply index Ray))
      | _ \<Rightarrow> Inr 0)"

section \<open>The chain\<close>

text \<open>\<open>RpcApiChain\<close> has the members of the transaction manager's client.\<close>

definition api_Validate :: "RpcClient list \<Rightarrow> nat \<Rightarrow> (TxRpcState, unit) prog" where
  "api_Validate clients index =
     bindp (query Inr) (\<lambda>s.
     if rs_validated s ! index then ret ()
     else
       bindp (on_endpoint clients index rpc_GetChainId) (\<lambda>chainId.
       bindp (case rs_chainId s of
                None \<Rightarrow> modify (\<lambda>s. s\<lparr>rs_chainId := Some chainId\<rparr>)
              | Some known \<Rightarrow>
                  if chainId \<noteq> known
                  then raise (Runtime_Error ''read-only RPC endpoint belongs to a different chain'') else ret ()) (\<lambda>_.
       modify (\<lambda>s. s\<lparr>rs_validated := (rs_validated s)[index := True]\<rparr>))))"

definition api_attempt :: "RpcClient list \<Rightarrow> (RpcClient \<Rightarrow> (nat, 'a) prog) \<Rightarrow> nat \<Rightarrow> (TxRpcState, 'a) prog" where
  "api_attempt clients operation index =
     bindp (api_Validate clients index) (\<lambda>_.
     bindp (on_endpoint clients index operation) (\<lambda>result.
     bindp (modify (\<lambda>s. s\<lparr>rs_activeIndex := index\<rparr>)) (\<lambda>_.
     ret result)))"

definition api_Execute :: "RpcClient list \<Rightarrow> (RpcClient \<Rightarrow> (nat, 'a) prog) \<Rightarrow> (TxRpcState, 'a) prog" where
  "api_Execute clients operation =
     bindp (query (\<lambda>s. Inr (rs_activeIndex s))) (\<lambda>start.
     failover (api_attempt clients operation) (ring start (length clients)) None)"

definition RpcApiChain_new :: "(string \<Rightarrow> RpcClient res) \<Rightarrow> string list \<Rightarrow> (RpcClient list \<times> TxRpcState) res" where
  "RpcApiChain_new newClient endpoints =
     (if endpoints = [] then Inl (Invalid_Argument ''API requires at least one RPC endpoint'')
      else bind_res (map_res newClient endpoints) (\<lambda>clients.
        Inr (clients, \<lparr>rs_requests = replicate (length clients) 1, rs_validated = replicate (length clients) False,
                       rs_chainId = None, rs_activeIndex = 0\<rparr>)))"

definition api_GetBlockNumber :: "RpcClient list \<Rightarrow> (TxRpcState, uint64) prog" where
  "api_GetBlockNumber clients =
     api_Execute clients (\<lambda>client. bindp (rpc_GetBlockNumber client) (\<lambda>n. liftp (ToUint64 n)))"

definition api_GetChainId :: "RpcClient list \<Rightarrow> (TxRpcState, uint256) prog" where
  "api_GetChainId clients = api_Execute clients rpc_GetChainId"

section \<open>The service\<close>

record ApiRequest =
  aq_method :: string
  aq_target :: string
  aq_body :: string

record ApiResponse =
  ar_status :: nat
  ar_body :: json

record ApiService =
  as_db :: "nat \<Rightarrow> IndexerDb"
  as_clients :: "RpcClient list"
  as_chainId :: uint256
  as_parse :: "string \<Rightarrow> json res"

record ApiWorld =
  aw_reads :: nat
  aw_chain :: TxRpcState

definition db_read :: "ApiService \<Rightarrow> (IndexerDb \<Rightarrow> 'a res) \<Rightarrow> (ApiWorld, 'a) prog" where
  "db_read sv f w = (f (as_db sv (aw_reads w)), w\<lparr>aw_reads := Suc (aw_reads w)\<rparr>)"

definition GetHead :: "ApiService \<Rightarrow> (ApiWorld, uint64) prog" where
  "GetHead sv w = (case api_GetBlockNumber (as_clients sv) (aw_chain w) of (r, s) \<Rightarrow> (r, w\<lparr>aw_chain := s\<rparr>))"

definition api_LoadMarket :: "ApiService \<Rightarrow> (ApiWorld, MarketSnapshot) prog" where
  "api_LoadMarket sv = db_read sv (\<lambda>db. risk_LoadMarket db (as_chainId sv))"

text \<open>\<open>RiskEngine::Evaluate\<close> reads the position first and then, if there is one, the market.\<close>

definition api_Evaluate :: "ApiService \<Rightarrow> address \<Rightarrow> uint64 \<Rightarrow> (ApiWorld, PositionRisk option) prog" where
  "api_Evaluate sv user evaluatedAt =
     bindp (db_read sv (\<lambda>db. risk_LoadPosition db (as_chainId sv) user)) (\<lambda>position.
     case position of
       None \<Rightarrow> ret None
     | Some p \<Rightarrow>
         bindp (api_LoadMarket sv) (\<lambda>market.
         liftp (map_result Some (EvaluateIndexed p market evaluatedAt))))"

definition Freshness :: "MarketSnapshot \<Rightarrow> uint64 \<Rightarrow> json" where
  "Freshness market chainHead =
     J_Obj [(''chainHead'', J_Num (unat chainHead)),
       (''indexLag'', J_Num (unat (if chainHead > ms_indexedBlock market then chainHead - ms_indexedBlock market else 0))),
       (''indexedBlock'', J_Num (unat (ms_indexedBlock market))),
       (''indexedBlockHash'', J_Str (Hex_Encode (ms_indexedBlockHash market) True))]"

definition RiskJson :: "PositionRisk \<Rightarrow> (string \<times> json) list" where
  "RiskJson value =
     [(''address'', J_Str (Address_ToHex (pos_user (pr_position value)) True)),
      (''collateralValueUsdWad'', J_Str (ToDecimal (pr_collateralValue value))),
      (''debtValueUsdWad'', J_Str (ToDecimal (pr_debtValue value))),
      (''healthFactorWad'', J_Str (ToDecimal (pr_healthFactor value))),
      (''liquidatable'', J_Bool (pr_liquidatable value)),
      (''maxBorrowUsdWad'', J_Str (ToDecimal (pr_maxBorrow value))),
      (''usdcDebt'', J_Str (ToDecimal (pos_usdcDebt (pr_position value)))),
      (''wethCollateral'', J_Str (ToDecimal (pos_wethCollateral (pr_position value))))]"

definition answer :: "json \<Rightarrow> MarketSnapshot \<Rightarrow> uint64 \<Rightarrow> ApiResponse" where
  "answer data market head = \<lparr>ar_status = 200, ar_body = J_Obj [(''data'', data), (''freshness'', Freshness market head)]\<rparr>"

definition api_error :: "nat \<Rightarrow> string \<Rightarrow> ApiResponse" where
  "api_error status message = \<lparr>ar_status = status, ar_body = J_Obj [(''error'', J_Str message)]\<rparr>"

definition MarketJson :: "MarketSnapshot \<Rightarrow> json" where
  "MarketJson market =
     J_Obj [(''borrowIndex'', J_Str (ToDecimal (ms_borrowIndex market))), (''chainId'', J_Str (ToDecimal (ms_chainId market))),
        (''liquidationThresholdBps'', J_Str (ToDecimal LiquidationThresholdBasisPoints)),
        (''ltvBps'', J_Str (ToDecimal LtvBasisPoints)), (''oracle'', J_Str (Address_ToHex (ms_oracle market) True)),
        (''pool'', J_Str (Address_ToHex (ms_pool market) True)), (''priceDecimals'', J_Num 8),
        (''usdc'', J_Str (Address_ToHex (ms_usdc market) True)), (''usdcDecimals'', J_Num 6),
        (''usdcPrice'', J_Str (ToDecimal (ms_usdcPrice market))), (''weth'', J_Str (Address_ToHex (ms_weth market) True)),
        (''wethDecimals'', J_Num 18), (''wethPrice'', J_Str (ToDecimal (ms_wethPrice market)))]"

definition Markets :: "ApiService \<Rightarrow> (ApiWorld, ApiResponse) prog" where
  "Markets sv =
     bindp (api_LoadMarket sv) (\<lambda>market.
     bindp (GetHead sv) (\<lambda>head.
     ret (answer (J_Arr [MarketJson market]) market head)))"

definition PositionHandler :: "ApiService \<Rightarrow> uint64 \<Rightarrow> string \<Rightarrow> bool \<Rightarrow> (ApiWorld, ApiResponse) prog" where
  "PositionHandler sv now addressText healthOnly =
     bindp (liftp (Address_FromHex addressText)) (\<lambda>user.
     bindp (api_Evaluate sv user now) (\<lambda>value.
     case value of
       None \<Rightarrow> ret (api_error 404 ''position not found'')
     | Some value \<Rightarrow>
         bindp (api_LoadMarket sv) (\<lambda>market.
         bindp (if healthOnly
                then ret (J_Obj [(''address'', J_Str (Address_ToHex (pos_user (pr_position value)) True)),
                       (''healthFactorWad'', J_Str (ToDecimal (pr_healthFactor value))),
                       (''liquidatable'', J_Bool (pr_liquidatable value))])
                else bindp (db_read sv (\<lambda>db. LoadUsdcSupply db (as_chainId sv) user)) (\<lambda>supply.
                     ret (J_Obj (insort_key fst (''usdcSupply'', J_Str (ToDecimal supply)) (RiskJson value))))) (\<lambda>data.
         bindp (GetHead sv) (\<lambda>head.
         ret (answer data market head))))))"

definition RecordJson :: "LiquidationRecord \<Rightarrow> json" where
  "RecordJson value =
     J_Obj [(''blockNumber'', J_Num (unat (lz_blockNumber value))), (''borrower'', J_Str (Address_ToHex (lz_borrower value) True)),
       (''collateralSeized'', J_Str (ToDecimal (lz_collateralSeized value))),
       (''liquidator'', J_Str (Address_ToHex (lz_liquidator value) True)),
       (''repaidAmount'', J_Str (ToDecimal (lz_repaidAmount value))),
       (''transactionHash'', J_Str (Hex_Encode (lz_transactionHash value) True))]"

definition Liquidations :: "ApiService \<Rightarrow> (ApiWorld, ApiResponse) prog" where
  "Liquidations sv =
     bindp (db_read sv (\<lambda>db. LoadLiquidations db (as_chainId sv) 100)) (\<lambda>records.
     bindp (api_LoadMarket sv) (\<lambda>market.
     bindp (GetHead sv) (\<lambda>head.
     ret (answer (J_Arr (map RecordJson records)) market head))))"

definition StatsJson :: "ProtocolStats \<Rightarrow> json" where
  "StatsJson stats =
     J_Obj [(''availableUsdcLiquidity'', J_Str (ToDecimal (st_availableUsdcLiquidity stats))),
        (''badDebt'', J_Str (ToDecimal (st_badDebt stats))), (''liquidationCount'', J_Num (unat (st_liquidationCount stats))),
        (''positionCount'', J_Num (unat (st_positionCount stats))),
        (''protocolReserve'', J_Str (ToDecimal (st_protocolReserve stats))),
        (''totalScaledUsdcDebt'', J_Str (ToDecimal (st_totalScaledUsdcDebt stats))),
        (''totalWethCollateral'', J_Str (ToDecimal (st_totalWethCollateral stats)))]"

definition Stats :: "ApiService \<Rightarrow> (ApiWorld, ApiResponse) prog" where
  "Stats sv =
     bindp (db_read sv (\<lambda>db. LoadProtocolStats db (as_chainId sv))) (\<lambda>stats.
     bindp (api_LoadMarket sv) (\<lambda>market.
     bindp (GetHead sv) (\<lambda>head.
     ret (answer (StatsJson stats) market head))))"

definition decimal_at :: "json \<Rightarrow> string \<Rightarrow> uint256 res" where
  "decimal_at request key = bind_res (string_at request key) FromDecimal"

definition Simulate :: "ApiService \<Rightarrow> uint64 \<Rightarrow> string \<Rightarrow> (ApiWorld, ApiResponse) prog" where
  "Simulate sv now body =
     bindp (liftp (as_parse sv body)) (\<lambda>request.
     bindp (api_LoadMarket sv) (\<lambda>market.
     bindp (if json_find ''wethPrice'' request \<noteq> None
            then liftp (map_result (\<lambda>v. market\<lparr>ms_wethPrice := v\<rparr>) (decimal_at request ''wethPrice'')) else ret market) (\<lambda>market.
     bindp (if json_find ''usdcPrice'' request \<noteq> None
            then liftp (map_result (\<lambda>v. market\<lparr>ms_usdcPrice := v\<rparr>) (decimal_at request ''usdcPrice'')) else ret market) (\<lambda>market.
     let market = market\<lparr>ms_wethPriceUpdatedAt := Uint256_of now, ms_usdcPriceUpdatedAt := Uint256_of now,
                         ms_wethMaxPriceAge := 86400, ms_usdcMaxPriceAge := 86400\<rparr> in
     bindp (liftp (bind_res (string_at request ''address'') Address_FromHex)) (\<lambda>user.
     bindp (liftp (decimal_at request ''wethCollateral'')) (\<lambda>collateral.
     bindp (liftp (decimal_at request ''usdcDebt'')) (\<lambda>debt.
     bindp (liftp (Evaluate \<lparr>pos_user = user, pos_wethCollateral = collateral, pos_usdcDebt = debt\<rparr> market now)) (\<lambda>risk.
     bindp (GetHead sv) (\<lambda>head.
     ret (answer (J_Obj (RiskJson risk)) market head))))))))))"

definition starts_with :: "string \<Rightarrow> string \<Rightarrow> bool" where
  "starts_with prefix s \<longleftrightarrow> length prefix \<le> length s \<and> take (length prefix) s = prefix"

definition ends_with :: "string \<Rightarrow> string \<Rightarrow> bool" where
  "ends_with suffix s \<longleftrightarrow> length suffix \<le> length s \<and> drop (length s - length suffix) s = suffix"

definition dispatch :: "ApiService \<Rightarrow> uint64 \<Rightarrow> ApiRequest \<Rightarrow> (ApiWorld, ApiResponse) prog" where
  "dispatch sv now request =
     (let get = (aq_method request = ''GET''); target = aq_target request in
      if get \<and> target = ''/health'' then ret \<lparr>ar_status = 200, ar_body = J_Obj [(''status'', J_Str ''healthy'')]\<rparr>
      else if get \<and> target = ''/ready'' then ret \<lparr>ar_status = 200, ar_body = J_Obj [(''status'', J_Str ''ready'')]\<rparr>
      else if get \<and> target = ''/markets'' then Markets sv
      else if get \<and> target = ''/liquidations'' then Liquidations sv
      else if get \<and> target = ''/protocol/stats'' then Stats sv
      else if aq_method request = ''POST'' \<and> target = ''/risk/simulate'' then Simulate sv now (aq_body request)
      else if get \<and> starts_with ''/positions/'' target
      then let addressText = drop (length ''/positions/'') target in
           if ends_with ''/health'' addressText
           then PositionHandler sv now (take (length addressText - length ''/health'') addressText) True
           else PositionHandler sv now addressText False
      else ret (api_error 404 ''route not found''))"

text \<open>The handlers of \<open>ApiService::Handle\<close>, by the type of the exception.\<close>

fun error_response :: "exn \<Rightarrow> ApiResponse" where
  "error_response Json_Error = api_error 400 ''invalid request''"
| "error_response (Invalid_Argument _) = api_error 400 ''invalid request''"
| "error_response _ = api_error 500 ''internal server error''"

definition Handle :: "ApiService \<Rightarrow> uint64 \<Rightarrow> ApiRequest \<Rightarrow> (ApiWorld, ApiResponse) prog" where
  "Handle sv now request = catchp (dispatch sv now request) (\<lambda>e. ret (error_response e))"

section \<open>The server\<close>

definition REQUESTS_PER_SECOND :: nat where "REQUESTS_PER_SECOND = 100"

text \<open>Times of the steady clock are numbers of nanoseconds.\<close>

record RequestRateLimiter =
  rl_windowStart :: nat
  rl_requestCount :: nat

definition Allow :: "nat \<Rightarrow> RequestRateLimiter \<Rightarrow> bool \<times> RequestRateLimiter" where
  "Allow now limiter =
     (let limiter = (if int now - int (rl_windowStart limiter) \<ge> 1000000000
                     then \<lparr>rl_windowStart = now, rl_requestCount = 0\<rparr> else limiter);
          limiter = limiter\<lparr>rl_requestCount := Suc (rl_requestCount limiter)\<rparr>
      in (rl_requestCount limiter \<le> REQUESTS_PER_SECOND, limiter))"

text \<open>What reading a request from the socket comes to.\<close>

datatype Incoming = Body_Limit | Read_Error | Received ApiRequest

record ServerWorld =
  sw_limiter :: RequestRateLimiter
  sw_api :: ApiWorld

definition ServeConnection ::
  "ApiService \<Rightarrow> nat \<Rightarrow> uint64 \<Rightarrow> Incoming \<Rightarrow> ServerWorld \<Rightarrow> ApiResponse option \<times> ServerWorld" where
  "ServeConnection sv steadyNow now incoming w =
     (case incoming of
        Body_Limit \<Rightarrow> (Some (api_error 413 ''request body too large''), w)
      | Read_Error \<Rightarrow> (None, w)
      | Received request \<Rightarrow>
          (case Allow steadyNow (sw_limiter w) of
             (False, limiter) \<Rightarrow> (Some (api_error 429 ''request rate limit exceeded''), w\<lparr>sw_limiter := limiter\<rparr>)
           | (True, limiter) \<Rightarrow>
               (case Handle sv now request (sw_api w) of
                  (r, api) \<Rightarrow> (case r of Inr response \<Rightarrow> Some response | Inl _ \<Rightarrow> None,
                               w\<lparr>sw_limiter := limiter, sw_api := api\<rparr>))))"

end
