(* ===== verification/Rpc_Correct.thy ===== *)
theory Rpc_Correct
  imports Rpc_Client
begin

text \<open>
  What the RPC client promises whatever the node sends: the calls it accepts, the kinds of its
  exceptions, the lengths of what it returns, and that the answers of a conforming node come through
  unchanged.
\<close>

section \<open>Exceptions and types\<close>

text \<open>An operation of one request: it uses one request number, returns only values in \<open>ok\<close> and throws
  only RPC exceptions about the answer.\<close>

definition answer_failure :: "exn \<Rightarrow> bool" where
  "answer_failure e = (case e of Rpc_Exception k _ \<Rightarrow> k \<noteq> InvalidEndpoint | _ \<Rightarrow> False)"

definition answer_ok :: "('a \<Rightarrow> bool) \<Rightarrow> 'a res \<Rightarrow> bool" where
  "answer_ok ok r = (case r of Inr x \<Rightarrow> ok x | Inl e \<Rightarrow> answer_failure e)"

definition answers :: "('a \<Rightarrow> bool) \<Rightarrow> (nat, 'a) prog \<Rightarrow> bool" where
  "answers ok m \<longleftrightarrow> (\<forall>n. snd (m n) = Suc n \<and> answer_ok ok (fst (m n)))"

definition header_typed :: "BlockHeader \<Rightarrow> bool" where
  "header_typed h \<longleftrightarrow> length (bh_hash h) = 32 \<and> length (bh_parentHash h) = 32"

definition log_typed :: "RpcLog \<Rightarrow> bool" where
  "log_typed l \<longleftrightarrow> length (rp_address l) = 20 \<and> list_all (\<lambda>t. length t = 32) (rp_topics l) \<and>
     length (rp_blockHash l) = 32 \<and> length (rp_transactionHash l) = 32"

definition receipt_typed :: "TransactionReceipt \<Rightarrow> bool" where
  "receipt_typed r \<longleftrightarrow> length (rc_transactionHash r) = 32 \<and> length (rc_blockHash r) = 32"

named_theorems answer_intros "answers of the parts of a parser"

lemma answer_okI [answer_intros]:
  "ok x \<Longrightarrow> answer_ok ok (Inr x)"
  "k \<noteq> InvalidEndpoint \<Longrightarrow> answer_ok ok (Inl (Rpc_Exception k m))"
  "answer_ok ok (Inl (invalid_response m))"
  by (simp_all add: answer_ok_def answer_failure_def invalid_response_def)

lemma answer_ok_bind [answer_intros]:
  "answer_ok P m \<Longrightarrow> (\<And>x. P x \<Longrightarrow> answer_ok Q (f x)) \<Longrightarrow> answer_ok Q (bind_res m f)"
  by (cases m) (auto simp: answer_ok_def)

lemma answer_ok_map_res:
  "(\<And>x. x \<in> set xs \<Longrightarrow> answer_ok P (f x)) \<Longrightarrow> answer_ok (list_all P) (map_res f xs)"
  by (induction xs) (auto intro!: answer_intros)

lemma answer_ok_weaken: "answer_ok P m \<Longrightarrow> (\<And>x. P x \<Longrightarrow> Q x) \<Longrightarrow> answer_ok Q m"
  by (auto simp: answer_ok_def split: sum.splits)

lemma RequireString_ok: "answer_ok (\<lambda>_. True) (RequireString object field)"
  unfolding RequireString_def by (auto intro!: answer_intros split: option.splits json.splits)

text \<open>The exceptions of the decoders themselves are never RPC exceptions.\<close>

definition plain :: "exn \<Rightarrow> bool" where
  "plain e \<longleftrightarrow> (\<forall>k m. e \<noteq> Rpc_Exception k m)"

lemma rewrap_simps [simp]:
  "rewrap lib prefix (Inr x) = Inr x"
  "rewrap lib prefix (Inl (Rpc_Exception k m)) = Inl (Rpc_Exception k m)"
  "plain e \<Longrightarrow> rewrap lib prefix (Inl e) = Inl (invalid_response (prefix @ exn_what lib e))"
  by (cases e; simp add: rewrap_def plain_def)+

text \<open>Rewrapping makes an answer of a field: only the exceptions of the field are passed through.\<close>

lemma rewrap_ok:
  assumes "\<And>x y. f x = Inr y \<Longrightarrow> P y" "\<And>x e. f x = Inl e \<Longrightarrow> plain e"
  shows "answer_ok P (rewrap lib prefix (bind_res (RequireString object field) f))"
proof (cases "RequireString object field")
  case (Inl e)
  then obtain m where "e = Rpc_Exception InvalidResponse m"
    by (auto simp: RequireString_def invalid_response_def split: option.splits json.splits)
  with Inl show ?thesis by (simp add: answer_intros)
next
  case (Inr s)
  then show ?thesis by (cases "f s") (auto intro!: answer_intros dest: assms)
qed

lemma fold_res_plain:
  assumes "fold_res f xs s = Inl e" "\<And>x s e. f x s = Inl e \<Longrightarrow> plain e"
  shows "plain e"
  using assms by (induction xs arbitrary: s) (auto simp: res_simps)

lemma DecodeNibble_plain: "DecodeNibble err c = Inl e \<Longrightarrow> plain err \<Longrightarrow> plain e"
  by (auto simp: DecodeNibble_def Let_def split: if_splits)

lemma decode_pairs_plain: "decode_pairs s = Inl e \<Longrightarrow> plain e"
  by (induction s rule: decode_pairs.induct)
    (auto simp: res_simps dest!: DecodeNibble_plain simp: hex_char_error_def plain_def)

lemma Hex_Decode_plain: "Hex_Decode s = Inl e \<Longrightarrow> plain e"
  by (auto simp: Hex_Decode_def Let_def split: if_splits dest: decode_pairs_plain) (simp add: plain_def)

lemma FromHex_plain: "FromHex s = Inl e \<Longrightarrow> plain e"
proof -
  assume e: "FromHex s = Inl e"
  have step: "plain e" if "bind_res (u256_shl r 4) (\<lambda>r. bind_res (DecodeNibble uint256_char_error c) (\<lambda>n. u256_add r (ucast n))) = Inl e"
    for r c e
    using that by (auto simp: res_simps u256_shl_def u256_add_def checked_Inl plain_def uint256_char_error_def
        DecodeNibble_def Let_def split: if_splits)
  from e show "plain e"
    by (auto simp: FromHex_def Let_def split: if_splits dest!: fold_res_plain [OF _ step]) (simp_all add: plain_def)
qed

lemma field_ok [answer_intros]:
  "answer_ok (\<lambda>_. True) (ParseQuantity lib object field)"
  "answer_ok (\<lambda>h. length h = 32) (rpc_ParseHash lib object field)"
  "answer_ok (\<lambda>a. length a = 20) (ParseAddress lib object field)"
  "answer_ok (\<lambda>_. True) (rewrap lib m (bind_res (RequireString object field) Hex_Decode))"
  unfolding ParseQuantity_def rpc_ParseHash_def ParseAddress_def
  by (rule rewrap_ok; auto simp: ParseHash_def Address_FromHex_def res_simps split: if_splits
      dest: FromHex_plain Hex_Decode_plain; simp add: plain_def)+

lemma ParseHeader_ok: "answer_ok (pred_option header_typed) (ParseHeader lib j)"
  unfolding ParseHeader_def map_result_def
  by (auto intro!: answer_intros simp: header_typed_def)

lemma ParseReceipt_ok: "answer_ok (pred_option receipt_typed) (ParseReceipt lib j)"
  unfolding ParseReceipt_def
  by (auto intro!: answer_intros simp: receipt_typed_def)

lemma ParseLog_ok: "answer_ok log_typed (ParseLog lib j)"
  unfolding ParseLog_def
  by (auto intro!: answer_intros answer_ok_map_res simp: log_typed_def split: option.splits json.splits)

lemma ParseLogs_ok: "answer_ok (list_all log_typed) (ParseLogs lib j)"
  unfolding ParseLogs_def
  by (auto intro!: answer_intros answer_ok_map_res ParseLog_ok split: json.splits)

lemma ParseBytesResult_ok: "answer_ok (\<lambda>_. True) (ParseBytesResult lib j m)"
  unfolding ParseBytesResult_def by (auto intro!: answer_intros split: json.splits sum.splits)

lemma json_value_plain: "json_value j k d = Inl e \<Longrightarrow> plain e"
  by (auto simp: json_value_def plain_def split: if_splits option.splits json.splits)

lemma check_answer_error: "check_answer i d = Inl e \<Longrightarrow> e = Json_Error \<or> answer_failure e"
  by (auto simp: check_answer_def res_simps json_value_def answer_failure_def invalid_response_def
      split: if_splits option.splits json.splits)

lemma read_answer_ok: "answer_ok (\<lambda>_. True) (read_answer client i answer)"
proof (cases answer)
  case (No_Answer m)
  then show ?thesis by (simp add: read_answer_def answer_intros)
next
  case (Http_Response status body)
  have "answer_ok (\<lambda>_. True) (rewrap lib p (check_answer i d))" for lib p d
  proof (cases "check_answer i d")
    case (Inl e)
    with check_answer_error [OF this] show ?thesis
      by (cases e) (auto simp: rewrap_def answer_intros answer_ok_def answer_failure_def invalid_response_def)
  qed (simp add: answer_intros)
  with Http_Response show ?thesis by (auto simp: read_answer_def intro!: answer_intros split: option.splits)
qed

lemma call_run:
  "bindp (Call client m p) (\<lambda>j. liftp (f j)) n =
     (bind_res (read_answer client (of_nat n) (rk_node client (rk_endpoint client) n (request_payload (of_nat n) m p))) f, Suc n)"
  by (simp add: bindp_def Call_def Let_def liftp_def bind_res_def split: sum.splits)

lemma answers_call:
  assumes "\<And>j. answer_ok P (f j)"
  shows "answers P (bindp (Call client m p) (\<lambda>j. liftp (f j)))"
  unfolding answers_def call_run fst_conv snd_conv
  by (intro allI conjI refl answer_ok_bind [OF read_answer_ok] assms)

text \<open>C37. Types of the answers. Whatever the node sends, each method of the client uses one request
  number, returns hashes of 32 bytes and addresses of 20, and throws nothing but an RPC exception
  about the answer; \<open>GetBlockNumber\<close> alone also throws the overflow error of its observer's height.\<close>

theorem RpcClient_typed:
  "answers (\<lambda>_. True) (rpc_GetChainId client) \<and>
   answers (pred_option header_typed) (rpc_GetBlockByNumber client number) \<and>
   answers (list_all log_typed) (rpc_GetLogs client logs) \<and>
   answers (\<lambda>_. True) (rpc_EthCall client call block) \<and>
   answers (\<lambda>_. True) (rpc_EstimateGas client call) \<and>
   answers (\<lambda>_. True) (rpc_GetTransactionCount client addr block) \<and>
   answers (\<lambda>_. True) (rpc_GetMaxPriorityFeePerGas client) \<and>
   answers (\<lambda>h. length h = 32) (rpc_SendRawTransaction client raw) \<and>
   answers (pred_option receipt_typed) (rpc_GetTransactionReceipt client hash) \<and>
   (case rpc_GetBlockNumber client n of (r, n') \<Rightarrow> n' = Suc n \<and>
      (answer_ok (\<lambda>_. True) r \<or> rk_observer client \<and> (\<exists>m. r = Inl (Overflow_Error m))))"
proof -
  have quantity: "answers (\<lambda>_. True) (call_quantity client m p)" for m p
    unfolding call_quantity_def by (rule answers_call) (rule field_ok)
  have "case rpc_GetBlockNumber client n of (r, n') \<Rightarrow> n' = Suc n \<and>
      (answer_ok (\<lambda>_. True) r \<or> rk_observer client \<and> (\<exists>m. r = Inl (Overflow_Error m)))"
    using quantity [of "''eth_blockNumber''" "J_Arr []", unfolded answers_def, rule_format, of n]
    by (cases "call_quantity client ''eth_blockNumber'' (J_Arr []) n")
      (auto simp: rpc_GetBlockNumber_def bindp_def liftp_def ret_def ToUint64_def answer_ok_def split: sum.splits if_splits)
  then show ?thesis
    unfolding rpc_GetChainId_def rpc_GetBlockByNumber_def rpc_GetLogs_def rpc_EthCall_def rpc_EstimateGas_def
      rpc_GetTransactionCount_def rpc_GetMaxPriorityFeePerGas_def rpc_SendRawTransaction_def rpc_GetTransactionReceipt_def
    by (intro conjI quantity answers_call ParseHeader_ok ParseLogs_ok ParseBytesResult_ok ParseReceipt_ok field_ok)
qed

section \<open>The accepted answers\<close>

lemma rewrap_Inr: "rewrap lib p r = Inr x \<longleftrightarrow> r = Inr x"
  by (auto simp: rewrap_def split: sum.splits exn.splits)

lemma rewrap_Rpc: "rewrap lib p r = Inl (Rpc_Exception k m) \<Longrightarrow> k \<noteq> InvalidResponse \<Longrightarrow> r = Inl (Rpc_Exception k m)"
  by (auto simp: rewrap_def invalid_response_def split: sum.splits exn.splits)

lemma check_answer_Inr:
  "check_answer i (J_Obj fs) = Inr r \<longleftrightarrow> map_of fs ''jsonrpc'' = Some (J_Str ''2.0'') \<and>
     (\<exists>v. map_of fs ''id'' = Some v \<and> json_is_number v (unat i)) \<and>
     map_of fs ''error'' \<in> {None, Some J_Null} \<and> map_of fs ''result'' = Some r"
  by (auto simp: check_answer_def res_simps json_value_def split: if_splits option.splits json.splits)

lemma check_answer_kind:
  "check_answer i d = Inl (Rpc_Exception k m) \<Longrightarrow> k \<noteq> Transport \<and> k \<noteq> Http"
  by (auto simp: check_answer_def res_simps json_value_def invalid_response_def split: if_splits option.splits json.splits)

text \<open>What a call accepts. A call returns exactly the \<open>result\<close> of a response with status 200 that is
  a JSON object of version 2.0 with the id of this request and no error; it throws a transport
  exception exactly when there was no answer and an HTTP exception exactly for another status. So the
  two kinds after which a broadcast counts as uncertain are the two in which the node has said
  nothing.\<close>

theorem Call_accepts:
  "(case rk_node client (rk_endpoint client) n (request_payload (of_nat n) method p) of
      No_Answer _ \<Rightarrow> (\<exists>m. fst (Call client method p n) = Inl (Rpc_Exception Transport m))
    | Http_Response status body \<Rightarrow>
        if status \<noteq> 200 then (\<exists>m. fst (Call client method p n) = Inl (Rpc_Exception Http m))
        else (\<forall>m. fst (Call client method p n) \<noteq> Inl (Rpc_Exception Transport m) \<and>
                     fst (Call client method p n) \<noteq> Inl (Rpc_Exception Http m)) \<and>
             (\<forall>r. fst (Call client method p n) = Inr r \<longleftrightarrow>
                (\<exists>fs. body = Some (J_Obj fs) \<and> map_of fs ''jsonrpc'' = Some (J_Str ''2.0'') \<and>
                   (\<exists>v. map_of fs ''id'' = Some v \<and> json_is_number v (unat (of_nat n :: uint64))) \<and>
                   map_of fs ''error'' \<in> {None, Some J_Null} \<and> map_of fs ''result'' = Some r)))"
proof (cases "rk_node client (rk_endpoint client) n (request_payload (of_nat n) method p)")
  case (No_Answer m)
  then show ?thesis by (simp add: Call_def read_answer_def)
next
  case (Http_Response status body)
  let ?r = "fst (Call client method p n)"
  consider "status \<noteq> 200" | fs where "status = 200" "body = Some (J_Obj fs)"
    | "status = 200" "\<And>fs. body \<noteq> Some (J_Obj fs)" by blast
  then show ?thesis
  proof cases
    case 1
    with Http_Response show ?thesis by (simp add: Call_def Let_def read_answer_def)
  next
    case 2
    then have r: "?r = rewrap (rk_what client) ''RPC JSON handling failed: '' (check_answer (of_nat n) (J_Obj fs))"
      using Http_Response by (simp add: Call_def Let_def read_answer_def)
    have "?r \<noteq> Inl (Rpc_Exception k m)" if "k = Transport \<or> k = Http" for k m
    proof
      assume "?r = Inl (Rpc_Exception k m)"
      then have "check_answer (of_nat n) (J_Obj fs) = Inl (Rpc_Exception k m)"
        unfolding r by (rule rewrap_Rpc) (use that in auto)
      from check_answer_kind [OF this] that show False by blast
    qed
    with 2 Http_Response show ?thesis by (simp add: r rewrap_Inr check_answer_Inr)
  next
    case 3
    then have "\<not> is_object d" if "body = Some d" for d using that by (cases d) auto
    then have "?r = Inl (invalid_response ''RPC response is not a JSON object'')"
      using 3 Http_Response by (cases body) (simp_all add: Call_def Let_def read_answer_def)
    with 3 Http_Response show ?thesis by (simp add: invalid_response_def)
  qed
qed

section \<open>A conforming node\<close>

text \<open>The objects of the Ethereum JSON-RPC interface.\<close>

definition header_json :: "BlockHeader \<Rightarrow> json" where
  "header_json h = J_Obj ([(''number'', J_Str (ToQuantity (bh_number h))), (''hash'', J_Str (Hex_Encode (bh_hash h) True)),
     (''parentHash'', J_Str (Hex_Encode (bh_parentHash h) True)), (''timestamp'', J_Str (ToQuantity (bh_timestamp h)))] @
     (case bh_baseFeePerGas h of Some v \<Rightarrow> [(''baseFeePerGas'', J_Str (ToQuantity v))] | None \<Rightarrow> []))"

definition log_json :: "RpcLog \<Rightarrow> json" where
  "log_json l = J_Obj [(''address'', J_Str (Hex_Encode (rp_address l) True)),
     (''topics'', J_Arr (map (\<lambda>t. J_Str (Hex_Encode t True)) (rp_topics l))), (''data'', J_Str (Hex_Encode (rp_data l) True)),
     (''blockNumber'', J_Str (ToQuantity (rp_blockNumber l))), (''blockHash'', J_Str (Hex_Encode (rp_blockHash l) True)),
     (''transactionHash'', J_Str (Hex_Encode (rp_transactionHash l) True)),
     (''transactionIndex'', J_Str (ToQuantity (rp_transactionIndex l))), (''logIndex'', J_Str (ToQuantity (rp_logIndex l))),
     (''removed'', J_Bool (rp_removed l))]"

definition receipt_json :: "TransactionReceipt \<Rightarrow> json" where
  "receipt_json r = J_Obj [(''transactionHash'', J_Str (Hex_Encode (rc_transactionHash r) True)),
     (''blockNumber'', J_Str (ToQuantity (rc_blockNumber r))), (''blockHash'', J_Str (Hex_Encode (rc_blockHash r) True)),
     (''status'', J_Str (if rc_succeeded r then ''0x1'' else ''0x0'')), (''gasUsed'', J_Str (ToQuantity (rc_gasUsed r))),
     (''effectiveGasPrice'', J_Str (ToQuantity (rc_effectiveGasPrice r)))]"

lemma ParseQuantity_field:
  "map_of fs f = Some (J_Str (ToQuantity v)) \<Longrightarrow> ParseQuantity lib (J_Obj fs) f = Inr v"
  by (simp add: ParseQuantity_def RequireString_def FromHex_ToQuantity)

lemma ParseHash_field:
  "map_of fs f = Some (J_Str (Hex_Encode h True)) \<Longrightarrow> length h = 32 \<Longrightarrow> rpc_ParseHash lib (J_Obj fs) f = Inr h"
  by (simp add: rpc_ParseHash_def RequireString_def ParseHash_Encode)

lemma ParseAddress_field:
  "map_of fs f = Some (J_Str (Hex_Encode a True)) \<Longrightarrow> length a = 20 \<Longrightarrow> ParseAddress lib (J_Obj fs) f = Inr a"
  by (simp add: ParseAddress_def RequireString_def Address_FromHex_def Hex_Decode_Encode)

lemma ParseQuantity_status:
  "map_of fs f = Some (J_Str (if b then ''0x1'' else ''0x0'')) \<Longrightarrow>
    \<exists>v. ParseQuantity lib (J_Obj fs) f = Inr v \<and> (IsZero v \<longleftrightarrow> \<not> b)"
  by (cases b) (simp_all add: ParseQuantity_def RequireString_def FromHex_def u256_shl_def u256_add_def checked_def
      DecodeNibble_def two256_def IsZero_def)

definition ParseHeader_some :: "(exn \<Rightarrow> string) \<Rightarrow> json \<Rightarrow> BlockHeader res" where
  "ParseHeader_some lib j = bind_res (ParseHeader lib j) (\<lambda>h. case h of Some h \<Rightarrow> Inr h | None \<Rightarrow> Inl Null_Dereference)"

interpretation header_codec: codec header_typed header_json "ParseHeader_some lib" for lib
proof
  fix h assume "header_typed h"
  then show "ParseHeader_some lib (header_json h) = Inr h"
    by (cases "bh_baseFeePerGas h")
      (simp_all add: ParseHeader_some_def ParseHeader_def header_json_def header_typed_def ParseQuantity_field ParseHash_field)
qed

interpretation log_codec: codec log_typed log_json "ParseLog lib" for lib
proof
  fix l assume l: "log_typed l"
  have "map_res (\<lambda>t. rpc_ParseHash lib (J_Obj [(''topic'', t)]) ''topic'') (map (\<lambda>t. J_Str (Hex_Encode t True)) ts) = Inr ts"
    if "list_all (\<lambda>t. length t = 32) ts" for ts
    using that by (induction ts) (simp_all add: ParseHash_field)
  then show "ParseLog lib (log_json l) = Inr l"
    using l by (simp add: ParseLog_def log_json_def log_typed_def ParseQuantity_field ParseHash_field ParseAddress_field
        RequireString_def Hex_Decode_Encode)
qed

lemma ParseReceipt_json: "receipt_typed r \<Longrightarrow> ParseReceipt lib (receipt_json r) = Inr (Some r)"
proof -
  assume r: "receipt_typed r"
  have "\<exists>v. ParseQuantity lib (receipt_json r) ''status'' = Inr v \<and> (IsZero v \<longleftrightarrow> \<not> rc_succeeded r)"
    unfolding receipt_json_def by (rule ParseQuantity_status) simp
  with r show ?thesis
    by (auto simp: ParseReceipt_def receipt_json_def receipt_typed_def ParseQuantity_field ParseHash_field)
qed

definition node_result :: "RpcClient \<Rightarrow> nat \<Rightarrow> string \<Rightarrow> json \<Rightarrow> json \<Rightarrow> bool" where
  "node_result client n method p result \<longleftrightarrow>
     rk_node client (rk_endpoint client) n (request_payload (of_nat n) method p) =
       Http_Response 200 (Some (J_Obj [(''id'', J_Num (unat (of_nat n :: uint64))), (''jsonrpc'', J_Str ''2.0''), (''result'', result)]))"

lemma call_result:
  assumes "node_result client n m p j"
  shows "bindp (Call client m p) (\<lambda>j. liftp (f j)) n = (f j, Suc n)"
  using assms by (simp add: call_run read_answer_def node_result_def check_answer_def json_value_def)

text \<open>The answers of a conforming node come through: a header, the logs of a filter, a receipt, a
  quantity and a transaction hash that the node sends in the format of the Ethereum JSON-RPC interface
  are what the client returns, field by field.\<close>

theorem RpcClient_round_trip:
  "(header_typed h \<longrightarrow> node_result client n ''eth_getBlockByNumber'' (J_Arr [J_Str (ToQuantity number), J_Bool False]) (header_json h) \<longrightarrow>
      rpc_GetBlockByNumber client number n = (Inr (Some h), Suc n)) \<and>
   (list_all log_typed ls \<longrightarrow> node_result client n ''eth_getLogs'' (J_Arr [EncodeFilter f]) (J_Arr (map log_json ls)) \<longrightarrow>
      rpc_GetLogs client f n = (Inr ls, Suc n)) \<and>
   (receipt_typed r \<longrightarrow> node_result client n ''eth_getTransactionReceipt'' (J_Arr [J_Str (Hex_Encode hash True)]) (receipt_json r) \<longrightarrow>
      rpc_GetTransactionReceipt client hash n = (Inr (Some r), Suc n)) \<and>
   (node_result client n ''eth_chainId'' (J_Arr []) (J_Str (ToQuantity v)) \<longrightarrow> rpc_GetChainId client n = (Inr v, Suc n)) \<and>
   (length sent = 32 \<longrightarrow>
      node_result client n ''eth_sendRawTransaction'' (J_Arr [J_Str (Hex_Encode raw True)]) (J_Str (Hex_Encode sent True)) \<longrightarrow>
      rpc_SendRawTransaction client raw n = (Inr sent, Suc n))"
proof -
  have "ParseHeader lib (header_json h) = Inr (Some h)" if "header_typed h" for lib
    using header_codec.dec_enc [OF that, of lib] by (auto simp: ParseHeader_some_def res_simps split: option.splits)
  then show ?thesis
    by (simp add: rpc_GetBlockByNumber_def rpc_GetLogs_def rpc_GetTransactionReceipt_def rpc_GetChainId_def
        rpc_SendRawTransaction_def call_quantity_def call_result ParseLogs_def log_codec.list_dec_enc ParseReceipt_json
        ParseQuantity_field ParseHash_field)
qed

definition demo_rpc :: "json \<Rightarrow> RpcClient" where
  "demo_rpc result = \<lparr>rk_endpoint = \<lparr>pe_host = ''localhost'', pe_port = ''8545'', pe_target = ''/''\<rparr>, rk_timeout = 5000,
     rk_node = (\<lambda>_ n _. Http_Response 200 (Some (J_Obj [(''id'', J_Num (unat (of_nat n :: uint64))),
       (''jsonrpc'', J_Str ''2.0''), (''result'', result)]))), rk_what = (\<lambda>_. ''library error''), rk_observer = False\<rparr>"

lemma demo_rpc_result: "node_result (demo_rpc j) n m p j"
  by (simp add: node_result_def demo_rpc_def)

definition demo_header :: BlockHeader where
  "demo_header = \<lparr>bh_number = 7, bh_hash = replicate 32 1, bh_parentHash = replicate 32 2, bh_timestamp = 9, bh_baseFeePerGas = Some 3\<rparr>"

definition demo_log :: RpcLog where
  "demo_log = \<lparr>rp_address = replicate 20 1, rp_topics = [replicate 32 2], rp_data = [1, 2], rp_blockNumber = 7,
     rp_transactionHash = replicate 32 3, rp_transactionIndex = 0, rp_blockHash = replicate 32 4, rp_logIndex = 5, rp_removed = False\<rparr>"

theorem RpcClient_round_trip_witness:
  "rpc_GetBlockByNumber (demo_rpc (header_json demo_header)) 7 1 = (Inr (Some demo_header), 2) \<and>
   rpc_GetLogs (demo_rpc (J_Arr [log_json demo_log])) \<lparr>lf_fromBlock = None, lf_toBlock = None, lf_address = None, lf_topics = []\<rparr> 1
     = (Inr [demo_log], 2) \<and>
   rpc_GetChainId (demo_rpc (J_Str (ToQuantity 1))) 1 = (Inr 1, 2)"
proof -
  have typed: "header_typed demo_header" "list_all log_typed [demo_log]"
    by (simp_all add: header_typed_def demo_header_def log_typed_def demo_log_def)
  show ?thesis
    using RpcClient_round_trip [of demo_header "demo_rpc (header_json demo_header)" 1 7]
      RpcClient_round_trip [of demo_header "demo_rpc (J_Arr [log_json demo_log])" 1 7 "[demo_log]"
        "\<lparr>lf_fromBlock = None, lf_toBlock = None, lf_address = None, lf_topics = []\<rparr>"]
      RpcClient_round_trip [of demo_header "demo_rpc (J_Str (ToQuantity 1))" 1 7 _ _ _ _ 1]
      typed demo_rpc_result
    by (simp add: numeral_2_eq_2)
qed

section \<open>Endpoint lists\<close>

text \<open>A list of endpoints as an operator writes it: entries with white space around them, between commas.\<close>

fun endpoint_text :: "(string \<times> string \<times> string) list \<Rightarrow> string" where
  "endpoint_text [] = []"
| "endpoint_text [(l, e, r)] = l @ e @ r"
| "endpoint_text ((l, e, r) # es) = l @ e @ r @ CHR '','' # endpoint_text es"

definition endpoint_entry :: "string \<times> string \<times> string \<Rightarrow> bool" where
  "endpoint_entry = (\<lambda>(l, e, r). list_all is_space l \<and> list_all is_space r \<and> CHR '','' \<notin> set e \<and>
     (e \<noteq> [] \<longrightarrow> \<not> is_space (hd e) \<and> \<not> is_space (last e)))"

lemma dropWhile_spaces: "list_all is_space l \<Longrightarrow> e = [] \<or> \<not> is_space (hd e) \<Longrightarrow> dropWhile is_space (l @ e) = e"
  by (induction l) (auto simp: dropWhile_eq_self_iff)

lemma Trim_entry:
  assumes "endpoint_entry (l, e, r)"
  shows "Trim (l @ e @ r) = e"
proof (cases "e = []")
  case True
  with assms have "list_all is_space (l @ r)" by (simp add: endpoint_entry_def)
  then have "dropWhile is_space (l @ r) = []" by (simp only: dropWhile_eq_Nil_conv list_all_iff)
  then show ?thesis using True by (simp only: Trim_def append_Nil rev.simps dropWhile.simps)
next
  case False
  with assms have "dropWhile is_space (l @ e @ r) = e @ r"
    by (intro dropWhile_spaces) (simp_all add: endpoint_entry_def)
  moreover have "dropWhile is_space (rev r @ rev e) = rev e"
    using assms False by (intro dropWhile_spaces) (simp_all add: endpoint_entry_def hd_rev)
  ultimately show ?thesis by (simp add: Trim_def)
qed

lemma entry_no_comma: "endpoint_entry (l, e, r) \<Longrightarrow> CHR '','' \<notin> set (l @ e @ r)"
  by (auto simp: endpoint_entry_def list_all_iff is_space_def)

declare ParseRpcEndpoints.simps [simp del]

lemma ParseRpcEndpoints_last:
  "CHR '','' \<notin> set s \<Longrightarrow> ParseRpcEndpoints s = (if Trim s = [] then [] else [Trim s])"
proof -
  assume s: "CHR '','' \<notin> set s"
  have "takeWhile (\<lambda>c. c \<noteq> CHR '','') s = s" "dropWhile (\<lambda>c. c \<noteq> CHR '','') s = []"
    using s by (auto simp: takeWhile_eq_all_conv dropWhile_eq_Nil_conv simp del: not_None_eq)
  then show ?thesis
    unfolding ParseRpcEndpoints.simps [of s] Let_def by (simp only: list.case) (simp add: Trim_def [of "[]"])
qed

lemma ParseRpcEndpoints_cons:
  "CHR '','' \<notin> set s \<Longrightarrow>
    ParseRpcEndpoints (s @ CHR '','' # rest) = (if Trim s = [] then [] else [Trim s]) @ ParseRpcEndpoints rest"
proof -
  assume "CHR '','' \<notin> set s"
  then have "takeWhile (\<lambda>c. c \<noteq> CHR '','') (s @ CHR '','' # rest) = s"
    "dropWhile (\<lambda>c. c \<noteq> CHR '','') (s @ CHR '','' # rest) = CHR '','' # rest"
    by (auto simp: takeWhile_tail dropWhile_append3)
  then show ?thesis by (subst ParseRpcEndpoints.simps) simp
qed

lemma ParseRpcEndpoints_text:
  "list_all endpoint_entry es \<Longrightarrow> ParseRpcEndpoints (endpoint_text es) = filter (\<lambda>e. e \<noteq> []) (map (\<lambda>(l, e, r). e) es)"
proof (induction es rule: endpoint_text.induct)
  case 1
  then show ?case by (simp add: ParseRpcEndpoints.simps)
next
  case (2 l e r)
  then show ?case by (simp add: ParseRpcEndpoints_last [OF entry_no_comma] Trim_entry)
next
  case (3 l e r v va)
  then show ?case
    using ParseRpcEndpoints_cons [OF entry_no_comma, of l e r "endpoint_text (v # va)"] by (simp add: Trim_entry)
qed

lemma merge_loop:
  fixes xs :: "string list"
  defines "f \<equiv> \<lambda>result e. if e \<in> set result then result else result @ [e]"
  shows "distinct acc \<Longrightarrow> acc \<noteq> [] \<Longrightarrow> distinct (foldl f acc xs) \<and> set (foldl f acc xs) = set acc \<union> set xs \<and> hd (foldl f acc xs) = hd acc"
  by (induction xs arbitrary: acc) (auto simp: f_def)

text \<open>Endpoint lists. A comma-separated list with any white space and empty entries is read as the
  endpoints in it, in order; merging puts the primary endpoint first, keeps each endpoint once and
  loses none.\<close>

theorem endpoints_read:
  assumes "list_all endpoint_entry es"
  shows "ParseRpcEndpoints (endpoint_text es) = filter (\<lambda>e. e \<noteq> []) (map (\<lambda>(l, e, r). e) es) \<and>
    (let merged = MergeRpcEndpoints primary (ParseRpcEndpoints (endpoint_text es)) in
     hd merged = primary \<and> distinct merged \<and> set merged = insert primary (set (ParseRpcEndpoints (endpoint_text es))))"
  using ParseRpcEndpoints_text [OF assms] merge_loop [of "[primary]" "ParseRpcEndpoints (endpoint_text es)"]
  by (simp add: MergeRpcEndpoints_def Let_def)

theorem endpoints_read_witness:
  "ParseRpcEndpoints '' http://a , ,http://b,http://a'' = [''http://a'', ''http://b'', ''http://a'']"
  using endpoints_read [of "[('' '', ''http://a'', '' ''), ([], [], '' ''), ([], ''http://b'', []), ([], ''http://a'', [])]" "[]"]
  by (simp add: endpoint_entry_def is_space_def)

end
