(* ===== verification/Failover_Correct.thy ===== *)
theory Failover_Correct
  imports Failover Rpc_Correct
begin

text \<open>
  The guarantees of the clients over several endpoints: answers only from endpoints of one chain,
  availability as long as one endpoint works, the result of a broadcast, and the agreement on the
  checkpoint when the indexer changes endpoints.
\<close>

section \<open>The contract of a ring of endpoints\<close>

text \<open>What an attempt on one endpoint promises: an invariant that survives its exceptions, and a
  guarantee for what it returns. The loop over the ring gives the same guarantee, and it returns if
  some endpoint of the ring never throws.\<close>

locale endpoint_ring =
  fixes attempt :: "nat \<Rightarrow> ('s, 'a) prog"
    and inv :: "'s \<Rightarrow> bool"
    and served :: "nat \<Rightarrow> 'a \<Rightarrow> 's \<Rightarrow> bool"
    and size :: nat
  assumes attempt_valid: "i < size \<Longrightarrow> valid inv (attempt i) (served i) (\<lambda>_. inv)"
begin

lemma failover_valid:
  assumes "\<forall>i \<in> set is. i < size"
  shows "valid inv (failover attempt is e) (\<lambda>x s. \<exists>i < size. served i x s) (\<lambda>_. inv)"
  using assms
proof (induction "is" arbitrary: e)
  case Nil
  show ?case by (simp add: rethrow_def valid_raise)
next
  case (Cons i "is")
  then have "i < size" by simp
  show ?case unfolding failover.simps
  proof (rule valid_catchp)
    show "valid inv (attempt i) (\<lambda>x s. \<exists>i < size. served i x s) (\<lambda>_. inv)"
      by (rule valid_weaken [OF attempt_valid [OF \<open>i < size\<close>]]) (use \<open>i < size\<close> in auto)
    show "valid inv (failover attempt is (Some e)) (\<lambda>x s. \<exists>i < size. served i x s) (\<lambda>_. inv)" for e
      using Cons by auto
  qed
qed

lemma failover_returns:
  assumes "\<forall>j \<in> set is. j < size" "i \<in> set is" "inv s"
    and "\<And>s. inv s \<Longrightarrow> \<exists>x s'. attempt i s = (Inr x, s')"
  shows "\<exists>x s'. failover attempt is e s = (Inr x, s')"
  using assms
proof (induction "is" arbitrary: e s)
  case Nil
  then show ?case by simp
next
  case (Cons j "is")
  show ?case
  proof (cases "attempt j s")
    case (Pair r s')
    show ?thesis
    proof (cases r)
      case (Inr x)
      with Pair show ?thesis by (simp add: catchp_def)
    next
      case (Inl e')
      have "inv s'" using attempt_valid [of j] Cons.prems(1,3) Pair Inl by (auto dest: validD(2))
      moreover have "i \<in> set is" using Cons.prems(2) Cons.prems(4) [OF Cons.prems(3)] Pair Inl by auto
      ultimately obtain x s'' where "failover attempt is (Some e') s' = (Inr x, s'')"
        using Cons.IH [of s' "Some e'"] Cons.prems(1,4) by auto
      with Pair Inl show ?thesis by (simp add: catchp_def)
    qed
  qed
qed

end

lemma ring_less: "i \<in> set (ring start n) \<Longrightarrow> i < n"
  by (cases n) (auto simp: ring_def)

lemma ring_complete:
  assumes "i < n"
  shows "i \<in> set (ring start n)"
proof -
  let ?o = "(i + (n - start mod n)) mod n"
  have "start mod n < n" using assms by simp
  then have "(start + ?o) mod n = (start mod n + (i + (n - start mod n))) mod n"
    by (simp only: mod_add_left_eq mod_add_right_eq)
  also have "start mod n + (i + (n - start mod n)) = i + n" using \<open>start mod n < n\<close> by simp
  finally have "(start + ?o) mod n = i" using assms by simp
  moreover have "?o < n" using assms by simp
  ultimately show ?thesis by (force simp: ring_def)
qed

section \<open>The transaction client\<close>

text \<open>An operation never takes a request number back.\<close>

definition counts_up :: "(RpcClient \<Rightarrow> (nat, 'a) prog) \<Rightarrow> bool" where
  "counts_up operation \<longleftrightarrow> (\<forall>client n. n \<le> snd (operation client n))"

text \<open>The endpoint has answered \<open>eth_chainId\<close> with \<open>c\<close> in one of its requests so far.\<close>

definition reported :: "RpcClient \<Rightarrow> nat \<Rightarrow> uint256 \<Rightarrow> bool" where
  "reported client n c \<longleftrightarrow> (\<exists>k < n. fst (rpc_GetChainId client k) = Inr c)"

definition tx_rpc_ok :: "RpcClient list \<Rightarrow> TxRpcState \<Rightarrow> bool" where
  "tx_rpc_ok endpoints s \<longleftrightarrow> endpoints \<noteq> [] \<and> length (rs_requests s) = length endpoints \<and>
     length (rs_validated s) = length endpoints \<and> rs_activeIndex s < length endpoints \<and>
     (\<forall>i < length endpoints. rs_validated s ! i \<longrightarrow>
        (\<exists>c. rs_chainId s = Some c \<and> reported (endpoints ! i) (rs_requests s ! i) c))"

definition keeps_chain :: "uint256 option \<Rightarrow> TxRpcState \<Rightarrow> bool" where
  "keeps_chain c s \<longleftrightarrow> (c \<noteq> None \<longrightarrow> rs_chainId s = c)"

lemma reported_mono: "reported client n c \<Longrightarrow> n \<le> m \<Longrightarrow> reported client m c"
  unfolding reported_def by (meson less_le_trans)

lemma GetChainId_counts: "snd (rpc_GetChainId client n) = Suc n"
  by (simp add: rpc_GetChainId_def call_quantity_def call_run)

lemma on_endpoint_ok:
  assumes "tx_rpc_ok endpoints s" "counts_up operation" "on_endpoint endpoints i operation s = (r, s')" "i < length endpoints"
  shows "tx_rpc_ok endpoints s' \<and> rs_validated s' = rs_validated s \<and> rs_chainId s' = rs_chainId s \<and>
    rs_activeIndex s' = rs_activeIndex s \<and> fst (operation (endpoints ! i) (rs_requests s ! i)) = r \<and>
    rs_requests s' ! i = snd (operation (endpoints ! i) (rs_requests s ! i))"
proof -
  have s': "s' = s\<lparr>rs_requests := (rs_requests s)[i := snd (operation (endpoints ! i) (rs_requests s ! i))]\<rparr>"
    and r: "r = fst (operation (endpoints ! i) (rs_requests s ! i))"
    using assms(3) by (auto simp: on_endpoint_def split: prod.splits)
  have grows: "rs_requests s ! j \<le> rs_requests s' ! j" if "j < length endpoints" for j
    using that assms(1,2) by (cases "j = i") (auto simp: s' counts_up_def tx_rpc_ok_def)
  have same: "rs_validated s' = rs_validated s" "rs_chainId s' = rs_chainId s" "rs_activeIndex s' = rs_activeIndex s"
    "length (rs_requests s') = length (rs_requests s)" by (simp_all add: s')
  have "\<exists>c. rs_chainId s' = Some c \<and> reported (endpoints ! j) (rs_requests s' ! j) c"
    if j: "j < length endpoints" "rs_validated s' ! j" for j
  proof -
    obtain c where "rs_chainId s = Some c" "reported (endpoints ! j) (rs_requests s ! j) c"
      using assms(1) j by (auto simp: tx_rpc_ok_def same)
    with reported_mono [OF _ grows [OF j(1)]] show ?thesis by (auto simp: same)
  qed
  then have "tx_rpc_ok endpoints s'" using assms(1) by (simp add: tx_rpc_ok_def same)
  moreover have "i < length (rs_requests s)" using assms(1,4) by (simp add: tx_rpc_ok_def)
  ultimately show ?thesis by (simp add: same r) (simp add: s')
qed

lemma Validate_valid:
  assumes "i < length endpoints"
  shows "valid (\<lambda>s. tx_rpc_ok endpoints s \<and> keeps_chain c s) (Validate endpoints i)
    (\<lambda>_ s. tx_rpc_ok endpoints s \<and> keeps_chain c s \<and> rs_validated s ! i) (\<lambda>_ s. tx_rpc_ok endpoints s \<and> keeps_chain c s)"
proof -
  have *: "case Validate endpoints i s of (r, s') \<Rightarrow> tx_rpc_ok endpoints s' \<and> keeps_chain c s' \<and> (\<forall>u. r = Inr u \<longrightarrow> rs_validated s' ! i)"
    if s: "tx_rpc_ok endpoints s" "keeps_chain c s" for s
  proof (cases "rs_validated s ! i")
    case True
    with s show ?thesis by (simp add: Validate_def bindp_def query_def ret_def)
  next
    case False
    obtain r s' where run: "on_endpoint endpoints i rpc_GetChainId s = (r, s')" by fastforce
    have up: "counts_up rpc_GetChainId" by (simp add: counts_up_def GetChainId_counts)
    note ok = on_endpoint_ok [OF s(1) up run assms]
    show ?thesis
    proof (cases r)
      case (Inl e)
      with False run ok s show ?thesis by (simp add: Validate_def bindp_def query_def keeps_chain_def)
    next
      case (Inr d)
      then have rep: "reported (endpoints ! i) (rs_requests s' ! i) d"
        using ok by (auto simp: reported_def GetChainId_counts)
      have len: "i < length (rs_validated s)" using s(1) assms by (simp add: tx_rpc_ok_def)
      show ?thesis
      proof (cases "rs_chainId s")
        case None
        have none: "\<not> rs_validated s' ! j" if "j < length endpoints" for j
          using ok None that by (auto simp: tx_rpc_ok_def)
        with None False run Inr ok s rep len show ?thesis
          by (auto simp: Validate_def bindp_def query_def modify_def keeps_chain_def tx_rpc_ok_def nth_list_update)
      next
        case (Some known)
        with False run Inr ok s rep len show ?thesis
          by (auto simp: Validate_def bindp_def query_def modify_def ret_def raise_def keeps_chain_def tx_rpc_ok_def nth_list_update)
      qed
    qed
  qed
  show ?thesis by (rule validI) (use * in \<open>fastforce+\<close>)
qed

definition tx_inv :: "RpcClient list \<Rightarrow> (RpcClient \<Rightarrow> (nat, 'a) prog) \<Rightarrow> uint256 option \<Rightarrow> TxRpcState \<Rightarrow> bool" where
  "tx_inv endpoints operation c s \<longleftrightarrow> tx_rpc_ok endpoints s \<and> counts_up operation \<and> keeps_chain c s"

definition tx_served :: "RpcClient list \<Rightarrow> (RpcClient \<Rightarrow> (nat, 'a) prog) \<Rightarrow> nat \<Rightarrow> 'a \<Rightarrow> TxRpcState \<Rightarrow> bool" where
  "tx_served endpoints operation i x s \<longleftrightarrow>
     rs_activeIndex s = i \<and> rs_validated s ! i \<and> (\<exists>k. fst (operation (endpoints ! i) k) = Inr x)"

interpretation tx_ring: endpoint_ring "execute_attempt endpoints operation" "tx_inv endpoints operation c"
  "\<lambda>i x s. tx_inv endpoints operation c s \<and> tx_served endpoints operation i x s" "length endpoints" for endpoints operation c
proof
  fix i assume i: "i < length endpoints"
  let ?I = "tx_inv endpoints operation c"
  have op: "case on_endpoint endpoints i operation s of (r, s') \<Rightarrow> ?I s' \<and> rs_validated s' = rs_validated s \<and>
      (\<forall>x. r = Inr x \<longrightarrow> (\<exists>k. fst (operation (endpoints ! i) k) = Inr x))" if "?I s" for s
  proof (cases "on_endpoint endpoints i operation s")
    case (Pair r s')
    with that show ?thesis
      using on_endpoint_ok [of endpoints s operation i r s'] i by (auto simp: tx_inv_def keeps_chain_def)
  qed
  show "valid ?I (execute_attempt endpoints operation i) (\<lambda>x s. ?I s \<and> tx_served endpoints operation i x s) (\<lambda>_. ?I)"
    unfolding execute_attempt_def
  proof (rule valid_bindp [where R = "\<lambda>_ s. ?I s \<and> rs_validated s ! i"])
    show "valid ?I (Validate endpoints i) (\<lambda>_ s. ?I s \<and> rs_validated s ! i) (\<lambda>_. ?I)"
    proof (cases "counts_up operation")
      case True
      show ?thesis by (rule valid_weaken [OF Validate_valid [OF i, of c]]) (use True in \<open>auto simp: tx_inv_def\<close>)
    qed (simp add: tx_inv_def valid_def)
    show "valid (\<lambda>s. ?I s \<and> rs_validated s ! i) (bindp (on_endpoint endpoints i operation)
        (\<lambda>result. bindp (modify (\<lambda>s. s\<lparr>rs_activeIndex := i\<rparr>)) (\<lambda>_. ret result)))
        (\<lambda>x s. ?I s \<and> tx_served endpoints operation i x s) (\<lambda>_. ?I)" for u :: unit
    proof (rule validI)
      fix s x t assume "?I s \<and> rs_validated s ! i" "bindp (on_endpoint endpoints i operation)
        (\<lambda>result. bindp (modify (\<lambda>s. s\<lparr>rs_activeIndex := i\<rparr>)) (\<lambda>_. ret result)) s = (Inr x, t)"
      with op [of s] i show "?I t \<and> tx_served endpoints operation i x t"
        by (auto elim!: bindp_cases simp: modify_def ret_def tx_inv_def keeps_chain_def tx_rpc_ok_def tx_served_def)
    next
      fix s e t assume "?I s \<and> rs_validated s ! i" "bindp (on_endpoint endpoints i operation)
        (\<lambda>result. bindp (modify (\<lambda>s. s\<lparr>rs_activeIndex := i\<rparr>)) (\<lambda>_. ret result)) s = (Inl e, t)"
      with op [of s] show "?I t" by (auto elim!: bindp_cases simp: modify_def ret_def)
    qed
  qed
qed

lemma ExecuteFrom_valid:
  "valid (tx_inv endpoints operation c) (ExecuteFrom endpoints start operation)
    (\<lambda>x s. \<exists>i < length endpoints. tx_inv endpoints operation c s \<and> tx_served endpoints operation i x s)
    (\<lambda>_. tx_inv endpoints operation c)"
  unfolding ExecuteFrom_def by (rule tx_ring.failover_valid) (simp add: ring_less)

lemma Execute_from: "Execute endpoints operation s = ExecuteFrom endpoints (rs_activeIndex s) operation s"
  by (simp add: Execute_def bindp_def query_def)

section \<open>Broadcasting\<close>

text \<open>The outcomes of all the endpoints, in order, and what they come to: the hash of the first
  acceptance, else the last exception.\<close>

fun send_all :: "RpcClient list \<Rightarrow> bytes \<Rightarrow> nat list \<Rightarrow> TxRpcState \<Rightarrow> hash256 res list \<times> TxRpcState" where
  "send_all endpoints raw [] s = ([], s)"
| "send_all endpoints raw (i # is) s =
     (case send_attempt endpoints raw i s of (r, s') \<Rightarrow>
        case send_all endpoints raw is s' of (rs, t) \<Rightarrow> (r # rs, t))"

definition accepted :: "'a res list \<Rightarrow> 'a list" where
  "accepted rs = concat (map (case_sum (\<lambda>_. []) (\<lambda>h. [h])) rs)"

definition broadcast_outcome :: "hash256 res list \<Rightarrow> hash256 res" where
  "broadcast_outcome rs = (case accepted rs of h # _ \<Rightarrow> Inr h | [] \<Rightarrow> last rs)"

lemma accepted_simps [simp]: "accepted [] = []" "accepted (Inr h # rs) = h # accepted rs" "accepted (Inl e # rs) = accepted rs"
  by (simp_all add: accepted_def)

lemma broadcast_loop_outcome:
  "broadcast_loop endpoints raw is h e s =
     (case send_all endpoints raw is s of (rs, t) \<Rightarrow>
       ((case h of Some x \<Rightarrow> Inr x | None \<Rightarrow>
          (case accepted rs of x # _ \<Rightarrow> Inr x
           | [] \<Rightarrow> last (Inl (case e of Some e \<Rightarrow> e | None \<Rightarrow> Null_Dereference) # rs))), t))"
proof (induction "is" arbitrary: h e s)
  case Nil
  then show ?case by (cases h) (simp_all add: ret_def rethrow_def raise_def)
next
  case (Cons i "is")
  obtain r s' where r: "send_attempt endpoints raw i s = (r, s')" by fastforce
  obtain rs t where rs: "send_all endpoints raw is s' = (rs, t)" by fastforce
  show ?case
    by (cases r; cases h) (simp_all add: r rs bindp_def tryp_def Cons.IH split: list.splits)
qed

section \<open>The chain client\<close>

definition chain_inv :: "ChainRpc \<Rightarrow> uint256 \<Rightarrow> BlockHeader option \<Rightarrow> nat \<Rightarrow> ChainRpcState \<Rightarrow> bool" where
  "chain_inv chain c cp a s \<longleftrightarrow> cs_chainId s = Some c \<and> cs_checkpoint s = cp \<and> cs_activeIndex s = a"

text \<open>The endpoint has the chain id and holds the checkpoint.\<close>

definition agrees :: "RpcClient \<Rightarrow> uint256 \<Rightarrow> BlockHeader option \<Rightarrow> bool" where
  "agrees client c cp \<longleftrightarrow> (\<exists>k. fst (rpc_GetChainId client k) = Inr c) \<and>
     (\<forall>b. cp = Some b \<longrightarrow>
        (\<exists>k h. fst (rpc_GetBlockByNumber client (bh_number b) k) = Inr (Some h) \<and> bh_hash h = bh_hash b))"

definition chain_served :: "ChainRpc \<Rightarrow> (RpcClient \<Rightarrow> (nat, 'a) prog) \<Rightarrow> uint256 \<Rightarrow> BlockHeader option \<Rightarrow> nat \<Rightarrow> nat \<Rightarrow> 'a \<Rightarrow> ChainRpcState \<Rightarrow> bool" where
  "chain_served chain operation c cp a i x s \<longleftrightarrow> chain_inv chain c cp i s \<and>
     (i \<noteq> a \<longrightarrow> agrees (cn_clients chain ! i) c cp) \<and> (\<exists>k. fst (operation (cn_clients chain ! i) k) = Inr x)"

lemma on_client_valid:
  assumes "\<And>x. (\<exists>k. fst (operation (cn_clients chain ! i) k) = Inr x) \<Longrightarrow> P x"
  shows "valid (chain_inv chain c cp a) (on_client chain i operation) (\<lambda>x s. chain_inv chain c cp a s \<and> P x) (\<lambda>_. chain_inv chain c cp a)"
proof (rule validI)
  fix s x t assume "chain_inv chain c cp a s" "on_client chain i operation s = (Inr x, t)"
  moreover from this(2) have "fst (operation (cn_clients chain ! i) (cs_requests s ! i)) = Inr x"
    by (simp add: on_client_def split: prod.splits)
  then have "P x" by (intro assms exI)
  ultimately show "chain_inv chain c cp a t \<and> P x" by (auto simp: on_client_def chain_inv_def split: prod.splits)
qed (auto simp: on_client_def chain_inv_def split: prod.splits)

lemma check_checkpoint_valid:
  assumes "i \<noteq> a"
  shows "valid (chain_inv chain c cp a) (check_checkpoint chain i)
    (\<lambda>_ s. chain_inv chain c cp a s \<and> (\<forall>b. cp = Some b \<longrightarrow>
        (\<exists>k h. fst (rpc_GetBlockByNumber (cn_clients chain ! i) (bh_number b) k) = Inr (Some h) \<and> bh_hash h = bh_hash b)))
    (\<lambda>_. chain_inv chain c cp a)"
proof (cases cp)
  case None
  then show ?thesis
    by (auto simp: valid_def check_checkpoint_def bindp_def query_def ret_def chain_inv_def)
next
  case (Some b)
  let ?op = "\<lambda>client. rpc_GetBlockByNumber client (bh_number b)"
  have "valid (chain_inv chain c cp a) (bindp (on_client chain i ?op) (\<lambda>candidateBlock.
      if map_option bh_hash candidateBlock \<noteq> Some (bh_hash b)
      then raise (Runtime_Error ''RPC failover candidate has a different canonical block'') else ret ()))
    (\<lambda>_ s. chain_inv chain c cp a s \<and> (\<forall>b. cp = Some b \<longrightarrow>
        (\<exists>k h. fst (rpc_GetBlockByNumber (cn_clients chain ! i) (bh_number b) k) = Inr (Some h) \<and> bh_hash h = bh_hash b)))
    (\<lambda>_. chain_inv chain c cp a)"
    by (rule valid_bindp [OF on_client_valid [where P = "\<lambda>x. \<exists>k. fst (?op (cn_clients chain ! i) k) = Inr x"]])
      (auto simp: Some intro!: valid_if valid_raise valid_ret)
  then show ?thesis
    unfolding valid_def check_checkpoint_def
    by (auto simp: bindp_def [of "query Inr"] query_def chain_inv_def Some assms)
qed

interpretation chain_ring: endpoint_ring "chain_attempt chain operation" "chain_inv chain c cp a"
  "chain_served chain operation c cp a" "length (cn_clients chain)" for chain operation c cp a
proof
  fix i assume "i < length (cn_clients chain)"
  let ?I = "chain_inv chain c cp a" and ?A = "i \<noteq> a \<longrightarrow> agrees (cn_clients chain ! i) c cp"
  have check: "valid ?I (ValidateCandidate chain i) (\<lambda>_ s. ?I s \<and> ?A) (\<lambda>_. ?I)"
  proof (cases "i = a")
    case True
    then show ?thesis by (auto simp: valid_def ValidateCandidate_def bindp_def query_def ret_def chain_inv_def)
  next
    case False
    have "valid ?I (bindp (on_client chain i rpc_GetChainId) (\<lambda>candidateChainId.
        bindp (if candidateChainId \<noteq> c then raise (Runtime_Error ''RPC failover candidate belongs to a different chain'') else ret ())
          (\<lambda>_. check_checkpoint chain i))) (\<lambda>_ s. ?I s \<and> ?A) (\<lambda>_. ?I)"
    proof (rule valid_bindp [OF on_client_valid [where P = "\<lambda>x. \<exists>k. fst (rpc_GetChainId (cn_clients chain ! i) k) = Inr x"]], assumption)
      fix x
      show "valid (\<lambda>s. ?I s \<and> (\<exists>k. fst (rpc_GetChainId (cn_clients chain ! i) k) = Inr x))
         (bindp (if x \<noteq> c then raise (Runtime_Error ''RPC failover candidate belongs to a different chain'') else ret ())
          (\<lambda>_. check_checkpoint chain i)) (\<lambda>_ s. ?I s \<and> ?A) (\<lambda>_. ?I)"
      proof (cases "x = c")
        case True
        have "valid (\<lambda>s. ?I s \<and> (\<exists>k. fst (rpc_GetChainId (cn_clients chain ! i) k) = Inr c)) (check_checkpoint chain i)
            (\<lambda>_ s. ?I s \<and> ?A) (\<lambda>_. ?I)"
          by (rule valid_pre_conj, rule valid_weaken [OF check_checkpoint_valid [OF False]]) (auto simp: agrees_def)
        then show ?thesis using True by (simp add: valid_def bindp_def ret_def)
      qed (auto simp: valid_def bindp_def raise_def)
    qed
    then show ?thesis
      unfolding valid_def ValidateCandidate_def
      by (auto simp: bindp_def [of "query Inr"] query_def chain_inv_def False)
  qed
  have "valid (\<lambda>s. ?I s \<and> ?A) (bindp (on_client chain i operation) (\<lambda>result.
      bindp (modify (\<lambda>s. s\<lparr>cs_activeIndex := i\<rparr>)) (\<lambda>_. ret result))) (chain_served chain operation c cp a i) (\<lambda>_. ?I)"
    by (rule valid_pre_conj, rule valid_bindp [OF on_client_valid [where P = "\<lambda>x. \<exists>k. fst (operation (cn_clients chain ! i) k) = Inr x"]])
      (auto simp: valid_def bindp_def modify_def ret_def chain_served_def chain_inv_def)
  with check show "valid ?I (chain_attempt chain operation i) (chain_served chain operation c cp a i) (\<lambda>_. ?I)"
    unfolding chain_attempt_def by (rule valid_bindp)
qed

lemma chain_Execute_valid:
  "valid (chain_inv chain c cp a) (chain_Execute chain operation)
    (\<lambda>x s. \<exists>i < length (cn_clients chain). chain_served chain operation c cp a i x s) (\<lambda>_. chain_inv chain c cp a)"
proof -
  have run: "chain_Execute chain operation s =
      failover (chain_attempt chain operation) (ring (cs_activeIndex s) (length (cn_clients chain))) None s" for s
    by (simp add: chain_Execute_def bindp_def query_def)
  have "valid (chain_inv chain c cp a) (failover (chain_attempt chain operation) (ring start (length (cn_clients chain))) None)
      (\<lambda>x s. \<exists>i < length (cn_clients chain). chain_served chain operation c cp a i x s) (\<lambda>_. chain_inv chain c cp a)" for start
    by (rule chain_ring.failover_valid) (simp add: ring_less)
  from validD [OF this] show ?thesis unfolding run [abs_def] by (intro validI) blast+
qed

end
