(* ===== verification/Api_Correct.thy ===== *)
theory Api_Correct
  imports Api_Server Failover_Correct Indexed_View
begin

text \<open>
  What the API answers: heads only from endpoints of one chain, the state that the indexer projected,
  and the bound on the rate of requests.
\<close>

section \<open>The client of the API\<close>

text \<open>Two programs that leave the same states and return the same values; their exceptions may differ.\<close>

definition alike :: "('s, 'a) prog \<Rightarrow> ('s, 'a) prog \<Rightarrow> bool" where
  "alike m m' \<longleftrightarrow> (\<forall>s. snd (m s) = snd (m' s) \<and> (\<forall>x. fst (m s) = Inr x \<longleftrightarrow> fst (m' s) = Inr x))"

lemma alike_refl [simp]: "alike m m"
  by (simp add: alike_def)

lemma alike_sym: "alike m m' \<Longrightarrow> alike m' m"
  by (simp add: alike_def)

lemma alike_run:
  assumes "alike m m'" "m s = (r, t)"
  obtains r' where "m' s = (r', t)" "\<And>x. r = Inr x \<longleftrightarrow> r' = Inr x"
  using assms that [of "fst (m' s)"] unfolding alike_def by (metis fst_conv prod.collapse snd_conv)

lemma alike_bindp:
  assumes "alike m m'" "\<And>x. alike (f x) (f' x)"
  shows "alike (bindp m f) (bindp m' f')"
proof -
  have "snd (bindp m f s) = snd (bindp m' f' s) \<and> (\<forall>x. fst (bindp m f s) = Inr x \<longleftrightarrow> fst (bindp m' f' s) = Inr x)" for s
  proof (cases "m s")
    case (Pair r t)
    obtain r' where r': "m' s = (r', t)" "\<And>x. r = Inr x \<longleftrightarrow> r' = Inr x" using alike_run [OF assms(1) Pair] by blast
    show ?thesis
    proof (cases r)
      case (Inl e)
      with r'(2) obtain e' where "r' = Inl e'" by (cases r') auto
      with Inl Pair r'(1) show ?thesis by (simp add: bindp_def)
    next
      case (Inr x)
      with r' have "m' s = (Inr x, t)" by auto
      with Inr Pair assms(2) [of x] show ?thesis by (simp add: bindp_def alike_def)
    qed
  qed
  then show ?thesis by (simp add: alike_def)
qed

lemma valid_alike:
  assumes "valid P m Q (\<lambda>_. E)" "alike m m'"
  shows "valid P m' Q (\<lambda>_. E)"
proof (rule validI)
  fix s x t assume "P s" "m' s = (Inr x, t)"
  moreover from this(2) assms(2) have "m s = (Inr x, t)" by (simp add: alike_def prod_eq_iff)
  ultimately show "Q x t" using validD(1) [OF assms(1)] by blast
next
  fix s e t assume P: "P s" and m': "m' s = (Inl e, t)"
  obtain r where "m s = (r, t)" "\<And>x. Inl e = Inr x \<longleftrightarrow> r = Inr x"
    using alike_run [OF alike_sym [OF assms(2)] m'] by blast
  moreover from this(2) obtain e' where "r = Inl e'" by (cases r) auto
  ultimately show "E t" using P validD(2) [OF assms(1)] by blast
qed

lemma api_Validate_alike: "alike (Validate clients i) (api_Validate clients i)"
  unfolding Validate_def api_Validate_def
  by (intro alike_bindp alike_refl) (auto simp: alike_def ret_def raise_def bindp_def on_endpoint_def modify_def split: prod.splits sum.splits option.splits)

lemma api_attempt_alike: "alike (execute_attempt clients operation i) (api_attempt clients operation i)"
  unfolding execute_attempt_def api_attempt_def by (intro alike_bindp api_Validate_alike alike_refl)

interpretation api_ring: endpoint_ring "api_attempt clients operation" "tx_inv clients operation c"
  "\<lambda>i x s. tx_inv clients operation c s \<and> tx_served clients operation i x s" "length clients" for clients operation c
  by unfold_locales (rule valid_alike [OF tx_ring.attempt_valid api_attempt_alike])

section \<open>Routes\<close>

lemma last_hex:
  assumes "u \<noteq> []"
  shows "last (Address_ToHex u p) = hex_digit (last u AND 15)"
proof -
  have u: "u = butlast u @ [last u]" using assms by simp
  have "concat (map hex_of_byte u) = concat (map hex_of_byte (butlast u)) @ hex_of_byte (last u)"
    by (subst u) (simp only: map_append concat_append list.map concat.simps append_Nil2)
  then show ?thesis by (simp add: Address_ToHex_def Hex_Encode_def hex_of_byte_def)
qed

lemma hex_digit_not_h: "hex_digit (w AND 15) \<noteq> CHR ''h''"
proof
  assume "hex_digit (w AND 15) = CHR ''h''"
  moreover have "DecodeNibble err (CHR ''h'') \<noteq> Inr v" for v err by (simp add: DecodeNibble_def)
  ultimately show False using DecodeNibble_hex_digit [OF low_nibble_less [of w], of undefined] by metis
qed

lemma ends_with_append [simp]: "ends_with suffix (s @ suffix)"
  by (simp add: ends_with_def)

lemma ends_with_last: "ends_with suffix s \<Longrightarrow> suffix \<noteq> [] \<Longrightarrow> last s = last suffix"
  unfolding ends_with_def by (metis last_drop length_0_conv diff_less length_greater_0_conv le_zero_eq not_less)

lemma route_position:
  assumes "u \<noteq> []"
  shows "dispatch sv now \<lparr>aq_method = ''GET'', aq_target = ''/positions/'' @ Address_ToHex u True, aq_body = body\<rparr> =
      PositionHandler sv now (Address_ToHex u True) False"
    "dispatch sv now \<lparr>aq_method = ''GET'', aq_target = ''/positions/'' @ Address_ToHex u True @ ''/health'', aq_body = body\<rparr> =
      PositionHandler sv now (Address_ToHex u True) True"
proof -
  have "\<not> ends_with ''/health'' (Address_ToHex u True)"
    using ends_with_last [of "''/health''" "Address_ToHex u True"] last_hex [OF assms] hex_digit_not_h by auto
  then show "dispatch sv now \<lparr>aq_method = ''GET'', aq_target = ''/positions/'' @ Address_ToHex u True, aq_body = body\<rparr> =
      PositionHandler sv now (Address_ToHex u True) False"
    by (simp add: dispatch_def Let_def starts_with_def)
  have "ends_with ''/health'' (Address_ToHex u True @ ''/health'')" by (rule ends_with_append)
  then show "dispatch sv now \<lparr>aq_method = ''GET'', aq_target = ''/positions/'' @ Address_ToHex u True @ ''/health'', aq_body = body\<rparr> =
      PositionHandler sv now (Address_ToHex u True) True"
    by (simp add: dispatch_def Let_def starts_with_def)
qed

section \<open>The store\<close>

definition record_of :: "LiquidationState \<Rightarrow> LiquidationRecord" where
  "record_of l = \<lparr>lz_blockNumber = ls_blockNumber l, lz_transactionHash = ls_transactionHash l, lz_liquidator = ls_liquidator l,
     lz_borrower = ls_borrower l, lz_repaidAmount = ls_repaidAmount l, lz_collateralSeized = ls_collateralSeized l\<rparr>"

definition stats_of :: "DerivedState \<Rightarrow> ProtocolStats" where
  "stats_of s = \<lparr>st_positionCount = of_nat (card (dom (ds_positions s))), st_liquidationCount = of_nat (length (ds_liquidations s)),
     st_totalWethCollateral = mk_totalWethCollateral (ds_market s), st_totalScaledUsdcDebt = mk_totalScaledUsdcDebt (ds_market s),
     st_availableUsdcLiquidity = mk_availableUsdcLiquidity (ds_market s), st_protocolReserve = mk_protocolReserve (ds_market s),
     st_badDebt = mk_badDebt (ds_market s)\<rparr>"

lemma ParseRecord_row:
  assumes "liquidation_row chain l = Inr r" "liquidation_wf cid l"
  shows "ParseRecord r = Inr (record_of l)"
  using assms
  by (auto simp: liquidation_row_def ParseRecord_def record_of_def api_ParseHash_def ParseHash_Encode liquidation_wf_def
      Address_FromHex_ToHex FromDecimal_ToDecimal bigint_Inr elim!: bind_resE)

lemma view_stats:
  assumes "shows_state cid s b db" "finite (dom (ds_positions s))"
  shows "LoadProtocolStats db cid = Inr (stats_of s)"
proof -
  have "length (filter (\<lambda>r. lw_chain r = ToDecimal cid) (db_liquidations db)) = length (ds_liquidations s)"
    using assms(1) map_res_length [of "liquidation_row (ToDecimal cid)" "ds_liquidations s"] by (auto simp: shows_state_def)
  moreover have "length (filter (\<lambda>r. pw_chain r = ToDecimal cid) (db_positions db)) = card (dom (ds_positions s))"
    using assms by (simp add: shows_state_def shows_positions_def)
  ultimately show ?thesis
    using assms(1)
    by (simp add: LoadProtocolStats_def Let_def shows_state_def stats_of_def market_row_def market_columns_def FromDecimal_ToDecimal)
qed

lemma view_supply:
  assumes "shows_state cid s b db" "finite (dom (ds_positions s))"
  shows "LoadUsdcSupply db cid u = (case ds_positions s u of None \<Rightarrow> Inr 0
    | Some p \<Rightarrow> MulDivDown (ps_scaledUsdcSupply p) (mk_liquidityIndex (ds_market s)) Ray)"
  using assms user_rows [of cid "ds_positions s" db u]
  by (auto simp: LoadUsdcSupply_def Let_def shows_state_def position_row_def market_row_def market_columns_def FromDecimal_ToDecimal
      split: option.splits)

lemma view_liquidations:
  assumes "shows_state cid s b db" "state_wf cid cc s"
  shows "LoadLiquidations db cid limit = Inr (map record_of (take limit (rev (ds_liquidations s))))"
proof -
  let ?rs = "filter (\<lambda>r. lw_chain r = ToDecimal cid) (db_liquidations db)"
  have rs: "map_res (liquidation_row (ToDecimal cid)) (ds_liquidations s) = Inr ?rs" using assms(1) by (simp add: shows_state_def)
  have "map (\<lambda>r. [lw_number r, lw_log_index r]) ?rs = map liquidation_order (ds_liquidations s)"
    using rs liquidation_row_fields(2) by (rule map_res_map)
  then have "sort_key (\<lambda>r. [lw_number r, lw_log_index r]) ?rs = ?rs"
    using assms(2) by (intro sort_key_id_if_sorted) (simp add: state_wf_def)
  moreover have "map_res ParseRecord (take limit (rev ?rs)) = Inr (map record_of (take limit (rev (ds_liquidations s))))"
  proof -
    have "list_all2 (\<lambda>l r. liquidation_row (ToDecimal cid) l = Inr r) (ds_liquidations s) ?rs" using rs by (simp add: map_res_list_all2)
    moreover have "list_all (liquidation_wf cid) (ds_liquidations s)" using assms(2) by (simp add: state_wf_def)
    ultimately have "list_all2 (\<lambda>l r. ParseRecord r = Inr (record_of l)) (ds_liquidations s) ?rs"
      unfolding list_all2_conv_all_nth list_all_length using ParseRecord_row by (metis (no_types, lifting))
    then have "list_all2 (\<lambda>l r. ParseRecord r = Inr (record_of l)) (take limit (rev (ds_liquidations s))) (take limit (rev ?rs))"
      by (simp add: list_all2_takeI)
    then show ?thesis by (induction rule: list_all2_induct) auto
  qed
  ultimately show ?thesis by (simp add: LoadLiquidations_def)
qed

end
