(* ===== verification/Rate_Limit.thy ===== *)
theory Rate_Limit
  imports Api_Server
begin

text \<open>
  The request rate limiter of \<open>HttpServer.cpp\<close>. The clock is read before the lock is taken, so
  requests may enter the limiter in another order than their times; nothing below assumes an order.
\<close>

fun admitted :: "nat list \<Rightarrow> RequestRateLimiter \<Rightarrow> nat" where
  "admitted [] limiter = 0"
| "admitted (t # ts) limiter =
     (case Allow t limiter of (ok, limiter') \<Rightarrow> (if ok then 1 else 0) + admitted ts limiter')"

lemma Allow_same_window:
  "int t - int (rl_windowStart l) < 1000000000 \<Longrightarrow>
     Allow t l = (rl_requestCount l < 100, l\<lparr>rl_requestCount := Suc (rl_requestCount l)\<rparr>)"
  by (auto simp: Allow_def Let_def REQUESTS_PER_SECOND_def)

lemma Allow_new_window:
  "\<not> int t - int (rl_windowStart l) < 1000000000 \<Longrightarrow> Allow t l = (True, \<lparr>rl_windowStart = t, rl_requestCount = 1\<rparr>)"
  by (auto simp: Allow_def Let_def REQUESTS_PER_SECOND_def)

lemma admitted_in_window:
  assumes "\<forall>t \<in> set ts. int t - int (rl_windowStart l) < 1000000000"
  shows "admitted ts l = min (length ts) (100 - rl_requestCount l)"
  using assms
proof (induction ts arbitrary: l)
  case (Cons t ts)
  then have "admitted ts (l\<lparr>rl_requestCount := Suc (rl_requestCount l)\<rparr>) = min (length ts) (100 - Suc (rl_requestCount l))"
    using Cons.IH [of "l\<lparr>rl_requestCount := Suc (rl_requestCount l)\<rparr>"] by simp
  with Cons.prems show ?case by (auto simp: Allow_same_window)
qed simp

lemma admitted_in_second:
  assumes "\<forall>t \<in> set ts. a \<le> t \<and> t < a + 1000000000"
  shows "admitted ts l \<le> (100 - rl_requestCount l) + 100"
  using assms
proof (induction ts arbitrary: l)
  case (Cons t ts)
  show ?case
  proof (cases "int t - int (rl_windowStart l) < 1000000000")
    case True
    have "admitted ts (l\<lparr>rl_requestCount := Suc (rl_requestCount l)\<rparr>) \<le> (100 - Suc (rl_requestCount l)) + 100"
      using Cons.IH [of "l\<lparr>rl_requestCount := Suc (rl_requestCount l)\<rparr>"] Cons.prems by simp
    with True show ?thesis by (auto simp: Allow_same_window)
  next
    case False
    have "\<forall>u \<in> set ts. int u - int t < 1000000000" using Cons.prems by auto
    then have "admitted ts \<lparr>rl_windowStart = t, rl_requestCount = 1\<rparr> \<le> 99"
      using admitted_in_window [of ts "\<lparr>rl_windowStart = t, rl_requestCount = 1\<rparr>"] by simp
    with False show ?thesis by (simp add: Allow_new_window)
  qed
qed simp

lemma admitted_few: "rl_requestCount l + length ts \<le> 100 \<Longrightarrow> admitted ts l = length ts"
proof (induction ts arbitrary: l)
  case (Cons t ts)
  show ?case
  proof (cases "int t - int (rl_windowStart l) < 1000000000")
    case True
    with Cons show ?thesis by (simp add: Allow_same_window)
  next
    case False
    with Cons.prems Cons.IH [of "\<lparr>rl_windowStart = t, rl_requestCount = 1\<rparr>"] show ?thesis by (simp add: Allow_new_window)
  qed
qed simp

text \<open>C18. The rate of requests. Of the requests whose times lie within one second, in whatever order they
  enter the limiter, at most twice the configured hundred are served; within the window that is open,
  exactly as many as are left of the hundred; and while the count stays within the hundred no request
  is refused.\<close>

theorem Allow_rate:
  "((\<forall>t \<in> set ts. a \<le> t \<and> t < a + 1000000000) \<longrightarrow> admitted ts limiter \<le> 2 * REQUESTS_PER_SECOND) \<and>
   ((\<forall>t \<in> set ts. int t - int (rl_windowStart limiter) < 1000000000) \<longrightarrow>
      admitted ts limiter = min (length ts) (REQUESTS_PER_SECOND - rl_requestCount limiter)) \<and>
   (rl_requestCount limiter + length ts \<le> REQUESTS_PER_SECOND \<longrightarrow> admitted ts limiter = length ts)"
  using admitted_in_second [of ts a limiter] admitted_in_window [of ts limiter] admitted_few [of limiter ts]
  by (auto simp: REQUESTS_PER_SECOND_def)

text \<open>The double is reached: a hundred requests at the end of a window and a hundred at the start of the next.\<close>

theorem Allow_rate_witness:
  "admitted (replicate 100 (999999999 :: nat) @ replicate 100 1000000000) \<lparr>rl_windowStart = 0, rl_requestCount = 0\<rparr> = 200 \<and>
   admitted (replicate 100 (999999999 :: nat) @ replicate 150 1000000000) \<lparr>rl_windowStart = 0, rl_requestCount = 0\<rparr> \<le> 200 \<and>
   admitted (replicate 120 (5 :: nat)) \<lparr>rl_windowStart = 0, rl_requestCount = 0\<rparr> = 100"
proof -
  have "admitted (xs @ ys) l = admitted xs l + admitted ys (fold (\<lambda>t l. snd (Allow t l)) xs l)" for xs ys l
    by (induction xs arbitrary: l) (auto split: prod.splits)
  moreover have "fold (\<lambda>t l. snd (Allow t l)) (replicate n (999999999 :: nat)) \<lparr>rl_windowStart = 0, rl_requestCount = k\<rparr> =
      \<lparr>rl_windowStart = 0, rl_requestCount = n + k\<rparr>" for n k
    by (induction n arbitrary: k) (simp_all add: Allow_same_window)
  moreover have "admitted (replicate 100 (999999999 :: nat)) \<lparr>rl_windowStart = 0, rl_requestCount = 0\<rparr> = 100"
    using Allow_rate [of "replicate 100 999999999" 0 "\<lparr>rl_windowStart = 0, rl_requestCount = 0\<rparr>"] by (simp add: REQUESTS_PER_SECOND_def)
  moreover have "admitted (replicate 100 (1000000000 :: nat)) \<lparr>rl_windowStart = 0, rl_requestCount = 100\<rparr> = 100"
  proof -
    have "admitted (replicate (Suc 99) (1000000000 :: nat)) \<lparr>rl_windowStart = 0, rl_requestCount = 100\<rparr> = Suc 99"
      using admitted_few [of "\<lparr>rl_windowStart = 1000000000, rl_requestCount = 1\<rparr>" "replicate 99 1000000000"]
      by (simp only: replicate.simps(2) admitted.simps) (simp add: Allow_new_window)
    then show ?thesis by simp
  qed
  moreover have "admitted (replicate 100 (999999999 :: nat) @ replicate 150 1000000000) \<lparr>rl_windowStart = 0, rl_requestCount = 0\<rparr> \<le> 200"
    using Allow_rate [of "replicate 100 999999999 @ replicate 150 1000000000" 999999999 "\<lparr>rl_windowStart = 0, rl_requestCount = 0\<rparr>"]
    by (auto simp: REQUESTS_PER_SECOND_def)
  moreover have "admitted (replicate 120 (5 :: nat)) \<lparr>rl_windowStart = 0, rl_requestCount = 0\<rparr> = 100"
    using Allow_rate [of "replicate 120 5" 0 "\<lparr>rl_windowStart = 0, rl_requestCount = 0\<rparr>"] by (simp add: REQUESTS_PER_SECOND_def)
  ultimately show ?thesis by simp
qed

end
