(* ===== verification/Tx_Manager.thy ===== *)
theory Tx_Manager
  imports Tx_Store Transaction Effects
begin

text \<open>
  \<open>cpp/tx-manager/src/TxManager.cpp\<close>: queueing, the approval policy, nonce allocation, signing and
  broadcasting, replacement with higher fees, inclusion, confirmation and reorganisation of the jobs
  of one wallet. A job is passed by reference and changed step by step, also before an exception is
  caught, so it is part of the state, as is the local flag \<open>broadcastAttempted\<close>. Every RPC answer
  may differ from call to call and may be an exception. \<open>tw_sent\<close> records what is handed to
  \<open>SendRawTransaction\<close> and \<open>tw_audit\<close> the lines of the audit log.
\<close>

section \<open>Collaborators and state\<close>

record TransactionRpc =
  tc_GetChainId :: "nat \<Rightarrow> uint256 res"
  tc_GetBlockNumber :: "nat \<Rightarrow> uint64 res"
  tc_GetBlock :: "nat \<Rightarrow> uint64 \<Rightarrow> BlockHeader option res"
  tc_GetPendingNonce :: "nat \<Rightarrow> address \<Rightarrow> uint256 res"
  tc_EstimateGas :: "nat \<Rightarrow> TransactionCall \<Rightarrow> uint256 res"
  tc_GetFeeQuote :: "nat \<Rightarrow> FeeQuote res"
  tc_SendRawTransaction :: "nat \<Rightarrow> bytes \<Rightarrow> hash256 res"
  tc_GetReceipt :: "nat \<Rightarrow> hash256 \<Rightarrow> TransactionReceipt option res"

record ApprovedCall =
  ac_destination :: address
  ac_selector :: bytes
  ac_calldataSize :: nat

record TxManagerConfig =
  cf_confirmationDepth :: uint64
  cf_replacementAfterBlocks :: uint64
  cf_maximumRetries :: uint32
  cf_approvedCalls :: "ApprovedCall list"

record TxManagerRunResult =
  rr_active :: nat
  rr_included :: nat
  rr_finalized :: nat
  rr_reorged :: nat
  rr_failed :: nat
  rr_confirmationBlocks :: "uint64 list"

record TxManager =
  tm_rpc :: TransactionRpc
  tm_signer :: Secp256k1Signer
  tm_config :: TxManagerConfig
  tm_chainId :: uint256
  tm_lib :: secp256k1
  tm_keccak :: "bytes \<Rightarrow> hash256"

record TxWorld =
  tw_rows :: "TxJobRow list"
  tw_calls :: nat
  tw_job :: TxJob
  tw_broadcastAttempted :: bool
  tw_sent :: "bytes list"
  tw_audit :: "json list"

definition rpc_call :: "(nat \<Rightarrow> 'a res) \<Rightarrow> (TxWorld, 'a) prog" where
  "rpc_call f w = (f (tw_calls w), w\<lparr>tw_calls := Suc (tw_calls w)\<rparr>)"

definition get_job :: "(TxWorld, TxJob) prog" where
  "get_job = query (\<lambda>w. Inr (tw_job w))"

definition set_job :: "(TxJob \<Rightarrow> TxJob) \<Rightarrow> (TxWorld, unit) prog" where
  "set_job f = modify (\<lambda>w. w\<lparr>tw_job := f (tw_job w)\<rparr>)"

definition save_job :: "(TxWorld, unit) prog" where
  "save_job = transact (\<lambda>w. map_result (\<lambda>rows. ((), w\<lparr>tw_rows := rows\<rparr>)) (tx_Save (tw_job w) (tw_rows w)))"

definition deref :: "'a option \<Rightarrow> 'a res" where
  "deref v = (case v of None \<Rightarrow> Inl Null_Dereference | Some x \<Rightarrow> Inr x)"

definition TxManager_new ::
  "TransactionRpc \<Rightarrow> Secp256k1Signer \<Rightarrow> TxManagerConfig \<Rightarrow> secp256k1 \<Rightarrow> (bytes \<Rightarrow> hash256) \<Rightarrow> nat \<Rightarrow> TxManager res" where
  "TxManager_new rpc signer config lib keccak t =
     bind_res (tc_GetChainId rpc t) (\<lambda>chainId.
     if cf_confirmationDepth config = 0
     then Inl (Invalid_Argument ''transaction confirmation depth must be positive'')
     else Inr \<lparr>tm_rpc = rpc, tm_signer = signer, tm_config = config, tm_chainId = chainId, tm_lib = lib,
               tm_keccak = keccak\<rparr>)"

section \<open>Policy, nonces and fees\<close>

definition BumpFee :: "uint256 \<Rightarrow> uint256 res" where
  "BumpFee v = MulDivUp v 1125 1000"

text \<open>The JSON object of an audit line, its keys in the order the library keeps them.\<close>

definition audit_record :: "TxJob \<Rightarrow> string \<Rightarrow> json" where
  "audit_record job action = J_Obj (
     [(''action'', J_Str action), (''chainId'', J_Str (ToDecimal (tj_chainId job))),
      (''destination'', J_Str (Address_ToHex (tj_to job) True))] @
     (if tj_errorMessage job \<noteq> [] then [(''error'', J_Str (tj_errorMessage job))] else []) @
     [(''event'', J_Str ''transaction_audit''), (''jobId'', J_Str (tj_jobId job)),
      (''retryCount'', J_Num (unat (tj_retryCount job))),
      (''status'', J_Str (TxStatus_ToString (tj_status job)))] @
     (case tj_transactionHash job of Some h \<Rightarrow> [(''transactionHash'', J_Str (Hex_Encode h True))] | None \<Rightarrow> []) @
     [(''value'', J_Str (ToDecimal (tj_value job))), (''wallet'', J_Str (Address_ToHex (tj_wallet job) True))])"

definition Audit :: "string \<Rightarrow> (TxWorld, unit) prog" where
  "Audit action = modify (\<lambda>w. w\<lparr>tw_audit := tw_audit w @ [audit_record (tw_job w) action]\<rparr>)"

definition save_and_audit :: "string \<Rightarrow> (TxWorld, unit) prog" where
  "save_and_audit action = bindp save_job (\<lambda>_. Audit action)"

definition Queue :: "TxManager \<Rightarrow> nat \<Rightarrow> string \<Rightarrow> address \<Rightarrow> bytes \<Rightarrow> uint256 \<Rightarrow> TxJobRow list \<Rightarrow> bool \<times> TxJobRow list" where
  "Queue tm now jobId to data val rows =
     tx_Insert now
       \<lparr>tj_jobId = jobId, tj_chainId = tm_chainId tm, tj_wallet = signer_address (tm_signer tm), tj_to = to,
        tj_value = val, tj_data = data, tj_status = Pending, tj_nonce = None, tj_maxPriorityFeePerGas = None,
        tj_maxFeePerGas = None, tj_gasLimit = None, tj_rawTransaction = [], tj_transactionHash = None,
        tj_retryCount = 0, tj_submittedBlockNumber = None, tj_includedBlockNumber = None,
        tj_includedBlockHash = None, tj_confirmationCount = 0, tj_errorMessage = []\<rparr> rows"

definition AllocateNonce :: "TxManager \<Rightarrow> (TxWorld, uint256) prog" where
  "AllocateNonce tm =
     bindp (rpc_call (\<lambda>t. tc_GetPendingNonce (tm_rpc tm) t (signer_address (tm_signer tm)))) (\<lambda>rpcNonce.
     bindp (query (\<lambda>w. tx_LoadHighestNonce (tw_rows w) (tm_chainId tm) (signer_address (tm_signer tm)))) (\<lambda>storedNonce.
     case storedNonce of
       None \<Rightarrow> ret rpcNonce
     | Some stored \<Rightarrow>
         bindp (liftp (u256_add stored 1)) (\<lambda>nextStored.
         ret (if nextStored > rpcNonce then nextStored else rpcNonce))))"

definition IsApproved :: "TxManager \<Rightarrow> TxJob \<Rightarrow> bool" where
  "IsApproved tm job \<longleftrightarrow> tj_value job = 0 \<and>
     list_ex (\<lambda>a. tj_to job = ac_destination a \<and> length (tj_data job) = ac_calldataSize a \<and>
                  length (ac_selector a) \<le> length (tj_data job) \<and>
                  take (length (ac_selector a)) (tj_data job) = ac_selector a)
       (cf_approvedCalls (tm_config tm))"

section \<open>Submission\<close>

definition ensure_nonce :: "TxManager \<Rightarrow> (TxWorld, unit) prog" where
  "ensure_nonce tm =
     bindp get_job (\<lambda>job.
     if tj_nonce job = None
     then bindp (AllocateNonce tm) (\<lambda>n. set_job (\<lambda>j. j\<lparr>tj_nonce := Some n\<rparr>))
     else ret ())"

definition ensure_gas :: "TxManager \<Rightarrow> (TxWorld, unit) prog" where
  "ensure_gas tm =
     bindp get_job (\<lambda>job.
     if tj_gasLimit job = None
     then bindp (rpc_call (\<lambda>t. tc_EstimateGas (tm_rpc tm) t
                   \<lparr>ca_from = Some (signer_address (tm_signer tm)), ca_to = tj_to job, ca_data = tj_data job,
                    ca_value = tj_value job\<rparr>)) (\<lambda>g.
          set_job (\<lambda>j. j\<lparr>tj_gasLimit := Some g\<rparr>))
     else ret ())"

definition choose_fees :: "TxManager \<Rightarrow> bool \<Rightarrow> (TxWorld, unit) prog" where
  "choose_fees tm retry =
     bindp get_job (\<lambda>job.
     case (tj_maxPriorityFeePerGas job, tj_maxFeePerGas job) of
       (Some priority, Some fee) \<Rightarrow>
         if retry then
           bindp (set_job (\<lambda>j. j\<lparr>tj_status := Replaced\<rparr>)) (\<lambda>_.
           bindp (save_and_audit ''replaced'') (\<lambda>_.
           bindp (liftp (BumpFee priority)) (\<lambda>bumpedPriority.
           bindp (set_job (\<lambda>j. j\<lparr>tj_maxPriorityFeePerGas := Some bumpedPriority\<rparr>)) (\<lambda>_.
           bindp (liftp (BumpFee fee)) (\<lambda>bumpedFee.
           set_job (\<lambda>j. j\<lparr>tj_maxFeePerGas := Some bumpedFee\<rparr>))))))
         else
           bindp (rpc_call (tc_GetFeeQuote (tm_rpc tm))) (\<lambda>fees.
           set_job (\<lambda>j. j\<lparr>tj_maxPriorityFeePerGas := Some (fq_maxPriorityFeePerGas fees),
                          tj_maxFeePerGas := Some (fq_maxFeePerGas fees)\<rparr>))
     | _ \<Rightarrow>
         bindp (rpc_call (tc_GetFeeQuote (tm_rpc tm))) (\<lambda>fees.
         set_job (\<lambda>j. j\<lparr>tj_maxPriorityFeePerGas := Some (fq_maxPriorityFeePerGas fees),
                        tj_maxFeePerGas := Some (fq_maxFeePerGas fees)\<rparr>)))"

definition job_transaction :: "TxManager \<Rightarrow> TxJob \<Rightarrow> Eip1559Transaction res" where
  "job_transaction tm job =
     bind_res (deref (tj_nonce job)) (\<lambda>n.
     bind_res (deref (tj_maxPriorityFeePerGas job)) (\<lambda>priority.
     bind_res (deref (tj_maxFeePerGas job)) (\<lambda>fee.
     bind_res (deref (tj_gasLimit job)) (\<lambda>gas.
     Inr \<lparr>tx_chainId = tm_chainId tm, tx_nonce = n, tx_maxPriorityFeePerGas = priority,
          tx_maxFeePerGas = fee, tx_gasLimit = gas, tx_to = Some (tj_to job), tx_value = tj_value job,
          tx_data = tj_data job\<rparr>))))"

definition sign_and_send :: "TxManager \<Rightarrow> (TxWorld, unit) prog" where
  "sign_and_send tm =
     bindp get_job (\<lambda>job.
     bindp (liftp (job_transaction tm job)) (\<lambda>transaction.
     bindp (liftp (SignTransaction (tm_lib tm) (tm_keccak tm) (tm_signer tm) transaction)) (\<lambda>raw.
     bindp (set_job (\<lambda>j. j\<lparr>tj_rawTransaction := raw, tj_status := Submitted\<rparr>)) (\<lambda>_.
     bindp (rpc_call (tc_GetBlockNumber (tm_rpc tm))) (\<lambda>head.
     bindp (set_job (\<lambda>j. j\<lparr>tj_submittedBlockNumber := Some head,
              tj_transactionHash := Some (TransactionHash (tm_keccak tm) raw),
              tj_includedBlockNumber := None, tj_includedBlockHash := None, tj_confirmationCount := 0,
              tj_errorMessage := []\<rparr>)) (\<lambda>_.
     bindp (save_and_audit ''approved'') (\<lambda>_.
     bindp (modify (\<lambda>w. w\<lparr>tw_broadcastAttempted := True, tw_sent := tw_sent w @ [raw]\<rparr>)) (\<lambda>_.
     bindp (rpc_call (\<lambda>t. tc_SendRawTransaction (tm_rpc tm) t raw)) (\<lambda>submittedHash.
     bindp (set_job (\<lambda>j. j\<lparr>tj_transactionHash := Some submittedHash\<rparr>)) (\<lambda>_.
     save_and_audit ''broadcast''))))))))))"

definition fail_job :: "string \<Rightarrow> string \<Rightarrow> (TxWorld, unit) prog" where
  "fail_job message action =
     bindp (set_job (\<lambda>j. j\<lparr>tj_status := Failed, tj_errorMessage := message\<rparr>)) (\<lambda>_. save_and_audit action)"

definition submit_try :: "TxManager \<Rightarrow> bool \<Rightarrow> (TxWorld, unit) prog" where
  "submit_try tm retry =
     bindp get_job (\<lambda>job.
     if retry \<and> tj_retryCount job \<ge> cf_maximumRetries (tm_config tm)
     then fail_job ''transaction retry limit reached'' ''failed''
     else
       bindp (if retry then set_job (\<lambda>j. j\<lparr>tj_retryCount := tj_retryCount j + 1\<rparr>) else ret ()) (\<lambda>_.
       bindp (ensure_nonce tm) (\<lambda>_.
       bindp (ensure_gas tm) (\<lambda>_.
       bindp (choose_fees tm retry) (\<lambda>_.
       sign_and_send tm)))))"

definition submit_catch :: "TxManager \<Rightarrow> exn \<Rightarrow> (TxWorld, unit) prog" where
  "submit_catch tm e =
     (case e of
        Rpc_Exception k message \<Rightarrow>
          bindp (set_job (\<lambda>j. j\<lparr>tj_errorMessage := message\<rparr>)) (\<lambda>_.
          bindp (query (\<lambda>w. Inr w)) (\<lambda>w.
          if tw_broadcastAttempted w \<and> (k = Transport \<or> k = Http)
          then bindp (set_job (\<lambda>j. j\<lparr>tj_status := Submitted\<rparr>)) (\<lambda>_. save_and_audit ''broadcast_uncertain'')
          else
            let exhausted = tj_retryCount (tw_job w) \<ge> cf_maximumRetries (tm_config tm) in
            bindp (set_job (\<lambda>j. j\<lparr>tj_status := (if exhausted then Failed else Pending)\<rparr>)) (\<lambda>_.
            save_and_audit (if exhausted then ''failed'' else ''retry_pending''))))
      | _ \<Rightarrow> raise e)"

definition Submit :: "TxManager \<Rightarrow> bool \<Rightarrow> (TxWorld, unit) prog" where
  "Submit tm retry =
     bindp get_job (\<lambda>job.
     if \<not> IsApproved tm job
     then fail_job ''transaction rejected by approval policy'' ''rejected''
     else
       bindp (modify (\<lambda>w. w\<lparr>tw_broadcastAttempted := False\<rparr>)) (\<lambda>_.
       catchp (submit_try tm retry) (submit_catch tm)))"

section \<open>Polling\<close>

definition record_receipt :: "TransactionReceipt \<Rightarrow> (TxWorld, unit) prog" where
  "record_receipt receipt =
     bindp (liftp (ToUint64 (rc_blockNumber receipt))) (\<lambda>number.
     bindp (set_job (\<lambda>j. j\<lparr>tj_includedBlockNumber := Some number, tj_includedBlockHash := Some (rc_blockHash receipt),
              tj_status := (if rc_succeeded receipt then Included else Failed),
              tj_errorMessage := (if rc_succeeded receipt then tj_errorMessage j else ''transaction execution reverted'')\<rparr>)) (\<lambda>_.
     save_and_audit (if rc_succeeded receipt then ''included'' else ''execution_failed'')))"

definition poll_submitted :: "TxManager \<Rightarrow> TxJob \<Rightarrow> (TxWorld, unit) prog" where
  "poll_submitted tm job =
     bindp (liftp (deref (tj_transactionHash job))) (\<lambda>hash.
     bindp (rpc_call (\<lambda>t. tc_GetReceipt (tm_rpc tm) t hash)) (\<lambda>found.
     case found of
       Some receipt \<Rightarrow> record_receipt receipt
     | None \<Rightarrow>
         bindp (rpc_call (tc_GetBlockNumber (tm_rpc tm))) (\<lambda>head.
         if (case tj_submittedBlockNumber job of
               Some submitted \<Rightarrow> head \<ge> submitted + cf_replacementAfterBlocks (tm_config tm) | None \<Rightarrow> False)
         then if tj_retryCount job \<ge> cf_maximumRetries (tm_config tm)
              then fail_job ''transaction was not included before the replacement limit'' ''failed''
              else Submit tm True
         else ret ())))"

definition poll_included :: "TxManager \<Rightarrow> TxJob \<Rightarrow> (TxWorld, unit) prog" where
  "poll_included tm job =
     bindp (liftp (deref (tj_includedBlockNumber job))) (\<lambda>included.
     bindp (rpc_call (\<lambda>t. tc_GetBlock (tm_rpc tm) t included)) (\<lambda>canonicalBlock.
     bindp (case canonicalBlock of
              None \<Rightarrow> ret True
            | Some block \<Rightarrow> bindp (liftp (deref (tj_includedBlockHash job))) (\<lambda>hash. ret (bh_hash block \<noteq> hash))) (\<lambda>gone.
     if gone
     then bindp (set_job (\<lambda>j. j\<lparr>tj_status := Reorged, tj_errorMessage := ''included block is no longer canonical''\<rparr>)) (\<lambda>_.
          save_and_audit ''reorged'')
     else
       bindp (rpc_call (tc_GetBlockNumber (tm_rpc tm))) (\<lambda>head.
       let count = (if head \<ge> included then head - included + 1 else 0);
           final = (count \<ge> cf_confirmationDepth (tm_config tm))
       in bindp (set_job (\<lambda>j. j\<lparr>tj_confirmationCount := count, tj_status := (if final then Finalized else Included)\<rparr>)) (\<lambda>_.
          bindp save_job (\<lambda>_. if final then Audit ''finalized'' else ret ()))))))"

definition Poll :: "TxManager \<Rightarrow> (TxWorld, unit) prog" where
  "Poll tm =
     bindp get_job (\<lambda>job.
     if tj_status job = Submitted then poll_submitted tm job
     else if tj_status job \<noteq> Included then ret ()
     else poll_included tm job)"

section \<open>A round\<close>

definition count_job :: "TxStatus \<Rightarrow> TxJob \<Rightarrow> TxManagerRunResult \<Rightarrow> TxManagerRunResult" where
  "count_job previousStatus job result =
     (let result = (if tj_status job = Pending \<or> tj_status job = Submitted
                    then result\<lparr>rr_active := Suc (rr_active result)\<rparr> else result) in
      if previousStatus \<noteq> tj_status job then
        case tj_status job of
          Included \<Rightarrow> result\<lparr>rr_included := Suc (rr_included result)\<rparr>
        | Finalized \<Rightarrow>
            (let result = result\<lparr>rr_finalized := Suc (rr_finalized result)\<rparr> in
             case (tj_submittedBlockNumber job, tj_includedBlockNumber job) of
               (Some submitted, Some included) \<Rightarrow>
                 result\<lparr>rr_confirmationBlocks := rr_confirmationBlocks result @ [included - submitted + 1]\<rparr>
             | _ \<Rightarrow> result)
        | Reorged \<Rightarrow> result\<lparr>rr_reorged := Suc (rr_reorged result)\<rparr>
        | Failed \<Rightarrow> result\<lparr>rr_failed := Suc (rr_failed result)\<rparr>
        | _ \<Rightarrow> result
      else result)"

definition step_job :: "TxManager \<Rightarrow> (TxWorld, unit) prog" where
  "step_job tm =
     bindp get_job (\<lambda>job.
     if tj_status job = Pending then Submit tm (tj_errorMessage job \<noteq> []) else Poll tm)"

text \<open>The loop of \<open>RunOnce\<close>; each job starts with no broadcast attempted.\<close>

fun run_jobs :: "TxManager \<Rightarrow> TxJob list \<Rightarrow> TxManagerRunResult \<Rightarrow> (TxWorld, TxManagerRunResult) prog" where
  "run_jobs tm [] result = ret result"
| "run_jobs tm (job # jobs) result =
     bindp (modify (\<lambda>w. w\<lparr>tw_job := job, tw_broadcastAttempted := False\<rparr>)) (\<lambda>_.
     bindp (step_job tm) (\<lambda>_.
     bindp get_job (\<lambda>job'.
     run_jobs tm jobs (count_job (tj_status job) job' result))))"

definition RunOnce :: "TxManager \<Rightarrow> (TxWorld, TxManagerRunResult) prog" where
  "RunOnce tm =
     bindp (query (\<lambda>w. tx_LoadActive (tw_rows w) (tm_chainId tm) (signer_address (tm_signer tm)))) (\<lambda>jobs.
     run_jobs tm jobs \<lparr>rr_active = 0, rr_included = 0, rr_finalized = 0, rr_reorged = 0, rr_failed = 0,
       rr_confirmationBlocks = []\<rparr>)"

end
