(* ===== verification/Tx_Correct.thy ===== *)
theory Tx_Correct
  imports Tx_Manager
begin

text \<open>
  What a round of the transaction manager may do to the table and to the network. The life of a job
  in a round is followed from the job as loaded (\<open>j0\<close>): every row it writes is a legal successor of
  it, at most one transaction is broadcast, and that one is approved, signed and already in the
  table. All of it holds whatever the node answers, and also when the round is cut short by an
  exception.
\<close>

section \<open>Legal successors of a job\<close>

text \<open>What never changes: the identity and content of a job, a nonce once it is allocated; the
  retry counter only grows, up to the limit.\<close>

definition job_evolves :: "TxManager \<Rightarrow> TxJob \<Rightarrow> TxJob \<Rightarrow> bool" where
  "job_evolves tm j0 j \<longleftrightarrow>
     tj_jobId j = tj_jobId j0 \<and> tj_chainId j = tj_chainId j0 \<and> tj_wallet j = tj_wallet j0 \<and>
     tj_to j = tj_to j0 \<and> tj_value j = tj_value j0 \<and> tj_data j = tj_data j0 \<and>
     (tj_nonce j0 \<noteq> None \<longrightarrow> tj_nonce j = tj_nonce j0) \<and>
     tj_retryCount j0 \<le> tj_retryCount j \<and>
     (tj_retryCount j \<noteq> tj_retryCount j0 \<longrightarrow> tj_retryCount j \<le> cf_maximumRetries (tm_config tm))"

definition complete :: "TxJob \<Rightarrow> bool" where
  "complete j \<longleftrightarrow> tj_nonce j \<noteq> None \<and> tj_gasLimit j \<noteq> None \<and> tj_maxPriorityFeePerGas j \<noteq> None \<and>
     tj_maxFeePerGas j \<noteq> None \<and> tj_transactionHash j \<noteq> None \<and> tj_submittedBlockNumber j \<noteq> None"

text \<open>The statuses that may follow, with what the written job then carries.\<close>

definition legal :: "TxManager \<Rightarrow> TxJob \<Rightarrow> TxJob \<Rightarrow> bool" where
  "legal tm j0 j \<longleftrightarrow> job_evolves tm j0 j \<and>
     (case tj_status j of
        Pending \<Rightarrow> tj_status j0 \<in> {Pending, Submitted} \<and> IsApproved tm j0
      | Submitted \<Rightarrow> tj_status j0 \<in> {Pending, Submitted} \<and> IsApproved tm j0 \<and> complete j
      | Replaced \<Rightarrow> tj_status j0 \<in> {Pending, Submitted} \<and> IsApproved tm j0 \<and> tj_retryCount j = tj_retryCount j0 + 1
      | Failed \<Rightarrow> tj_status j0 \<in> {Pending, Submitted}
      | Included \<Rightarrow> tj_includedBlockNumber j \<noteq> None \<and> tj_includedBlockHash j \<noteq> None \<and>
          (tj_status j0 = Submitted \<or>
           tj_status j0 = Included \<and> tj_includedBlockNumber j = tj_includedBlockNumber j0 \<and>
             tj_includedBlockHash j = tj_includedBlockHash j0)
      | Finalized \<Rightarrow> tj_status j0 = Included \<and> tj_includedBlockNumber j = tj_includedBlockNumber j0 \<and>
          tj_includedBlockHash j = tj_includedBlockHash j0 \<and>
          cf_confirmationDepth (tm_config tm) \<le> tj_confirmationCount j
      | Reorged \<Rightarrow> tj_status j0 = Included)"

text \<open>A job in the table has what the manager dereferences.\<close>

definition job_defined :: "TxJob \<Rightarrow> bool" where
  "job_defined j \<longleftrightarrow> (tj_status j = Submitted \<longrightarrow> tj_transactionHash j \<noteq> None) \<and>
     (tj_status j = Included \<longrightarrow> tj_includedBlockNumber j \<noteq> None \<and> tj_includedBlockHash j \<noteq> None)"

text \<open>A transaction the operator may send: signed, without value, an approved call.\<close>

definition approved_raw :: "TxManager \<Rightarrow> bytes \<Rightarrow> bool" where
  "approved_raw tm raw \<longleftrightarrow>
     (\<exists>t. SignTransaction (tm_lib tm) (tm_keccak tm) (tm_signer tm) t = Inr raw \<and>
        tx_chainId t = tm_chainId tm \<and> tx_value t = 0 \<and>
        (\<exists>a \<in> set (cf_approvedCalls (tm_config tm)). tx_to t = Some (ac_destination a) \<and>
           length (tx_data t) = ac_calldataSize a \<and>
           take (length (ac_selector a)) (tx_data t) = ac_selector a))"

definition save_rows :: "TxJob \<Rightarrow> TxJobRow list \<Rightarrow> TxJobRow list" where
  "save_rows j rows = map (\<lambda>r. if tr_job_id r = tj_jobId j then saved_row j r else r) rows"

lemma save_rows_twice: "tj_jobId j' = tj_jobId j \<Longrightarrow> save_rows j' (save_rows j rows) = save_rows j' rows"
  by (simp add: save_rows_def saved_row_def)

lemma tx_Save_Inr: "tx_Save j rows = Inr rows' \<Longrightarrow> rows' = save_rows j rows"
  by (auto simp: tx_Save_def save_rows_def Let_def split: if_splits)

lemma job_evolves_refl [simp]: "job_evolves tm j j"
  by (simp add: job_evolves_def)

section \<open>The state of a job in a round\<close>

definition row_written :: "TxManager \<Rightarrow> TxJob \<Rightarrow> TxJobRow list \<Rightarrow> TxJobRow list \<Rightarrow> bool" where
  "row_written tm j0 rows0 rows \<longleftrightarrow> rows = rows0 \<or> (\<exists>j. legal tm j0 j \<and> rows = save_rows j rows0)"

text \<open>Nothing is sent yet, or one approved transaction, which is in the table.\<close>

definition sent_once :: "TxManager \<Rightarrow> TxJob \<Rightarrow> TxJobRow list \<Rightarrow> bytes list \<Rightarrow> TxWorld \<Rightarrow> bool" where
  "sent_once tm j0 rows0 sent0 w \<longleftrightarrow>
     (tw_sent w = sent0 \<and> row_written tm j0 rows0 (tw_rows w)) \<or>
     (\<exists>j. legal tm j0 j \<and> tw_rows w = save_rows j rows0 \<and> approved_raw tm (tj_rawTransaction j) \<and>
        tj_rawTransaction j = tj_rawTransaction (tw_job w) \<and> tw_sent w = sent0 @ [tj_rawTransaction j])"

definition in_round :: "TxManager \<Rightarrow> TxJob \<Rightarrow> TxJobRow list \<Rightarrow> bytes list \<Rightarrow> TxWorld \<Rightarrow> bool" where
  "in_round tm j0 rows0 sent0 w \<longleftrightarrow> job_evolves tm j0 (tw_job w) \<and> sent_once tm j0 rows0 sent0 w \<and>
     (tw_broadcastAttempted w \<longrightarrow> complete (tw_job w))"

text \<open>The same before the broadcast.\<close>

definition before_send :: "TxManager \<Rightarrow> TxJob \<Rightarrow> TxJobRow list \<Rightarrow> bytes list \<Rightarrow> TxWorld \<Rightarrow> bool" where
  "before_send tm j0 rows0 sent0 w \<longleftrightarrow> job_evolves tm j0 (tw_job w) \<and> tw_sent w = sent0 \<and>
     row_written tm j0 rows0 (tw_rows w) \<and> \<not> tw_broadcastAttempted w"

lemma before_send_in_round: "before_send tm j0 rows0 sent0 w \<Longrightarrow> in_round tm j0 rows0 sent0 w"
  by (simp add: before_send_def in_round_def sent_once_def)

section \<open>Rules\<close>

text \<open>The node never reports an undefined dereference.\<close>

definition rpc_defined :: "TransactionRpc \<Rightarrow> bool" where
  "rpc_defined rpc \<longleftrightarrow> (\<forall>t. tc_GetBlockNumber rpc t \<noteq> Inl Null_Dereference) \<and>
     (\<forall>t n. tc_GetBlock rpc t n \<noteq> Inl Null_Dereference) \<and>
     (\<forall>t a. tc_GetPendingNonce rpc t a \<noteq> Inl Null_Dereference) \<and>
     (\<forall>t c. tc_EstimateGas rpc t c \<noteq> Inl Null_Dereference) \<and>
     (\<forall>t. tc_GetFeeQuote rpc t \<noteq> Inl Null_Dereference) \<and>
     (\<forall>t raw. tc_SendRawTransaction rpc t raw \<noteq> Inl Null_Dereference) \<and>
     (\<forall>t h. tc_GetReceipt rpc t h \<noteq> Inl Null_Dereference)"

lemma valid_set_job: "(\<And>w. P w \<Longrightarrow> Q () (w\<lparr>tw_job := f (tw_job w)\<rparr>)) \<Longrightarrow> valid P (set_job f) Q E"
  unfolding set_job_def by (rule valid_modify)

lemma valid_get_job: "(\<And>j. valid (\<lambda>w. P w \<and> tw_job w = j) (f j) Q E) \<Longrightarrow> valid P (bindp get_job f) Q E"
  by (auto simp: valid_def bindp_def get_job_def query_def)

lemma valid_rpc_call:
  "(\<And>t x w. P w \<Longrightarrow> f t = Inr x \<Longrightarrow> Q x (w\<lparr>tw_calls := Suc (tw_calls w)\<rparr>)) \<Longrightarrow>
   (\<And>t e w. P w \<Longrightarrow> f t = Inl e \<Longrightarrow> E e (w\<lparr>tw_calls := Suc (tw_calls w)\<rparr>)) \<Longrightarrow> valid P (rpc_call f) Q E"
  by (auto simp: valid_def rpc_call_def split: sum.splits)

lemma valid_save_job:
  "(\<And>w. P w \<Longrightarrow> Q () (w\<lparr>tw_rows := save_rows (tw_job w) (tw_rows w)\<rparr>)) \<Longrightarrow> (\<And>w. P w \<Longrightarrow> E Sql_Error w) \<Longrightarrow>
    valid P save_job Q E"
  unfolding save_job_def
  by (rule valid_transact) (auto simp: map_result_Inr map_result_Inl tx_Save_def Let_def save_rows_def split: if_splits)

lemma valid_Audit: "(\<And>w a. P w \<Longrightarrow> Q () (w\<lparr>tw_audit := a\<rparr>)) \<Longrightarrow> valid P (Audit action) Q E"
  unfolding Audit_def by (rule valid_modify) simp

lemma in_round_frame [simp]:
  "in_round tm j0 rows0 sent0 (w\<lparr>tw_calls := k\<rparr>) = in_round tm j0 rows0 sent0 w"
  "in_round tm j0 rows0 sent0 (w\<lparr>tw_audit := a\<rparr>) = in_round tm j0 rows0 sent0 w"
  "before_send tm j0 rows0 sent0 (w\<lparr>tw_calls := k\<rparr>) = before_send tm j0 rows0 sent0 w"
  "before_send tm j0 rows0 sent0 (w\<lparr>tw_audit := a\<rparr>) = before_send tm j0 rows0 sent0 w"
  by (simp_all add: in_round_def sent_once_def before_send_def)

lemma in_round_save:
  assumes "in_round tm j0 rows0 sent0 w" "legal tm j0 (tw_job w)"
  shows "in_round tm j0 rows0 sent0 (w\<lparr>tw_rows := save_rows (tw_job w) (tw_rows w)\<rparr>)"
proof -
  have "save_rows (tw_job w) (save_rows j rows0) = save_rows (tw_job w) rows0" if "legal tm j0 j" for j
    using that assms(2) by (intro save_rows_twice) (simp add: legal_def job_evolves_def)
  then show ?thesis
    using assms by (auto simp: in_round_def sent_once_def row_written_def)
qed

lemma before_send_save:
  assumes "before_send tm j0 rows0 sent0 w" "legal tm j0 (tw_job w)"
  shows "before_send tm j0 rows0 sent0 (w\<lparr>tw_rows := save_rows (tw_job w) (tw_rows w)\<rparr>)"
proof -
  have "save_rows (tw_job w) (save_rows j rows0) = save_rows (tw_job w) rows0" if "legal tm j0 j" for j
    using that assms(2) by (intro save_rows_twice) (simp add: legal_def job_evolves_def)
  then show ?thesis using assms by (auto simp: before_send_def row_written_def)
qed

section \<open>No undefined dereference\<close>

named_theorems no_null "operations that never report an undefined dereference"

lemma fold_res_no_null: "(\<And>x t. f x t \<noteq> Inl Null_Dereference) \<Longrightarrow> fold_res f xs s \<noteq> Inl Null_Dereference"
proof (induction xs arbitrary: s)
  case (Cons x xs)
  then show ?case by (cases "f x s") (simp_all, metis)
qed simp

lemma u256_no_null [no_null]: "u256_add a b \<noteq> Inl Null_Dereference" "u256_mul a b \<noteq> Inl Null_Dereference"
  "u256_shl a n \<noteq> Inl Null_Dereference" "ToUint64 a \<noteq> Inl Null_Dereference"
  by (simp_all add: u256_add_def u256_mul_def u256_shl_def checked_def ToUint64_def)

lemma bind_no_null: "m \<noteq> Inl Null_Dereference \<Longrightarrow> (\<And>x. f x \<noteq> Inl Null_Dereference) \<Longrightarrow> bind_res m f \<noteq> Inl Null_Dereference"
  by (cases m) simp_all

lemma FromBytes_no_null [no_null]: "FromBytes bs \<noteq> Inl Null_Dereference"
  unfolding FromBytes_def by (intro fold_res_no_null bind_no_null u256_no_null)

lemma FromDecimal_no_null: "FromDecimal s \<noteq> Inl Null_Dereference"
proof -
  have "(if of_char d < (48 :: nat) \<or> of_char d > (57 :: nat)
       then Inl (Invalid_Argument ''uint256 decimal string contains an invalid character'')
       else bind_res (u256_mul r 10) (\<lambda>r. u256_add r (of_nat (of_char d - 48)))) \<noteq> Inl Null_Dereference"
    for d :: char and r
    by (simp add: bind_no_null u256_no_null)
  then show ?thesis unfolding FromDecimal_def by (simp add: fold_res_no_null)
qed

lemma BumpFee_no_null [no_null]: "BumpFee v \<noteq> Inl Null_Dereference"
  by (simp add: BumpFee_def MulDivUp_def FromWide_def Let_def FromBytes_no_null)

lemma LoadHighestNonce_no_null [no_null]: "tx_LoadHighestNonce rows c a \<noteq> Inl Null_Dereference"
  by (auto simp: tx_LoadHighestNonce_def numeric_field_def map_result_Inl FromDecimal_no_null split: list.splits)

lemma SignTransaction_no_null [no_null]: "SignTransaction lib keccak signer t \<noteq> Inl Null_Dereference"
  by (simp add: SignTransaction_def Sign_def map_result_Inl bind_no_null FromBytes_no_null split: option.splits prod.splits)

end
