(* ===== verification/Tx_Round.thy ===== *)
theory Tx_Round
  imports Tx_Correct
begin

text \<open>
  The methods of the transaction manager keep the state of a job in a round (\<open>in_round\<close>), one rule
  for each step of \<open>Submit\<close> and \<open>Poll\<close>.
\<close>

section \<open>Steps\<close>

text \<open>On an exception the job is still in its round, and the exception is a defined one.\<close>

definition thrown :: "TxManager \<Rightarrow> TxJob \<Rightarrow> TxJobRow list \<Rightarrow> bytes list \<Rightarrow> exn \<Rightarrow> TxWorld \<Rightarrow> bool" where
  "thrown tm j0 rows0 sent0 e w \<longleftrightarrow> in_round tm j0 rows0 sent0 w \<and> e \<noteq> Null_Dereference"

lemma thrown_frame [simp]:
  "thrown tm j0 rows0 sent0 e (w\<lparr>tw_calls := k\<rparr>) = thrown tm j0 rows0 sent0 e w"
  by (simp add: thrown_def)

lemma before_send_thrown: "before_send tm j0 rows0 sent0 w \<Longrightarrow> e \<noteq> Null_Dereference \<Longrightarrow> thrown tm j0 rows0 sent0 e w"
  by (simp add: thrown_def before_send_in_round)

lemma in_round_set:
  assumes "in_round tm j0 rows0 sent0 w" "job_evolves tm j0 j" "tj_rawTransaction j = tj_rawTransaction (tw_job w)"
    and "complete (tw_job w) \<longrightarrow> complete j"
  shows "in_round tm j0 rows0 sent0 (w\<lparr>tw_job := j\<rparr>)"
  using assms by (auto simp: in_round_def sent_once_def)

lemma before_send_set:
  "before_send tm j0 rows0 sent0 w \<Longrightarrow> job_evolves tm j0 j \<Longrightarrow> before_send tm j0 rows0 sent0 (w\<lparr>tw_job := j\<rparr>)"
  by (simp add: before_send_def)

lemma save_and_audit_valid:
  "valid (\<lambda>w. in_round tm j0 rows0 sent0 w \<and> legal tm j0 (tw_job w)) (save_and_audit action)
     (\<lambda>_. in_round tm j0 rows0 sent0) (thrown tm j0 rows0 sent0)"
  unfolding save_and_audit_def
  by (rule valid_bindp [where R = "\<lambda>_. in_round tm j0 rows0 sent0"])
     (auto intro!: valid_save_job valid_Audit in_round_save simp: thrown_def)

lemma legal_jobId: "legal tm j0 j \<Longrightarrow> tj_jobId j = tj_jobId j0"
  by (simp add: legal_def job_evolves_def)

lemma save_and_audit_written:
  "valid (\<lambda>w. before_send tm j0 rows0 sent0 w \<and> legal tm j0 (tw_job w) \<and> F (tw_job w)) (save_and_audit action)
     (\<lambda>_ w. before_send tm j0 rows0 sent0 w \<and> legal tm j0 (tw_job w) \<and> F (tw_job w) \<and>
        tw_rows w = save_rows (tw_job w) rows0) (thrown tm j0 rows0 sent0)"
proof -
  have rows: "save_rows (tw_job w) (tw_rows w) = save_rows (tw_job w) rows0"
    if "before_send tm j0 rows0 sent0 w" "legal tm j0 (tw_job w)" for w
    using that legal_jobId by (auto simp: before_send_def row_written_def intro!: save_rows_twice)
  show ?thesis
    unfolding save_and_audit_def
    by (rule valid_bindp [where R = "\<lambda>_ w. before_send tm j0 rows0 sent0 w \<and> legal tm j0 (tw_job w) \<and> F (tw_job w) \<and>
          tw_rows w = save_rows (tw_job w) rows0"])
       (auto intro!: valid_save_job valid_Audit before_send_save before_send_thrown simp: rows)
qed

lemma save_and_audit_before:
  "valid (\<lambda>w. before_send tm j0 rows0 sent0 w \<and> legal tm j0 (tw_job w) \<and> F (tw_job w)) (save_and_audit action)
     (\<lambda>_ w. before_send tm j0 rows0 sent0 w \<and> F (tw_job w)) (thrown tm j0 rows0 sent0)"
  by (rule valid_weaken [OF save_and_audit_written [where F = F]]) auto

lemma set_and_save_valid:
  assumes "\<And>w. P w \<Longrightarrow> in_round tm j0 rows0 sent0 w"
    and "\<And>w. P w \<Longrightarrow> legal tm j0 (f (tw_job w)) \<and> tj_rawTransaction (f (tw_job w)) = tj_rawTransaction (tw_job w) \<and>
      (complete (tw_job w) \<longrightarrow> complete (f (tw_job w)))"
  shows "valid P (bindp (set_job f) (\<lambda>_. save_and_audit action)) (\<lambda>_. in_round tm j0 rows0 sent0) (thrown tm j0 rows0 sent0)"
proof (rule valid_bindp [OF _ save_and_audit_valid], rule valid_set_job)
  fix w
  assume "P w"
  with assms have "in_round tm j0 rows0 sent0 w" "legal tm j0 (f (tw_job w))"
    "tj_rawTransaction (f (tw_job w)) = tj_rawTransaction (tw_job w)" "complete (tw_job w) \<longrightarrow> complete (f (tw_job w))"
    by blast+
  then show "in_round tm j0 rows0 sent0 (w\<lparr>tw_job := f (tw_job w)\<rparr>) \<and> legal tm j0 (tw_job (w\<lparr>tw_job := f (tw_job w)\<rparr>))"
    by (simp add: in_round_set legal_def)
qed

lemma evolves_simps [simp]:
  "job_evolves tm j0 (j\<lparr>tj_status := s\<rparr>) = job_evolves tm j0 j"
  "job_evolves tm j0 (j\<lparr>tj_errorMessage := m\<rparr>) = job_evolves tm j0 j"
  "job_evolves tm j0 (j\<lparr>tj_gasLimit := g\<rparr>) = job_evolves tm j0 j"
  "job_evolves tm j0 (j\<lparr>tj_maxPriorityFeePerGas := g\<rparr>) = job_evolves tm j0 j"
  "job_evolves tm j0 (j\<lparr>tj_maxFeePerGas := g\<rparr>) = job_evolves tm j0 j"
  "job_evolves tm j0 (j\<lparr>tj_rawTransaction := raw\<rparr>) = job_evolves tm j0 j"
  "job_evolves tm j0 (j\<lparr>tj_transactionHash := h\<rparr>) = job_evolves tm j0 j"
  "job_evolves tm j0 (j\<lparr>tj_submittedBlockNumber := n\<rparr>) = job_evolves tm j0 j"
  "job_evolves tm j0 (j\<lparr>tj_includedBlockNumber := n\<rparr>) = job_evolves tm j0 j"
  "job_evolves tm j0 (j\<lparr>tj_includedBlockHash := h\<rparr>) = job_evolves tm j0 j"
  "job_evolves tm j0 (j\<lparr>tj_confirmationCount := k\<rparr>) = job_evolves tm j0 j"
  by (simp_all add: job_evolves_def)

lemma complete_simps [simp]:
  "complete (j\<lparr>tj_status := s\<rparr>) = complete j" "complete (j\<lparr>tj_errorMessage := m\<rparr>) = complete j"
  "complete (j\<lparr>tj_includedBlockNumber := n\<rparr>) = complete j" "complete (j\<lparr>tj_includedBlockHash := h\<rparr>) = complete j"
  "complete (j\<lparr>tj_confirmationCount := c\<rparr>) = complete j"
  by (simp_all add: complete_def)

lemma fail_job_valid:
  assumes "tj_status j0 \<in> {Pending, Submitted}" "\<And>w. P w \<Longrightarrow> in_round tm j0 rows0 sent0 w"
  shows "valid P (fail_job message action) (\<lambda>_. in_round tm j0 rows0 sent0) (thrown tm j0 rows0 sent0)"
  unfolding fail_job_def
  by (rule set_and_save_valid) (use assms in \<open>auto simp: legal_def in_round_def\<close>)

section \<open>Submission\<close>

text \<open>The facts that the steps of \<open>Submit\<close> collect about the job.\<close>

definition counted :: "TxJob \<Rightarrow> bool \<Rightarrow> TxJob \<Rightarrow> bool" where
  "counted j0 retry j \<longleftrightarrow> (retry \<longrightarrow> tj_retryCount j = tj_retryCount j0 + 1)"

lemma AllocateNonce_valid:
  assumes "rpc_defined (tm_rpc tm)"
  shows "valid (\<lambda>w. before_send tm j0 rows0 sent0 w \<and> F (tw_job w)) (AllocateNonce tm)
    (\<lambda>_ w. before_send tm j0 rows0 sent0 w \<and> F (tw_job w)) (thrown tm j0 rows0 sent0)"
  unfolding AllocateNonce_def
  by (rule valid_bindp [where R = "\<lambda>_ w. before_send tm j0 rows0 sent0 w \<and> F (tw_job w)"],
      rule valid_rpc_call)
     (use assms in \<open>auto intro!: valid_bindp [where R = "\<lambda>_ w. before_send tm j0 rows0 sent0 w \<and> F (tw_job w)"]
        valid_query valid_case_option valid_ret valid_liftp before_send_thrown
        simp: rpc_defined_def no_null dest: no_null [THEN notE]\<close>)

lemma ensure_nonce_valid:
  assumes "rpc_defined (tm_rpc tm)"
  shows "valid (\<lambda>w. before_send tm j0 rows0 sent0 w \<and> counted j0 retry (tw_job w)) (ensure_nonce tm)
    (\<lambda>_ w. before_send tm j0 rows0 sent0 w \<and> counted j0 retry (tw_job w) \<and> tj_nonce (tw_job w) \<noteq> None)
    (thrown tm j0 rows0 sent0)"
  unfolding ensure_nonce_def
proof (rule valid_get_job, rule valid_if)
  fix j :: TxJob
  assume none: "tj_nonce j = None"
  let ?F = "\<lambda>j. counted j0 retry j \<and> tj_nonce j = None"
  show "valid (\<lambda>w. (before_send tm j0 rows0 sent0 w \<and> counted j0 retry (tw_job w)) \<and> tw_job w = j)
    (bindp (AllocateNonce tm) (\<lambda>n. set_job (\<lambda>j. j\<lparr>tj_nonce := Some n\<rparr>)))
    (\<lambda>_ w. before_send tm j0 rows0 sent0 w \<and> counted j0 retry (tw_job w) \<and> tj_nonce (tw_job w) \<noteq> None)
    (thrown tm j0 rows0 sent0)"
  proof (rule valid_bindp [where R = "\<lambda>_ w. before_send tm j0 rows0 sent0 w \<and> ?F (tw_job w)"])
    show "valid (\<lambda>w. (before_send tm j0 rows0 sent0 w \<and> counted j0 retry (tw_job w)) \<and> tw_job w = j) (AllocateNonce tm)
      (\<lambda>_ w. before_send tm j0 rows0 sent0 w \<and> ?F (tw_job w)) (thrown tm j0 rows0 sent0)"
      by (rule valid_pre [OF AllocateNonce_valid [OF assms, where F = ?F]]) (use none in auto)
    show "valid (\<lambda>w. before_send tm j0 rows0 sent0 w \<and> ?F (tw_job w)) (set_job (\<lambda>j. j\<lparr>tj_nonce := Some n\<rparr>))
      (\<lambda>_ w. before_send tm j0 rows0 sent0 w \<and> counted j0 retry (tw_job w) \<and> tj_nonce (tw_job w) \<noteq> None)
      (thrown tm j0 rows0 sent0)" for n
      by (rule valid_set_job) (auto simp: before_send_def job_evolves_def counted_def)
  qed
qed (auto intro!: valid_ret)

lemma ensure_gas_valid:
  assumes "rpc_defined (tm_rpc tm)"
  shows "valid (\<lambda>w. before_send tm j0 rows0 sent0 w \<and> counted j0 retry (tw_job w) \<and> tj_nonce (tw_job w) \<noteq> None) (ensure_gas tm)
    (\<lambda>_ w. before_send tm j0 rows0 sent0 w \<and> counted j0 retry (tw_job w) \<and> tj_nonce (tw_job w) \<noteq> None \<and>
       tj_gasLimit (tw_job w) \<noteq> None) (thrown tm j0 rows0 sent0)"
  unfolding ensure_gas_def
  by (rule valid_get_job, rule valid_if,
      rule valid_bindp [where R = "\<lambda>_ w. before_send tm j0 rows0 sent0 w \<and> counted j0 retry (tw_job w) \<and> tj_nonce (tw_job w) \<noteq> None"])
     (use assms in \<open>auto intro!: valid_rpc_call valid_set_job valid_ret before_send_thrown before_send_set
        simp: rpc_defined_def before_send_def counted_def\<close>)

text \<open>The job can be signed.\<close>

definition priced :: "TxJob \<Rightarrow> bool" where
  "priced j \<longleftrightarrow> tj_nonce j \<noteq> None \<and> tj_gasLimit j \<noteq> None \<and> tj_maxPriorityFeePerGas j \<noteq> None \<and> tj_maxFeePerGas j \<noteq> None"

lemma quote_fees_valid:
  assumes "rpc_defined (tm_rpc tm)"
  shows "valid (\<lambda>w. before_send tm j0 rows0 sent0 w \<and> tj_nonce (tw_job w) \<noteq> None \<and> tj_gasLimit (tw_job w) \<noteq> None)
    (bindp (rpc_call (tc_GetFeeQuote (tm_rpc tm))) (\<lambda>fees.
       set_job (\<lambda>j. j\<lparr>tj_maxPriorityFeePerGas := Some (fq_maxPriorityFeePerGas fees),
                      tj_maxFeePerGas := Some (fq_maxFeePerGas fees)\<rparr>)))
    (\<lambda>_ w. before_send tm j0 rows0 sent0 w \<and> priced (tw_job w)) (thrown tm j0 rows0 sent0)"
  by (rule valid_bindp [where R = "\<lambda>_ w. before_send tm j0 rows0 sent0 w \<and> tj_nonce (tw_job w) \<noteq> None \<and> tj_gasLimit (tw_job w) \<noteq> None"])
     (use assms in \<open>auto intro!: valid_rpc_call valid_set_job before_send_thrown simp: rpc_defined_def before_send_def priced_def\<close>)

lemma choose_fees_valid:
  assumes "rpc_defined (tm_rpc tm)" "tj_status j0 \<in> {Pending, Submitted}" "IsApproved tm j0"
  shows "valid (\<lambda>w. before_send tm j0 rows0 sent0 w \<and> counted j0 retry (tw_job w) \<and> tj_nonce (tw_job w) \<noteq> None \<and>
      tj_gasLimit (tw_job w) \<noteq> None) (choose_fees tm retry)
    (\<lambda>_ w. before_send tm j0 rows0 sent0 w \<and> priced (tw_job w)) (thrown tm j0 rows0 sent0)"
proof -
  let ?B = "before_send tm j0 rows0 sent0" and ?T = "thrown tm j0 rows0 sent0"
  let ?P = "\<lambda>w. ?B w \<and> counted j0 retry (tw_job w) \<and> tj_nonce (tw_job w) \<noteq> None \<and> tj_gasLimit (tw_job w) \<noteq> None"
  let ?quote = "bindp (rpc_call (tc_GetFeeQuote (tm_rpc tm))) (\<lambda>fees.
         set_job (\<lambda>j. j\<lparr>tj_maxPriorityFeePerGas := Some (fq_maxPriorityFeePerGas fees),
                        tj_maxFeePerGas := Some (fq_maxFeePerGas fees)\<rparr>))"
  let ?G = "\<lambda>j. tj_nonce j \<noteq> None \<and> tj_gasLimit j \<noteq> None"
  have quote: "valid (\<lambda>w. ?P w \<and> tw_job w = j) ?quote (\<lambda>_ w. ?B w \<and> priced (tw_job w)) ?T" for j
    by (rule valid_pre [OF quote_fees_valid [OF assms(1)]]) auto
  have bump_fee: "valid (\<lambda>w. ?B w \<and> H (tw_job w)) (liftp (BumpFee v)) (\<lambda>_ w. ?B w \<and> H (tw_job w)) ?T" for v H
    by (rule valid_liftp) (use BumpFee_no_null [of v] in \<open>auto intro: before_send_thrown\<close>)
  have bump: "valid (\<lambda>w. ?P w \<and> tw_job w = j)
      (bindp (set_job (\<lambda>j. j\<lparr>tj_status := Replaced\<rparr>)) (\<lambda>_.
       bindp (save_and_audit ''replaced'') (\<lambda>_.
       bindp (liftp (BumpFee priority)) (\<lambda>bumpedPriority.
       bindp (set_job (\<lambda>j. j\<lparr>tj_maxPriorityFeePerGas := Some bumpedPriority\<rparr>)) (\<lambda>_.
       bindp (liftp (BumpFee fee)) (\<lambda>bumpedFee.
       set_job (\<lambda>j. j\<lparr>tj_maxFeePerGas := Some bumpedFee\<rparr>)))))))
      (\<lambda>_ w. ?B w \<and> priced (tw_job w)) ?T" if retry for j priority fee
  proof (rule valid_bindp [where R = "\<lambda>_ w. ?B w \<and> legal tm j0 (tw_job w) \<and> ?G (tw_job w)"])
    show "valid (\<lambda>w. ?P w \<and> tw_job w = j) (set_job (\<lambda>j. j\<lparr>tj_status := Replaced\<rparr>))
        (\<lambda>_ w. ?B w \<and> legal tm j0 (tw_job w) \<and> ?G (tw_job w)) ?T"
      by (rule valid_set_job) (use assms that in \<open>auto simp: before_send_def legal_def counted_def\<close>)
    show "valid (\<lambda>w. ?B w \<and> legal tm j0 (tw_job w) \<and> ?G (tw_job w))
      (bindp (save_and_audit ''replaced'') (\<lambda>_.
       bindp (liftp (BumpFee priority)) (\<lambda>bumpedPriority.
       bindp (set_job (\<lambda>j. j\<lparr>tj_maxPriorityFeePerGas := Some bumpedPriority\<rparr>)) (\<lambda>_.
       bindp (liftp (BumpFee fee)) (\<lambda>bumpedFee.
       set_job (\<lambda>j. j\<lparr>tj_maxFeePerGas := Some bumpedFee\<rparr>))))))
      (\<lambda>_ w. ?B w \<and> priced (tw_job w)) ?T" for u
      by (intro valid_bindp [OF save_and_audit_before [where F = ?G]] valid_bindp [OF bump_fee [of ?G]]
          valid_bindp [where R = "\<lambda>_ w. ?B w \<and> ?G (tw_job w) \<and> tj_maxPriorityFeePerGas (tw_job w) \<noteq> None", OF valid_set_job]
          valid_bindp [OF bump_fee [of "\<lambda>j. ?G j \<and> tj_maxPriorityFeePerGas j \<noteq> None"]] valid_set_job)
         (auto simp: before_send_def priced_def)
  qed
  show ?thesis
    unfolding choose_fees_def
    by (rule valid_get_job)
       (simp only: split: prod.split option.split,
        intro allI impI conjI; (rule quote | (rule valid_if, rule bump, assumption, rule quote)))
qed

section \<open>Signing and sending\<close>

lemma approved_signed:
  assumes "IsApproved tm j" "job_transaction tm j = Inr t"
    and "SignTransaction (tm_lib tm) (tm_keccak tm) (tm_signer tm) t = Inr raw"
  shows "approved_raw tm raw"
proof -
  obtain a where a: "a \<in> set (cf_approvedCalls (tm_config tm))" "tj_value j = 0" "tj_to j = ac_destination a"
      "length (tj_data j) = ac_calldataSize a" "take (length (ac_selector a)) (tj_data j) = ac_selector a"
    using assms(1) by (auto simp: IsApproved_def list_ex_iff)
  have "tx_chainId t = tm_chainId tm" "tx_value t = tj_value j" "tx_to t = Some (tj_to j)" "tx_data t = tj_data j"
    using assms(2) by (auto simp: job_transaction_def elim!: bind_resE)
  with a assms(3) show ?thesis unfolding approved_raw_def by (intro exI [of _ t] conjI bexI [of _ a]) simp_all
qed

lemma IsApproved_evolves: "job_evolves tm j0 j \<Longrightarrow> IsApproved tm j = IsApproved tm j0"
  by (simp add: IsApproved_def job_evolves_def)

lemma priced_transaction: "priced j \<Longrightarrow> \<exists>t. job_transaction tm j = Inr t"
  by (auto simp: priced_def job_transaction_def deref_def)

text \<open>The broadcast itself: the transaction is in the table when it is handed over.\<close>

lemma broadcast_valid:
  assumes "rpc_defined (tm_rpc tm)"
  shows "valid (\<lambda>w. before_send tm j0 rows0 sent0 w \<and> legal tm j0 (tw_job w) \<and>
      (complete (tw_job w) \<and> tj_status (tw_job w) = Submitted \<and> tj_rawTransaction (tw_job w) = raw) \<and>
      tw_rows w = save_rows (tw_job w) rows0 \<and> approved_raw tm raw)
    (bindp (modify (\<lambda>w. w\<lparr>tw_broadcastAttempted := True, tw_sent := tw_sent w @ [raw]\<rparr>)) (\<lambda>_.
     bindp (rpc_call (\<lambda>t. tc_SendRawTransaction (tm_rpc tm) t raw)) (\<lambda>submittedHash.
     bindp (set_job (\<lambda>j. j\<lparr>tj_transactionHash := Some submittedHash\<rparr>)) (\<lambda>_.
     save_and_audit ''broadcast''))))
    (\<lambda>_. in_round tm j0 rows0 sent0) (thrown tm j0 rows0 sent0)"
proof -
  let ?I = "\<lambda>w. in_round tm j0 rows0 sent0 w \<and> legal tm j0 (tw_job w) \<and> complete (tw_job w) \<and> tj_status (tw_job w) = Submitted"
  have sent: "valid ?I (rpc_call (\<lambda>t. tc_SendRawTransaction (tm_rpc tm) t raw)) (\<lambda>_. ?I) (thrown tm j0 rows0 sent0)"
    by (rule valid_rpc_call) (use assms in \<open>auto simp: rpc_defined_def thrown_def\<close>)
  have hash: "valid ?I (bindp (set_job (\<lambda>j. j\<lparr>tj_transactionHash := Some h\<rparr>)) (\<lambda>_. save_and_audit ''broadcast''))
      (\<lambda>_. in_round tm j0 rows0 sent0) (thrown tm j0 rows0 sent0)" for h
    by (rule set_and_save_valid) (auto simp: legal_def complete_def)
  show ?thesis
    by (rule valid_bindp [OF valid_modify valid_bindp [OF sent hash]])
       (auto simp: before_send_def in_round_def sent_once_def)
qed

lemma sign_and_send_valid:
  assumes "rpc_defined (tm_rpc tm)" "tj_status j0 \<in> {Pending, Submitted}" "IsApproved tm j0"
  shows "valid (\<lambda>w. before_send tm j0 rows0 sent0 w \<and> priced (tw_job w)) (sign_and_send tm)
    (\<lambda>_. in_round tm j0 rows0 sent0) (thrown tm j0 rows0 sent0)"
  unfolding sign_and_send_def
proof (rule valid_get_job)
  fix j
  let ?B = "before_send tm j0 rows0 sent0" and ?T = "thrown tm j0 rows0 sent0"
  let ?S = "\<lambda>raw w. ?B w \<and> priced (tw_job w) \<and> approved_raw tm raw \<and>
      tj_rawTransaction (tw_job w) = raw \<and> tj_status (tw_job w) = Submitted"
  let ?F = "\<lambda>raw j. complete j \<and> tj_status j = Submitted \<and> tj_rawTransaction j = raw"
  have tx: "valid (\<lambda>w. (?B w \<and> priced (tw_job w)) \<and> tw_job w = j) (liftp (job_transaction tm j))
      (\<lambda>t w. ?B w \<and> priced (tw_job w) \<and> job_transaction tm j = Inr t \<and> IsApproved tm j) ?T"
    by (rule valid_liftp) (use assms(3) IsApproved_evolves priced_transaction [of j tm] in
          \<open>auto simp: before_send_def\<close>)
  have sign: "valid (\<lambda>w. ?B w \<and> priced (tw_job w) \<and> job_transaction tm j = Inr t \<and> IsApproved tm j)
      (liftp (SignTransaction (tm_lib tm) (tm_keccak tm) (tm_signer tm) t))
      (\<lambda>raw w. ?B w \<and> priced (tw_job w) \<and> approved_raw tm raw) ?T" for t
    by (rule valid_liftp)
       (use approved_signed SignTransaction_no_null in \<open>auto intro: before_send_thrown\<close>)
  have raw: "valid (\<lambda>w. ?B w \<and> priced (tw_job w) \<and> approved_raw tm raw)
      (set_job (\<lambda>j. j\<lparr>tj_rawTransaction := raw, tj_status := Submitted\<rparr>)) (\<lambda>_. ?S raw) ?T" for raw
    by (rule valid_set_job) (auto simp: before_send_def priced_def)
  have head: "valid (?S raw) (rpc_call (tc_GetBlockNumber (tm_rpc tm))) (\<lambda>_. ?S raw) ?T" for raw
    by (rule valid_rpc_call) (use assms(1) in \<open>auto simp: rpc_defined_def intro!: before_send_thrown\<close>)
  have fill: "valid (?S raw) (set_job (\<lambda>j. j\<lparr>tj_submittedBlockNumber := Some n, tj_transactionHash := Some h,
        tj_includedBlockNumber := None, tj_includedBlockHash := None, tj_confirmationCount := 0, tj_errorMessage := []\<rparr>))
      (\<lambda>_ w. (?B w \<and> legal tm j0 (tw_job w) \<and> ?F raw (tw_job w)) \<and> approved_raw tm raw) ?T" for raw n h
    by (rule valid_set_job) (use assms in \<open>auto simp: before_send_def legal_def complete_def priced_def\<close>)
  have save: "valid (\<lambda>w. (?B w \<and> legal tm j0 (tw_job w) \<and> ?F raw (tw_job w)) \<and> approved_raw tm raw) (save_and_audit a)
      (\<lambda>_ w. ?B w \<and> legal tm j0 (tw_job w) \<and> ?F raw (tw_job w) \<and> tw_rows w = save_rows (tw_job w) rows0 \<and> approved_raw tm raw)
      ?T" for raw a
    by (rule validI) (use validD [OF save_and_audit_written [where F = "?F raw"]] in blast)+
  show "valid (\<lambda>w. (?B w \<and> priced (tw_job w)) \<and> tw_job w = j)
    (bindp (liftp (job_transaction tm j)) (\<lambda>transaction.
     bindp (liftp (SignTransaction (tm_lib tm) (tm_keccak tm) (tm_signer tm) transaction)) (\<lambda>raw.
     bindp (set_job (\<lambda>j. j\<lparr>tj_rawTransaction := raw, tj_status := Submitted\<rparr>)) (\<lambda>_.
     bindp (rpc_call (tc_GetBlockNumber (tm_rpc tm))) (\<lambda>head.
     bindp (set_job (\<lambda>j. j\<lparr>tj_submittedBlockNumber := Some head,
              tj_transactionHash := Some (TransactionHash (tm_keccak tm) raw),
              tj_includedBlockNumber := None, tj_includedBlockHash := None, tj_confirmationCount := 0,
              tj_errorMessage := []\<rparr>)) (\<lambda>_.
     bindp (save_and_audit ''approved'') (\<lambda>_.
     bindp (modify (\<lambda>w. w\<lparr>tw_broadcastAttempted := True, tw_sent := tw_sent w @ [raw]\<rparr>)) (\<lambda>_.
     bindp (rpc_call (\<lambda>t. tc_SendRawTransaction (tm_rpc tm) t raw)) (\<lambda>submittedHash.
     bindp (set_job (\<lambda>j. j\<lparr>tj_transactionHash := Some submittedHash\<rparr>)) (\<lambda>_.
     save_and_audit ''broadcast''))))))))))
    (\<lambda>_. in_round tm j0 rows0 sent0) ?T"
    by (intro valid_bindp [OF tx] valid_bindp [OF sign] valid_bindp [OF raw] valid_bindp [OF head] valid_bindp [OF fill]
        valid_bindp [OF save] broadcast_valid [OF assms(1)])
qed

section \<open>Submit\<close>

text \<open>A job at the start of its turn.\<close>

definition at_start :: "TxJob \<Rightarrow> TxJobRow list \<Rightarrow> bytes list \<Rightarrow> TxWorld \<Rightarrow> bool" where
  "at_start j0 rows0 sent0 w \<longleftrightarrow> tw_job w = j0 \<and> tw_rows w = rows0 \<and> tw_sent w = sent0 \<and> \<not> tw_broadcastAttempted w"

lemma at_start_before: "at_start j0 rows0 sent0 w \<Longrightarrow> before_send tm j0 rows0 sent0 w"
  by (simp add: at_start_def before_send_def row_written_def)

lemma at_start_in_round: "at_start j0 rows0 sent0 w \<Longrightarrow> in_round tm j0 rows0 sent0 w"
  by (rule before_send_in_round) (rule at_start_before)

lemma at_start_frame [simp]:
  "at_start j0 rows0 sent0 (w\<lparr>tw_calls := k\<rparr>) = at_start j0 rows0 sent0 w"
  by (simp add: at_start_def)

lemma count_retry:
  assumes "\<not> cf_maximumRetries (tm_config tm) \<le> tj_retryCount j0"
  shows "job_evolves tm j0 (j0\<lparr>tj_retryCount := tj_retryCount j0 + 1\<rparr>)"
proof -
  let ?n = "tj_retryCount j0"
  have less: "?n < cf_maximumRetries (tm_config tm)" using assms by simp
  then have "?n \<noteq> - 1" using word_order.extremum_strict by auto
  then have "?n \<le> ?n + 1" using inc_less_eq_self_iff_eq [of ?n] linorder_linear by blast
  with inc_le [OF less] show ?thesis by (simp add: job_evolves_def)
qed

lemma submit_try_valid:
  assumes rpc: "rpc_defined (tm_rpc tm)" and live: "tj_status j0 \<in> {Pending, Submitted}" and ok: "IsApproved tm j0"
  shows "valid (at_start j0 rows0 sent0) (submit_try tm retry) (\<lambda>_. in_round tm j0 rows0 sent0) (thrown tm j0 rows0 sent0)"
  unfolding submit_try_def
proof (rule valid_get_job, rule valid_if)
  fix j
  show "valid (\<lambda>w. at_start j0 rows0 sent0 w \<and> tw_job w = j) (fail_job ''transaction retry limit reached'' ''failed'')
     (\<lambda>_. in_round tm j0 rows0 sent0) (thrown tm j0 rows0 sent0)"
    by (rule fail_job_valid [OF live]) (simp add: at_start_in_round)
  assume limit: "\<not> (retry \<and> tj_retryCount j \<ge> cf_maximumRetries (tm_config tm))"
  have count: "valid (\<lambda>w. at_start j0 rows0 sent0 w \<and> tw_job w = j)
      (if retry then set_job (\<lambda>j. j\<lparr>tj_retryCount := tj_retryCount j + 1\<rparr>) else ret ())
      (\<lambda>_ w. before_send tm j0 rows0 sent0 w \<and> counted j0 retry (tw_job w)) (thrown tm j0 rows0 sent0)"
    using limit count_retry [of tm j0]
    by (intro valid_if valid_set_job valid_ret) (auto simp: at_start_def before_send_def row_written_def counted_def)
  show "valid (\<lambda>w. at_start j0 rows0 sent0 w \<and> tw_job w = j)
     (bindp (if retry then set_job (\<lambda>j. j\<lparr>tj_retryCount := tj_retryCount j + 1\<rparr>) else ret ()) (\<lambda>_.
       bindp (ensure_nonce tm) (\<lambda>_. bindp (ensure_gas tm) (\<lambda>_. bindp (choose_fees tm retry) (\<lambda>_. sign_and_send tm)))))
     (\<lambda>_. in_round tm j0 rows0 sent0) (thrown tm j0 rows0 sent0)"
    by (intro valid_bindp [OF count] valid_bindp [OF ensure_nonce_valid [OF rpc]] valid_bindp [OF ensure_gas_valid [OF rpc]]
        valid_bindp [OF choose_fees_valid [OF rpc live ok]] sign_and_send_valid [OF rpc live ok])
qed

lemma submit_catch_valid:
  assumes live: "tj_status j0 \<in> {Pending, Submitted}" and ok: "IsApproved tm j0"
  shows "valid (thrown tm j0 rows0 sent0 e) (submit_catch tm e) (\<lambda>_. in_round tm j0 rows0 sent0) (thrown tm j0 rows0 sent0)"
proof (cases e)
  case (Rpc_Exception k message)
  let ?I = "in_round tm j0 rows0 sent0" and ?T = "thrown tm j0 rows0 sent0"
  have note_error: "valid (?T e) (set_job (\<lambda>j. j\<lparr>tj_errorMessage := message\<rparr>)) (\<lambda>_. ?I) ?T"
    by (rule valid_set_job) (auto simp: thrown_def in_round_def sent_once_def)
  have look: "valid ?I (query (\<lambda>w. Inr w)) (\<lambda>v w. ?I w \<and> v = w) ?T"
    by (rule valid_query) auto
  have sure: "valid (\<lambda>w. ?I w \<and> v = w) (bindp (set_job (\<lambda>j. j\<lparr>tj_status := Submitted\<rparr>)) (\<lambda>_. save_and_audit a)) (\<lambda>_. ?I) ?T"
    if "tw_broadcastAttempted v" for v a
    by (rule set_and_save_valid) (use that live ok in \<open>auto simp: legal_def in_round_def\<close>)
  have other: "valid (\<lambda>w. ?I w \<and> v = w) (bindp (set_job (\<lambda>j. j\<lparr>tj_status := (if b then Failed else Pending)\<rparr>)) (\<lambda>_. save_and_audit a))
      (\<lambda>_. ?I) ?T" for v a b
    by (rule set_and_save_valid) (use live ok in \<open>auto simp: legal_def in_round_def\<close>)
  show ?thesis
    unfolding submit_catch_def Rpc_Exception exn.case Let_def
    by (intro valid_bindp [OF note_error [unfolded Rpc_Exception]] valid_bindp [OF look] valid_if sure other) simp
qed (auto simp: submit_catch_def thrown_def intro!: valid_raise)

lemma Submit_valid:
  assumes rpc: "rpc_defined (tm_rpc tm)" and live: "tj_status j0 \<in> {Pending, Submitted}"
  shows "valid (at_start j0 rows0 sent0) (Submit tm retry) (\<lambda>_. in_round tm j0 rows0 sent0) (thrown tm j0 rows0 sent0)"
  unfolding Submit_def
proof (rule valid_get_job, rule valid_if)
  fix j
  show "valid (\<lambda>w. at_start j0 rows0 sent0 w \<and> tw_job w = j) (fail_job ''transaction rejected by approval policy'' ''rejected'')
     (\<lambda>_. in_round tm j0 rows0 sent0) (thrown tm j0 rows0 sent0)"
    by (rule fail_job_valid [OF live]) (simp add: at_start_in_round)
  assume ok: "\<not> \<not> IsApproved tm j"
  show "valid (\<lambda>w. at_start j0 rows0 sent0 w \<and> tw_job w = j)
     (bindp (modify (\<lambda>w. w\<lparr>tw_broadcastAttempted := False\<rparr>)) (\<lambda>_. catchp (submit_try tm retry) (submit_catch tm)))
     (\<lambda>_. in_round tm j0 rows0 sent0) (thrown tm j0 rows0 sent0)"
  proof (cases "j = j0")
    case True
    with ok have "IsApproved tm j0" by simp
    then show ?thesis
      by (intro valid_bindp [where R = "\<lambda>_. at_start j0 rows0 sent0"] valid_modify
          valid_catchp [OF submit_try_valid [OF rpc live]] submit_catch_valid [OF live]) (auto simp: at_start_def)
  next
    case False
    then show ?thesis by (auto simp: valid_def at_start_def)
  qed
qed

section \<open>Poll\<close>

lemma record_receipt_valid:
  assumes "tj_status j0 = Submitted"
  shows "valid (at_start j0 rows0 sent0) (record_receipt receipt) (\<lambda>_. in_round tm j0 rows0 sent0) (thrown tm j0 rows0 sent0)"
  unfolding record_receipt_def
proof (rule valid_bindp [where R = "\<lambda>_. at_start j0 rows0 sent0"])
  show "valid (at_start j0 rows0 sent0) (liftp (ToUint64 (rc_blockNumber receipt))) (\<lambda>_. at_start j0 rows0 sent0)
      (thrown tm j0 rows0 sent0)"
    by (rule valid_liftp) (use u256_no_null(4) in \<open>auto simp: thrown_def at_start_in_round\<close>)
  show "valid (at_start j0 rows0 sent0)
      (bindp (set_job (\<lambda>j. j\<lparr>tj_includedBlockNumber := Some number, tj_includedBlockHash := Some (rc_blockHash receipt),
              tj_status := (if rc_succeeded receipt then Included else Failed),
              tj_errorMessage := (if rc_succeeded receipt then tj_errorMessage j else ''transaction execution reverted'')\<rparr>)) (\<lambda>_.
       save_and_audit (if rc_succeeded receipt then ''included'' else ''execution_failed'')))
      (\<lambda>_. in_round tm j0 rows0 sent0) (thrown tm j0 rows0 sent0)" for number
    by (rule set_and_save_valid) (use assms in \<open>auto simp: at_start_in_round legal_def\<close>, auto simp: at_start_def)
qed

lemma poll_submitted_valid:
  assumes rpc: "rpc_defined (tm_rpc tm)" and st: "tj_status j0 = Submitted" and "job_defined j0"
  shows "valid (at_start j0 rows0 sent0) (poll_submitted tm j0) (\<lambda>_. in_round tm j0 rows0 sent0) (thrown tm j0 rows0 sent0)"
proof -
  let ?S = "at_start j0 rows0 sent0" and ?I = "in_round tm j0 rows0 sent0" and ?T = "thrown tm j0 rows0 sent0"
  obtain hash where hash: "tj_transactionHash j0 = Some hash" using assms by (auto simp: job_defined_def)
  have receipt: "valid ?S (rpc_call (\<lambda>t. tc_GetReceipt (tm_rpc tm) t hash)) (\<lambda>_. ?S) ?T"
    by (rule valid_rpc_call) (use rpc in \<open>auto simp: rpc_defined_def thrown_def at_start_in_round\<close>)
  have head: "valid ?S (rpc_call (tc_GetBlockNumber (tm_rpc tm))) (\<lambda>_. ?S) ?T"
    by (rule valid_rpc_call) (use rpc in \<open>auto simp: rpc_defined_def thrown_def at_start_in_round\<close>)
  have live: "tj_status j0 \<in> {Pending, Submitted}" using st by simp
  have fetch: "valid ?S (liftp (deref (tj_transactionHash j0))) (\<lambda>h w. ?S w \<and> h = hash) ?T"
    by (rule valid_liftp) (auto simp: hash deref_def)
  show ?thesis
    unfolding poll_submitted_def
    by (rule valid_bindp [OF fetch], rule valid_pre_conj, hypsubst)
       (intro valid_bindp [OF receipt] valid_case_option record_receipt_valid [OF st] valid_bindp [OF head] valid_if
          fail_job_valid [OF live] Submit_valid [OF rpc live] valid_ret; erule at_start_in_round)
qed

lemma poll_included_valid:
  assumes rpc: "rpc_defined (tm_rpc tm)" and st: "tj_status j0 = Included" and "job_defined j0"
  shows "valid (at_start j0 rows0 sent0) (poll_included tm j0) (\<lambda>_. in_round tm j0 rows0 sent0) (thrown tm j0 rows0 sent0)"
proof -
  let ?S = "at_start j0 rows0 sent0" and ?I = "in_round tm j0 rows0 sent0" and ?T = "thrown tm j0 rows0 sent0"
  obtain n hash where n: "tj_includedBlockNumber j0 = Some n" "tj_includedBlockHash j0 = Some hash"
    using assms by (auto simp: job_defined_def)
  have call: "valid ?S (rpc_call f) (\<lambda>_. ?S) ?T" if "\<And>t. f t \<noteq> Inl Null_Dereference" for f :: "nat \<Rightarrow> 'b res"
    by (rule valid_rpc_call) (use that in \<open>auto simp: thrown_def at_start_in_round\<close>)
  have block: "valid ?S (rpc_call (\<lambda>t. tc_GetBlock (tm_rpc tm) t n)) (\<lambda>_. ?S) ?T"
    and head: "valid ?S (rpc_call (tc_GetBlockNumber (tm_rpc tm))) (\<lambda>_. ?S) ?T"
    using rpc by (auto simp: rpc_defined_def intro!: valid_rpc_call simp: thrown_def at_start_in_round)
  have gone: "valid ?S (case b of None \<Rightarrow> ret True | Some block \<Rightarrow> bindp (liftp (Inr hash)) (\<lambda>hash. ret (bh_hash block \<noteq> hash)))
      (\<lambda>_. ?S) ?T" for b
    by (auto simp: valid_def ret_def bindp_def liftp_def split: option.splits)
  have reorged: "valid ?S (bindp (set_job (\<lambda>j. j\<lparr>tj_status := Reorged, tj_errorMessage := m\<rparr>)) (\<lambda>_. save_and_audit a)) (\<lambda>_. ?I) ?T"
    for m a
    by (rule set_and_save_valid) (use st in \<open>auto simp: at_start_in_round legal_def\<close>, auto simp: at_start_def)
  have count: "valid ?S (set_job (\<lambda>j. j\<lparr>tj_confirmationCount := c, tj_status := (if cf_confirmationDepth (tm_config tm) \<le> c
       then Finalized else Included)\<rparr>)) (\<lambda>_ w. ?I w \<and> legal tm j0 (tw_job w)) ?T" for c
    by (rule valid_set_job)
       (use st n in \<open>auto simp: at_start_def legal_def in_round_def sent_once_def row_written_def\<close>)
  have save: "valid (\<lambda>w. ?I w \<and> legal tm j0 (tw_job w)) save_job (\<lambda>_. ?I) ?T"
    by (auto intro!: valid_save_job in_round_save simp: thrown_def)
  have log: "valid ?I (Audit a) (\<lambda>_. ?I) ?T" for a
    by (auto intro: valid_Audit)
  show ?thesis
    unfolding poll_included_def n deref_def option.case bindp_liftp_Inr Let_def
    by (intro valid_bindp [OF block] valid_bindp [OF gone [unfolded bindp_liftp_Inr]] valid_if reorged valid_bindp [OF head] valid_bindp [OF count]
        valid_bindp [OF save] log valid_ret)
qed

lemma step_job_valid:
  assumes rpc: "rpc_defined (tm_rpc tm)" and def: "job_defined j0"
  shows "valid (at_start j0 rows0 sent0) (step_job tm) (\<lambda>_. in_round tm j0 rows0 sent0) (thrown tm j0 rows0 sent0)"
proof -
  let ?m = "if tj_status j0 = Pending then Submit tm (tj_errorMessage j0 \<noteq> []) else
      if tj_status j0 = Submitted then poll_submitted tm j0
      else if tj_status j0 \<noteq> Included then ret () else poll_included tm j0"
  have "step_job tm w = ?m w" if "at_start j0 rows0 sent0 w" for w
    using that by (auto simp: step_job_def Poll_def at_start_def bindp_def get_job_def query_def)
  moreover have "valid (at_start j0 rows0 sent0) ?m (\<lambda>_. in_round tm j0 rows0 sent0) (thrown tm j0 rows0 sent0)"
    by (intro valid_if Submit_valid [OF rpc] poll_submitted_valid [OF rpc _ def] poll_included_valid [OF rpc _ def] valid_ret)
       (simp_all add: at_start_in_round)
  ultimately show ?thesis by (simp add: valid_def)
qed

end
