(* ===== verification/Tx_Properties.thy ===== *)
theory Tx_Properties
  imports Tx_Round
begin

text \<open>
  The table of transaction jobs after any sequence of queued jobs and rounds, and what a round does
  to it and sends.
\<close>

section \<open>Rows\<close>

definition row_step :: "TxManager \<Rightarrow> TxJobRow \<Rightarrow> TxJobRow \<Rightarrow> bool" where
  "row_step tm r0 r \<longleftrightarrow> r = r0 \<or> (\<exists>j0 j. ParseJob r0 = Inr j0 \<and> legal tm j0 j \<and> r = saved_row j r0)"

definition row_defined :: "TxJobRow \<Rightarrow> bool" where
  "row_defined r \<longleftrightarrow> (tr_status r = ''Submitted'' \<longrightarrow> tr_tx_hash r \<noteq> None) \<and>
     (tr_status r = ''Included'' \<longrightarrow> tr_included_block r \<noteq> None \<and> tr_included_hash r \<noteq> None) \<and>
     tr_retry_count r < 2 ^ 32"

lemma saved_row_id [simp]: "tr_job_id (saved_row j r) = tr_job_id r"
  by (simp add: saved_row_def)

lemma row_step_id: "row_step tm r0 r \<Longrightarrow> tr_job_id r = tr_job_id r0"
  by (auto simp: row_step_def)

lemma TxStatus_round_trip [simp]: "TxStatusFromString (TxStatus_ToString s) = Inr s"
  by (cases s) (simp_all add: TxStatusFromString_def)

lemma TxStatusFromString_Inr: "TxStatusFromString v = Inr s \<Longrightarrow> v = TxStatus_ToString s"
  by (auto simp: TxStatusFromString_def split: if_splits)

lemma OptionalField_None: "OptionalField p f = Inr v \<Longrightarrow> v = None \<longleftrightarrow> f = None"
  by (auto simp: OptionalField_def map_result_Inr split: option.splits)

lemma ParseJob_fields:
  assumes "ParseJob r = Inr j"
  shows "tj_jobId j = tr_job_id r" "tr_status r = TxStatus_ToString (tj_status j)"
    "tj_transactionHash j = None \<longleftrightarrow> tr_tx_hash r = None" "tj_includedBlockHash j = None \<longleftrightarrow> tr_included_hash r = None"
    "tj_includedBlockNumber j = None \<longleftrightarrow> tr_included_block r = None"
  using assms
  by (auto simp: ParseJob_def elim!: bind_resE dest!: OptionalField_None TxStatusFromString_Inr)

lemma row_defined_job: "row_defined r \<Longrightarrow> ParseJob r = Inr j \<Longrightarrow> job_defined j"
  by (frule ParseJob_fields(2)) (auto simp: row_defined_def job_defined_def ParseJob_fields)

lemma TxStatus_ToString_inject: "TxStatus_ToString s = TxStatus_ToString t \<longleftrightarrow> s = t"
  by (metis TxStatus_round_trip sum.inject(2))

lemma row_defined_step:
  assumes "row_step tm r0 r" "row_defined r0"
  shows "row_defined r"
proof (cases "r = r0")
  case False
  then obtain j0 j where "legal tm j0 j" "r = saved_row j r0" using assms(1) by (auto simp: row_step_def)
  moreover have "unat (tj_retryCount j) < 2 ^ LENGTH(32)" by (rule unsigned_less)
  ultimately show ?thesis
    by (cases "tj_status j") (auto simp: row_defined_def saved_row_def legal_def complete_def)
qed (use assms in simp)

section \<open>A round\<close>

text \<open>Every row is as before or a legal successor; the rows of the jobs that have not had their turn
  are as before. What was sent since is approved and in the table.\<close>

definition rows_so_far :: "TxManager \<Rightarrow> TxJobRow list \<Rightarrow> string set \<Rightarrow> TxJobRow list \<Rightarrow> bool" where
  "rows_so_far tm rows0 todo rows \<longleftrightarrow>
     list_all2 (\<lambda>r0 r. row_step tm r0 r \<and> (tr_job_id r0 \<in> todo \<longrightarrow> r = r0)) rows0 rows"

definition recorded :: "TxJobRow list \<Rightarrow> string set \<Rightarrow> bytes \<Rightarrow> bool" where
  "recorded rows todo raw \<longleftrightarrow>
     (\<exists>r \<in> set rows. tr_raw r = Some (Hex_Encode raw True) \<and> tr_job_id r \<notin> todo)"

definition sent_so_far :: "TxManager \<Rightarrow> bytes list \<Rightarrow> string set \<Rightarrow> TxWorld \<Rightarrow> bool" where
  "sent_so_far tm sent0 todo w \<longleftrightarrow>
     (\<exists>new. tw_sent w = sent0 @ new \<and> (\<forall>raw \<in> set new. approved_raw tm raw \<and> recorded (tw_rows w) todo raw))"

lemma rows_so_far_weaken: "rows_so_far tm rows0 todo rows \<Longrightarrow> todo' \<subseteq> todo \<Longrightarrow> rows_so_far tm rows0 todo' rows"
  unfolding rows_so_far_def by (erule list_all2_mono) auto

lemma sent_so_far_weaken: "sent_so_far tm sent0 todo w \<Longrightarrow> todo' \<subseteq> todo \<Longrightarrow> sent_so_far tm sent0 todo' w"
  unfolding sent_so_far_def recorded_def by blast

lemma approved_raw_nonempty: "approved_raw tm raw \<Longrightarrow> raw \<noteq> []"
  by (auto simp: approved_raw_def SignTransaction_def EncodeSigned_def TypedPayload_def map_result_Inr)

text \<open>What the turn of one job adds.\<close>

lemma rows_after_turn:
  assumes rows: "rows_so_far tm rows0 (insert (tj_jobId j0) todo) rows" and new: "tj_jobId j0 \<notin> todo"
    and parse: "\<forall>r0 \<in> set rows0. tr_job_id r0 = tj_jobId j0 \<longrightarrow> ParseJob r0 = Inr j0"
    and "row_written tm j0 rows rows'"
  shows "rows_so_far tm rows0 todo rows'"
proof (cases "rows' = rows")
  case True
  with rows show ?thesis by (auto intro: rows_so_far_weaken)
next
  case False
  then obtain j where j: "legal tm j0 j" "rows' = save_rows j rows" using assms(4) by (auto simp: row_written_def)
  then have id: "tj_jobId j = tj_jobId j0" by (simp add: legal_jobId)
  show ?thesis
    using rows unfolding rows_so_far_def j(2) save_rows_def id list_all2_map2
  proof (rule list.rel_mono_strong)
    fix r0 r
    assume "r0 \<in> set rows0" and r: "row_step tm r0 r \<and> (tr_job_id r0 \<in> insert (tj_jobId j0) todo \<longrightarrow> r = r0)"
    have id0: "tr_job_id r = tr_job_id r0" using r row_step_id by blast
    show "row_step tm r0 (if tr_job_id r = tj_jobId j0 then saved_row j r else r) \<and>
        (tr_job_id r0 \<in> todo \<longrightarrow> (if tr_job_id r = tj_jobId j0 then saved_row j r else r) = r0)"
    proof (cases "tr_job_id r = tj_jobId j0")
      case True
      then have "r = r0" "ParseJob r0 = Inr j0" using r id0 parse \<open>r0 \<in> set rows0\<close> by auto
      then have "row_step tm r0 (saved_row j r)" unfolding row_step_def using j(1) by blast
      with True id0 new show ?thesis by simp
    next
      case False
      with r show ?thesis by auto
    qed
  qed
qed

lemma recorded_other:
  assumes "recorded rows (insert (tj_jobId j) todo) raw"
  shows "recorded (save_rows j rows) todo raw"
proof -
  obtain r where r: "r \<in> set rows" "tr_raw r = Some (Hex_Encode raw True)" "tr_job_id r \<notin> insert (tj_jobId j) todo"
    using assms by (auto simp: recorded_def)
  then have "r \<in> set (save_rows j rows)" by (auto simp: save_rows_def image_iff intro!: bexI [of _ r])
  with r show ?thesis by (auto simp: recorded_def)
qed

lemma sent_after_turn:
  assumes sent: "sent_so_far tm sent0 (insert (tj_jobId j0) todo) w" and new: "tj_jobId j0 \<notin> todo"
    and row: "tj_jobId j0 \<in> tr_job_id ` set (tw_rows w)"
    and turn: "sent_once tm j0 (tw_rows w) (tw_sent w) w'"
  shows "sent_so_far tm sent0 todo w'"
proof -
  let ?todo = "insert (tj_jobId j0) todo"
  from sent obtain ns where ns: "tw_sent w = sent0 @ ns"
    "\<forall>raw \<in> set ns. approved_raw tm raw \<and> recorded (tw_rows w) ?todo raw" by (auto simp: sent_so_far_def)
  have saved: "\<forall>raw \<in> set ns. recorded (save_rows j (tw_rows w)) todo raw" if "legal tm j0 j" for j
    using ns(2) recorded_other [of "tw_rows w" j todo] legal_jobId [OF that] by simp
  have kept: "\<forall>raw \<in> set ns. recorded (tw_rows w) todo raw" using ns(2) by (auto simp: recorded_def)
  from turn consider (none) "tw_sent w' = tw_sent w" "row_written tm j0 (tw_rows w) (tw_rows w')"
    | (one) j where "legal tm j0 j" "tw_rows w' = save_rows j (tw_rows w)" "approved_raw tm (tj_rawTransaction j)"
        "tw_sent w' = tw_sent w @ [tj_rawTransaction j]"
    by (auto simp: sent_once_def)
  then show ?thesis
  proof cases
    case none
    then have "\<forall>raw \<in> set ns. recorded (tw_rows w') todo raw" using saved kept by (auto simp: row_written_def)
    with none ns show ?thesis unfolding sent_so_far_def by auto
  next
    case one
    from row obtain r where r: "r \<in> set (tw_rows w)" "tr_job_id r = tj_jobId j0" by auto
    then have "saved_row j r \<in> set (tw_rows w')"
      using legal_jobId [OF one(1)] by (auto simp: one(2) save_rows_def image_iff intro!: bexI [of _ r])
    moreover have "tr_raw (saved_row j r) = Some (Hex_Encode (tj_rawTransaction j) True)"
      using approved_raw_nonempty [OF one(3)] by (simp add: saved_row_def)
    ultimately have "recorded (tw_rows w') todo (tj_rawTransaction j)" using r(2) new by (auto simp: recorded_def)
    with one saved [OF one(1)] ns show ?thesis
      unfolding sent_so_far_def by (intro exI [of _ "ns @ [tj_rawTransaction j]"]) auto
  qed
qed

definition round_inv :: "TxManager \<Rightarrow> TxJobRow list \<Rightarrow> bytes list \<Rightarrow> string set \<Rightarrow> TxWorld \<Rightarrow> bool" where
  "round_inv tm rows0 sent0 todo w \<longleftrightarrow> rows_so_far tm rows0 todo (tw_rows w) \<and> sent_so_far tm sent0 todo w"

lemma round_inv_weaken: "round_inv tm rows0 sent0 todo w \<Longrightarrow> todo' \<subseteq> todo \<Longrightarrow> round_inv tm rows0 sent0 todo' w"
  using rows_so_far_weaken sent_so_far_weaken by (auto simp: round_inv_def)

lemma rows_so_far_ids: "rows_so_far tm rows0 todo rows \<Longrightarrow> map tr_job_id rows = map tr_job_id rows0"
  unfolding rows_so_far_def by (induction rule: list_all2_induct) (auto dest: row_step_id)

lemma round_inv_turn:
  assumes "round_inv tm rows0 sent0 (insert (tj_jobId j0) todo) w" "tj_jobId j0 \<notin> todo"
    and "\<forall>r0 \<in> set rows0. tr_job_id r0 = tj_jobId j0 \<longrightarrow> ParseJob r0 = Inr j0" "tj_jobId j0 \<in> tr_job_id ` set rows0"
    and turn: "in_round tm j0 (tw_rows w) (tw_sent w) w'"
  shows "round_inv tm rows0 sent0 todo w'"
proof -
  have written: "row_written tm j0 (tw_rows w) (tw_rows w')"
    using turn by (auto simp: in_round_def sent_once_def row_written_def)
  have "rows_so_far tm rows0 todo (tw_rows w')"
    by (rule rows_after_turn [OF _ assms(2,3) written]) (use assms(1) in \<open>simp add: round_inv_def\<close>)
  moreover have row: "tj_jobId j0 \<in> tr_job_id ` set (tw_rows w)"
    using assms(1,4) rows_so_far_ids [of tm rows0 _ "tw_rows w"] by (metis round_inv_def set_map)
  have "sent_so_far tm sent0 todo w'"
    by (rule sent_after_turn [OF _ assms(2) row]) (use assms(1) turn in \<open>simp_all add: round_inv_def in_round_def\<close>)
  ultimately show ?thesis by (simp add: round_inv_def)
qed

lemma run_jobs_valid:
  assumes "rpc_defined (tm_rpc tm)" "distinct (map tj_jobId jobs)"
    and "\<forall>j \<in> set jobs. job_defined j \<and> tj_jobId j \<in> tr_job_id ` set rows0 \<and>
      (\<forall>r0 \<in> set rows0. tr_job_id r0 = tj_jobId j \<longrightarrow> ParseJob r0 = Inr j)"
  shows "valid (round_inv tm rows0 sent0 (tj_jobId ` set jobs)) (run_jobs tm jobs result)
    (\<lambda>_. round_inv tm rows0 sent0 {}) (\<lambda>e w. round_inv tm rows0 sent0 {} w \<and> e \<noteq> Null_Dereference)"
  using assms(2,3)
proof (induction jobs arbitrary: result)
  case Nil
  then show ?case by (simp add: valid_ret)
next
  case (Cons j jobs)
  have job: "job_defined j" "tj_jobId j \<in> tr_job_id ` set rows0" "tj_jobId j \<notin> tj_jobId ` set jobs"
    "\<forall>r0 \<in> set rows0. tr_job_id r0 = tj_jobId j \<longrightarrow> ParseJob r0 = Inr j"
    using Cons.prems by simp_all
  note turn_inv = round_inv_turn [OF _ job(3,4,2)]
  let ?todo = "tj_jobId ` set jobs" and ?E = "\<lambda>e w. round_inv tm rows0 sent0 {} w \<and> e \<noteq> Null_Dereference"
  have turn: "valid (\<lambda>w. round_inv tm rows0 sent0 (insert (tj_jobId j) ?todo) w \<and> tw_job w = j \<and> \<not> tw_broadcastAttempted w)
      (step_job tm) (\<lambda>_. round_inv tm rows0 sent0 ?todo) ?E"
  proof (rule validI)
    fix w x t
    assume w: "round_inv tm rows0 sent0 (insert (tj_jobId j) ?todo) w \<and> tw_job w = j \<and> \<not> tw_broadcastAttempted w"
      and run: "step_job tm w = (Inr x, t)"
    have "in_round tm j (tw_rows w) (tw_sent w) t"
      by (rule validD(1) [OF step_job_valid [OF assms(1) job(1)] _ run]) (use w in \<open>simp add: at_start_def\<close>)
    then show "round_inv tm rows0 sent0 ?todo t" by (rule turn_inv [OF conjunct1 [OF w]])
  next
    fix w e t
    assume w: "round_inv tm rows0 sent0 (insert (tj_jobId j) ?todo) w \<and> tw_job w = j \<and> \<not> tw_broadcastAttempted w"
      and run: "step_job tm w = (Inl e, t)"
    have "thrown tm j (tw_rows w) (tw_sent w) e t"
      by (rule validD(2) [OF step_job_valid [OF assms(1) job(1)] _ run]) (use w in \<open>simp add: at_start_def\<close>)
    then have "in_round tm j (tw_rows w) (tw_sent w) t" "e \<noteq> Null_Dereference" by (simp_all add: thrown_def)
    moreover from this(1) have "round_inv tm rows0 sent0 ?todo t" by (rule turn_inv [OF conjunct1 [OF w]])
    ultimately show "?E e t" by (blast intro: round_inv_weaken)
  qed
  have start: "valid (round_inv tm rows0 sent0 (tj_jobId ` set (j # jobs)))
      (modify (\<lambda>w. w\<lparr>tw_job := j, tw_broadcastAttempted := False\<rparr>))
      (\<lambda>_ w. round_inv tm rows0 sent0 (insert (tj_jobId j) ?todo) w \<and> tw_job w = j \<and> \<not> tw_broadcastAttempted w) ?E"
    by (rule valid_modify) (simp add: round_inv_def sent_so_far_def)
  have look: "valid (round_inv tm rows0 sent0 ?todo) get_job (\<lambda>_. round_inv tm rows0 sent0 ?todo) ?E"
    unfolding get_job_def by (rule valid_query) auto
  show ?case
    unfolding run_jobs.simps
    by (intro valid_bindp [OF start] valid_bindp [OF turn] valid_bindp [OF look] Cons.IH) (use Cons.prems in simp_all)
qed

section \<open>The table\<close>

text \<open>Jobs are queued and rounds are run, in any order; a round may be any prefix the exceptions leave.\<close>

inductive tx_table :: "TxManager \<Rightarrow> TxJobRow list \<Rightarrow> bool" for tm where
  empty: "tx_table tm []"
| queue: "tx_table tm rows \<Longrightarrow> tx_table tm (snd (Queue tm now job to data v rows))"
| round: "tx_table tm (tw_rows w) \<Longrightarrow> RunOnce tm w = (r, w') \<Longrightarrow> tx_table tm (tw_rows w')"

definition table_ok :: "TxJobRow list \<Rightarrow> bool" where
  "table_ok rows \<longleftrightarrow> distinct (map tr_job_id rows) \<and> list_all row_defined rows"

lemma table_ok_row: "table_ok rows \<Longrightarrow> r \<in> set rows \<Longrightarrow> r' \<in> set rows \<Longrightarrow> tr_job_id r = tr_job_id r' \<Longrightarrow> r = r'"
  by (auto simp: table_ok_def distinct_map inj_on_def)

lemma Hex_no_null [no_null]: "Hex_Decode s \<noteq> Inl Null_Dereference"
proof -
  have nibble: "DecodeNibble hex_char_error c \<noteq> Inl Null_Dereference" for c
    by (simp add: DecodeNibble_def Let_def hex_char_error_def)
  have "decode_pairs v \<noteq> Inl Null_Dereference" for v
    by (induction v rule: decode_pairs.induct) (auto simp: bind_res_def nibble split: sum.splits)
  then show ?thesis by (simp add: Hex_Decode_def Let_def)
qed

lemma ParseJob_no_null: "ParseJob r \<noteq> Inl Null_Dereference"
proof -
  have num: "numeric_field n \<noteq> Inl Null_Dereference" for n by (simp add: numeric_field_def FromDecimal_no_null)
  have opt: "(\<And>c. p c \<noteq> Inl Null_Dereference) \<Longrightarrow> OptionalField p f \<noteq> Inl Null_Dereference" for p :: "'b \<Rightarrow> 'c res" and f
    by (auto simp: OptionalField_def map_result_Inl split: option.splits)
  have addr: "Address_FromHex a \<noteq> Inl Null_Dereference" "tx_ParseHash a \<noteq> Inl Null_Dereference"
    "TxStatusFromString a \<noteq> Inl Null_Dereference" for a
    by (simp_all add: Address_FromHex_def tx_ParseHash_def ParseHash_def tx_hash_error_def TxStatusFromString_def
        bind_no_null Hex_no_null)
  have raw: "(case f of None \<Rightarrow> Inr [] | Some s \<Rightarrow> Hex_Decode s) \<noteq> Inl Null_Dereference" for f
    by (simp add: Hex_no_null split: option.split)
  show ?thesis unfolding ParseJob_def by (intro bind_no_null num opt addr raw Hex_no_null) simp
qed

lemma RunOnce_valid:
  assumes "rpc_defined (tm_rpc tm)" "table_ok rows0"
  shows "valid (\<lambda>w. tw_rows w = rows0 \<and> tw_sent w = sent0) (RunOnce tm)
    (\<lambda>_. round_inv tm rows0 sent0 {}) (\<lambda>e w. round_inv tm rows0 sent0 {} w \<and> e \<noteq> Null_Dereference)"
proof -
  let ?rows = "sort_key tr_created_at (sort_key tr_job_id
    (filter (tx_active (tm_chainId tm) (signer_address (tm_signer tm))) rows0))"
  have start: "round_inv tm rows0 sent0 todo w" if "tw_rows w = rows0" "tw_sent w = sent0" for w todo
    using that by (auto simp: round_inv_def rows_so_far_def sent_so_far_def row_step_def list_all2_same)
  have load: "valid (\<lambda>w. tw_rows w = rows0 \<and> tw_sent w = sent0)
      (query (\<lambda>w. tx_LoadActive (tw_rows w) (tm_chainId tm) (signer_address (tm_signer tm))))
      (\<lambda>jobs w. round_inv tm rows0 sent0 (tj_jobId ` set jobs) w \<and> map_res ParseJob ?rows = Inr jobs)
      (\<lambda>e w. round_inv tm rows0 sent0 {} w \<and> e \<noteq> Null_Dereference)"
  proof (rule valid_query)
    fix e and w :: TxWorld
    assume "tw_rows w = rows0 \<and> tw_sent w = sent0"
      and "tx_LoadActive (tw_rows w) (tm_chainId tm) (signer_address (tm_signer tm)) = Inl e"
    moreover have "map_res ParseJob rs \<noteq> Inl Null_Dereference" for rs
      by (induction rs) (simp_all add: bind_no_null ParseJob_no_null)
    ultimately show "round_inv tm rows0 sent0 {} w \<and> e \<noteq> Null_Dereference" by (auto simp: tx_LoadActive_def start)
  qed (simp add: tx_LoadActive_def start)
  have jobs: "distinct (map tj_jobId jobs) \<and> (\<forall>j \<in> set jobs. job_defined j \<and> tj_jobId j \<in> tr_job_id ` set rows0 \<and>
      (\<forall>r0 \<in> set rows0. tr_job_id r0 = tj_jobId j \<longrightarrow> ParseJob r0 = Inr j))" if parsed: "map_res ParseJob ?rows = Inr jobs" for jobs
  proof
    have "map tj_jobId jobs = map tr_job_id ?rows" by (rule map_res_map [OF parsed]) (simp add: ParseJob_fields)
    moreover have "distinct (map tr_job_id ?rows)"
      using assms(2) by (simp add: table_ok_def distinct_map inj_on_def)
    ultimately show "distinct (map tj_jobId jobs)" by simp
    show "\<forall>j \<in> set jobs. job_defined j \<and> tj_jobId j \<in> tr_job_id ` set rows0 \<and>
      (\<forall>r0 \<in> set rows0. tr_job_id r0 = tj_jobId j \<longrightarrow> ParseJob r0 = Inr j)"
    proof
      fix j assume "j \<in> set jobs"
      then obtain r where "r \<in> set ?rows" and r: "ParseJob r = Inr j" using map_res_set [OF parsed] by blast
      then have "r \<in> set rows0" by simp
      moreover have id: "tj_jobId j = tr_job_id r" using r by (rule ParseJob_fields)
      moreover have "row_defined r" using assms(2) \<open>r \<in> set rows0\<close> by (simp add: table_ok_def list_all_iff)
      ultimately show "job_defined j \<and> tj_jobId j \<in> tr_job_id ` set rows0 \<and>
          (\<forall>r0 \<in> set rows0. tr_job_id r0 = tj_jobId j \<longrightarrow> ParseJob r0 = Inr j)"
        using r table_ok_row [OF assms(2)] row_defined_job by auto
    qed
  qed
  show ?thesis
    unfolding RunOnce_def
    by (intro valid_bindp [OF load] valid_pre_conj run_jobs_valid [OF assms(1)]) (use jobs in blast)+
qed

lemma table_ok_round: "rows_so_far tm rows0 todo rows \<Longrightarrow> table_ok rows0 \<Longrightarrow> table_ok rows"
proof -
  assume a: "rows_so_far tm rows0 todo rows" "table_ok rows0"
  have "list_all row_defined rows0 \<Longrightarrow> list_all row_defined rows"
    using a(1) unfolding rows_so_far_def by (induction rule: list_all2_induct) (auto dest: row_defined_step)
  with a rows_so_far_ids [OF a(1)] show ?thesis by (simp add: table_ok_def)
qed

lemma tx_table_ok:
  assumes "tx_table tm rows" "rpc_defined (tm_rpc tm)"
  shows "table_ok rows"
  using assms(1)
proof induction
  case empty
  then show ?case by (simp add: table_ok_def)
next
  case (queue rows now job to data v)
  then show ?case
    by (auto simp: Queue_def tx_Insert_def table_ok_def insert_ignore_def tx_row_def row_defined_def)
next
  case (round w r w')
  have "round_inv tm (tw_rows w) (tw_sent w) {} w'"
    using validD [OF RunOnce_valid [OF assms(2) round.IH, of "tw_sent w"], of w] round.hyps(2) by (cases r) auto
  with round.IH table_ok_round show ?case by (auto simp: round_inv_def)
qed

end
