(* ===== verification/Tx_Theorems.thy ===== *)
theory Tx_Theorems
  imports Tx_Properties
begin

text \<open>
  The properties of the transaction manager: the life of a job in the table, what is broadcast,
  nonces, the table as storage, and a job that is left behind.
\<close>

section \<open>The life of a job\<close>

definition tx_transitions :: "(TxStatus \<times> TxStatus) list" where
  "tx_transitions =
     [(Pending, Pending), (Pending, Submitted), (Pending, Replaced), (Pending, Failed),
      (Submitted, Submitted), (Submitted, Pending), (Submitted, Replaced), (Submitted, Failed), (Submitted, Included),
      (Included, Included), (Included, Finalized), (Included, Reorged)]"

definition row_follows :: "TxManager \<Rightarrow> TxJobRow \<Rightarrow> TxJobRow \<Rightarrow> bool" where
  "row_follows tm r0 r \<longleftrightarrow>
     (tr_job_id r, tr_chain_id r, tr_wallet r, tr_to r, tr_value r, tr_calldata r, tr_created_at r) =
       (tr_job_id r0, tr_chain_id r0, tr_wallet r0, tr_to r0, tr_value r0, tr_calldata r0, tr_created_at r0) \<and>
     (tr_nonce r0 \<noteq> None \<longrightarrow> tr_nonce r = tr_nonce r0) \<and>
     tr_retry_count r0 \<le> tr_retry_count r \<and>
     (tr_retry_count r \<noteq> tr_retry_count r0 \<longrightarrow> tr_retry_count r \<le> unat (cf_maximumRetries (tm_config tm))) \<and>
     (r = r0 \<or> (tr_status r0, tr_status r) \<in> set (map (map_prod TxStatus_ToString TxStatus_ToString) tx_transitions)) \<and>
     (r \<noteq> r0 \<longrightarrow> tr_status r = ''Finalized'' \<longrightarrow>
       unat (cf_confirmationDepth (tm_config tm)) \<le> tr_confirmations r)"

lemma legal_transition: "legal tm j0 j \<Longrightarrow> (tj_status j0, tj_status j) \<in> set tx_transitions"
  by (cases "tj_status j") (auto simp: legal_def tx_transitions_def)

lemma numeric_field_Inr: "numeric_field n = Inr v \<longleftrightarrow> unat v = n"
  by (auto simp: numeric_field_def FromDecimal_Inr show_nat_dec)

lemma ParseJob_columns:
  assumes "ParseJob r = Inr j" "row_defined r"
  shows "map_option unat (tj_nonce j) = tr_nonce r" "unat (tj_retryCount j) = tr_retry_count r"
proof -
  have "tr_retry_count r < 2 ^ LENGTH(32)" using assms(2) by (simp add: row_defined_def)
  then show "unat (tj_retryCount j) = tr_retry_count r"
    using assms(1) by (auto simp: ParseJob_def unsigned_of_nat take_bit_nat_eq_self elim!: bind_resE)
  show "map_option unat (tj_nonce j) = tr_nonce r"
    using assms(1)
    by (auto simp: ParseJob_def OptionalField_def map_result_Inr numeric_field_Inr elim!: bind_resE split: option.splits)
qed

lemma row_step_follows:
  assumes "row_step tm r0 r" "row_defined r0"
  shows "row_follows tm r0 r"
proof (cases "r = r0")
  case True
  then show ?thesis by (simp add: row_follows_def)
next
  case False
  then obtain j0 j where j0: "ParseJob r0 = Inr j0" and j: "legal tm j0 j" "r = saved_row j r0"
    using assms(1) by (auto simp: row_step_def)
  note columns = ParseJob_columns [OF j0 assms(2)] and st = ParseJob_fields(2) [OF j0]
  have "(tr_status r0, tr_status r) \<in> map_prod TxStatus_ToString TxStatus_ToString ` set tx_transitions"
    using legal_transition [OF j(1)] by (force simp: j(2) st saved_row_def)
  moreover have "tr_status r = ''Finalized'' \<longrightarrow> unat (cf_confirmationDepth (tm_config tm)) \<le> tr_confirmations r"
  proof
    assume "tr_status r = ''Finalized''"
    then have "tj_status j = Finalized" by (cases "tj_status j") (simp_all add: j(2) saved_row_def)
    with j(1) show "unat (cf_confirmationDepth (tm_config tm)) \<le> tr_confirmations r"
      by (simp add: legal_def j(2) saved_row_def word_le_nat_alt)
  qed
  moreover have "job_evolves tm j0 j" using j(1) by (simp add: legal_def)
  then have "tr_retry_count r0 \<le> tr_retry_count r"
    "tr_retry_count r \<noteq> tr_retry_count r0 \<longrightarrow> tr_retry_count r \<le> unat (cf_maximumRetries (tm_config tm))"
    "tr_nonce r0 \<noteq> None \<longrightarrow> tr_nonce r = tr_nonce r0"
    using columns by (auto simp: job_evolves_def j(2) saved_row_def word_le_nat_alt)
  ultimately show ?thesis by (simp add: row_follows_def) (simp add: j(2) saved_row_def)
qed

text \<open>C31. The life of a job. Whatever the node answers, and whether the round returns or throws, each
  row of the table after \<open>RunOnce\<close> is the row before it or one legal step further: identity, target,
  value and calldata never change, an allocated nonce never changes, the retry counter grows only up
  to the limit, the status moves along the arrows of the life cycle only (a finalized, failed or
  reorganised job is never touched again) and a job is finalized only with enough confirmations. No
  empty optional is ever dereferenced.\<close>

theorem RunOnce_life_cycle:
  assumes "tx_table tm (tw_rows w)" "rpc_defined (tm_rpc tm)" "RunOnce tm w = (r, w')"
  shows "list_all2 (row_follows tm) (tw_rows w) (tw_rows w') \<and> r \<noteq> Inl Null_Dereference"
proof -
  have ok: "table_ok (tw_rows w)" using assms(1,2) by (rule tx_table_ok)
  note run = validD [OF RunOnce_valid [OF assms(2) ok, of "tw_sent w"], of w]
  have "round_inv tm (tw_rows w) (tw_sent w) {} w'" "r \<noteq> Inl Null_Dereference"
    using run assms(3) by (cases r; auto)+
  then have "list_all2 (row_step tm) (tw_rows w) (tw_rows w')"
    by (auto simp: round_inv_def rows_so_far_def elim: list_all2_mono)
  then have "list_all2 (row_follows tm) (tw_rows w) (tw_rows w')"
    by (rule list.rel_mono_strong) (use ok in \<open>auto simp: table_ok_def list_all_iff intro: row_step_follows\<close>)
  with \<open>r \<noteq> Inl Null_Dereference\<close> show ?thesis by blast
qed

text \<open>C32. Only approved transactions leave the wallet. Everything a round hands to the node is the
  signed encoding of a transaction on the manager's chain that carries no value and calls an approved
  destination with the approved selector and calldata length; and when the round is over, or has been
  cut short by an exception, each of them is in the table, so no broadcast transaction is forgotten.\<close>

theorem RunOnce_sends_approved:
  assumes "tx_table tm (tw_rows w)" "rpc_defined (tm_rpc tm)" "RunOnce tm w = (r, w')"
  shows "\<exists>new. tw_sent w' = tw_sent w @ new \<and>
    (\<forall>raw \<in> set new. approved_raw tm raw \<and> (\<exists>r \<in> set (tw_rows w'). tr_raw r = Some (Hex_Encode raw True)))"
proof -
  have ok: "table_ok (tw_rows w)" using assms(1,2) by (rule tx_table_ok)
  have "round_inv tm (tw_rows w) (tw_sent w) {} w'"
    using validD [OF RunOnce_valid [OF assms(2) ok, of "tw_sent w"], of w] assms(3) by (cases r) auto
  then show ?thesis by (auto simp: round_inv_def sent_so_far_def recorded_def)
qed

section \<open>Nonces\<close>

lemma fold_max: "(\<forall>k \<in> set (n # ns). k \<le> fold max ns n) \<and> fold max ns n \<in> set (n # ns)" for n :: nat
proof -
  have "fold max ns n = Max (set (n # ns))" by (rule Max.set_eq_fold [symmetric])
  moreover have "Max (set (n # ns)) \<in> set (n # ns)" by (rule Max_in) simp_all
  ultimately show ?thesis by simp
qed

text \<open>A new nonce is free. \<open>AllocateNonce\<close> returns a nonce that is not below the node's pending
  nonce and is above every nonce of a job of this wallet on this chain that has not failed or been
  reorganised away; and it is the smallest such nonce.\<close>

theorem AllocateNonce_fresh:
  assumes "AllocateNonce tm w = (Inr n, w')"
    and "tc_GetPendingNonce (tm_rpc tm) (tw_calls w) (signer_address (tm_signer tm)) = Inr pending"
  shows "pending \<le> n \<and>
    (\<forall>r \<in> set (tw_rows w). \<forall>k. tr_chain_id r = unat (tm_chainId tm) \<longrightarrow>
       tr_wallet r = Address_ToHex (signer_address (tm_signer tm)) True \<longrightarrow>
       tr_status r \<notin> {''Failed'', ''Reorged''} \<longrightarrow> tr_nonce r = Some k \<longrightarrow> k < unat n) \<and>
    (n = pending \<or> (\<exists>r \<in> set (tw_rows w). tr_nonce r = Some (unat n - 1) \<and> 0 < unat n)) \<and>
    tw_rows w' = tw_rows w"
proof -
  let ?P = "\<lambda>r. tr_chain_id r = unat (tm_chainId tm) \<and> tr_wallet r = Address_ToHex (signer_address (tm_signer tm)) True \<and>
      tr_nonce r \<noteq> None \<and> tr_status r \<notin> {''Failed'', ''Reorged''}"
  define ks where "ks = map (\<lambda>r. the (tr_nonce r)) (filter ?P (tw_rows w))"
  have load: "tx_LoadHighestNonce (tw_rows w) (tm_chainId tm) (signer_address (tm_signer tm)) =
      (case ks of [] \<Rightarrow> Inr None | k # ks \<Rightarrow> map_result Some (numeric_field (fold max ks k)))"
    by (simp add: tx_LoadHighestNonce_def ks_def)
  have rows: "tw_rows w' = tw_rows w"
    using assms
    by (auto simp: AllocateNonce_def bindp_def rpc_call_def query_def liftp_def ret_def split: option.splits sum.splits)
  show ?thesis
  proof (cases ks)
    case Nil
    then have "n = pending"
      using assms load by (simp add: AllocateNonce_def bindp_def rpc_call_def query_def ret_def)
    moreover have "\<not> ?P r" if "r \<in> set (tw_rows w)" for r
      using Nil that by (auto simp: ks_def filter_empty_conv)
    ultimately show ?thesis using rows by fastforce
  next
    case (Cons k ks')
    let ?m = "fold max ks' k"
    from assms load Cons obtain s where s: "unat s = ?m" and n: "\<exists>v. u256_add s 1 = Inr v \<and> n = (if v > pending then v else pending)"
      by (auto simp: AllocateNonce_def bindp_def rpc_call_def query_def liftp_def ret_def map_result_Inr numeric_field_Inr
          split: option.splits sum.splits)
    then obtain v where v: "unat v = Suc ?m" "n = (if v > pending then v else pending)"
      by (auto simp: u256_add_Inr)
    have m: "\<forall>k \<in> set ks. k \<le> ?m" "?m \<in> set ks" using fold_max [of k ks'] Cons by auto
    have "k < unat n" if "r \<in> set (tw_rows w)" "?P r" "tr_nonce r = Some k" for r k
    proof -
      have "k \<in> set ks" using that by (force simp: ks_def)
      with m(1) v show ?thesis by (auto simp: word_less_nat_alt not_less le_less_trans Suc_le_eq)
    qed
    moreover have "\<exists>r \<in> set (tw_rows w). tr_nonce r = Some ?m" using m(2) by (auto simp: ks_def)
    ultimately show ?thesis using v rows by auto
  qed
qed

section \<open>The table as storage\<close>

text \<open>Values that fit their columns.\<close>

definition job_fits :: "TxJob \<Rightarrow> bool" where
  "job_fits j \<longleftrightarrow> length (tj_wallet j) = 20 \<and> length (tj_to j) = 20 \<and>
     (\<forall>h. tj_transactionHash j = Some h \<longrightarrow> length h = 32) \<and> (\<forall>h. tj_includedBlockHash j = Some h \<longrightarrow> length h = 32)"

lemma numeric_field_unat [simp]: "numeric_field (unat v) = Inr v"
  by (simp add: numeric_field_Inr)

lemma OptionalField_map:
  "(\<And>v. x = Some v \<Longrightarrow> p (g v) = Inr v) \<Longrightarrow> OptionalField p (map_option g x) = Inr x"
  by (cases x) (simp_all add: OptionalField_def)

lemma map_option_of_unat: "map_option of_nat (map_option unat x) = (x :: uint64 option)"
  by (cases x) simp_all

lemma ParseJob_saved:
  assumes "job_fits j"
  shows "ParseJob (saved_row j (tx_row now j)) = Inr j"
proof -
  have hash: "tx_ParseHash (Hex_Encode h True) = Inr h" if "length h = 32" for h
    using that by (simp add: tx_ParseHash_def ParseHash_Encode)
  have addr: "Address_FromHex (Address_ToHex a True) = Inr a" if "length a = 20" for a
    using that by (simp add: Address_FromHex_def Address_ToHex_def Hex_Decode_Encode)
  have opt: "OptionalField tx_ParseHash (map_option (\<lambda>h. Hex_Encode h True) (tj_transactionHash j)) = Inr (tj_transactionHash j)"
    "OptionalField tx_ParseHash (map_option (\<lambda>h. Hex_Encode h True) (tj_includedBlockHash j)) = Inr (tj_includedBlockHash j)"
    "OptionalField numeric_field (map_option unat n) = Inr n" for n
    using assms by (auto intro!: OptionalField_map hash simp: job_fits_def)
  show ?thesis
    using assms addr
    by (simp add: ParseJob_def saved_row_def tx_row_def opt Hex_Decode_Encode map_option_of_unat job_fits_def)
qed

text \<open>A job survives the table: what \<open>Save\<close> writes over the row that \<open>Insert\<close> created, \<open>LoadActive\<close>
  reads back, field by field, and the status names read back as the statuses.\<close>

theorem TxJob_round_trip:
  assumes "job_fits j"
  shows "ParseJob (saved_row j (tx_row now j)) = Inr j"
  using assms by (rule ParseJob_saved)

section \<open>A replacement that is left behind\<close>

text \<open>C33. A replacement can strand its job. When a replacement with a nonce, a gas limit and fees has been recorded and reading
  the block number then throws anything but an RPC exception (the \<open>runtime_error\<close> for an endpoint of
  another chain, or the \<open>overflow_error\<close> of a height beyond 64 bits), the submission throws it on before anything
  is sent, and the row is left with the status \<open>Replaced\<close>: \<open>LoadActive\<close> never returns it again, so the
  transaction that is still pending under the old fee is neither polled nor replaced any more.\<close>

theorem Submit_strands_replacement:
  assumes job: "tw_job w = j" "tw_rows w = rows" and "IsApproved tm j"
    and "tj_retryCount j < cf_maximumRetries (tm_config tm)"
    and "tj_nonce j = Some n" "tj_gasLimit j = Some g" "tj_maxPriorityFeePerGas j = Some p" "tj_maxFeePerGas j = Some f"
    and "BumpFee p = Inr p'" "BumpFee f = Inr f'"
    and "\<forall>t. \<exists>raw. SignTransaction (tm_lib tm) (tm_keccak tm) (tm_signer tm) t = Inr raw"
    and save: "tx_Save (j\<lparr>tj_retryCount := tj_retryCount j + 1, tj_status := Replaced\<rparr>) rows = Inr rows'"
    and "\<forall>t. tc_GetBlockNumber (tm_rpc tm) t = Inl e" and other: "\<forall>k m. e \<noteq> Rpc_Exception k m"
  shows "\<exists>w'. Submit tm True w = (Inl e, w') \<and> tw_rows w' = rows' \<and> tw_sent w' = tw_sent w \<and>
    (\<forall>r \<in> set (tw_rows w'). tr_job_id r = tj_jobId j \<longrightarrow> tr_status r = ''Replaced'' \<and> (\<forall>c a. \<not> tx_active c a r))"
proof -
  obtain raw where raw: "SignTransaction (tm_lib tm) (tm_keccak tm) (tm_signer tm)
     \<lparr>tx_chainId = tm_chainId tm, tx_nonce = n, tx_maxPriorityFeePerGas = p', tx_maxFeePerGas = f', tx_gasLimit = g,
      tx_to = Some (tj_to j), tx_value = tj_value j, tx_data = tj_data j\<rparr> = Inr raw" using assms(11) by blast
  have rows': "\<forall>r \<in> set rows'. tr_job_id r = tj_jobId j \<longrightarrow> tr_status r = ''Replaced'' \<and> (\<forall>c a. \<not> tx_active c a r)"
    using tx_Save_Inr [OF save] by (auto simp: save_rows_def saved_row_def tx_active_def)
  have caught: "submit_catch tm e = raise e" using other by (cases e) (auto simp: submit_catch_def)
  have "\<exists>w'. Submit tm True w = (Inl e, w') \<and> tw_rows w' = rows' \<and> tw_sent w' = tw_sent w"
    using assms raw caught
    by (simp add: Submit_def submit_try_def get_job_def set_job_def save_job_def save_and_audit_def Audit_def ensure_nonce_def
        ensure_gas_def choose_fees_def sign_and_send_def job_transaction_def deref_def rpc_call_def
        bindp_def catchp_def query_def modify_def transact_def liftp_def ret_def raise_def not_le [symmetric])
  with rows' show ?thesis by auto
qed

section \<open>A run\<close>

definition demo_lib :: secp256k1 where
  "demo_lib = \<lparr>seckey_verify = (\<lambda>_. True), pubkey_create = (\<lambda>_. None), sign_recoverable = (\<lambda>_ _. Some (replicate 64 1, 0))\<rparr>"

definition demo_node :: TransactionRpc where
  "demo_node = \<lparr>tc_GetChainId = (\<lambda>_. Inr 31337), tc_GetBlockNumber = (\<lambda>_. Inr 100), tc_GetBlock = (\<lambda>_ _. Inr None),
     tc_GetPendingNonce = (\<lambda>_ _. Inr 5), tc_EstimateGas = (\<lambda>_ _. Inr 21000),
     tc_GetFeeQuote = (\<lambda>_. Inr \<lparr>fq_maxPriorityFeePerGas = 2, fq_maxFeePerGas = 10\<rparr>),
     tc_SendRawTransaction = (\<lambda>_ _. Inr (replicate 32 9)), tc_GetReceipt = (\<lambda>_ _. Inr None)\<rparr>"

definition demo_manager :: "TransactionRpc \<Rightarrow> TxManager" where
  "demo_manager rpc = \<lparr>tm_rpc = rpc, tm_signer = \<lparr>privateKey = replicate 32 1, signer_address = replicate 20 4\<rparr>,
     tm_config = \<lparr>cf_confirmationDepth = 1, cf_replacementAfterBlocks = 3, cf_maximumRetries = 3,
       cf_approvedCalls = [\<lparr>ac_destination = replicate 20 2, ac_selector = [1, 2, 3, 4], ac_calldataSize = 4\<rparr>]\<rparr>,
     tm_chainId = 31337, tm_lib = demo_lib, tm_keccak = (\<lambda>bs. take 32 (bs @ replicate 32 0))\<rparr>"

definition demo_job :: TxJob where
  "demo_job = \<lparr>tj_jobId = ''j1'', tj_chainId = 31337, tj_wallet = replicate 20 4, tj_to = replicate 20 2,
        tj_value = 0, tj_data = [1, 2, 3, 4], tj_status = Pending, tj_nonce = None, tj_maxPriorityFeePerGas = None,
        tj_maxFeePerGas = None, tj_gasLimit = None, tj_rawTransaction = [], tj_transactionHash = None,
        tj_retryCount = 0, tj_submittedBlockNumber = None, tj_includedBlockNumber = None,
        tj_includedBlockHash = None, tj_confirmationCount = 0, tj_errorMessage = []\<rparr>"

definition demo_rows :: "TxJobRow list" where
  "demo_rows = snd (Queue (demo_manager demo_node) 0 ''j1'' (replicate 20 2) [1, 2, 3, 4] 0 [])"

definition demo_start :: TxWorld where
  "demo_start = \<lparr>tw_rows = demo_rows, tw_calls = 0, tw_job = demo_job, tw_broadcastAttempted = False, tw_sent = [], tw_audit = []\<rparr>"

lemma demo_rows_eq: "demo_rows = [tx_row 0 demo_job]"
  by (simp add: demo_rows_def Queue_def tx_Insert_def insert_ignore_def demo_manager_def demo_job_def)

lemma demo_table: "tx_table (demo_manager demo_node) demo_rows"
  unfolding demo_rows_def by (intro tx_table.intros)

lemma demo_defined: "rpc_defined (tm_rpc (demo_manager demo_node))"
  by (simp add: rpc_defined_def demo_manager_def demo_node_def)

lemma demo_sign: "\<exists>raw. SignTransaction demo_lib k signer t = Inr raw"
proof -
  obtain r where "FromBytes (replicate 32 1) = Inr r" using FromBytes_total [of "replicate 32 1"] by auto
  then show ?thesis by (simp add: SignTransaction_def Sign_def demo_lib_def)
qed

lemma demo_load: "tx_LoadActive demo_rows 31337 (replicate 20 4) = Inr [demo_job]"
proof -
  have "saved_row demo_job (tx_row 0 demo_job) = tx_row 0 demo_job" by (simp add: saved_row_def tx_row_def demo_job_def)
  with ParseJob_saved [of demo_job 0] have "ParseJob (tx_row 0 demo_job) = Inr demo_job"
    by (simp add: job_fits_def demo_job_def)
  moreover have "tx_active 31337 (replicate 20 4) (tx_row 0 demo_job)"
    by (simp add: tx_active_def tx_row_def demo_job_def)
  ultimately show ?thesis by (simp add: tx_LoadActive_def demo_rows_eq)
qed

lemma tx_Save_single:
  assumes "tr_job_id r = tj_jobId j" "unat (tj_retryCount j) < 2 ^ 31" "fits_bigint (tj_submittedBlockNumber j)"
    "fits_bigint (tj_includedBlockNumber j)" "unat (tj_confirmationCount j) < 2 ^ 63"
  shows "tx_Save j [r] = Inr [saved_row j r]"
  using assms by (simp add: tx_Save_def active_nonce_unique_def)

lemma demo_run: "\<exists>res w' raw. RunOnce (demo_manager demo_node) demo_start = (Inr res, w') \<and> rr_active res = 1 \<and> tw_sent w' = [raw]"
proof -
  obtain raw where raw: "SignTransaction demo_lib (\<lambda>bs. take 32 (bs @ replicate 32 0))
      \<lparr>privateKey = replicate 32 1, signer_address = replicate 20 4\<rparr>
      \<lparr>tx_chainId = 31337, tx_nonce = 5, tx_maxPriorityFeePerGas = 2, tx_maxFeePerGas = 10, tx_gasLimit = 21000,
       tx_to = Some (replicate 20 2), tx_value = 0, tx_data = [1, 2, 3, 4]\<rparr> = Inr raw"
    using demo_sign by blast
  have nonce: "tx_LoadHighestNonce [tx_row 0 demo_job] 31337 (replicate 20 4) = Inr None"
    by (simp add: tx_LoadHighestNonce_def tx_row_def)
  have load: "tx_LoadActive [tx_row 0 demo_job] 31337 (replicate 20 4) = Inr [demo_job]"
    using demo_load by (simp add: demo_rows_eq)
  have job: "tr_job_id (tx_row 0 demo_job) = ''j1''" "tj_jobId demo_job = ''j1''" "tj_status demo_job = Pending"
    "tj_nonce demo_job = None" "tj_gasLimit demo_job = None" "tj_maxPriorityFeePerGas demo_job = None" "tj_value demo_job = 0"
    "tj_to demo_job = replicate 20 2" "tj_data demo_job = [1, 2, 3, 4]" "tj_retryCount demo_job = 0" "tj_errorMessage demo_job = []"
    by (simp_all add: tx_row_def demo_job_def)
  have small: "unat (100 :: uint64) = 100" by simp
  show ?thesis
    using raw nonce load job small
    by (simp add: RunOnce_def demo_start_def demo_manager_def demo_node_def demo_rows_eq step_job_def get_job_def
        Submit_def IsApproved_def submit_try_def set_job_def save_job_def save_and_audit_def Audit_def ensure_nonce_def
        AllocateNonce_def ensure_gas_def choose_fees_def sign_and_send_def job_transaction_def deref_def rpc_call_def
        bindp_def catchp_def query_def modify_def transact_def liftp_def ret_def count_job_def tx_Save_single fits_bigint_def)
qed

theorem RunOnce_life_cycle_witness:
  "\<exists>res w'. RunOnce (demo_manager demo_node) demo_start = (Inr res, w') \<and> rr_active res = 1 \<and>
    list_all2 (row_follows (demo_manager demo_node)) (tw_rows demo_start) (tw_rows w')"
proof -
  obtain res w' where run: "RunOnce (demo_manager demo_node) demo_start = (Inr res, w')" "rr_active res = 1"
    using demo_run by blast
  have "tx_table (demo_manager demo_node) (tw_rows demo_start)" using demo_table by (simp add: demo_start_def)
  from RunOnce_life_cycle [OF this demo_defined run(1)] run show ?thesis by blast
qed

theorem RunOnce_sends_approved_witness:
  "\<exists>res w' raw. RunOnce (demo_manager demo_node) demo_start = (Inr res, w') \<and> tw_sent w' = [raw] \<and>
    approved_raw (demo_manager demo_node) raw"
proof -
  obtain res w' raw where run: "RunOnce (demo_manager demo_node) demo_start = (Inr res, w')" "tw_sent w' = [raw]"
    using demo_run by blast
  have "tx_table (demo_manager demo_node) (tw_rows demo_start)" using demo_table by (simp add: demo_start_def)
  from RunOnce_sends_approved [OF this demo_defined run(1)] run show ?thesis
    by (auto simp: demo_start_def)
qed

theorem AllocateNonce_fresh_witness:
  "\<exists>w'. AllocateNonce (demo_manager demo_node) demo_start = (Inr 5, w') \<and> tw_rows w' = demo_rows"
proof -
  have "tx_LoadHighestNonce demo_rows 31337 (replicate 20 4) = Inr None"
    by (simp add: tx_LoadHighestNonce_def demo_rows_eq tx_row_def)
  then have run: "AllocateNonce (demo_manager demo_node) demo_start = (Inr 5, demo_start\<lparr>tw_calls := 1\<rparr>)"
    by (simp add: AllocateNonce_def demo_manager_def demo_node_def demo_start_def bindp_def query_def rpc_call_def ret_def)
  have "tc_GetPendingNonce (tm_rpc (demo_manager demo_node)) (tw_calls demo_start)
      (signer_address (tm_signer (demo_manager demo_node))) = Inr 5"
    by (simp add: demo_manager_def demo_node_def)
  from AllocateNonce_fresh [OF run this] run show ?thesis by (simp add: demo_start_def)
qed

theorem TxJob_round_trip_witness: "ParseJob (saved_row demo_job (tx_row 7 demo_job)) = Inr demo_job"
  by (rule TxJob_round_trip) (simp add: job_fits_def demo_job_def)

definition demo_sent_job :: TxJob where
  "demo_sent_job = demo_job\<lparr>tj_status := Submitted, tj_nonce := Some 5, tj_gasLimit := Some 21000,
     tj_maxPriorityFeePerGas := Some 1000, tj_maxFeePerGas := Some 2000\<rparr>"

definition demo_mixed_node :: TransactionRpc where
  "demo_mixed_node = demo_node\<lparr>tc_GetBlockNumber := \<lambda>_. Inl (Runtime_Error ''wrong chain'')\<rparr>"

theorem Submit_strands_replacement_witness:
  "\<exists>w'. Submit (demo_manager demo_mixed_node) True
      (demo_start\<lparr>tw_job := demo_sent_job, tw_rows := [saved_row demo_sent_job (tx_row 0 demo_job)]\<rparr>) =
        (Inl (Runtime_Error ''wrong chain''), w') \<and> map tr_status (tw_rows w') = [''Replaced'']"
proof -
  let ?r = "saved_row demo_sent_job (tx_row 0 demo_job)"
  let ?j = "demo_sent_job\<lparr>tj_retryCount := tj_retryCount demo_sent_job + 1, tj_status := Replaced\<rparr>"
  have save: "tx_Save ?j [?r] = Inr [saved_row ?j ?r]"
    by (rule tx_Save_single) (simp_all add: demo_sent_job_def demo_job_def tx_row_def fits_bigint_def)
  have fees: "BumpFee 1000 = Inr 1125" "BumpFee 2000 = Inr 2250"
    by (simp_all add: BumpFee_def u256_eval)
  let ?w = "demo_start\<lparr>tw_job := demo_sent_job, tw_rows := [?r]\<rparr>"
  have "\<exists>w'. Submit (demo_manager demo_mixed_node) True ?w = (Inl (Runtime_Error ''wrong chain''), w') \<and>
      tw_rows w' = [saved_row ?j ?r] \<and> tw_sent w' = tw_sent ?w \<and>
      (\<forall>r \<in> set (tw_rows w'). tr_job_id r = tj_jobId demo_sent_job \<longrightarrow>
        tr_status r = ''Replaced'' \<and> (\<forall>c a. \<not> tx_active c a r))"
    by (rule Submit_strands_replacement [OF _ _ _ _ _ _ _ _ fees _ save])
      (simp_all add: demo_sent_job_def demo_job_def demo_manager_def demo_mixed_node_def demo_node_def IsApproved_def demo_sign)
  then show ?thesis by (auto simp: saved_row_def)
qed

end
