(* ===== verification/Failover_Properties.thy ===== *)
theory Failover_Properties
  imports Failover_Correct Tx_Theorems
begin

text \<open>
  The properties of the clients over several endpoints, on the states that the constructors and the
  methods reach.
\<close>

section \<open>Reachable states of the transaction client\<close>

definition tx_rpc_next :: "RpcClient list \<Rightarrow> TxRpcState \<Rightarrow> TxRpcState set" where
  "tx_rpc_next endpoints s =
     {snd (tx_GetChainId endpoints s), snd (tx_GetBlockNumber endpoints s), snd (tx_GetFeeQuote endpoints s)} \<union>
     range (\<lambda>n. snd (tx_GetBlock endpoints n s)) \<union> range (\<lambda>a. snd (tx_GetPendingNonce endpoints a s)) \<union>
     range (\<lambda>c. snd (tx_EstimateGas endpoints c s)) \<union> range (\<lambda>raw. snd (tx_SendRawTransaction endpoints raw s)) \<union>
     range (\<lambda>h. snd (tx_GetReceipt endpoints h s))"

inductive tx_rpc_state :: "RpcClient list \<Rightarrow> TxRpcState \<Rightarrow> bool" for endpoints where
  tx_rpc_start: "RpcTransactionClient_new newClient primary additional = Inr (endpoints, s) \<Longrightarrow> tx_rpc_state endpoints s"
| tx_rpc_step: "tx_rpc_state endpoints s \<Longrightarrow> s' \<in> tx_rpc_next endpoints s \<Longrightarrow> tx_rpc_state endpoints s'"

lemma answers_counts: "answers ok m \<Longrightarrow> n \<le> snd (m n)"
  by (simp add: answers_def)

lemma counts_quantity: "n \<le> snd (call_quantity client m p n)"
  by (simp add: call_quantity_def call_run)

lemma snd_bindp_le:
  assumes "n \<le> snd (m n)" "\<And>x n. n \<le> snd (f x n)"
  shows "n \<le> snd (bindp m f (n :: nat))"
proof -
  obtain r n' where "m n = (r, n')" by fastforce
  with assms(1) assms(2) [of n'] show ?thesis by (cases r) (auto simp: bindp_def intro: order_trans)
qed

lemma counts_up_all:
  "counts_up rpc_GetChainId" "counts_up block_number_64" "counts_up (\<lambda>c. rpc_GetBlockByNumber c n)"
  "counts_up (\<lambda>c. rpc_GetTransactionCount c a b)" "counts_up (\<lambda>c. rpc_EstimateGas c call)" "counts_up fee_quote"
  "counts_up (\<lambda>c. rpc_SendRawTransaction c raw)" "counts_up (\<lambda>c. rpc_GetTransactionReceipt c h)"
proof -
  have number: "k \<le> snd (rpc_GetBlockNumber c k)" for c k
    unfolding rpc_GetBlockNumber_def
    by (intro snd_bindp_le counts_quantity) (auto simp: ret_def liftp_def bindp_def split: sum.splits)
  have block: "k \<le> snd (rpc_GetBlockByNumber c m k)" for c m k
    by (simp add: rpc_GetBlockByNumber_def call_run)
  show "counts_up rpc_GetChainId" "counts_up (\<lambda>c. rpc_GetTransactionCount c a b)" "counts_up (\<lambda>c. rpc_EstimateGas c call)"
    by (simp_all add: counts_up_def rpc_GetChainId_def rpc_GetTransactionCount_def rpc_EstimateGas_def counts_quantity)
  show "counts_up (\<lambda>c. rpc_GetBlockByNumber c n)" "counts_up (\<lambda>c. rpc_SendRawTransaction c raw)"
    "counts_up (\<lambda>c. rpc_GetTransactionReceipt c h)"
    by (simp_all add: counts_up_def rpc_GetBlockByNumber_def rpc_SendRawTransaction_def rpc_GetTransactionReceipt_def call_run)
  show "counts_up block_number_64"
    unfolding counts_up_def block_number_64_def by (intro allI snd_bindp_le number) (simp add: liftp_def)
  show "counts_up fee_quote"
    unfolding counts_up_def fee_quote_def rpc_GetMaxPriorityFeePerGas_def
    by (auto intro!: snd_bindp_le number block counts_quantity simp: ret_def liftp_def raise_def split: option.splits)
qed

lemma keeps_ExecuteFrom:
  assumes "counts_up operation" "tx_rpc_ok endpoints s"
  shows "tx_rpc_ok endpoints (snd (ExecuteFrom endpoints start operation s))"
proof -
  have "tx_inv endpoints operation None s" using assms by (simp add: tx_inv_def keeps_chain_def)
  with ExecuteFrom_valid [of endpoints operation None start] show ?thesis
    by (cases "ExecuteFrom endpoints start operation s"; cases "fst (ExecuteFrom endpoints start operation s)")
      (auto dest: validD simp: tx_inv_def)
qed

lemma keeps_send_all:
  assumes "tx_rpc_ok endpoints s" "keeps_chain c s" "\<forall>i \<in> set is. i < length endpoints"
  shows "tx_rpc_ok endpoints (snd (send_all endpoints raw is s)) \<and> keeps_chain c (snd (send_all endpoints raw is s))"
  using assms
proof (induction "is" arbitrary: s)
  case Nil
  then show ?case by simp
next
  case (Cons i "is")
  define I where "I = (\<lambda>s. tx_rpc_ok endpoints s \<and> keeps_chain c s)"
  have i: "i < length endpoints" using Cons.prems by simp
  have "keeps I (on_endpoint endpoints i (\<lambda>c. rpc_SendRawTransaction c raw))"
    by (rule validI) (use on_endpoint_ok [OF _ counts_up_all(7) _ i] in \<open>auto simp: I_def keeps_chain_def\<close>)
  moreover have "keeps I (Validate endpoints i)"
    unfolding I_def by (rule valid_weaken [OF Validate_valid [OF i, of c]]) auto
  ultimately have "keeps I (send_attempt endpoints raw i)"
    unfolding send_attempt_def by (intro keeps_bindp)
  from keepsD [OF this, of s] have "I (snd (send_attempt endpoints raw i s))" using Cons.prems by (simp add: I_def)
  with Cons.IH [of "snd (send_attempt endpoints raw i s)"] Cons.prems show ?case by (auto simp: I_def split: prod.splits)
qed

lemma tx_rpc_state_ok: "tx_rpc_state endpoints s \<Longrightarrow> tx_rpc_ok endpoints s"
proof (induction rule: tx_rpc_state.induct)
  case (tx_rpc_start newClient primary additional s)
  then obtain x xs where "endpoints = x # xs" "s = \<lparr>rs_requests = replicate (Suc (length xs)) 1,
      rs_validated = replicate (Suc (length xs)) False, rs_chainId = None, rs_activeIndex = 0\<rparr>"
    by (auto simp: RpcTransactionClient_new_def res_simps)
  then show ?case by (auto simp: tx_rpc_ok_def simp del: replicate_Suc)
next
  case (tx_rpc_step s s')
  have ex: "tx_rpc_ok endpoints (snd (Execute endpoints operation s))" if "counts_up operation" for operation :: "RpcClient \<Rightarrow> (nat, 'x) prog"
    using keeps_ExecuteFrom [OF that tx_rpc_step.IH] by (simp add: Execute_from)
  have "tx_rpc_ok endpoints (snd (Broadcast endpoints raw s))" for raw
    using keeps_send_all [OF tx_rpc_step.IH, of None "[0..<length endpoints]" raw]
    by (cases "send_all endpoints raw [0..<length endpoints] s") (simp add: Broadcast_def broadcast_loop_outcome keeps_chain_def)
  moreover have "tx_rpc_ok endpoints (snd (ExecutePrimary endpoints (\<lambda>c. rpc_GetTransactionCount c a ''pending'') s))" for a
    unfolding ExecutePrimary_def by (rule keeps_ExecuteFrom [OF counts_up_all(4) tx_rpc_step.IH])
  ultimately show ?case
    using tx_rpc_step.hyps(2) ex [OF counts_up_all(1)]
    by (auto simp: tx_rpc_next_def tx_GetChainId_def tx_GetBlockNumber_def tx_GetFeeQuote_def tx_GetBlock_def tx_GetPendingNonce_def
        tx_EstimateGas_def tx_SendRawTransaction_def tx_GetReceipt_def
        Execute_from keeps_ExecuteFrom [OF counts_up_all(1) tx_rpc_step.IH] keeps_ExecuteFrom [OF counts_up_all(2) tx_rpc_step.IH]
        keeps_ExecuteFrom [OF counts_up_all(3) tx_rpc_step.IH] keeps_ExecuteFrom [OF counts_up_all(5) tx_rpc_step.IH]
        keeps_ExecuteFrom [OF counts_up_all(6) tx_rpc_step.IH] keeps_ExecuteFrom [OF counts_up_all(8) tx_rpc_step.IH])
qed

text \<open>C34. One chain. In every state the client reaches, an answer comes from an endpoint that has itself
  reported the chain id that the client holds; once the client holds a chain id it never changes, so
  that all its answers are about one chain, and the endpoint that answered becomes the active one.\<close>

theorem Execute_one_chain:
  assumes "tx_rpc_state endpoints s" "counts_up operation" "Execute endpoints operation s = (Inr x, s')"
  shows "\<exists>i c k. i < length endpoints \<and> rs_activeIndex s' = i \<and> fst (operation (endpoints ! i) k) = Inr x \<and>
    rs_chainId s' = Some c \<and> reported (endpoints ! i) (rs_requests s' ! i) c \<and> rs_chainId s \<in> {None, Some c}"
proof -
  have "tx_inv endpoints operation (rs_chainId s) s"
    using tx_rpc_state_ok [OF assms(1)] assms(2) by (simp add: tx_inv_def keeps_chain_def)
  from validD(1) [OF ExecuteFrom_valid this, of "rs_activeIndex s" x s'] assms(3)
  obtain i where i: "i < length endpoints" "tx_inv endpoints operation (rs_chainId s) s'" "tx_served endpoints operation i x s'"
    by (auto simp: Execute_from)
  then obtain c where "rs_chainId s' = Some c" "reported (endpoints ! i) (rs_requests s' ! i) c"
    by (auto simp: tx_inv_def tx_rpc_ok_def tx_served_def)
  with i show ?thesis by (auto simp: tx_inv_def tx_served_def keeps_chain_def)
qed

text \<open>C35. Availability. As long as one endpoint answers the chain id that the client holds and answers
  the request, wherever it stands in the list and whatever the others do, the client returns.\<close>

theorem Execute_available:
  assumes "tx_rpc_state endpoints s" "counts_up operation" "rs_chainId s = Some c" "i < length endpoints"
    and "\<forall>k. fst (rpc_GetChainId (endpoints ! i) k) = Inr c"
    and "\<forall>k. \<exists>x. fst (operation (endpoints ! i) k) = Inr x"
  shows "\<exists>x s'. Execute endpoints operation s = (Inr x, s')"
proof -
  have inv: "tx_inv endpoints operation (Some c) s"
    using tx_rpc_state_ok [OF assms(1)] assms(2,3) by (simp add: tx_inv_def keeps_chain_def)
  have "\<exists>x s''. execute_attempt endpoints operation i s' = (Inr x, s'')" if "tx_inv endpoints operation (Some c) s'" for s'
  proof -
    have call: "\<exists>n. op (endpoints ! i) (rs_requests t ! i) = (Inr (v :: 'v), n)"
      if "fst (op (endpoints ! i) (rs_requests t ! i)) = Inr v" for op v t
      using that by (cases "op (endpoints ! i) (rs_requests t ! i)") auto
    have "\<exists>u t. Validate endpoints i s' = (Inr u, t)"
      using that call [of rpc_GetChainId s' c] assms(5)
      by (auto simp: Validate_def bindp_def query_def on_endpoint_def ret_def modify_def tx_inv_def keeps_chain_def)
    then obtain t where t: "Validate endpoints i s' = (Inr (), t)" by auto
    obtain x n where "operation (endpoints ! i) (rs_requests t ! i) = (Inr x, n)"
      using assms(6) [rule_format, of "rs_requests t ! i"] by (cases "operation (endpoints ! i) (rs_requests t ! i)") auto
    with t show ?thesis
      by (simp add: execute_attempt_def bindp_def on_endpoint_def modify_def ret_def)
  qed
  then have "\<exists>x s'. failover (execute_attempt endpoints operation) (ring (rs_activeIndex s) (length endpoints)) None s = (Inr x, s')"
    by (intro tx_ring.failover_returns [OF _ ring_complete [OF assms(4)] inv]) (simp_all add: ring_less)
  then show ?thesis by (simp add: Execute_from ExecuteFrom_def)
qed

text \<open>Broadcasting. Every endpoint is given the transaction in order, whatever the others answered;
  the call returns the hash of the first acceptance if there is one, and otherwise throws what the last
  endpoint threw.\<close>

theorem Broadcast_spec:
  assumes "endpoints \<noteq> []" "send_all endpoints raw [0..<length endpoints] s = (outcomes, t)"
  shows "Broadcast endpoints raw s = (broadcast_outcome outcomes, t) \<and> length outcomes = length endpoints"
proof -
  have len: "length (fst (send_all endpoints raw is s)) = length is" for "is" s
    by (induction "is" arbitrary: s) (simp_all split: prod.splits, metis fst_conv)
  from len [of "[0..<length endpoints]" s] assms(2) have "length outcomes = length endpoints" by simp
  moreover from this assms(1) have "outcomes \<noteq> []" by auto
  ultimately show ?thesis
    using assms(2) by (simp add: Broadcast_def broadcast_loop_outcome broadcast_outcome_def split: list.splits)
qed

text \<open>C39. An uncertain broadcast can be hidden. When no endpoint accepts and one of them did not answer at
  all, so that the transaction may well be on its way, but the last endpoint refused it, the broadcast
  throws the refusal; the transaction manager then puts the job back to \<open>Pending\<close> or gives it up as
  \<open>Failed\<close>, where the missing answer alone would have left it \<open>Submitted\<close>.\<close>

theorem Broadcast_hides_timeout:
  assumes "endpoints \<noteq> []" "send_all endpoints raw [0..<length endpoints] s = (outcomes, t)" "accepted outcomes = []"
    and "Inl (Rpc_Exception Transport m) \<in> set outcomes"
    and "last outcomes = Inl (Rpc_Exception k m')" "k \<noteq> Transport" "k \<noteq> Http"
    and "tw_broadcastAttempted w"
  shows "fst (Broadcast endpoints raw s) = Inl (Rpc_Exception k m') \<and>
    tj_status (tw_job (snd (submit_catch tm (Rpc_Exception k m') w))) \<in> {Pending, Failed} \<and>
    tj_status (tw_job (snd (submit_catch tm (Rpc_Exception Transport m) w))) = Submitted"
proof -
  have save: "tw_job (snd (save_and_audit a w)) = tw_job w" for a w
    by (simp add: save_and_audit_def save_job_def Audit_def bindp_def transact_def modify_def map_result_def bind_res_def
        split: sum.splits prod.splits)
  have "outcomes \<noteq> []" using assms(4) by auto
  with assms(2,3,5) have "fst (Broadcast endpoints raw s) = Inl (Rpc_Exception k m')"
    by (simp add: Broadcast_def broadcast_loop_outcome)
  with assms(6,7,8) show ?thesis
    by (auto simp: submit_catch_def set_job_def bindp_def modify_def query_def save Let_def)
qed

section \<open>The client of the indexer\<close>

text \<open>C36. Changing endpoints. Once the client knows its chain, a call that is answered by another endpoint
  than the active one has first made sure that this endpoint is on the same chain and holds the block
  of the checkpoint with the same hash; the chain id and the checkpoint stay as they are.\<close>

theorem chain_failover_agrees:
  assumes "cs_chainId s = Some c" "chain_Execute chain operation s = (Inr x, s')"
  shows "\<exists>i k. i < length (cn_clients chain) \<and> cs_activeIndex s' = i \<and> cs_chainId s' = Some c \<and>
    cs_checkpoint s' = cs_checkpoint s \<and> fst (operation (cn_clients chain ! i) k) = Inr x \<and>
    (i \<noteq> cs_activeIndex s \<longrightarrow> agrees (cn_clients chain ! i) c (cs_checkpoint s))"
proof -
  have "chain_inv chain c (cs_checkpoint s) (cs_activeIndex s) s" using assms(1) by (simp add: chain_inv_def)
  from validD(1) [OF chain_Execute_valid this assms(2)] show ?thesis
    by (auto simp: chain_served_def chain_inv_def)
qed

text \<open>An endpoint that is never validated. When the first endpoint does not answer at first, the second
  one reports a chain id and then fails, and the first one comes back, the client keeps the chain id of
  the second and takes the answers of the first without ever having asked for its chain id.\<close>

theorem chain_primary_unvalidated:
  assumes "cn_clients chain = [a, b]"
    and "s = \<lparr>cs_requests = [1, 1], cs_activeIndex = 0, cs_chainId = None, cs_checkpoint = None\<rparr>"
    and "rpc_GetChainId a 1 = (Inl e, 2)" "rpc_GetChainId b 1 = (Inr c, 2)" "operation b 2 = (Inl e', n)"
    and "operation a 2 = (Inr x, n')"
  shows "\<exists>s1 s2. chain_Execute chain operation s = (Inl e', s1) \<and> cs_chainId s1 = Some c \<and>
    chain_Execute chain operation s1 = (Inr x, s2) \<and> cs_chainId s2 = Some c \<and> cs_requests s1 ! 0 = 2 \<and> cs_requests s2 ! 0 = n'"
proof -
  have ring: "ring 0 (Suc (Suc 0)) = [0, Suc 0]" by (simp add: ring_def upt_rec)
  show ?thesis
    using assms
    by (simp add: chain_Execute_def bindp_def query_def ring chain_attempt_def ValidateCandidate_def check_checkpoint_def
        on_client_def catchp_def modify_def ret_def raise_def rethrow_def)
qed

section \<open>Runs\<close>

definition demo_silent :: RpcClient where
  "demo_silent = (demo_rpc J_Null)\<lparr>rk_node := \<lambda>_ _ _. No_Answer ''timed out''\<rparr>"

definition demo_refusing :: RpcClient where
  "demo_refusing = (demo_rpc J_Null)\<lparr>rk_node := \<lambda>_ n _. Http_Response 200 (Some (J_Obj [(''id'', J_Num (unat (of_nat n :: uint64))),
     (''jsonrpc'', J_Str ''2.0''), (''error'', J_Obj [(''message'', J_Str ''nonce too low'')])]))\<rparr>"

definition demo_one :: RpcClient where
  "demo_one = demo_rpc (J_Str (ToQuantity 1))"

lemma demo_silent_call: "bindp (Call demo_silent m p) (\<lambda>j. liftp (f j)) n =
    (Inl (Rpc_Exception Transport ''RPC transport failed: timed out''), Suc n)"
  by (simp add: call_run demo_silent_def demo_rpc_def read_answer_def)

lemma demo_refusing_call: "bindp (Call demo_refusing m p) (\<lambda>j. liftp (f j)) n = (Inl (Rpc_Exception Remote ''nonce too low''), Suc n)"
  by (simp add: call_run demo_refusing_def demo_rpc_def read_answer_def check_answer_def json_value_def)

lemma demo_one_quantity: "call_quantity demo_one m p n = (Inr 1, Suc n)"
  unfolding call_quantity_def demo_one_def
  by (subst call_result [OF demo_rpc_result]) (simp add: ParseQuantity_field)

definition demo_clients :: "RpcClient list" where
  "demo_clients = [demo_silent, demo_one]"

definition demo_fresh :: TxRpcState where
  "demo_fresh = \<lparr>rs_requests = [1, 1], rs_validated = [False, False], rs_chainId = None, rs_activeIndex = 0\<rparr>"

lemma demo_fresh_state: "tx_rpc_state demo_clients demo_fresh"
  by (rule tx_rpc_start [where newClient = "\<lambda>e. Inr (if e = [] then demo_silent else demo_one)" and primary = "[]" and additional = "[''b'']"])
    (simp add: RpcTransactionClient_new_def demo_clients_def demo_fresh_def)

lemma demo_execute:
  "Execute demo_clients rpc_GetChainId demo_fresh =
     (Inr 1, \<lparr>rs_requests = [2, 3], rs_validated = [False, True], rs_chainId = Some 1, rs_activeIndex = 1\<rparr>)"
proof -
  have "ring 0 2 = [0, 1]" by (simp add: ring_def upt_rec)
  moreover have "rpc_GetChainId demo_silent n = (Inl (Rpc_Exception Transport ''RPC transport failed: timed out''), Suc n)" for n
    by (simp only: rpc_GetChainId_def call_quantity_def demo_silent_call)
  moreover have "rpc_GetChainId demo_one n = (Inr 1, Suc n)" for n by (simp only: rpc_GetChainId_def demo_one_quantity)
  ultimately show ?thesis
    by (simp add: Execute_from demo_clients_def demo_fresh_def ExecuteFrom_def execute_attempt_def Validate_def on_endpoint_def
        bindp_def query_def catchp_def modify_def ret_def numeral_2_eq_2 numeral_3_eq_3)
qed

theorem Execute_one_chain_witness:
  "\<exists>k. fst (rpc_GetChainId (demo_clients ! 1) k) = Inr 1 \<and> reported (demo_clients ! 1) 3 1"
  using Execute_one_chain [OF demo_fresh_state counts_up_all(1) demo_execute] by simp

theorem Execute_available_witness:
  "\<exists>x s'. Execute demo_clients rpc_GetMaxPriorityFeePerGas (snd (Execute demo_clients rpc_GetChainId demo_fresh)) = (Inr x, s')"
proof (rule Execute_available [where c = 1 and i = 1])
  show "tx_rpc_state demo_clients (snd (Execute demo_clients rpc_GetChainId demo_fresh))"
    by (rule tx_rpc_step [OF demo_fresh_state]) (simp add: tx_rpc_next_def tx_GetChainId_def)
  show "counts_up rpc_GetMaxPriorityFeePerGas"
    by (simp add: counts_up_def rpc_GetMaxPriorityFeePerGas_def counts_quantity)
  show "\<forall>k. fst (rpc_GetChainId (demo_clients ! 1) k) = Inr 1" "\<forall>k. \<exists>x. fst (rpc_GetMaxPriorityFeePerGas (demo_clients ! 1) k) = Inr x"
    by (simp_all add: demo_clients_def rpc_GetChainId_def rpc_GetMaxPriorityFeePerGas_def demo_one_quantity)
  show "rs_chainId (snd (Execute demo_clients rpc_GetChainId demo_fresh)) = Some 1" by (simp add: demo_execute)
  show "1 < length demo_clients" by (simp add: demo_clients_def)
qed

definition demo_validated :: TxRpcState where
  "demo_validated = \<lparr>rs_requests = [1, 1], rs_validated = [True, True], rs_chainId = Some 1, rs_activeIndex = 0\<rparr>"

lemma send_validated:
  assumes "rs_validated s ! i" "rpc_SendRawTransaction (endpoints ! i) raw (rs_requests s ! i) = (r, n)"
  shows "send_attempt endpoints raw i s = (r, s\<lparr>rs_requests := (rs_requests s)[i := n]\<rparr>)"
  using assms by (simp add: send_attempt_def Validate_def bindp_def query_def ret_def on_endpoint_def)

lemma demo_send:
  "send_all [demo_silent, demo_refusing] raw [0, 1] demo_validated =
     ([Inl (Rpc_Exception Transport ''RPC transport failed: timed out''), Inl (Rpc_Exception Remote ''nonce too low'')],
      demo_validated\<lparr>rs_requests := [2, 2]\<rparr>)"
proof -
  have "rpc_SendRawTransaction demo_silent raw 1 = (Inl (Rpc_Exception Transport ''RPC transport failed: timed out''), 2)"
    "rpc_SendRawTransaction demo_refusing raw 1 = (Inl (Rpc_Exception Remote ''nonce too low''), 2)"
    by (simp_all add: rpc_SendRawTransaction_def demo_silent_call demo_refusing_call)
  then show ?thesis by (simp add: send_validated demo_validated_def)
qed

theorem Broadcast_spec_witness:
  "fst (Broadcast [demo_silent, demo_refusing] [1] demo_validated) = Inl (Rpc_Exception Remote ''nonce too low'')"
  using Broadcast_spec [of "[demo_silent, demo_refusing]" "[1]" demo_validated] demo_send [of "[1]"]
  by (simp add: broadcast_outcome_def upt_rec)

theorem Broadcast_hides_timeout_witness:
  "fst (Broadcast [demo_silent, demo_refusing] [1] demo_validated) = Inl (Rpc_Exception Remote ''nonce too low'') \<and>
   tj_status (tw_job (snd (submit_catch (demo_manager demo_node) (Rpc_Exception Remote ''nonce too low'')
     (demo_start\<lparr>tw_broadcastAttempted := True\<rparr>)))) \<in> {Pending, Failed}"
  using Broadcast_hides_timeout [of "[demo_silent, demo_refusing]" "[1]" demo_validated _ _ "''RPC transport failed: timed out''" Remote
      "''nonce too low''" "demo_start\<lparr>tw_broadcastAttempted := True\<rparr>" "demo_manager demo_node"] demo_send [of "[1]"]
  by (simp add: upt_rec)

definition demo_result :: "nat \<Rightarrow> json \<Rightarrow> http_answer" where
  "demo_result n j = Http_Response 200 (Some (J_Obj [(''id'', J_Num (unat (of_nat n :: uint64))), (''jsonrpc'', J_Str ''2.0''), (''result'', j)]))"

definition demo_full :: RpcClient where
  "demo_full = (demo_rpc J_Null)\<lparr>rk_node := \<lambda>_ n p. demo_result n
     (if json_find ''method'' p = Some (J_Str ''eth_getBlockByNumber'') then header_json demo_header else J_Str (ToQuantity 1))\<rparr>"

lemma demo_full_calls:
  "rpc_GetChainId demo_full n = (Inr 1, Suc n)" "rpc_GetBlockByNumber demo_full v n = (Inr (Some demo_header), Suc n)"
proof -
  have node: "node_result demo_full n ''eth_chainId'' p (J_Str (ToQuantity 1))"
    "node_result demo_full n ''eth_getBlockByNumber'' p (header_json demo_header)" for p
    by (simp_all add: node_result_def demo_full_def demo_result_def request_payload_def)
  have "ParseHeader lib (header_json demo_header) = Inr (Some demo_header)" for lib
    using header_codec.dec_enc [of demo_header lib]
    by (auto simp: header_typed_def demo_header_def ParseHeader_some_def res_simps split: option.splits)
  then show "rpc_GetChainId demo_full n = (Inr 1, Suc n)" "rpc_GetBlockByNumber demo_full v n = (Inr (Some demo_header), Suc n)"
    by (simp_all add: rpc_GetChainId_def call_quantity_def rpc_GetBlockByNumber_def call_result [OF node(1)] call_result [OF node(2)]
        ParseQuantity_field)
qed

definition demo_chain :: "RpcClient list \<Rightarrow> ChainRpc" where
  "demo_chain clients = \<lparr>cn_clients = clients, cn_contracts = \<lparr>cc_pool = replicate 20 1, cc_oracle = replicate 20 2,
     cc_weth = replicate 20 3, cc_usdc = replicate 20 4\<rparr>\<rparr>"

theorem chain_failover_agrees_witness:
  "\<exists>s'. chain_Execute (demo_chain [demo_silent, demo_full]) rpc_GetChainId
      \<lparr>cs_requests = [1, 1], cs_activeIndex = 0, cs_chainId = Some 1, cs_checkpoint = Some demo_header\<rparr> = (Inr 1, s') \<and>
    cs_activeIndex s' = 1 \<and> agrees demo_full 1 (Some demo_header)"
proof -
  let ?s = "\<lparr>cs_requests = [1, 1], cs_activeIndex = 0, cs_chainId = Some 1, cs_checkpoint = Some demo_header\<rparr>"
  have ring: "ring 0 (Suc (Suc 0)) = [0, Suc 0]" by (simp add: ring_def upt_rec)
  have silent: "rpc_GetChainId demo_silent n = (Inl (Rpc_Exception Transport ''RPC transport failed: timed out''), Suc n)" for n
    by (simp only: rpc_GetChainId_def call_quantity_def demo_silent_call)
  have run: "\<exists>s'. chain_Execute (demo_chain [demo_silent, demo_full]) rpc_GetChainId ?s = (Inr 1, s') \<and> cs_activeIndex s' = 1"
    by (simp add: chain_Execute_def bindp_def query_def demo_chain_def ring chain_attempt_def ValidateCandidate_def
        check_checkpoint_def on_client_def catchp_def modify_def ret_def silent demo_full_calls)
  then obtain s' where s': "chain_Execute (demo_chain [demo_silent, demo_full]) rpc_GetChainId ?s = (Inr 1, s')" "cs_activeIndex s' = 1"
    by blast
  from chain_failover_agrees [of ?s 1, OF _ s'(1)] s' show ?thesis by (simp add: demo_chain_def)
qed

definition demo_late :: RpcClient where
  "demo_late = (demo_rpc J_Null)\<lparr>rk_node := \<lambda>_ n _. if n = 1 then No_Answer ''timed out'' else demo_result n (J_Str (ToQuantity 1))\<rparr>"

definition demo_other :: RpcClient where
  "demo_other = (demo_rpc J_Null)\<lparr>rk_node := \<lambda>_ n _. if n = 1 then demo_result n (J_Str (ToQuantity 5)) else No_Answer ''timed out''\<rparr>"

theorem chain_primary_unvalidated_witness:
  "\<exists>s1 s2. chain_Execute (demo_chain [demo_late, demo_other]) rpc_GetMaxPriorityFeePerGas
      \<lparr>cs_requests = [1, 1], cs_activeIndex = 0, cs_chainId = None, cs_checkpoint = None\<rparr> =
        (Inl (Rpc_Exception Transport ''RPC transport failed: timed out''), s1) \<and> cs_chainId s1 = Some 5 \<and>
    chain_Execute (demo_chain [demo_late, demo_other]) rpc_GetMaxPriorityFeePerGas s1 = (Inr 1, s2) \<and>
    fst (rpc_GetChainId demo_late 2) = Inr 1"
proof -
  have "call_quantity demo_late m p 1 = (Inl (Rpc_Exception Transport ''RPC transport failed: timed out''), 2)"
    "call_quantity demo_late m p 2 = (Inr 1, 3)" "call_quantity demo_other m p 1 = (Inr 5, 2)"
    "call_quantity demo_other m p 2 = (Inl (Rpc_Exception Transport ''RPC transport failed: timed out''), 3)" for m p
    by (simp_all add: call_quantity_def call_run demo_late_def demo_other_def demo_rpc_def demo_result_def read_answer_def
        check_answer_def json_value_def ParseQuantity_field)
  note calls = this [of "''eth_chainId''" "J_Arr []", folded rpc_GetChainId_def]
    this [of "''eth_maxPriorityFeePerGas''" "J_Arr []", folded rpc_GetMaxPriorityFeePerGas_def]
  show ?thesis
    using chain_primary_unvalidated [of "demo_chain [demo_late, demo_other]" demo_late demo_other _ _ _ rpc_GetMaxPriorityFeePerGas, OF _ refl calls(1,3) calls(8,6)] calls
    by (auto simp: demo_chain_def)
qed

end
