(* ===== verification/Api_Properties.thy ===== *)
theory Api_Properties
  imports Api_Correct Rate_Limit Failover_Properties
begin

text \<open>
  The properties of the read API: its answers are the state that the indexer projected, with the block
  they come from; whatever goes wrong, a request has an answer; and heads come from one chain.
\<close>

section \<open>Answers\<close>

text \<open>The answer about an account, from the projected state.\<close>

definition position_answer :: "DerivedState \<Rightarrow> MarketSnapshot \<Rightarrow> uint64 \<Rightarrow> uint64 \<Rightarrow> bool \<Rightarrow> address \<Rightarrow> ApiResponse" where
  "position_answer s market now head healthOnly u =
     (case ds_positions s u of
        None \<Rightarrow> api_error 404 ''position not found''
      | Some p \<Rightarrow>
          (case EvaluateIndexed (indexed_of p) market now of
             Inl e \<Rightarrow> error_response e
           | Inr risk \<Rightarrow>
               if healthOnly
               then answer (J_Obj [(''address'', J_Str (Address_ToHex (pos_user (pr_position risk)) True)),
                      (''healthFactorWad'', J_Str (ToDecimal (pr_healthFactor risk))),
                      (''liquidatable'', J_Bool (pr_liquidatable risk))]) market head
               else (case MulDivDown (ps_scaledUsdcSupply p) (mk_liquidityIndex (ds_market s)) Ray of
                       Inl e \<Rightarrow> error_response e
                     | Inr supply \<Rightarrow>
                         answer (J_Obj (insort_key fst (''usdcSupply'', J_Str (ToDecimal supply)) (RiskJson risk))) market head)))"

lemma steady_read: "\<forall>n. as_db sv n = db \<Longrightarrow> db_read sv f w = (f db, w\<lparr>aw_reads := Suc (aw_reads w)\<rparr>)"
  by (simp add: db_read_def)

lemma head_known:
  "api_GetBlockNumber (as_clients sv) (aw_chain w) = (Inr head, c) \<Longrightarrow> GetHead sv (w\<lparr>aw_reads := n\<rparr>) = (Inr head, w\<lparr>aw_reads := n, aw_chain := c\<rparr>)"
  by (simp add: GetHead_def)

lemma Handle_result: "fst (Handle sv now request w) = Inr (case fst (dispatch sv now request w) of Inr response \<Rightarrow> response | Inl e \<Rightarrow> error_response e)"
  by (simp add: Handle_def catchp_def ret_def split: prod.splits sum.splits)

lemma position_result:
  assumes db: "\<forall>n. as_db sv n = db'" "as_chainId sv = cid"
    and head: "api_GetBlockNumber (as_clients sv) (aw_chain w) = (Inr head, c)"
    and view: "risk_LoadMarket db' cid = Inr market" "risk_LoadPosition db' cid u = Inr (map_option indexed_of (ds_positions s u))"
      "LoadUsdcSupply db' cid u = (case ds_positions s u of None \<Rightarrow> Inr 0
         | Some p \<Rightarrow> MulDivDown (ps_scaledUsdcSupply p) (mk_liquidityIndex (ds_market s)) Ray)"
    and len: "length u = 20"
  shows "(case fst (PositionHandler sv now (Address_ToHex u True) healthOnly w) of Inr response \<Rightarrow> response | Inl e \<Rightarrow> error_response e) =
    position_answer s market now head healthOnly u"
proof (cases "ds_positions s u")
  case None
  then show ?thesis
    by (simp add: PositionHandler_def bindp_def liftp_def Address_FromHex_ToHex [OF len] api_Evaluate_def steady_read [OF db(1)] db(2)
        view ret_def position_answer_def)
next
  case (Some p)
  show ?thesis
    by (simp add: PositionHandler_def bindp_def liftp_def Address_FromHex_ToHex [OF len] api_Evaluate_def api_LoadMarket_def
        steady_read [OF db(1)] db(2) view Some ret_def position_answer_def map_result_def bind_res_def head_known [OF head]
        split: sum.splits)
qed

lemma route_others:
  "dispatch sv now \<lparr>aq_method = ''GET'', aq_target = ''/markets'', aq_body = body\<rparr> = Markets sv"
  "dispatch sv now \<lparr>aq_method = ''GET'', aq_target = ''/liquidations'', aq_body = body\<rparr> = Liquidations sv"
  "dispatch sv now \<lparr>aq_method = ''GET'', aq_target = ''/protocol/stats'', aq_body = body\<rparr> = Stats sv"
  "dispatch sv now \<lparr>aq_method = ''POST'', aq_target = ''/risk/simulate'', aq_body = body\<rparr> = Simulate sv now body"
  by (simp_all add: dispatch_def Let_def)

lemmas handler_simps = bindp_def liftp_def ret_def api_LoadMarket_def

text \<open>C16. The API answers with the projected state. When the indexer has written a state at a block and the
  node answers with a head, the routes of the market, the statistics, the liquidations and the accounts
  return the values of exactly that state: an account's risk is the evaluation of its projected position
  (or the error of the evaluation, or 404 for no position), the liquidations are the newest hundred, and
  each answer names the block of the state and the distance to the head.\<close>

theorem api_answers_projected_state:
  assumes "wrote_state db cid b s db'" "state_wf cid cc s" "length (ib_hash b) = 32"
    and "\<forall>n. as_db sv n = db'" "as_chainId sv = cid"
    and "api_GetBlockNumber (as_clients sv) (aw_chain w) = (Inr head, c)"
    and "market = snapshot_of cid (ds_market s) b (next_version db cid)"
  shows "(\<forall>u. length u = 20 \<longrightarrow>
      fst (Handle sv now \<lparr>aq_method = ''GET'', aq_target = ''/positions/'' @ Address_ToHex u True, aq_body = body\<rparr> w) =
        Inr (position_answer s market now head False u) \<and>
      fst (Handle sv now \<lparr>aq_method = ''GET'', aq_target = ''/positions/'' @ Address_ToHex u True @ ''/health'', aq_body = body\<rparr> w) =
        Inr (position_answer s market now head True u)) \<and>
    fst (Handle sv now \<lparr>aq_method = ''GET'', aq_target = ''/markets'', aq_body = body\<rparr> w) =
      Inr (answer (J_Arr [MarketJson market]) market head) \<and>
    fst (Handle sv now \<lparr>aq_method = ''GET'', aq_target = ''/protocol/stats'', aq_body = body\<rparr> w) =
      Inr (answer (StatsJson (stats_of s)) market head) \<and>
    fst (Handle sv now \<lparr>aq_method = ''GET'', aq_target = ''/liquidations'', aq_body = body\<rparr> w) =
      Inr (answer (J_Arr (map (\<lambda>l. RecordJson (record_of l)) (take 100 (rev (ds_liquidations s))))) market head)"
proof -
  have fin: "finite (dom (ds_positions s))" using assms(2) by (simp add: state_wf_def)
  note rows = wrote_shows(1) [OF assms(1)]
  note view = risk_view [OF assms(1-3), folded assms(7)]
  note reads = steady_read [OF assms(4)] assms(5) view(1) view_stats [OF rows fin] view_liquidations [OF rows assms(2)]
    head_known [OF assms(6)]
  have position: "fst (Handle sv now \<lparr>aq_method = ''GET'', aq_target = ''/positions/'' @ Address_ToHex u True, aq_body = body\<rparr> w) =
        Inr (position_answer s market now head False u)"
    "fst (Handle sv now \<lparr>aq_method = ''GET'', aq_target = ''/positions/'' @ Address_ToHex u True @ ''/health'', aq_body = body\<rparr> w) =
        Inr (position_answer s market now head True u)" if "length u = 20" for u
  proof -
    have u: "u \<noteq> []" using that by auto
    note result = position_result [OF assms(4-6) view(1,2) view_supply [OF rows fin] that]
    show "fst (Handle sv now \<lparr>aq_method = ''GET'', aq_target = ''/positions/'' @ Address_ToHex u True, aq_body = body\<rparr> w) =
        Inr (position_answer s market now head False u)"
      unfolding Handle_result route_position(1) [OF u] result ..
    show "fst (Handle sv now \<lparr>aq_method = ''GET'', aq_target = ''/positions/'' @ Address_ToHex u True @ ''/health'', aq_body = body\<rparr> w) =
        Inr (position_answer s market now head True u)"
      unfolding Handle_result route_position(2) [OF u] result ..
  qed
  have "fst (Handle sv now \<lparr>aq_method = ''GET'', aq_target = ''/markets'', aq_body = body\<rparr> w) =
      Inr (answer (J_Arr [MarketJson market]) market head)"
    "fst (Handle sv now \<lparr>aq_method = ''GET'', aq_target = ''/protocol/stats'', aq_body = body\<rparr> w) =
      Inr (answer (StatsJson (stats_of s)) market head)"
    "fst (Handle sv now \<lparr>aq_method = ''GET'', aq_target = ''/liquidations'', aq_body = body\<rparr> w) =
      Inr (answer (J_Arr (map (\<lambda>l. RecordJson (record_of l)) (take 100 (rev (ds_liquidations s))))) market head)"
    unfolding Handle_result route_others by (simp_all add: Markets_def Stats_def Liquidations_def handler_simps reads comp_def)
  with position show ?thesis by blast
qed

definition demo_api_clients :: "RpcClient list" where
  "demo_api_clients = [demo_rpc (J_Str (ToQuantity 31337))]"

definition demo_api_world :: ApiWorld where
  "demo_api_world = \<lparr>aw_reads = 0, aw_chain = \<lparr>rs_requests = [1], rs_validated = [False], rs_chainId = None, rs_activeIndex = 0\<rparr>\<rparr>"

lemma demo_head: "\<exists>c. api_GetBlockNumber demo_api_clients (aw_chain demo_api_world) = (Inr 31337, c)"
proof -
  let ?client = "demo_rpc (J_Str (ToQuantity 31337))"
  have quantity: "call_quantity ?client m p n = (Inr 31337, Suc n)" for m p n
    by (simp add: call_quantity_def call_result [OF demo_rpc_result] ParseQuantity_field)
  then have chain: "rpc_GetChainId ?client n = (Inr 31337, Suc n)" for n by (simp add: rpc_GetChainId_def)
  have number: "rpc_GetBlockNumber ?client n = (Inr 31337, Suc n)" for n
    by (simp add: rpc_GetBlockNumber_def bindp_def quantity ret_def) (simp add: demo_rpc_def)
  have "ToUint64 31337 = Inr 31337" by (simp add: ToUint64_def)
  then show ?thesis
    by (simp add: demo_api_clients_def demo_api_world_def api_GetBlockNumber_def api_Execute_def query_def ring_def api_attempt_def
        api_Validate_def on_endpoint_def catchp_def modify_def handler_simps chain number)
qed

theorem api_answers_projected_state_witness:
  "\<exists>db market. fst (Handle \<lparr>as_db = \<lambda>_. db, as_clients = demo_api_clients, as_chainId = 31337, as_parse = \<lambda>_. Inl Json_Error\<rparr> 1000
      \<lparr>aq_method = ''GET'', aq_target = ''/protocol/stats'', aq_body = []\<rparr> demo_api_world) =
    Inr (answer (StatsJson (stats_of demo_state)) market 31337) \<and> ms_indexedBlock market = 7"
proof -
  let ?b = "\<lparr>ib_chainId = 31337, ib_number = 7, ib_hash = replicate 32 7, ib_parentHash = replicate 32 6, ib_canonical = True\<rparr>"
  obtain db where db: "wrote_state empty_db 31337 ?b demo_state db" using demo_wrote by blast
  let ?sv = "\<lparr>as_db = \<lambda>_. db, as_clients = demo_api_clients, as_chainId = 31337, as_parse = \<lambda>_. Inl Json_Error\<rparr>"
  obtain c where c: "api_GetBlockNumber (as_clients ?sv) (aw_chain demo_api_world) = (Inr 31337, c)" using demo_head by auto
  have "length (ib_hash ?b) = 32" "\<forall>n. as_db ?sv n = db" "as_chainId ?sv = 31337" by simp_all
  from api_answers_projected_state [OF db demo_state_wf this c refl, of 1000 "[]"] show ?thesis
    by (intro exI [of _ db] exI [of _ "snapshot_of 31337 (ds_market demo_state) ?b (next_version empty_db 31337)"]) (simp add: snapshot_of_def)
qed

section \<open>Failures\<close>

text \<open>The answers that a client may see.\<close>

definition api_conforms :: "ApiResponse \<Rightarrow> bool" where
  "api_conforms r \<longleftrightarrow> ar_status r = 200 \<or>
     r \<in> {api_error 400 ''invalid request'', api_error 404 ''position not found'', api_error 404 ''route not found'',
          api_error 413 ''request body too large'', api_error 429 ''request rate limit exceeded'', api_error 500 ''internal server error''}"

lemma conforms_simps [simp]:
  "api_conforms (answer data market head)" "api_conforms (error_response e)" "api_conforms (api_error 404 ''position not found'')"
  "api_conforms (api_error 404 ''route not found'')" "api_conforms \<lparr>ar_status = 200, ar_body = j\<rparr>"
  "api_conforms (api_error 413 ''request body too large'')" "api_conforms (api_error 429 ''request rate limit exceeded'')"
  by (cases e; simp add: api_conforms_def answer_def)+

definition returns_conforming :: "(ApiWorld, ApiResponse) prog \<Rightarrow> bool" where
  "returns_conforming m \<longleftrightarrow> valid (\<lambda>_. True) m (\<lambda>r _. api_conforms r) (\<lambda>_ _. True)"

lemma conforming_bindp: "(\<And>x. returns_conforming (f x)) \<Longrightarrow> returns_conforming (bindp m f)"
  unfolding returns_conforming_def by (rule valid_bindp [where R = "\<lambda>_ _. True"]) (auto simp: valid_def split: prod.splits sum.splits)

lemma conforming_ret: "api_conforms r \<Longrightarrow> returns_conforming (ret r)"
  by (simp add: returns_conforming_def valid_ret)

lemma dispatch_conforms: "returns_conforming (dispatch sv now request)"
  unfolding dispatch_def Let_def Markets_def Liquidations_def Stats_def Simulate_def PositionHandler_def
  by (auto intro!: conforming_bindp conforming_ret split: option.splits)

text \<open>C17. Every request is answered and no answer leaks an error. Whatever a request holds and whatever fails
  below (the database, the node, the arithmetic, the JSON library), a request that was read gets an
  answer, which is either the result or one of six fixed error messages with its status; only a
  connection whose request could not be read is closed without an answer.\<close>

theorem server_answers:
  "case fst (ServeConnection sv steadyNow now incoming w) of
     None \<Rightarrow> incoming = Read_Error
   | Some response \<Rightarrow> incoming \<noteq> Read_Error \<and> api_conforms response"
proof -
  have "\<exists>r. fst (Handle sv now request v) = Inr r \<and> api_conforms r" for request v
    using dispatch_conforms [of sv now request] unfolding Handle_result
    by (cases "dispatch sv now request v"; cases "fst (dispatch sv now request v)")
      (auto simp: returns_conforming_def dest: validD)
  then have handled: "\<exists>r api. Handle sv now request v = (Inr r, api) \<and> api_conforms r" for request v
    by (metis prod.collapse)
  show ?thesis
  proof (cases incoming)
    case (Received request)
    obtain ok limiter where allow: "Allow steadyNow (sw_limiter w) = (ok, limiter)" by fastforce
    obtain r api where "Handle sv now request (sw_api w) = (Inr r, api)" "api_conforms r" using handled by blast
    with Received allow show ?thesis by (cases ok) (simp_all add: ServeConnection_def)
  qed (simp_all add: ServeConnection_def)
qed

lemma FromDecimal_oversize:
  assumes "s \<noteq> []" "list_all dec_ok s" "two256 \<le> num_of 10 (map dec_val s)"
  shows "FromDecimal s = Inl Boost_Overflow"
proof -
  have digits: "fold_res (\<lambda>digit result. if of_char digit < (48 :: nat) \<or> of_char digit > (57 :: nat)
             then Inl (Invalid_Argument ''uint256 decimal string contains an invalid character'')
             else bind_res (u256_mul result 10) (\<lambda>result. u256_add result (of_nat (of_char digit - 48)))) ds r \<in> {Inl Boost_Overflow} \<union> range Inr"
    if "list_all dec_ok ds" for ds r
    using that
  proof (induction ds arbitrary: r)
    case (Cons d ds)
    then show ?case by (auto simp: dec_ok_def u256_mul_def u256_add_def checked_def)
  qed simp
  have "FromDecimal s \<noteq> Inr v" for v
    using assms(3) unat_less_two256 [of v] FromDecimal_Inr [of s v] by (metis leD)
  then show ?thesis using digits [OF assms(2), of 0] assms(1) by (auto simp: FromDecimal_def)
qed

text \<open>An amount that does not fit is answered as a failure of the server. A simulation whose amount is a
  well-formed decimal number of \<open>2 ^ 256\<close> or more gets status 500, as if the service had failed, and not
  the 400 that every other malformed amount gets.\<close>

theorem Simulate_oversize_500:
  assumes "as_parse sv body = Inr request" "json_find ''wethPrice'' request = None" "json_find ''usdcPrice'' request = None"
    and "risk_LoadMarket (as_db sv (aw_reads w)) (as_chainId sv) = Inr market"
    and "json_find ''address'' request = Some (J_Str (Address_ToHex u True))" "length u = 20"
    and "json_find ''wethCollateral'' request = Some (J_Str amount)"
    and "amount \<noteq> []" "list_all dec_ok amount" "two256 \<le> num_of 10 (map dec_val amount)"
  shows "fst (Handle sv now \<lparr>aq_method = ''POST'', aq_target = ''/risk/simulate'', aq_body = body\<rparr> w) =
    Inr (api_error 500 ''internal server error'')"
  unfolding Handle_result route_others
  using assms FromDecimal_oversize [OF assms(8-10)]
  by (simp add: Simulate_def handler_simps db_read_def Let_def decimal_at_def string_at_def json_at_def Address_FromHex_ToHex)

definition demo_request :: json where
  "demo_request = J_Obj [(''address'', J_Str (Address_ToHex (replicate 20 1) True)),
     (''usdcDebt'', J_Str ''0''), (''wethCollateral'', J_Str (CHR ''1'' # replicate 78 (CHR ''0'')))]"

theorem Simulate_oversize_500_witness:
  "\<exists>db. fst (Handle \<lparr>as_db = \<lambda>_. db, as_clients = demo_api_clients, as_chainId = 31337, as_parse = \<lambda>_. Inr demo_request\<rparr> 1000
      \<lparr>aq_method = ''POST'', aq_target = ''/risk/simulate'', aq_body = []\<rparr> demo_api_world) = Inr (api_error 500 ''internal server error'')"
proof -
  let ?b = "\<lparr>ib_chainId = 31337, ib_number = 7, ib_hash = replicate 32 7, ib_parentHash = replicate 32 6, ib_canonical = True\<rparr>"
  obtain db where db: "wrote_state empty_db 31337 ?b demo_state db" using demo_wrote by blast
  have "length (ib_hash ?b) = 32" by simp
  note market = risk_view(1) [OF db demo_state_wf this]
  let ?amount = "CHR ''1'' # replicate 78 (CHR ''0'')"
  have zeros: "num_of 10 (replicate n (0 :: nat)) = 0" for n by (induction n) (simp_all add: num_of_Cons)
  have "num_of 10 (map dec_val ?amount) = 10 ^ 78" by (simp only: list.map map_replicate num_of_Cons) (simp add: dec_val_def zeros)
  then have "two256 \<le> num_of 10 (map dec_val ?amount)" by (simp add: two256_def)
  moreover have "list_all dec_ok ?amount" by (simp add: list_all_iff dec_ok_def)
  ultimately show ?thesis
    using Simulate_oversize_500 [of "\<lparr>as_db = \<lambda>_. db, as_clients = demo_api_clients, as_chainId = 31337, as_parse = \<lambda>_. Inr demo_request\<rparr>" "[]"
        demo_request demo_api_world _ "replicate 20 1" ?amount 1000] market
    by (intro exI [of _ db]) (simp add: demo_request_def)
qed

text \<open>The risk and the block of an answer come from separate reads. The three reads behind the health of an
  account are separate transactions: the position is that of the first, the evaluation uses the market
  of the second, and the block that the answer names is that of the third, so a block that the indexer
  commits in between shows in one part of the answer and not in the other.\<close>

theorem Position_separate_reads:
  assumes "length u = 20" "n = aw_reads w" "cid = as_chainId sv"
    and "risk_LoadPosition (as_db sv n) cid u = Inr (Some p)"
    and "risk_LoadMarket (as_db sv (n + 1)) cid = Inr evaluated" "EvaluateIndexed p evaluated now = Inr risk"
    and "risk_LoadMarket (as_db sv (n + 2)) cid = Inr named"
    and "api_GetBlockNumber (as_clients sv) (aw_chain w) = (Inr head, c)"
  shows "fst (Handle sv now \<lparr>aq_method = ''GET'', aq_target = ''/positions/'' @ Address_ToHex u True @ ''/health'', aq_body = body\<rparr> w) =
    Inr (answer (J_Obj [(''address'', J_Str (Address_ToHex (pos_user (pr_position risk)) True)),
       (''healthFactorWad'', J_Str (ToDecimal (pr_healthFactor risk))), (''liquidatable'', J_Bool (pr_liquidatable risk))]) named head)"
proof -
  have "u \<noteq> []" using assms(1) by auto
  from route_position(2) [OF this] show ?thesis
    unfolding Handle_result using assms
    by (simp add: PositionHandler_def handler_simps api_Evaluate_def db_read_def Address_FromHex_ToHex GetHead_def)
qed

text \<open>The cursor moves from block 7 to block 8 between the second read and the third.\<close>

theorem Position_separate_reads_witness:
  "\<exists>sv risk named. EvaluateIndexed (indexed_of (the (ds_positions demo_state (replicate 20 9))))
       (snapshot_of 31337 (ds_market demo_state) \<lparr>ib_chainId = 31337, ib_number = 7, ib_hash = replicate 32 7,
          ib_parentHash = replicate 32 6, ib_canonical = True\<rparr> 1) 1000 = Inr risk \<and>
     fst (Handle sv 1000 \<lparr>aq_method = ''GET'', aq_target = ''/positions/'' @ Address_ToHex (replicate 20 9) True @ ''/health'', aq_body = []\<rparr>
       demo_api_world) =
     Inr (answer (J_Obj [(''address'', J_Str (Address_ToHex (pos_user (pr_position risk)) True)),
       (''healthFactorWad'', J_Str (ToDecimal (pr_healthFactor risk))), (''liquidatable'', J_Bool (pr_liquidatable risk))]) named 31337) \<and>
     pr_blockNumber risk = 7 \<and> ms_indexedBlock named = 8"
proof -
  let ?b = "\<lparr>ib_chainId = 31337, ib_number = 7, ib_hash = replicate 32 7, ib_parentHash = replicate 32 6, ib_canonical = True\<rparr>"
  let ?b' = "?b\<lparr>ib_number := 8, ib_hash := replicate 32 8\<rparr>"
  obtain db where db: "wrote_state empty_db 31337 ?b demo_state db" using demo_wrote by blast
  let ?db' = "db\<lparr>db_sync := (db_sync db)(ToDecimal 31337 \<mapsto> (8, Hex_Encode (replicate 32 8) True))\<rparr>"
  have len: "length (ib_hash ?b) = 32" by simp
  have v: "next_version empty_db 31337 = 1" by (simp add: next_version_def empty_db_def)
  note view = risk_view [OF db demo_state_wf len, unfolded v]
  have named: "risk_LoadMarket ?db' 31337 = Inr (snapshot_of 31337 (ds_market demo_state) ?b' 1)"
    by (rule view_market) (use wrote_shows [OF db] demo_state_wf in \<open>simp_all add: shows_state_def state_wf_def v\<close>)
  let ?risk = "\<lparr>pr_position = \<lparr>pos_user = replicate 20 9, pos_wethCollateral = 5, pos_usdcDebt = 0\<rparr>, pr_collateralValue = 0, pr_debtValue = 0,
        pr_maxBorrow = 0, pr_healthFactor = MaximumUint256, pr_liquidatable = False, pr_blockNumber = 7, pr_blockHash = replicate 32 7\<rparr>"
  have risk: "EvaluateIndexed (indexed_of (the (ds_positions demo_state (replicate 20 9)))) (snapshot_of 31337 (ds_market demo_state) ?b 1) 1000 =
      Inr ?risk"
    by (simp add: EvaluateIndexed_def ProjectedBorrowIndex_def DebtAtIndex_def Evaluate_def snapshot_of_def indexed_of_def demo_state_def
        PutPosition_def CreateInitialState_def u256_eval risk_const_defs projector_Ray_def)
  let ?sv = "\<lparr>as_db = \<lambda>n. if n < 2 then db else ?db', as_clients = demo_api_clients, as_chainId = 31337, as_parse = \<lambda>_. Inl Json_Error\<rparr>"
  obtain c where head: "api_GetBlockNumber (as_clients ?sv) (aw_chain demo_api_world) = (Inr 31337, c)" using demo_head by auto
  have "ds_positions demo_state (replicate 20 9) =
      Some \<lparr>ps_user = replicate 20 9, ps_wethCollateral = 5, ps_scaledUsdcSupply = 0, ps_scaledUsdcDebt = 0\<rparr>"
    by (simp add: demo_state_def PutPosition_def)
  with view(2) [of "replicate 20 9"] have position: "risk_LoadPosition (as_db ?sv 0) (as_chainId ?sv) (replicate 20 9) =
      Inr (Some (indexed_of (the (ds_positions demo_state (replicate 20 9)))))" by simp
  have reads: "0 = aw_reads demo_api_world" "risk_LoadMarket (as_db ?sv (0 + 1)) (as_chainId ?sv) = Inr (snapshot_of 31337 (ds_market demo_state) ?b 1)"
    "risk_LoadMarket (as_db ?sv (0 + 2)) (as_chainId ?sv) = Inr (snapshot_of 31337 (ds_market demo_state) ?b' 1)" "length (replicate 20 9) = 20"
    using view(1) named by (simp_all add: demo_api_world_def)
  show ?thesis
    using Position_separate_reads [OF reads(4,1) refl position reads(2) risk reads(3) head, of "[]"] risk
    by (intro exI [of _ ?sv] exI [of _ ?risk] exI [of _ "snapshot_of 31337 (ds_market demo_state) ?b' 1"]) (simp add: snapshot_of_def)
qed

end
