(* ===== verification/Consumer.thy ===== *)
theory Consumer
  imports Service_Db Messaging Effects
begin

text \<open>
  The consumers of the event stream (\<open>JetStreamConsumer::Fetch\<close> and \<open>JetStreamMessage::Ack\<close> of
  \<open>cpp/messaging/src/JetStream.cpp\<close>) and the surroundings of a service that consumes events. The broker,
  the clocks and the other services are the environment: what the n-th interaction finds. Before each
  transaction the others may have changed the database; the rows that they have locked are those that
  \<open>SKIP LOCKED\<close> passes over. The state records for which events an acknowledgement was sent, whether the
  broker confirmed it or not.
\<close>

record ServiceEnv =
  en_message :: "nat \<Rightarrow> json option res"
  en_ack :: "nat \<Rightarrow> unit res"
  en_now :: "nat \<Rightarrow> nat"
  en_steady :: "nat \<Rightarrow> nat"
  en_locked :: "nat \<Rightarrow> string set"
  en_others :: "nat \<Rightarrow> ServiceDb \<Rightarrow> ServiceDb"

record ServiceWorld =
  wk_db :: ServiceDb
  wk_ticks :: nat
  wk_acked :: "string list"

section \<open>Interactions\<close>

text \<open>No message within the time limit is \<open>None\<close>; any other failure of the broker throws.\<close>

definition Fetch :: "ServiceEnv \<Rightarrow> ('x ServiceWorld_scheme, EventEnvelope option) prog" where
  "Fetch env w =
     (bind_res (en_message env (wk_ticks w)) (\<lambda>message.
        case message of None \<Rightarrow> Inr None | Some data \<Rightarrow> map_result Some (Deserialize data)),
      w\<lparr>wk_ticks := Suc (wk_ticks w)\<rparr>)"

definition Ack :: "ServiceEnv \<Rightarrow> EventEnvelope \<Rightarrow> ('x ServiceWorld_scheme, unit) prog" where
  "Ack env event w =
     (en_ack env (wk_ticks w), w\<lparr>wk_ticks := Suc (wk_ticks w), wk_acked := wk_acked w @ [ev_eventId event]\<rparr>)"

definition on_db :: "ServiceEnv \<Rightarrow> (nat \<Rightarrow> (ServiceDb, 'a) prog) \<Rightarrow> ('x ServiceWorld_scheme, 'a) prog" where
  "on_db env statement w =
     (case statement (wk_ticks w) (en_others env (wk_ticks w) (wk_db w)) of
        (r, db) \<Rightarrow> (r, w\<lparr>wk_db := db, wk_ticks := Suc (wk_ticks w)\<rparr>))"

definition read_clock :: "(nat \<Rightarrow> nat) \<Rightarrow> ('x ServiceWorld_scheme, nat) prog" where
  "read_clock clock w = (Inr (clock (wk_ticks w)), w\<lparr>wk_ticks := Suc (wk_ticks w)\<rparr>)"

text \<open>A transaction that does not throw.\<close>

definition always :: "('s \<Rightarrow> 'a \<times> 's) \<Rightarrow> ('s, 'a) prog" where
  "always f s = (case f s of (x, s') \<Rightarrow> (Inr x, s'))"

text \<open>What both loops do with a message: handle it, then acknowledge it.\<close>

definition consume ::
  "ServiceEnv \<Rightarrow> (EventEnvelope \<Rightarrow> ('x ServiceWorld_scheme, 'r) prog) \<Rightarrow> EventEnvelope option \<Rightarrow>
     ('x ServiceWorld_scheme, 'r option) prog" where
  "consume env handle message =
     (case message of
        None \<Rightarrow> ret None
      | Some event \<Rightarrow>
          bindp (handle event) (\<lambda>r.
          bindp (Ack env event) (\<lambda>_.
          ret (Some r))))"

text \<open>A loop goes on after an exception.\<close>

fun service_loop :: "nat \<Rightarrow> ('s, 'r) prog \<Rightarrow> 's \<Rightarrow> 's" where
  "service_loop 0 round w = w"
| "service_loop (Suc n) round w = service_loop n round (snd (round w))"

lemma keeps_service_loop: "keeps P round \<Longrightarrow> P w \<Longrightarrow> P (service_loop n round w)"
  by (induction n arbitrary: w) (auto dest: keepsD)

section \<open>What the parts keep\<close>

text \<open>The environment keeps an invariant of the database.\<close>

definition others_keep :: "(ServiceDb \<Rightarrow> bool) \<Rightarrow> ServiceEnv \<Rightarrow> bool" where
  "others_keep P env \<longleftrightarrow> (\<forall>n db. P db \<longrightarrow> P (en_others env n db))"

lemma others_keepD: "others_keep P env \<Longrightarrow> P db \<Longrightarrow> P (en_others env n db)"
  by (simp add: others_keep_def)

lemma others_keep_conj: "others_keep P env \<Longrightarrow> others_keep Q env \<Longrightarrow> others_keep (\<lambda>db. P db \<and> Q db) env"
  by (simp add: others_keep_def)

lemma valid_on_db:
  assumes "others_keep P env" "\<And>n. valid P (statement n) (\<lambda>x db. Q x db) (\<lambda>_. E)"
  shows "valid (\<lambda>w. P (wk_db w)) (on_db env statement) (\<lambda>x w. Q x (wk_db w)) (\<lambda>_ w. E (wk_db w))"
proof (rule validI)
  fix w :: "'c ServiceWorld_scheme" and x t assume "P (wk_db w)" "on_db env statement w = (Inr x, t)"
  then show "Q x (wk_db t)"
    using validD(1) [OF assms(2) others_keepD [OF assms(1)]] by (auto simp: on_db_def split: prod.splits)
next
  fix w :: "'c ServiceWorld_scheme" and e t assume "P (wk_db w)" "on_db env statement w = (Inl e, t)"
  then show "E (wk_db t)"
    using validD(2) [OF assms(2) others_keepD [OF assms(1)]] by (auto simp: on_db_def split: prod.splits)
qed

lemma keeps_on_db:
  "others_keep P env \<Longrightarrow> (\<And>n. keeps P (statement n)) \<Longrightarrow> keeps (\<lambda>w. P (wk_db w)) (on_db env statement)"
  by (rule valid_on_db)

lemma keeps_always: "(\<And>db x db'. P db \<Longrightarrow> f db = (x, db') \<Longrightarrow> P db') \<Longrightarrow> keeps P (always f)"
  by (rule validI) (auto simp: always_def split: prod.splits)

lemma keeps_transact: "(\<And>db x db'. P db \<Longrightarrow> f db = Inr (x, db') \<Longrightarrow> P db') \<Longrightarrow> keeps P (transact f)"
  by (rule valid_transact)

lemma keeps_Fetch: "keeps (\<lambda>w. P (wk_db w)) (Fetch env)"
  by (rule validI) (auto simp: Fetch_def)

lemma keeps_Ack: "keeps (\<lambda>w. P (wk_db w)) (Ack env event)"
  by (rule validI) (auto simp: Ack_def)

lemma keeps_clock: "keeps (\<lambda>w. P (wk_db w)) (read_clock clock)"
  by (rule validI) (auto simp: read_clock_def)

lemma keeps_consume:
  "(\<And>event. keeps (\<lambda>w. P (wk_db w)) (handle event)) \<Longrightarrow> keeps (\<lambda>w. P (wk_db w)) (consume env handle message)"
  unfolding consume_def by (intro keeps_intros keeps_Ack)

text \<open>The parts that send no acknowledgement.\<close>

abbreviation quiet :: "('x ServiceWorld_scheme, 'a) prog \<Rightarrow> bool" where
  "quiet m \<equiv> \<forall>a. keeps (\<lambda>w. wk_acked w = a) m"

lemma quiet_parts:
  "keeps (\<lambda>w. wk_acked w = a) (Fetch env)" "keeps (\<lambda>w. wk_acked w = a) (on_db env statement)"
  "keeps (\<lambda>w. wk_acked w = a) (read_clock clock)"
  by (auto simp: Fetch_def on_db_def read_clock_def valid_def split: prod.splits sum.splits)

section \<open>Idempotent consumers\<close>

text \<open>What a consumer relies on: when the handler returns, the effect of the event is in the database, no
  effect is ever lost, and an event whose effect is there leaves the database to the others.\<close>

locale idempotent_consumer =
  fixes env :: ServiceEnv and handle :: "EventEnvelope \<Rightarrow> ('x ServiceWorld_scheme, 'r) prog"
    and inv :: "ServiceDb \<Rightarrow> bool" and effect :: "string \<Rightarrow> ServiceDb \<Rightarrow> bool"
  assumes handle_effect: "others_keep inv env \<Longrightarrow> valid (\<lambda>w. inv (wk_db w)) (handle event)
      (\<lambda>_ w. inv (wk_db w) \<and> effect (ev_eventId event) (wk_db w)) (\<lambda>_ w. inv (wk_db w))"
    and handle_keeps: "others_keep (effect i) env \<Longrightarrow> keeps (\<lambda>w. effect i (wk_db w)) (handle event)"
    and handle_quiet: "quiet (handle event)"
    and handle_again: "others_keep P env \<Longrightarrow> others_keep (effect (ev_eventId event)) env \<Longrightarrow>
      keeps (\<lambda>w. P (wk_db w) \<and> effect (ev_eventId event) (wk_db w)) (handle event)"
begin

definition acked_done :: "'x ServiceWorld_scheme \<Rightarrow> bool" where
  "acked_done w \<longleftrightarrow> inv (wk_db w) \<and> (\<forall>i \<in> set (wk_acked w). effect i (wk_db w))"

lemma keeps_acked:
  assumes "keeps (\<lambda>w. inv (wk_db w)) m" "\<And>i. keeps (\<lambda>w. effect i (wk_db w)) m" "quiet m"
  shows "keeps acked_done m"
proof -
  have "acked_done (snd (m w))" if "acked_done w" for w
    using that keepsD [OF assms(1)] keepsD [OF assms(2)] keepsD [OF assms(3) [rule_format, of "wk_acked w"]]
    by (simp add: acked_done_def)
  then show ?thesis by (intro validI) (metis snd_conv)+
qed

lemma acked_handle:
  assumes "others_keep inv env" "\<And>i. others_keep (effect i) env"
  shows "valid acked_done (handle event) (\<lambda>_ w. acked_done w \<and> effect (ev_eventId event) (wk_db w)) (\<lambda>_. acked_done)"
proof -
  have "keeps (\<lambda>w. inv (wk_db w)) (handle event)" using handle_effect [OF assms(1)] by (rule valid_weaken) simp_all
  then have "keeps acked_done (handle event)" using handle_keeps [OF assms(2)] handle_quiet by (rule keeps_acked)
  from valid_conj [OF this handle_effect [OF assms(1)]] show ?thesis
    by (rule valid_weaken) (simp_all add: acked_done_def)
qed

lemma acked_consume:
  assumes "others_keep inv env" "\<And>i. others_keep (effect i) env"
  shows "keeps acked_done (consume env handle message)"
proof (cases message)
  case (Some event)
  have "valid (\<lambda>w. acked_done w \<and> effect (ev_eventId event) (wk_db w)) (bindp (Ack env event) (\<lambda>_. ret (Some r)))
      (\<lambda>_. acked_done) (\<lambda>_. acked_done)" for r :: 'r
    by (rule validI) (auto simp: bindp_def Ack_def ret_def acked_done_def split: sum.splits)
  from valid_bindp [OF acked_handle [OF assms] this] Some show ?thesis by (simp add: consume_def)
qed (simp add: consume_def keeps_ret)

text \<open>Delivered again after any number of rounds, an event that was handled once is the others' business only.\<close>

lemma delivered_again:
  assumes "others_keep P env" "others_keep (effect (ev_eventId event)) env"
    and "keeps (\<lambda>w. effect (ev_eventId event) (wk_db w)) round" "effect (ev_eventId event) (wk_db w)"
    and "P (wk_db (service_loop n round w))"
  shows "P (wk_db (snd (consume env handle (Some event) (service_loop n round w))))"
proof -
  have "keeps (\<lambda>w. P (wk_db w) \<and> effect (ev_eventId event) (wk_db w)) (consume env handle (Some event))"
    unfolding consume_def option.case
    by (intro keeps_bindp handle_again assms(1,2) keeps_Ack [where P = "\<lambda>db. P db \<and> effect (ev_eventId event) db"] keeps_ret)
  from keepsD [OF this] show ?thesis using assms(5) keeps_service_loop [OF assms(3,4)] by blast
qed

end

end
