(* ===== verification/Risk_Service.thy ===== *)
theory Risk_Service
  imports Risk_Worker Consumer Candidate
begin

text \<open>
  The loop of the risk worker (\<open>cpp/risk-engine/src/WorkerMain.cpp\<close>): a consumer of the events of the
  indexer that scans after every event and once per interval. A scan reads the market and the positions
  in transactions of their own and commits what it found in a third, so the other services may write in
  between. Times of the steady clock are numbers of nanoseconds. Counters and console lines are left out.
\<close>

section \<open>The loop\<close>

record RiskService =
  rv_env :: ServiceEnv
  rv_chainId :: uint256
  rv_scanLimit :: nat
  rv_rescanInterval :: nat

record RiskWorld = ServiceWorld +
  wk_nextRescan :: nat

text \<open>The engine over what the two reads returned.\<close>

definition loaded :: "MarketSnapshot \<Rightarrow> IndexedPosition list \<Rightarrow> RiskRepository" where
  "loaded market positions =
     \<lparr>repo_LoadMarket = (\<lambda>_. Inr market), repo_LoadPosition = (\<lambda>_ _. Inr None), repo_LoadPositions = (\<lambda>_ _. Inr positions)\<rparr>"

definition read_scan :: "RiskService \<Rightarrow> uint64 \<Rightarrow> (RiskWorld, RiskScanResult) prog" where
  "read_scan sv now =
     bindp (on_db (rv_env sv) (\<lambda>_. query (\<lambda>db. risk_LoadMarket db (rv_chainId sv)))) (\<lambda>market.
     bindp (on_db (rv_env sv) (\<lambda>_. query (\<lambda>db. risk_LoadPositions db (rv_chainId sv) (rv_scanLimit sv)))) (\<lambda>positions.
     liftp (ScanWithStats (loaded market positions) (rv_chainId sv) (rv_scanLimit sv) now)))"

definition process :: "RiskService \<Rightarrow> uint64 \<Rightarrow> string \<Rightarrow> (RiskWorld, RiskWorkResult) prog" where
  "process sv now sourceEventId =
     bindp (read_scan sv now) (\<lambda>scan.
     bindp (on_db (rv_env sv) (\<lambda>_. transact (CommitScan sourceEventId (candidates scan)))) (\<lambda>committed.
     ret \<lparr>rw_committed = committed, rw_positionsScanned = positionsScanned scan,
          rw_liquidationCandidates = length (candidates scan)\<rparr>))"

definition rescan :: "RiskService \<Rightarrow> uint64 \<Rightarrow> (RiskWorld, RiskWorkResult) prog" where
  "rescan sv now =
     bindp (on_db (rv_env sv) (\<lambda>_. query (\<lambda>db. risk_LoadMarket db (rv_chainId sv)))) (\<lambda>market.
     process sv now (RescanEventId market now))"

definition periodic :: "RiskService \<Rightarrow> uint64 \<Rightarrow> (RiskWorld, RiskWorkResult option) prog" where
  "periodic sv now =
     bindp (read_clock (en_steady (rv_env sv))) (\<lambda>t.
     bindp (query (\<lambda>w. Inr (wk_nextRescan w))) (\<lambda>nextRescan.
     if t \<ge> nextRescan
     then bindp (rescan sv now) (\<lambda>result.
          bindp (read_clock (en_steady (rv_env sv))) (\<lambda>t.
          bindp (modify (\<lambda>w. w\<lparr>wk_nextRescan := t + rv_rescanInterval sv * 1000000000\<rparr>)) (\<lambda>_.
          ret (Some result))))
     else ret None))"

definition risk_round :: "RiskService \<Rightarrow> (RiskWorld, RiskWorkResult option \<times> RiskWorkResult option) prog" where
  "risk_round sv =
     bindp (Fetch (rv_env sv)) (\<lambda>message.
     bindp (read_clock (en_now (rv_env sv))) (\<lambda>t.
     bindp (consume (rv_env sv) (\<lambda>event. process sv (of_nat t) (ev_eventId event)) message) (\<lambda>processed.
     bindp (periodic sv (of_nat t)) (\<lambda>rescanned.
     ret (processed, rescanned)))))"

definition risk_loop :: "nat \<Rightarrow> RiskService \<Rightarrow> RiskWorld \<Rightarrow> RiskWorld" where
  "risk_loop n sv = service_loop n (risk_round sv)"

section \<open>What the loop keeps\<close>

text \<open>A read leaves the database to the others; the round keeps what the commit of a scan keeps, where the
  commit may rely on what the reads returned.\<close>

definition scan_of :: "RiskService \<Rightarrow> (ServiceDb \<Rightarrow> bool) \<Rightarrow> RiskScanResult \<Rightarrow> bool" where
  "scan_of sv P scan \<longleftrightarrow> (\<exists>db db' market positions now. P db \<and> P db' \<and> risk_LoadMarket db (rv_chainId sv) = Inr market \<and>
     risk_LoadPositions db' (rv_chainId sv) (rv_scanLimit sv) = Inr positions \<and>
     ScanWithStats (loaded market positions) (rv_chainId sv) (rv_scanLimit sv) now = Inr scan)"

lemma scan_ofI:
  "P db \<Longrightarrow> P db' \<Longrightarrow> risk_LoadMarket db (rv_chainId sv) = Inr market \<Longrightarrow>
   risk_LoadPositions db' (rv_chainId sv) (rv_scanLimit sv) = Inr positions \<Longrightarrow>
   ScanWithStats (loaded market positions) (rv_chainId sv) (rv_scanLimit sv) now = Inr scan \<Longrightarrow> scan_of sv P scan"
  unfolding scan_of_def by blast

lemma scan_of_mono:
  assumes "scan_of sv P scan" "\<And>db. P db \<Longrightarrow> Q db"
  shows "scan_of sv Q scan"
proof -
  from assms(1) obtain db db' market positions now where "P db" "P db'"
    and reads: "risk_LoadMarket db (rv_chainId sv) = Inr market" "risk_LoadPositions db' (rv_chainId sv) (rv_scanLimit sv) = Inr positions"
      "ScanWithStats (loaded market positions) (rv_chainId sv) (rv_scanLimit sv) now = Inr scan"
    unfolding scan_of_def by blast
  from assms(2) [OF this(1)] assms(2) [OF this(2)] reads show ?thesis by (rule scan_ofI)
qed

lemma valid_read:
  "others_keep P env \<Longrightarrow> valid (\<lambda>w. P (wk_db w)) (on_db env (\<lambda>_. query f))
     (\<lambda>x w. P (wk_db w) \<and> (\<exists>db. P db \<and> f db = Inr x)) (\<lambda>_ w. P (wk_db w))"
  by (rule valid_on_db) (auto intro: valid_query)

lemma valid_read_scan:
  assumes "others_keep P (rv_env sv)"
  shows "valid (\<lambda>w. P (wk_db w)) (read_scan sv now) (\<lambda>scan w. P (wk_db w) \<and> scan_of sv P scan) (\<lambda>_ w. P (wk_db w))"
  unfolding read_scan_def
  by (rule valid_bindp [OF valid_read [OF assms]], rule valid_pre_conj, rule valid_bindp [OF valid_read [OF assms]],
      rule valid_pre_conj, rule valid_liftp) (auto intro: scan_ofI)

lemma keeps_process:
  assumes "others_keep P (rv_env sv)"
    and "\<And>i scan db b db'. P db \<Longrightarrow> scan_of sv P scan \<Longrightarrow> CommitScan i (candidates scan) db = Inr (b, db') \<Longrightarrow> P db'"
  shows "keeps (\<lambda>w. P (wk_db w)) (process sv now i)"
  unfolding process_def
  by (rule valid_bindp [OF valid_read_scan [OF assms(1)]], rule valid_pre_conj,
      intro keeps_intros keeps_on_db assms(1) keeps_transact) (rule assms(2))

lemma keeps_periodic:
  assumes "others_keep P (rv_env sv)"
    and "\<And>i scan db b db'. P db \<Longrightarrow> scan_of sv P scan \<Longrightarrow> CommitScan i (candidates scan) db = Inr (b, db') \<Longrightarrow> P db'"
  shows "keeps (\<lambda>w. P (wk_db w)) (periodic sv now)"
proof -
  have "keeps (\<lambda>w. P (wk_db w)) (modify (\<lambda>w. w\<lparr>wk_nextRescan := t\<rparr>))" for t by (rule valid_modify) simp
  then show ?thesis unfolding periodic_def rescan_def
    by (intro keeps_intros keeps_clock keeps_on_db assms(1) keeps_process [OF assms])
qed

lemma keeps_risk_round:
  assumes "others_keep P (rv_env sv)"
    and "\<And>i scan db b db'. P db \<Longrightarrow> scan_of sv P scan \<Longrightarrow> CommitScan i (candidates scan) db = Inr (b, db') \<Longrightarrow> P db'"
  shows "keeps (\<lambda>w. P (wk_db w)) (risk_round sv)"
  unfolding risk_round_def
  by (intro keeps_intros keeps_Fetch keeps_clock keeps_consume keeps_process [OF assms] keeps_periodic [OF assms])

lemma quiet_process: "keeps (\<lambda>w. wk_acked w = a) (process sv now i)"
  unfolding process_def read_scan_def by (intro keeps_intros quiet_parts)

lemma quiet_periodic: "keeps (\<lambda>w. wk_acked w = a) (periodic sv now)"
proof -
  have "keeps (\<lambda>w. wk_acked w = a) (modify (\<lambda>w. w\<lparr>wk_nextRescan := t\<rparr>))" for t by (rule valid_modify) simp
  then show ?thesis unfolding periodic_def rescan_def by (intro keeps_intros quiet_parts quiet_process)
qed

text \<open>Undisturbed, the processing of an event is the worker's.\<close>

lemma process_alone:
  assumes "\<forall>n db. en_others (rv_env sv) n db = db" "process sv now i w = (r, w')"
  shows "ProcessWithStats (rv_chainId sv) (rv_scanLimit sv) i now (wk_db w) = (r, wk_db w')"
  using assms
  by (auto simp: process_def read_scan_def on_db_def bindp_def query_def transact_def liftp_def ret_def ProcessWithStats_def
    ScanWithStats_def loaded_def PostgresRiskRepository_def split: sum.splits prod.splits)

end
