(* ===== verification/Liquidation.thy ===== *)
theory Liquidation
  imports Risk_Worker Rpc_Client Failover
begin

text \<open>
  \<open>LiquidationJobs.cpp\<close>, \<open>LiquidationChain.cpp\<close> and \<open>Liquidator.cpp\<close> of \<open>cpp/liquidator\<close>: the queue of
  liquidation jobs with its leases and fencing tokens, the reads of the current state of the chain,
  and the decision to send a liquidation. Each method of the queue is one database transaction;
  \<open>NOW()\<close> is an argument. The rows that a concurrent transaction has locked, which \<open>SKIP LOCKED\<close> passes
  over, are the argument \<open>locked\<close> of \<open>Claim\<close>.
\<close>

section \<open>Jobs\<close>

record LiquidationJob =
  lj_jobId :: string
  lj_candidate :: LiquidationCandidate
  lj_workerId :: string
  lj_fencingToken :: uint64

record LiquidationSubmission =
  sb_destination :: address
  sb_data :: bytes
  sb_value :: uint256

record LiquidationReconcileResult =
  lx_completed :: nat
  lx_failed :: nat
  lx_reorged :: nat

definition liq_ParseHash :: "string \<Rightarrow> hash256 res" where
  "liq_ParseHash value = ParseHash (Invalid_Argument ''liquidation job block hash must contain 32 bytes'') value"

definition CandidateFromEvent :: "EventEnvelope \<Rightarrow> LiquidationCandidate res" where
  "CandidateFromEvent event =
     (let p = ev_payload event in
     bind_res (bind_res (string_at p ''borrower'') Address_FromHex) (\<lambda>borrower.
     bind_res (bind_res (string_at p ''healthFactor'') FromDecimal) (\<lambda>healthFactor.
     bind_res (bind_res (string_at p ''debtAsset'') Address_FromHex) (\<lambda>debtAsset.
     bind_res (bind_res (string_at p ''collateralAsset'') Address_FromHex) (\<lambda>collateralAsset.
     bind_res (bind_res (string_at p ''maxRepay'') FromDecimal) (\<lambda>maxRepay.
     bind_res (bind_res (string_at p ''expectedBonus'') FromDecimal) (\<lambda>bonus.
     bind_res (bind_res (string_at p ''expectedCollateral'') FromDecimal) (\<lambda>collateral.
     bind_res (bind_res (string_at p ''expectedBadDebt'') FromDecimal) (\<lambda>badDebt.
     Inr \<lparr>lc_borrower = borrower, lc_healthFactor = healthFactor, lc_debtAsset = debtAsset,
          lc_collateralAsset = collateralAsset, lc_maxRepay = maxRepay, lc_expectedBonus = bonus,
          lc_expectedCollateral = collateral, lc_expectedBadDebt = badDebt, lc_blockNumber = ev_blockNumber event,
          lc_blockHash = ev_blockHash event, lc_chainId = ev_chainId event,
          lc_canonicalVersion = ev_canonicalVersion event\<rparr>)))))))))"

text \<open>A row that \<open>Claim\<close> returns has a worker.\<close>

definition liq_ParseJob :: "LiquidationJobRow \<Rightarrow> LiquidationJob res" where
  "liq_ParseJob r =
     bind_res (Address_FromHex (jr_borrower r)) (\<lambda>borrower.
     bind_res (FromDecimal (jr_health_factor r)) (\<lambda>healthFactor.
     bind_res (Address_FromHex (jr_debt_asset r)) (\<lambda>debtAsset.
     bind_res (Address_FromHex (jr_collateral_asset r)) (\<lambda>collateralAsset.
     bind_res (FromDecimal (jr_max_repay r)) (\<lambda>maxRepay.
     bind_res (FromDecimal (jr_expected_bonus r)) (\<lambda>bonus.
     bind_res (FromDecimal (jr_expected_collateral r)) (\<lambda>collateral.
     bind_res (FromDecimal (jr_expected_bad_debt r)) (\<lambda>badDebt.
     bind_res (liq_ParseHash (jr_block_hash r)) (\<lambda>blockHash.
     bind_res (FromDecimal (jr_chain_id r)) (\<lambda>chainId.
     bind_res (case jr_worker_id r of Some w \<Rightarrow> Inr w | None \<Rightarrow> Inl Sql_Error) (\<lambda>worker.
     Inr \<lparr>lj_jobId = jr_job_id r,
          lj_candidate = \<lparr>lc_borrower = borrower, lc_healthFactor = healthFactor, lc_debtAsset = debtAsset,
            lc_collateralAsset = collateralAsset, lc_maxRepay = maxRepay, lc_expectedBonus = bonus,
            lc_expectedCollateral = collateral, lc_expectedBadDebt = badDebt,
            lc_blockNumber = of_nat (jr_block_number r), lc_blockHash = blockHash, lc_chainId = chainId,
            lc_canonicalVersion = of_nat (jr_canonical_version r)\<rparr>,
          lj_workerId = worker, lj_fencingToken = of_nat (jr_fencing_token r)\<rparr>)))))))))))"

section \<open>The queue\<close>

definition job_row :: "nat \<Rightarrow> string \<Rightarrow> LiquidationCandidate \<Rightarrow> LiquidationJobRow res" where
  "job_row now eventId c =
     bind_res (bigint (lc_blockNumber c)) (\<lambda>number.
     bind_res (positive_bigint (lc_canonicalVersion c)) (\<lambda>version.
     Inr \<lparr>jr_job_id = eventId, jr_source_event_id = eventId, jr_chain_id = ToDecimal (lc_chainId c),
          jr_borrower = Address_ToHex (lc_borrower c) True, jr_debt_asset = Address_ToHex (lc_debtAsset c) True,
          jr_collateral_asset = Address_ToHex (lc_collateralAsset c) True,
          jr_health_factor = ToDecimal (lc_healthFactor c), jr_max_repay = ToDecimal (lc_maxRepay c),
          jr_expected_bonus = ToDecimal (lc_expectedBonus c), jr_expected_collateral = ToDecimal (lc_expectedCollateral c),
          jr_expected_bad_debt = ToDecimal (lc_expectedBadDebt c), jr_block_number = number,
          jr_block_hash = Hex_Encode (lc_blockHash c) True, jr_canonical_version = version, jr_status = ''Available'',
          jr_worker_id = None, jr_lease_until = None, jr_fencing_token = 0, jr_tx_job_id = None, jr_error = None,
          jr_created_at = now\<rparr>))"

text \<open>The primary key is the event id too, so a row with the same key has the same source event.\<close>

definition Enqueue :: "nat \<Rightarrow> EventEnvelope \<Rightarrow> ServiceDb \<Rightarrow> (bool \<times> ServiceDb) res" where
  "Enqueue now event db =
     bind_res (CandidateFromEvent event) (\<lambda>candidate.
     case mark_processed ''liquidator'' (ev_eventId event) db of
       (False, db) \<Rightarrow> Inr (False, db)
     | (True, db) \<Rightarrow>
         map_result (\<lambda>r. (True, db\<lparr>sd_jobs := insert_ignore jr_source_event_id r (sd_jobs db)\<rparr>))
           (job_row now (ev_eventId event) candidate))"

definition expire_row :: "string \<Rightarrow> nat \<Rightarrow> LiquidationJobRow \<Rightarrow> LiquidationJobRow" where
  "expire_row chain now r =
     (if jr_chain_id r = chain \<and> jr_status r = ''Claimed'' \<and> (case jr_lease_until r of Some u \<Rightarrow> u \<le> int now | None \<Rightarrow> False)
      then r\<lparr>jr_status := ''Expired''\<rparr> else r)"

definition claimable :: "string \<Rightarrow> string set \<Rightarrow> LiquidationJobRow \<Rightarrow> bool" where
  "claimable chain locked r \<longleftrightarrow>
     jr_chain_id r = chain \<and> jr_status r \<in> {''Available'', ''Expired''} \<and> jr_job_id r \<notin> locked"

definition claimed_row :: "nat \<Rightarrow> string \<Rightarrow> int \<Rightarrow> LiquidationJobRow \<Rightarrow> LiquidationJobRow" where
  "claimed_row now worker lease r =
     r\<lparr>jr_status := ''Claimed'', jr_worker_id := Some worker, jr_lease_until := Some (int now + lease),
       jr_fencing_token := jr_fencing_token r + 1, jr_error := None\<rparr>"

definition next_job :: "string \<Rightarrow> string set \<Rightarrow> LiquidationJobRow list \<Rightarrow> LiquidationJobRow option" where
  "next_job chain locked rows =
     (case sort_key jr_created_at (sort_key jr_job_id (filter (claimable chain locked) rows)) of
        [] \<Rightarrow> None | r # _ \<Rightarrow> Some r)"

definition Claim ::
  "nat \<Rightarrow> string set \<Rightarrow> uint256 \<Rightarrow> string \<Rightarrow> int \<Rightarrow> ServiceDb \<Rightarrow> (LiquidationJob option \<times> ServiceDb) res" where
  "Claim now locked chainId workerId leaseDuration db =
     (let chain = ToDecimal chainId;
          rows = map (expire_row chain now) (sd_jobs db)
      in case next_job chain locked rows of
           None \<Rightarrow> Inr (None, db\<lparr>sd_jobs := rows\<rparr>)
         | Some r \<Rightarrow>
             if jr_fencing_token r + 1 \<ge> 2 ^ 63 then Inl Sql_Error
             else map_result (\<lambda>job. (Some job, db\<lparr>sd_jobs := map (\<lambda>x. if jr_job_id x = jr_job_id r
                                          then claimed_row now workerId leaseDuration x else x) rows\<rparr>))
                    (liq_ParseJob (claimed_row now workerId leaseDuration r)))"

definition canonical_source :: "BlockRow list \<Rightarrow> LiquidationJobRow \<Rightarrow> bool" where
  "canonical_source blocks r \<longleftrightarrow>
     list_ex (\<lambda>b. br_chain b = jr_chain_id r \<and> br_number b = jr_block_number r \<and> br_hash b = jr_block_hash r \<and>
                  br_canonical b) blocks"

text \<open>The claim that a worker presents is the one in the row, and its lease still runs.\<close>

definition holds_claim :: "nat \<Rightarrow> LiquidationJob \<Rightarrow> LiquidationJobRow \<Rightarrow> bool" where
  "holds_claim now job r \<longleftrightarrow>
     jr_job_id r = lj_jobId job \<and> jr_status r = ''Claimed'' \<and> jr_worker_id r = Some (lj_workerId job) \<and>
     jr_fencing_token r = unat (lj_fencingToken job) \<and> (case jr_lease_until r of Some u \<Rightarrow> u > int now | None \<Rightarrow> False)"

definition submission_row :: "nat \<Rightarrow> string \<Rightarrow> LiquidationJob \<Rightarrow> LiquidationSubmission \<Rightarrow> address \<Rightarrow> TxJobRow" where
  "submission_row now transactionJobId job submission wallet =
     \<lparr>tr_job_id = transactionJobId, tr_chain_id = unat (lc_chainId (lj_candidate job)),
      tr_wallet = Address_ToHex wallet True, tr_to = Address_ToHex (sb_destination submission) True,
      tr_value = unat (sb_value submission), tr_calldata = Hex_Encode (sb_data submission) True,
      tr_status = ''Pending'', tr_nonce = None, tr_max_priority_fee = None, tr_max_fee = None, tr_gas_limit = None,
      tr_raw = None, tr_tx_hash = None, tr_retry_count = 0, tr_submitted_block = None, tr_included_block = None,
      tr_included_hash = None, tr_confirmations = 0, tr_error = None, tr_created_at = now\<rparr>"

text \<open>Without an updated row the transaction is not committed and nothing stays of the insertion.\<close>

definition liq_Submit ::
  "nat \<Rightarrow> LiquidationJob \<Rightarrow> LiquidationSubmission \<Rightarrow> address \<Rightarrow> ServiceDb \<Rightarrow> bool \<times> ServiceDb" where
  "liq_Submit now job submission wallet db =
     (let transactionJobId = ''liquidation-tx:'' @ lj_jobId job;
          hit = (\<lambda>r. holds_claim now job r \<and> canonical_source (db_blocks db) r)
      in if list_ex hit (sd_jobs db)
         then (True, db\<lparr>sd_tx := insert_ignore tr_job_id (submission_row now transactionJobId job submission wallet) (sd_tx db),
                        sd_jobs := map (\<lambda>r. if hit r then r\<lparr>jr_status := ''Submitted'', jr_tx_job_id := Some transactionJobId\<rparr>
                                            else r) (sd_jobs db)\<rparr>)
         else (False, db))"

definition Invalidate :: "nat \<Rightarrow> LiquidationJob \<Rightarrow> string \<Rightarrow> ServiceDb \<Rightarrow> bool \<times> ServiceDb" where
  "Invalidate now job reason db =
     (length (filter (holds_claim now job) (sd_jobs db)) = 1,
      db\<lparr>sd_jobs := map (\<lambda>r. if holds_claim now job r
                             then r\<lparr>jr_status := ''Invalidated'', jr_error := Some reason\<rparr> else r) (sd_jobs db)\<rparr>)"

definition InvalidateNonCanonical :: "uint256 \<Rightarrow> ServiceDb \<Rightarrow> nat \<times> ServiceDb" where
  "InvalidateNonCanonical chainId db =
     (let stale = (\<lambda>r. jr_chain_id r = ToDecimal chainId \<and> jr_status r \<in> {''Available'', ''Claimed'', ''Expired''} \<and>
                       \<not> canonical_source (db_blocks db) r)
      in (length (filter stale (sd_jobs db)),
          db\<lparr>sd_jobs := map (\<lambda>r. if stale r
               then r\<lparr>jr_status := ''Invalidated'', jr_error := Some ''source block is no longer canonical''\<rparr> else r) (sd_jobs db)\<rparr>))"

definition settled_tx :: "TxJobRow list \<Rightarrow> LiquidationJobRow \<Rightarrow> TxJobRow option" where
  "settled_tx txs r =
     (if jr_status r = ''Submitted''
      then find (\<lambda>t. jr_tx_job_id r = Some (tr_job_id t) \<and> tr_status t \<in> {''Finalized'', ''Failed'', ''Reorged''}) txs
      else None)"

definition settled_status :: "string \<Rightarrow> string" where
  "settled_status s = (if s = ''Finalized'' then ''Completed'' else if s = ''Reorged'' then ''Invalidated'' else ''Failed'')"

definition count_settled :: "string \<Rightarrow> LiquidationReconcileResult \<Rightarrow> LiquidationReconcileResult" where
  "count_settled s result =
     (if s = ''Finalized'' then result\<lparr>lx_completed := Suc (lx_completed result)\<rparr>
      else if s = ''Reorged'' then result\<lparr>lx_reorged := Suc (lx_reorged result)\<rparr>
      else result\<lparr>lx_failed := Suc (lx_failed result)\<rparr>)"

definition ReconcileSubmittedWithStats :: "ServiceDb \<Rightarrow> LiquidationReconcileResult \<times> ServiceDb" where
  "ReconcileSubmittedWithStats db =
     (fold (\<lambda>r result. case settled_tx (sd_tx db) r of Some t \<Rightarrow> count_settled (tr_status t) result | None \<Rightarrow> result)
        (sd_jobs db) \<lparr>lx_completed = 0, lx_failed = 0, lx_reorged = 0\<rparr>,
      db\<lparr>sd_jobs := map (\<lambda>r. case settled_tx (sd_tx db) r of
           Some t \<Rightarrow> r\<lparr>jr_status := settled_status (tr_status t), jr_error := tr_error t\<rparr> | None \<Rightarrow> r) (sd_jobs db)\<rparr>)"

definition ReconcileSubmitted :: "ServiceDb \<Rightarrow> nat \<times> ServiceDb" where
  "ReconcileSubmitted db =
     (case ReconcileSubmittedWithStats db of (result, db) \<Rightarrow>
        (lx_completed result + lx_failed result + lx_reorged result, db))"

section \<open>The state of the chain\<close>

record LiquidationContracts =
  lt_pool :: address
  lt_liquidationManager :: address
  lt_oracle :: address
  lt_weth :: address
  lt_usdc :: address

record 's LiquidationChain =
  ln_LoadMarket :: "('s, MarketSnapshot) prog"
  ln_LoadPosition :: "address \<Rightarrow> ('s, Position) prog"
  ln_EstimateGas :: "address \<Rightarrow> address \<Rightarrow> bytes \<Rightarrow> ('s, uint256) prog"
  ln_GetFeeQuote :: "('s, FeeQuote) prog"

definition Word :: "bytes \<Rightarrow> nat \<Rightarrow> uint256 res" where
  "Word data index =
     (let offset = index * 32 in
      if length data < offset + 32 then Inl (Runtime_Error ''eth_call returned too little ABI data'')
      else FromBytes (take 32 (drop offset data)))"

definition chain_Call ::
  "(bytes \<Rightarrow> hash256) \<Rightarrow> RpcClient \<Rightarrow> address \<Rightarrow> string \<Rightarrow> AbiValue list \<Rightarrow> (nat, bytes) prog" where
  "chain_Call keccak client destination functionSignature arguments =
     rpc_EthCall client \<lparr>ca_from = None, ca_to = destination, ca_data = EncodeFunction keccak functionSignature arguments,
       ca_value = 0\<rparr> ''latest''"

definition liq_LoadMarket :: "(bytes \<Rightarrow> hash256) \<Rightarrow> RpcClient \<Rightarrow> LiquidationContracts \<Rightarrow> (nat, MarketSnapshot) prog" where
  "liq_LoadMarket keccak client contracts =
     bindp (rpc_GetChainId client) (\<lambda>chainId.
     bindp (rpc_GetBlockNumber client) (\<lambda>head.
     bindp (rpc_GetBlockByNumber client head) (\<lambda>block.
     case block of
       None \<Rightarrow> raise (Runtime_Error ''latest block is unavailable'')
     | Some block \<Rightarrow>
         bindp (chain_Call keccak client (lt_oracle contracts) ''assetPrices(address)'' [V_Address (lt_weth contracts)]) (\<lambda>weth.
         bindp (chain_Call keccak client (lt_oracle contracts) ''assetPrices(address)'' [V_Address (lt_usdc contracts)]) (\<lambda>usdc.
         bindp (liftp (ToUint64 head)) (\<lambda>number.
         bindp (liftp (Word weth 0)) (\<lambda>wethPrice.
         bindp (liftp (Word weth 1)) (\<lambda>wethUpdated.
         bindp (liftp (Word weth 2)) (\<lambda>wethAge.
         bindp (liftp (Word usdc 0)) (\<lambda>usdcPrice.
         bindp (liftp (Word usdc 1)) (\<lambda>usdcUpdated.
         bindp (liftp (Word usdc 2)) (\<lambda>usdcAge.
         bindp (liftp (ToUint64 (bh_timestamp block))) (\<lambda>timestamp.
         ret \<lparr>ms_chainId = chainId, ms_indexedBlock = number, ms_indexedBlockHash = bh_hash block,
              ms_pool = lt_pool contracts, ms_oracle = lt_oracle contracts, ms_weth = lt_weth contracts,
              ms_usdc = lt_usdc contracts, ms_borrowIndex = Ray, ms_wethPrice = wethPrice,
              ms_wethPriceUpdatedAt = wethUpdated, ms_wethMaxPriceAge = wethAge, ms_usdcPrice = usdcPrice,
              ms_usdcPriceUpdatedAt = usdcUpdated, ms_usdcMaxPriceAge = usdcAge, ms_observedAt = timestamp,
              ms_availableUsdcLiquidity = 0, ms_totalScaledUsdcDebt = 0, ms_lastInterestTimestamp = 0,
              ms_canonicalVersion = 0\<rparr>)))))))))))))"

definition liq_LoadPosition :: "(bytes \<Rightarrow> hash256) \<Rightarrow> RpcClient \<Rightarrow> LiquidationContracts \<Rightarrow> address \<Rightarrow> (nat, Position) prog" where
  "liq_LoadPosition keccak client contracts borrower =
     bindp (chain_Call keccak client (lt_pool contracts) ''wethCollateral(address)'' [V_Address borrower]) (\<lambda>collateralData.
     bindp (liftp (Word collateralData 0)) (\<lambda>collateral.
     bindp (chain_Call keccak client (lt_pool contracts) ''usdcDebt(address)'' [V_Address borrower]) (\<lambda>debtData.
     bindp (liftp (Word debtData 0)) (\<lambda>debt.
     ret \<lparr>pos_user = borrower, pos_wethCollateral = collateral, pos_usdcDebt = debt\<rparr>))))"

definition liq_EstimateGas :: "RpcClient \<Rightarrow> address \<Rightarrow> address \<Rightarrow> bytes \<Rightarrow> (nat, uint256) prog" where
  "liq_EstimateGas client sender destination data =
     rpc_EstimateGas client \<lparr>ca_from = Some sender, ca_to = destination, ca_data = data, ca_value = 0\<rparr>"

definition liq_GetFeeQuote :: "RpcClient \<Rightarrow> (nat, FeeQuote) prog" where
  "liq_GetFeeQuote client = fee_quote client"

definition RpcLiquidationChain :: "(bytes \<Rightarrow> hash256) \<Rightarrow> RpcClient \<Rightarrow> LiquidationContracts \<Rightarrow> nat LiquidationChain" where
  "RpcLiquidationChain keccak client contracts =
     \<lparr>ln_LoadMarket = liq_LoadMarket keccak client contracts, ln_LoadPosition = liq_LoadPosition keccak client contracts,
      ln_EstimateGas = liq_EstimateGas client, ln_GetFeeQuote = liq_GetFeeQuote client\<rparr>"

section \<open>The liquidator\<close>

record LiquidatorConfig =
  lg_operatorAddress :: address
  lg_liquidationManager :: address
  lg_minimumProfitUsdWad :: uint256
  lg_minimumCollateralBps :: uint64

definition EncodeLiquidation :: "(bytes \<Rightarrow> hash256) \<Rightarrow> LiquidatorConfig \<Rightarrow> LiquidationCandidate \<Rightarrow> bytes res" where
  "EncodeLiquidation keccak config c =
     bind_res (MulDivDown (lc_expectedCollateral c) (Uint256_of (lg_minimumCollateralBps config)) 10000) (\<lambda>minimumCollateral.
     Inr (EncodeFunction keccak ''liquidate(address,address,address,uint256,uint256)''
       [V_Address (lc_borrower c), V_Address (lc_debtAsset c), V_Address (lc_collateralAsset c),
        V_Uint256 (lc_maxRepay c), V_Uint256 minimumCollateral]))"

definition Prepare ::
  "(bytes \<Rightarrow> hash256) \<Rightarrow> 's LiquidationChain \<Rightarrow> LiquidatorConfig \<Rightarrow> LiquidationCandidate \<Rightarrow>
     ('s, LiquidationSubmission option) prog" where
  "Prepare keccak chain config indexedCandidate =
     bindp (ln_LoadMarket chain) (\<lambda>market.
     bindp (ln_LoadPosition chain (lc_borrower indexedCandidate)) (\<lambda>position.
     bindp (liftp (Evaluate position market (ms_observedAt market))) (\<lambda>currentRisk.
     bindp (liftp (BuildCandidate currentRisk market None)) (\<lambda>found.
     case found of
       None \<Rightarrow> ret None
     | Some currentCandidate \<Rightarrow>
         bindp (liftp (EncodeLiquidation keccak config currentCandidate)) (\<lambda>data.
         bindp (ln_EstimateGas chain (lg_operatorAddress config) (lg_liquidationManager config) data) (\<lambda>gasLimit.
         bindp (ln_GetFeeQuote chain) (\<lambda>fees.
         bindp (liftp (u256_mul gasLimit (fq_maxFeePerGas fees))) (\<lambda>gasCost.
         bindp (liftp (CollateralValue gasCost (ms_wethPrice market))) (\<lambda>gasCostUsd.
         if lc_expectedBonus currentCandidate \<le> gasCostUsd then ret None
         else
           bindp (liftp (u256_sub (lc_expectedBonus currentCandidate) gasCostUsd)) (\<lambda>profit.
           if profit < lg_minimumProfitUsdWad config then ret None
           else ret (Some \<lparr>sb_destination = lg_liquidationManager config, sb_data = data, sb_value = 0\<rparr>)))))))))))"

end
