(* ===== verification/Pipeline.thy ===== *)
theory Pipeline
  imports Liquidation
begin

text \<open>
  The way of a liquidation candidate through the services: the row of the outbox that the risk worker
  writes, the event that the publisher reads from it, its JSON form, the job that the liquidator
  makes of it and the job that a worker claims. Each stage is a codec, so that the candidate at the
  end is the candidate at the start.
\<close>

definition candidate_fits :: "LiquidationCandidate \<Rightarrow> bool" where
  "candidate_fits c \<longleftrightarrow> length (lc_borrower c) = 20 \<and> length (lc_debtAsset c) = 20 \<and> length (lc_collateralAsset c) = 20 \<and>
     length (lc_blockHash c) = 32 \<and> unat (lc_blockNumber c) < 2 ^ 63 \<and> 0 < unat (lc_canonicalVersion c) \<and>
     unat (lc_canonicalVersion c) < 2 ^ 63"

definition event_fits :: "EventEnvelope \<Rightarrow> bool" where
  "event_fits e \<longleftrightarrow> length (ev_blockHash e) = 32 \<and> pred_option (\<lambda>h. length h = 32) (ev_transactionHash e)"

lemma at_simps [simp]:
  "json_find k j = Some (J_Str s) \<Longrightarrow> string_at j k = Inr s"
  "json_find k j = Some (J_Num n) \<Longrightarrow> uint64_at j k = Inr (of_nat n)"
  "json_find k j = Some v \<Longrightarrow> json_at j k = Inr v"
  by (simp_all add: string_at_def uint64_at_def json_at_def)

interpretation event_codec: codec event_fits Serialize Deserialize
proof
  fix e assume e: "event_fits e"
  have hash: "event_ParseHash (Hex_Encode h True) = Inr h" if "length h = 32" for h
    using that by (simp add: event_ParseHash_def ParseHash_Encode)
  show "Deserialize (Serialize e) = Inr e"
    using e by (cases "ev_logIndex e"; cases "ev_transactionHash e")
      (simp_all add: Deserialize_def Serialize_def FromDecimal_ToDecimal hash event_fits_def)
qed

text \<open>The event of a candidate.\<close>

definition candidate_event :: "nat \<Rightarrow> LiquidationCandidate \<Rightarrow> EventEnvelope" where
  "candidate_event created c =
     \<lparr>ev_eventId = RiskEventId c, ev_eventType = RISK_LIQUIDATION_DETECTED,
      ev_aggregateId = ''position:'' @ Address_ToHex (lc_borrower c) False, ev_chainId = lc_chainId c,
      ev_blockNumber = lc_blockNumber c, ev_blockHash = lc_blockHash c, ev_transactionHash = None, ev_logIndex = None,
      ev_canonicalVersion = lc_canonicalVersion c, ev_createdAt = of_nat created, ev_payload = CandidatePayload c\<rparr>"

definition entry_of :: "nat \<Rightarrow> OutboxRow \<Rightarrow> OutboxEntry" where
  "entry_of created r = OutboxRow.extend r \<lparr>oe_created_at = created\<rparr>"

lemma ParseEvent_candidate:
  assumes "candidate_fits c" "candidate_row c = Inr r"
  shows "ParseEvent (entry_of created r) = Inr (candidate_event created c)"
  using assms
  by (auto simp: candidate_row_def res_simps bigint_Inr positive_bigint_def ParseEvent_def entry_of_def OutboxRow.extend_def
      FromDecimal_ToDecimal outbox_ParseHash_def ParseHash_Encode candidate_fits_def candidate_event_def split: if_splits)

lemma candidate_row_ex: "candidate_fits c \<Longrightarrow> \<exists>r. candidate_row c = Inr r"
  by (auto simp: candidate_row_def candidate_fits_def bigint_def positive_bigint_def)

lemma CandidateFromEvent_candidate:
  assumes "candidate_fits c"
  shows "CandidateFromEvent (candidate_event created c) = Inr c"
proof -
  have addr: "Address_FromHex (Address_ToHex a True) = Inr a" if "length a = 20" for a
    using that by (rule Address_FromHex_ToHex)
  show ?thesis
    using assms
    by (simp add: CandidateFromEvent_def candidate_event_def CandidatePayload_def FromDecimal_ToDecimal addr candidate_fits_def)
qed

lemma job_row_ex:
  assumes "candidate_fits c"
  shows "\<exists>r. job_row now i c = Inr r \<and>
    (\<forall>t w d. \<exists>j. liq_ParseJob (claimed_row t w d r) = Inr j \<and> lj_jobId j = i \<and> lj_candidate j = c)"
proof -
  have addr: "Address_FromHex (Address_ToHex a True) = Inr a" if "length a = 20" for a
    using that by (rule Address_FromHex_ToHex)
  have "\<exists>r. job_row now i c = Inr r" using assms by (auto simp: job_row_def candidate_fits_def bigint_def positive_bigint_def)
  then obtain r where r: "job_row now i c = Inr r" ..
  have "\<exists>j. liq_ParseJob (claimed_row t w d r) = Inr j \<and> lj_jobId j = i \<and> lj_candidate j = c" for t w d
    using r assms
    by (auto simp: job_row_def res_simps bigint_Inr positive_bigint_def liq_ParseJob_def claimed_row_def FromDecimal_ToDecimal addr
        liq_ParseHash_def ParseHash_Encode candidate_fits_def split: if_splits)
  with r show ?thesis by blast
qed

section \<open>From scan to claim\<close>

text \<open>The rows that a scan adds to the outbox.\<close>

lemma commit_fold:
  assumes "fold_res (\<lambda>c outbox. map_result (\<lambda>r. outbox_insert r outbox) (candidate_row c)) found rows = Inr rows'"
    and "c \<in> set found" "\<forall>d \<in> set found. RiskEventId d = RiskEventId c \<longrightarrow> d = c"
    and "\<forall>r \<in> set rows. ob_event_id r = RiskEventId c \<longrightarrow> candidate_row c = Inr r"
  shows "\<exists>r \<in> set rows'. candidate_row c = Inr r"
  using assms
proof (induction found arbitrary: rows)
  case Nil
  then show ?case by simp
next
  case (Cons d found)
  from Cons.prems(1) obtain r where r: "candidate_row d = Inr r"
    "fold_res (\<lambda>c outbox. map_result (\<lambda>r. outbox_insert r outbox) (candidate_row c)) found (outbox_insert r rows) = Inr rows'"
    by (auto simp: res_simps)
  have id: "ob_event_id r = RiskEventId d" using r(1) by (auto simp: candidate_row_def res_simps)
  have old: "\<forall>r \<in> set (outbox_insert r rows). ob_event_id r = RiskEventId c \<longrightarrow> candidate_row c = Inr r"
    using Cons.prems(3,4) r(1) id by (auto simp: outbox_insert_def insert_ignore_def)
  show ?case
  proof (cases "d = c")
    case False
    then show ?thesis using Cons.IH [OF r(2)] Cons.prems(2,3) old by auto
  next
    case True
    then have "\<exists>x \<in> set (outbox_insert r rows). candidate_row c = Inr x"
      using r(1) id Cons.prems(4) by (auto simp: outbox_insert_def insert_ignore_def image_iff)
    moreover have "set rows1 \<subseteq> set rows'"
      if "fold_res (\<lambda>c outbox. map_result (\<lambda>r. outbox_insert r outbox) (candidate_row c)) found rows1 = Inr rows'" for rows1
      using that
      by (induction found arbitrary: rows1) (auto simp: res_simps dest: subsetD [OF outbox_insert_keeps])
    ultimately show ?thesis using r(2) by blast
  qed
qed

text \<open>C13. From the scan to the worker. Let a committed scan of the risk worker find a candidate that fits the columns of the
  tables, whose event id (chain, block hash and borrower) is not yet in the outbox and is shared by no other
  candidate of the scan; with an id that is there already, the insertion does nothing and the earlier
  candidate of that borrower and block stands. Then the candidate is in the outbox; the event that the publisher reads from its row survives the JSON text; the liquidator
  recovers the candidate from it, stores a job for it, and whoever claims the job receives the same
  candidate, field by field.\<close>

theorem candidate_end_to_end:
  assumes "candidate_fits c" "c \<in> set found" "\<forall>d \<in> set found. RiskEventId d = RiskEventId c \<longrightarrow> d = c"
    and "RiskEventId c \<notin> ob_event_id ` set (db_outbox db)" "CommitScan source found db = Inr (True, db')"
  shows "\<exists>row \<in> set (db_outbox db'). \<forall>created. \<exists>event. ParseEvent (entry_of created row) = Inr event \<and>
    Deserialize (Serialize event) = Inr event \<and> CandidateFromEvent event = Inr c \<and>
    (\<exists>r. job_row now (ev_eventId event) c = Inr r \<and>
      (\<forall>t worker lease. \<exists>j. liq_ParseJob (claimed_row t worker lease r) = Inr j \<and> lj_jobId j = RiskEventId c \<and> lj_candidate j = c))"
proof -
  have "fold_res (\<lambda>c outbox. map_result (\<lambda>r. outbox_insert r outbox) (candidate_row c)) found (db_outbox db) = Inr (db_outbox db')"
    using assms(5) by (auto simp: CommitScan_def mark_processed_def res_simps split: if_splits)
  from commit_fold [OF this assms(2,3)] assms(4) obtain row where row: "row \<in> set (db_outbox db')" "candidate_row c = Inr row"
    by (force simp: image_iff)
  have event: "Deserialize (Serialize (candidate_event created c)) = Inr (candidate_event created c)" for created
    by (rule event_codec.dec_enc) (use assms(1) in \<open>simp add: event_fits_def candidate_event_def candidate_fits_def\<close>)
  have "ev_eventId (candidate_event created c) = RiskEventId c" for created by (simp add: candidate_event_def)
  with ParseEvent_candidate [OF assms(1) row(2)] event CandidateFromEvent_candidate [OF assms(1)]
    job_row_ex [OF assms(1), of now "RiskEventId c"] row(1)
  show ?thesis by metis
qed

section \<open>The publisher\<close>

lemma publish_loop:
  "\<exists>k \<le> length events. case for_each (publish_event broker) events s of (r, s') \<Rightarrow>
     pb_acknowledged s' = pb_acknowledged s @ take k events \<and>
     pb_rows s' = fold MarkPublished (map ev_eventId (take k events)) (pb_rows s) \<and>
     (\<forall>u. r = Inr u \<longrightarrow> k = length events) \<and>
     (\<forall>e. r = Inl e \<longrightarrow> k < length events \<and> broker (pb_messages s + k) (events ! k) = Inl e)"
proof (induction events arbitrary: s)
  case Nil
  then show ?case by (simp add: ret_def)
next
  case (Cons x events)
  show ?case
  proof (cases "broker (pb_messages s) x")
    case (Inl e)
    then show ?thesis by (intro exI [of _ 0]) (simp add: bindp_def publish_event_def Publish_def)
  next
    case (Inr u)
    define s1 where "s1 = s\<lparr>pb_messages := Suc (pb_messages s), pb_acknowledged := pb_acknowledged s @ [x],
        pb_rows := MarkPublished (ev_eventId x) (pb_rows s)\<rparr>"
    have run: "for_each (publish_event broker) (x # events) s = for_each (publish_event broker) events s1"
      using Inr by (simp add: bindp_def publish_event_def Publish_def modify_def s1_def)
    obtain k where k: "k \<le> length events" "case for_each (publish_event broker) events s1 of (r, s') \<Rightarrow>
       pb_acknowledged s' = pb_acknowledged s1 @ take k events \<and>
       pb_rows s' = fold MarkPublished (map ev_eventId (take k events)) (pb_rows s1) \<and>
       (\<forall>u. r = Inr u \<longrightarrow> k = length events) \<and>
       (\<forall>e. r = Inl e \<longrightarrow> k < length events \<and> broker (pb_messages s1 + k) (events ! k) = Inl e)"
      using Cons.IH [of s1] by (elim exE conjE) (rule that)
    have s1: "pb_acknowledged s1 = pb_acknowledged s @ [x]" "pb_messages s1 = Suc (pb_messages s)"
      "pb_rows s1 = MarkPublished (ev_eventId x) (pb_rows s)" by (simp_all add: s1_def)
    show ?thesis unfolding run using k by (intro exI [of _ "Suc k"]) (auto simp: s1)
  qed
qed

text \<open>The outbox is drained in order and nothing is lost. A round of the publisher sends the oldest
  unpublished events one after the other and marks each one only after the broker has acknowledged it;
  when the broker fails, exactly the events before the failure are acknowledged and marked, and all
  the others stay in the outbox for the next round.\<close>

theorem outbox_drained_in_order:
  assumes "LoadUnpublished (pb_rows s) limit = Inr events" "outbox_RunOnce broker limit s = (r, s')"
  shows "\<exists>k \<le> length events. pb_acknowledged s' = pb_acknowledged s @ take k events \<and>
    pb_rows s' = fold MarkPublished (map ev_eventId (take k events)) (pb_rows s) \<and>
    (\<forall>n. r = Inr n \<longrightarrow> k = length events \<and> n = k) \<and>
    (\<forall>e. r = Inl e \<longrightarrow> k < length events \<and> broker (pb_messages s + k) (events ! k) = Inl e)"
proof -
  obtain q t where q: "for_each (publish_event broker) events s = (q, t)" by fastforce
  have run: "r = map_result (\<lambda>_. length events) q" "s' = t"
    using assms q by (auto simp: outbox_RunOnce_eq bindp_def query_def ret_def map_result_def bind_res_def split: sum.splits)
  from publish_loop [where events = events and broker = broker and s = s] obtain k where "k \<le> length events" "pb_acknowledged t = pb_acknowledged s @ take k events"
    "pb_rows t = fold MarkPublished (map ev_eventId (take k events)) (pb_rows s)" "\<forall>u. q = Inr u \<longrightarrow> k = length events"
    "\<forall>e. q = Inl e \<longrightarrow> k < length events \<and> broker (pb_messages s + k) (events ! k) = Inl e"
    by (auto simp: q)
  then show ?thesis unfolding run by (intro exI [of _ k]) (auto simp: res_simps)
qed

section \<open>A candidate on its way\<close>

definition demo_candidate_sent :: LiquidationCandidate where
  "demo_candidate_sent = \<lparr>lc_borrower = replicate 20 1, lc_healthFactor = 9, lc_debtAsset = replicate 20 2,
     lc_collateralAsset = replicate 20 3, lc_maxRepay = 100, lc_expectedBonus = 5, lc_expectedCollateral = 7,
     lc_expectedBadDebt = 0, lc_blockNumber = 12, lc_blockHash = replicate 32 4, lc_chainId = 31337, lc_canonicalVersion = 3\<rparr>"

definition empty_services :: ServiceDb where
  "empty_services = \<lparr>db_blocks = [], db_logs = [], db_sync = Map.empty, db_positions = [], db_markets = [],
     db_liquidations = [], db_versions = Map.empty, db_outbox = [], sd_processed = [], sd_jobs = [], sd_tx = []\<rparr>"

lemma demo_candidate_fits: "candidate_fits demo_candidate_sent"
  by (simp add: candidate_fits_def demo_candidate_sent_def)

theorem candidate_end_to_end_witness:
  "\<exists>db' row. CommitScan ''e1'' [demo_candidate_sent] empty_services = Inr (True, db') \<and> row \<in> set (db_outbox db') \<and>
    (\<exists>event. ParseEvent (entry_of 5 row) = Inr event \<and> CandidateFromEvent event = Inr demo_candidate_sent)"
proof -
  obtain r where "candidate_row demo_candidate_sent = Inr r" using candidate_row_ex [OF demo_candidate_fits] ..
  then have "\<exists>db'. CommitScan ''e1'' [demo_candidate_sent] empty_services = Inr (True, db')"
    by (simp add: CommitScan_def mark_processed_def empty_services_def)
  then obtain db' where db': "CommitScan ''e1'' [demo_candidate_sent] empty_services = Inr (True, db')" ..
  from candidate_end_to_end [OF demo_candidate_fits _ _ _ db', of 0] db' show ?thesis
    by (fastforce simp: empty_services_def)
qed

theorem outbox_drained_in_order_witness:
  "\<exists>row s'. candidate_row demo_candidate_sent = Inr row \<and>
    outbox_RunOnce (\<lambda>_ _. Inr ()) 10 \<lparr>pb_rows = [entry_of 5 row], pb_messages = 0, pb_acknowledged = []\<rparr> = (Inr 1, s') \<and>
    pb_acknowledged s' = [candidate_event 5 demo_candidate_sent]"
proof -
  obtain row where row: "candidate_row demo_candidate_sent = Inr row" using candidate_row_ex [OF demo_candidate_fits] ..
  let ?s = "\<lparr>pb_rows = [entry_of 5 row], pb_messages = 0, pb_acknowledged = []\<rparr>"
  have "\<not> ob_published (entry_of 5 row)"
    using row by (auto simp: candidate_row_def res_simps entry_of_def OutboxRow.extend_def)
  then have load: "LoadUnpublished (pb_rows ?s) 10 = Inr [candidate_event 5 demo_candidate_sent]"
    using ParseEvent_candidate [OF demo_candidate_fits row, of 5] by (simp add: LoadUnpublished_def)
  have "\<exists>s'. outbox_RunOnce (\<lambda>_ _. Inr ()) 10 ?s = (Inr 1, s')"
    using load by (simp add: outbox_RunOnce_eq bindp_def query_def publish_event_def Publish_def modify_def ret_def)
  then obtain s' where run: "outbox_RunOnce (\<lambda>_ _. Inr ()) 10 ?s = (Inr 1, s')" ..
  from outbox_drained_in_order [OF load run] row run show ?thesis by auto
qed

end
