(* ===== verification/Risk_Safety.thy ===== *)
theory Risk_Safety
  imports Risk_Service Pipeline
begin

text \<open>
  What the loop of the risk worker guarantees whatever the broker, the clocks and the other services do:
  an event is acknowledged only when its scan is committed, a further delivery changes nothing, and
  every liquidation it announces is a candidate of the protocol rules for a market and a position that
  were in the database.
\<close>

section \<open>The risk worker as a consumer\<close>

definition scanned :: "string \<Rightarrow> ServiceDb \<Rightarrow> bool" where
  "scanned i db \<longleftrightarrow> (''risk-engine'', i) \<in> set (sd_processed db)"

lemma CommitScan_cases:
  assumes "CommitScan i found db = Inr (b, db')"
  obtains (Again) "scanned i db" "db' = db"
  | (First) outbox where "\<not> scanned i db" "fold_res (\<lambda>c outbox. map_result (\<lambda>r. outbox_insert r outbox) (candidate_row c)) found (db_outbox db) = Inr outbox"
      "db' = db\<lparr>sd_processed := sd_processed db @ [(''risk-engine'', i)], db_outbox := outbox\<rparr>"
  using assms by (cases "scanned i db") (auto simp: CommitScan_def mark_processed_def scanned_def res_simps)

lemma CommitScan_scanned: "CommitScan i found db = Inr (b, db') \<Longrightarrow> scanned i db' \<and> (scanned j db \<longrightarrow> scanned j db')"
  by (cases rule: CommitScan_cases) (auto simp: scanned_def)

lemma keeps_True: "keeps (\<lambda>_. True) m"
  by (simp add: valid_def split: prod.splits sum.splits)

interpretation risk_consumer: idempotent_consumer "rv_env sv" "\<lambda>event. process sv now (ev_eventId event)" "\<lambda>_. True" scanned for sv now
proof
  show "valid (\<lambda>w. True) (process sv now (ev_eventId event)) (\<lambda>_ w. True \<and> scanned (ev_eventId event) (wk_db w)) (\<lambda>_ w. True)"
    if "others_keep (\<lambda>_. True) (rv_env sv)" for event
    unfolding process_def
  proof (rule valid_bindp)
    show "valid (\<lambda>_. True) (read_scan sv now) (\<lambda>_ _. True) (\<lambda>_ _. True)" by (rule keeps_True)
    have "valid (\<lambda>w. True) (on_db (rv_env sv) (\<lambda>_. transact (CommitScan (ev_eventId event) found)))
        (\<lambda>_ w. scanned (ev_eventId event) (wk_db w)) (\<lambda>_ w. True)" for found
      by (rule valid_on_db [OF that, simplified], rule valid_transact) (simp_all add: CommitScan_scanned)
    then show "valid (\<lambda>_. True) (bindp (on_db (rv_env sv) (\<lambda>_. transact (CommitScan (ev_eventId event) (candidates scan))))
        (\<lambda>committed. ret \<lparr>rw_committed = committed, rw_positionsScanned = positionsScanned scan,
           rw_liquidationCandidates = length (candidates scan)\<rparr>))
        (\<lambda>_ w. True \<and> scanned (ev_eventId event) (wk_db w)) (\<lambda>_ w. True)" for scan
      by (rule valid_bindp) (simp add: valid_ret)
  qed
  show "keeps (\<lambda>w. scanned i (wk_db w)) (process sv now (ev_eventId event))" if "others_keep (scanned i) (rv_env sv)" for i event
    by (rule keeps_process [OF that]) (simp add: CommitScan_scanned)
  show "quiet (process sv now (ev_eventId event))" for event by (simp add: quiet_process)
  show "keeps (\<lambda>w. P (wk_db w) \<and> scanned (ev_eventId event) (wk_db w)) (process sv now (ev_eventId event))"
    if "others_keep P (rv_env sv)" "others_keep (scanned (ev_eventId event)) (rv_env sv)" for P event
  proof -
    let ?P = "\<lambda>db. P db \<and> scanned (ev_eventId event) db"
    have commit: "keeps ?P (transact (CommitScan (ev_eventId event) found))" for found
      by (rule keeps_transact) (auto elim: CommitScan_cases)
    show ?thesis unfolding process_def read_scan_def
      by (intro keeps_intros keeps_on_db [where P = ?P] others_keep_conj that commit)
  qed
qed

lemma acked_risk_round:
  assumes "\<forall>i. others_keep (scanned i) (rv_env sv)"
  shows "keeps risk_consumer.acked_done (risk_round sv)"
  unfolding risk_round_def
proof (intro keeps_bindp)
  have kept: "keeps (\<lambda>w. scanned i (wk_db w)) (periodic sv now)" for i now
    by (rule keeps_periodic) (use assms in \<open>simp_all add: CommitScan_scanned\<close>)
  show "keeps risk_consumer.acked_done (Fetch (rv_env sv) :: (RiskWorld, _) prog)"
    by (rule risk_consumer.keeps_acked) (simp_all add: keeps_True keeps_Fetch quiet_parts)
  show "keeps risk_consumer.acked_done (read_clock (en_now (rv_env sv)) :: (RiskWorld, _) prog)"
    by (rule risk_consumer.keeps_acked) (simp_all add: keeps_True keeps_clock quiet_parts)
  show "keeps risk_consumer.acked_done (consume (rv_env sv) (\<lambda>event. process sv now (ev_eventId event)) message)" for now message
    by (rule risk_consumer.acked_consume) (use assms in \<open>simp_all add: others_keep_def\<close>)
  show "keeps risk_consumer.acked_done (periodic sv now)" for now
    by (rule risk_consumer.keeps_acked) (simp_all add: keeps_True kept quiet_periodic)
qed (rule keeps_ret)

section \<open>The announced liquidations\<close>

text \<open>A liquidation is announced for a position and a market that were each in a state \<open>P\<close> of the database.
  The publisher may have marked the row as published.\<close>

definition candidate_found :: "RiskService \<Rightarrow> (ServiceDb \<Rightarrow> bool) \<Rightarrow> LiquidationCandidate \<Rightarrow> bool" where
  "candidate_found sv P c \<longleftrightarrow> (\<exists>db db' market positions p now risk. P db \<and> P db' \<and>
     risk_LoadMarket db (rv_chainId sv) = Inr market \<and>
     risk_LoadPositions db' (rv_chainId sv) (rv_scanLimit sv) = Inr positions \<and> p \<in> set positions \<and>
     EvaluateIndexed p market now = Inr risk \<and> pr_liquidatable risk \<and> BuildCandidate risk market None = Inr (Some c))"

definition announced :: "RiskService \<Rightarrow> (ServiceDb \<Rightarrow> bool) \<Rightarrow> OutboxRow \<Rightarrow> bool" where
  "announced sv P row \<longleftrightarrow> (\<exists>c. candidate_found sv P c \<and> candidate_row c = Inr (row\<lparr>ob_published := False\<rparr>))"

definition outbox_ok :: "RiskService \<Rightarrow> (ServiceDb \<Rightarrow> bool) \<Rightarrow> ServiceDb \<Rightarrow> bool" where
  "outbox_ok sv P db \<longleftrightarrow> P db \<and>
     (\<forall>row \<in> set (db_outbox db). ob_event_type row = RISK_LIQUIDATION_DETECTED \<longrightarrow> announced sv P row)"

lemma BuildCandidate_liquidatable: "BuildCandidate risk market req = Inr (Some c) \<Longrightarrow> pr_liquidatable risk"
  using BuildCandidate_none [of risk req market] by auto

lemma scan_position_Some:
  "scan_position market now p = Inr (Some c) \<Longrightarrow>
     \<exists>risk. EvaluateIndexed p market now = Inr risk \<and> pr_liquidatable risk \<and> BuildCandidate risk market None = Inr (Some c)"
  by (auto simp: scan_position_def dest: BuildCandidate_liquidatable elim!: bind_resE)

lemma scan_announced:
  assumes "scan_of sv P scan" "c \<in> set (candidates scan)" "candidate_row c = Inr row"
  shows "announced sv P row"
proof -
  from assms(1) obtain db db' market positions now where reads: "P db" "P db'" "risk_LoadMarket db (rv_chainId sv) = Inr market"
    "risk_LoadPositions db' (rv_chainId sv) (rv_scanLimit sv) = Inr positions"
    and scan: "ScanWithStats (loaded market positions) (rv_chainId sv) (rv_scanLimit sv) now = Inr scan"
    by (auto simp: scan_of_def)
  from scan have found: "candidates scan = List.map_filter (scan_candidate market now) positions"
    unfolding ScanWithStats_Inr by (simp add: loaded_def)
  with assms(2) obtain p where p: "p \<in> set positions" "scan_candidate market now p = Some c"
    by (auto simp: List.map_filter_def)
  then have "scan_position market now p = Inr (Some c)" by (auto simp: scan_candidate_def split: sum.splits)
  then obtain risk where risk: "EvaluateIndexed p market now = Inr risk" "pr_liquidatable risk" "BuildCandidate risk market None = Inr (Some c)"
    using scan_position_Some by blast
  have "row\<lparr>ob_published := False\<rparr> = row" using assms(3) by (auto simp: candidate_row_def elim!: bind_resE)
  moreover have "candidate_found sv P c" unfolding candidate_found_def using reads p(1) risk by blast
  ultimately show ?thesis unfolding announced_def using assms(3) by auto
qed

lemma commit_rows:
  assumes "fold_res (\<lambda>c outbox. map_result (\<lambda>r. outbox_insert r outbox) (candidate_row c)) found rows = Inr rows'"
    and "row \<in> set rows'" "row \<notin> set rows"
  shows "\<exists>c \<in> set found. candidate_row c = Inr row"
  using assms
proof (induction found arbitrary: rows)
  case (Cons c found)
  then obtain r where r: "candidate_row c = Inr r"
    "fold_res (\<lambda>c outbox. map_result (\<lambda>r. outbox_insert r outbox) (candidate_row c)) found (outbox_insert r rows) = Inr rows'"
    by (auto elim!: bind_resE simp: res_simps)
  show ?case
  proof (cases "row \<in> set (outbox_insert r rows)")
    case True
    with Cons.prems(3) have "row = r" by (auto simp: outbox_insert_def insert_ignore_def split: if_splits)
    with r(1) show ?thesis by simp
  next
    case False
    with Cons.IH [OF r(2) Cons.prems(2)] show ?thesis by simp
  qed
qed simp

lemma outbox_ok_commit:
  assumes "\<And>i found db b db'. P db \<Longrightarrow> CommitScan i found db = Inr (b, db') \<Longrightarrow> P db'"
    and "outbox_ok sv P db" "scan_of sv (outbox_ok sv P) scan" "CommitScan i (candidates scan) db = Inr (b, db')"
  shows "outbox_ok sv P db'"
proof -
  have scan: "scan_of sv P scan" by (rule scan_of_mono [OF assms(3)]) (simp add: outbox_ok_def)
  have P: "P db'" using assms(1) [OF _ assms(4)] assms(2) by (simp add: outbox_ok_def)
  have "announced sv P row" if "row \<in> set (db_outbox db')" "ob_event_type row = RISK_LIQUIDATION_DETECTED" for row
  proof (cases "row \<in> set (db_outbox db)")
    case True
    with assms(2) that(2) show ?thesis by (simp add: outbox_ok_def)
  next
    case False
    with assms(4) that(1) have "\<exists>c \<in> set (candidates scan). candidate_row c = Inr row"
      by (cases rule: CommitScan_cases) (auto dest: commit_rows)
    with scan show ?thesis using scan_announced by blast
  qed
  with P show ?thesis by (simp add: outbox_ok_def)
qed

section \<open>Properties\<close>

text \<open>Every announced liquidation is justified. Let \<open>P\<close> be any condition on the database that the commit of a
  scan keeps. Whatever the broker delivers, the clocks show and the other services write, as long as they
  keep \<open>P\<close> and announce no liquidation themselves, after any number of rounds (those that throw included)
  each liquidation event in the outbox is the candidate that the protocol rules give for a liquidatable
  position, evaluated from a market and from positions that were read in states that satisfy \<open>P\<close>.\<close>

theorem risk_loop_announces:
  assumes "\<And>i found db b db'. P db \<Longrightarrow> CommitScan i found db = Inr (b, db') \<Longrightarrow> P db'"
    and "others_keep (outbox_ok sv P) (rv_env sv)" "outbox_ok sv P (wk_db w)"
    and "row \<in> set (db_outbox (wk_db (risk_loop n sv w)))" "ob_event_type row = RISK_LIQUIDATION_DETECTED"
  shows "announced sv P row"
proof -
  have "keeps (\<lambda>w. outbox_ok sv P (wk_db w)) (risk_round sv)"
    by (rule keeps_risk_round [OF assms(2)]) (rule outbox_ok_commit [OF assms(1)])
  from keeps_service_loop [OF this assms(3), of n] assms(4,5) show ?thesis by (simp add: outbox_ok_def risk_loop_def)
qed

text \<open>C15. The risk worker loses no event and repeats none. After any number of rounds, each event that it
  acknowledged has its scan committed, and when the broker delivers the event again, whatever else the
  other services keep of the database is kept: the second scan writes nothing.\<close>

theorem risk_exactly_once:
  fixes event :: EventEnvelope
  assumes "\<forall>i. others_keep (scanned i) (rv_env sv)" "wk_acked w = []"
    and "ev_eventId event \<in> set (wk_acked (risk_loop n sv w))"
  shows "scanned (ev_eventId event) (wk_db (risk_loop n sv w)) \<and>
    (\<forall>P now. others_keep P (rv_env sv) \<longrightarrow> P (wk_db (risk_loop n sv w)) \<longrightarrow>
       P (wk_db (snd (process sv now (ev_eventId event) (risk_loop n sv w)))))"
proof -
  let ?w = "risk_loop n sv w"
  have "risk_consumer.acked_done ?w"
    unfolding risk_loop_def using keeps_service_loop [OF acked_risk_round [OF assms(1)]] assms(2)
    by (simp add: risk_consumer.acked_done_def)
  then have "scanned (ev_eventId event) (wk_db ?w)" using assms(3) by (simp add: risk_consumer.acked_done_def)
  with keepsD [OF risk_consumer.handle_again [of _ sv event]] assms(1) show ?thesis by blast
qed

section \<open>A service\<close>

definition demo_risk_db :: ServiceDb where
  "demo_risk_db = empty_services\<lparr>db_blocks := [\<lparr>br_chain = ToDecimal 31337, br_number = 12, br_hash = Hex_Encode (replicate 32 1) True,
       br_parent = Hex_Encode (replicate 32 2) True, br_canonical = True\<rparr>], db_markets := [\<lparr>mw_chain = ToDecimal 31337, mw_pool = Address_ToHex (replicate 20 1) True,
       mw_oracle = Address_ToHex (replicate 20 2) True, mw_weth = Address_ToHex (replicate 20 3) True,
       mw_usdc = Address_ToHex (replicate 20 4) True,
       mw_numbers = map ToDecimal [1000000000000000000, 0, 1500000000, 1000000000, 0, 0, 1000000000000000000000000000,
         1000000000000000000000000000, 1000, 150000000000, 1000, 3600, 100000000, 1000, 86400]\<rparr>],
     db_sync := [ToDecimal 31337 \<mapsto> (12, Hex_Encode (replicate 32 1) True)], db_versions := [ToDecimal 31337 \<mapsto> 1],
     db_positions := [\<lparr>pw_chain = ToDecimal 31337, pw_user = Address_ToHex (replicate 20 9) True,
       pw_weth_collateral = ToDecimal 1000000000000000000, pw_scaled_usdc_supply = ToDecimal 0,
       pw_scaled_usdc_debt = ToDecimal 1500000000\<rparr>]\<rparr>"

definition demo_chain_event :: EventEnvelope where
  "demo_chain_event = (candidate_event 5 demo_candidate_sent)\<lparr>ev_eventId := ''block:12'', ev_eventType := CHAIN_BLOCK_PROCESSED\<rparr>"

definition demo_risk_service :: RiskService where
  "demo_risk_service = \<lparr>rv_env = \<lparr>en_message = (\<lambda>_. Inr (Some (Serialize demo_chain_event))), en_ack = (\<lambda>_. Inr ()),
       en_now = (\<lambda>_. 1100), en_steady = (\<lambda>n. n), en_locked = (\<lambda>_. {}), en_others = (\<lambda>_ db. db)\<rparr>,
     rv_chainId = 31337, rv_scanLimit = 10, rv_rescanInterval = 30\<rparr>"

definition demo_risk_world :: RiskWorld where
  "demo_risk_world = \<lparr>wk_db = demo_risk_db, wk_ticks = 0, wk_acked = [], wk_nextRescan = 100\<rparr>"

definition demo_position :: IndexedPosition where
  "demo_position = \<lparr>ip_user = replicate 20 9, ip_wethCollateral = 1000000000000000000, ip_scaledUsdcDebt = 1500000000\<rparr>"

definition demo_found :: LiquidationCandidate where
  "demo_found = \<lparr>lc_borrower = replicate 20 9, lc_healthFactor = 799999796800051612,
       lc_debtAsset = replicate 20 4, lc_collateralAsset = replicate 20 3, lc_maxRepay = 750000190,
       lc_expectedBonus = 37500009500000000000, lc_expectedCollateral = 525000133000000000,
       lc_expectedBadDebt = 0, lc_blockNumber = 12, lc_blockHash = replicate 32 1,
       lc_chainId = 31337, lc_canonicalVersion = 1\<rparr>"

lemma demo_risk_market: "risk_LoadMarket demo_risk_db 31337 = Inr (demo_market\<lparr>ms_observedAt := 0\<rparr>)"
  by (simp add: risk_LoadMarket_def demo_risk_db_def empty_services_def demo_market_def ParseHash_Encode Address_FromHex_ToHex
    FromDecimal_ToDecimal)

lemma demo_risk_positions: "risk_LoadPositions demo_risk_db 31337 10 = Inr [demo_position]"
  by (simp add: risk_LoadPositions_def demo_risk_db_def empty_services_def numeric_positive_def risk_ParsePosition_def
    Address_FromHex_ToHex FromDecimal_ToDecimal demo_position_def)

lemma demo_risk_scan:
  "ScanWithStats (loaded (demo_market\<lparr>ms_observedAt := 0\<rparr>) [demo_position]) 31337 10 1100 =
     Inr \<lparr>positionsScanned = 1, candidates = [demo_found]\<rparr>"
proof -
  have "ProjectedBorrowIndex (demo_market\<lparr>ms_observedAt := 0\<rparr>) 1100 = Inr 1000000253678335870116692034"
    by (simp add: ProjectedBorrowIndex_def BorrowRate_def demo_simps)
  then show ?thesis
    unfolding ScanWithStats_def loaded_def scan_position_def EvaluateIndexed_def demo_position_def demo_found_def
    by simp (simp add: Evaluate_def RequireFreshPrice_def BuildCandidate_def Let_def demo_simps)
qed

definition demo_risk_row :: OutboxRow where
  "demo_risk_row = \<lparr>ob_event_id = RiskEventId demo_found, ob_event_type = RISK_LIQUIDATION_DETECTED,
     ob_aggregate_id = ''position:'' @ Address_ToHex (replicate 20 9) False, ob_chain_id = ToDecimal 31337, ob_block_number = 12,
     ob_block_hash = Hex_Encode (replicate 32 1) True, ob_transaction_hash = None, ob_log_index = None, ob_canonical_version = 1,
     ob_payload = CandidatePayload demo_found, ob_published = False\<rparr>"

lemma demo_risk_commit:
  "CommitScan ''block:12'' [demo_found] demo_risk_db =
     Inr (True, demo_risk_db\<lparr>sd_processed := [(''risk-engine'', ''block:12'')], db_outbox := [demo_risk_row]\<rparr>)"
proof -
  have "candidate_row demo_found = Inr demo_risk_row"
    by (simp add: candidate_row_def demo_risk_row_def bigint_def positive_bigint_def demo_found_def)
  then show ?thesis
    by (simp add: CommitScan_def mark_processed_def demo_risk_db_def empty_services_def outbox_insert_def insert_ignore_def)
qed

lemma demo_risk_round:
  "wk_db (risk_loop 1 demo_risk_service demo_risk_world) =
     demo_risk_db\<lparr>sd_processed := [(''risk-engine'', ''block:12'')], db_outbox := [demo_risk_row]\<rparr> \<and>
   wk_acked (risk_loop 1 demo_risk_service demo_risk_world) = [''block:12'']"
proof -
  let ?db = "demo_risk_db\<lparr>sd_processed := [(''risk-engine'', ''block:12'')], db_outbox := [demo_risk_row]\<rparr>"
  let ?env = "rv_env demo_risk_service"
  have env: "en_others ?env n db = db" "en_now ?env n = 1100" "en_steady ?env n = n" "en_ack ?env n = Inr ()" for n db
    by (simp_all add: demo_risk_service_def)
  have sv: "rv_chainId demo_risk_service = 31337" "rv_scanLimit demo_risk_service = 10" by (simp_all add: demo_risk_service_def)
  have "event_fits demo_chain_event" by (simp add: event_fits_def demo_chain_event_def candidate_event_def demo_candidate_sent_def)
  then have "Deserialize (Serialize demo_chain_event) = Inr demo_chain_event" by (rule event_codec.dec_enc)
  then have fetch: "Fetch ?env demo_risk_world = (Inr (Some demo_chain_event), demo_risk_world\<lparr>wk_ticks := 1\<rparr>)"
    by (simp add: Fetch_def demo_risk_service_def demo_risk_world_def)
  have "read_scan demo_risk_service 1100 (demo_risk_world\<lparr>wk_ticks := 2\<rparr>) =
      (Inr \<lparr>positionsScanned = 1, candidates = [demo_found]\<rparr>, demo_risk_world\<lparr>wk_ticks := 4\<rparr>)"
    by (simp add: read_scan_def bindp_def on_db_def query_def liftp_def env sv demo_risk_world_def demo_risk_market demo_risk_positions
      demo_risk_scan)
  then have proc: "process demo_risk_service 1100 ''block:12'' (demo_risk_world\<lparr>wk_ticks := 2\<rparr>) =
      (Inr \<lparr>rw_committed = True, rw_positionsScanned = 1, rw_liquidationCandidates = 1\<rparr>, demo_risk_world\<lparr>wk_db := ?db, wk_ticks := 5\<rparr>)"
    by (simp add: process_def bindp_def on_db_def transact_def ret_def env demo_risk_commit demo_risk_world_def)
  have id: "ev_eventId demo_chain_event = ''block:12''" by (simp add: demo_chain_event_def)
  have "consume ?env (\<lambda>event. process demo_risk_service 1100 (ev_eventId event)) (Some demo_chain_event) (demo_risk_world\<lparr>wk_ticks := 2\<rparr>) =
      (Inr (Some \<lparr>rw_committed = True, rw_positionsScanned = 1, rw_liquidationCandidates = 1\<rparr>),
       demo_risk_world\<lparr>wk_db := ?db, wk_ticks := 6, wk_acked := [''block:12'']\<rparr>)"
    by (simp add: consume_def bindp_def id proc [unfolded demo_risk_world_def, simplified] Ack_def env ret_def demo_risk_world_def)
  then show ?thesis
    by (simp add: risk_loop_def risk_round_def bindp_def fetch [unfolded demo_risk_world_def, simplified] read_clock_def env periodic_def query_def ret_def demo_risk_world_def numeral_2_eq_2)
qed

lemma demo_risk_others: "others_keep P (rv_env demo_risk_service)"
  by (simp add: others_keep_def demo_risk_service_def)

theorem risk_loop_announces_witness:
  "announced demo_risk_service (\<lambda>db. risk_LoadMarket db 31337 = Inr (demo_market\<lparr>ms_observedAt := 0\<rparr>)) demo_risk_row"
proof (rule risk_loop_announces [OF _ demo_risk_others])
  show "risk_LoadMarket db' 31337 = Inr (demo_market\<lparr>ms_observedAt := 0\<rparr>)"
    if "risk_LoadMarket db 31337 = Inr (demo_market\<lparr>ms_observedAt := 0\<rparr>)" "CommitScan i found db = Inr (b, db')" for i found db b db'
    using that(2,1) by (cases rule: CommitScan_cases) (simp_all add: risk_LoadMarket_def)
  show "outbox_ok demo_risk_service (\<lambda>db. risk_LoadMarket db 31337 = Inr (demo_market\<lparr>ms_observedAt := 0\<rparr>)) (wk_db demo_risk_world)"
    using demo_risk_market by (simp add: outbox_ok_def demo_risk_world_def) (simp add: demo_risk_db_def empty_services_def)
  show "demo_risk_row \<in> set (db_outbox (wk_db (risk_loop 1 demo_risk_service demo_risk_world)))"
    using demo_risk_round by simp
  show "ob_event_type demo_risk_row = RISK_LIQUIDATION_DETECTED" by (simp add: demo_risk_row_def)
qed

theorem risk_exactly_once_witness:
  "scanned ''block:12'' (wk_db (risk_loop 1 demo_risk_service demo_risk_world)) \<and>
   db_outbox (wk_db (snd (process demo_risk_service 1200 ''block:12'' (risk_loop 1 demo_risk_service demo_risk_world)))) = [demo_risk_row]"
proof -
  have id: "ev_eventId demo_chain_event = ''block:12''" and w0: "wk_acked demo_risk_world = []"
    by (simp_all add: demo_chain_event_def demo_risk_world_def)
  have acked: "ev_eventId demo_chain_event \<in> set (wk_acked (risk_loop 1 demo_risk_service demo_risk_world))"
    using demo_risk_round id by simp
  note w = risk_exactly_once [OF allI [OF demo_risk_others] w0 acked, unfolded id]
  from conjunct2 [OF w, rule_format, of "\<lambda>db. db_outbox db = [demo_risk_row]" 1200, OF demo_risk_others] conjunct1 [OF w] demo_risk_round
  show ?thesis by simp
qed

end
