(* ===== verification/Liquidator_Service.thy ===== *)
theory Liquidator_Service
  imports Liquidation Consumer
begin

text \<open>
  The loop of the liquidator (\<open>cpp/liquidator/src/Main.cpp\<close>): a consumer of the events of the risk engine
  that also works on the queue. Counters and console lines are left out, except for what they count.
\<close>

record LiquidatorWorld = ServiceWorld +
  wk_requests :: nat

definition on_chain :: "(nat, 'a) prog \<Rightarrow> (LiquidatorWorld, 'a) prog" where
  "on_chain operation w = (case operation (wk_requests w) of (r, n) \<Rightarrow> (r, w\<lparr>wk_requests := n\<rparr>))"

section \<open>The loop\<close>

record LiquidatorService =
  lv_env :: ServiceEnv
  lv_chain :: "nat LiquidationChain"
  lv_config :: LiquidatorConfig
  lv_keccak :: "bytes \<Rightarrow> hash256"
  lv_chainId :: uint256
  lv_workerId :: string
  lv_leaseDuration :: int

record LiquidatorRound =
  lo_queued :: bool
  lo_submitted :: bool
  lo_invalidated :: nat
  lo_reconciled :: LiquidationReconcileResult

definition enqueue :: "LiquidatorService \<Rightarrow> EventEnvelope \<Rightarrow> (LiquidatorWorld, bool) prog" where
  "enqueue sv event = on_db (lv_env sv) (\<lambda>n. transact (Enqueue (en_now (lv_env sv) n) event))"

definition receive :: "LiquidatorService \<Rightarrow> (LiquidatorWorld, bool) prog" where
  "receive sv =
     bindp (Fetch (lv_env sv)) (\<lambda>message.
     bindp (consume (lv_env sv) (enqueue sv) message) (\<lambda>queued.
     ret (queued = Some True)))"

definition work_on :: "LiquidatorService \<Rightarrow> LiquidationJob \<Rightarrow> (LiquidatorWorld, bool \<times> nat) prog" where
  "work_on sv job =
     bindp (on_chain (Prepare (lv_keccak sv) (lv_chain sv) (lv_config sv) (lj_candidate job))) (\<lambda>submission.
     case submission of
       Some sub \<Rightarrow>
         bindp (on_db (lv_env sv) (\<lambda>n. always (liq_Submit (en_now (lv_env sv) n) job sub (lg_operatorAddress (lv_config sv)))))
           (\<lambda>submitted. ret (submitted, 0))
     | None \<Rightarrow>
         bindp (on_db (lv_env sv) (\<lambda>n. always (Invalidate (en_now (lv_env sv) n) job
                  ''position is no longer profitable to liquidate'')))
           (\<lambda>closed. ret (False, if closed then 1 else 0)))"

definition work :: "LiquidatorService \<Rightarrow> bool \<Rightarrow> (LiquidatorWorld, LiquidatorRound) prog" where
  "work sv queued =
     bindp (on_db (lv_env sv) (\<lambda>_. always (InvalidateNonCanonical (lv_chainId sv)))) (\<lambda>stale.
     bindp (on_db (lv_env sv) (\<lambda>n. transact (Claim (en_now (lv_env sv) n) (en_locked (lv_env sv) n)
              (lv_chainId sv) (lv_workerId sv) (lv_leaseDuration sv)))) (\<lambda>claimed.
     bindp (case claimed of None \<Rightarrow> ret (False, 0) | Some job \<Rightarrow> work_on sv job) (\<lambda>(submitted, closed).
     bindp (on_db (lv_env sv) (\<lambda>_. always ReconcileSubmittedWithStats)) (\<lambda>reconciled.
     ret \<lparr>lo_queued = queued, lo_submitted = submitted, lo_invalidated = stale + closed,
          lo_reconciled = reconciled\<rparr>))))"

definition liquidator_round :: "LiquidatorService \<Rightarrow> (LiquidatorWorld, LiquidatorRound) prog" where
  "liquidator_round sv = bindp (receive sv) (work sv)"

definition liquidator_loop :: "nat \<Rightarrow> LiquidatorService \<Rightarrow> LiquidatorWorld \<Rightarrow> LiquidatorWorld" where
  "liquidator_loop n sv = service_loop n (liquidator_round sv)"

end
