(* ===== verification/Lease.thy ===== *)
theory Lease
  imports Liquidation
begin

text \<open>
  The contract of the liquidation queue: a ledger of tickets, each free, leased to a worker until a
  time, sent or closed, with a token that counts its leases. The statements of the queue refine the
  moves of the ledger, and the guarantees of the fencing tokens follow from the moves.
\<close>

section \<open>The ledger\<close>

datatype phase = Free | Leased string int | Sent | Closed

type_synonym ticket = "phase \<times> nat"
type_synonym ledger = "string \<rightharpoonup> ticket"

inductive lease_move :: "nat \<Rightarrow> ticket \<Rightarrow> ticket \<Rightarrow> bool" for now where
  lease_expire: "u \<le> int now \<Longrightarrow> lease_move now (Leased w u, t) (Free, t)"
| lease_claim: "lease_move now (Free, t) (Leased w (int now + d), Suc t)"
| lease_submit: "int now < u \<Longrightarrow> lease_move now (Leased w u, t) (Sent, t)"
| lease_close: "p \<noteq> Closed \<Longrightarrow> lease_move now (p, t) (Closed, t)"

inductive lease_step :: "nat \<Rightarrow> ledger \<Rightarrow> ledger \<Rightarrow> bool" for now where
  step_add: "l i = None \<Longrightarrow> lease_step now l (l(i \<mapsto> (Free, 0)))"
| step_move: "l i = Some x \<Longrightarrow> lease_move now x y \<Longrightarrow> lease_step now l (l(i \<mapsto> y))"

inductive_cases lease_moveE: "lease_move now x y"
inductive_cases lease_stepE: "lease_step now l l'"

text \<open>Moves of single tickets make steps of the ledger.\<close>

lemma ticket_steps: "(lease_move now)\<^sup>*\<^sup>* x y \<Longrightarrow> l i = Some x \<Longrightarrow> (lease_step now)\<^sup>*\<^sup>* l (l(i \<mapsto> y))"
proof (induction rule: rtranclp_induct)
  case base
  then have "l(i \<mapsto> x) = l" by auto
  then show ?case by simp
next
  case (step y z)
  have "lease_step now (l(i \<mapsto> y)) ((l(i \<mapsto> y))(i \<mapsto> z))"
    by (rule step_move [OF _ step.hyps(2)]) simp
  then have "lease_step now (l(i \<mapsto> y)) (l(i \<mapsto> z))" by (simp only: fun_upd_upd)
  with step.IH [OF step.prems] show ?case by (meson rtranclp.rtrancl_into_rtrancl)
qed

lemma ledger_steps:
  assumes "finite D" "\<forall>i \<in> D. \<exists>x y. l i = Some x \<and> l' i = Some y \<and> (lease_move now)\<^sup>*\<^sup>* x y" "\<forall>i. i \<notin> D \<longrightarrow> l' i = l i"
  shows "(lease_step now)\<^sup>*\<^sup>* l l'"
  using assms
proof (induction arbitrary: l' rule: finite_induct)
  case empty
  then have "l' = l" by auto
  then show ?case by simp
next
  case (insert i D)
  then obtain x y where i: "l i = Some x" "l' i = Some y" "(lease_move now)\<^sup>*\<^sup>* x y" by auto
  have "(lease_step now)\<^sup>*\<^sup>* l (l'(i \<mapsto> x))"
    using insert.prems insert.hyps i by (intro insert.IH) auto
  moreover have "(lease_step now)\<^sup>*\<^sup>* (l'(i \<mapsto> x)) ((l'(i \<mapsto> x))(i \<mapsto> y))"
    by (rule ticket_steps [OF i(3)]) simp
  moreover have "(l'(i \<mapsto> x))(i \<mapsto> y) = l'" using i(2) by auto
  ultimately show ?case by simp
qed

section \<open>Guarantees of the ledger\<close>

definition later :: "ticket \<Rightarrow> ticket \<Rightarrow> bool" where
  "later x y \<longleftrightarrow> snd x \<le> snd y \<and> (fst x \<in> {Sent, Closed} \<longrightarrow> fst y \<in> {Sent, Closed} \<and> snd y = snd x)"

lemma later_refl [simp]: "later x x"
  by (simp add: later_def)

lemma later_trans: "later x y \<Longrightarrow> later y z \<Longrightarrow> later x z"
  by (auto simp: later_def)

lemma lease_move_later: "lease_move now x y \<Longrightarrow> later x y"
  by (auto simp: later_def elim: lease_moveE)

lemma lease_step_later: "lease_step now l l' \<Longrightarrow> l i = Some x \<Longrightarrow> \<exists>y. l' i = Some y \<and> later x y"
proof (induction rule: lease_step.induct)
  case (step_add l j)
  then show ?case by (intro exI [of _ x]) auto
next
  case (step_move l j x' y)
  then show ?case by (cases "j = i") (auto dest: lease_move_later intro: exI [of _ x])
qed

lemma lease_steps_later: "(lease_step now)\<^sup>*\<^sup>* l l' \<Longrightarrow> l i = Some x \<Longrightarrow> \<exists>y. l' i = Some y \<and> later x y"
proof (induction rule: rtranclp_induct)
  case (step l' l'')
  then show ?case using lease_step_later later_trans by blast
qed simp

section \<open>The queue as a ledger\<close>

definition row_phase :: "LiquidationJobRow \<Rightarrow> phase" where
  "row_phase r =
     (if jr_status r \<in> {''Available'', ''Expired''} then Free
      else if jr_status r = ''Claimed'' then Leased (the (jr_worker_id r)) (the (jr_lease_until r))
      else if jr_status r = ''Submitted'' then Sent else Closed)"

definition row_ticket :: "LiquidationJobRow \<Rightarrow> ticket" where
  "row_ticket r = (row_phase r, jr_fencing_token r)"

definition ledger_of :: "LiquidationJobRow list \<Rightarrow> ledger" where
  "ledger_of rows = map_of (map (\<lambda>r. (jr_job_id r, row_ticket r)) rows)"

definition jobs_ok :: "LiquidationJobRow list \<Rightarrow> bool" where
  "jobs_ok rows \<longleftrightarrow> distinct (map jr_job_id rows) \<and>
     list_all (\<lambda>r. jr_job_id r = jr_source_event_id r \<and> jr_fencing_token r < 2 ^ 63 \<and>
       (jr_status r = ''Claimed'' \<longrightarrow> jr_worker_id r \<noteq> None \<and> jr_lease_until r \<noteq> None)) rows"

lemma ledger_of_row: "jobs_ok rows \<Longrightarrow> r \<in> set rows \<Longrightarrow> ledger_of rows (jr_job_id r) = Some (row_ticket r)"
  by (auto simp: jobs_ok_def ledger_of_def comp_def intro!: map_of_is_SomeI)

lemma ledger_of_id:
  assumes "ledger_of rows i = Some x"
  shows "\<exists>r \<in> set rows. jr_job_id r = i \<and> x = row_ticket r"
  using map_of_SomeD [OF assms [unfolded ledger_of_def]] by auto

text \<open>An update of rows that moves each ticket as the ledger allows.\<close>

lemma update_refines:
  assumes ok: "jobs_ok rows"
    and moves: "\<And>r. r \<in> set rows \<Longrightarrow> jr_job_id (f r) = jr_job_id r \<and> (lease_move now)\<^sup>*\<^sup>* (row_ticket r) (row_ticket (f r))"
  shows "(lease_step now)\<^sup>*\<^sup>* (ledger_of rows) (ledger_of (map f rows))"
proof (rule ledger_steps)
  have dist: "distinct (map jr_job_id rows)" using ok by (simp add: jobs_ok_def)
  have ids: "map jr_job_id (map f rows) = map jr_job_id rows" using moves by simp
  show "finite (jr_job_id ` set rows)" by simp
  show "\<forall>i \<in> jr_job_id ` set rows. \<exists>x y. ledger_of rows i = Some x \<and> ledger_of (map f rows) i = Some y \<and> (lease_move now)\<^sup>*\<^sup>* x y"
  proof clarify
    fix r assume r: "r \<in> set rows"
    have "ledger_of (map f rows) (jr_job_id r) = Some (row_ticket (f r))"
      using r moves dist unfolding ledger_of_def
      by (intro map_of_is_SomeI) (auto simp: comp_def image_iff ids [unfolded map_map comp_def] intro!: bexI [of _ r])
    with moves [OF r] ledger_of_row [OF ok r]
    show "\<exists>x y. ledger_of rows (jr_job_id r) = Some x \<and> ledger_of (map f rows) (jr_job_id r) = Some y \<and> (lease_move now)\<^sup>*\<^sup>* x y"
      by blast
  qed
  show "\<forall>i. i \<notin> jr_job_id ` set rows \<longrightarrow> ledger_of (map f rows) i = ledger_of rows i"
  proof clarify
    fix i assume "i \<notin> jr_job_id ` set rows"
    then have "ledger_of (map f rows) i = None" "ledger_of rows i = None"
      using moves by (auto simp: ledger_of_def map_of_eq_None_iff image_iff comp_def)
    then show "ledger_of (map f rows) i = ledger_of rows i" by simp
  qed
qed

section \<open>The statements refine the moves\<close>

lemma jobs_ok_map:
  assumes "jobs_ok rows"
    and "\<And>r. r \<in> set rows \<Longrightarrow> jr_job_id (f r) = jr_job_id r \<and> jr_source_event_id (f r) = jr_source_event_id r \<and>
      jr_fencing_token (f r) < 2 ^ 63 \<and> (jr_status (f r) = ''Claimed'' \<longrightarrow> jr_worker_id (f r) \<noteq> None \<and> jr_lease_until (f r) \<noteq> None)"
  shows "jobs_ok (map f rows)"
proof -
  have ids: "map jr_job_id (map f rows) = map jr_job_id rows" using assms(2) by simp
  have "distinct (map jr_job_id (map f rows))" unfolding ids using assms(1) by (simp add: jobs_ok_def)
  moreover have "list_all (\<lambda>r. jr_job_id r = jr_source_event_id r \<and> jr_fencing_token r < 2 ^ 63 \<and>
       (jr_status r = ''Claimed'' \<longrightarrow> jr_worker_id r \<noteq> None \<and> jr_lease_until r \<noteq> None)) (map f rows)"
    unfolding list_all_iff set_map ball_simps
  proof
    fix r assume r: "r \<in> set rows"
    then have "jr_job_id r = jr_source_event_id r" using assms(1) by (simp add: jobs_ok_def list_all_iff)
    with assms(2) [OF r] show "jr_job_id (f r) = jr_source_event_id (f r) \<and> jr_fencing_token (f r) < 2 ^ 63 \<and>
       (jr_status (f r) = ''Claimed'' \<longrightarrow> jr_worker_id (f r) \<noteq> None \<and> jr_lease_until (f r) \<noteq> None)" by simp
  qed
  ultimately show ?thesis by (simp only: jobs_ok_def)
qed

lemma Enqueue_refines:
  assumes "jobs_ok (sd_jobs db)" "Enqueue now ev db = Inr (b, db')"
  shows "jobs_ok (sd_jobs db') \<and> (lease_step now)\<^sup>*\<^sup>* (ledger_of (sd_jobs db)) (ledger_of (sd_jobs db'))"
proof -
  consider "sd_jobs db' = sd_jobs db" | r c where "job_row now (ev_eventId ev) c = Inr r" "r \<notin> set []"
      "sd_jobs db' = insert_ignore jr_source_event_id r (sd_jobs db)"
    using assms(2) by (auto simp: Enqueue_def mark_processed_def res_simps split: if_splits)
  then show ?thesis
  proof cases
    case 1
    with assms(1) show ?thesis by simp
  next
    case 2
    then have r: "jr_job_id r = ev_eventId ev" "jr_source_event_id r = ev_eventId ev" "jr_status r = ''Available''" "jr_fencing_token r = 0"
      by (auto simp: job_row_def res_simps)
    show ?thesis
    proof (cases "ev_eventId ev \<in> jr_source_event_id ` set (sd_jobs db)")
      case True
      with 2 r assms(1) show ?thesis by (simp add: insert_ignore_def)
    next
      case False
      then have new: "ev_eventId ev \<notin> jr_job_id ` set (sd_jobs db)"
        using assms(1) by (auto simp: jobs_ok_def list_all_iff image_iff)
      have jobs: "sd_jobs db' = sd_jobs db @ [r]" using 2 r False by (simp add: insert_ignore_def)
      have none: "ledger_of (sd_jobs db) (ev_eventId ev) = None"
        using new by (simp add: ledger_of_def map_of_eq_None_iff image_image)
      have "ledger_of (sd_jobs db') = (ledger_of (sd_jobs db))(ev_eventId ev \<mapsto> (Free, 0))"
        using r none by (auto simp: jobs ledger_of_def fun_eq_iff map_add_def row_ticket_def row_phase_def split: option.splits)
      moreover have "jobs_ok (sd_jobs db')" using assms(1) new r by (simp add: jobs jobs_ok_def)
      ultimately show ?thesis using step_add [of "ledger_of (sd_jobs db)" "ev_eventId ev" now, OF none] by (simp add: r_into_rtranclp)
    qed
  qed
qed

lemma expire_move:
  assumes "jobs_ok rows" "r \<in> set rows"
  shows "(lease_move now)\<^sup>*\<^sup>* (row_ticket r) (row_ticket (expire_row chain now r))"
proof (cases "expire_row chain now r = r")
  case False
  then obtain u where "jr_status r = ''Claimed''" "jr_lease_until r = Some u" "u \<le> int now"
    "expire_row chain now r = r\<lparr>jr_status := ''Expired''\<rparr>"
    by (auto simp: expire_row_def split: if_splits option.splits)
  then have "lease_move now (row_ticket r) (row_ticket (expire_row chain now r))"
    by (simp add: row_ticket_def row_phase_def lease_expire)
  then show ?thesis by simp
qed simp

lemma Claim_refines:
  assumes ok: "jobs_ok (sd_jobs db)" and run: "Claim now locked c w d db = Inr (j, db')"
  shows "jobs_ok (sd_jobs db') \<and> (lease_step now)\<^sup>*\<^sup>* (ledger_of (sd_jobs db)) (ledger_of (sd_jobs db'))"
proof -
  let ?e = "expire_row (ToDecimal c) now"
  let ?rows = "map ?e (sd_jobs db)"
  have ids: "jr_job_id (?e r) = jr_job_id r" "jr_source_event_id (?e r) = jr_source_event_id r"
    "jr_fencing_token (?e r) = jr_fencing_token r" "jr_worker_id (?e r) = jr_worker_id r" "jr_lease_until (?e r) = jr_lease_until r"
    "jr_status (?e r) = ''Claimed'' \<Longrightarrow> jr_status r = ''Claimed''" for r
    by (simp_all add: expire_row_def split: if_splits)
  have ok': "jobs_ok ?rows"
    by (rule jobs_ok_map [OF ok]) (use ok ids in \<open>auto simp: jobs_ok_def list_all_iff\<close>)
  have first: "(lease_step now)\<^sup>*\<^sup>* (ledger_of (sd_jobs db)) (ledger_of ?rows)"
    by (rule update_refines [OF ok]) (simp add: ids expire_move [OF ok])
  show ?thesis
  proof (cases "next_job (ToDecimal c) locked ?rows")
    case None
    with run have "sd_jobs db' = ?rows" by (auto simp: Claim_def Let_def)
    with ok' first show ?thesis by simp
  next
    case (Some r)
    let ?f = "\<lambda>x. if jr_job_id x = jr_job_id r then claimed_row now w d x else x"
    have jobs: "sd_jobs db' = map ?f ?rows" and token: "jr_fencing_token r + 1 < 2 ^ 63"
      using run Some by (auto simp: Claim_def Let_def res_simps split: if_splits)
    have r: "r \<in> set ?rows" "claimable (ToDecimal c) locked r"
    proof -
      let ?L = "sort_key jr_created_at (sort_key jr_job_id (filter (claimable (ToDecimal c) locked) ?rows))"
      have "r \<in> set ?L" using Some unfolding next_job_def by (cases ?L) simp_all
      then show "r \<in> set ?rows" "claimable (ToDecimal c) locked r" by simp_all
    qed
    have same: "x = r" if "x \<in> set ?rows" "jr_job_id x = jr_job_id r" for x
      using ok' r(1) that by (auto simp: jobs_ok_def distinct_map inj_on_def)
    have move: "jr_job_id (?f x) = jr_job_id x \<and> (lease_move now)\<^sup>*\<^sup>* (row_ticket x) (row_ticket (?f x))" if x: "x \<in> set ?rows" for x
    proof (cases "jr_job_id x = jr_job_id r")
      case True
      then have "row_ticket x = (Free, jr_fencing_token x)"
        using same [OF x] r(2) by (auto simp: row_ticket_def row_phase_def claimable_def)
      moreover have "row_ticket (?f x) = (Leased w (int now + d), Suc (jr_fencing_token x))"
        using True by (simp add: row_ticket_def row_phase_def claimed_row_def)
      ultimately show ?thesis using True by (simp add: lease_claim r_into_rtranclp claimed_row_def)
    qed simp
    have "jobs_ok (map ?f ?rows)"
      by (rule jobs_ok_map [OF ok']) (use ok' token same in \<open>auto simp: jobs_ok_def list_all_iff claimed_row_def\<close>)
    moreover have "(lease_step now)\<^sup>*\<^sup>* (ledger_of ?rows) (ledger_of (map ?f ?rows))"
      by (rule update_refines [OF ok' move])
    ultimately show ?thesis using first unfolding jobs by (meson rtranclp_trans)
  qed
qed

text \<open>The other statements move or close tickets row by row.\<close>

lemma row_update_refines:
  assumes ok: "jobs_ok rows"
    and f: "\<And>r. r \<in> set rows \<Longrightarrow> f r = r \<or> (jr_job_id (f r) = jr_job_id r \<and> jr_source_event_id (f r) = jr_source_event_id r \<and>
      jr_fencing_token (f r) = jr_fencing_token r \<and> jr_status (f r) \<noteq> ''Claimed'' \<and> lease_move now (row_ticket r) (row_ticket (f r)))"
  shows "jobs_ok (map f rows) \<and> (lease_step now)\<^sup>*\<^sup>* (ledger_of rows) (ledger_of (map f rows))"
proof
  show "jobs_ok (map f rows)"
    by (rule jobs_ok_map [OF ok]) (use ok f in \<open>fastforce simp: jobs_ok_def list_all_iff\<close>)
  show "(lease_step now)\<^sup>*\<^sup>* (ledger_of rows) (ledger_of (map f rows))"
    by (rule update_refines [OF ok]) (use f in \<open>metis r_into_rtranclp rtranclp.rtrancl_refl\<close>)
qed

lemma close_ticket: "row_phase r \<noteq> Closed \<Longrightarrow> jr_fencing_token r' = jr_fencing_token r \<Longrightarrow> row_phase r' = Closed \<Longrightarrow>
    lease_move now (row_ticket r) (row_ticket r')"
  by (simp add: row_ticket_def lease_close)

lemma Submit_refines:
  assumes "jobs_ok (sd_jobs db)" "liq_Submit now job sub wallet db = (b, db')"
  shows "jobs_ok (sd_jobs db') \<and> (lease_step now)\<^sup>*\<^sup>* (ledger_of (sd_jobs db)) (ledger_of (sd_jobs db'))"
proof (cases "sd_jobs db' = sd_jobs db")
  case False
  then have jobs: "sd_jobs db' = map (\<lambda>r. if holds_claim now job r \<and> canonical_source (db_blocks db) r
      then r\<lparr>jr_status := ''Submitted'', jr_tx_job_id := Some (''liquidation-tx:'' @ lj_jobId job)\<rparr> else r) (sd_jobs db)"
    using assms(2) by (auto simp: liq_Submit_def Let_def split: if_splits)
  show ?thesis unfolding jobs
    by (rule row_update_refines [OF assms(1)])
      (auto simp: holds_claim_def row_ticket_def row_phase_def intro: lease_submit split: option.splits)
qed (use assms in simp)

lemma Invalidate_refines:
  assumes "jobs_ok (sd_jobs db)"
  shows "jobs_ok (sd_jobs (snd (Invalidate now job reason db))) \<and>
    (lease_step now)\<^sup>*\<^sup>* (ledger_of (sd_jobs db)) (ledger_of (sd_jobs (snd (Invalidate now job reason db))))"
  unfolding Invalidate_def snd_conv
  by (simp, rule row_update_refines [OF assms]) (auto intro!: close_ticket simp: holds_claim_def row_phase_def)

lemma InvalidateNonCanonical_refines:
  assumes "jobs_ok (sd_jobs db)"
  shows "jobs_ok (sd_jobs (snd (InvalidateNonCanonical c db))) \<and>
    (lease_step now)\<^sup>*\<^sup>* (ledger_of (sd_jobs db)) (ledger_of (sd_jobs (snd (InvalidateNonCanonical c db))))"
  unfolding InvalidateNonCanonical_def Let_def snd_conv
  by (simp, rule row_update_refines [OF assms]) (auto intro!: close_ticket simp: row_phase_def)

lemma settled_cases: "settled_status s \<in> {''Completed'', ''Invalidated'', ''Failed''}"
  by (simp add: settled_status_def)

lemma Reconcile_refines:
  assumes "jobs_ok (sd_jobs db)"
  shows "jobs_ok (sd_jobs (snd (ReconcileSubmittedWithStats db))) \<and>
    (lease_step now)\<^sup>*\<^sup>* (ledger_of (sd_jobs db)) (ledger_of (sd_jobs (snd (ReconcileSubmittedWithStats db))))"
proof -
  let ?f = "\<lambda>r. case settled_tx (sd_tx db) r of
      Some t \<Rightarrow> r\<lparr>jr_status := settled_status (tr_status t), jr_error := tr_error t\<rparr> | None \<Rightarrow> r"
  have "?f r = r \<or> (jr_job_id (?f r) = jr_job_id r \<and> jr_source_event_id (?f r) = jr_source_event_id r \<and>
      jr_fencing_token (?f r) = jr_fencing_token r \<and> jr_status (?f r) \<noteq> ''Claimed'' \<and> lease_move now (row_ticket r) (row_ticket (?f r)))" for r
  proof (cases "settled_tx (sd_tx db) r")
    case (Some t)
    then have "jr_status r = ''Submitted''" by (simp add: settled_tx_def split: if_splits)
    moreover have "settled_status (tr_status t) \<notin> {''Claimed'', ''Available'', ''Expired'', ''Submitted''}"
      using settled_cases [of "tr_status t"] by auto
    ultimately show ?thesis using Some by (auto intro!: close_ticket simp: row_phase_def)
  qed simp
  from row_update_refines [OF assms this] show ?thesis by (simp add: ReconcileSubmittedWithStats_def)
qed

end
