(* ===== verification/Liquidation_Properties.thy ===== *)
theory Liquidation_Properties
  imports Lease Pipeline Failover_Properties Candidate
begin

text \<open>
  The properties of the liquidation pipeline: the queue refines its contract, fencing, one
  transaction per job, the way of a candidate from the risk worker to the liquidator, the outbox, and
  the decision to liquidate.
\<close>

section \<open>The queue\<close>

text \<open>The statements of the queue, and whatever the other services do to their own tables.\<close>

inductive liq_step :: "nat \<Rightarrow> ServiceDb \<Rightarrow> ServiceDb \<Rightarrow> bool" for now where
  liq_enqueue: "Enqueue now ev db = Inr (b, db') \<Longrightarrow> liq_step now db db'"
| liq_claim: "Claim now locked c w d db = Inr (j, db') \<Longrightarrow> liq_step now db db'"
| liq_submit: "liq_Submit now job sub wallet db = (b, db') \<Longrightarrow> liq_step now db db'"
| liq_invalidate: "Invalidate now job reason db = (b, db') \<Longrightarrow> liq_step now db db'"
| liq_stale: "InvalidateNonCanonical c db = (n, db') \<Longrightarrow> liq_step now db db'"
| liq_reconcile: "ReconcileSubmittedWithStats db = (r, db') \<Longrightarrow> liq_step now db db'"
| liq_others: "sd_jobs db' = sd_jobs db \<Longrightarrow> liq_step now db db'"

inductive liq_run :: "ServiceDb \<Rightarrow> ServiceDb \<Rightarrow> bool" where
  run_stop: "liq_run db db"
| run_step: "liq_run db db' \<Longrightarrow> liq_step now db' db'' \<Longrightarrow> liq_run db db''"

lemma liq_step_refines:
  assumes "liq_step now db db'" "jobs_ok (sd_jobs db)"
  shows "jobs_ok (sd_jobs db') \<and> (lease_step now)\<^sup>*\<^sup>* (ledger_of (sd_jobs db)) (ledger_of (sd_jobs db'))"
  using assms
proof (induction rule: liq_step.induct)
  case (liq_invalidate job reason db b db')
  then show ?case using Invalidate_refines [of db now job reason] by simp
next
  case (liq_stale c db n db')
  then show ?case using InvalidateNonCanonical_refines [of db c now] by simp
next
  case (liq_reconcile db r db')
  then show ?case using Reconcile_refines [of db now] by simp
next
  case (liq_enqueue ev db b db')
  from liq_enqueue.prems liq_enqueue.hyps show ?case by (rule Enqueue_refines)
next
  case (liq_claim locked c w d db j db')
  from liq_claim.prems liq_claim.hyps show ?case by (rule Claim_refines)
next
  case (liq_submit job sub wallet db b db')
  from liq_submit.prems liq_submit.hyps show ?case by (rule Submit_refines)
qed simp

text \<open>C11. The queue refines the ledger of leases. From a table whose rows are well formed, each statement
  of the queue leaves a well-formed table and moves the tickets only as the ledger allows: a job is
  added free, a lease is taken only of a free job and with the next token, it ends by expiry, by a
  submission before its end or by closing, and a job that was sent or closed is never leased again.\<close>

theorem queue_refines_ledger:
  assumes "liq_step now db db'" "jobs_ok (sd_jobs db)"
  shows "jobs_ok (sd_jobs db') \<and> (lease_step now)\<^sup>*\<^sup>* (ledger_of (sd_jobs db)) (ledger_of (sd_jobs db'))"
  using assms by (rule liq_step_refines)

lemma liq_run_later:
  assumes "liq_run db db'" "jobs_ok (sd_jobs db)"
  shows liq_run_ok: "jobs_ok (sd_jobs db')"
    and liq_run_ticket: "ledger_of (sd_jobs db) i = Some x \<Longrightarrow> \<exists>y. ledger_of (sd_jobs db') i = Some y \<and> later x y"
proof -
  have "jobs_ok (sd_jobs db') \<and>
    (\<forall>i x. ledger_of (sd_jobs db) i = Some x \<longrightarrow> (\<exists>y. ledger_of (sd_jobs db') i = Some y \<and> later x y))"
    using assms
  proof (induction rule: liq_run.induct)
    case (run_step db db' now db'')
    then have ok: "jobs_ok (sd_jobs db')" by blast
    note step = liq_step_refines [OF run_step.hyps(2) ok]
    show ?case
    proof (intro conjI allI impI)
      fix i x assume "ledger_of (sd_jobs db) i = Some x"
      with run_step obtain y where y: "ledger_of (sd_jobs db') i = Some y" "later x y" by blast
      with lease_steps_later [of now _ _ i y] step obtain z where "ledger_of (sd_jobs db'') i = Some z" "later y z" by blast
      with y show "\<exists>y. ledger_of (sd_jobs db'') i = Some y \<and> later x y" using later_trans by blast
    qed (use step in blast)
  qed auto
  then show "jobs_ok (sd_jobs db')"
    "ledger_of (sd_jobs db) i = Some x \<Longrightarrow> \<exists>y. ledger_of (sd_jobs db') i = Some y \<and> later x y" by blast+
qed

lemma Claim_ticket:
  assumes ok: "jobs_ok (sd_jobs db)" and run: "Claim now locked c w d db = Inr (Some j, db')"
  shows "\<exists>t. ledger_of (sd_jobs db) (lj_jobId j) = Some t \<and> fst t \<notin> {Sent, Closed} \<and> unat (lj_fencingToken j) = Suc (snd t) \<and>
    ledger_of (sd_jobs db') (lj_jobId j) = Some (Leased w (int now + d), unat (lj_fencingToken j)) \<and> lj_workerId j = w"
proof -
  let ?e = "expire_row (ToDecimal c) now"
  let ?rows = "map ?e (sd_jobs db)"
  let ?L = "sort_key jr_created_at (sort_key jr_job_id (filter (claimable (ToDecimal c) locked) ?rows))"
  obtain r where next_r: "next_job (ToDecimal c) locked ?rows = Some r" and small: "jr_fencing_token r + 1 < 2 ^ 63"
    and parse: "liq_ParseJob (claimed_row now w d r) = Inr j"
    and jobs: "sd_jobs db' = map (\<lambda>x. if jr_job_id x = jr_job_id r then claimed_row now w d x else x) ?rows"
    using run by (auto simp: Claim_def Let_def res_simps split: option.splits if_splits)
  have "r \<in> set ?L" using next_r unfolding next_job_def by (cases ?L) simp_all
  then obtain r0 where r0: "r0 \<in> set (sd_jobs db)" "r = ?e r0" and cl: "claimable (ToDecimal c) locked r" by auto
  have e: "jr_job_id (?e x) = jr_job_id x" "jr_fencing_token (?e x) = jr_fencing_token x" for x by (simp_all add: expire_row_def)
  have j: "lj_jobId j = jr_job_id r" "lj_workerId j = w" "lj_fencingToken j = of_nat (jr_fencing_token r + 1)"
    using parse by (auto simp: liq_ParseJob_def claimed_row_def elim!: bind_resE)
  have "unat (of_nat n :: uint64) = n" if "n < 2 ^ 63" for n
    using that by (simp add: unsigned_of_nat take_bit_nat_eq_self)
  from this [OF small] have token: "unat (lj_fencingToken j) = Suc (jr_fencing_token r)" unfolding j(3) by simp
  have "fst (row_ticket r0) \<notin> {Sent, Closed}"
    using cl r0(2) by (auto simp: claimable_def row_ticket_def row_phase_def expire_row_def split: if_splits)
  moreover have "ledger_of (sd_jobs db) (lj_jobId j) = Some (row_ticket r0)"
    using ledger_of_row [OF ok r0(1)] by (simp add: j r0(2) e)
  moreover have "ledger_of (sd_jobs db') (lj_jobId j) = Some (Leased w (int now + d), unat (lj_fencingToken j))"
  proof -
    have ok': "jobs_ok (sd_jobs db')" using Claim_refines [OF ok run] by blast
    have "claimed_row now w d r \<in> set (sd_jobs db')"
      unfolding jobs using r0 by (force simp: image_iff)
    from ledger_of_row [OF ok' this] show ?thesis
      by (simp add: j(1) token) (simp add: row_ticket_def row_phase_def claimed_row_def)
  qed
  ultimately show ?thesis using token by (auto simp: j row_ticket_def r0(2) e)
qed

lemma holds_claim_ticket:
  assumes "jobs_ok rows" "r \<in> set rows" "holds_claim now job r"
  shows "\<exists>u. ledger_of rows (lj_jobId job) = Some (Leased (lj_workerId job) u, unat (lj_fencingToken job)) \<and> int now < u"
  using ledger_of_row [OF assms(1,2)] assms(3)
  by (auto simp: holds_claim_def row_ticket_def row_phase_def split: option.splits)

text \<open>C7. Fencing. When a job has been claimed again, by whomever and whenever, the worker of an earlier
  claim can no longer submit or invalidate it: its token is smaller than the one in the row, whatever
  the clocks of the workers say, and its statements change nothing.\<close>

theorem stale_claim_fenced:
  assumes "jobs_ok (sd_jobs db0)" "Claim t1 locked1 c1 w1 d1 db0 = Inr (Some j1, db1)" "liq_run db1 db2"
    and "Claim t2 locked2 c2 w2 d2 db2 = Inr (Some j2, db3)" "lj_jobId j2 = lj_jobId j1" "liq_run db3 db4"
  shows "lj_fencingToken j1 < lj_fencingToken j2 \<and> liq_Submit now j1 sub wallet db4 = (False, db4) \<and>
    Invalidate now j1 reason db4 = (False, db4)"
proof -
  have ok1: "jobs_ok (sd_jobs db1)" using Claim_refines [OF assms(1,2)] by blast
  obtain p1 where p1: "ledger_of (sd_jobs db1) (lj_jobId j1) = Some (p1, unat (lj_fencingToken j1))"
    using Claim_ticket [OF assms(1,2)] by blast
  have ok2: "jobs_ok (sd_jobs db2)" using assms(3) ok1 by (rule liq_run_ok)
  obtain t where t: "ledger_of (sd_jobs db2) (lj_jobId j1) = Some t" "unat (lj_fencingToken j2) = Suc (snd t)"
    "ledger_of (sd_jobs db3) (lj_jobId j1) = Some (Leased w2 (int t2 + d2), unat (lj_fencingToken j2))"
    using Claim_ticket [OF ok2 assms(4)] assms(5) by auto
  from liq_run_ticket [OF assms(3) ok1 p1] t(1) have "unat (lj_fencingToken j1) \<le> snd t" by (auto simp: later_def)
  with t(2) have less: "unat (lj_fencingToken j1) < unat (lj_fencingToken j2)" by simp
  have ok3: "jobs_ok (sd_jobs db3)" using Claim_refines [OF ok2 assms(4)] by blast
  have ok4: "jobs_ok (sd_jobs db4)" using assms(6) ok3 by (rule liq_run_ok)
  obtain y where y: "ledger_of (sd_jobs db4) (lj_jobId j1) = Some y" "unat (lj_fencingToken j2) \<le> snd y"
    using liq_run_ticket [OF assms(6) ok3 t(3)] by (auto simp: later_def)
  have "\<not> holds_claim now j1 r" if "r \<in> set (sd_jobs db4)" for r
    using holds_claim_ticket [OF ok4 that, of now j1] y less by auto
  then have none: "list_ex (\<lambda>r. holds_claim now j1 r \<and> canonical_source (db_blocks db4) r) (sd_jobs db4) = False"
    "filter (holds_claim now j1) (sd_jobs db4) = []"
    "map (\<lambda>r. if holds_claim now j1 r then r\<lparr>jr_status := ''Invalidated'', jr_error := Some reason\<rparr> else r) (sd_jobs db4) = sd_jobs db4"
    by (auto simp: list_ex_iff filter_empty_conv intro: map_idI)
  with less show ?thesis by (simp add: liq_Submit_def Let_def Invalidate_def word_less_nat_alt)
qed

text \<open>C12. One transaction per job. A submission that succeeds was made under the claim in the row, before
  the end of its lease and for a block that is still canonical, and it leaves a row of the transaction
  table; from then on, whatever happens, the job is never claimed again and no further submission of it
  succeeds.\<close>

theorem job_submitted_once:
  assumes "jobs_ok (sd_jobs db)" "liq_Submit now j sub wallet db = (True, db1)" "liq_run db1 db2"
  shows "(\<exists>r \<in> set (sd_jobs db). holds_claim now j r \<and> canonical_source (db_blocks db) r) \<and>
    (\<exists>r \<in> set (sd_tx db1). tr_job_id r = ''liquidation-tx:'' @ lj_jobId j) \<and>
    (\<forall>t locked c w d j' db3. Claim t locked c w d db2 = Inr (Some j', db3) \<longrightarrow> lj_jobId j' \<noteq> lj_jobId j) \<and>
    (\<forall>t j' sub' wallet'. lj_jobId j' = lj_jobId j \<longrightarrow> liq_Submit t j' sub' wallet' db2 = (False, db2))"
proof -
  let ?hit = "\<lambda>r. holds_claim now j r \<and> canonical_source (db_blocks db) r"
  have hit: "\<exists>r \<in> set (sd_jobs db). ?hit r"
    and tx: "sd_tx db1 = insert_ignore tr_job_id (submission_row now (''liquidation-tx:'' @ lj_jobId j) j sub wallet) (sd_tx db)"
    and jobs: "sd_jobs db1 = map (\<lambda>r. if ?hit r then r\<lparr>jr_status := ''Submitted'', jr_tx_job_id := Some (''liquidation-tx:'' @ lj_jobId j)\<rparr> else r) (sd_jobs db)"
    using assms(2) by (auto simp: liq_Submit_def Let_def list_ex_iff split: if_splits)
  then obtain r where r: "r \<in> set (sd_jobs db)" "?hit r" by blast
  let ?r = "r\<lparr>jr_status := ''Submitted'', jr_tx_job_id := Some (''liquidation-tx:'' @ lj_jobId j)\<rparr>"
  have ok1: "jobs_ok (sd_jobs db1)" using Submit_refines [OF assms(1,2)] by blast
  have "?r \<in> set (sd_jobs db1)" unfolding jobs using r by (force simp: image_iff)
  from ledger_of_row [OF ok1 this] r(2) have "ledger_of (sd_jobs db1) (lj_jobId j) = Some (Sent, jr_fencing_token r)"
    by (simp add: holds_claim_def row_ticket_def row_phase_def)
  from liq_run_ticket [OF assms(3) ok1 this]
  have sent: "\<exists>y. ledger_of (sd_jobs db2) (lj_jobId j) = Some y \<and> fst y \<in> {Sent, Closed}" by (auto simp: later_def)
  have ok2: "jobs_ok (sd_jobs db2)" using assms(3) ok1 by (rule liq_run_ok)
  have "\<exists>r \<in> set (sd_tx db1). tr_job_id r = ''liquidation-tx:'' @ lj_jobId j"
    unfolding tx by (auto simp: insert_ignore_def submission_row_def image_iff)
  moreover have "lj_jobId j' \<noteq> lj_jobId j" if "Claim t locked c w d db2 = Inr (Some j', db3)" for t locked c w d j' db3
    using Claim_ticket [OF ok2 that] sent by auto
  moreover have "liq_Submit t j' sub' wallet' db2 = (False, db2)" if "lj_jobId j' = lj_jobId j" for t j' sub' wallet'
  proof -
    have "\<not> holds_claim t j' r" if "r \<in> set (sd_jobs db2)" for r
      using holds_claim_ticket [OF ok2 that, of t j'] sent \<open>lj_jobId j' = lj_jobId j\<close> by auto
    then show ?thesis by (auto simp: liq_Submit_def Let_def list_ex_iff)
  qed
  ultimately show ?thesis using hit by blast
qed

section \<open>The decision to liquidate\<close>

text \<open>The calls that the transaction manager is configured to sign (\<open>cpp/tx-manager/src/Main.cpp\<close>).\<close>

definition approved_calls :: "(bytes \<Rightarrow> hash256) \<Rightarrow> address \<Rightarrow> address \<Rightarrow> ApprovedCall list" where
  "approved_calls keccak oracle liquidationManager =
     [\<lparr>ac_destination = oracle, ac_selector = GetFunctionSelector keccak ''publishPrice(address,uint256,uint256,uint256)'',
       ac_calldataSize = 132\<rparr>,
      \<lparr>ac_destination = liquidationManager,
       ac_selector = GetFunctionSelector keccak ''liquidate(address,address,address,uint256,uint256)'', ac_calldataSize = 164\<rparr>]"

lemma bindp_InrE:
  assumes "bindp m f s = (Inr y, t)"
  obtains x s' where "m s = (Inr x, s')" "f x s' = (Inr y, t)"
  using assms by (rule bindp_cases) auto

lemma liftp_InrE: "liftp r s = (Inr x, s') \<Longrightarrow> (r = Inr x \<Longrightarrow> s' = s \<Longrightarrow> P) \<Longrightarrow> P"
  by (simp add: liftp_def)

text \<open>What the chain shows, as the documentation of the node and the ABI state it: the answer of request \<open>k\<close> to a call
  of a contract, and the big-endian 256-bit numbers in it.\<close>

definition eth_view :: "(bytes \<Rightarrow> hash256) \<Rightarrow> RpcClient \<Rightarrow> address \<Rightarrow> string \<Rightarrow> AbiValue list \<Rightarrow> nat \<Rightarrow> bytes res" where
  "eth_view keccak client contract functionSignature arguments k =
     fst (rpc_EthCall client \<lparr>ca_from = None, ca_to = contract, ca_data = EncodeFunction keccak functionSignature arguments, ca_value = 0\<rparr>
       ''latest'' k)"

definition abi_word :: "bytes \<Rightarrow> nat \<Rightarrow> uint256" where
  "abi_word data i = of_nat (num_of 256 (map unat (take 32 (drop (32 * i) data))))"

text \<open>The market as the node shows it in the requests from \<open>k\<close> on: the head with its time, and price, time of update and
  maximal age of both assets, the three words of \<open>assetPrices\<close>.\<close>

definition market_at :: "(bytes \<Rightarrow> hash256) \<Rightarrow> RpcClient \<Rightarrow> LiquidationContracts \<Rightarrow> nat \<Rightarrow> MarketSnapshot \<Rightarrow> bool" where
  "market_at keccak client contracts k market \<longleftrightarrow> (\<exists>head block weth usdc.
     fst (rpc_GetChainId client k) = Inr (ms_chainId market) \<and> fst (rpc_GetBlockNumber client (k + 1)) = Inr head \<and>
     fst (rpc_GetBlockByNumber client head (k + 2)) = Inr (Some block) \<and>
     unat (ms_indexedBlock market) = unat head \<and> unat (ms_observedAt market) = unat (bh_timestamp block) \<and>
     eth_view keccak client (lt_oracle contracts) ''assetPrices(address)'' [V_Address (lt_weth contracts)] (k + 3) = Inr weth \<and>
     eth_view keccak client (lt_oracle contracts) ''assetPrices(address)'' [V_Address (lt_usdc contracts)] (k + 4) = Inr usdc \<and>
     96 \<le> length weth \<and> 96 \<le> length usdc \<and> ms_weth market = lt_weth contracts \<and> ms_usdc market = lt_usdc contracts \<and>
     ms_wethPrice market = abi_word weth 0 \<and> ms_wethPriceUpdatedAt market = abi_word weth 1 \<and> ms_wethMaxPriceAge market = abi_word weth 2 \<and>
     ms_usdcPrice market = abi_word usdc 0 \<and> ms_usdcPriceUpdatedAt market = abi_word usdc 1 \<and> ms_usdcMaxPriceAge market = abi_word usdc 2)"

definition position_at :: "(bytes \<Rightarrow> hash256) \<Rightarrow> RpcClient \<Rightarrow> LiquidationContracts \<Rightarrow> address \<Rightarrow> nat \<Rightarrow> Position \<Rightarrow> bool" where
  "position_at keccak client contracts borrower k position \<longleftrightarrow> (\<exists>collateral debt.
     eth_view keccak client (lt_pool contracts) ''wethCollateral(address)'' [V_Address borrower] k = Inr collateral \<and>
     eth_view keccak client (lt_pool contracts) ''usdcDebt(address)'' [V_Address borrower] (k + 1) = Inr debt \<and>
     32 \<le> length collateral \<and> 32 \<le> length debt \<and>
     position = \<lparr>pos_user = borrower, pos_wethCollateral = abi_word collateral 0, pos_usdcDebt = abi_word debt 0\<rparr>)"

text \<open>Twice the base fee of the head and the priority fee that the node suggests.\<close>

definition fee_at :: "RpcClient \<Rightarrow> nat \<Rightarrow> uint256 \<Rightarrow> bool" where
  "fee_at client k fee \<longleftrightarrow> (\<exists>head block base priority.
     fst (rpc_GetBlockNumber client k) = Inr head \<and> fst (rpc_GetBlockByNumber client head (k + 1)) = Inr (Some block) \<and>
     bh_baseFeePerGas block = Some base \<and> fst (rpc_GetMaxPriorityFeePerGas client (k + 2)) = Inr priority \<and>
     unat fee = unat base * 2 + unat priority)"

lemma rpc_next:
  "rpc_GetChainId client n = (Inr a, n') \<Longrightarrow> n' = Suc n"
  "rpc_GetBlockNumber client n = (Inr b, n') \<Longrightarrow> n' = Suc n"
  "rpc_GetBlockByNumber client number n = (Inr c, n') \<Longrightarrow> n' = Suc n"
  "rpc_EthCall client call block n = (Inr d, n') \<Longrightarrow> n' = Suc n"
  "rpc_EstimateGas client call n = (Inr e, n') \<Longrightarrow> n' = Suc n"
  "rpc_GetMaxPriorityFeePerGas client n = (Inr f, n') \<Longrightarrow> n' = Suc n"
  by (auto simp: rpc_GetChainId_def rpc_GetBlockNumber_def rpc_GetBlockByNumber_def rpc_EthCall_def rpc_EstimateGas_def
      rpc_GetMaxPriorityFeePerGas_def call_quantity_def Call_def Let_def ret_def elim!: bindp_InrE liftp_InrE split: if_splits)

lemma rpc_read:
  "rpc_GetChainId client n = (Inr a, n') \<Longrightarrow> fst (rpc_GetChainId client n) = Inr a \<and> n' = Suc n"
  "rpc_GetBlockNumber client n = (Inr b, n') \<Longrightarrow> fst (rpc_GetBlockNumber client n) = Inr b \<and> n' = Suc n"
  "rpc_GetBlockByNumber client number n = (Inr c, n') \<Longrightarrow> fst (rpc_GetBlockByNumber client number n) = Inr c \<and> n' = Suc n"
  "rpc_GetMaxPriorityFeePerGas client n = (Inr f, n') \<Longrightarrow> fst (rpc_GetMaxPriorityFeePerGas client n) = Inr f \<and> n' = Suc n"
  by (simp_all add: rpc_next)

lemma Word_Inr:
  assumes "Word data i = Inr v"
  shows "32 * i + 32 \<le> length data" "v = abi_word data i"
proof -
  have v: "FromBytes (take 32 (drop (32 * i) data)) = Inr v" "32 * i + 32 \<le> length data"
    using assms by (auto simp: Word_def Let_def mult.commute split: if_splits)
  show "32 * i + 32 \<le> length data" by (rule v(2))
  from v(1) have "unat v = num_of 256 (map unat (take 32 (drop (32 * i) data)))" by (simp add: FromBytes_Inr)
  then show "v = abi_word data i" unfolding abi_word_def by (metis of_nat_unat ucast_id)
qed

lemma chain_Call_view:
  "chain_Call keccak client contract functionSignature arguments n = (Inr data, n') \<Longrightarrow>
     eth_view keccak client contract functionSignature arguments n = Inr data \<and> n' = Suc n"
  by (auto simp: chain_Call_def eth_view_def dest: rpc_next(4))

lemma liq_LoadMarket_at:
  assumes "liq_LoadMarket keccak client contracts s = (Inr market, s')"
  shows "market_at keccak client contracts s market" "s' = s + 5"
proof -
  obtain chainId head block weth usdc number timestamp where run: "fst (rpc_GetChainId client s) = Inr chainId"
    "fst (rpc_GetBlockNumber client (s + 1)) = Inr head" "fst (rpc_GetBlockByNumber client head (s + 2)) = Inr (Some block)"
    "eth_view keccak client (lt_oracle contracts) ''assetPrices(address)'' [V_Address (lt_weth contracts)] (s + 3) = Inr weth"
    "eth_view keccak client (lt_oracle contracts) ''assetPrices(address)'' [V_Address (lt_usdc contracts)] (s + 4) = Inr usdc"
    "ToUint64 head = Inr number" "ToUint64 (bh_timestamp block) = Inr timestamp" "s' = s + 5"
    "Word weth 0 = Inr (ms_wethPrice market)" "Word weth 1 = Inr (ms_wethPriceUpdatedAt market)" "Word weth 2 = Inr (ms_wethMaxPriceAge market)"
    "Word usdc 0 = Inr (ms_usdcPrice market)" "Word usdc 1 = Inr (ms_usdcPriceUpdatedAt market)" "Word usdc 2 = Inr (ms_usdcMaxPriceAge market)"
    "ms_chainId market = chainId" "ms_indexedBlock market = number" "ms_observedAt market = timestamp"
    "ms_weth market = lt_weth contracts" "ms_usdc market = lt_usdc contracts"
    using assms
    by (auto simp: liq_LoadMarket_def ret_def raise_def numeral_eq_Suc elim!: bindp_InrE liftp_InrE split: option.splits
        dest!: rpc_read chain_Call_view)
  note words = Word_Inr [OF run(9)] Word_Inr [OF run(10)] Word_Inr [OF run(11)] Word_Inr [OF run(12)] Word_Inr [OF run(13)] Word_Inr [OF run(14)]
  show "market_at keccak client contracts s market"
    unfolding market_at_def
    by (intro exI [of _ head] exI [of _ block] exI [of _ weth] exI [of _ usdc])
      (use run(1-7,15-19) words in \<open>simp add: ToUint64_Inr\<close>)
  show "s' = s + 5" by (rule run(8))
qed

lemma liq_LoadPosition_at:
  assumes "liq_LoadPosition keccak client contracts borrower s = (Inr position, s')"
  shows "position_at keccak client contracts borrower s position" "s' = s + 2"
proof -
  obtain collateral debt where run: "eth_view keccak client (lt_pool contracts) ''wethCollateral(address)'' [V_Address borrower] s = Inr collateral"
    "eth_view keccak client (lt_pool contracts) ''usdcDebt(address)'' [V_Address borrower] (s + 1) = Inr debt" "s' = s + 2"
    "Word collateral 0 = Inr (pos_wethCollateral position)" "Word debt 0 = Inr (pos_usdcDebt position)" "pos_user position = borrower"
    using assms
    by (auto simp: liq_LoadPosition_def ret_def elim!: bindp_InrE liftp_InrE dest!: chain_Call_view)
  show "position_at keccak client contracts borrower s position"
    unfolding position_at_def
    by (intro exI [of _ collateral] exI [of _ debt]) (use run Word_Inr [OF run(4)] Word_Inr [OF run(5)] in simp)
  show "s' = s + 2" by (rule run(3))
qed

lemma liq_GetFeeQuote_at:
  assumes "liq_GetFeeQuote client s = (Inr fees, s')"
  shows "fee_at client s (fq_maxFeePerGas fees)"
proof -
  obtain head block base priority twice where "fst (rpc_GetBlockNumber client s) = Inr head"
    "fst (rpc_GetBlockByNumber client head (Suc s)) = Inr (Some block)" "bh_baseFeePerGas block = Some base"
    "fst (rpc_GetMaxPriorityFeePerGas client (Suc (Suc s))) = Inr priority" "u256_mul base 2 = Inr twice"
    "u256_add twice priority = Inr (fq_maxFeePerGas fees)"
    using assms unfolding liq_GetFeeQuote_def fee_quote_def
    by (auto simp: ret_def raise_def elim!: bindp_InrE liftp_InrE split: option.splits dest!: rpc_read)
  then show ?thesis unfolding fee_at_def by (auto simp: u256_mul_Inr u256_add_Inr)
qed

lemma BuildCandidate_Some_fields:
  assumes "BuildCandidate risk market None = Inr (Some c)"
  shows "pr_liquidatable risk \<and> lc_borrower c = pos_user (pr_position risk) \<and> lc_debtAsset c = ms_usdc market \<and> lc_collateralAsset c = ms_weth market"
  using assms unfolding BuildCandidate_def Let_def by (auto elim!: bind_resE split: if_splits)

lemma Evaluate_position: "Evaluate position market now = Inr risk \<Longrightarrow> pr_position risk = position"
  by (auto simp: Evaluate_def elim!: bind_resE split: if_splits)

lemma liquidation_approved:
  assumes "\<And>x. length (keccak x) = 32" "set (approved_calls keccak oracle manager) \<subseteq> set (cf_approvedCalls (tm_config tm))"
    and "list_all abi_wf args" "length args = 5" "tj_to job = manager" "tj_value job = 0"
    and "tj_data job = EncodeFunction keccak ''liquidate(address,address,address,uint256,uint256)'' args"
  shows "IsApproved tm job"
proof -
  have len: "length (tj_data job) = 164" using length_EncodeFunction [of keccak args, OF assms(1,3)] assms(4,7) by simp
  have sel: "take 4 (tj_data job) = GetFunctionSelector keccak ''liquidate(address,address,address,uint256,uint256)''"
    "length (GetFunctionSelector keccak ''liquidate(address,address,address,uint256,uint256)'') = 4"
    using assms(1) by (simp_all add: assms(7) EncodeFunction_def GetFunctionSelector_def Keccak_Hash_string_def)
  have "\<lparr>ac_destination = manager, ac_selector = GetFunctionSelector keccak ''liquidate(address,address,address,uint256,uint256)'',
      ac_calldataSize = 164\<rparr> \<in> set (cf_approvedCalls (tm_config tm))" using assms(2) by (simp add: approved_calls_def)
  then show ?thesis using len sel assms(5,6) by (auto simp: IsApproved_def list_ex_iff intro!: bexI)
qed

lemma Prepare_SomeE:
  assumes "Prepare keccak chain config c s = (Inr (Some sub), s')"
  obtains market s1 position s2 risk current data gas s3 fees cost usd profit where
    "ln_LoadMarket chain s = (Inr market, s1)" "ln_LoadPosition chain (lc_borrower c) s1 = (Inr position, s2)"
    "Evaluate position market (ms_observedAt market) = Inr risk" "BuildCandidate risk market None = Inr (Some current)"
    "EncodeLiquidation keccak config current = Inr data"
    "ln_EstimateGas chain (lg_operatorAddress config) (lg_liquidationManager config) data s2 = (Inr gas, s3)"
    "ln_GetFeeQuote chain s3 = (Inr fees, s')" "u256_mul gas (fq_maxFeePerGas fees) = Inr cost"
    "CollateralValue cost (ms_wethPrice market) = Inr usd" "\<not> lc_expectedBonus current \<le> usd"
    "u256_sub (lc_expectedBonus current) usd = Inr profit" "\<not> profit < lg_minimumProfitUsdWad config"
    "sub = \<lparr>sb_destination = lg_liquidationManager config, sb_data = data, sb_value = 0\<rparr>"
  using assms unfolding Prepare_def
  by (auto simp: ret_def elim!: bindp_InrE liftp_InrE split: option.splits if_splits)

text \<open>What makes a liquidation worth sending: by what the node shows in the requests from \<open>k\<close> on, the position of the borrower
  is liquidatable at the market; the calldata asks to liquidate it for at least the configured share of the
  expected collateral; and the bonus covers the gas that the node estimates for this calldata, at the
  fee of \<open>fee_at\<close> and valued at the price of the market, and the minimum profit.\<close>

definition worth_sending_at ::
  "(bytes \<Rightarrow> hash256) \<Rightarrow> RpcClient \<Rightarrow> LiquidationContracts \<Rightarrow> LiquidatorConfig \<Rightarrow> address \<Rightarrow> bytes \<Rightarrow> nat \<Rightarrow> bool" where
  "worth_sending_at keccak client contracts config borrower data k \<longleftrightarrow>
     (\<exists>market position risk current gas fee minimum. market_at keccak client contracts k market \<and>
       position_at keccak client contracts borrower (k + 5) position \<and>
       Evaluate position market (ms_observedAt market) = Inr risk \<and> pr_liquidatable risk \<and>
       BuildCandidate risk market None = Inr (Some current) \<and>
       fst (rpc_EstimateGas client \<lparr>ca_from = Some (lg_operatorAddress config), ca_to = lg_liquidationManager config, ca_data = data,
         ca_value = 0\<rparr> (k + 7)) = Inr gas \<and> fee_at client (k + 8) fee \<and>
       unat gas * unat fee * unat (ms_wethPrice market) div 100000000 + unat (lg_minimumProfitUsdWad config)
         \<le> unat (lc_expectedBonus current) \<and>
       data = EncodeFunction keccak ''liquidate(address,address,address,uint256,uint256)''
         [V_Address borrower, V_Address (lt_usdc contracts), V_Address (lt_weth contracts),
          V_Uint256 (lc_maxRepay current), V_Uint256 minimum] \<and>
       unat minimum = unat (lc_expectedCollateral current) * unat (lg_minimumCollateralBps config) div 10000)"

definition worth_sending ::
  "(bytes \<Rightarrow> hash256) \<Rightarrow> RpcClient \<Rightarrow> LiquidationContracts \<Rightarrow> LiquidatorConfig \<Rightarrow> address \<Rightarrow> bytes \<Rightarrow> bool" where
  "worth_sending keccak client contracts config borrower data \<longleftrightarrow> (\<exists>k. worth_sending_at keccak client contracts config borrower data k)"

lemma Prepare_worth_at:
  assumes run: "Prepare keccak (RpcLiquidationChain keccak client contracts) config c s = (Inr (Some sub), s')"
  shows "worth_sending_at keccak client contracts config (lc_borrower c) (sb_data sub) s \<and>
    sb_destination sub = lg_liquidationManager config \<and> sb_value sub = 0"
  using run
proof (cases rule: Prepare_SomeE)
  case (1 market s1 position s2 risk current data gas s3 fees cost usd profit)
  have market: "market_at keccak client contracts s market" "s1 = s + 5"
    using 1(1) liq_LoadMarket_at [of keccak client contracts] by (auto simp: RpcLiquidationChain_def)
  have load: "liq_LoadPosition keccak client contracts (lc_borrower c) (s + 5) = (Inr position, s2)"
    using 1(2) by (simp add: RpcLiquidationChain_def market(2))
  have position: "position_at keccak client contracts (lc_borrower c) (s + 5) position" "s2 = s + 7"
    using liq_LoadPosition_at [OF load] by simp_all
  have current: "pr_liquidatable risk" "lc_borrower current = lc_borrower c" "lc_debtAsset current = lt_usdc contracts"
    "lc_collateralAsset current = lt_weth contracts"
    using BuildCandidate_Some_fields [OF 1(4)] Evaluate_position [OF 1(3)] position(1) market(1) by (auto simp: position_at_def market_at_def)
  obtain minimum where data: "data = EncodeFunction keccak ''liquidate(address,address,address,uint256,uint256)''
      [V_Address (lc_borrower c), V_Address (lt_usdc contracts), V_Address (lt_weth contracts),
       V_Uint256 (lc_maxRepay current), V_Uint256 minimum]"
    and minimum: "unat minimum = unat (lc_expectedCollateral current) * unat (lg_minimumCollateralBps config) div 10000"
    using 1(5) by (auto simp: EncodeLiquidation_def res_simps MulDivDown_Inr current)
  have "unat cost = unat gas * unat (fq_maxFeePerGas fees)" using 1(8) by (simp add: u256_mul_Inr)
  then have usd: "unat usd = unat gas * unat (fq_maxFeePerGas fees) * unat (ms_wethPrice market) div 100000000"
    using 1(9) by (simp add: CollateralValue_Inr)
  have "unat (lc_expectedBonus current) = unat usd + unat profit" using 1(11) by (simp add: u256_sub_Inr)
  moreover have "unat (lg_minimumProfitUsdWad config) \<le> unat profit" using 1(12) by (simp add: word_less_nat_alt)
  ultimately have profit: "unat usd + unat (lg_minimumProfitUsdWad config) \<le> unat (lc_expectedBonus current)" by simp
  have gas: "rpc_EstimateGas client \<lparr>ca_from = Some (lg_operatorAddress config), ca_to = lg_liquidationManager config, ca_data = data,
      ca_value = 0\<rparr> (s + 7) = (Inr gas, s3)"
    using 1(6) by (simp add: RpcLiquidationChain_def liq_EstimateGas_def position(2))
  have fee: "fee_at client (s + 8) (fq_maxFeePerGas fees)"
    using 1(7) liq_GetFeeQuote_at [of client s3] rpc_next(5) [OF gas] by (simp add: RpcLiquidationChain_def add.commute)
  show ?thesis
    unfolding worth_sending_at_def
    using market(1) position(1) 1(3,4,13) current(1) profit [unfolded usd] data minimum gas fee
    by (intro conjI exI [of _ market] exI [of _ position] exI [of _ risk] exI [of _ current] exI [of _ gas]
        exI [of _ "fq_maxFeePerGas fees"] exI [of _ minimum]) simp_all
qed

lemma Prepare_worth:
  assumes "Prepare keccak (RpcLiquidationChain keccak client contracts) config c s = (Inr (Some sub), s')"
  shows "worth_sending keccak client contracts config (lc_borrower c) (sb_data sub) \<and>
    sb_destination sub = lg_liquidationManager config \<and> sb_value sub = 0"
  using Prepare_worth_at [OF assms] by (auto simp: worth_sending_def)

lemma worth_approved:
  assumes "worth_sending keccak client contracts config borrower data" "\<forall>x. length (keccak x) = 32"
    and "length borrower = 20" "length (lt_weth contracts) = 20" "length (lt_usdc contracts) = 20"
    and "set (approved_calls keccak oracle (lg_liquidationManager config)) \<subseteq> set (cf_approvedCalls (tm_config tm))"
    and "tj_to job = lg_liquidationManager config" "tj_data job = data" "tj_value job = 0"
  shows "IsApproved tm job"
proof -
  from assms(1) obtain repay minimum where "data = EncodeFunction keccak ''liquidate(address,address,address,uint256,uint256)''
      [V_Address borrower, V_Address (lt_usdc contracts), V_Address (lt_weth contracts), V_Uint256 repay, V_Uint256 minimum]"
    by (auto simp: worth_sending_def worth_sending_at_def)
  with assms show ?thesis by (intro liquidation_approved [OF _ assms(6), of _ job]) auto
qed

text \<open>C10. Profitable and approved liquidations. When the liquidator decides to send a liquidation, it has read market and
  position from the node just before, request by request from number \<open>s\<close> on: by the words of \<open>assetPrices\<close>,
  \<open>wethCollateral\<close> and \<open>usdcDebt\<close> and the time of the head, the position is liquidatable; the expected bonus covers
  the gas that the node estimates for this calldata, at twice the base fee plus the priority fee and
  valued at the WETH price that was read, and the minimum profit on top; the calldata asks for at least the
  configured share of the expected collateral; and the transaction manager's policy approves the
  transaction.\<close>

theorem Prepare_profitable:
  assumes run: "Prepare keccak (RpcLiquidationChain keccak client contracts) config c s = (Inr (Some sub), s')"
    and "\<forall>x. length (keccak x) = 32" "length (lc_borrower c) = 20" "length (lt_weth contracts) = 20" "length (lt_usdc contracts) = 20"
    and "set (approved_calls keccak (lt_oracle contracts) (lg_liquidationManager config)) \<subseteq> set (cf_approvedCalls (tm_config tm))"
    and "tj_to job = sb_destination sub" "tj_data job = sb_data sub" "tj_value job = sb_value sub"
  shows "worth_sending_at keccak client contracts config (lc_borrower c) (sb_data sub) s \<and> IsApproved tm job"
  using Prepare_worth_at [OF run] Prepare_worth [OF run] worth_approved [OF _ assms(2-6)] assms(7-9) by auto

section \<open>A job and its workers\<close>

definition demo_job_row :: LiquidationJobRow where
  "demo_job_row = \<lparr>jr_job_id = RiskEventId demo_candidate_sent, jr_source_event_id = RiskEventId demo_candidate_sent,
     jr_chain_id = ToDecimal 31337, jr_borrower = Address_ToHex (replicate 20 1) True, jr_debt_asset = Address_ToHex (replicate 20 2) True,
     jr_collateral_asset = Address_ToHex (replicate 20 3) True, jr_health_factor = ToDecimal 9, jr_max_repay = ToDecimal 100,
     jr_expected_bonus = ToDecimal 5, jr_expected_collateral = ToDecimal 7, jr_expected_bad_debt = ToDecimal 0,
     jr_block_number = 12, jr_block_hash = Hex_Encode (replicate 32 4) True, jr_canonical_version = 3, jr_status = ''Available'',
     jr_worker_id = None, jr_lease_until = None, jr_fencing_token = 0, jr_tx_job_id = None, jr_error = None, jr_created_at = 100\<rparr>"

lemma demo_job_row: "job_row 100 (RiskEventId demo_candidate_sent) demo_candidate_sent = Inr demo_job_row"
  by (simp add: job_row_def demo_candidate_sent_def bigint_def positive_bigint_def demo_job_row_def)

definition demo_queue :: ServiceDb where
  "demo_queue = empty_services\<lparr>sd_processed := [(''liquidator'', RiskEventId demo_candidate_sent)], sd_jobs := [demo_job_row],
     db_blocks := [\<lparr>br_chain = ToDecimal 31337, br_number = 12, br_hash = Hex_Encode (replicate 32 4) True,
                    br_parent = Hex_Encode (replicate 32 5) True, br_canonical = True\<rparr>]\<rparr>"

lemma demo_enqueue: "Enqueue 100 (candidate_event 5 demo_candidate_sent) (demo_queue\<lparr>sd_processed := [], sd_jobs := []\<rparr>) =
    Inr (True, demo_queue)"
  using CandidateFromEvent_candidate [OF demo_candidate_fits, of 5] demo_job_row
  by (simp add: Enqueue_def mark_processed_def insert_ignore_def demo_queue_def candidate_event_def empty_services_def)

theorem queue_refines_ledger_witness:
  "jobs_ok (sd_jobs demo_queue) \<and> (lease_step 100)\<^sup>*\<^sup>* Map.empty (ledger_of (sd_jobs demo_queue))"
proof -
  have "jobs_ok []" by (simp add: jobs_ok_def)
  with queue_refines_ledger [OF liq_enqueue [OF demo_enqueue]] show ?thesis by (simp add: ledger_of_def)
qed

lemma demo_ok: "jobs_ok [demo_job_row]"
  by (simp add: jobs_ok_def demo_job_row_def)

definition demo_claimed :: "nat \<Rightarrow> nat \<Rightarrow> string \<Rightarrow> LiquidationJobRow" where
  "demo_claimed now token w = demo_job_row\<lparr>jr_status := ''Claimed'', jr_worker_id := Some w, jr_lease_until := Some (int now + 30),
     jr_fencing_token := token\<rparr>"

definition demo_claim :: "nat \<Rightarrow> string \<Rightarrow> LiquidationJob" where
  "demo_claim token w = \<lparr>lj_jobId = RiskEventId demo_candidate_sent, lj_candidate = demo_candidate_sent, lj_workerId = w,
     lj_fencingToken = of_nat token\<rparr>"

lemma demo_parse: "liq_ParseJob (demo_claimed now token w) = Inr (demo_claim token w)"
proof -
  have "Address_FromHex (Address_ToHex a True) = Inr a" if "length a = 20" for a using that by (rule Address_FromHex_ToHex)
  then show ?thesis
    by (simp add: liq_ParseJob_def demo_claimed_def demo_job_row_def FromDecimal_ToDecimal liq_ParseHash_def ParseHash_Encode demo_claim_def
        demo_candidate_sent_def)
qed

lemma demo_first: "Claim 100 {} 31337 ''w1'' 30 demo_queue = Inr (Some (demo_claim 1 ''w1''), demo_queue\<lparr>sd_jobs := [demo_claimed 100 1 ''w1'']\<rparr>)"
proof -
  have row: "expire_row (ToDecimal 31337) 100 demo_job_row = demo_job_row" "claimable (ToDecimal 31337) {} demo_job_row"
    "claimed_row 100 ''w1'' 30 demo_job_row = demo_claimed 100 1 ''w1''" "jr_fencing_token demo_job_row = 0"
    by (simp_all add: expire_row_def claimable_def claimed_row_def demo_claimed_def demo_job_row_def)
  have "sd_jobs demo_queue = [demo_job_row]" by (simp add: demo_queue_def)
  then show ?thesis by (simp add: Claim_def Let_def next_job_def row demo_parse)
qed

lemma demo_second:
  "Claim 200 {} 31337 ''w2'' 30 (demo_queue\<lparr>sd_jobs := [demo_claimed 100 1 ''w1'']\<rparr>) =
     Inr (Some (demo_claim 2 ''w2''), demo_queue\<lparr>sd_jobs := [demo_claimed 200 2 ''w2'']\<rparr>)"
proof -
  let ?r = "(demo_claimed 100 1 ''w1'')\<lparr>jr_status := ''Expired''\<rparr>"
  have row: "expire_row (ToDecimal 31337) 200 (demo_claimed 100 1 ''w1'') = ?r" "claimable (ToDecimal 31337) {} ?r"
    "claimed_row 200 ''w2'' 30 ?r = demo_claimed 200 2 ''w2''" "jr_fencing_token (demo_claimed 100 1 ''w1'') = 1"
    by (simp_all add: expire_row_def claimable_def claimed_row_def demo_claimed_def demo_job_row_def)
  then show ?thesis by (simp add: Claim_def Let_def next_job_def demo_parse)
qed

theorem stale_claim_fenced_witness:
  "liq_Submit 210 (demo_claim 1 ''w1'') \<lparr>sb_destination = replicate 20 6, sb_data = [1], sb_value = 0\<rparr> (replicate 20 7)
     (demo_queue\<lparr>sd_jobs := [demo_claimed 200 2 ''w2'']\<rparr>) = (False, demo_queue\<lparr>sd_jobs := [demo_claimed 200 2 ''w2'']\<rparr>)"
proof -
  have "jobs_ok (sd_jobs demo_queue)" using demo_ok by (simp add: demo_queue_def)
  from stale_claim_fenced [OF this demo_first run_stop demo_second _ run_stop] show ?thesis by (simp add: demo_claim_def)
qed

theorem job_submitted_once_witness:
  "\<exists>db1. liq_Submit 110 (demo_claim 1 ''w1'') \<lparr>sb_destination = replicate 20 6, sb_data = [1], sb_value = 0\<rparr> (replicate 20 7)
     (demo_queue\<lparr>sd_jobs := [demo_claimed 100 1 ''w1'']\<rparr>) = (True, db1) \<and>
    (\<exists>r \<in> set (sd_tx db1). tr_job_id r = ''liquidation-tx:'' @ RiskEventId demo_candidate_sent)"
proof -
  let ?db = "demo_queue\<lparr>sd_jobs := [demo_claimed 100 1 ''w1'']\<rparr>"
  let ?sub = "\<lparr>sb_destination = replicate 20 6, sb_data = [1], sb_value = 0\<rparr>"
  have "holds_claim 110 (demo_claim 1 ''w1'') (demo_claimed 100 1 ''w1'') \<and>
      canonical_source (db_blocks ?db) (demo_claimed 100 1 ''w1'')"
    by (simp add: holds_claim_def canonical_source_def demo_claim_def demo_claimed_def demo_job_row_def demo_queue_def)
  then obtain db1 where db1: "liq_Submit 110 (demo_claim 1 ''w1'') ?sub (replicate 20 7) ?db = (True, db1)"
    by (simp add: liq_Submit_def Let_def)
  have "jobs_ok (sd_jobs ?db)" by (simp add: jobs_ok_def demo_claimed_def demo_job_row_def)
  from job_submitted_once [OF this db1 run_stop] db1 show ?thesis by (auto simp: demo_claim_def)
qed

section \<open>A liquidation\<close>

definition demo_block :: BlockHeader where
  "demo_block = \<lparr>bh_number = 12, bh_hash = replicate 32 1, bh_parentHash = replicate 32 2, bh_timestamp = 1100, bh_baseFeePerGas = Some 10\<rparr>"

definition words :: "uint256 list \<Rightarrow> json" where
  "words vs = J_Str (Hex_Encode (concat (map ToBytes vs)) True)"

text \<open>The answers of a node, in the order of the requests of one decision.\<close>

definition demo_answers :: "json list" where
  "demo_answers = [J_Str (ToQuantity 31337), J_Str (ToQuantity 12), header_json demo_block,
     words [150000000000, 1000, 3600], words [100000000, 1000, 86400], words [1000000000000000000], words [1500000000],
     J_Str (ToQuantity 300000), J_Str (ToQuantity 12), header_json demo_block, J_Str (ToQuantity 2)]"

definition demo_liq :: RpcClient where
  "demo_liq = (demo_rpc J_Null)\<lparr>rk_node := \<lambda>_ n _. demo_result n (demo_answers ! (n - 1))\<rparr>"

lemma demo_liq_result: "node_result demo_liq n m p (demo_answers ! (n - 1))"
  by (simp add: node_result_def demo_liq_def demo_result_def)

lemmas demo_liq_call = call_result [OF demo_liq_result]

lemma demo_liq_quantity:
  "demo_answers ! (n - 1) = J_Str (ToQuantity v) \<Longrightarrow> call_quantity demo_liq m p n = (Inr v, Suc n)"
  by (simp add: call_quantity_def demo_liq_call ParseQuantity_field)

lemma demo_liq_number: "demo_answers ! (n - 1) = J_Str (ToQuantity v) \<Longrightarrow> rpc_GetBlockNumber demo_liq n = (Inr v, Suc n)"
  by (simp add: rpc_GetBlockNumber_def bindp_def demo_liq_quantity ret_def) (simp add: demo_liq_def demo_rpc_def)

lemma demo_liq_block: "demo_answers ! (n - 1) = header_json demo_block \<Longrightarrow>
    rpc_GetBlockByNumber demo_liq v n = (Inr (Some demo_block), Suc n)"
  using header_codec.dec_enc [of demo_block "rk_what demo_liq"]
  by (auto simp: rpc_GetBlockByNumber_def demo_liq_call header_typed_def demo_block_def ParseHeader_some_def res_simps split: option.splits)

lemma demo_liq_words: "demo_answers ! (n - 1) = words vs \<Longrightarrow> chain_Call k demo_liq a f args n = (Inr (concat (map ToBytes vs)), Suc n)"
  by (simp add: chain_Call_def rpc_EthCall_def demo_liq_call ParseBytesResult_def words_def Hex_Decode_Encode)

lemma Word_words:
  "Word (ToBytes a @ rest) 0 = Inr a" "Word (ToBytes b @ ToBytes a @ rest) 1 = Inr a"
  "Word (ToBytes b @ ToBytes c @ ToBytes a @ rest) 2 = Inr a"
  by (simp_all add: Word_def FromBytes_ToBytes)

definition demo_contracts :: LiquidationContracts where
  "demo_contracts = \<lparr>lt_pool = replicate 20 1, lt_liquidationManager = replicate 20 6, lt_oracle = replicate 20 2,
     lt_weth = replicate 20 3, lt_usdc = replicate 20 4\<rparr>"

definition demo_config :: LiquidatorConfig where
  "demo_config = \<lparr>lg_operatorAddress = replicate 20 7, lg_liquidationManager = replicate 20 6, lg_minimumProfitUsdWad = 1000,
     lg_minimumCollateralBps = 9900\<rparr>"

definition demo_now :: MarketSnapshot where
  "demo_now = demo_market\<lparr>ms_availableUsdcLiquidity := 0, ms_totalScaledUsdcDebt := 0, ms_lastInterestTimestamp := 0, ms_canonicalVersion := 0\<rparr>"

lemma demo_market_calls:
  "rpc_GetChainId demo_liq 1 = (Inr 31337, 2)" "rpc_GetBlockNumber demo_liq 2 = (Inr 12, 3)"
  "rpc_GetBlockByNumber demo_liq 12 3 = (Inr (Some demo_block), 4)"
  "chain_Call k demo_liq a f args 4 = (Inr (ToBytes 150000000000 @ ToBytes 1000 @ ToBytes 3600), 5)"
  "chain_Call k demo_liq a f args 5 = (Inr (ToBytes 100000000 @ ToBytes 1000 @ ToBytes 86400), 6)"
  using demo_liq_quantity [of 1] demo_liq_number [of 2] demo_liq_block [of 3] demo_liq_words [of 4] demo_liq_words [of 5]
  by (simp_all add: rpc_GetChainId_def demo_answers_def)

lemma demo_liq_market: "liq_LoadMarket k demo_liq demo_contracts 1 = (Inr demo_now, 6)"
proof -
  have last: "Word (ToBytes b @ ToBytes c @ ToBytes a) 2 = Inr a" for a b c
    using Word_words(3) [of b c a "[]"] by simp
  have "ToUint64 12 = Inr 12" "ToUint64 1100 = Inr 1100" by (simp_all add: ToUint64_def)
  then show ?thesis
    by (simp only: liq_LoadMarket_def bindp_def liftp_def demo_market_calls Word_words last prod.case sum.case option.case
        demo_block_def BlockHeader.select_convs) (simp add: ret_def demo_now_def demo_market_def demo_contracts_def risk_const_defs)
qed

definition demo_position :: Position where
  "demo_position = \<lparr>pos_user = replicate 20 9, pos_wethCollateral = 1000000000000000000, pos_usdcDebt = 1500000000\<rparr>"

lemma demo_position_calls:
  "chain_Call k demo_liq a f args 6 = (Inr (ToBytes 1000000000000000000), 7)"
  "chain_Call k demo_liq a f args 7 = (Inr (ToBytes 1500000000), 8)"
  using demo_liq_words [of 6] demo_liq_words [of 7] by (simp_all add: demo_answers_def)

lemma demo_liq_position: "liq_LoadPosition k demo_liq demo_contracts (replicate 20 9) 6 = (Inr demo_position, 8)"
proof -
  have "Word (ToBytes a) 0 = Inr a" for a using Word_words(1) [of a "[]"] by simp
  then show ?thesis
    by (simp only: liq_LoadPosition_def bindp_def liftp_def demo_position_calls prod.case sum.case ret_def demo_position_def)
qed

lemma demo_liq_gas: "liq_EstimateGas demo_liq a b d 8 = (Inr 300000, 9)"
  using demo_liq_quantity [of 8] by (simp add: liq_EstimateGas_def rpc_EstimateGas_def demo_answers_def)

lemma demo_fee_calls:
  "rpc_GetBlockNumber demo_liq 9 = (Inr 12, 10)" "rpc_GetBlockByNumber demo_liq 12 10 = (Inr (Some demo_block), 11)"
  "rpc_GetMaxPriorityFeePerGas demo_liq 11 = (Inr 2, 12)"
  using demo_liq_number [of 9] demo_liq_block [of 10] demo_liq_quantity [of 11]
  by (simp_all add: rpc_GetMaxPriorityFeePerGas_def demo_answers_def)

lemma demo_liq_fees: "liq_GetFeeQuote demo_liq 9 = (Inr \<lparr>fq_maxPriorityFeePerGas = 2, fq_maxFeePerGas = 22\<rparr>, 12)"
proof -
  have "u256_mul 10 2 = Inr 20" "u256_add 20 2 = Inr 22" by (simp_all add: u256_eval)
  then show ?thesis
    by (simp only: liq_GetFeeQuote_def fee_quote_def bindp_def liftp_def demo_fee_calls prod.case sum.case option.case
        demo_block_def BlockHeader.select_convs ret_def)
qed

definition demo_liq_candidate :: LiquidationCandidate where
  "demo_liq_candidate = \<lparr>lc_borrower = replicate 20 9, lc_healthFactor = 800000000000000000,
     lc_debtAsset = replicate 20 4, lc_collateralAsset = replicate 20 3, lc_maxRepay = 750000000,
     lc_expectedBonus = 37500000000000000000, lc_expectedCollateral = 525000000000000000,
     lc_expectedBadDebt = 0, lc_blockNumber = 12, lc_blockHash = replicate 32 1, lc_chainId = 31337, lc_canonicalVersion = 0\<rparr>"

lemma demo_liq_risk:
  "Evaluate demo_position demo_now (ms_observedAt demo_now) = Inr (demo_risk 1500000000 1500000000000000000000 800000000000000000)"
  by (simp add: Evaluate_def RequireFreshPrice_def demo_simps demo_now_def demo_position_def)

lemma demo_liq_build:
  "BuildCandidate (demo_risk 1500000000 1500000000000000000000 800000000000000000) demo_now None = Inr (Some demo_liq_candidate)"
  by (simp add: BuildCandidate_def Let_def demo_simps demo_now_def demo_liq_candidate_def)

definition demo_calldata :: "(bytes \<Rightarrow> hash256) \<Rightarrow> bytes" where
  "demo_calldata k = EncodeFunction k ''liquidate(address,address,address,uint256,uint256)''
     [V_Address (replicate 20 9), V_Address (replicate 20 4), V_Address (replicate 20 3), V_Uint256 750000000,
      V_Uint256 519750000000000000]"

lemma demo_liq_encode: "EncodeLiquidation k demo_config demo_liq_candidate = Inr (demo_calldata k)"
proof -
  have "MulDivDown 525000000000000000 (Uint256_of 9900) 10000 = Inr 519750000000000000" by (simp add: u256_eval)
  then show ?thesis by (simp add: EncodeLiquidation_def demo_config_def demo_liq_candidate_def demo_calldata_def)
qed

lemma demo_prepare:
  assumes borrower: "lc_borrower c = replicate 20 9"
  shows "Prepare k (RpcLiquidationChain k demo_liq demo_contracts) demo_config c 1 =
    (Inr (Some \<lparr>sb_destination = replicate 20 6, sb_data = demo_calldata k, sb_value = 0\<rparr>), 12)"
proof -
  have cost: "u256_mul 300000 22 = Inr 6600000" "CollateralValue 6600000 (ms_wethPrice demo_now) = Inr 9900000000"
    "lc_expectedBonus demo_liq_candidate \<le> 9900000000 = False"
    "u256_sub (lc_expectedBonus demo_liq_candidate) 9900000000 = Inr 37499999990100000000"
    "37499999990100000000 < lg_minimumProfitUsdWad demo_config = False" "lg_liquidationManager demo_config = replicate 20 6"
    by (simp_all add: demo_simps demo_now_def demo_liq_candidate_def demo_config_def)
  show ?thesis
    by (simp only: Prepare_def RpcLiquidationChain_def LiquidationChain.select_convs bindp_def liftp_def demo_liq_market prod.case sum.case
        option.case borrower demo_liq_position demo_liq_risk demo_liq_build demo_liq_encode demo_liq_gas demo_liq_fees FeeQuote.select_convs cost
        if_False ret_def)
qed

definition demo_hash :: "bytes \<Rightarrow> hash256" where
  "demo_hash bs = take 32 (bs @ replicate 32 0)"

definition demo_sender :: TxManager where
  "demo_sender = (demo_manager demo_node)\<lparr>tm_config := \<lparr>cf_confirmationDepth = 1, cf_replacementAfterBlocks = 3,
     cf_maximumRetries = 3, cf_approvedCalls = approved_calls demo_hash (replicate 20 2) (replicate 20 6)\<rparr>\<rparr>"

theorem Prepare_profitable_witness:
  "Prepare demo_hash (RpcLiquidationChain demo_hash demo_liq demo_contracts) demo_config demo_liq_candidate 1 =
     (Inr (Some \<lparr>sb_destination = replicate 20 6, sb_data = demo_calldata demo_hash, sb_value = 0\<rparr>), 12) \<and>
   IsApproved demo_sender (demo_job\<lparr>tj_to := replicate 20 6, tj_data := demo_calldata demo_hash\<rparr>)"
proof -
  have prepare: "Prepare demo_hash (RpcLiquidationChain demo_hash demo_liq demo_contracts) demo_config demo_liq_candidate 1 =
     (Inr (Some \<lparr>sb_destination = replicate 20 6, sb_data = demo_calldata demo_hash, sb_value = 0\<rparr>), 12)"
    by (rule demo_prepare) (simp add: demo_liq_candidate_def)
  have "\<forall>x. length (demo_hash x) = 32" by (auto simp: demo_hash_def min_def)
  then have "IsApproved demo_sender (demo_job\<lparr>tj_to := replicate 20 6, tj_data := demo_calldata demo_hash\<rparr>)"
    using Prepare_profitable [OF prepare, of demo_sender
        "demo_job\<lparr>tj_to := replicate 20 6, tj_data := demo_calldata demo_hash\<rparr>"]
    by (simp add: demo_liq_candidate_def demo_contracts_def demo_config_def demo_sender_def demo_job_def)
  with prepare show ?thesis by (rule conjI)
qed

end
