(* ===== verification/Liquidator_Safety.thy ===== *)
theory Liquidator_Safety
  imports Liquidator_Service Liquidation_Properties
begin

text \<open>
  What the loop of the liquidator guarantees whatever the broker, the clock, the node and the other
  workers do: the queue stays well formed, everything it queues for sending is worth sending and passes
  the policy of the transaction manager, and an event that is delivered again changes nothing.
\<close>

section \<open>The transactions of the liquidator\<close>

definition liquidation_tx :: "TxJobRow \<Rightarrow> bool" where
  "liquidation_tx r \<longleftrightarrow> take 15 (tr_job_id r) = ''liquidation-tx:''"

definition tx_justified :: "(bytes \<Rightarrow> hash256) \<Rightarrow> RpcClient \<Rightarrow> LiquidationContracts \<Rightarrow> LiquidatorConfig \<Rightarrow> TxJobRow \<Rightarrow> bool" where
  "tx_justified keccak client contracts config r \<longleftrightarrow>
     tr_to r = Address_ToHex (lg_liquidationManager config) True \<and> tr_value r = 0 \<and>
     (\<exists>borrower data. length borrower = 20 \<and> tr_calldata r = Hex_Encode data True \<and>
        worth_sending keccak client contracts config borrower data)"

definition service_ok :: "(bytes \<Rightarrow> hash256) \<Rightarrow> RpcClient \<Rightarrow> LiquidationContracts \<Rightarrow> LiquidatorConfig \<Rightarrow> ServiceDb \<Rightarrow> bool" where
  "service_ok keccak client contracts config db \<longleftrightarrow> jobs_ok (sd_jobs db) \<and>
     (\<forall>r \<in> set (sd_tx db). liquidation_tx r \<longrightarrow> tx_justified keccak client contracts config r)"

lemma service_ok_step:
  assumes "service_ok keccak client contracts config db" "liq_step now db db'" "sd_tx db' = sd_tx db"
  shows "service_ok keccak client contracts config db'"
  using assms liq_step_refines [of now db db'] by (simp add: service_ok_def)

lemma Submit_tx:
  assumes "service_ok keccak client contracts config db" "liq_Submit now job sub wallet db = (b, db')"
    and "worth_sending keccak client contracts config (lc_borrower (lj_candidate job)) (sb_data sub)"
    and "sb_destination sub = lg_liquidationManager config" "sb_value sub = 0" "length (lc_borrower (lj_candidate job)) = 20"
  shows "service_ok keccak client contracts config db'"
proof -
  define row where "row = submission_row now (''liquidation-tx:'' @ lj_jobId job) job sub wallet"
  have "tx_justified keccak client contracts config row"
    using assms(3-6) by (auto simp: tx_justified_def submission_row_def row_def)
  moreover have "set (sd_tx db') \<subseteq> insert row (set (sd_tx db))"
    using assms(2) by (auto simp: liq_Submit_def Let_def insert_ignore_def row_def split: if_splits)
  ultimately have "\<forall>r \<in> set (sd_tx db'). liquidation_tx r \<longrightarrow> tx_justified keccak client contracts config r"
    using assms(1) by (auto simp: service_ok_def)
  moreover have "jobs_ok (sd_jobs db')" using Submit_refines [of db now job sub wallet b db'] assms(1,2) by (simp add: service_ok_def)
  ultimately show ?thesis by (simp add: service_ok_def)
qed

lemma Claim_borrower: "Claim now locked c w d db = Inr (Some job, db') \<Longrightarrow> length (lc_borrower (lj_candidate job)) = 20"
  by (auto simp: Claim_def Let_def liq_ParseJob_def res_simps dest: Address_FromHex_length split: option.splits if_splits)

lemma queue_tx:
  "Enqueue now ev db = Inr (b, db') \<Longrightarrow> sd_tx db' = sd_tx db"
  "Claim now locked c w d db = Inr (j, db') \<Longrightarrow> sd_tx db' = sd_tx db"
  by (auto simp: Enqueue_def Claim_def Let_def mark_processed_def res_simps split: option.splits if_splits)

section \<open>The loop\<close>

lemma valid_on_chain:
  assumes "\<And>s x s'. operation s = (Inr x, s') \<Longrightarrow> Q x"
  shows "valid (\<lambda>w. P (wk_db w)) (on_chain operation) (\<lambda>x w. P (wk_db w) \<and> Q x) (\<lambda>_ w. P (wk_db w))"
  by (rule validI) (use assms in \<open>auto simp: on_chain_def split: prod.splits\<close>)

lemma keeps_receive:
  assumes "others_keep P (lv_env sv)" "\<And>now ev db b db'. P db \<Longrightarrow> Enqueue now ev db = Inr (b, db') \<Longrightarrow> P db'"
  shows "keeps (\<lambda>w. P (wk_db w)) (receive sv)"
  unfolding receive_def enqueue_def
  by (intro keeps_intros keeps_Fetch keeps_consume keeps_on_db keeps_transact assms(1)) (use assms(2) in blast)

lemma keeps_work:
  assumes others: "others_keep P (lv_env sv)"
    and invalidate: "\<And>now job reason db b db'. P db \<Longrightarrow> Invalidate now job reason db = (b, db') \<Longrightarrow> P db'"
    and submit: "\<And>now sub db b db' s s'. P db \<Longrightarrow>
      Prepare (lv_keccak sv) (lv_chain sv) (lv_config sv) (lj_candidate job) s = (Inr (Some sub), s') \<Longrightarrow>
      liq_Submit now job sub (lg_operatorAddress (lv_config sv)) db = (b, db') \<Longrightarrow> P db'"
  shows "keeps (\<lambda>w. P (wk_db w)) (work_on sv job)"
  unfolding work_on_def
proof (rule valid_bindp)
  let ?op = "Prepare (lv_keccak sv) (lv_chain sv) (lv_config sv) (lj_candidate job)"
  show "valid (\<lambda>w. P (wk_db w)) (on_chain ?op) (\<lambda>x w. P (wk_db w) \<and> (\<exists>s s'. ?op s = (Inr x, s'))) (\<lambda>_ w. P (wk_db w))"
    by (rule valid_on_chain) blast
  show "valid (\<lambda>w. P (wk_db w) \<and> (\<exists>s s'. ?op s = (Inr x, s'))) (case x of
     Some sub \<Rightarrow> bindp (on_db (lv_env sv) (\<lambda>n. always (liq_Submit (en_now (lv_env sv) n) job sub (lg_operatorAddress (lv_config sv)))))
         (\<lambda>submitted. ret (submitted, 0))
   | None \<Rightarrow> bindp (on_db (lv_env sv) (\<lambda>n. always (Invalidate (en_now (lv_env sv) n) job
                ''position is no longer profitable to liquidate'')))
         (\<lambda>closed. ret (False, if closed then 1 else 0))) (\<lambda>_ w. P (wk_db w)) (\<lambda>_ w. P (wk_db w))" for x
    by (rule valid_pre_conj, intro keeps_intros keeps_on_db keeps_always others) (use submit invalidate in blast)+
qed

text \<open>A round keeps every invariant that its statements keep.\<close>

lemma keeps_queue_work:
  assumes others: "others_keep P (lv_env sv)"
    and claim: "\<And>now locked c w d db j db'. P db \<Longrightarrow> Claim now locked c w d db = Inr (j, db') \<Longrightarrow> P db'"
    and stale: "\<And>c db n db'. P db \<Longrightarrow> InvalidateNonCanonical c db = (n, db') \<Longrightarrow> P db'"
    and invalidate: "\<And>now job reason db b db'. P db \<Longrightarrow> Invalidate now job reason db = (b, db') \<Longrightarrow> P db'"
    and reconcile: "\<And>db r db'. P db \<Longrightarrow> ReconcileSubmittedWithStats db = (r, db') \<Longrightarrow> P db'"
    and submit: "\<And>now job sub db b db' s s'. P db \<Longrightarrow> length (lc_borrower (lj_candidate job)) = 20 \<Longrightarrow>
      Prepare (lv_keccak sv) (lv_chain sv) (lv_config sv) (lj_candidate job) s = (Inr (Some sub), s') \<Longrightarrow>
      liq_Submit now job sub (lg_operatorAddress (lv_config sv)) db = (b, db') \<Longrightarrow> P db'"
  shows "keeps (\<lambda>w. P (wk_db w)) (work sv queued)"
proof -
  have claimed: "valid (\<lambda>w. P (wk_db w)) (on_db (lv_env sv) (\<lambda>n. transact (Claim (en_now (lv_env sv) n) (en_locked (lv_env sv) n)
      (lv_chainId sv) (lv_workerId sv) (lv_leaseDuration sv))))
      (\<lambda>x w. P (wk_db w) \<and> (\<forall>job. x = Some job \<longrightarrow> length (lc_borrower (lj_candidate job)) = 20)) (\<lambda>_ w. P (wk_db w))"
    by (intro valid_on_db others valid_transact) (use claim Claim_borrower in blast)+
  have job: "keeps (\<lambda>w. P (wk_db w)) (case x of None \<Rightarrow> ret (False, 0) | Some job \<Rightarrow> work_on sv job)"
    if "\<forall>job. x = Some job \<longrightarrow> length (lc_borrower (lj_candidate job)) = 20" for x
    using that keeps_work [OF others invalidate submit] by (auto simp: keeps_ret split: option.splits)
  have rest: "keeps (\<lambda>w. P (wk_db w)) (on_db (lv_env sv) (\<lambda>_. always ReconcileSubmittedWithStats))"
    "keeps (\<lambda>w. P (wk_db w)) (on_db (lv_env sv) (\<lambda>_. always (InvalidateNonCanonical (lv_chainId sv))))"
    by (intro keeps_on_db keeps_always others; use stale reconcile in blast)+
  have tail: "keeps (\<lambda>w. P (wk_db w)) (case y of (submitted, closed) \<Rightarrow>
      bindp (on_db (lv_env sv) (\<lambda>_. always ReconcileSubmittedWithStats)) (\<lambda>reconciled.
      ret \<lparr>lo_queued = q, lo_submitted = submitted, lo_invalidated = n + closed, lo_reconciled = reconciled\<rparr>))" for y q n
    by (cases y) (auto intro: keeps_bindp [OF rest(1)] keeps_ret)
  show ?thesis
    unfolding work_def
    by (rule keeps_bindp [OF rest(2)], rule valid_bindp [OF claimed], rule valid_pre_conj, rule keeps_bindp [OF job tail])
qed

lemma quiet_work: "keeps (\<lambda>w. wk_acked w = a) (work sv queued)"
proof -
  have chain: "keeps (\<lambda>w. wk_acked w = a) (on_chain m)" for m :: "(nat, 'z) prog"
    by (auto simp: on_chain_def valid_def split: prod.splits sum.splits)
  show ?thesis unfolding work_def work_on_def case_prod_unfold
    by (intro keeps_intros quiet_parts chain)
qed

lemma service_ok_round:
  assumes "lv_chain sv = RpcLiquidationChain (lv_keccak sv) client contracts"
    and "others_keep (service_ok (lv_keccak sv) client contracts (lv_config sv)) (lv_env sv)"
  shows "keeps (\<lambda>w. service_ok (lv_keccak sv) client contracts (lv_config sv) (wk_db w)) (liquidator_round sv)"
  unfolding liquidator_round_def
proof (rule keeps_bindp [OF keeps_receive [OF assms(2)] keeps_queue_work [OF assms(2)]])
  let ?P = "service_ok (lv_keccak sv) client contracts (lv_config sv)"
  show "?P db'" if "?P db" "Enqueue now ev db = Inr (b, db')" for now ev db b db'
    using that(1) liq_enqueue [OF that(2)] queue_tx(1) [OF that(2)] by (rule service_ok_step)
  show "?P db'" if "?P db" "Claim now locked c w d db = Inr (j, db')" for now locked c w d db j db'
    using that(1) liq_claim [OF that(2)] queue_tx(2) [OF that(2)] by (rule service_ok_step)
  show "?P db'" if "?P db" "InvalidateNonCanonical c db = (n, db')" for c db n db'
    using that(1) liq_stale [OF that(2)] by (rule service_ok_step) (use that(2) in \<open>auto simp: InvalidateNonCanonical_def Let_def\<close>)
  show "?P db'" if "?P db" "Invalidate now job reason db = (b, db')" for now job reason db b db'
    using that(1) liq_invalidate [OF that(2)] by (rule service_ok_step) (use that(2) in \<open>auto simp: Invalidate_def\<close>)
  show "?P db'" if "?P db" "ReconcileSubmittedWithStats db = (r, db')" for db r db'
    using that(1) liq_reconcile [OF that(2)] by (rule service_ok_step) (use that(2) in \<open>auto simp: ReconcileSubmittedWithStats_def\<close>)
  show "?P db'" if "?P db" "length (lc_borrower (lj_candidate job)) = 20"
    "Prepare (lv_keccak sv) (lv_chain sv) (lv_config sv) (lj_candidate job) s = (Inr (Some sub), s')"
    "liq_Submit now job sub (lg_operatorAddress (lv_config sv)) db = (b, db')" for now job sub db b db' s s'
    using Prepare_worth [OF that(3) [unfolded assms(1)]] by (intro Submit_tx [OF that(1,4)]) (simp_all add: that(2))
qed

lemma justified_approved:
  assumes "tx_justified keccak client contracts config r" "ParseJob r = Inr job" "\<forall>x. length (keccak x) = 32"
    and "length (lt_weth contracts) = 20" "length (lt_usdc contracts) = 20" "length (lg_liquidationManager config) = 20"
    and "set (approved_calls keccak oracle (lg_liquidationManager config)) \<subseteq> set (cf_approvedCalls (tm_config tm))"
  shows "IsApproved tm job"
proof -
  from assms(1) obtain borrower data where r: "tr_to r = Address_ToHex (lg_liquidationManager config) True" "tr_value r = 0"
    "length borrower = 20" "tr_calldata r = Hex_Encode data True" "worth_sending keccak client contracts config borrower data"
    by (auto simp: tx_justified_def)
  have "numeric_field 0 = Inr v \<Longrightarrow> v = 0" for v
    using numeric_field_unat [of 0] by simp
  then have "tj_to job = lg_liquidationManager config" "tj_data job = data" "tj_value job = 0"
    using assms(2,6) by (auto simp: ParseJob_def r Address_FromHex_ToHex Hex_Decode_Encode elim!: bind_resE)
  with worth_approved [OF r(5) assms(3) r(3) assms(4,5,7)] show ?thesis by blast
qed

section \<open>The liquidator as a consumer\<close>

text \<open>The effect of an event: the mark that it was processed and a job.\<close>

definition job_effect :: "string \<Rightarrow> ServiceDb \<Rightarrow> bool" where
  "job_effect i db \<longleftrightarrow> (''liquidator'', i) \<in> set (sd_processed db) \<and> i \<in> jr_source_event_id ` set (sd_jobs db)"

definition queue_inv :: "ServiceDb \<Rightarrow> bool" where
  "queue_inv db \<longleftrightarrow> jobs_ok (sd_jobs db) \<and>
     (\<forall>i. (''liquidator'', i) \<in> set (sd_processed db) \<longrightarrow> i \<in> jr_source_event_id ` set (sd_jobs db))"

lemma one_job:
  assumes "queue_inv db" "job_effect i db"
  shows "\<exists>!r. r \<in> set (sd_jobs db) \<and> jr_source_event_id r = i"
proof -
  from assms(2) obtain r where r: "r \<in> set (sd_jobs db)" "jr_source_event_id r = i" by (auto simp: job_effect_def)
  have "inj_on jr_job_id (set (sd_jobs db))" "\<forall>r \<in> set (sd_jobs db). jr_job_id r = jr_source_event_id r"
    using assms(1) by (auto simp: queue_inv_def jobs_ok_def distinct_map list_all_iff)
  with r show ?thesis by (metis inj_onD)
qed

lemma Enqueue_cases:
  assumes "Enqueue now event db = Inr (b, db')"
  obtains (Again) "(''liquidator'', ev_eventId event) \<in> set (sd_processed db)" "db' = db"
  | (First) c r where "(''liquidator'', ev_eventId event) \<notin> set (sd_processed db)" "CandidateFromEvent event = Inr c"
      "job_row now (ev_eventId event) c = Inr r" "jr_source_event_id r = ev_eventId event"
      "db' = db\<lparr>sd_processed := sd_processed db @ [(''liquidator'', ev_eventId event)],
        sd_jobs := insert_ignore jr_source_event_id r (sd_jobs db)\<rparr>"
proof (cases "(''liquidator'', ev_eventId event) \<in> set (sd_processed db)")
  case True
  with assms Again show ?thesis by (auto simp: Enqueue_def mark_processed_def elim!: bind_resE)
next
  case False
  with assms obtain c r where row: "job_row now (ev_eventId event) c = Inr r" "CandidateFromEvent event = Inr c" "db' = db\<lparr>sd_processed := sd_processed db @ [(''liquidator'', ev_eventId event)],
        sd_jobs := insert_ignore jr_source_event_id r (sd_jobs db)\<rparr>"
    by (auto simp: Enqueue_def mark_processed_def res_simps)
  from row(1) have "jr_source_event_id r = ev_eventId event" by (auto simp: job_row_def elim!: bind_resE)
  with False row First show ?thesis by blast
qed

lemma Enqueue_effect:
  assumes "Enqueue now event db = Inr (b, db')"
  shows "job_effect i db \<Longrightarrow> job_effect i db'"
    "queue_inv db \<Longrightarrow> job_effect (ev_eventId event) db'"
    "job_effect (ev_eventId event) db \<Longrightarrow> db' = db"
  using assms by (cases rule: Enqueue_cases; auto simp: job_effect_def queue_inv_def insert_ignore_keys)+

lemma Enqueue_inv:
  assumes "queue_inv db" "Enqueue now event db = Inr (b, db')"
  shows "queue_inv db'"
proof -
  have "jobs_ok (sd_jobs db')" using liq_step_refines [OF liq_enqueue [OF assms(2)]] assms(1) by (simp add: queue_inv_def)
  with assms show ?thesis by (cases rule: Enqueue_cases [OF assms(2)]) (auto simp: queue_inv_def insert_ignore_keys)
qed

lemma Enqueue_again: "job_effect (ev_eventId event) db \<Longrightarrow> snd (transact (Enqueue now event) db) = db"
  by (auto simp: transact_def dest: Enqueue_effect(3) split: sum.splits)

text \<open>The other statements keep the events of the jobs and the marks.\<close>

lemma statement_ids:
  "Claim now locked c w d db = Inr (j, db') \<Longrightarrow> map jr_source_event_id (sd_jobs db') = map jr_source_event_id (sd_jobs db)"
  "liq_Submit now job sub wallet db = (b, db') \<Longrightarrow> map jr_source_event_id (sd_jobs db') = map jr_source_event_id (sd_jobs db)"
  "Invalidate now job reason db = (b, db') \<Longrightarrow> map jr_source_event_id (sd_jobs db') = map jr_source_event_id (sd_jobs db)"
  "InvalidateNonCanonical c db = (n, db') \<Longrightarrow> map jr_source_event_id (sd_jobs db') = map jr_source_event_id (sd_jobs db)"
  "ReconcileSubmittedWithStats db = (s, db') \<Longrightarrow> map jr_source_event_id (sd_jobs db') = map jr_source_event_id (sd_jobs db)"
  by (auto simp: Claim_def expire_row_def claimed_row_def liq_Submit_def Invalidate_def InvalidateNonCanonical_def
    ReconcileSubmittedWithStats_def Let_def res_simps split: option.splits if_splits)

lemma statement_marks:
  "Claim now locked c w d db = Inr (j, db') \<Longrightarrow> sd_processed db' = sd_processed db"
  "liq_Submit now job sub wallet db = (b, db') \<Longrightarrow> sd_processed db' = sd_processed db"
  "Invalidate now job reason db = (b, db') \<Longrightarrow> sd_processed db' = sd_processed db"
  "InvalidateNonCanonical c db = (n, db') \<Longrightarrow> sd_processed db' = sd_processed db"
  "ReconcileSubmittedWithStats db = (s, db') \<Longrightarrow> sd_processed db' = sd_processed db"
  by (auto simp: Claim_def liq_Submit_def Invalidate_def InvalidateNonCanonical_def ReconcileSubmittedWithStats_def Let_def
    res_simps split: option.splits if_splits)

lemma same_effect:
  assumes "map jr_source_event_id (sd_jobs db') = map jr_source_event_id (sd_jobs db)" "sd_processed db' = sd_processed db"
  shows "job_effect i db' = job_effect i db" "jobs_ok (sd_jobs db') \<Longrightarrow> queue_inv db \<Longrightarrow> queue_inv db'"
  using assms(2) arg_cong [OF assms(1), of set, unfolded set_map] by (simp_all add: job_effect_def queue_inv_def)

lemma effect_work: "others_keep (job_effect i) (lv_env sv) \<Longrightarrow> keeps (\<lambda>w. job_effect i (wk_db w)) (work sv queued)"
  by (rule keeps_queue_work) (simp_all add: same_effect(1) [OF statement_ids(1) statement_marks(1)]
    same_effect(1) [OF statement_ids(2) statement_marks(2)] same_effect(1) [OF statement_ids(3) statement_marks(3)]
    same_effect(1) [OF statement_ids(4) statement_marks(4)] same_effect(1) [OF statement_ids(5) statement_marks(5)])

lemma queue_inv_step:
  assumes "queue_inv db" "liq_step now db db'" "map jr_source_event_id (sd_jobs db') = map jr_source_event_id (sd_jobs db)"
    "sd_processed db' = sd_processed db"
  shows "queue_inv db'"
  using same_effect(2) [OF assms(3,4)] liq_step_refines [OF assms(2)] assms(1) by (simp add: queue_inv_def)

lemma inv_work: "others_keep queue_inv (lv_env sv) \<Longrightarrow> keeps (\<lambda>w. queue_inv (wk_db w)) (work sv queued)"
  by (rule keeps_queue_work)
    (blast intro: queue_inv_step statement_ids statement_marks liq_claim liq_stale liq_invalidate liq_reconcile liq_submit)+

interpretation liq_consumer: idempotent_consumer "lv_env sv" "enqueue sv" queue_inv job_effect for sv
proof
  show "valid (\<lambda>w. queue_inv (wk_db w)) (enqueue sv event)
      (\<lambda>_ w. queue_inv (wk_db w) \<and> job_effect (ev_eventId event) (wk_db w)) (\<lambda>_ w. queue_inv (wk_db w))"
    if "others_keep queue_inv (lv_env sv)" for event
    unfolding enqueue_def by (intro valid_on_db that valid_transact) (simp_all add: Enqueue_inv Enqueue_effect(2))
  show "keeps (\<lambda>w. job_effect i (wk_db w)) (enqueue sv event)" if "others_keep (job_effect i) (lv_env sv)" for i event
    unfolding enqueue_def
    by (intro keeps_on_db that keeps_transact) (rule Enqueue_effect(1))
  show "quiet (enqueue sv event)" for event unfolding enqueue_def by (simp add: quiet_parts)
  show "keeps (\<lambda>w. P (wk_db w) \<and> job_effect (ev_eventId event) (wk_db w)) (enqueue sv event)"
    if "others_keep P (lv_env sv)" "others_keep (job_effect (ev_eventId event)) (lv_env sv)" for P event
    unfolding enqueue_def
    by (rule keeps_on_db [OF others_keep_conj [OF that]], rule keeps_transact)
      (use Enqueue_effect(3) in blast)
qed

lemma acked_liquidator_round:
  assumes "others_keep queue_inv (lv_env sv)" "\<forall>i. others_keep (job_effect i) (lv_env sv)"
  shows "keeps liq_consumer.acked_done (liquidator_round sv)"
  unfolding liquidator_round_def receive_def
proof (intro keeps_bindp)
  show "keeps liq_consumer.acked_done (Fetch (lv_env sv) :: (LiquidatorWorld, _) prog)"
    by (rule liq_consumer.keeps_acked) (simp_all add: keeps_Fetch quiet_parts)
  show "keeps liq_consumer.acked_done (consume (lv_env sv) (enqueue sv) message)" for message
    by (rule liq_consumer.acked_consume) (use assms in blast)+
  show "keeps liq_consumer.acked_done (work sv queued)" for queued
    by (rule liq_consumer.keeps_acked) (use inv_work effect_work quiet_work assms in blast)+
qed (rule keeps_ret)

section \<open>Properties\<close>

text \<open>The liquidator never queues a transaction that is not justified. Whatever the broker delivers, the
  clock shows, the node answers and the other services and workers write, as long as they keep the same
  invariant, after any number of rounds (those that throw included) the queue of jobs is well formed and
  each transaction queued for a liquidation goes to the liquidation manager, was worth sending when it
  was queued, and, when the transaction manager reads it, is approved by the manager's policy.\<close>

theorem liquidator_loop_safe:
  assumes "lv_chain sv = RpcLiquidationChain (lv_keccak sv) client contracts"
    and "others_keep (service_ok (lv_keccak sv) client contracts (lv_config sv)) (lv_env sv)"
    and "service_ok (lv_keccak sv) client contracts (lv_config sv) (wk_db w)"
    and "\<forall>x. length (lv_keccak sv x) = 32" "length (lt_weth contracts) = 20" "length (lt_usdc contracts) = 20"
    and "length (lg_liquidationManager (lv_config sv)) = 20"
    and "set (approved_calls (lv_keccak sv) (lt_oracle contracts) (lg_liquidationManager (lv_config sv))) \<subseteq> set (cf_approvedCalls (tm_config tm))"
  shows "jobs_ok (sd_jobs (wk_db (liquidator_loop n sv w))) \<and>
    (\<forall>r \<in> set (sd_tx (wk_db (liquidator_loop n sv w))). liquidation_tx r \<longrightarrow>
       tx_justified (lv_keccak sv) client contracts (lv_config sv) r \<and> (\<forall>job. ParseJob r = Inr job \<longrightarrow> IsApproved tm job))"
proof -
  have "service_ok (lv_keccak sv) client contracts (lv_config sv) (wk_db (liquidator_loop n sv w))"
    unfolding liquidator_loop_def using keeps_service_loop [OF service_ok_round [OF assms(1,2)]] assms(3) .
  then show ?thesis using justified_approved [OF _ _ assms(4-8)] by (auto simp: service_ok_def)
qed

text \<open>C8. No event is lost and none is taken twice. Whatever the broker does with the acknowledgements, how
  often it delivers an event, and how the rounds end, the liquidator acknowledges an event only when the
  table holds a job for it, exactly one, and a further delivery of the event changes nothing.\<close>

theorem liquidator_exactly_once:
  assumes "others_keep queue_inv (lv_env sv)" "\<forall>i. others_keep (job_effect i) (lv_env sv)"
    and "queue_inv (wk_db w)" "wk_acked w = []" "i \<in> set (wk_acked (liquidator_loop n sv w))"
  shows "(\<exists>!r. r \<in> set (sd_jobs (wk_db (liquidator_loop n sv w))) \<and> jr_source_event_id r = i) \<and>
    (\<forall>event now. ev_eventId event = i \<longrightarrow>
       snd (transact (Enqueue now event) (wk_db (liquidator_loop n sv w))) = wk_db (liquidator_loop n sv w))"
proof -
  let ?db = "wk_db (liquidator_loop n sv w)"
  have "liq_consumer.acked_done (liquidator_loop n sv w)"
    unfolding liquidator_loop_def using keeps_service_loop [OF acked_liquidator_round [OF assms(1,2)]] assms(3,4)
    by (simp add: liq_consumer.acked_done_def)
  then have held: "queue_inv ?db" "job_effect i ?db" using assms(5) by (simp_all add: liq_consumer.acked_done_def)
  then show ?thesis using one_job [OF held] Enqueue_again by blast
qed

section \<open>A service\<close>

definition demo_service :: LiquidatorService where
  "demo_service = \<lparr>lv_env = \<lparr>en_message = (\<lambda>n. if n = 0 then Inr (Some (Serialize (candidate_event 5 demo_candidate_sent))) else Inr None),
       en_ack = (\<lambda>_. Inl (Runtime_Error ''Timeout'')), en_now = (\<lambda>n. 99 + n), en_steady = (\<lambda>n. n), en_locked = (\<lambda>_. {}), en_others = (\<lambda>_ db. db)\<rparr>,
     lv_chain = RpcLiquidationChain demo_hash demo_liq demo_contracts, lv_config = demo_config, lv_keccak = demo_hash, lv_chainId = 31337,
     lv_workerId = ''w1'', lv_leaseDuration = 30\<rparr>"

lemma demo_others: "others_keep P (lv_env demo_service)"
  by (simp add: others_keep_def demo_service_def)

text \<open>A round without a message that claims a job, prepares it and submits it.\<close>

definition demo_due :: LiquidationJobRow where
  "demo_due = demo_job_row\<lparr>jr_borrower := Address_ToHex (replicate 20 9) True\<rparr>"

definition demo_due_job :: LiquidationJob where
  "demo_due_job = \<lparr>lj_jobId = RiskEventId demo_candidate_sent, lj_candidate = demo_candidate_sent\<lparr>lc_borrower := replicate 20 9\<rparr>,
     lj_workerId = ''w1'', lj_fencingToken = 1\<rparr>"

definition demo_due_claimed :: LiquidationJobRow where
  "demo_due_claimed = demo_due\<lparr>jr_status := ''Claimed'', jr_worker_id := Some ''w1'', jr_lease_until := Some 132, jr_fencing_token := 1\<rparr>"

definition demo_working :: LiquidatorWorld where
  "demo_working = \<lparr>wk_db = demo_queue\<lparr>sd_jobs := [demo_due]\<rparr>, wk_ticks = 1, wk_acked = [], wk_requests = 1\<rparr>"

definition demo_tx_row :: TxJobRow where
  "demo_tx_row = submission_row 103 (''liquidation-tx:'' @ RiskEventId demo_candidate_sent) demo_due_job
     \<lparr>sb_destination = replicate 20 6, sb_data = demo_calldata demo_hash, sb_value = 0\<rparr> (replicate 20 7)"

lemmas demo_due_defs = demo_due_def demo_due_job_def demo_due_claimed_def demo_job_row_def

lemma demo_due_claim:
  "Claim 102 {} 31337 ''w1'' 30 (demo_queue\<lparr>sd_jobs := [demo_due]\<rparr>) =
     Inr (Some demo_due_job, demo_queue\<lparr>sd_jobs := [demo_due_claimed]\<rparr>)"
proof -
  have row: "expire_row (ToDecimal 31337) 102 demo_due = demo_due" "claimable (ToDecimal 31337) {} demo_due"
    "claimed_row 102 ''w1'' 30 demo_due = demo_due_claimed" "jr_fencing_token demo_due = 0"
    by (simp_all add: expire_row_def claimable_def claimed_row_def demo_due_defs)
  have "Address_FromHex (Address_ToHex a True) = Inr a" if "length a = 20" for a using that by (rule Address_FromHex_ToHex)
  then have "liq_ParseJob demo_due_claimed = Inr demo_due_job"
    by (simp add: liq_ParseJob_def demo_due_defs FromDecimal_ToDecimal liq_ParseHash_def ParseHash_Encode demo_candidate_sent_def)
  then show ?thesis by (simp add: Claim_def Let_def next_job_def row)
qed

lemma demo_due_canonical: "InvalidateNonCanonical 31337 (demo_queue\<lparr>sd_jobs := [demo_due]\<rparr>) = (0, demo_queue\<lparr>sd_jobs := [demo_due]\<rparr>)"
  by (simp add: InvalidateNonCanonical_def canonical_source_def demo_queue_def demo_due_defs)

lemma demo_due_submit:
  "\<exists>rows. liq_Submit 103 demo_due_job \<lparr>sb_destination = replicate 20 6, sb_data = demo_calldata demo_hash, sb_value = 0\<rparr> (replicate 20 7)
     (demo_queue\<lparr>sd_jobs := [demo_due_claimed]\<rparr>) = (True, demo_queue\<lparr>sd_jobs := rows, sd_tx := [demo_tx_row]\<rparr>)"
proof -
  have "holds_claim 103 demo_due_job demo_due_claimed" "canonical_source (db_blocks demo_queue) demo_due_claimed"
    "lj_jobId demo_due_job = RiskEventId demo_candidate_sent"
    by (simp_all add: holds_claim_def canonical_source_def demo_due_defs demo_queue_def)
  then show ?thesis
    by (simp add: liq_Submit_def Let_def insert_ignore_def demo_tx_row_def) (simp add: demo_queue_def empty_services_def)
qed

lemma demo_working_round: "sd_tx (wk_db (liquidator_loop 1 demo_service demo_working)) = [demo_tx_row]"
proof -
  obtain rows where submit: "liq_Submit 103 demo_due_job \<lparr>sb_destination = replicate 20 6, sb_data = demo_calldata demo_hash, sb_value = 0\<rparr>
     (replicate 20 7) (demo_queue\<lparr>sd_jobs := [demo_due_claimed]\<rparr>) = (True, demo_queue\<lparr>sd_jobs := rows, sd_tx := [demo_tx_row]\<rparr>)"
    using demo_due_submit by blast
  have prepare: "Prepare demo_hash (RpcLiquidationChain demo_hash demo_liq demo_contracts) demo_config (lj_candidate demo_due_job) 1 =
     (Inr (Some \<lparr>sb_destination = replicate 20 6, sb_data = demo_calldata demo_hash, sb_value = 0\<rparr>), 12)"
    by (rule demo_prepare) (simp add: demo_due_job_def)
  have sv: "lv_env demo_service = \<lparr>en_message = (\<lambda>n. if n = 0 then Inr (Some (Serialize (candidate_event 5 demo_candidate_sent))) else Inr None),
       en_ack = (\<lambda>_. Inl (Runtime_Error ''Timeout'')), en_now = (\<lambda>n. 99 + n), en_steady = (\<lambda>n. n), en_locked = (\<lambda>_. {}), en_others = (\<lambda>_ db. db)\<rparr>"
    "lv_chain demo_service = RpcLiquidationChain demo_hash demo_liq demo_contracts" "lv_config demo_service = demo_config"
    "lv_keccak demo_service = demo_hash" "lv_chainId demo_service = 31337" "lv_workerId demo_service = ''w1''"
    "lv_leaseDuration demo_service = 30" "lg_operatorAddress demo_config = replicate 20 7"
    by (simp_all add: demo_service_def demo_config_def)
  have "receive demo_service demo_working = (Inr False, demo_working\<lparr>wk_ticks := 2\<rparr>)"
    by (simp add: receive_def bindp_def Fetch_def consume_def ret_def sv demo_working_def)
  moreover have "work_on demo_service demo_due_job (demo_working\<lparr>wk_db := demo_queue\<lparr>sd_jobs := [demo_due_claimed]\<rparr>, wk_ticks := 4\<rparr>) =
      (Inr (True, 0), demo_working\<lparr>wk_db := demo_queue\<lparr>sd_jobs := rows, sd_tx := [demo_tx_row]\<rparr>, wk_ticks := 5, wk_requests := 12\<rparr>)"
    by (simp add: work_on_def bindp_def on_chain_def on_db_def always_def ret_def sv prepare [unfolded One_nat_def] submit demo_working_def)
  ultimately show ?thesis
    by (simp add: liquidator_loop_def liquidator_round_def work_def bindp_def on_db_def always_def transact_def ret_def sv
      demo_due_canonical demo_due_claim demo_working_def ReconcileSubmittedWithStats_def)
qed

lemma demo_tx: "liquidation_tx demo_tx_row"
  by (simp add: liquidation_tx_def demo_tx_row_def submission_row_def)

lemma demo_tx_parse: "\<exists>job. ParseJob demo_tx_row = Inr job"
proof -
  have "numeric_field 0 = Inr 0" using numeric_field_unat [of 0] by simp
  then show ?thesis
    by (simp add: ParseJob_def demo_tx_row_def submission_row_def Address_FromHex_ToHex Hex_Decode_Encode OptionalField_def
      TxStatusFromString_def)
qed

theorem liquidator_loop_safe_witness:
  "\<exists>job. sd_tx (wk_db (liquidator_loop 1 demo_service demo_working)) = [demo_tx_row] \<and> liquidation_tx demo_tx_row \<and>
     tx_justified demo_hash demo_liq demo_contracts demo_config demo_tx_row \<and>
     ParseJob demo_tx_row = Inr job \<and> IsApproved demo_sender job"
proof -
  have sv: "lv_chain demo_service = RpcLiquidationChain (lv_keccak demo_service) demo_liq demo_contracts"
    "lv_keccak demo_service = demo_hash" "lv_config demo_service = demo_config" by (simp_all add: demo_service_def)
  have "\<forall>x. length (lv_keccak demo_service x) = 32" by (auto simp: sv demo_hash_def min_def)
  moreover have "service_ok (lv_keccak demo_service) demo_liq demo_contracts (lv_config demo_service) (wk_db demo_working)"
    by (simp add: service_ok_def demo_working_def demo_queue_def empty_services_def jobs_ok_def demo_due_defs)
  moreover have "length (lt_weth demo_contracts) = 20" "length (lt_usdc demo_contracts) = 20"
    "length (lg_liquidationManager (lv_config demo_service)) = 20"
    "set (approved_calls (lv_keccak demo_service) (lt_oracle demo_contracts) (lg_liquidationManager (lv_config demo_service))) \<subseteq>
      set (cf_approvedCalls (tm_config demo_sender))"
    by (simp_all add: sv demo_contracts_def demo_config_def demo_sender_def)
  ultimately have safe: "jobs_ok (sd_jobs (wk_db (liquidator_loop 1 demo_service demo_working))) \<and>
    (\<forall>r \<in> set (sd_tx (wk_db (liquidator_loop 1 demo_service demo_working))). liquidation_tx r \<longrightarrow>
       tx_justified (lv_keccak demo_service) demo_liq demo_contracts (lv_config demo_service) r \<and>
       (\<forall>job. ParseJob r = Inr job \<longrightarrow> IsApproved demo_sender job))"
    using liquidator_loop_safe [OF sv(1) demo_others, of demo_working demo_sender 1] by blast
  from safe demo_tx demo_working_round demo_tx_parse show ?thesis by (auto simp: sv)
qed

text \<open>The acknowledgement of the first event is not confirmed.\<close>

definition demo_first :: LiquidatorWorld where
  "demo_first = \<lparr>wk_db = demo_queue\<lparr>sd_processed := [], sd_jobs := []\<rparr>, wk_ticks = 0, wk_acked = [], wk_requests = 1\<rparr>"

lemma demo_first_round: "wk_acked (liquidator_loop 1 demo_service demo_first) = [RiskEventId demo_candidate_sent]"
proof -
  let ?e = "candidate_event 5 demo_candidate_sent"
  have "Deserialize (Serialize ?e) = Inr ?e"
    by (rule event_codec.dec_enc) (simp add: event_fits_def candidate_event_def demo_candidate_sent_def)
  then have "Fetch (lv_env demo_service) demo_first = (Inr (Some ?e), demo_first\<lparr>wk_ticks := 1\<rparr>)"
    by (simp add: Fetch_def demo_service_def demo_first_def)
  moreover have "enqueue demo_service ?e (demo_first\<lparr>wk_ticks := 1\<rparr>) = (Inr True, demo_first\<lparr>wk_db := demo_queue, wk_ticks := 2\<rparr>)"
    using demo_enqueue by (simp add: enqueue_def on_db_def transact_def demo_service_def demo_first_def numeral_2_eq_2)
  moreover have "Ack (lv_env demo_service) ?e (demo_first\<lparr>wk_db := demo_queue, wk_ticks := 2\<rparr>) =
      (Inl (Runtime_Error ''Timeout''), demo_first\<lparr>wk_db := demo_queue, wk_ticks := 3, wk_acked := [RiskEventId demo_candidate_sent]\<rparr>)"
    by (simp add: Ack_def demo_service_def demo_first_def candidate_event_def)
  ultimately have "liquidator_round demo_service demo_first = (Inl (Runtime_Error ''Timeout''),
      demo_first\<lparr>wk_db := demo_queue, wk_ticks := 3, wk_acked := [RiskEventId demo_candidate_sent]\<rparr>)"
    by (simp add: liquidator_round_def receive_def consume_def bindp_simps)
  then show ?thesis by (simp add: liquidator_loop_def)
qed

theorem liquidator_exactly_once_witness:
  "\<exists>!r. r \<in> set (sd_jobs (wk_db (liquidator_loop 1 demo_service demo_first))) \<and>
     jr_source_event_id r = RiskEventId demo_candidate_sent"
proof -
  have "queue_inv (wk_db demo_first)" by (simp add: queue_inv_def demo_first_def jobs_ok_def)
  moreover have "wk_acked demo_first = []" by (simp add: demo_first_def)
  ultimately show ?thesis
    using liquidator_exactly_once [of demo_service demo_first "RiskEventId demo_candidate_sent" 1] demo_others demo_first_round by simp
qed

end
