(* ===== verification/System.thy ===== *)
theory System
  imports Risk_Safety Liquidator_Safety Indexer_Properties
begin

text \<open>
  The services together, on the database that they share. A history is a sequence of states in which
  each is reached from the one before by one transaction of one of the services: the indexer commits a
  block or rewinds, the publisher marks an event, the risk worker commits a scan of what it read earlier,
  the liquidator queues an event that was announced, claims, submits, invalidates or reconciles, the
  transaction manager saves a job, and the oracle coordinator queues a transaction of its own. The
  theorems trace every job and every liquidation transaction back to a position that was liquidatable.
\<close>

section \<open>Transactions\<close>

definition index_part :: "ServiceDb \<Rightarrow> IndexerDb" where
  "index_part db = \<lparr>db_blocks = db_blocks db, db_logs = db_logs db, db_sync = db_sync db, db_positions = db_positions db,
     db_markets = db_markets db, db_liquidations = db_liquidations db, db_versions = db_versions db, db_outbox = db_outbox db\<rparr>"

definition with_index :: "IndexerDb \<Rightarrow> ServiceDb \<Rightarrow> ServiceDb" where
  "with_index idx db = db\<lparr>db_blocks := db_blocks idx, db_logs := db_logs idx, db_sync := db_sync idx, db_positions := db_positions idx,
     db_markets := db_markets idx, db_liquidations := db_liquidations idx, db_versions := db_versions idx, db_outbox := db_outbox idx\<rparr>"

text \<open>What the broker can deliver to the liquidator: events of its subject that are or were in the outbox.\<close>

definition deliverable :: "ServiceDb set \<Rightarrow> EventEnvelope \<Rightarrow> bool" where
  "deliverable past event \<longleftrightarrow> (\<exists>db \<in> past. \<exists>row \<in> set (db_outbox db). \<exists>created.
     ob_event_type row = RISK_LIQUIDATION_DETECTED \<and> ParseEvent (entry_of created row) = Inr event)"

record Setting =
  se_risk :: RiskService
  se_keccak :: "bytes \<Rightarrow> hash256"
  se_client :: RpcClient
  se_contracts :: LiquidationContracts
  se_config :: LiquidatorConfig

text \<open>The transactions of one service alone, and those that move an event: marking it in the outbox after it was sent,
  and queueing what the broker delivered.\<close>

inductive service_step :: "Setting \<Rightarrow> ServiceDb set \<Rightarrow> ServiceDb \<Rightarrow> ServiceDb \<Rightarrow> bool" for se past where
  sys_commit: "pg_CommitBlock (index_part db) b logs s = Inr idx \<Longrightarrow> service_step se past db (with_index idx db)"
| sys_rewind: "pg_RewindTo (index_part db) cid ancestor s = Inr idx \<Longrightarrow> service_step se past db (with_index idx db)"
| sys_scan: "scan_of (se_risk se) (\<lambda>db. db \<in> past) scan \<Longrightarrow> CommitScan i (candidates scan) db = Inr (b, db') \<Longrightarrow> service_step se past db db'"
| sys_claim: "Claim now locked c w d db = Inr (j, db') \<Longrightarrow> service_step se past db db'"
| sys_submit: "Prepare (se_keccak se) (RpcLiquidationChain (se_keccak se) (se_client se) (se_contracts se)) (se_config se)
      (lj_candidate job) s = (Inr (Some sub), s') \<Longrightarrow> length (lc_borrower (lj_candidate job)) = 20 \<Longrightarrow>
    liq_Submit now job sub wallet db = (b, db') \<Longrightarrow> service_step se past db db'"
| sys_invalidate: "Invalidate now job reason db = (b, db') \<Longrightarrow> service_step se past db db'"
| sys_stale: "InvalidateNonCanonical c db = (n, db') \<Longrightarrow> service_step se past db db'"
| sys_reconcile: "ReconcileSubmittedWithStats db = (r, db') \<Longrightarrow> service_step se past db db'"
| sys_save: "tx_Save tx (sd_tx db) = Inr rows \<Longrightarrow> service_step se past db (db\<lparr>sd_tx := rows\<rparr>)"
| sys_queue: "tx_Insert now tx (sd_tx db) = (b, rows) \<Longrightarrow> take 15 (tj_jobId tx) \<noteq> ''liquidation-tx:'' \<Longrightarrow>
    service_step se past db (db\<lparr>sd_tx := rows\<rparr>)"

inductive sys_step :: "Setting \<Rightarrow> ServiceDb set \<Rightarrow> ServiceDb \<Rightarrow> ServiceDb \<Rightarrow> bool" for se past where
  sys_own: "service_step se past db db' \<Longrightarrow> sys_step se past db db'"
| sys_publish: "sys_step se past db (db\<lparr>db_outbox := MarkPublished i (db_outbox db)\<rparr>)"
| sys_enqueue: "deliverable past event \<Longrightarrow> Enqueue now event db = Inr (b, db') \<Longrightarrow> sys_step se past db db'"

inductive history :: "Setting \<Rightarrow> ServiceDb list \<Rightarrow> bool" for se where
  hist_start: "sd_processed db = [] \<Longrightarrow> sd_jobs db = [] \<Longrightarrow> sd_tx db = [] \<Longrightarrow> db_outbox db = [] \<Longrightarrow> history se [db]"
| hist_step: "history se (db # past) \<Longrightarrow> sys_step se (set (db # past)) db db' \<Longrightarrow> history se (db' # db # past)"

section \<open>What a job offers\<close>

text \<open>The columns of a job that no statement changes after it was queued.\<close>

definition offer :: "LiquidationJobRow \<Rightarrow> LiquidationJobRow" where
  "offer r = r\<lparr>jr_status := ''Available'', jr_worker_id := None, jr_lease_until := None, jr_fencing_token := 0,
     jr_tx_job_id := None, jr_error := None, jr_created_at := 0\<rparr>"

lemma offer_event: "jr_source_event_id (offer r) = jr_source_event_id r" "jr_job_id (offer r) = jr_job_id r"
  by (simp_all add: offer_def)

lemma statement_offers:
  "Claim now locked c w d db = Inr (j, db') \<Longrightarrow> map offer (sd_jobs db') = map offer (sd_jobs db)"
  "liq_Submit now job sub wallet db = (b, db') \<Longrightarrow> map offer (sd_jobs db') = map offer (sd_jobs db)"
  "Invalidate now job reason db = (b, db') \<Longrightarrow> map offer (sd_jobs db') = map offer (sd_jobs db)"
  "InvalidateNonCanonical c db = (n, db') \<Longrightarrow> map offer (sd_jobs db') = map offer (sd_jobs db)"
  "ReconcileSubmittedWithStats db = (s, db') \<Longrightarrow> map offer (sd_jobs db') = map offer (sd_jobs db)"
  by (auto simp: Claim_def expire_row_def claimed_row_def liq_Submit_def Invalidate_def InvalidateNonCanonical_def
    ReconcileSubmittedWithStats_def offer_def Let_def res_simps split: option.splits if_splits)

lemma job_row_offer: "job_row now i c = Inr r \<Longrightarrow> job_row 0 (jr_source_event_id r) c = Inr (offer r)"
  by (auto simp: job_row_def offer_def elim!: bind_resE)

section \<open>The invariant\<close>

definition job_from :: "RiskService \<Rightarrow> ServiceDb set \<Rightarrow> LiquidationJobRow \<Rightarrow> bool" where
  "job_from sv past r \<longleftrightarrow> (\<exists>c. candidate_found sv (\<lambda>db. db \<in> past) c \<and> job_row 0 (jr_source_event_id r) c = Inr (offer r))"

definition events_ok :: "Setting \<Rightarrow> ServiceDb set \<Rightarrow> ServiceDb \<Rightarrow> bool" where
  "events_ok se past db \<longleftrightarrow> (\<forall>row \<in> set (db_outbox db). ob_event_type row = RISK_LIQUIDATION_DETECTED \<longrightarrow>
     announced (se_risk se) (\<lambda>db. db \<in> past) row)"

definition job_tx :: "LiquidationJobRow \<Rightarrow> string" where
  "job_tx r = ''liquidation-tx:'' @ jr_job_id r"

lemma job_tx_offer: "job_tx (offer r) = job_tx r"
  unfolding job_tx_def offer_event by (rule refl)

definition txs_ok :: "Setting \<Rightarrow> ServiceDb \<Rightarrow> bool" where
  "txs_ok se db \<longleftrightarrow> distinct (map tr_job_id (sd_tx db)) \<and> (\<forall>t \<in> set (sd_tx db). liquidation_tx t \<longrightarrow>
     tr_job_id t \<in> job_tx ` set (sd_jobs db) \<and>
     tx_justified (se_keccak se) (se_client se) (se_contracts se) (se_config se) t)"

definition state_ok :: "Setting \<Rightarrow> ServiceDb set \<Rightarrow> ServiceDb \<Rightarrow> bool" where
  "state_ok se past db \<longleftrightarrow> queue_inv db \<and> events_ok se past db \<and> txs_ok se db \<and> (\<forall>r \<in> set (sd_jobs db). job_from (se_risk se) past r)"

lemma candidate_found_mono: "candidate_found sv P c \<Longrightarrow> (\<And>db. P db \<Longrightarrow> Q db) \<Longrightarrow> candidate_found sv Q c"
  unfolding candidate_found_def by metis

lemma state_ok_mono: "state_ok se past db \<Longrightarrow> past \<subseteq> past' \<Longrightarrow> state_ok se past' db"
  unfolding state_ok_def events_ok_def job_from_def announced_def using candidate_found_mono by (metis (no_types, lifting) subsetD)

lemma offers_kept:
  assumes "map offer (sd_jobs db') = map offer (sd_jobs db)"
  shows "(\<forall>r \<in> set (sd_jobs db'). job_from sv past r) \<longleftrightarrow> (\<forall>r \<in> set (sd_jobs db). job_from sv past r)"
    "job_tx ` set (sd_jobs db') = job_tx ` set (sd_jobs db)"
proof -
  have "job_from sv past r \<longleftrightarrow> job_from sv past (offer r)" for r by (simp add: job_from_def offer_def)
  moreover have "offer ` set (sd_jobs db') = offer ` set (sd_jobs db)" using arg_cong [OF assms, of set] by simp
  ultimately show "(\<forall>r \<in> set (sd_jobs db'). job_from sv past r) \<longleftrightarrow> (\<forall>r \<in> set (sd_jobs db). job_from sv past r)"
    by (metis (no_types, opaque_lifting) image_iff)
  have "map job_tx (map offer (sd_jobs db')) = map job_tx (map offer (sd_jobs db))" using assms by simp
  then have "map job_tx (sd_jobs db') = map job_tx (sd_jobs db)" by (simp add: job_tx_offer comp_def)
  then show "job_tx ` set (sd_jobs db') = job_tx ` set (sd_jobs db)" by (metis set_map)
qed

text \<open>The statements of the queue that leave the other tables alone.\<close>

lemma state_ok_queue:
  assumes "state_ok se past db" "queue_inv db'" "map offer (sd_jobs db') = map offer (sd_jobs db)"
    and "sd_tx db' = sd_tx db" "db_outbox db' = db_outbox db"
  shows "state_ok se past db'"
  using assms offers_kept [OF assms(3)] by (simp add: state_ok_def events_ok_def txs_ok_def)

lemma statement_rest:
  "Claim now locked c w d db = Inr (j, db') \<Longrightarrow> sd_tx db' = sd_tx db \<and> db_outbox db' = db_outbox db"
  "Invalidate now job reason db = (b, db') \<Longrightarrow> sd_tx db' = sd_tx db \<and> db_outbox db' = db_outbox db"
  "InvalidateNonCanonical c db = (n, db') \<Longrightarrow> sd_tx db' = sd_tx db \<and> db_outbox db' = db_outbox db"
  "ReconcileSubmittedWithStats db = (s, db') \<Longrightarrow> sd_tx db' = sd_tx db \<and> db_outbox db' = db_outbox db"
  by (auto simp: Claim_def Invalidate_def InvalidateNonCanonical_def ReconcileSubmittedWithStats_def Let_def res_simps
    split: option.splits if_splits)

lemma state_ok_statements:
  assumes "state_ok se past db"
  shows "Claim now locked c w d db = Inr (j, db') \<Longrightarrow> state_ok se past db'"
    "Invalidate now job reason db = (b, db') \<Longrightarrow> state_ok se past db'"
    "InvalidateNonCanonical c db = (n, db') \<Longrightarrow> state_ok se past db'"
    "ReconcileSubmittedWithStats db = (s, db') \<Longrightarrow> state_ok se past db'"
proof -
  have inv: "queue_inv db" using assms by (simp add: state_ok_def)
  show "Claim now locked c w d db = Inr (j, db') \<Longrightarrow> state_ok se past db'"
    by (rule state_ok_queue [OF assms])
      (simp_all add: queue_inv_step [OF inv liq_claim statement_ids(1) statement_marks(1)] statement_offers(1) statement_rest(1))
  show "Invalidate now job reason db = (b, db') \<Longrightarrow> state_ok se past db'"
    by (rule state_ok_queue [OF assms])
      (simp_all add: queue_inv_step [OF inv liq_invalidate statement_ids(3) statement_marks(3)] statement_offers(3) statement_rest(2))
  show "InvalidateNonCanonical c db = (n, db') \<Longrightarrow> state_ok se past db'"
    by (rule state_ok_queue [OF assms])
      (simp_all add: queue_inv_step [OF inv liq_stale statement_ids(4) statement_marks(4)] statement_offers(4) statement_rest(3))
  show "ReconcileSubmittedWithStats db = (s, db') \<Longrightarrow> state_ok se past db'"
    by (rule state_ok_queue [OF assms])
      (simp_all add: queue_inv_step [OF inv liq_reconcile statement_ids(5) statement_marks(5)] statement_offers(5) statement_rest(4))
qed

section \<open>Each transaction keeps the invariant\<close>

lemma state_ok_index:
  assumes "state_ok se past db" "set (db_outbox idx) \<subseteq> insert row (set (db_outbox db))" "ob_event_type row \<noteq> RISK_LIQUIDATION_DETECTED"
  shows "state_ok se past (with_index idx db)"
  using assms by (auto simp: state_ok_def events_ok_def txs_ok_def queue_inv_def with_index_def)

lemma outbox_insert_subset: "set (outbox_insert r rows) \<subseteq> insert r (set rows)"
  by (auto simp: outbox_insert_def insert_ignore_def)

lemma state_ok_commit:
  assumes "state_ok se past db" "pg_CommitBlock (index_part db) b logs s = Inr idx"
  shows "state_ok se past (with_index idx db)"
  by (rule state_ok_index [OF assms(1)])
    (use CommitBlock_outbox [OF assms(2)] outbox_insert_subset in \<open>auto simp: index_part_def RISK_LIQUIDATION_DETECTED_def\<close>)

lemma state_ok_rewind:
  assumes "state_ok se past db" "pg_RewindTo (index_part db) cid ancestor s = Inr idx"
  shows "state_ok se past (with_index idx db)"
  by (rule state_ok_index [OF assms(1)])
    (use RewindTo_outbox [OF assms(2)] outbox_insert_subset in \<open>auto simp: index_part_def RISK_LIQUIDATION_DETECTED_def\<close>)

lemma state_ok_publish: "state_ok se past db \<Longrightarrow> state_ok se past (db\<lparr>db_outbox := MarkPublished i (db_outbox db)\<rparr>)"
  by (auto simp: state_ok_def events_ok_def txs_ok_def queue_inv_def MarkPublished_def announced_def split: if_splits)

lemma state_ok_scan:
  assumes "state_ok se past db" "scan_of (se_risk se) (\<lambda>db. db \<in> past) scan" "CommitScan i (candidates scan) db = Inr (b, db')"
  shows "state_ok se past db'"
  using assms(3)
proof (cases rule: CommitScan_cases)
  case (First outbox)
  have "announced (se_risk se) (\<lambda>db. db \<in> past) row" if "row \<in> set outbox" "ob_event_type row = RISK_LIQUIDATION_DETECTED" for row
  proof (cases "row \<in> set (db_outbox db)")
    case True
    with assms(1) that(2) show ?thesis by (simp add: state_ok_def events_ok_def)
  next
    case False
    from commit_rows [OF First(2) that(1) this] scan_announced [OF assms(2)] show ?thesis by blast
  qed
  with assms(1) First(3) show ?thesis by (simp add: state_ok_def events_ok_def txs_ok_def queue_inv_def)
qed (use assms(1) in simp)

lemma tx_rows_kept:
  assumes "tr_job_id t' = tr_job_id t" "tr_to t' = tr_to t" "tr_value t' = tr_value t" "tr_calldata t' = tr_calldata t"
  shows "liquidation_tx t' = liquidation_tx t" "tx_justified k cl cs cf t' = tx_justified k cl cs cf t"
  using assms by (simp_all add: liquidation_tx_def tx_justified_def)

lemma state_ok_save:
  assumes "state_ok se past db" "tx_Save tx (sd_tx db) = Inr rows"
  shows "state_ok se past (db\<lparr>sd_tx := rows\<rparr>)"
proof -
  have rows: "rows = map (\<lambda>r. if tr_job_id r = tj_jobId tx then saved_row tx r else r) (sd_tx db)"
    using assms(2) by (auto simp: tx_Save_def Let_def split: if_splits)
  have fields: "tr_job_id (saved_row tx t) = tr_job_id t" "tr_to (saved_row tx t) = tr_to t" "tr_value (saved_row tx t) = tr_value t"
    "tr_calldata (saved_row tx t) = tr_calldata t" for t by (simp_all add: saved_row_def)
  note kept = fields(1) tx_rows_kept [OF fields]
  have ids: "map tr_job_id rows = map tr_job_id (sd_tx db)" by (simp add: rows kept)
  have "\<exists>u \<in> set (sd_tx db). tr_job_id t = tr_job_id u \<and> liquidation_tx t = liquidation_tx u \<and>
      tx_justified k cl cs cf t = tx_justified k cl cs cf u" if "t \<in> set rows" for t k cl cs cf
  proof -
    from that obtain u where "u \<in> set (sd_tx db)" "t = (if tr_job_id u = tj_jobId tx then saved_row tx u else u)" by (auto simp: rows)
    then show ?thesis by (intro bexI [of _ u]) (simp_all add: kept)
  qed
  note old = this [where k = "se_keccak se" and cl = "se_client se" and cs = "se_contracts se" and cf = "se_config se"]
  have "txs_ok se (db\<lparr>sd_tx := rows\<rparr>)"
    unfolding txs_ok_def
  proof (intro conjI ballI impI)
    show "distinct (map tr_job_id (sd_tx (db\<lparr>sd_tx := rows\<rparr>)))" using ids assms(1) by (simp add: state_ok_def txs_ok_def)
    fix t assume t: "t \<in> set (sd_tx (db\<lparr>sd_tx := rows\<rparr>))" "liquidation_tx t"
    then obtain u where "u \<in> set (sd_tx db)" "tr_job_id t = tr_job_id u" "liquidation_tx u" and j:
      "tx_justified (se_keccak se) (se_client se) (se_contracts se) (se_config se) t =
       tx_justified (se_keccak se) (se_client se) (se_contracts se) (se_config se) u" using old [of t] by auto
    with assms(1) have "tr_job_id t \<in> job_tx ` set (sd_jobs db) \<and> tx_justified (se_keccak se) (se_client se) (se_contracts se) (se_config se) u"
      by (simp add: state_ok_def txs_ok_def)
    with j show "tr_job_id t \<in> job_tx ` set (sd_jobs (db\<lparr>sd_tx := rows\<rparr>))"
      "tx_justified (se_keccak se) (se_client se) (se_contracts se) (se_config se) t" by simp_all
  qed
  with assms(1) show ?thesis by (simp add: state_ok_def events_ok_def queue_inv_def)
qed

lemma state_ok_tx_insert:
  assumes "state_ok se past db" "rows = insert_ignore tr_job_id t (sd_tx db)"
    and "liquidation_tx t \<Longrightarrow> tr_job_id t \<in> job_tx ` set (sd_jobs db) \<and>
      tx_justified (se_keccak se) (se_client se) (se_contracts se) (se_config se) t"
  shows "state_ok se past (db\<lparr>sd_tx := rows\<rparr>)"
proof -
  have "set rows \<subseteq> insert t (set (sd_tx db))" using assms(2) by (auto simp: insert_ignore_def)
  moreover have "distinct (map tr_job_id rows)" using assms(1,2) distinct_insert_ignore by (auto simp: state_ok_def txs_ok_def)
  ultimately show ?thesis using assms(1,3) by (auto simp: state_ok_def events_ok_def txs_ok_def queue_inv_def)
qed

lemma state_ok_queue_tx:
  assumes "state_ok se past db" "tx_Insert now tx (sd_tx db) = (b, rows)" "take 15 (tj_jobId tx) \<noteq> ''liquidation-tx:''"
  shows "state_ok se past (db\<lparr>sd_tx := rows\<rparr>)"
  by (rule state_ok_tx_insert [OF assms(1), where t = "tx_row now tx"])
    (use assms(2,3) in \<open>auto simp: tx_Insert_def liquidation_tx_def tx_row_def\<close>)

lemma state_ok_submit:
  assumes "state_ok se past db" "liq_Submit now job sub wallet db = (b, db')" "length (lc_borrower (lj_candidate job)) = 20"
    and "Prepare (se_keccak se) (RpcLiquidationChain (se_keccak se) (se_client se) (se_contracts se)) (se_config se)
      (lj_candidate job) s = (Inr (Some sub), s')"
  shows "state_ok se past db'"
proof (cases b)
  case True
  define t where "t = submission_row now (''liquidation-tx:'' @ lj_jobId job) job sub wallet"
  define d where "d = db\<lparr>sd_tx := insert_ignore tr_job_id t (sd_tx db)\<rparr>"
  from assms(2) True have hit: "\<exists>r \<in> set (sd_jobs db). jr_job_id r = lj_jobId job"
    and db': "sd_tx db' = sd_tx d" "db_outbox db' = db_outbox d" "sd_jobs d = sd_jobs db"
    by (auto simp: liq_Submit_def Let_def list_ex_iff holds_claim_def t_def d_def split: if_splits)
  have "tr_job_id t = ''liquidation-tx:'' @ lj_jobId job" by (simp add: t_def submission_row_def)
  with hit have "tr_job_id t \<in> job_tx ` set (sd_jobs db)" by (metis imageI job_tx_def)
  moreover have "tx_justified (se_keccak se) (se_client se) (se_contracts se) (se_config se) t"
    using Prepare_worth [OF assms(4)] assms(3) by (auto simp: tx_justified_def submission_row_def t_def)
  ultimately have "state_ok se past d" unfolding d_def by (intro state_ok_tx_insert [OF assms(1) refl]) simp
  moreover have "queue_inv db'"
    using queue_inv_step [OF _ liq_submit [OF assms(2)] statement_ids(2) [OF assms(2)] statement_marks(2) [OF assms(2)]] assms(1)
    by (simp add: state_ok_def)
  ultimately show ?thesis by (rule state_ok_queue) (use db' statement_offers(2) [OF assms(2)] in simp_all)
qed (use assms in \<open>auto simp: liq_Submit_def Let_def split: if_splits\<close>)

text \<open>A candidate that was read from the tables has the lengths that its event needs.\<close>

lemma found_fields:
  assumes "EvaluateIndexed p market now = Inr risk" "BuildCandidate risk market None = Inr (Some c)"
  shows "lc_borrower c = ip_user p" "lc_debtAsset c = ms_usdc market" "lc_collateralAsset c = ms_weth market"
    "lc_blockHash c = ms_indexedBlockHash market"
proof -
  from assms(1) obtain debt where eval: "Evaluate \<lparr>pos_user = ip_user p, pos_wethCollateral = ip_wethCollateral p, pos_usdcDebt = debt\<rparr> market now = Inr risk"
    by (auto simp: EvaluateIndexed_def elim!: bind_resE)
  then have "pos_user (pr_position risk) = ip_user p" "pr_blockHash risk = ms_indexedBlockHash market"
    by (auto simp: Evaluate_def elim!: bind_resE split: if_splits)
  moreover note BuildCandidate_Some_rules(1) [OF BuildCandidate_Some_buildable [OF eval assms(2)] assms(2)]
  ultimately show "lc_borrower c = ip_user p" "lc_debtAsset c = ms_usdc market" "lc_collateralAsset c = ms_weth market"
    "lc_blockHash c = ms_indexedBlockHash market" by (simp_all add: candidate_matches_def Let_def)
qed

lemma found_fits:
  assumes "candidate_found sv P c" "candidate_row c = Inr row"
  shows "candidate_fits c"
proof -
  from assms(1) obtain db db' :: ServiceDb and market positions p now risk where found: "risk_LoadMarket db (rv_chainId sv) = Inr market"
    "risk_LoadPositions db' (rv_chainId sv) (rv_scanLimit sv) = Inr positions" "p \<in> set positions"
    "EvaluateIndexed p market now = Inr risk" "BuildCandidate risk market None = Inr (Some c)"
    unfolding candidate_found_def by blast
  have market: "length (ms_usdc market) = 20" "length (ms_weth market) = 20" "length (ms_indexedBlockHash market) = 32"
    using found(1) by (auto simp: risk_LoadMarket_def Let_def split: list.splits option.splits elim!: bind_resE)
      (assumption | erule Address_FromHex_length ParseHash_length)+
  obtain r where "risk_ParsePosition r = Inr p" using map_res_set [OF found(2) [unfolded risk_LoadPositions_def] found(3)] by blast
  then have "length (ip_user p) = 20" by (auto simp: risk_ParsePosition_def dest: Address_FromHex_length elim!: bind_resE)
  moreover have "unat (lc_blockNumber c) < 2 ^ 63" "0 < unat (lc_canonicalVersion c)" "unat (lc_canonicalVersion c) < 2 ^ 63"
    using assms(2) by (auto simp: candidate_row_def positive_bigint_def bigint_Inr unat_gt_0 split: if_splits elim!: bind_resE)
  ultimately show ?thesis using market by (simp add: candidate_fits_def found_fields [OF found(4,5)])
qed

lemma announced_event:
  assumes "announced sv P row" "ParseEvent (entry_of created row) = Inr event"
  shows "\<exists>c. candidate_found sv P c \<and> CandidateFromEvent event = Inr c"
proof -
  from assms(1) obtain c where c: "candidate_found sv P c" "candidate_row c = Inr (row\<lparr>ob_published := False\<rparr>)"
    by (auto simp: announced_def)
  have "ParseEvent (entry_of created (row\<lparr>ob_published := False\<rparr>)) = ParseEvent (entry_of created row)"
    by (simp add: ParseEvent_def entry_of_def OutboxRow.extend_def)
  with ParseEvent_candidate [OF found_fits [OF c] c(2), of created] assms(2) have "event = candidate_event created c" by simp
  with CandidateFromEvent_candidate [OF found_fits [OF c]] c(1) show ?thesis by blast
qed

lemma state_ok_enqueue:
  assumes "\<forall>d \<in> past. state_ok se past d" "db \<in> past" "deliverable past event" "Enqueue now event db = Inr (b, db')"
  shows "state_ok se past db'"
  using assms(4)
proof (cases rule: Enqueue_cases)
  case Again
  with assms(1,2) show ?thesis by simp
next
  case (First c r)
  from assms(3) obtain d row created where "d \<in> past" "row \<in> set (db_outbox d)" "ob_event_type row = RISK_LIQUIDATION_DETECTED"
    and event: "ParseEvent (entry_of created row) = Inr event" by (auto simp: deliverable_def)
  with assms(1) have "announced (se_risk se) (\<lambda>db. db \<in> past) row" by (auto simp: state_ok_def events_ok_def)
  from announced_event [OF this event] First(2) have "candidate_found (se_risk se) (\<lambda>db. db \<in> past) c" by auto
  with job_row_offer [OF First(3)] have "job_from (se_risk se) past r" unfolding job_from_def by blast
  moreover have ok: "state_ok se past db" using assms(1,2) by blast
  moreover have "queue_inv db'" using Enqueue_inv [OF _ assms(4)] ok by (simp add: state_ok_def)
  moreover have rows: "set (sd_jobs db') \<subseteq> insert r (set (sd_jobs db))" "set (sd_jobs db) \<subseteq> set (sd_jobs db')"
    and rest: "sd_tx db' = sd_tx db" "db_outbox db' = db_outbox db" by (auto simp: First(5) insert_ignore_def)
  moreover have "txs_ok se db'" using ok image_mono [OF rows(2), of job_tx] unfolding state_ok_def txs_ok_def rest by blast
  ultimately show ?thesis by (auto simp: state_ok_def events_ok_def)
qed

lemma service_step_ok: "service_step se past db db' \<Longrightarrow> state_ok se past db \<Longrightarrow> state_ok se past db'"
  by (erule service_step.cases)
    (auto intro: state_ok_commit state_ok_rewind state_ok_scan state_ok_statements state_ok_submit state_ok_save state_ok_queue_tx)

lemma sys_step_ok:
  assumes "sys_step se past db db'" "\<forall>d \<in> past. state_ok se past d" "db \<in> past"
  shows "state_ok se past db'"
proof -
  have ok: "state_ok se past db" using assms(2,3) by blast
  from assms(1) show ?thesis
  proof cases
    case (sys_enqueue event now b)
    with assms(2,3) show ?thesis by (auto intro: state_ok_enqueue)
  qed (use ok in \<open>auto intro: state_ok_publish service_step_ok\<close>)
qed

lemma history_ok: "history se h \<Longrightarrow> \<forall>d \<in> set h. state_ok se (set h) d"
proof (induction rule: history.induct)
  case (hist_start db)
  then show ?case by (simp add: state_ok_def queue_inv_def jobs_ok_def events_ok_def txs_ok_def)
next
  case (hist_step db past db')
  have "state_ok se (set (db # past)) db'" using sys_step_ok [OF hist_step(2,3)] by simp
  with hist_step(3) show ?case by (auto intro: state_ok_mono)
qed

section \<open>Properties\<close>

text \<open>C3. Every liquidation can be traced to its reason. In every state that the services reach together from
  empty tables, in whatever order their transactions interleave: there is at most one job per announced
  event, and each job offers, column by column, the candidate that the protocol rules give for a position
  that was liquidatable when it was read from an earlier state; each liquidation transaction belongs to
  one of these jobs, no two have the same id, and each was worth sending when it was queued.\<close>

theorem liquidations_traced:
  assumes "history se h" "db \<in> set h"
  shows "distinct (map jr_source_event_id (sd_jobs db)) \<and>
    (\<forall>r \<in> set (sd_jobs db). \<exists>c. candidate_found (se_risk se) (\<lambda>d. d \<in> set h) c \<and> job_row 0 (jr_source_event_id r) c = Inr (offer r)) \<and>
    distinct (map tr_job_id (sd_tx db)) \<and>
    (\<forall>t \<in> set (sd_tx db). liquidation_tx t \<longrightarrow> (\<exists>r \<in> set (sd_jobs db). tr_job_id t = job_tx r) \<and>
       tx_justified (se_keccak se) (se_client se) (se_contracts se) (se_config se) t)"
proof -
  have ok: "state_ok se (set h) db" using history_ok [OF assms(1)] assms(2) by blast
  then have "map jr_source_event_id (sd_jobs db) = map jr_job_id (sd_jobs db)" "distinct (map jr_job_id (sd_jobs db))"
    by (auto simp: state_ok_def queue_inv_def jobs_ok_def list_all_iff)
  then have "distinct (map jr_source_event_id (sd_jobs db))" by metis
  with ok show ?thesis by (auto simp: state_ok_def job_from_def txs_ok_def)
qed

section \<open>A history\<close>

text \<open>A scan, the queueing of its event, a claim and a submission.\<close>

definition demo_setting :: Setting where
  "demo_setting = \<lparr>se_risk = demo_risk_service, se_keccak = demo_hash, se_client = demo_liq, se_contracts = Liquidation_Properties.demo_contracts,
     se_config = demo_config\<rparr>"

lemma claim_single:
  assumes "job_row now i c = Inr r" "candidate_fits c" "sd_jobs db = [r]"
  shows "\<exists>j. Claim t {} (lc_chainId c) w lease db = Inr (Some j, db\<lparr>sd_jobs := [claimed_row t w lease r]\<rparr>) \<and>
    lj_jobId j = i \<and> lj_candidate j = c \<and> lj_workerId j = w \<and> lj_fencingToken j = 1"
proof -
  have r: "jr_chain_id r = ToDecimal (lc_chainId c)" "jr_status r = ''Available''" "jr_fencing_token r = 0"
    using assms(1) by (auto simp: job_row_def elim!: bind_resE)
  obtain j where "liq_ParseJob (claimed_row t w lease r) = Inr j" "lj_jobId j = i" "lj_candidate j = c"
    using job_row_ex [OF assms(2), of now i] assms(1) by (metis sum.inject(2))
  moreover from this(1) have "lj_workerId j = w" "lj_fencingToken j = 1"
    by (auto simp: liq_ParseJob_def claimed_row_def r elim!: bind_resE)
  moreover have "expire_row (ToDecimal (lc_chainId c)) t r = r" by (simp add: expire_row_def r)
  ultimately show ?thesis by (simp add: Claim_def Let_def next_job_def claimable_def r assms(3))
qed

lemma demo_found_fits: "candidate_fits demo_found"
  by (simp add: candidate_fits_def demo_found_def)

lemma demo_scan_of:
  assumes "demo_risk_db \<in> past"
  shows "scan_of (se_risk demo_setting) (\<lambda>db. db \<in> past) \<lparr>positionsScanned = 1, candidates = [demo_found]\<rparr>"
proof (rule scan_ofI [where P = "\<lambda>db. db \<in> past", OF assms assms])
  show "risk_LoadMarket demo_risk_db (rv_chainId (se_risk demo_setting)) = Inr (demo_market\<lparr>ms_observedAt := 0\<rparr>)"
    using demo_risk_market by (simp add: demo_setting_def demo_risk_service_def)
  show "risk_LoadPositions demo_risk_db (rv_chainId (se_risk demo_setting)) (rv_scanLimit (se_risk demo_setting)) = Inr [Risk_Safety.demo_position]"
    using demo_risk_positions by (simp add: demo_setting_def demo_risk_service_def)
  show "ScanWithStats (loaded (demo_market\<lparr>ms_observedAt := 0\<rparr>) [Risk_Safety.demo_position]) (rv_chainId (se_risk demo_setting))
      (rv_scanLimit (se_risk demo_setting)) 1100 = Inr \<lparr>positionsScanned = 1, candidates = [demo_found]\<rparr>"
    using demo_risk_scan by (simp add: demo_setting_def demo_risk_service_def)
qed

theorem liquidations_traced_witness:
  "\<exists>h db r t c. history demo_setting h \<and> db \<in> set h \<and> sd_jobs db = [r] \<and> sd_tx db = [t] \<and> tr_job_id t = job_tx r \<and>
     candidate_found demo_risk_service (\<lambda>d. d \<in> set h) c \<and> job_row 0 (jr_source_event_id r) c = Inr (offer r) \<and>
     tx_justified demo_hash demo_liq Liquidation_Properties.demo_contracts demo_config t"
proof -
  let ?e = "candidate_event 5 demo_found"
  define db1 where "db1 = demo_risk_db\<lparr>sd_processed := [(''risk-engine'', ''block:12'')], db_outbox := [demo_risk_row]\<rparr>"
  have h0: "history demo_setting [demo_risk_db]"
    by (rule hist_start) (simp_all add: demo_risk_db_def empty_services_def)
  have h1: "history demo_setting [db1, demo_risk_db]"
    by (rule hist_step [OF h0 sys_own [OF sys_scan [OF demo_scan_of]]]) (use demo_risk_commit in \<open>simp_all add: db1_def\<close>)
  have row: "candidate_row demo_found = Inr demo_risk_row"
    by (simp add: candidate_row_def demo_risk_row_def bigint_def positive_bigint_def demo_found_def)
  obtain r where r: "job_row 100 (RiskEventId demo_found) demo_found = Inr r" using job_row_ex [OF demo_found_fits] by blast
  define db2 where "db2 = db1\<lparr>sd_processed := [(''risk-engine'', ''block:12''), (''liquidator'', RiskEventId demo_found)], sd_jobs := [r]\<rparr>"
  have "Enqueue 100 ?e db1 = Inr (True, db2)"
    using CandidateFromEvent_candidate [OF demo_found_fits, of 5] r
    by (simp add: Enqueue_def mark_processed_def insert_ignore_def db1_def db2_def demo_risk_db_def empty_services_def)
      (simp add: candidate_event_def)
  moreover have "deliverable (set [db1, demo_risk_db]) ?e"
    using ParseEvent_candidate [OF demo_found_fits row, of 5]
    by (auto simp: deliverable_def db1_def demo_risk_row_def intro!: exI [of _ 5])
  ultimately have h2: "history demo_setting [db2, db1, demo_risk_db]" by (intro hist_step [OF h1] sys_enqueue)
  have "sd_jobs db2 = [r]" by (simp add: db2_def)
  from claim_single [OF r demo_found_fits this, of 110 "''w1''" 30] obtain j where
    claim: "Claim 110 {} (lc_chainId demo_found) ''w1'' 30 db2 = Inr (Some j, db2\<lparr>sd_jobs := [claimed_row 110 ''w1'' 30 r]\<rparr>)"
    and j: "lj_jobId j = RiskEventId demo_found" "lj_candidate j = demo_found" "lj_workerId j = ''w1''" "lj_fencingToken j = 1" by blast
  define db3 where "db3 = db2\<lparr>sd_jobs := [claimed_row 110 ''w1'' 30 r]\<rparr>"
  have h3: "history demo_setting [db3, db2, db1, demo_risk_db]" unfolding db3_def by (rule hist_step [OF h2 sys_own [OF sys_claim [OF claim]]])
  let ?sub = "\<lparr>sb_destination = replicate 20 6, sb_data = demo_calldata demo_hash, sb_value = 0\<rparr>"
  have prepare: "Prepare demo_hash (RpcLiquidationChain demo_hash demo_liq Liquidation_Properties.demo_contracts) demo_config
      (lj_candidate j) 1 = (Inr (Some ?sub), 12)" by (rule demo_prepare) (simp add: j demo_found_def)
  let ?r = "(claimed_row 110 ''w1'' 30 r)\<lparr>jr_status := ''Submitted'', jr_tx_job_id := Some (''liquidation-tx:'' @ RiskEventId demo_found)\<rparr>"
  let ?t = "submission_row 120 (''liquidation-tx:'' @ RiskEventId demo_found) j ?sub (replicate 20 7)"
  have fields: "jr_job_id r = RiskEventId demo_found" "jr_fencing_token r = 0" "jr_chain_id r = ToDecimal 31337" "jr_block_number r = 12"
    "jr_block_hash r = Hex_Encode (replicate 32 1) True"
    using r by (auto simp: job_row_def demo_found_def bigint_Inr elim!: bind_resE)
  have "holds_claim 120 j (claimed_row 110 ''w1'' 30 r)" "canonical_source (db_blocks db3) (claimed_row 110 ''w1'' 30 r)"
    by (simp_all add: holds_claim_def canonical_source_def claimed_row_def fields j db3_def db2_def db1_def demo_risk_db_def)
  moreover have "sd_tx db3 = []" by (simp add: db3_def db2_def db1_def demo_risk_db_def empty_services_def)
  ultimately have submit: "liq_Submit 120 j ?sub (replicate 20 7) db3 = (True, db3\<lparr>sd_tx := [?t], sd_jobs := [?r]\<rparr>)"
    using j(1) unfolding liq_Submit_def Let_def by (simp add: db3_def insert_ignore_def del: append.simps)
  define db4 where "db4 = db3\<lparr>sd_tx := [?t], sd_jobs := [?r]\<rparr>"
  have "length (lc_borrower (lj_candidate j)) = 20" by (simp add: j demo_found_def)
  then have h4: "history demo_setting [db4, db3, db2, db1, demo_risk_db]"
    unfolding db4_def using prepare submit by (intro hist_step [OF h3] sys_own sys_submit) (simp_all add: demo_setting_def)
  have db4: "sd_jobs db4 = [?r]" "sd_tx db4 = [?t]" by (simp_all add: db4_def)
  have "liquidation_tx ?t" by (simp add: liquidation_tx_def submission_row_def)
  with liquidations_traced [OF h4, of db4] show ?thesis unfolding db4
    by (intro exI [of _ "[db4, db3, db2, db1, demo_risk_db]"] exI [of _ db4] exI [of _ ?r] exI [of _ ?t])
      (use h4 db4 in \<open>auto simp: demo_setting_def\<close>)
qed

end
