(* ===== verification/Jet_Stream.thy ===== *)
theory Jet_Stream
  imports Messaging Effects
begin

text \<open>
  The client of the message broker (\<open>cpp/messaging/src/JetStream.cpp\<close>): connecting, the creation of the event
  stream, publishing with a message id, the durable consumers with explicit acknowledgement. The calls of
  the NATS library are a parameter: each takes the state of the broker, whatever that is, and returns a
  status with the state it leaves. Pointers and their destruction are left out, as is the text of JSON.
\<close>

section \<open>The NATS library\<close>

text \<open>The statuses that the sources tell apart; every other one is an error of some code.\<close>

datatype natsStatus = NATS_OK | NATS_NOT_FOUND | NATS_TIMEOUT | NATS_ERROR nat

datatype jsStorageType = js_FileStorage | js_MemoryStorage

datatype jsAckPolicy = js_AckExplicit | js_AckNone | js_AckAll

datatype jsDeliverPolicy = js_DeliverAll | js_DeliverLast | js_DeliverNew

record jsStreamConfig =
  sg_Name :: string
  sg_Subjects :: "string list"
  sg_Storage :: jsStorageType
  sg_Replicas :: nat
  sg_Duplicates :: nat

record jsSubOptions =
  so_Stream :: string
  so_ManualAck :: bool
  so_AckPolicy :: jsAckPolicy
  so_DeliverPolicy :: jsDeliverPolicy

text \<open>A subscription is its subject and durable name; a message is its place in the broker and its data.\<close>

record jsMessage =
  jm_handle :: nat
  jm_data :: json

record 'b NatsClient =
  nc_GetText :: "natsStatus \<Rightarrow> string"
  nc_ConnectTo :: "string \<Rightarrow> 'b \<Rightarrow> natsStatus \<times> 'b"
  nc_JetStream :: "'b \<Rightarrow> natsStatus \<times> 'b"
  nc_GetStreamInfo :: "string \<Rightarrow> 'b \<Rightarrow> natsStatus \<times> 'b"
  nc_StreamConfig_Init :: "'b \<Rightarrow> natsStatus \<times> 'b"
  nc_AddStream :: "jsStreamConfig \<Rightarrow> 'b \<Rightarrow> natsStatus \<times> 'b"
  nc_PubOptions_Init :: "'b \<Rightarrow> natsStatus \<times> 'b"
  nc_Publish :: "string \<Rightarrow> json \<Rightarrow> string \<Rightarrow> 'b \<Rightarrow> natsStatus \<times> 'b"
  nc_SubOptions_Init :: "'b \<Rightarrow> natsStatus \<times> 'b"
  nc_PullSubscribe :: "string \<Rightarrow> string \<Rightarrow> jsSubOptions \<Rightarrow> 'b \<Rightarrow> natsStatus \<times> 'b"
  nc_Fetch :: "string \<Rightarrow> string \<Rightarrow> 'b \<Rightarrow> (natsStatus \<times> jsMessage) \<times> 'b"
  nc_AckSync :: "jsMessage \<Rightarrow> 'b \<Rightarrow> natsStatus \<times> 'b"

section \<open>Connecting and creating the stream\<close>

definition EVENT_STREAM :: string where "EVENT_STREAM = ''DLP_EVENTS''"

definition nats :: "('b \<Rightarrow> 'a \<times> 'b) \<Rightarrow> ('b, 'a) prog" where
  "nats call b = (case call b of (x, b') \<Rightarrow> (Inr x, b'))"

definition Check :: "'b NatsClient \<Rightarrow> natsStatus \<Rightarrow> unit res" where
  "Check c status = (if status \<noteq> NATS_OK then Inl (Runtime_Error (nc_GetText c status)) else Inr ())"

definition checked_call :: "'b NatsClient \<Rightarrow> ('b \<Rightarrow> natsStatus \<times> 'b) \<Rightarrow> ('b, unit) prog" where
  "checked_call c call = bindp (nats call) (\<lambda>status. liftp (Check c status))"

definition JetStreamContext_new :: "'b NatsClient \<Rightarrow> string \<Rightarrow> ('b, unit) prog" where
  "JetStreamContext_new c url =
     bindp (checked_call c (nc_ConnectTo c url)) (\<lambda>_.
     checked_call c (nc_JetStream c))"

definition event_stream_config :: jsStreamConfig where
  "event_stream_config = \<lparr>sg_Name = EVENT_STREAM, sg_Subjects = [''chain.>'', ''risk.>''], sg_Storage = js_FileStorage, sg_Replicas = 1,
     sg_Duplicates = 120000000000\<rparr>"

definition EnsureEventStream :: "'b NatsClient \<Rightarrow> ('b, unit) prog" where
  "EnsureEventStream c =
     bindp (nats (nc_GetStreamInfo c EVENT_STREAM)) (\<lambda>status.
     if status = NATS_OK then ret ()
     else
       bindp (if status \<noteq> NATS_NOT_FOUND then liftp (Check c status) else ret ()) (\<lambda>_.
       bindp (checked_call c (nc_StreamConfig_Init c)) (\<lambda>_.
       checked_call c (nc_AddStream c event_stream_config))))"

section \<open>Publishing\<close>

definition JetStreamPublisher_new :: "'b NatsClient \<Rightarrow> string \<Rightarrow> ('b, unit) prog" where
  "JetStreamPublisher_new c url = JetStreamContext_new c url"

definition jet_Publish :: "'b NatsClient \<Rightarrow> EventEnvelope \<Rightarrow> ('b, unit) prog" where
  "jet_Publish c event =
     (let payload = Serialize event in
     bindp (checked_call c (nc_PubOptions_Init c)) (\<lambda>_.
     checked_call c (nc_Publish c (ev_eventType event) payload (ev_eventId event))))"

section \<open>Consuming\<close>

record JetStreamConsumer =
  jc_subject :: string
  jc_durableName :: string

definition consumer_options :: jsSubOptions where
  "consumer_options = \<lparr>so_Stream = EVENT_STREAM, so_ManualAck = True, so_AckPolicy = js_AckExplicit, so_DeliverPolicy = js_DeliverAll\<rparr>"

definition JetStreamConsumer_new :: "'b NatsClient \<Rightarrow> string \<Rightarrow> string \<Rightarrow> string \<Rightarrow> ('b, JetStreamConsumer) prog" where
  "JetStreamConsumer_new c url subject durableName =
     bindp (JetStreamContext_new c url) (\<lambda>_.
     bindp (EnsureEventStream c) (\<lambda>_.
     bindp (checked_call c (nc_SubOptions_Init c)) (\<lambda>_.
     bindp (checked_call c (nc_PullSubscribe c subject durableName consumer_options)) (\<lambda>_.
     ret \<lparr>jc_subject = subject, jc_durableName = durableName\<rparr>))))"

text \<open>A message with its event; \<open>None\<close> when none arrives within the time limit.\<close>

record JetStreamMessage =
  js_message :: jsMessage
  js_event :: EventEnvelope

definition jet_Fetch :: "'b NatsClient \<Rightarrow> JetStreamConsumer \<Rightarrow> ('b, JetStreamMessage option) prog" where
  "jet_Fetch c consumer =
     bindp (nats (nc_Fetch c (jc_subject consumer) (jc_durableName consumer))) (\<lambda>(status, message).
     if status = NATS_TIMEOUT then ret None
     else
       bindp (if status \<noteq> NATS_OK then liftp (Check c status) else ret ()) (\<lambda>_.
       bindp (liftp (Deserialize (jm_data message))) (\<lambda>event.
       ret (Some \<lparr>js_message = message, js_event = event\<rparr>))))"

definition jet_Ack :: "'b NatsClient \<Rightarrow> JetStreamMessage \<Rightarrow> ('b, unit) prog" where
  "jet_Ack c message = checked_call c (nc_AckSync c (js_message message))"

section \<open>How the calls behave\<close>

lemma Check_simps [simp]:
  "Check c NATS_OK = Inr ()" "status \<noteq> NATS_OK \<Longrightarrow> Check c status = Inl (Runtime_Error (nc_GetText c status))"
  "Check c status = Inr u \<longleftrightarrow> status = NATS_OK"
  by (simp_all add: Check_def)

lemma checked_call_run:
  "checked_call c call b = (case call b of (status, b') \<Rightarrow> (Check c status, b'))"
  by (auto simp: checked_call_def nats_def bindp_def liftp_def split: prod.splits)

lemma keeps_nats: "(\<And>b x b'. P b \<Longrightarrow> call b = (x, b') \<Longrightarrow> P b') \<Longrightarrow> keeps P (nats call)"
  by (rule validI) (auto simp: nats_def split: prod.splits)

lemma keeps_checked_call: "(\<And>b x b'. P b \<Longrightarrow> call b = (x, b') \<Longrightarrow> P b') \<Longrightarrow> keeps P (checked_call c call)"
  unfolding checked_call_def by (intro keeps_bindp keeps_nats keeps_liftp)

lemma jet_Publish_run:
  assumes "jet_Publish c event b = (r, b')"
  obtains (Options) e where "r = Inl e" "b' = snd (nc_PubOptions_Init c b)"
  | (Sent) status where "nc_Publish c (ev_eventType event) (Serialize event) (ev_eventId event) (snd (nc_PubOptions_Init c b)) = (status, b')"
      "r = Check c status"
proof -
  obtain s0 b0 where init: "nc_PubOptions_Init c b = (s0, b0)" by (cases "nc_PubOptions_Init c b")
  obtain s1 b1 where send: "nc_Publish c (ev_eventType event) (Serialize event) (ev_eventId event) b0 = (s1, b1)" by fastforce
  have "jet_Publish c event b = (if s0 = NATS_OK then (Check c s1, b1) else (Inl (Runtime_Error (nc_GetText c s0)), b0))"
    unfolding jet_Publish_def Let_def bindp_def checked_call_run init prod.case send by (simp add: Check_def)
  then show thesis using assms init send by (cases "s0 = NATS_OK") (auto intro: Options Sent)
qed

lemma jet_Fetch_run:
  assumes "jet_Fetch c consumer b = (Inr (Some m), b')"
  shows "nc_Fetch c (jc_subject consumer) (jc_durableName consumer) b = ((NATS_OK, js_message m), b')"
    "Deserialize (jm_data (js_message m)) = Inr (js_event m)"
  using assms
  by (auto simp: jet_Fetch_def nats_def bindp_def liftp_def ret_def Check_def split: prod.splits sum.splits if_splits)

end
