(* ===== verification/Broker.thy ===== *)
theory Broker
  imports System Jet_Stream
begin

text \<open>
  The services together with the broker between them. The state is the shared database, the state of the
  broker, what the publisher has had acknowledged and what the liquidator has received; the steps are the
  transactions of the services and the calls of the broker's client. What NATS documents about its calls
  is a hypothesis. Every such history is one of \<open>System\<close>, so that what holds there holds with the broker, and
  no event that is marked as published is missing from the stream.
\<close>

section \<open>What the broker documents\<close>

text \<open>\<open>stored\<close> is what the event stream holds: subject, data and message id. A publication adds its message at most
  and is confirmed only when the stream holds a message of that id; a fetch returns the data of a stored
  message whose subject the filter matches; a filter without wildcards matches itself only; nothing else
  touches the stream, whose configuration sets no limits.\<close>

type_synonym stream = "(string \<times> json \<times> string) set"

definition stream_ids :: "stream \<Rightarrow> string set" where
  "stream_ids msgs = (snd \<circ> snd) ` msgs"

definition leaves :: "('b \<Rightarrow> stream) \<Rightarrow> ('b \<Rightarrow> 'a \<times> 'b) \<Rightarrow> bool" where
  "leaves stored call \<longleftrightarrow> (\<forall>b x b'. call b = (x, b') \<longrightarrow> stored b' = stored b)"

definition publishes :: "'b NatsClient \<Rightarrow> ('b \<Rightarrow> stream) \<Rightarrow> bool" where
  "publishes c stored \<longleftrightarrow> (\<forall>subject data i b status b'. nc_Publish c subject data i b = (status, b') \<longrightarrow>
     stored b \<subseteq> stored b' \<and> stored b' \<subseteq> insert (subject, data, i) (stored b) \<and> (status = NATS_OK \<longrightarrow> i \<in> stream_ids (stored b')))"

definition fetches :: "'b NatsClient \<Rightarrow> ('b \<Rightarrow> stream) \<Rightarrow> bool" where
  "fetches c stored \<longleftrightarrow> (\<forall>subject name b m b'. nc_Fetch c subject name b = ((NATS_OK, m), b') \<longrightarrow> CHR ''*'' \<notin> set subject \<longrightarrow>
     CHR ''>'' \<notin> set subject \<longrightarrow> (\<exists>i. (subject, jm_data m, i) \<in> stored b))"

definition nats_documented :: "'b NatsClient \<Rightarrow> ('b \<Rightarrow> stream) \<Rightarrow> bool" where
  "nats_documented c stored \<longleftrightarrow> publishes c stored \<and> fetches c stored \<and>
     (\<forall>url. leaves stored (nc_ConnectTo c url)) \<and> leaves stored (nc_JetStream c) \<and>
     (\<forall>name. leaves stored (nc_GetStreamInfo c name)) \<and> leaves stored (nc_StreamConfig_Init c) \<and>
     (\<forall>config. leaves stored (nc_AddStream c config)) \<and> leaves stored (nc_PubOptions_Init c) \<and>
     leaves stored (nc_SubOptions_Init c) \<and> (\<forall>subject name options. leaves stored (nc_PullSubscribe c subject name options)) \<and>
     (\<forall>subject name. leaves stored (nc_Fetch c subject name)) \<and> (\<forall>m. leaves stored (nc_AckSync c m))"

section \<open>Steps\<close>

record 'b NetState =
  net_db :: ServiceDb
  net_broker :: 'b
  net_acked :: "string set"
  net_received :: "EventEnvelope set"

text \<open>Everything but publishing: the transactions of the services, connecting, fetching, queueing and acknowledging.\<close>

inductive peer_step :: "'b NatsClient \<Rightarrow> Setting \<Rightarrow> ServiceDb set \<Rightarrow> 'b NetState \<Rightarrow> 'b NetState \<Rightarrow> bool" for c se past where
  net_service: "service_step se past (net_db n) db' \<Longrightarrow> peer_step c se past n (n\<lparr>net_db := db'\<rparr>)"
| net_start_publisher: "bindp (JetStreamPublisher_new c url) (\<lambda>_. EnsureEventStream c) (net_broker n) = (r, b') \<Longrightarrow>
    peer_step c se past n (n\<lparr>net_broker := b'\<rparr>)"
| net_start_consumer: "JetStreamConsumer_new c url subject name (net_broker n) = (r, b') \<Longrightarrow>
    peer_step c se past n (n\<lparr>net_broker := b'\<rparr>)"
| net_fetch: "jet_Fetch c consumer (net_broker n) = (Inr (Some m), b') \<Longrightarrow>
    peer_step c se past n (n\<lparr>net_broker := b', net_received :=
      (if jc_subject consumer = RISK_LIQUIDATION_DETECTED then {js_event m} else {}) \<union> net_received n\<rparr>)"
| net_no_fetch: "jet_Fetch c consumer (net_broker n) = (r, b') \<Longrightarrow> peer_step c se past n (n\<lparr>net_broker := b'\<rparr>)"
| net_enqueue: "event \<in> net_received n \<Longrightarrow> Enqueue now event (net_db n) = Inr (first, db') \<Longrightarrow>
    peer_step c se past n (n\<lparr>net_db := db'\<rparr>)"
| net_ack: "jet_Ack c m (net_broker n) = (r, b') \<Longrightarrow> peer_step c se past n (n\<lparr>net_broker := b'\<rparr>)"

text \<open>What a publisher may do: send what it has loaded at some time, and mark what was acknowledged to someone. That the
  publisher of the sources does no more is shown below.\<close>

inductive net_step :: "'b NatsClient \<Rightarrow> Setting \<Rightarrow> ServiceDb set \<Rightarrow> 'b NetState \<Rightarrow> 'b NetState \<Rightarrow> bool" for c se past where
  net_peer: "peer_step c se past n n' \<Longrightarrow> net_step c se past n n'"
| net_send: "db \<in> past \<Longrightarrow> length created = length (db_outbox db) \<Longrightarrow>
    LoadUnpublished (map2 entry_of created (db_outbox db)) limit = Inr events \<Longrightarrow> event \<in> set events \<Longrightarrow>
    jet_Publish c event (net_broker n) = (r, b') \<Longrightarrow>
    net_step c se past n (n\<lparr>net_broker := b', net_acked := (if r = Inr () then {ev_eventId event} else {}) \<union> net_acked n\<rparr>)"
| net_mark: "i \<in> net_acked n \<Longrightarrow>
    net_step c se past n (n\<lparr>net_db := (net_db n)\<lparr>db_outbox := MarkPublished i (db_outbox (net_db n))\<rparr>\<rparr>)"

inductive net_history :: "'b NatsClient \<Rightarrow> ('b \<Rightarrow> stream) \<Rightarrow> Setting \<Rightarrow> 'b NetState list \<Rightarrow> bool" for c stored se where
  net_begin: "history se [net_db n] \<Longrightarrow> db_outbox (net_db n) = [] \<Longrightarrow> stored (net_broker n) = {} \<Longrightarrow> net_acked n = {} \<Longrightarrow> net_received n = {} \<Longrightarrow>
    net_history c stored se [n]"
| net_next: "net_history c stored se (n # past) \<Longrightarrow> net_step c se (net_db ` set (n # past)) n n' \<Longrightarrow>
    net_history c stored se (n' # n # past)"

section \<open>What the client's programs do to the stream\<close>

lemma leavesD: "leaves stored call \<Longrightarrow> call b = (x, b') \<Longrightarrow> stored b' = stored b"
  by (auto simp: leaves_def)

lemma leaves_nats: "leaves stored call \<Longrightarrow> keeps (\<lambda>b. stored b = s) (nats call)"
  by (rule keeps_nats) (auto dest: leavesD)

lemma leaves_checked: "leaves stored call \<Longrightarrow> keeps (\<lambda>b. stored b = s) (checked_call c call)"
  by (rule keeps_checked_call) (auto dest: leavesD)

lemmas leaves_keeps = leaves_nats leaves_checked

lemma keeps_context: "nats_documented c stored \<Longrightarrow> keeps (\<lambda>b. stored b = s) (JetStreamContext_new c url)"
  unfolding JetStreamContext_new_def nats_documented_def by (intro keeps_intros leaves_keeps) blast+

lemma keeps_ensure: "nats_documented c stored \<Longrightarrow> keeps (\<lambda>b. stored b = s) (EnsureEventStream c)"
  unfolding EnsureEventStream_def nats_documented_def by (intro keeps_intros leaves_keeps) blast+

lemma keeps_consumer_new:
  assumes "nats_documented c stored"
  shows "keeps (\<lambda>b. stored b = s) (JetStreamConsumer_new c url subject name)"
  unfolding JetStreamConsumer_new_def
  by (intro keeps_intros keeps_context [OF assms] keeps_ensure [OF assms] leaves_keeps)
    (use assms in \<open>simp_all add: nats_documented_def\<close>)

lemma keeps_publisher_new:
  assumes "nats_documented c stored"
  shows "keeps (\<lambda>b. stored b = s) (bindp (JetStreamPublisher_new c url) (\<lambda>_. EnsureEventStream c))"
  unfolding JetStreamPublisher_new_def by (intro keeps_intros keeps_context [OF assms] keeps_ensure [OF assms])

lemma keeps_jet_Fetch: "nats_documented c stored \<Longrightarrow> keeps (\<lambda>b. stored b = s) (jet_Fetch c consumer)"
  unfolding jet_Fetch_def case_prod_beta nats_documented_def by (intro keeps_intros leaves_keeps) blast+

lemma keeps_jet_Ack: "nats_documented c stored \<Longrightarrow> keeps (\<lambda>b. stored b = s) (jet_Ack c m)"
  unfolding jet_Ack_def nats_documented_def by (intro leaves_keeps) blast+

lemma keeps_stored: "keeps (\<lambda>b. stored b = s) m \<Longrightarrow> stored b = s \<Longrightarrow> m b = (r, b') \<Longrightarrow> stored b' = s"
  using keepsD [of "\<lambda>b. stored b = s" m b] by simp

lemma jet_Publish_stored:
  assumes "nats_documented c stored" "jet_Publish c event b = (r, b')"
  shows "stored b \<subseteq> stored b'" "stored b' \<subseteq> insert (ev_eventType event, Serialize event, ev_eventId event) (stored b)"
    "r = Inr () \<Longrightarrow> ev_eventId event \<in> stream_ids (stored b')"
proof -
  obtain s0 b0 where init: "nc_PubOptions_Init c b = (s0, b0)" by (cases "nc_PubOptions_Init c b")
  have [simp]: "stored b0 = stored b" using assms(1) init by (auto simp: nats_documented_def dest: leavesD)
  have pub: "publishes c stored" using assms(1) by (simp add: nats_documented_def)
  have all: "stored b \<subseteq> stored b' \<and> stored b' \<subseteq> insert (ev_eventType event, Serialize event, ev_eventId event) (stored b) \<and>
      (r = Inr () \<longrightarrow> ev_eventId event \<in> stream_ids (stored b'))"
    using assms(2)
  proof (cases rule: jet_Publish_run)
    case (Options e)
    then show ?thesis by (simp add: init subset_insertI)
  next
    case (Sent status)
    with pub show ?thesis unfolding publishes_def init snd_conv by fastforce
  qed
  then show "stored b \<subseteq> stored b'" "stored b' \<subseteq> insert (ev_eventType event, Serialize event, ev_eventId event) (stored b)"
    "r = Inr () \<Longrightarrow> ev_eventId event \<in> stream_ids (stored b')" by simp_all
qed

section \<open>The invariant\<close>

definition from_outbox :: "ServiceDb set \<Rightarrow> string \<times> json \<times> string \<Rightarrow> bool" where
  "from_outbox past msg \<longleftrightarrow> (\<exists>db \<in> past. \<exists>row \<in> set (db_outbox db). \<exists>created e. ParseEvent (entry_of created row) = Inr e \<and>
     msg = (ob_event_type row, Serialize e, ob_event_id row))"

definition net_ok :: "('b \<Rightarrow> stream) \<Rightarrow> ServiceDb set \<Rightarrow> 'b NetState \<Rightarrow> bool" where
  "net_ok stored past n \<longleftrightarrow> (\<forall>msg \<in> stored (net_broker n). from_outbox past msg) \<and> (\<forall>e \<in> net_received n. deliverable past e) \<and>
     net_acked n \<subseteq> stream_ids (stored (net_broker n)) \<and>
     (\<forall>row \<in> set (db_outbox (net_db n)). ob_published row \<longrightarrow> ob_event_id row \<in> stream_ids (stored (net_broker n)))"

lemma stream_ids_mono: "a \<subseteq> b \<Longrightarrow> stream_ids a \<subseteq> stream_ids b"
  by (auto simp: stream_ids_def)

lemma from_outbox_mono: "from_outbox past msg \<Longrightarrow> past \<subseteq> past' \<Longrightarrow> from_outbox past' msg"
  unfolding from_outbox_def by (erule bexE) (blast intro: bexI)

lemma deliverable_mono: "deliverable past e \<Longrightarrow> past \<subseteq> past' \<Longrightarrow> deliverable past' e"
  unfolding deliverable_def by (erule bexE) (blast intro: bexI)

lemma net_ok_mono: "net_ok stored past n \<Longrightarrow> past \<subseteq> past' \<Longrightarrow> net_ok stored past' n"
  unfolding net_ok_def using from_outbox_mono deliverable_mono by blast

lemma ParseEvent_fields:
  assumes "ParseEvent r = Inr e"
  shows "ev_eventType e = ob_event_type r" "ev_eventId e = ob_event_id r" "event_fits e"
  using assms
  by (auto simp: ParseEvent_def event_fits_def outbox_ParseHash_def opt_res_def map_result_Inr elim!: bind_resE split: option.splits)
    (erule ParseHash_length)+

lemma entry_of_fields [simp]:
  "ob_event_type (entry_of created row) = ob_event_type row" "ob_event_id (entry_of created row) = ob_event_id row"
  by (simp_all add: entry_of_def OutboxRow.extend_def)

lemma loaded_from_outbox:
  assumes "LoadUnpublished (map2 entry_of created (db_outbox db)) limit = Inr events" "event \<in> set events" "db \<in> past"
  shows "from_outbox past (ev_eventType event, Serialize event, ev_eventId event)"
proof -
  let ?rows = "map2 entry_of created (db_outbox db)"
  from map_res_set [OF assms(1) [unfolded LoadUnpublished_def] assms(2)] obtain r where
    r: "r \<in> set (take limit (sort_key oe_created_at (sort_key ob_event_id (filter (\<lambda>r. \<not> ob_published r) ?rows))))"
    and parse: "ParseEvent r = Inr event" by blast
  from in_set_takeD [OF r] have "r \<in> set ?rows" by simp
  then obtain t row where row: "row \<in> set (db_outbox db)" "r = entry_of t row" by (auto dest: set_zip_rightD)
  have "(ev_eventType event, Serialize event, ev_eventId event) = (ob_event_type row, Serialize event, ob_event_id row)"
    using ParseEvent_fields(1,2) [OF parse] row(2) by simp
  with row parse assms(3) show ?thesis unfolding from_outbox_def by blast
qed

text \<open>What the liquidator is given is an event of the outbox.\<close>

lemma fetched_deliverable:
  assumes "nats_documented c stored" "\<forall>msg \<in> stored b. from_outbox past msg" "jet_Fetch c consumer b = (Inr (Some m), b')"
    and "jc_subject consumer = RISK_LIQUIDATION_DETECTED"
  shows "deliverable past (js_event m)"
proof -
  note run = jet_Fetch_run [OF assms(3)]
  have "fetches c stored" using assms(1) by (simp add: nats_documented_def)
  moreover have "CHR ''*'' \<notin> set RISK_LIQUIDATION_DETECTED" "CHR ''>'' \<notin> set RISK_LIQUIDATION_DETECTED"
    by (simp_all add: RISK_LIQUIDATION_DETECTED_def)
  ultimately obtain i where "(RISK_LIQUIDATION_DETECTED, jm_data (js_message m), i) \<in> stored b"
    using run(1) unfolding fetches_def assms(4) by blast
  with assms(2) obtain db row created e where e: "db \<in> past" "row \<in> set (db_outbox db)" "ParseEvent (entry_of created row) = Inr e"
    "ob_event_type row = RISK_LIQUIDATION_DETECTED" "jm_data (js_message m) = Serialize e" by (force simp: from_outbox_def)
  have "Deserialize (Serialize e) = Inr e" using event_codec.dec_enc ParseEvent_fields(3) [OF e(3)] by blast
  with run(2) e show ?thesis unfolding deliverable_def by auto
qed

text \<open>The services write unpublished rows only.\<close>

lemma service_step_published:
  assumes "service_step se past db db'" "row \<in> set (db_outbox db')" "ob_published row"
  shows "row \<in> set (db_outbox db)"
  using assms(1)
proof cases
  case (sys_commit b logs s idx)
  with CommitBlock_outbox [OF sys_commit(2)] assms(2,3) outbox_insert_subset show ?thesis by (fastforce simp: index_part_def with_index_def)
next
  case (sys_rewind cid ancestor s idx)
  with RewindTo_outbox [OF sys_rewind(2)] assms(2,3) outbox_insert_subset show ?thesis by (fastforce simp: index_part_def with_index_def)
next
  case (sys_scan scan i b)
  from sys_scan(2) show ?thesis
  proof (cases rule: CommitScan_cases)
    case (First outbox)
    show ?thesis
    proof (rule ccontr)
      assume "row \<notin> set (db_outbox db)"
      with commit_rows [OF First(2)] assms(2) First(3) obtain cand where "candidate_row cand = Inr row" by auto
      with assms(3) show False by (auto simp: candidate_row_def elim!: bind_resE)
    qed
  qed (use assms(2) in simp)
next
  case (sys_submit job s sub s' now wallet b)
  with assms(2) show ?thesis by (auto simp: liq_Submit_def Let_def split: if_splits)
qed (use assms(2) statement_rest in auto)

section \<open>Each step keeps the invariant\<close>

lemma net_ok_db:
  assumes "net_ok stored past n"
    and "\<And>row. row \<in> set (db_outbox db') \<Longrightarrow> ob_published row \<Longrightarrow> ob_event_id row \<in> stream_ids (stored (net_broker n))"
  shows "net_ok stored past (n\<lparr>net_db := db'\<rparr>)"
  using assms by (simp add: net_ok_def)

lemma net_ok_quiet: "net_ok stored past n \<Longrightarrow> stored b' = stored (net_broker n) \<Longrightarrow> net_ok stored past (n\<lparr>net_broker := b'\<rparr>)"
  by (simp add: net_ok_def)

lemma Enqueue_outbox: "Enqueue now event db = Inr (first, db') \<Longrightarrow> db_outbox db' = db_outbox db"
  by (cases rule: Enqueue_cases) auto

lemma net_ok_send:
  assumes "nats_documented c stored" "net_ok stored past n" "from_outbox past (ev_eventType event, Serialize event, ev_eventId event)"
    and "jet_Publish c event (net_broker n) = (r, b')"
  shows "net_ok stored past (n\<lparr>net_broker := b', net_acked := (if r = Inr () then {ev_eventId event} else {}) \<union> net_acked n\<rparr>)"
proof -
  note sent = jet_Publish_stored [OF assms(1,4)]
  have "\<forall>msg \<in> stored b'. from_outbox past msg" using sent(2) assms(2,3) unfolding net_ok_def by blast
  with sent(3) stream_ids_mono [OF sent(1)] assms(2) show ?thesis unfolding net_ok_def by auto
qed

lemma peer_step_ok:
  assumes "peer_step c se past n n'" "nats_documented c stored" "net_ok stored past n"
  shows "net_ok stored past n'"
  using assms(1)
proof cases
  case (net_service db')
  show ?thesis unfolding net_service(1)
    by (rule net_ok_db [OF assms(3)]) (use service_step_published [OF net_service(2)] assms(3) in \<open>auto simp: net_ok_def\<close>)
next
  case (net_start_publisher url r b')
  show ?thesis unfolding net_start_publisher(1)
    by (rule net_ok_quiet [OF assms(3) keeps_stored [OF keeps_publisher_new [OF assms(2)] refl net_start_publisher(2)]])
next
  case (net_start_consumer url subject name r b')
  show ?thesis unfolding net_start_consumer(1)
    by (rule net_ok_quiet [OF assms(3) keeps_stored [OF keeps_consumer_new [OF assms(2)] refl net_start_consumer(2)]])
next
  case (net_fetch consumer m b')
  have "stored b' = stored (net_broker n)" by (rule keeps_stored [OF keeps_jet_Fetch [OF assms(2)] refl net_fetch(2)])
  moreover have "jc_subject consumer = RISK_LIQUIDATION_DETECTED \<Longrightarrow> deliverable past (js_event m)"
    using fetched_deliverable [OF assms(2) _ net_fetch(2)] assms(3) by (simp add: net_ok_def)
  ultimately show ?thesis using assms(3) unfolding net_fetch(1) net_ok_def by simp
next
  case (net_no_fetch consumer r b')
  show ?thesis unfolding net_no_fetch(1)
    by (rule net_ok_quiet [OF assms(3) keeps_stored [OF keeps_jet_Fetch [OF assms(2)] refl net_no_fetch(2)]])
next
  case (net_enqueue event now first db')
  show ?thesis unfolding net_enqueue(1)
    by (rule net_ok_db [OF assms(3)]) (use Enqueue_outbox [OF net_enqueue(3)] assms(3) in \<open>simp add: net_ok_def\<close>)
next
  case (net_ack m r b')
  show ?thesis unfolding net_ack(1)
    by (rule net_ok_quiet [OF assms(3) keeps_stored [OF keeps_jet_Ack [OF assms(2)] refl net_ack(2)]])
qed

lemma net_step_ok:
  assumes "net_step c se past n n'" "nats_documented c stored" "net_ok stored past n"
  shows "net_ok stored past n'"
  using assms(1)
proof cases
  case net_peer
  then show ?thesis by (rule peer_step_ok [OF _ assms(2,3)])
next
  case (net_send db created limit events event r b')
  show ?thesis unfolding net_send(1) by (rule net_ok_send [OF assms(2,3) loaded_from_outbox [OF net_send(4,5,2)] net_send(6)])
next
  case (net_mark i)
  show ?thesis unfolding net_mark(1)
    by (rule net_ok_db [OF assms(3)]) (use net_mark(2) assms(3) in \<open>auto simp: net_ok_def MarkPublished_def split: if_splits\<close>)
qed

lemma net_history_ok:
  assumes "net_history c stored se h" "nats_documented c stored"
  shows "h \<noteq> [] \<and> net_ok stored (net_db ` set h) (hd h)"
  using assms(1)
proof induction
  case (net_begin n)
  then show ?case by (simp add: net_ok_def)
next
  case (net_next n past n')
  then have "net_ok stored (net_db ` set (n # past)) n'" using net_step_ok [OF net_next(2) assms(2)] by simp
  then show ?case by (auto intro: net_ok_mono)
qed

section \<open>Properties\<close>

text \<open>A step that leaves the database as it is, is a step of the system.\<close>

lemma sys_stutter: "sys_step se past db db"
proof -
  have "finite (ob_event_id ` set (db_outbox db))" by simp
  then obtain i where "i \<notin> ob_event_id ` set (db_outbox db)" using ex_new_if_finite [OF infinite_UNIV_listI] by blast
  then have "MarkPublished i (db_outbox db) = db_outbox db" unfolding MarkPublished_def by (intro map_idI) auto
  then show ?thesis using sys_publish [of se past db i] by simp
qed

lemma peer_step_sys:
  assumes "peer_step c se past n n'" "net_ok stored past n"
  shows "sys_step se past (net_db n) (net_db n')"
  using assms(1)
proof cases
  case (net_service db')
  then show ?thesis by (simp add: sys_own)
next
  case (net_enqueue event now first db')
  then show ?thesis using assms(2) sys_enqueue [of past event now "net_db n" first db' se] by (simp add: net_ok_def)
qed (simp_all add: sys_stutter)

lemma net_step_sys:
  assumes "net_step c se past n n'" "net_ok stored past n"
  shows "sys_step se past (net_db n) (net_db n')"
  using assms(1)
proof cases
  case net_peer
  then show ?thesis by (rule peer_step_sys [OF _ assms(2)])
next
  case (net_mark i)
  then show ?thesis by (simp add: sys_publish)
qed (simp add: sys_stutter)

text \<open>C5. The broker implements the channel that the services rely on. When NATS behaves as documented, every
  history of the services with the broker between them, over any interleaving of transactions, connections,
  publications, fetches, redeliveries and acknowledgements, successful or not, is a history of the services
  alone, in which an event is delivered only if it is or was in the outbox.\<close>

theorem broker_refines_system:
  assumes "net_history c stored se h" "nats_documented c stored"
  shows "history se (map net_db h)"
  using assms(1)
proof induction
  case (net_begin n)
  then show ?case by simp
next
  case (net_next n past n')
  have "net_ok stored (net_db ` set (n # past)) n" using net_history_ok [OF net_next(1) assms(2)] by simp
  from net_step_sys [OF net_next(2) this] net_next(3) show ?case by (simp add: hist_step)
qed

section \<open>The publishers\<close>

text \<open>Any number of publishers run \<open>RunOnce\<close> of the sources, each call of a store or of the broker one step, between which
  everything else may happen. A publisher that stops taking steps has died; a statement may fail.\<close>

inductive publisher_step :: "'b NatsClient \<Rightarrow> 'b NetState \<Rightarrow> nat outbox_calls \<Rightarrow> 'b NetState \<Rightarrow> nat outbox_calls \<Rightarrow> bool" for c n where
  pub_load: "length created = length (db_outbox (net_db n)) \<Longrightarrow>
    publisher_step c n (CallLoad limit k) n (k (LoadUnpublished (map2 entry_of created (db_outbox (net_db n))) limit))"
| pub_load_fails: "publisher_step c n (CallLoad limit k) n (k (Inl Sql_Error))"
| pub_publish: "jet_Publish c event (net_broker n) = (r, b') \<Longrightarrow>
    publisher_step c n (CallPublish event k)
      (n\<lparr>net_broker := b', net_acked := (if r = Inr () then {ev_eventId event} else {}) \<union> net_acked n\<rparr>) (k r)"
| pub_mark: "publisher_step c n (CallMark i k) (n\<lparr>net_db := (net_db n)\<lparr>db_outbox := MarkPublished i (db_outbox (net_db n))\<rparr>\<rparr>) (k (Inr ()))"
| pub_mark_fails: "publisher_step c n (CallMark i k) n (k (Inl Sql_Error))"

inductive pub_history :: "'b NatsClient \<Rightarrow> ('b \<Rightarrow> stream) \<Rightarrow> Setting \<Rightarrow> 'b NetState list \<Rightarrow> nat outbox_calls list \<Rightarrow> bool" for c stored se where
  pub_begin: "history se [net_db n] \<Longrightarrow> db_outbox (net_db n) = [] \<Longrightarrow> stored (net_broker n) = {} \<Longrightarrow> net_acked n = {} \<Longrightarrow> net_received n = {} \<Longrightarrow>
    pub_history c stored se [n] []"
| pub_peer: "pub_history c stored se (n # past) ps \<Longrightarrow> peer_step c se (net_db ` set (n # past)) n n' \<Longrightarrow>
    pub_history c stored se (n' # n # past) ps"
| pub_round: "pub_history c stored se h ps \<Longrightarrow> pub_history c stored se h (RunOnce_calls limit # ps)"
| pub_step: "pub_history c stored se (n # past) (ps @ p # qs) \<Longrightarrow> publisher_step c n p n' p' \<Longrightarrow>
    pub_history c stored se (if n' = n then n # past else n' # n # past) (ps @ p' # qs)"

text \<open>What a publisher in the middle of its round still does, from the events it has loaded and the ids acknowledged to it:
  it sends only loaded events and marks only acknowledged ones.\<close>

primrec careful :: "EventEnvelope set \<Rightarrow> string set \<Rightarrow> 'a outbox_calls \<Rightarrow> bool" where
  "careful L A (Returned x) \<longleftrightarrow> True"
| "careful L A (Thrown e) \<longleftrightarrow> True"
| "careful L A (CallLoad limit k) \<longleftrightarrow> (\<forall>e. careful L A (k (Inl e))) \<and> (\<forall>events. careful (L \<union> set events) A (k (Inr events)))"
| "careful L A (CallPublish event k) \<longleftrightarrow> event \<in> L \<and> (\<forall>e. careful L A (k (Inl e))) \<and> careful L (insert (ev_eventId event) A) (k (Inr ()))"
| "careful L A (CallMark i k) \<longleftrightarrow> i \<in> A \<and> (\<forall>r. careful L A (k r))"

lemma careful_mono: "careful L A p \<Longrightarrow> L \<subseteq> L' \<Longrightarrow> A \<subseteq> A' \<Longrightarrow> careful L' A' p"
proof (induction p arbitrary: L A L' A')
  case (CallLoad limit k)
  have "careful L' A' (k (Inl e))" for e
    by (rule CallLoad.IH [OF rangeI _ CallLoad.prems(2,3)]) (use CallLoad.prems(1) in simp)
  moreover have "careful (L' \<union> set events) A' (k (Inr events))" for events
    by (rule CallLoad.IH [OF rangeI, of "L \<union> set events" A]) (use CallLoad.prems in auto)
  ultimately show ?case by simp
next
  case (CallPublish event k)
  have "careful L' A' (k (Inl e))" for e
    by (rule CallPublish.IH [OF rangeI _ CallPublish.prems(2,3)]) (use CallPublish.prems(1) in simp)
  moreover have "careful L' (insert (ev_eventId event) A') (k (Inr ()))"
    by (rule CallPublish.IH [OF rangeI, of L "insert (ev_eventId event) A"]) (use CallPublish.prems in auto)
  ultimately show ?case using CallPublish.prems(1,2) by auto
next
  case (CallMark i k)
  have "careful L' A' (k r)" for r
    by (rule CallMark.IH [OF rangeI _ CallMark.prems(2,3)]) (use CallMark.prems(1) in simp)
  then show ?case using CallMark.prems by auto
qed simp_all

lemma careful_publish_all:
  "set events \<subseteq> L \<Longrightarrow> careful L A (andthen (publish_all events) (\<lambda>_. Returned x))"
  by (induction events arbitrary: A) (auto simp: publish_calls_def answered_def split: sum.split)

lemma careful_RunOnce: "careful L A (RunOnce_calls limit)"
  by (simp add: RunOnce_calls_def answered_def careful_publish_all)

definition loaded_in :: "ServiceDb set \<Rightarrow> EventEnvelope set" where
  "loaded_in past = {event. \<exists>db \<in> past. \<exists>created limit events. length created = length (db_outbox db) \<and>
     LoadUnpublished (map2 entry_of created (db_outbox db)) limit = Inr events \<and> event \<in> set events}"

lemma loaded_in_mono: "past \<subseteq> past' \<Longrightarrow> loaded_in past \<subseteq> loaded_in past'"
  by (auto simp: loaded_in_def)

lemma peer_step_acked: "peer_step c se past n n' \<Longrightarrow> net_acked n' = net_acked n"
  by (auto elim: peer_step.cases)

text \<open>A step of a careful publisher is one that \<open>net_step\<close> allows, or changes nothing, and it stays careful.\<close>

lemma publisher_step_allowed:
  assumes "publisher_step c n p n' p'" "careful (loaded_in past) (net_acked n) p" "net_db n \<in> past"
  shows "(n' = n \<or> net_step c se past n n') \<and> net_acked n \<subseteq> net_acked n' \<and> careful (loaded_in past) (net_acked n') p'"
  using assms(1)
proof cases
  case (pub_load created limit k)
  let ?r = "LoadUnpublished (map2 entry_of created (db_outbox (net_db n))) limit"
  have "careful (loaded_in past) (net_acked n) (k ?r)"
  proof (cases ?r)
    case (Inl e)
    then show ?thesis using assms(2) pub_load by simp
  next
    case (Inr events)
    with pub_load(4) assms(3) have "loaded_in past \<union> set events = loaded_in past" by (auto simp: loaded_in_def)
    moreover have "careful (loaded_in past \<union> set events) (net_acked n) (k (Inr events))" using assms(2) pub_load(1) by simp
    ultimately show ?thesis using Inr by simp
  qed
  with pub_load show ?thesis by simp
next
  case (pub_publish event r b' k)
  then have "event \<in> loaded_in past" using assms(2) by simp
  then obtain db created limit events where load: "db \<in> past" "length created = length (db_outbox db)"
    "LoadUnpublished (map2 entry_of created (db_outbox db)) limit = Inr events" "event \<in> set events" by (auto simp: loaded_in_def)
  have "net_step c se past n n'" unfolding pub_publish(2) by (rule net_send [OF load pub_publish(4)])
  moreover have "careful (loaded_in past) (net_acked n') p'"
    using assms(2) unfolding pub_publish(1-3) by (cases r) simp_all
  ultimately show ?thesis unfolding pub_publish(2) by auto
next
  case (pub_mark i k)
  with assms(2) show ?thesis by (auto intro: net_mark)
qed (use assms(2) in auto)

text \<open>Hence every history with publishers of the sources is one that \<open>net_step\<close> allows.\<close>

lemma pub_history_net:
  assumes "pub_history c stored se h ps"
  shows "h \<noteq> [] \<and> net_history c stored se h \<and> (\<forall>p \<in> set ps. careful (loaded_in (net_db ` set h)) (net_acked (hd h)) p)"
  using assms
proof induction
  case (pub_begin n)
  then show ?case by (simp add: net_begin)
next
  case (pub_peer n past ps n')
  have "net_history c stored se (n' # n # past)" using pub_peer by (blast intro: net_next net_peer)
  moreover have "loaded_in (net_db ` set (n # past)) \<subseteq> loaded_in (net_db ` set (n' # n # past))" by (rule loaded_in_mono) auto
  ultimately show ?case using pub_peer(3) peer_step_acked [OF pub_peer(2)] by (auto intro: careful_mono)
next
  case (pub_round h ps limit)
  then show ?case by (simp add: careful_RunOnce)
next
  case (pub_step n past ps p qs n' p')
  let ?past = "net_db ` set (n # past)"
  have step: "(n' = n \<or> net_step c se ?past n n') \<and> net_acked n \<subseteq> net_acked n' \<and> careful (loaded_in ?past) (net_acked n') p'"
    by (rule publisher_step_allowed [OF pub_step(2)]) (use pub_step(3) in auto)
  let ?h = "if n' = n then n # past else n' # n # past"
  have "net_history c stored se ?h" using pub_step(3) step by (auto intro: net_next)
  moreover have "loaded_in ?past \<subseteq> loaded_in (net_db ` set ?h)" by (rule loaded_in_mono) auto
  moreover have "net_acked (hd ?h) = net_acked n'" by simp
  moreover have "careful (loaded_in (net_db ` set ?h)) (net_acked n') q" if "q \<in> set (ps @ p' # qs)" for q
  proof -
    have "careful (loaded_in ?past) (net_acked n') q"
      using that pub_step(3) step careful_mono [of "loaded_in ?past" "net_acked n" q "loaded_in ?past" "net_acked n'"] by auto
    with calculation(2) show ?thesis by (blast intro: careful_mono)
  qed
  ultimately show ?case by simp
qed

text \<open>C6. No event is lost between the outbox and the stream. Any number of publishers run \<open>RunOnce\<close>, call by call, between
  the steps of the other services, and any statement or publication may fail or be the last one of its
  process. With a broker that behaves as documented, at every moment each row of the outbox that is
  marked as published has its message in the stream, and every message in the stream is the event of a
  row of the outbox, under the type and the id of that row.\<close>

theorem published_rows_stored:
  assumes "pub_history c stored se (n # past) publishers" "nats_documented c stored"
  shows "(\<forall>row \<in> set (db_outbox (net_db n)). ob_published row \<longrightarrow> (\<exists>subject data. (subject, data, ob_event_id row) \<in> stored (net_broker n))) \<and>
    (\<forall>(subject, data, i) \<in> stored (net_broker n). \<exists>db \<in> net_db ` set (n # past). \<exists>row \<in> set (db_outbox db). \<exists>event.
       Deserialize data = Inr event \<and> subject = ob_event_type row \<and> i = ob_event_id row \<and> ev_eventId event = i \<and> ev_eventType event = subject)"
proof (intro conjI ballI impI, goal_cases)
  case (1 row)
  with net_history_ok [OF _ assms(2)] pub_history_net [OF assms(1)] show ?case by (force simp: net_ok_def stream_ids_def)
next
  case (2 msg)
  obtain subject data i where msg: "msg = (subject, data, i)" by (cases msg)
  have "from_outbox (net_db ` set (n # past)) msg" using 2 net_history_ok [OF _ assms(2)] pub_history_net [OF assms(1)] unfolding net_ok_def by fastforce
  with msg obtain db row created e where row: "db \<in> net_db ` set (n # past)" "row \<in> set (db_outbox db)"
    and e: "ParseEvent (entry_of created row) = Inr e" "subject = ob_event_type row" "data = Serialize e" "i = ob_event_id row"
    unfolding from_outbox_def by blast
  have "Deserialize data = Inr e" unfolding e(3) by (rule event_codec.dec_enc [OF ParseEvent_fields(3) [OF e(1)]])
  with row e ParseEvent_fields(1,2) [OF e(1)] show ?case unfolding msg prod.case by (intro bexI exI conjI) simp_all
qed

section \<open>A history\<close>

text \<open>A broker that keeps its messages in a list, drops duplicates and delivers the latest message of a subject.\<close>

type_synonym demo_broker = "(string \<times> json \<times> string) list"

definition ok_call :: "demo_broker \<Rightarrow> natsStatus \<times> demo_broker" where
  "ok_call b = (NATS_OK, b)"

definition demo_nats :: "demo_broker NatsClient" where
  "demo_nats = \<lparr>nc_GetText = (\<lambda>_. ''error''), nc_ConnectTo = (\<lambda>_. ok_call), nc_JetStream = ok_call, nc_GetStreamInfo = (\<lambda>_. ok_call),
     nc_StreamConfig_Init = ok_call, nc_AddStream = (\<lambda>_. ok_call), nc_PubOptions_Init = ok_call,
     nc_Publish = (\<lambda>subject data i b. (NATS_OK, if i \<in> set (map (snd \<circ> snd) b) then b else (subject, data, i) # b)),
     nc_SubOptions_Init = ok_call, nc_PullSubscribe = (\<lambda>_ _ _. ok_call),
     nc_Fetch = (\<lambda>subject _ b. case filter (\<lambda>(s, _, _). s = subject) b of
        [] \<Rightarrow> ((NATS_TIMEOUT, \<lparr>jm_handle = 0, jm_data = J_Null\<rparr>), b)
      | (_, data, _) # _ \<Rightarrow> ((NATS_OK, \<lparr>jm_handle = 0, jm_data = data\<rparr>), b)),
     nc_AckSync = (\<lambda>_. ok_call)\<rparr>"

lemma demo_documented: "nats_documented demo_nats set"
proof -
  have "publishes demo_nats set" by (auto simp: publishes_def demo_nats_def stream_ids_def image_iff split: if_splits)
  moreover have "fetches demo_nats set"
    unfolding fetches_def
  proof (intro allI impI)
    fix subject name b m b' assume "nc_Fetch demo_nats subject name b = ((NATS_OK, m), b')"
    then obtain x xs where x: "filter (\<lambda>(s, _, _). s = subject) b = x # xs" "m = \<lparr>jm_handle = 0, jm_data = fst (snd x)\<rparr>"
      by (auto simp: demo_nats_def split: list.splits)
    then have "x \<in> set (filter (\<lambda>(s, _, _). s = subject) b)" by simp
    with x(2) show "\<exists>i. (subject, jm_data m, i) \<in> set b" by auto
  qed
  moreover have "leaves set (nc_Fetch demo_nats subject name)" for subject name
    by (auto simp: leaves_def demo_nats_def split: list.splits)
  moreover have "leaves set ok_call" by (simp add: leaves_def ok_call_def)
  moreover have "nc_ConnectTo demo_nats url = ok_call" "nc_JetStream demo_nats = ok_call" "nc_GetStreamInfo demo_nats name = ok_call"
    "nc_StreamConfig_Init demo_nats = ok_call" "nc_AddStream demo_nats config = ok_call" "nc_PubOptions_Init demo_nats = ok_call"
    "nc_SubOptions_Init demo_nats = ok_call" "nc_PullSubscribe demo_nats subject name options = ok_call" "nc_AckSync demo_nats m = ok_call"
    for url name config subject options m by (simp_all add: demo_nats_def)
  ultimately show ?thesis by (simp add: nats_documented_def)
qed

definition demo_net :: "demo_broker NetState" where
  "demo_net = \<lparr>net_db = demo_risk_db, net_broker = [], net_acked = {}, net_received = {}\<rparr>"

definition demo_announced :: ServiceDb where
  "demo_announced = demo_risk_db\<lparr>sd_processed := [(''risk-engine'', ''block:12'')], db_outbox := [demo_risk_row]\<rparr>"

definition demo_message :: "string \<times> json \<times> string" where
  "demo_message = (RISK_LIQUIDATION_DETECTED, Serialize (candidate_event 5 demo_found), RiskEventId demo_found)"

lemma demo_event: "ParseEvent (entry_of 5 demo_risk_row) = Inr (candidate_event 5 demo_found)"
  by (rule ParseEvent_candidate [OF demo_found_fits])
    (simp add: candidate_row_def demo_risk_row_def bigint_def positive_bigint_def demo_found_def)

lemma demo_event_fields:
  "ev_eventType (candidate_event 5 demo_found) = RISK_LIQUIDATION_DETECTED" "ev_eventId (candidate_event 5 demo_found) = RiskEventId demo_found"
  by (simp_all add: candidate_event_def)

text \<open>The steps of a publisher with one event to send.\<close>

lemma demo_publisher_round:
  "\<exists>k0 k1 k2. RunOnce_calls 1 = CallLoad 1 k0 \<and> k0 (Inr [event]) = CallPublish event k1 \<and>
     k1 (Inr ()) = CallMark (ev_eventId event) k2 \<and> k2 (Inr ()) = Returned 1"
  by (simp add: RunOnce_calls_def publish_calls_def answered_def)

text \<open>A scan is committed, a publisher sends its event and marks it, and the liquidator receives it.\<close>

lemma demo_pub_history:
  "\<exists>h n. pub_history demo_nats set demo_setting (n # h) [Returned 1] \<and> net_broker n = [demo_message] \<and>
     net_received n = {candidate_event 5 demo_found} \<and> db_outbox (net_db n) = [demo_risk_row\<lparr>ob_published := True\<rparr>]"
proof -
  let ?e = "candidate_event 5 demo_found" and ?pub = "pub_history demo_nats set demo_setting"
  define n1 where "n1 = demo_net\<lparr>net_db := demo_announced\<rparr>"
  define n2 where "n2 = n1\<lparr>net_broker := [demo_message], net_acked := (if Inr () = (Inr () :: unit res) then {ev_eventId ?e} else {}) \<union> net_acked n1\<rparr>"
  define n3 where "n3 = n2\<lparr>net_db := (net_db n2)\<lparr>db_outbox := MarkPublished (ev_eventId ?e) (db_outbox (net_db n2))\<rparr>\<rparr>"
  define n4 where "n4 = n3\<lparr>net_broker := [demo_message], net_received := {?e} \<union> net_received n3\<rparr>"
  obtain k0 k1 k2 where k: "RunOnce_calls 1 = CallLoad 1 k0" "k0 (Inr [?e]) = CallPublish ?e k1" "k1 (Inr ()) = CallMark (ev_eventId ?e) k2"
    "k2 (Inr ()) = Returned 1" using demo_publisher_round by blast
  have id: "ob_event_id demo_risk_row = ev_eventId ?e" using ParseEvent_fields(2) [OF demo_event] by simp
  have outbox: "db_outbox (net_db n1) = [demo_risk_row]" "db_outbox (net_db n2) = [demo_risk_row]"
    "db_outbox (net_db n3) = [demo_risk_row\<lparr>ob_published := True\<rparr>]"
    by (simp_all add: n1_def n2_def n3_def demo_announced_def MarkPublished_def id)
  have "\<not> ob_published demo_risk_row" by (simp add: demo_risk_row_def)
  then have "[demo_risk_row] \<noteq> [demo_risk_row\<lparr>ob_published := True\<rparr>]"
    by (metis OutboxRow.select_convs(11) OutboxRow.surjective OutboxRow.update_convs(11) list.inject)
  then have changed: "n3 \<noteq> n2" using outbox(2,3) by auto
  have h0: "?pub [demo_net] []"
    by (rule pub_begin) (auto simp: demo_net_def demo_risk_db_def empty_services_def intro!: hist_start)
  have "service_step demo_setting (net_db ` set [demo_net]) (net_db demo_net) demo_announced"
    by (rule sys_scan [OF demo_scan_of]) (use demo_risk_commit in \<open>simp_all add: demo_net_def demo_announced_def\<close>)
  then have h1: "?pub [n1, demo_net] [RunOnce_calls 1]" unfolding n1_def by (intro pub_round pub_peer [OF h0] net_service)
  have "LoadUnpublished (map2 entry_of [5] (db_outbox (net_db n1))) 1 = Inr [?e]"
    using demo_event by (simp add: LoadUnpublished_def outbox) (simp add: demo_risk_row_def entry_of_def OutboxRow.extend_def)
  then have "publisher_step demo_nats n1 (RunOnce_calls 1) n1 (CallPublish ?e k1)"
    unfolding k(1) using pub_load [of "[5]" n1 demo_nats 1 k0] by (simp add: k outbox)
  from pub_step [where ps = "[]" and qs = "[]", simplified, OF h1 this] have h2: "?pub [n1, demo_net] [CallPublish ?e k1]" by simp
  have "jet_Publish demo_nats ?e (net_broker n1) = (Inr (), [demo_message])"
    unfolding jet_Publish_def Let_def bindp_def checked_call_run demo_event_fields
    by (simp add: demo_nats_def ok_call_def n1_def demo_net_def demo_message_def)
  from pub_publish [OF this, of k1] have "publisher_step demo_nats n1 (CallPublish ?e k1) n2 (CallMark (ev_eventId ?e) k2)"
    unfolding n2_def k(3) .
  from pub_step [where ps = "[]" and qs = "[]", simplified, OF h2 this]
  have h3: "?pub [n2, n1, demo_net] [CallMark (ev_eventId ?e) k2]" by (simp add: n2_def n1_def demo_net_def)
  from pub_step [where ps = "[]" and qs = "[]", simplified, OF h3 pub_mark [of demo_nats n2]]
  have h4: "?pub [n3, n2, n1, demo_net] [Returned 1]" using changed unfolding k(4) n3_def [symmetric] by simp
  have "event_fits ?e" by (rule ParseEvent_fields(3) [OF demo_event])
  then have "jet_Fetch demo_nats \<lparr>jc_subject = RISK_LIQUIDATION_DETECTED, jc_durableName = ''liquidator''\<rparr> (net_broker n3) =
      (Inr (Some \<lparr>js_message = \<lparr>jm_handle = 0, jm_data = Serialize ?e\<rparr>, js_event = ?e\<rparr>), [demo_message])"
    by (simp add: jet_Fetch_def nats_def demo_nats_def n3_def n2_def demo_message_def bindp_def ret_def liftp_def event_codec.dec_enc)
  from pub_peer [OF h4 net_fetch [OF this]] have h5: "?pub [n4, n3, n2, n1, demo_net] [Returned 1]" unfolding n4_def by simp
  have "net_broker n4 = [demo_message]" "net_received n4 = {?e}" "db_outbox (net_db n4) = [demo_risk_row\<lparr>ob_published := True\<rparr>]"
    using outbox(3) by (simp_all add: n4_def n3_def n2_def n1_def demo_net_def)
  with h5 show ?thesis by blast
qed

theorem broker_refines_system_witness:
  "\<exists>h (n :: demo_broker NetState). history demo_setting (map net_db (n # h)) \<and> net_broker n = [demo_message] \<and> net_received n = {candidate_event 5 demo_found}"
proof -
  obtain h n where h: "net_history demo_nats set demo_setting (n # h)" "net_broker n = [demo_message]"
    "net_received n = {candidate_event 5 demo_found}" using demo_pub_history pub_history_net by blast
  from broker_refines_system [OF h(1) demo_documented] h(2,3) show ?thesis by (intro exI [of _ h] exI [of _ n] conjI)
qed

theorem published_rows_stored_witness:
  "\<exists>h n. pub_history demo_nats set demo_setting (n # h) [Returned 1] \<and> db_outbox (net_db n) = [demo_risk_row\<lparr>ob_published := True\<rparr>] \<and>
     (\<exists>subject data. (subject, data, ob_event_id demo_risk_row) \<in> set (net_broker n))"
proof -
  obtain h n where h: "pub_history demo_nats set demo_setting (n # h) [Returned 1]"
    "db_outbox (net_db n) = [demo_risk_row\<lparr>ob_published := True\<rparr>]" using demo_pub_history by blast
  with published_rows_stored [OF h(1) demo_documented] show ?thesis by auto
qed

end
