(* ===== verification/Numerals.thy ===== *)
theory Numerals
  imports Rpc_Client
begin

text \<open>
  How the standard library reads unsigned numbers from text, as the command lines and environment variables
  of the processes rely on it.
\<close>

text \<open>\<open>std::stoull\<close> and \<open>std::stoul\<close> in base ten, with 64-bit results: white space, one sign, then digits as far as
  they go. A minus sign negates modulo \<open>2 ^ 64\<close>. The second result is the number of characters read.\<close>

definition sign_split :: "string \<Rightarrow> bool \<times> string" where
  "sign_split s =
     (case s of
        [] \<Rightarrow> (False, [])
      | c # rest \<Rightarrow> if c = CHR ''-'' then (True, rest) else if c = CHR ''+'' then (False, rest) else (False, s))"

definition std_stoull :: "string \<Rightarrow> string \<Rightarrow> (uint64 \<times> nat) res" where
  "std_stoull what s =
     (let (negative, text) = sign_split (dropWhile is_space s);
          digits = takeWhile dec_ok text;
          v = num_of 10 (map dec_val digits)
      in if digits = [] then Inl (Invalid_Argument what)
         else if v \<ge> 2 ^ 64 then Inl Out_Of_Range
         else Inr (if negative then - of_nat v else of_nat v, length s - length text + length digits))"

lemma dec_ok_neither: "dec_ok c \<Longrightarrow> \<not> is_space c \<and> c \<noteq> CHR ''-'' \<and> c \<noteq> CHR ''+''"
  by (auto simp: dec_ok_def is_space_def Let_def)

lemma takeWhile_digits:
  "list_all dec_ok ds \<Longrightarrow> rest = [] \<or> \<not> dec_ok (hd rest) \<Longrightarrow> takeWhile dec_ok (ds @ rest) = ds"
  by (induction ds) (cases rest; auto)+

lemma stoull_number:
  assumes "ds \<noteq> []" "list_all dec_ok ds" "rest = [] \<or> \<not> dec_ok (hd rest)" "num_of 10 (map dec_val ds) < 2 ^ 64"
  shows "std_stoull what (ds @ rest) = Inr (of_nat (num_of 10 (map dec_val ds)), length ds)"
    "std_stoull what (CHR ''-'' # ds @ rest) = Inr (- of_nat (num_of 10 (map dec_val ds)), Suc (length ds))"
proof -
  from assms(1,2) obtain c cs where ds: "ds = c # cs" "dec_ok c" by (cases ds) auto
  then have first: "dropWhile is_space (ds @ rest) = ds @ rest" "sign_split (ds @ rest) = (False, ds @ rest)"
    using dec_ok_neither [OF ds(2)] by (simp_all add: sign_split_def)
  have minus: "dropWhile is_space (CHR ''-'' # ds @ rest) = CHR ''-'' # ds @ rest"
    "sign_split (CHR ''-'' # ds @ rest) = (True, ds @ rest)" by (simp_all add: is_space_def sign_split_def)
  note digits = takeWhile_digits [OF assms(2,3)]
  show "std_stoull what (ds @ rest) = Inr (of_nat (num_of 10 (map dec_val ds)), length ds)"
    using assms(1,4) unfolding std_stoull_def first Let_def prod.case digits by (simp add: not_le)
  show "std_stoull what (CHR ''-'' # ds @ rest) = Inr (- of_nat (num_of 10 (map dec_val ds)), Suc (length ds))"
    using assms(1,4) unfolding std_stoull_def minus Let_def prod.case digits by (simp add: not_le)
qed

end
