(* ===== verification/Deployment.thy ===== *)
theory Deployment
  imports Numerals Liquidator_Safety Risk_Service Api_Server Indexer
begin

text \<open>
  How the processes are set up from their environment variables: the \<open>main\<close> functions of the indexer, the
  transaction manager, the liquidator, the risk worker and the API (\<open>Main.cpp\<close> and \<open>WorkerMain.cpp\<close>) up to
  the start of their loops, in the order in which they read the variables and may throw. Connecting to
  the database and to the broker and the registration of metrics are left out; making an RPC client from
  an endpoint is a parameter.
\<close>

section \<open>Environment variables\<close>

type_synonym environment = "string \<rightharpoonup> string"

definition EnvironmentOrDefault :: "environment \<Rightarrow> string \<Rightarrow> string \<Rightarrow> string" where
  "EnvironmentOrDefault env name fallback = (case env name of None \<Rightarrow> fallback | Some v \<Rightarrow> if v = [] then fallback else v)"

definition RequiredEnvironment :: "environment \<Rightarrow> string \<Rightarrow> string res" where
  "RequiredEnvironment env name =
     (case env name of
        None \<Rightarrow> Inl (Runtime_Error (''missing environment variable: '' @ name))
      | Some v \<Rightarrow> if v = [] then Inl (Runtime_Error (''missing environment variable: '' @ name)) else Inr v)"

text \<open>The transaction manager's and the indexer's variables must be read to the end; those of the liquidator
  and the risk worker need not.\<close>

definition checked_unsigned :: "string \<Rightarrow> string \<Rightarrow> uint64 res" where
  "checked_unsigned name v =
     bind_res (std_stoull ''stoull'' v) (\<lambda>(result, parsed).
     if parsed \<noteq> length v then Inl (Invalid_Argument (name @ '' must be an unsigned integer'')) else Inr result)"

definition tx_UnsignedEnvironment :: "environment \<Rightarrow> string \<Rightarrow> string \<Rightarrow> uint64 res" where
  "tx_UnsignedEnvironment env name fallback = checked_unsigned name (EnvironmentOrDefault env name fallback)"

definition StartBlock :: "environment \<Rightarrow> uint64 res" where
  "StartBlock env = checked_unsigned ''DLP_START_BLOCK'' (EnvironmentOrDefault env ''DLP_START_BLOCK'' ''0'')"

definition UnsignedEnvironment :: "environment \<Rightarrow> string \<Rightarrow> string \<Rightarrow> uint64 res" where
  "UnsignedEnvironment env name fallback = map_result fst (std_stoull ''stoull'' (EnvironmentOrDefault env name fallback))"

definition port_of :: "environment \<Rightarrow> string \<Rightarrow> string \<Rightarrow> 16 word res" where
  "port_of env name fallback = map_result (\<lambda>(n, _). ucast n) (std_stoull ''stoul'' (EnvironmentOrDefault env name fallback))"

definition RequiredAddress :: "environment \<Rightarrow> string \<Rightarrow> address res" where
  "RequiredAddress env name = bind_res (RequiredEnvironment env name) Address_FromHex"

section \<open>The processes\<close>

record IndexerSetup =
  xu_contracts :: ChainContracts
  xu_chain :: "ChainRpc \<times> ChainRpcState"
  xu_startBlock :: uint64
  xu_metricsPort :: "16 word"

definition indexer_setup :: "(string \<Rightarrow> RpcClient res) \<Rightarrow> environment \<Rightarrow> IndexerSetup res" where
  "indexer_setup newClient env =
     bind_res (RequiredAddress env ''DLP_POOL_ADDRESS'') (\<lambda>pool.
     bind_res (RequiredAddress env ''DLP_ORACLE_ADDRESS'') (\<lambda>oracle.
     bind_res (RequiredAddress env ''DLP_WETH_ADDRESS'') (\<lambda>weth.
     bind_res (RequiredAddress env ''DLP_USDC_ADDRESS'') (\<lambda>usdc.
     let contracts = \<lparr>cc_pool = pool, cc_oracle = oracle, cc_weth = weth, cc_usdc = usdc\<rparr> in
     bind_res (RpcChainClient_new newClient
        (MergeRpcEndpoints (EnvironmentOrDefault env ''DLP_RPC_URL'' ''http://127.0.0.1:8545'')
           (ParseRpcEndpoints (EnvironmentOrDefault env ''DLP_RPC_FAILOVER_URLS'' []))) contracts) (\<lambda>chain.
     bind_res (StartBlock env) (\<lambda>startBlock.
     bind_res (port_of env ''DLP_METRICS_PORT'' ''9101'') (\<lambda>port.
     Inr \<lparr>xu_contracts = contracts, xu_chain = chain, xu_startBlock = startBlock, xu_metricsPort = port\<rparr>)))))))"

record TxSetup =
  tu_rpc :: "RpcClient list \<times> TxRpcState"
  tu_signer :: Secp256k1Signer
  tu_config :: TxManagerConfig
  tu_metricsPort :: "16 word"

definition tx_setup ::
  "(string \<Rightarrow> RpcClient res) \<Rightarrow> secp256k1 \<Rightarrow> (bytes \<Rightarrow> hash256) \<Rightarrow> environment \<Rightarrow> TxSetup res" where
  "tx_setup newClient lib keccak env =
     (let defaultRpc = EnvironmentOrDefault env ''DLP_RPC_URL'' ''http://127.0.0.1:8545'';
          primaryRpc = EnvironmentOrDefault env ''DLP_RPC_PRIMARY_URL'' defaultRpc;
          broadcastRpcs = ParseRpcEndpoints (EnvironmentOrDefault env ''DLP_RPC_BROADCAST_URLS'' []);
          transactionRpcs = MergeRpcEndpoints primaryRpc broadcastRpcs
      in
      bind_res (tx_UnsignedEnvironment env ''DLP_METRICS_PORT'' ''9104'') (\<lambda>port.
      bind_res (RpcTransactionClient_new newClient (hd transactionRpcs) (tl transactionRpcs)) (\<lambda>rpc.
      bind_res (bind_res (RequiredEnvironment env ''DLP_OPERATOR_PRIVATE_KEY'') (Secp256k1Signer_new lib keccak)) (\<lambda>signer.
      bind_res (RequiredAddress env ''DLP_ORACLE_ADDRESS'') (\<lambda>oracle.
      bind_res (RequiredAddress env ''DLP_LIQUIDATION_MANAGER_ADDRESS'') (\<lambda>liquidationManager.
      bind_res (tx_UnsignedEnvironment env ''DLP_TX_CONFIRMATIONS'' ''1'') (\<lambda>confirmations.
      bind_res (tx_UnsignedEnvironment env ''DLP_TX_REPLACEMENT_BLOCKS'' ''3'') (\<lambda>replacement.
      bind_res (tx_UnsignedEnvironment env ''DLP_TX_MAX_RETRIES'' ''3'') (\<lambda>retries.
      Inr \<lparr>tu_rpc = rpc, tu_signer = signer,
           tu_config = \<lparr>cf_confirmationDepth = confirmations, cf_replacementAfterBlocks = replacement,
              cf_maximumRetries = ucast retries, cf_approvedCalls = approved_calls keccak oracle liquidationManager\<rparr>,
           tu_metricsPort = ucast port\<rparr>)))))))))"

record LiquidatorSetup =
  lu_workerId :: string
  lu_leaseSeconds :: int
  lu_contracts :: LiquidationContracts
  lu_metricsPort :: "16 word"
  lu_chainId :: uint256
  lu_client :: RpcClient
  lu_config :: LiquidatorConfig

text \<open>The lease is a \<open>std::chrono::seconds\<close>, a signed number.\<close>

definition liquidator_setup :: "(string \<Rightarrow> RpcClient res) \<Rightarrow> environment \<Rightarrow> LiquidatorSetup res" where
  "liquidator_setup newClient env =
     (let rpcUrl = EnvironmentOrDefault env ''DLP_RPC_URL'' ''http://127.0.0.1:8545'' in
     bind_res (UnsignedEnvironment env ''DLP_LIQUIDATION_LEASE_SECONDS'' ''30'') (\<lambda>lease.
     bind_res (RequiredAddress env ''DLP_OPERATOR_ADDRESS'') (\<lambda>operatorAddress.
     bind_res (RequiredAddress env ''DLP_POOL_ADDRESS'') (\<lambda>pool.
     bind_res (RequiredAddress env ''DLP_LIQUIDATION_MANAGER_ADDRESS'') (\<lambda>liquidationManager.
     bind_res (RequiredAddress env ''DLP_ORACLE_ADDRESS'') (\<lambda>oracle.
     bind_res (RequiredAddress env ''DLP_WETH_ADDRESS'') (\<lambda>weth.
     bind_res (RequiredAddress env ''DLP_USDC_ADDRESS'') (\<lambda>usdc.
     let contracts = \<lparr>lt_pool = pool, lt_liquidationManager = liquidationManager, lt_oracle = oracle, lt_weth = weth, lt_usdc = usdc\<rparr> in
     bind_res (UnsignedEnvironment env ''DLP_METRICS_PORT'' ''9105'') (\<lambda>port.
     bind_res (bind_res (newClient rpcUrl) (\<lambda>client. fst (rpc_GetChainId client 1))) (\<lambda>chainId.
     bind_res (newClient rpcUrl) (\<lambda>client.
     bind_res (FromDecimal (EnvironmentOrDefault env ''DLP_MIN_LIQUIDATION_PROFIT_USD_WAD'' ''0'')) (\<lambda>profit.
     bind_res (UnsignedEnvironment env ''DLP_MIN_COLLATERAL_BPS'' ''9900'') (\<lambda>bps.
     Inr \<lparr>lu_workerId = EnvironmentOrDefault env ''DLP_LIQUIDATOR_WORKER_ID'' ''liquidator-local'', lu_leaseSeconds = sint lease,
          lu_contracts = contracts, lu_metricsPort = ucast port, lu_chainId = chainId, lu_client = client,
          lu_config = \<lparr>lg_operatorAddress = operatorAddress, lg_liquidationManager = lt_liquidationManager contracts,
             lg_minimumProfitUsdWad = profit, lg_minimumCollateralBps = bps\<rparr>\<rparr>)))))))))))))"

record RiskSetup =
  ru_metricsPort :: "16 word"
  ru_chainId :: uint256
  ru_scanLimit :: nat
  ru_rescanSeconds :: int

definition risk_setup :: "(string \<Rightarrow> RpcClient res) \<Rightarrow> environment \<Rightarrow> RiskSetup res" where
  "risk_setup newClient env =
     bind_res (UnsignedEnvironment env ''DLP_METRICS_PORT'' ''9103'') (\<lambda>port.
     bind_res (newClient (EnvironmentOrDefault env ''DLP_RPC_URL'' ''http://127.0.0.1:8545'')) (\<lambda>rpc.
     bind_res (fst (rpc_GetChainId rpc 1)) (\<lambda>chainId.
     bind_res (UnsignedEnvironment env ''DLP_LIQUIDATION_SCAN_LIMIT'' ''1000'') (\<lambda>limit.
     bind_res (UnsignedEnvironment env ''DLP_RISK_RESCAN_SECONDS'' ''30'') (\<lambda>interval.
     Inr \<lparr>ru_metricsPort = ucast port, ru_chainId = chainId, ru_scanLimit = unat limit, ru_rescanSeconds = sint interval\<rparr>)))))"

record ApiSetup =
  au_clients :: "RpcClient list"
  au_state :: TxRpcState
  au_chainId :: uint256
  au_address :: string
  au_port :: "16 word"

definition api_setup :: "(string \<Rightarrow> RpcClient res) \<Rightarrow> environment \<Rightarrow> ApiSetup res" where
  "api_setup newClient env =
     (let rpcUrl = EnvironmentOrDefault env ''DLP_RPC_URL'' ''http://127.0.0.1:8545'';
          parsed = ParseRpcEndpoints (EnvironmentOrDefault env ''DLP_READ_RPC_URLS'' []);
          readEndpoints = (if parsed = [] then [rpcUrl] else parsed)
      in
      bind_res (port_of env ''DLP_METRICS_PORT'' ''9106'') (\<lambda>_.
      bind_res (RpcApiChain_new newClient readEndpoints) (\<lambda>(clients, s).
      case api_GetChainId clients s of
        (Inl e, _) \<Rightarrow> Inl e
      | (Inr chainId, s) \<Rightarrow>
          bind_res (port_of env ''DLP_API_PORT'' ''8080'') (\<lambda>port.
          Inr \<lparr>au_clients = clients, au_state = s, au_chainId = chainId,
               au_address = EnvironmentOrDefault env ''DLP_API_ADDRESS'' ''127.0.0.1'', au_port = port\<rparr>))))"

end
