(* ===== verification/Deployment_Properties.thy ===== *)
theory Deployment_Properties
  imports Deployment
begin

text \<open>
  What the setup of the processes guarantees: how numbers are read from the environment, and that
  processes that share an environment agree, so that the transaction manager approves what the
  liquidator queues.
\<close>

section \<open>Numbers\<close>

text \<open>Numbers from the environment. A negative number is taken modulo \<open>2 ^ 64\<close> by every process. Text after the
  digits is refused by the transaction manager and the indexer; the liquidator and the risk worker ignore it.\<close>

theorem UnsignedEnvironment_accepts:
  assumes "env name = Some (sign @ ds @ rest)" "sign = [] \<or> sign = ''-''" "ds \<noteq> []" "list_all dec_ok ds"
    and "rest = [] \<or> \<not> dec_ok (hd rest)" "num_of 10 (map dec_val ds) < 2 ^ 64"
    and "v = (if sign = [] then of_nat (num_of 10 (map dec_val ds)) else - of_nat (num_of 10 (map dec_val ds)))"
  shows "UnsignedEnvironment env name fallback = Inr v \<and>
    tx_UnsignedEnvironment env name fallback =
      (if rest = [] then Inr v else Inl (Invalid_Argument (name @ '' must be an unsigned integer'')))"
  using assms(1-3,7) stoull_number [OF assms(3-6), of "''stoull''"]
  by (auto simp: UnsignedEnvironment_def tx_UnsignedEnvironment_def checked_unsigned_def EnvironmentOrDefault_def)

theorem UnsignedEnvironment_accepts_witness:
  "UnsignedEnvironment [''DLP_LIQUIDATION_LEASE_SECONDS'' \<mapsto> ''30m''] ''DLP_LIQUIDATION_LEASE_SECONDS'' ''30'' = Inr 30 \<and>
   tx_UnsignedEnvironment [''DLP_TX_CONFIRMATIONS'' \<mapsto> ''-1''] ''DLP_TX_CONFIRMATIONS'' ''1'' = Inr 18446744073709551615"
proof -
  have "UnsignedEnvironment [''DLP_LIQUIDATION_LEASE_SECONDS'' \<mapsto> ''30m''] ''DLP_LIQUIDATION_LEASE_SECONDS'' ''30'' = Inr 30"
    using UnsignedEnvironment_accepts [of "[''DLP_LIQUIDATION_LEASE_SECONDS'' \<mapsto> ''30m'']" "''DLP_LIQUIDATION_LEASE_SECONDS''" "[]" "''30''" "''m''" 30]
    by (simp add: dec_ok_def dec_val_def num_of_def)
  moreover have "tx_UnsignedEnvironment [''DLP_TX_CONFIRMATIONS'' \<mapsto> ''-1''] ''DLP_TX_CONFIRMATIONS'' ''1'' = Inr 18446744073709551615"
    using UnsignedEnvironment_accepts [of "[''DLP_TX_CONFIRMATIONS'' \<mapsto> ''-1'']" "''DLP_TX_CONFIRMATIONS''" "''-''" "''1''" "[]" "- 1"]
    by (simp add: dec_ok_def dec_val_def num_of_def)
  ultimately show ?thesis by (rule conjI)
qed

section \<open>Agreement\<close>

lemma RequiredAddress_length: "RequiredAddress env name = Inr a \<Longrightarrow> length a = 20"
  by (auto simp: RequiredAddress_def dest: Address_FromHex_length elim!: bind_resE)

lemma setups_agree:
  assumes "liquidator_setup newClient env = Inr L" "tx_setup newClient' lib keccak env = Inr T"
  shows "cf_approvedCalls (tu_config T) = approved_calls keccak (lt_oracle (lu_contracts L)) (lg_liquidationManager (lu_config L))"
    "length (lt_weth (lu_contracts L)) = 20" "length (lt_usdc (lu_contracts L)) = 20" "length (lg_liquidationManager (lu_config L)) = 20"
  using assms by (auto simp: liquidator_setup_def tx_setup_def Let_def elim!: bind_resE dest: RequiredAddress_length)

text \<open>C4. Processes that share an environment agree. When the liquidator and the transaction manager start from the
  same variables, then after any number of rounds of the liquidator, whatever the broker, the clock, the
  node and the other services do within the invariant, the transaction manager approves every liquidation
  transaction that it reads from the table.\<close>

theorem deployed_liquidations_approved:
  assumes "liquidator_setup newClient env = Inr L" "tx_setup newClient' lib keccak env = Inr T" "tm_config tm = tu_config T"
    and "lv_chain sv = RpcLiquidationChain keccak (lu_client L) (lu_contracts L)" "lv_keccak sv = keccak" "lv_config sv = lu_config L"
    and "others_keep (service_ok keccak (lu_client L) (lu_contracts L) (lu_config L)) (lv_env sv)"
    and "service_ok keccak (lu_client L) (lu_contracts L) (lu_config L) (wk_db w)" "\<forall>x. length (keccak x) = 32"
    and "r \<in> set (sd_tx (wk_db (liquidator_loop n sv w)))" "liquidation_tx r" "ParseJob r = Inr job"
  shows "IsApproved tm job"
proof -
  have sv: "lv_chain sv = RpcLiquidationChain (lv_keccak sv) (lu_client L) (lu_contracts L)"
    "others_keep (service_ok (lv_keccak sv) (lu_client L) (lu_contracts L) (lv_config sv)) (lv_env sv)"
    using assms(4-7) by simp_all
  have "service_ok (lv_keccak sv) (lu_client L) (lu_contracts L) (lv_config sv) (wk_db (liquidator_loop n sv w))"
    unfolding liquidator_loop_def by (rule keeps_service_loop [OF service_ok_round [OF sv]]) (use assms(5,6,8) in simp)
  then have "tx_justified keccak (lu_client L) (lu_contracts L) (lu_config L) r"
    using assms(5,6,10,11) by (simp add: service_ok_def)
  from justified_approved [OF this assms(12,9), of "lt_oracle (lu_contracts L)" tm] setups_agree [OF assms(1,2)] assms(3)
  show ?thesis by simp
qed

section \<open>An environment\<close>

definition demo_env :: environment where
  "demo_env = [''DLP_POOL_ADDRESS'' \<mapsto> Address_ToHex (replicate 20 1) True, ''DLP_ORACLE_ADDRESS'' \<mapsto> Address_ToHex (replicate 20 2) True,
     ''DLP_WETH_ADDRESS'' \<mapsto> Address_ToHex (replicate 20 3) True, ''DLP_USDC_ADDRESS'' \<mapsto> Address_ToHex (replicate 20 4) True,
     ''DLP_LIQUIDATION_MANAGER_ADDRESS'' \<mapsto> Address_ToHex (replicate 20 6) True,
     ''DLP_OPERATOR_ADDRESS'' \<mapsto> Address_ToHex (replicate 20 7) True,
     ''DLP_OPERATOR_PRIVATE_KEY'' \<mapsto> Hex_Encode (replicate 32 5) True, ''DLP_MIN_LIQUIDATION_PROFIT_USD_WAD'' \<mapsto> ToDecimal 1000]"

lemma demo_address: "demo_env name = Some (Address_ToHex a True) \<Longrightarrow> length a = 20 \<Longrightarrow> RequiredAddress demo_env name = Inr a"
  using Address_FromHex_ToHex [of a True]
  by (simp add: RequiredAddress_def RequiredEnvironment_def Address_ToHex_def Hex_Encode_def)

lemma demo_numbers:
  "UnsignedEnvironment demo_env ''DLP_LIQUIDATION_LEASE_SECONDS'' ''30'' = Inr 30"
  "UnsignedEnvironment demo_env ''DLP_METRICS_PORT'' ''9105'' = Inr 9105"
  "UnsignedEnvironment demo_env ''DLP_MIN_COLLATERAL_BPS'' ''9900'' = Inr 9900"
  "tx_UnsignedEnvironment demo_env ''DLP_METRICS_PORT'' ''9104'' = Inr 9104"
  "tx_UnsignedEnvironment demo_env ''DLP_TX_CONFIRMATIONS'' ''1'' = Inr 1"
  "tx_UnsignedEnvironment demo_env ''DLP_TX_REPLACEMENT_BLOCKS'' ''3'' = Inr 3"
  "tx_UnsignedEnvironment demo_env ''DLP_TX_MAX_RETRIES'' ''3'' = Inr 3"
  by (simp_all add: UnsignedEnvironment_def tx_UnsignedEnvironment_def checked_unsigned_def EnvironmentOrDefault_def demo_env_def
    std_stoull_def sign_split_def is_space_def dec_ok_def dec_val_def num_of_def)

lemma demo_required:
  "RequiredAddress demo_env ''DLP_POOL_ADDRESS'' = Inr (replicate 20 1)" "RequiredAddress demo_env ''DLP_ORACLE_ADDRESS'' = Inr (replicate 20 2)"
  "RequiredAddress demo_env ''DLP_WETH_ADDRESS'' = Inr (replicate 20 3)" "RequiredAddress demo_env ''DLP_USDC_ADDRESS'' = Inr (replicate 20 4)"
  "RequiredAddress demo_env ''DLP_LIQUIDATION_MANAGER_ADDRESS'' = Inr (replicate 20 6)"
  "RequiredAddress demo_env ''DLP_OPERATOR_ADDRESS'' = Inr (replicate 20 7)"
  by (rule demo_address; simp add: demo_env_def)+

lemma demo_liquidator_setup:
  "\<exists>L. liquidator_setup (\<lambda>_. Inr demo_liq) demo_env = Inr L \<and> lu_client L = demo_liq \<and> lu_contracts L = Liquidation_Properties.demo_contracts \<and>
     lu_config L = demo_config"
proof -
  have "FromDecimal (EnvironmentOrDefault demo_env ''DLP_MIN_LIQUIDATION_PROFIT_USD_WAD'' ''0'') = Inr 1000"
    using FromDecimal_ToDecimal [of 1000] by (auto simp: EnvironmentOrDefault_def demo_env_def FromDecimal_def)
  then show ?thesis
    by (simp add: liquidator_setup_def Let_def demo_numbers demo_required demo_market_calls(1) [unfolded One_nat_def]
      Liquidation_Properties.demo_contracts_def demo_config_def)
qed

definition demo_keys :: secp256k1 where
  "demo_keys = demo_lib\<lparr>pubkey_create := \<lambda>_. Some (replicate 65 4)\<rparr>"

lemma demo_tx_setup: "\<exists>T. tx_setup (\<lambda>_. Inr demo_liq) demo_keys demo_hash demo_env = Inr T"
proof -
  have "RequiredEnvironment demo_env ''DLP_OPERATOR_PRIVATE_KEY'' = Inr (Hex_Encode (replicate 32 5) True)"
    by (simp add: RequiredEnvironment_def demo_env_def Hex_Encode_def)
  then have "\<exists>s. bind_res (RequiredEnvironment demo_env ''DLP_OPERATOR_PRIVATE_KEY'') (Secp256k1Signer_new demo_keys demo_hash) = Inr s"
    by (simp add: Secp256k1Signer_new_def Hex_Decode_Encode demo_keys_def demo_lib_def Let_def)
  then obtain s where s: "bind_res (RequiredEnvironment demo_env ''DLP_OPERATOR_PRIVATE_KEY'') (Secp256k1Signer_new demo_keys demo_hash) = Inr s" ..
  have "\<exists>c. RpcTransactionClient_new (\<lambda>_. Inr demo_liq) p a = Inr c" for p a
    by (simp add: RpcTransactionClient_new_def map_res_total [where g = "\<lambda>_. demo_liq"])
  then obtain c where "RpcTransactionClient_new (\<lambda>_. Inr demo_liq) p a = Inr (c p a)" for p a by metis
  with s show ?thesis by (simp only: tx_setup_def Let_def demo_numbers demo_required res_simps) blast
qed

theorem deployed_liquidations_approved_witness:
  "\<exists>T job. tx_setup (\<lambda>_. Inr demo_liq) demo_keys demo_hash demo_env = Inr T \<and> ParseJob demo_tx_row = Inr job \<and>
     IsApproved (demo_sender\<lparr>tm_config := tu_config T\<rparr>) job"
proof -
  obtain L where L: "liquidator_setup (\<lambda>_. Inr demo_liq) demo_env = Inr L" "lu_client L = demo_liq"
    "lu_contracts L = Liquidation_Properties.demo_contracts" "lu_config L = demo_config" using demo_liquidator_setup by blast
  obtain T where T: "tx_setup (\<lambda>_. Inr demo_liq) demo_keys demo_hash demo_env = Inr T" using demo_tx_setup by blast
  obtain job where job: "ParseJob demo_tx_row = Inr job" using demo_tx_parse by blast
  have "IsApproved (demo_sender\<lparr>tm_config := tu_config T\<rparr>) job"
  proof (rule deployed_liquidations_approved [OF L(1) T _ _ _ _ demo_others _ _ _ demo_tx job])
    show "service_ok demo_hash (lu_client L) (lu_contracts L) (lu_config L) (wk_db demo_working)"
      by (simp add: service_ok_def demo_working_def demo_queue_def empty_services_def jobs_ok_def demo_due_defs)
    show "\<forall>x. length (demo_hash x) = 32" by (auto simp: demo_hash_def min_def)
    show "demo_tx_row \<in> set (sd_tx (wk_db (liquidator_loop 1 demo_service demo_working)))" using demo_working_round by simp
  qed (simp_all add: L demo_service_def)
  with T job show ?thesis by blast
qed

end
