(* ===== verification/Reorg_Count.thy ===== *)
theory Reorg_Count
  imports Indexer_Properties
begin

text \<open>
  What the counter of reorganisations in the status of the indexer counts. The counter is incremented
  before the rewind is written, and each rewind that is committed leaves an event of type
  \<open>chain.reorg\<close> in the outbox; so the two agree up to the rounds that ended with an exception.
\<close>

section \<open>Events of reorganisations\<close>

definition reorg_rows :: "IndexerDb \<Rightarrow> nat" where
  "reorg_rows db = length (filter (\<lambda>r. ob_event_type r = ''chain.reorg'') (db_outbox db))"

definition reorg_id :: "uint256 \<Rightarrow> nat \<Rightarrow> string" where
  "reorg_id cid v = ''chain.reorg:'' @ ToDecimal cid @ '':'' @ show_nat v"

text \<open>No event of a reorganisation carries a version that its chain has not reached; the next one has a new id.\<close>

definition reorg_ids_used :: "IndexerDb \<Rightarrow> bool" where
  "reorg_ids_used db \<longleftrightarrow> (\<forall>cid v. reorg_id cid v \<in> ob_event_id ` set (db_outbox db) \<longrightarrow> v < next_version db cid)"

lemma decimal_prefix_inject:
  assumes "show_nat m @ '':'' @ s = show_nat n @ '':'' @ t"
  shows "m = n \<and> s = t"
proof -
  have no_colon: "\<forall>c \<in> set (show_nat k). c \<noteq> CHR '':''" for k
    using show_nat_dec(1) [of k] by (auto simp: list_all_iff dec_ok_def)
  have "takeWhile (\<lambda>c. c \<noteq> CHR '':'') (show_nat k @ '':'' @ u) = show_nat k" for k u
    using no_colon [of k] by (simp add: takeWhile_append2)
  then have "show_nat m = show_nat n" using assms by metis
  with assms show ?thesis by (simp add: show_nat_inject)
qed

lemma reorg_id_inject: "reorg_id cid v = reorg_id cid' v' \<longleftrightarrow> cid = cid' \<and> v = v'"
  using decimal_prefix_inject [of "unat cid" "show_nat v" "unat cid'" "show_nat v'"]
  by (auto simp: reorg_id_def ToDecimal_def show_nat_inject word_unat_eq_iff)

lemma ToDecimal_inject: "ToDecimal cid = ToDecimal cid' \<longleftrightarrow> cid = cid'"
  by (simp add: ToDecimal_def show_nat_inject word_unat_eq_iff)

lemma next_version_update:
  "db_versions db' = (db_versions db)(ToDecimal cid \<mapsto> next_version db cid) \<Longrightarrow>
    next_version db' c = (if c = cid then Suc (next_version db cid) else next_version db c)"
  by (simp add: next_version_def ToDecimal_inject)

lemma RewindTo_versions:
  assumes "pg_RewindTo db cid a s = Inr db'"
  shows "db_versions db' = (db_versions db)(ToDecimal cid \<mapsto> next_version db cid)"
  using assms unfolding pg_RewindTo_def Let_def
  by (auto simp: InsertOutboxEvent_def set_cursor_def uncanonical_above_def map_result_Inr
      simp del: append.simps dest!: Advance_version Replace_versions elim!: bind_resE split: option.splits)

lemma CommitBlock_versions:
  assumes "pg_CommitBlock db b logs s = Inr db'"
  shows "db_versions db' = (db_versions db)(ToDecimal (ib_chainId b) \<mapsto> next_version db (ib_chainId b))"
  using assms unfolding pg_CommitBlock_def Let_def
  by (auto simp: InsertOutboxEvent_def set_cursor_def upsert_block_def next_version_def Let_def
      simp del: append.simps dest!: Advance_version Replace_versions elim!: bind_resE split: if_splits)

text \<open>A rewind adds exactly one event of a reorganisation, a commit none.\<close>

lemma RewindTo_reorg_rows:
  assumes "pg_RewindTo db cid a s = Inr db'" "reorg_ids_used db"
  shows "reorg_rows db' = Suc (reorg_rows db)" "reorg_ids_used db'"
proof -
  obtain r where r: "db_outbox db' = outbox_insert r (db_outbox db)" "ob_event_id r = reorg_id cid (next_version db cid)"
      "ob_event_type r = ''chain.reorg''"
    using RewindTo_outbox [OF assms(1)] by (simp add: reorg_id_def del: append.simps)
  have "ob_event_id r \<notin> ob_event_id ` set (db_outbox db)"
    using assms(2) r(2) unfolding reorg_ids_used_def by (metis less_irrefl)
  with r(1) have out: "db_outbox db' = db_outbox db @ [r]" by (simp add: outbox_insert_cases)
  then show "reorg_rows db' = Suc (reorg_rows db)" by (simp add: reorg_rows_def r(3))
  show "reorg_ids_used db'"
    using assms(2) unfolding reorg_ids_used_def out next_version_update [OF RewindTo_versions [OF assms(1)]]
    by (auto simp: r(2) reorg_id_inject intro: less_SucI)
qed

lemma CommitBlock_reorg_rows:
  assumes "pg_CommitBlock db b logs s = Inr db'" "reorg_ids_used db"
  shows "reorg_rows db' = reorg_rows db" "reorg_ids_used db'"
proof -
  obtain r t where r: "db_outbox db' = outbox_insert r (db_outbox db)" "ob_event_id r = ''chain.block.processed:'' @ t"
      "ob_event_type r = ''chain.block.processed''"
    using CommitBlock_outbox [OF assms(1)] by (simp del: append.simps)
  show "reorg_rows db' = reorg_rows db" by (simp add: reorg_rows_def r(1,3) outbox_insert_cases)
  have "reorg_id cid v \<noteq> ob_event_id r" for cid v by (simp add: reorg_id_def r(2))
  then show "reorg_ids_used db'"
    using assms(2) unfolding reorg_ids_used_def r(1) next_version_update [OF CommitBlock_versions [OF assms(1)]]
    by (auto simp: outbox_insert_cases intro: less_SucI split: if_splits)
qed

section \<open>The counter of the status\<close>

text \<open>Since there were \<open>r\<close> events, \<open>reorg_rows - r\<close> reorganisations have been written and \<open>d\<close> have been counted but not
  written; \<open>n\<close> is a lower bound of the number of events.\<close>

definition reorgs_counted :: "nat \<Rightarrow> nat \<Rightarrow> nat \<Rightarrow> IndexerDb World \<Rightarrow> bool" where
  "reorgs_counted r n d w \<longleftrightarrow> reorg_ids_used (w_db w) \<and> r \<le> n \<and> n \<le> reorg_rows (w_db w) \<and>
     is_reorgs (w_status w) = of_nat (reorg_rows (w_db w) - r + d)"

abbreviation counts :: "nat \<Rightarrow> nat \<Rightarrow> nat \<Rightarrow> (IndexerDb World, 'a) prog \<Rightarrow> bool" where
  "counts r n d m \<equiv> valid (reorgs_counted r n d) m (\<lambda>_. reorgs_counted r n d) (\<lambda>_ w. reorgs_counted r n d w \<or> reorgs_counted r n (Suc d) w)"

lemma reorgs_counted_calls:
  "counts r n d (chain_call f)"
  "counts r n d (store_read g)"
  "counts r n d (liftp x)"
  "(\<And>s. is_reorgs (u s) = is_reorgs s) \<Longrightarrow> counts r n d (set_status u)"
  by (auto simp: valid_def reorgs_counted_def set_status_def modify_def chain_call_def store_read_def query_def liftp_def split: sum.splits)

lemma reorgs_counted_ends:
  "counts r n d (ret x)"
  "counts r n d (raise e)"
  by (simp_all add: valid_ret valid_raise)

lemma reorgs_counted_bindp: "counts r n d m \<Longrightarrow> (\<And>x. counts r n d (f x)) \<Longrightarrow> counts r n d (bindp m f)"
  by (rule valid_bindp)

lemmas reorgs_counted_intros = valid_if valid_case_option reorgs_counted_bindp reorgs_counted_calls reorgs_counted_ends

lemma reorgs_counted_ancestor: "counts r n d (ancestor_loop ix cid k)"
proof (induction "unat k" arbitrary: k rule: less_induct)
  case less
  show ?case unfolding ancestor_loop.simps [of ix cid k] by (intro reorgs_counted_intros less) (rule unat_pred_less)
qed

text \<open>Between the increment and the transaction the counter is one ahead.\<close>

lemma reorgs_counted_Rewind:
  assumes "ix_store ix = pg_store"
  shows "counts r n d (Rewind ix cid a)"
proof -
  let ?E = "\<lambda>_ w. reorgs_counted r n (Suc d) w"
  have bump: "valid (reorgs_counted r n d) (set_status (\<lambda>s. s\<lparr>is_reorgs := is_reorgs s + 1\<rparr>)) (\<lambda>_. reorgs_counted r n (Suc d)) ?E"
    by (auto simp: valid_def reorgs_counted_def set_status_def modify_def)
  have state: "valid (reorgs_counted r n (Suc d)) (store_read g) (\<lambda>_. reorgs_counted r n (Suc d)) ?E"
    "valid (reorgs_counted r n (Suc d)) (liftp x) (\<lambda>_. reorgs_counted r n (Suc d)) ?E"
    "valid (reorgs_counted r n (Suc d)) (ret y) (\<lambda>_. reorgs_counted r n (Suc d)) ?E" for g :: "IndexerDb \<Rightarrow> RawLog list res" and x y
    by (auto simp: valid_def reorgs_counted_def store_read_def query_def liftp_def ret_def split: sum.splits)
  have written: "valid (reorgs_counted r n (Suc d)) (store_write (\<lambda>db. st_RewindTo (ix_store ix) db cid a s)) (\<lambda>_. reorgs_counted r n d) ?E" for s
    by (rule valid_store_write)
      (auto simp: reorgs_counted_def assms pg_store_def RewindTo_reorg_rows Suc_diff_le)
  have "valid (reorgs_counted r n d) (Rewind ix cid a) (\<lambda>_. reorgs_counted r n d) ?E"
    unfolding Rewind_def by (intro valid_bindp [OF bump] valid_bindp [OF _ written] valid_case_option valid_bindp [OF state(1)] state)
  then show ?thesis by (rule valid_weaken) auto
qed

lemma reorgs_counted_IndexBlock:
  assumes "ix_store ix = pg_store"
  shows "counts r n d (IndexBlock ix cid h)"
proof -
  have "counts r n d (store_write (\<lambda>db. st_CommitBlock (ix_store ix) db b logs s))" for b logs s
    by (rule valid_store_write) (auto simp: reorgs_counted_def assms pg_store_def CommitBlock_reorg_rows)
  then show ?thesis unfolding IndexBlock_def by (intro reorgs_counted_intros)
qed

lemma reorgs_counted_sync_loop:
  assumes "ix_store ix = pg_store"
  shows "counts r n d (sync_loop fuel ix cid m)"
proof (induction fuel arbitrary: m)
  case (Suc fuel)
  have "counts r n d (ReconcileCursor ix cid h)" for h
    unfolding ReconcileCursor_def FindCommonAncestor_def
    by (intro reorgs_counted_intros reorgs_counted_ancestor reorgs_counted_Rewind [OF assms])
  then show ?case
    unfolding sync_loop.simps Let_def FindCommonAncestor_def
    by (intro reorgs_counted_intros reorgs_counted_ancestor reorgs_counted_Rewind [OF assms] reorgs_counted_IndexBlock [OF assms] Suc) simp_all
qed (simp add: reorgs_counted_ends)

lemma reorgs_counted_SyncToHead:
  assumes "ix_store ix = pg_store"
  shows "counts r n d (SyncToHead fuel ix)"
  unfolding SyncToHead_def by (intro reorgs_counted_intros reorgs_counted_sync_loop [OF assms])

end
