(* ===== verification/Processes.thy ===== *)
theory Processes
  imports Reorg_Count Tx_Theorems Pipeline
begin

text \<open>
  The loops of the remaining processes: the indexer and the transaction manager (\<open>Main.cpp\<close>) and the
  publisher of the outbox (\<open>OutboxMain.cpp\<close>), with the numbers that they report. A process runs one round and exits (\<open>--once\<close>), or runs rounds until
  it receives a signal; an exception ends it in the first case only. The numbers are those handed to
  the metrics library, before it makes them floating point.
\<close>

section \<open>Running a process\<close>

text \<open>The command line: \<open>None\<close> is a wrong one, answered with the usage and exit code 2.\<close>

definition once_argument :: "string list \<Rightarrow> bool option" where
  "once_argument args = (case args of [] \<Rightarrow> Some False | [a] \<Rightarrow> if a = ''--once'' then Some True else None | _ \<Rightarrow> None)"

text \<open>The loop with the number of further rounds before the signal; a round that has not ended (its value is
  \<open>None\<close>) leaves the process running, without an exit code.\<close>

fun process_loop :: "bool \<Rightarrow> nat \<Rightarrow> ('s, 'a option) prog \<Rightarrow> 's \<Rightarrow> nat option \<times> 's" where
  "process_loop runOnce further round s =
     (case round s of
        (Inr None, s') \<Rightarrow> (None, s')
      | (r, s') \<Rightarrow>
          if runOnce then (Some (case r of Inl _ \<Rightarrow> 1 | Inr _ \<Rightarrow> 0), s')
          else (case further of 0 \<Rightarrow> (Some 0, s') | Suc k \<Rightarrow> process_loop runOnce k round s'))"

declare process_loop.simps [simp del]

lemma keeps_process_loop:
  assumes "keeps P round" "P s"
  shows "P (snd (process_loop runOnce further round s))"
  using assms(2)
proof (induction further arbitrary: s)
  case 0
  then show ?case
    using keepsD [OF assms(1) 0] by (auto simp: process_loop.simps [of runOnce 0] split: prod.splits sum.splits option.splits)
next
  case (Suc further)
  then show ?case
    using keepsD [OF assms(1) Suc.prems]
    by (auto simp: process_loop.simps [of runOnce "Suc further"] split: prod.splits sum.splits option.splits)
qed


section \<open>The indexer\<close>





section \<open>The transaction manager\<close>

record TxMetrics =
  xm_pending :: nat
  xm_included :: nat
  xm_finalized :: nat
  xm_reorged :: nat
  xm_failed :: nat
  xm_confirmationBlocks :: "uint64 list"

definition report_round :: "TxManagerRunResult \<Rightarrow> TxMetrics \<Rightarrow> TxMetrics" where
  "report_round result m =
     \<lparr>xm_pending = rr_active result, xm_included = xm_included m + rr_included result,
      xm_finalized = xm_finalized m + rr_finalized result, xm_reorged = xm_reorged m + rr_reorged result,
      xm_failed = xm_failed m + rr_failed result,
      xm_confirmationBlocks = xm_confirmationBlocks m @ rr_confirmationBlocks result\<rparr>"

definition tx_process_round :: "TxManager \<Rightarrow> (TxWorld \<times> TxMetrics, unit option) prog" where
  "tx_process_round tm p =
     (case RunOnce tm (fst p) of
        (Inr result, w) \<Rightarrow> (Inr (Some ()), (w, report_round result (snd p)))
      | (Inl e, w) \<Rightarrow> (Inl e, (w, snd p)))"

section \<open>The publisher of the outbox\<close>

record OutboxMetrics =
  om_published :: nat
  om_pending :: nat
  om_errors :: nat

definition publisher_round ::
  "(nat \<Rightarrow> EventEnvelope \<Rightarrow> unit res) \<Rightarrow> (PublisherState \<times> OutboxMetrics, unit option) prog" where
  "publisher_round broker p =
     (case outbox_RunOnce broker 100 (fst p) of
        (Inr published, s) \<Rightarrow>
          (Inr (Some ()), (s, (snd p)\<lparr>om_published := om_published (snd p) + published, om_pending := CountUnpublished (pb_rows s)\<rparr>))
      | (Inl e, s) \<Rightarrow> (Inl e, (s, (snd p)\<lparr>om_errors := Suc (om_errors (snd p))\<rparr>)))"

section \<open>What the indexer reports\<close>






















section \<open>Draining the outbox\<close>

definition unpublished :: "OutboxEntry list \<Rightarrow> OutboxEntry list" where
  "unpublished rows = sort_key oe_created_at (sort_key ob_event_id (filter (\<lambda>r. \<not> ob_published r) rows))"

text \<open>The identifiers are the primary key, and the rows hold what their writers put there.\<close>

definition outbox_ready :: "OutboxEntry list \<Rightarrow> bool" where
  "outbox_ready rows \<longleftrightarrow> distinct (map ob_event_id rows) \<and> (\<forall>r \<in> set rows. \<exists>e. ParseEvent r = Inr e)"

lemma CountUnpublished_length: "CountUnpublished rows = length (unpublished rows)"
  by (simp add: CountUnpublished_def unpublished_def)

lemma ParseEvent_id: "ParseEvent r = Inr e \<Longrightarrow> ev_eventId e = ob_event_id r"
  by (auto simp: ParseEvent_def elim!: bind_resE)

lemma map_res_ids: "map_res ParseEvent rows = Inr events \<Longrightarrow> map ev_eventId events = map ob_event_id rows"
  by (induction rows arbitrary: events) (auto dest: ParseEvent_id elim!: bind_resE)

lemma fold_MarkPublished:
  "fold MarkPublished ids rows = map (\<lambda>r. if ob_event_id r \<in> set ids then r\<lparr>ob_published := True\<rparr> else r) rows"
  by (induction ids arbitrary: rows) (auto simp: MarkPublished_def)

lemma ready_marked: "outbox_ready rows \<Longrightarrow> outbox_ready (fold MarkPublished ids rows)"
proof -
  have "ParseEvent (r\<lparr>ob_published := True\<rparr>) = ParseEvent r" for r by (simp add: ParseEvent_def)
  moreover have ids: "map ob_event_id (fold MarkPublished ids rows) = map ob_event_id rows" by (simp add: fold_MarkPublished)
  ultimately show "outbox_ready rows \<Longrightarrow> outbox_ready (fold MarkPublished ids rows)"
    unfolding outbox_ready_def ids by (auto simp: fold_MarkPublished)
qed

lemma filter_marked:
  "length (filter (\<lambda>r. \<not> ob_published r) (fold MarkPublished ids rows)) =
     length (filter (\<lambda>r. ob_event_id r \<notin> set ids) (filter (\<lambda>r. \<not> ob_published r) rows))"
  unfolding fold_MarkPublished by (induction rows) auto

lemma filter_other_keys:
  "distinct (map f xs @ map f ys) \<Longrightarrow> filter (\<lambda>x. f x \<notin> f ` set xs) (xs @ ys) = ys"
  by (auto simp: filter_empty_conv filter_id_conv)

lemma count_marked:
  assumes "outbox_ready rows"
  shows "CountUnpublished (fold MarkPublished (map ob_event_id (take k (unpublished rows))) rows) = CountUnpublished rows - k"
proof -
  let ?L = "unpublished rows" and ?ids = "map ob_event_id (take k (unpublished rows))"
  have perm: "mset ?L = mset (filter (\<lambda>r. \<not> ob_published r) rows)" by (simp add: unpublished_def)
  have "distinct (map ob_event_id (filter (\<lambda>r. \<not> ob_published r) rows))"
    using assms by (simp add: outbox_ready_def distinct_map_filter)
  then have "distinct (map ob_event_id ?L)" using perm by (metis mset_eq_imp_distinct_iff mset_map)
  then have split: "distinct (map ob_event_id (take k ?L) @ map ob_event_id (drop k ?L))" by (simp flip: map_append)
  have "length (filter (\<lambda>r. \<not> ob_published r) (fold MarkPublished ?ids rows)) =
      length (filter (\<lambda>r. ob_event_id r \<notin> set ?ids) (filter (\<lambda>r. \<not> ob_published r) rows))"
    by (rule filter_marked)
  also have "\<dots> = size (filter_mset (\<lambda>r. ob_event_id r \<notin> set ?ids) (mset ?L))"
    unfolding perm by (simp flip: mset_filter)
  also have "\<dots> = length (filter (\<lambda>r. ob_event_id r \<notin> set ?ids) (take k ?L @ drop k ?L))"
    by (simp flip: mset_filter)
  also have "\<dots> = length (drop k ?L)"
    using filter_other_keys [OF split] by (simp only: set_map)
  finally show ?thesis by (simp add: CountUnpublished_def unpublished_def)
qed

lemma LoadUnpublished_ready:
  assumes "outbox_ready rows"
  shows "\<exists>events. LoadUnpublished rows limit = Inr events \<and> map ev_eventId events = map ob_event_id (take limit (unpublished rows))"
proof -
  have "\<forall>r \<in> set (take limit (unpublished rows)). \<exists>e. ParseEvent r = Inr e"
    using assms by (auto simp: outbox_ready_def unpublished_def dest!: in_set_takeD)
  then have "\<exists>events. map_res ParseEvent (take limit (unpublished rows)) = Inr events"
    using map_res_total by metis
  then show ?thesis by (auto simp: LoadUnpublished_def unpublished_def dest: map_res_ids)
qed

lemma publish_all_rows:
  assumes "\<forall>n e. broker n e = Inr ()"
  shows "\<exists>s'. for_each (publish_event broker) events s = (Inr (), s') \<and>
    pb_rows s' = fold MarkPublished (map ev_eventId events) (pb_rows s) \<and> pb_acknowledged s' = pb_acknowledged s @ events"
proof (induction events arbitrary: s)
  case (Cons e events)
  let ?s = "s\<lparr>pb_messages := Suc (pb_messages s), pb_acknowledged := pb_acknowledged s @ [e],
    pb_rows := MarkPublished (ev_eventId e) (pb_rows s)\<rparr>"
  have "publish_event broker e s = (Inr (), ?s)" using assms by (simp add: publish_event_def Publish_def prog_simps)
  with Cons.IH [of ?s] show ?case by (auto simp: bindp_def)
qed (simp add: ret_def)

lemma publisher_round_ready:
  assumes "outbox_ready (pb_rows s)" "\<forall>n e. broker n e = Inr ()"
  shows "\<exists>s'. publisher_round broker (s, m) = (Inr (Some ()), s',
      m\<lparr>om_published := om_published m + min (CountUnpublished (pb_rows s)) 100, om_pending := CountUnpublished (pb_rows s')\<rparr>) \<and>
    outbox_ready (pb_rows s') \<and> CountUnpublished (pb_rows s') = CountUnpublished (pb_rows s) - 100"
proof -
  obtain events where load: "LoadUnpublished (pb_rows s) 100 = Inr events"
    and ids: "map ev_eventId events = map ob_event_id (take 100 (unpublished (pb_rows s)))"
    using LoadUnpublished_ready [OF assms(1)] by blast
  obtain s' where run: "for_each (publish_event broker) events s = (Inr (), s')"
    "pb_rows s' = fold MarkPublished (map ev_eventId events) (pb_rows s)" using publish_all_rows [OF assms(2)] by blast
  have "length (map ev_eventId events) = min (CountUnpublished (pb_rows s)) 100" unfolding ids by (simp add: CountUnpublished_length)
  then have "outbox_RunOnce broker 100 s = (Inr (min (CountUnpublished (pb_rows s)) 100), s')"
    using load run(1) by (simp add: outbox_RunOnce_eq prog_simps)
  then show ?thesis
    using ready_marked [OF assms(1)] count_marked [OF assms(1), of 100] run(2) unfolding ids by (simp add: publisher_round_def)
qed

text \<open>C14. The outbox drains. While the broker acknowledges what it is sent and nothing new is written, the
  publisher takes a hundred events off the outbox in each round: after \<open>n + 1\<close> rounds exactly the events
  beyond the first \<open>100 * (n + 1)\<close> are left, the gauge of pending events shows how many that are, the counter
  has reorgs_counted the others and no error is reported.\<close>

theorem outbox_drains:
  assumes "distinct (map ob_event_id (pb_rows s))" "\<forall>r \<in> set (pb_rows s). \<exists>e. ParseEvent r = Inr e" "\<forall>n e. broker n e = Inr ()"
  shows "\<exists>s' m'. process_loop False n (publisher_round broker) (s, m) = (Some 0, s', m') \<and>
    CountUnpublished (pb_rows s') = CountUnpublished (pb_rows s) - 100 * (n + 1) \<and> om_pending m' = CountUnpublished (pb_rows s') \<and>
    om_published m' = om_published m + min (CountUnpublished (pb_rows s)) (100 * (n + 1)) \<and> om_errors m' = om_errors m"
proof -
  have "outbox_ready (pb_rows s)" using assms(1,2) by (simp add: outbox_ready_def)
  then show ?thesis
  proof (induction n arbitrary: s m)
    case 0
    from publisher_round_ready [OF this assms(3), of m] show ?case by (auto simp: process_loop.simps)
  next
    case (Suc n)
    obtain s1 m1 where round: "publisher_round broker (s, m) = (Inr (Some ()), s1, m1)" "outbox_ready (pb_rows s1)"
      "CountUnpublished (pb_rows s1) = CountUnpublished (pb_rows s) - 100"
      "om_published m1 = om_published m + min (CountUnpublished (pb_rows s)) 100" "om_errors m1 = om_errors m"
      using publisher_round_ready [OF Suc.prems assms(3), of m] by force
    from Suc.IH [OF round(2), of m1] round show ?case
      by (auto simp: process_loop.simps [of False "Suc n"] min_def)
  qed
qed

theorem outbox_drains_witness:
  "\<exists>row s' m'. candidate_row demo_candidate_sent = Inr row \<and>
    process_loop False 0 (publisher_round (\<lambda>_ _. Inr ())) (\<lparr>pb_rows = [entry_of 5 row], pb_messages = 0, pb_acknowledged = []\<rparr>,
      \<lparr>om_published = 0, om_pending = 0, om_errors = 0\<rparr>) = (Some 0, s', m') \<and> om_published m' = 1 \<and> om_pending m' = 0"
proof -
  obtain row where row: "candidate_row demo_candidate_sent = Inr row" using candidate_row_ex [OF demo_candidate_fits] ..
  let ?s = "\<lparr>pb_rows = [entry_of 5 row], pb_messages = 0, pb_acknowledged = []\<rparr>"
  have "\<not> ob_published (entry_of 5 row)"
    using row by (auto simp: candidate_row_def res_simps entry_of_def OutboxRow.extend_def)
  then have "CountUnpublished (pb_rows ?s) = 1" by (simp add: CountUnpublished_def)
  with outbox_drains [of ?s "\<lambda>_ _. Inr ()" 0 "\<lparr>om_published = 0, om_pending = 0, om_errors = 0\<rparr>"] row
    ParseEvent_candidate [OF demo_candidate_fits row, of 5] show ?thesis by auto
qed

section \<open>The transaction manager as a process\<close>

definition tx_process_ok :: "TxManager \<Rightarrow> bytes list \<Rightarrow> TxWorld \<times> TxMetrics \<Rightarrow> bool" where
  "tx_process_ok tm sent0 p \<longleftrightarrow> table_ok (tw_rows (fst p)) \<and>
     (\<exists>new. tw_sent (fst p) = sent0 @ new \<and> (\<forall>raw \<in> set new. approved_raw tm raw))"

lemma tx_process_round_ok:
  assumes "rpc_defined (tm_rpc tm)"
  shows "keeps (tx_process_ok tm sent0) (tx_process_round tm)"
proof -
  have step: "tx_process_ok tm sent0 (w', m')" if "tx_process_ok tm sent0 (w, m)" "RunOnce tm w = (r, w')" for w m w' m' r
  proof -
    have ok: "table_ok (tw_rows w)" using that(1) by (simp add: tx_process_ok_def)
    have inv: "round_inv tm (tw_rows w) (tw_sent w) {} w'"
      using validD [OF RunOnce_valid [OF assms ok, of "tw_sent w"], of w] that(2) by (cases r) auto
    then have "table_ok (tw_rows w')" using table_ok_round ok by (auto simp: round_inv_def)
    moreover have "\<exists>new. tw_sent w' = tw_sent w @ new \<and> (\<forall>raw \<in> set new. approved_raw tm raw)"
      using inv by (auto simp: round_inv_def sent_so_far_def)
    ultimately show ?thesis using that(1) by (auto simp: tx_process_ok_def)
  qed
  show ?thesis
    by (rule validI; clarsimp simp: tx_process_round_def split: prod.splits sum.splits) (erule (1) step)+
qed

text \<open>Over the whole life of the transaction manager, from any table of jobs that it can meet, only approved
  transactions leave the wallet.\<close>

lemma tx_process_approved:
  assumes "tx_table tm (tw_rows w)" "rpc_defined (tm_rpc tm)"
    and "process_loop runOnce n (tx_process_round tm) (w, m) = (code, w', m')"
  shows "\<exists>new. tw_sent w' = tw_sent w @ new \<and> (\<forall>raw \<in> set new. approved_raw tm raw)"
proof -
  have "tx_process_ok tm (tw_sent w) (w, m)" using tx_table_ok [OF assms(1,2)] by (simp add: tx_process_ok_def)
  from keeps_process_loop [OF tx_process_round_ok [OF assms(2)] this, of runOnce n] assms(3) show ?thesis
    by (simp add: tx_process_ok_def)
qed

end
