(* ===== verification/Metrics.thy ===== *)
theory Metrics
  imports Prelude
begin

text \<open>
  The endpoint through which each process is watched (\<open>ServiceMetrics\<close> of \<open>cpp/observability/src/Metrics.cpp\<close>).
\<close>

section \<open>The metrics endpoint\<close>

record MetricsResponse =
  mr_status :: nat
  mr_contentType :: string
  mr_body :: string

text \<open>\<open>Serve\<close> for a request that could be read; the text of the metrics is the library's.\<close>

definition metrics_Serve :: "string \<Rightarrow> bool \<Rightarrow> string \<Rightarrow> string \<Rightarrow> MetricsResponse" where
  "metrics_Serve serialized ready verb target =
     (if verb \<noteq> ''GET'' then \<lparr>mr_status = 405, mr_contentType = ''text/plain'', mr_body = ''method not allowed'' @ [CHR 0x0A]\<rparr>
      else if target = ''/metrics'' then
        \<lparr>mr_status = 200, mr_contentType = ''text/plain; version=0.0.4; charset=utf-8'', mr_body = serialized\<rparr>
      else if target = ''/health'' then
        \<lparr>mr_status = 200, mr_contentType = ''application/json'', mr_body = ''{\"status\":\"healthy\"}''\<rparr>
      else if target = ''/ready'' then
        \<lparr>mr_status = (if ready then 200 else 503), mr_contentType = ''application/json'',
         mr_body = (if ready then ''{\"status\":\"ready\"}'' else ''{\"status\":\"starting\"}'')\<rparr>
      else \<lparr>mr_status = 404, mr_contentType = ''text/plain'', mr_body = ''not found'' @ [CHR 0x0A]\<rparr>)"

lemma ready_probe: "mr_status (metrics_Serve text ready ''GET'' ''/ready'') = 200 \<longleftrightarrow> ready"
  by (simp add: metrics_Serve_def)

lemma metrics_statuses:
  "mr_status (metrics_Serve text ready verb target) = 405 \<longleftrightarrow> verb \<noteq> ''GET''"
  "mr_status (metrics_Serve text ready verb target) = 404 \<longleftrightarrow> verb = ''GET'' \<and> target \<notin> {''/metrics'', ''/health'', ''/ready''}"
  "mr_status (metrics_Serve text ready verb target) = 503 \<longleftrightarrow> verb = ''GET'' \<and> target = ''/ready'' \<and> \<not> ready"
  by (auto simp: metrics_Serve_def)

end
