(* ===== verification/Observation.thy ===== *)
theory Observation
  imports Rpc_Client Metrics
begin

text \<open>
  The metrics a process keeps (\<open>ServiceMetrics\<close> of \<open>cpp/observability/src/Metrics.cpp\<close>, \<open>RpcMetrics\<close> of
  \<open>RpcMetrics.cpp\<close>) and the observer through which the RPC client reports to them. The metrics library is not
  part of the sources: a registry is the list of the calls made to it, in their order, and a metric the name
  and the labels it was added with. What the library documents of a counter (the number of its
  increments) and of a gauge (the last value set) is read off that list. A \<open>double\<close> is a value of a type
  given by the caller.
\<close>

section \<open>The registry\<close>

type_synonym Metric = "string \<times> (string \<times> string) list"

datatype MetricKind = Counter | Gauge | Histogram

datatype 'd MetricCall =
    Register MetricKind string string
  | Add Metric "'d list"
  | Increment Metric
  | SetValue Metric 'd
  | ObserveValue Metric 'd

text \<open>Literals (\<open>m / 10 ^ k\<close>) and the conversion of a duration in nanoseconds to seconds.\<close>

record 'd Doubles =
  db_lit :: "nat \<Rightarrow> nat \<Rightarrow> 'd"
  db_seconds :: "int \<Rightarrow> 'd"

record 'd ServiceMetrics =
  sm_service :: string
  sm_registry :: "'d MetricCall list"
  sm_healthy :: Metric
  sm_ready :: Metric

definition tell :: "'d MetricCall \<Rightarrow> 'd ServiceMetrics \<Rightarrow> 'd ServiceMetrics" where
  "tell c m = m\<lparr>sm_registry := sm_registry m @ [c]\<rparr>"

definition add_metric :: "MetricKind \<Rightarrow> string \<Rightarrow> string \<Rightarrow> 'd list \<Rightarrow> 'd ServiceMetrics \<Rightarrow> Metric \<times> 'd ServiceMetrics" where
  "add_metric metricKind name help buckets m =
     (let metric = (name, [(''service'', sm_service m)])
      in (metric, tell (Add metric buckets) (tell (Register metricKind name help) m)))"

definition AddCounter :: "string \<Rightarrow> string \<Rightarrow> 'd ServiceMetrics \<Rightarrow> Metric \<times> 'd ServiceMetrics" where
  "AddCounter name help = add_metric Counter name help []"

definition AddGauge :: "string \<Rightarrow> string \<Rightarrow> 'd ServiceMetrics \<Rightarrow> Metric \<times> 'd ServiceMetrics" where
  "AddGauge name help = add_metric Gauge name help []"

definition AddHistogram :: "string \<Rightarrow> string \<Rightarrow> 'd list \<Rightarrow> 'd ServiceMetrics \<Rightarrow> Metric \<times> 'd ServiceMetrics" where
  "AddHistogram name help buckets = add_metric Histogram name help buckets"

definition ServiceMetrics_new :: "'d Doubles \<Rightarrow> string \<Rightarrow> 'd ServiceMetrics" where
  "ServiceMetrics_new D service =
     (let m = \<lparr>sm_service = service, sm_registry = [], sm_healthy = ([], []), sm_ready = ([], [])\<rparr>;
          (healthy, m) = AddGauge ''service_health'' ''Whether the service process is healthy'' m;
          (ready, m) = AddGauge ''service_ready'' ''Whether the service has completed initialization'' m
      in tell (SetValue healthy (db_lit D 10 1)) (m\<lparr>sm_healthy := healthy, sm_ready := ready\<rparr>))"

definition SetReady :: "'d Doubles \<Rightarrow> bool \<Rightarrow> 'd ServiceMetrics \<Rightarrow> 'd ServiceMetrics" where
  "SetReady D ready m = tell (SetValue (sm_ready m) (if ready then db_lit D 10 1 else db_lit D 0 1)) m"

text \<open>What the library reports: a gauge starts at zero.\<close>

definition counter_value :: "'d MetricCall list \<Rightarrow> Metric \<Rightarrow> nat" where
  "counter_value calls metric = length (filter (\<lambda>c. case c of Increment other \<Rightarrow> other = metric | _ \<Rightarrow> False) calls)"

fun gauge_after :: "Metric \<Rightarrow> 'd MetricCall list \<Rightarrow> 'd \<Rightarrow> 'd" where
  "gauge_after metric [] v = v"
| "gauge_after metric (SetValue other w # calls) v = gauge_after metric calls (if other = metric then w else v)"
| "gauge_after metric (c # calls) v = gauge_after metric calls v"

definition metrics_endpoint :: "'d Doubles \<Rightarrow> ('d MetricCall list \<Rightarrow> string) \<Rightarrow> 'd ServiceMetrics \<Rightarrow> string \<Rightarrow> string \<Rightarrow> MetricsResponse" where
  "metrics_endpoint D serialize m verb target =
     metrics_Serve (serialize (sm_registry m)) (gauge_after (sm_ready m) (sm_registry m) (db_lit D 0 1) = db_lit D 10 1) verb target"

section \<open>The observer of the RPC client\<close>

record RpcMetrics =
  rm_requests :: Metric
  rm_errors :: Metric
  rm_duration :: Metric
  rm_blockHeight :: Metric
  rm_failovers :: Metric
  rm_broadcastSuccesses :: Metric

text \<open>The metrics of the process, the observer that is set, and the number of the next request of the client.\<close>

record 'd Observed =
  ob_metrics :: "'d ServiceMetrics"
  ob_observer :: "RpcMetrics option"
  ob_nextRequestId :: nat

definition SetRpcObserver :: "RpcMetrics option \<Rightarrow> 'd Observed \<Rightarrow> 'd Observed" where
  "SetRpcObserver observer s = s\<lparr>ob_observer := observer\<rparr>"

definition RpcMetrics_new :: "'d Doubles \<Rightarrow> 'd Observed \<Rightarrow> 'd Observed" where
  "RpcMetrics_new D s =
     (let m = ob_metrics s;
          (requests, m) = AddCounter ''rpc_requests_total'' ''Total Ethereum RPC requests'' m;
          (errors, m) = AddCounter ''rpc_errors_total'' ''Total failed Ethereum RPC requests'' m;
          (duration, m) = AddHistogram ''rpc_request_duration_seconds'' ''Ethereum RPC request duration in seconds''
            [db_lit D 5 3, db_lit D 1 2, db_lit D 25 3, db_lit D 5 2, db_lit D 1 1, db_lit D 25 2, db_lit D 5 1, db_lit D 10 1,
             db_lit D 25 1, db_lit D 50 1] m;
          (blockHeight, m) = AddGauge ''rpc_block_height'' ''Latest Ethereum block height returned by RPC'' m;
          (failovers, m) = AddCounter ''rpc_failovers_total'' ''Total successful RPC endpoint failovers'' m;
          (broadcasts, m) = AddCounter ''rpc_broadcast_success_total''
            ''Total transactions successfully broadcast to at least one RPC endpoint'' m
      in SetRpcObserver (Some \<lparr>rm_requests = requests, rm_errors = errors, rm_duration = duration, rm_blockHeight = blockHeight,
           rm_failovers = failovers, rm_broadcastSuccesses = broadcasts\<rparr>) (s\<lparr>ob_metrics := m\<rparr>))"

definition RpcMetrics_delete :: "'d Observed \<Rightarrow> 'd Observed" where
  "RpcMetrics_delete s = SetRpcObserver None s"

definition RpcMetrics_Observe :: "'d Doubles \<Rightarrow> RpcMetrics \<Rightarrow> int \<Rightarrow> bool \<Rightarrow> 'd ServiceMetrics \<Rightarrow> 'd ServiceMetrics" where
  "RpcMetrics_Observe D rm duration succeeded m =
     (let m = tell (Increment (rm_requests rm)) m;
          m = (if \<not> succeeded then tell (Increment (rm_errors rm)) m else m)
      in tell (ObserveValue (rm_duration rm) (db_seconds D duration)) m)"

definition ObserveBlockHeight :: "'d Doubles \<Rightarrow> RpcMetrics \<Rightarrow> uint64 \<Rightarrow> 'd ServiceMetrics \<Rightarrow> 'd ServiceMetrics" where
  "ObserveBlockHeight D rm blockHeight = tell (SetValue (rm_blockHeight rm) (db_lit D (unat blockHeight) 0))"

definition ObserveFailover :: "RpcMetrics \<Rightarrow> 'd ServiceMetrics \<Rightarrow> 'd ServiceMetrics" where
  "ObserveFailover rm = tell (Increment (rm_failovers rm))"

definition ObserveBroadcastSuccess :: "RpcMetrics \<Rightarrow> 'd ServiceMetrics \<Rightarrow> 'd ServiceMetrics" where
  "ObserveBroadcastSuccess rm = tell (Increment (rm_broadcastSuccesses rm))"

definition with_observer :: "(RpcMetrics \<Rightarrow> 'd ServiceMetrics \<Rightarrow> 'd ServiceMetrics) \<Rightarrow> 'd Observed \<Rightarrow> 'd Observed" where
  "with_observer f s = (case ob_observer s of None \<Rightarrow> s | Some rm \<Rightarrow> s\<lparr>ob_metrics := f rm (ob_metrics s)\<rparr>)"

definition ObserveRpcFailover :: "'d Observed \<Rightarrow> 'd Observed" where
  "ObserveRpcFailover = with_observer ObserveFailover"

definition ObserveRpcBroadcastSuccess :: "'d Observed \<Rightarrow> 'd Observed" where
  "ObserveRpcBroadcastSuccess = with_observer ObserveBroadcastSuccess"

text \<open>A call with its observation: the destructor reports whether it returned or threw. \<open>elapsed n\<close> is the time request
  \<open>n\<close> takes.\<close>

definition observed_Call :: "'d Doubles \<Rightarrow> (nat \<Rightarrow> int) \<Rightarrow> RpcClient \<Rightarrow> string \<Rightarrow> json \<Rightarrow> ('d Observed, json) prog" where
  "observed_Call D elapsed client method rpcParameters s =
     (case Call client method rpcParameters (ob_nextRequestId s) of (r, n) \<Rightarrow>
        let succeeded = (case r of Inr _ \<Rightarrow> True | Inl _ \<Rightarrow> False)
        in (r, with_observer (\<lambda>rm. RpcMetrics_Observe D rm (elapsed (ob_nextRequestId s)) succeeded) (s\<lparr>ob_nextRequestId := n\<rparr>)))"

definition observed_GetBlockNumber :: "'d Doubles \<Rightarrow> (nat \<Rightarrow> int) \<Rightarrow> RpcClient \<Rightarrow> ('d Observed, uint256) prog" where
  "observed_GetBlockNumber D elapsed client =
     bindp (observed_Call D elapsed client ''eth_blockNumber'' (J_Arr [])) (\<lambda>result.
     bindp (liftp (ParseQuantity (rk_what client) (J_Obj [(''result'', result)]) ''result'')) (\<lambda>blockNumber.
     bindp (query (\<lambda>s. Inr (ob_observer s))) (\<lambda>observer.
     bindp (if observer \<noteq> None
            then bindp (liftp (ToUint64 blockNumber)) (\<lambda>height. modify (with_observer (\<lambda>rm. ObserveBlockHeight D rm height)))
            else ret ()) (\<lambda>_.
     ret blockNumber))))"

section \<open>What the metrics report\<close>

named_theorems observe_simps

lemma tell_fields [observe_simps]:
  "sm_registry (tell c m) = sm_registry m @ [c]" "sm_ready (tell c m) = sm_ready m" "sm_service (tell c m) = sm_service m"
  by (simp_all add: tell_def)

lemma counter_value_append [observe_simps]: "counter_value (xs @ ys) metric = counter_value xs metric + counter_value ys metric"
  by (simp add: counter_value_def)

lemma counter_value_Cons [observe_simps]:
  "counter_value [] metric = 0"
  "counter_value (Increment other # cs) metric = (if other = metric then 1 else 0) + counter_value cs metric"
  "counter_value (ObserveValue other v # cs) metric = counter_value cs metric"
  by (simp_all add: counter_value_def)

lemma gauge_after_append: "gauge_after metric (xs @ ys) v = gauge_after metric ys (gauge_after metric xs v)"
  by (induction metric xs v rule: gauge_after.induct) simp_all

text \<open>The readiness probe answers 200 after \<open>SetReady(true)\<close> and 503 after \<open>SetReady(false)\<close>, whatever was reported before.\<close>

lemma SetReady_probe:
  assumes "db_lit D 10 1 \<noteq> db_lit D 0 1"
  shows "mr_status (metrics_endpoint D serialize (SetReady D ready m) ''GET'' ''/ready'') = (if ready then 200 else 503)"
  using assms by (simp add: metrics_endpoint_def metrics_Serve_def SetReady_def tell_fields gauge_after_append)

text \<open>A fresh process is not ready.\<close>

lemma ServiceMetrics_new_not_ready:
  assumes "db_lit D 10 1 \<noteq> db_lit D 0 1"
  shows "mr_status (metrics_endpoint D serialize (ServiceMetrics_new D service) ''GET'' ''/ready'') = 503"
  using assms
  by (simp add: metrics_endpoint_def metrics_Serve_def ServiceMetrics_new_def AddGauge_def add_metric_def Let_def tell_def)

text \<open>Observing changes neither the answer nor the numbering of the requests.\<close>

lemma observed_Call_result:
  "fst (observed_Call D elapsed client name ps s) = fst (Call client name ps (ob_nextRequestId s))"
  "ob_nextRequestId (snd (observed_Call D elapsed client name ps s)) = Suc (ob_nextRequestId s)"
  "ob_observer (snd (observed_Call D elapsed client name ps s)) = ob_observer s"
  by (simp_all add: observed_Call_def Call_def with_observer_def Let_def split: option.split)

text \<open>A sequence of calls, each of which may throw and be followed by the next.\<close>

fun observed_calls :: "'d Doubles \<Rightarrow> (nat \<Rightarrow> int) \<Rightarrow> RpcClient \<Rightarrow> (string \<times> json) list \<Rightarrow> 'd Observed \<Rightarrow> json res list \<times> 'd Observed" where
  "observed_calls D elapsed client [] s = ([], s)"
| "observed_calls D elapsed client ((name, ps) # requests) s =
     (case observed_Call D elapsed client name ps s of (r, s') \<Rightarrow>
      case observed_calls D elapsed client requests s' of (rs, s'') \<Rightarrow> (r # rs, s''))"

definition failures :: "'a res list \<Rightarrow> nat" where
  "failures rs = length (filter (\<lambda>r. case r of Inl _ \<Rightarrow> True | Inr _ \<Rightarrow> False) rs)"

definition rpc_counter :: "(RpcMetrics \<Rightarrow> Metric) \<Rightarrow> RpcMetrics \<Rightarrow> 'd Observed \<Rightarrow> nat" where
  "rpc_counter field rm s = counter_value (sm_registry (ob_metrics s)) (field rm)"

lemma observed_Call_counts:
  assumes "ob_observer s = Some rm" "rm_requests rm \<noteq> rm_errors rm" "observed_Call D elapsed client name ps s = (r, s')"
  shows "rpc_counter rm_requests rm s' = Suc (rpc_counter rm_requests rm s)"
    "rpc_counter rm_errors rm s' = rpc_counter rm_errors rm s + failures [r]"
  using assms
  by (auto simp: observed_Call_def Call_def with_observer_def rpc_counter_def RpcMetrics_Observe_def Let_def observe_simps failures_def
      split: sum.splits)

text \<open>However many calls are made, the counter of requests grows by the number of calls and the counter of errors by
  the number of those that threw.\<close>

lemma observed_calls_counts:
  assumes "ob_observer s = Some rm" "rm_requests rm \<noteq> rm_errors rm" "observed_calls D elapsed client requests s = (rs, s')"
  shows "rpc_counter rm_requests rm s' = rpc_counter rm_requests rm s + length requests \<and>
    rpc_counter rm_errors rm s' = rpc_counter rm_errors rm s + failures rs"
  using assms(1,3)
proof (induction requests arbitrary: s rs)
  case Nil
  then show ?case by (simp add: failures_def)
next
  case (Cons request requests)
  obtain name ps where request: "request = (name, ps)" by fastforce
  obtain r s1 where first: "observed_Call D elapsed client name ps s = (r, s1)" by fastforce
  obtain rs1 where rest: "observed_calls D elapsed client requests s1 = (rs1, s')" and "rs = r # rs1"
    using Cons.prems(2) by (auto simp: request first split: prod.splits)
  have "ob_observer s1 = Some rm"
    using observed_Call_result(3) [of D elapsed client name ps s] Cons.prems(1) by (simp add: first)
  from Cons.IH [OF this rest] observed_Call_counts [OF Cons.prems(1) assms(2) first] \<open>rs = r # rs1\<close>
  show ?case by (simp add: failures_def)
qed

text \<open>The counters of \<open>RpcMetrics\<close> for requests and errors are different metrics and start at zero in a fresh process.\<close>

lemma RpcMetrics_new_fresh:
  assumes "s' = RpcMetrics_new D \<lparr>ob_metrics = ServiceMetrics_new D service, ob_observer = None, ob_nextRequestId = 1\<rparr>"
  shows "\<exists>rm. ob_observer s' = Some rm \<and> rm_requests rm \<noteq> rm_errors rm \<and> rpc_counter rm_requests rm s' = 0 \<and> rpc_counter rm_errors rm s' = 0"
  unfolding assms
  by (simp add: RpcMetrics_new_def ServiceMetrics_new_def SetRpcObserver_def AddCounter_def AddGauge_def AddHistogram_def add_metric_def
      tell_def Let_def rpc_counter_def counter_value_def)

end
