(* ===== verification/Option_Pricer.thy ===== *)
theory Option_Pricer
  imports Numerals Messaging Complex_Main
begin

text \<open>
  The option pricer (\<open>tools/metal-option-pricer\<close>): the analytic price, the simulation on the GPU with its
  random numbers and its statistics, the requests over HTTP and the command line. C++ and Metal leave the
  precision of \<open>double\<close>, of \<open>float\<close> and of their mathematical functions to the platform, so the arithmetic is an
  argument of the definitions; \<open>exact\<close> is its ideal, the real numbers. Integers have their widths. The
  start of the GPU, its buffers and sockets are left out.
\<close>

section \<open>Arithmetic\<close>

text \<open>\<open>fl_lit m k\<close> is the literal \<open>m / 10 ^ k\<close>, \<open>fl_frac m k\<close> the number \<open>m / 2 ^ k\<close>.\<close>

record 'd Arithmetic =
  fl_lit :: "nat \<Rightarrow> nat \<Rightarrow> 'd"
  fl_frac :: "int \<Rightarrow> nat \<Rightarrow> 'd"
  fl_le :: "'d \<Rightarrow> 'd \<Rightarrow> bool"
  fl_less :: "'d \<Rightarrow> 'd \<Rightarrow> bool"
  fl_neg :: "'d \<Rightarrow> 'd"
  fl_add :: "'d \<Rightarrow> 'd \<Rightarrow> 'd"
  fl_sub :: "'d \<Rightarrow> 'd \<Rightarrow> 'd"
  fl_mul :: "'d \<Rightarrow> 'd \<Rightarrow> 'd"
  fl_div :: "'d \<Rightarrow> 'd \<Rightarrow> 'd"
  fl_sqrt :: "'d \<Rightarrow> 'd"
  fl_log :: "'d \<Rightarrow> 'd"
  fl_exp :: "'d \<Rightarrow> 'd"
  fl_cos :: "'d \<Rightarrow> 'd"
  fl_erfc :: "'d \<Rightarrow> 'd"
  fl_abs :: "'d \<Rightarrow> 'd"

definition fl_max :: "'d Arithmetic \<Rightarrow> 'd \<Rightarrow> 'd \<Rightarrow> 'd" where
  "fl_max A x y = (if fl_less A x y then y else x)"

abbreviation fl_nat :: "'d Arithmetic \<Rightarrow> nat \<Rightarrow> 'd" where
  "fl_nat A n \<equiv> fl_lit A n 0"

section \<open>The analytic price\<close>

datatype OptionType = CallOption | PutOption

record 'd PricingRequest =
  pq_optionType :: OptionType
  pq_spot :: 'd
  pq_strike :: 'd
  pq_expiryYears :: 'd
  pq_volatility :: 'd
  pq_riskFreeRate :: 'd
  pq_paths :: uint64
  pq_seed :: "32 word"

definition NormalCdf :: "'d Arithmetic \<Rightarrow> 'd \<Rightarrow> 'd" where
  "NormalCdf A v = fl_mul A (fl_lit A 5 1) (fl_erfc A (fl_div A (fl_neg A v) (fl_sqrt A (fl_lit A 20 1))))"

definition ValidateContract :: "'d Arithmetic \<Rightarrow> 'd PricingRequest \<Rightarrow> unit res" where
  "ValidateContract A request =
     (let zero = fl_lit A 0 1 in
      if fl_le A (pq_spot request) zero \<or> fl_le A (pq_strike request) zero
      then Inl (Invalid_Argument ''spot and strike must be greater than zero'')
      else if fl_le A (pq_expiryYears request) zero then Inl (Invalid_Argument ''expiryYears must be greater than zero'')
      else if fl_le A (pq_volatility request) zero then Inl (Invalid_Argument ''volatility must be greater than zero'')
      else Inr ())"

definition ParseOptionType :: "string \<Rightarrow> OptionType res" where
  "ParseOptionType v =
     (if v = ''call'' then Inr CallOption
      else if v = ''put'' then Inr PutOption
      else Inl (Invalid_Argument ''optionType must be call or put''))"

definition OptionType_ToString :: "OptionType \<Rightarrow> string" where
  "OptionType_ToString t = (if t = CallOption then ''call'' else ''put'')"

definition Payoff :: "'d Arithmetic \<Rightarrow> OptionType \<Rightarrow> 'd \<Rightarrow> 'd \<Rightarrow> 'd" where
  "Payoff A t strike spot =
     (if t = CallOption then fl_max A (fl_sub A spot strike) (fl_lit A 0 1) else fl_max A (fl_sub A strike spot) (fl_lit A 0 1))"

definition BlackScholesPrice :: "'d Arithmetic \<Rightarrow> 'd PricingRequest \<Rightarrow> 'd res" where
  "BlackScholesPrice A request =
     bind_res (ValidateContract A request) (\<lambda>_.
     let rootExpiry = fl_sqrt A (pq_expiryYears request);
         d1 = fl_div A
           (fl_add A (fl_log A (fl_div A (pq_spot request) (pq_strike request)))
             (fl_mul A (fl_add A (pq_riskFreeRate request) (fl_mul A (fl_mul A (fl_lit A 5 1) (pq_volatility request)) (pq_volatility request)))
               (pq_expiryYears request)))
           (fl_mul A (pq_volatility request) rootExpiry);
         d2 = fl_sub A d1 (fl_mul A (pq_volatility request) rootExpiry);
         discountedStrike = fl_mul A (pq_strike request) (fl_exp A (fl_mul A (fl_neg A (pq_riskFreeRate request)) (pq_expiryYears request)))
     in if pq_optionType request = CallOption
        then Inr (fl_sub A (fl_mul A (pq_spot request) (NormalCdf A d1)) (fl_mul A discountedStrike (NormalCdf A d2)))
        else Inr (fl_sub A (fl_mul A discountedStrike (NormalCdf A (fl_neg A d2))) (fl_mul A (pq_spot request) (NormalCdf A (fl_neg A d1)))))"

section \<open>The simulation\<close>

record 'f MetalPricingParameters =
  mp_expiryYears :: 'f
  mp_strike :: 'f
  mp_spot :: 'f
  mp_volatility :: 'f
  mp_riskFreeRate :: 'f
  mp_paths :: "32 word"
  mp_seed :: "32 word"
  mp_optionType :: "32 word"

text \<open>The shader (\<open>MonteCarlo.metal\<close>): a hash of the index of the path, two uniform numbers, a normal one, the payoff.\<close>

definition Mix :: "32 word \<Rightarrow> 32 word" where
  "Mix v =
     (let v = v XOR drop_bit 16 v;
          v = v * 0x7feb352d;
          v = v XOR drop_bit 15 v;
          v = v * 0x846ca68b
      in v XOR drop_bit 16 v)"

definition Uniform :: "'f Arithmetic \<Rightarrow> 32 word \<Rightarrow> 'f" where
  "Uniform F v = fl_div F (fl_add F (fl_nat F (unat (Mix v AND 0x00ffffff))) (fl_lit F 10 1)) (fl_lit F 167772180 1)"

definition path_state :: "32 word \<Rightarrow> 32 word \<Rightarrow> 32 word" where
  "path_state seed index = seed XOR (index * 747796405 + 2891336453)"

definition priceOptionPaths :: "'f Arithmetic \<Rightarrow> 'f MetalPricingParameters \<Rightarrow> 32 word \<Rightarrow> 'f option" where
  "priceOptionPaths F ps index =
     (if index \<ge> mp_paths ps then None
      else
        let state = path_state (mp_seed ps) index;
            uniformA = Uniform F state;
            uniformB = Uniform F (state + 277803737);
            gaussian = fl_mul F (fl_sqrt F (fl_mul F (fl_neg F (fl_lit F 20 1)) (fl_log F uniformA)))
              (fl_cos F (fl_mul F (fl_lit F 628318530718 11) uniformB));
            variance = fl_mul F (fl_mul F (mp_volatility ps) (mp_volatility ps)) (mp_expiryYears ps);
            terminalSpot = fl_mul F (mp_spot ps) (fl_exp F (fl_add F
              (fl_sub F (fl_mul F (mp_riskFreeRate ps) (mp_expiryYears ps)) (fl_mul F (fl_lit F 5 1) variance))
              (fl_mul F (fl_sqrt F variance) gaussian)));
            payoff = (if mp_optionType ps = 0 then fl_max F (fl_sub F terminalSpot (mp_strike ps)) (fl_lit F 0 1)
              else fl_max F (fl_sub F (mp_strike ps) terminalSpot) (fl_lit F 0 1))
        in Some (fl_mul F payoff (fl_exp F (fl_mul F (fl_neg F (mp_riskFreeRate ps)) (mp_expiryYears ps)))))"

definition MAX_PATHS :: uint64 where "MAX_PATHS = 10000000"

record 'd PricingResult =
  pt_monteCarloPrice :: 'd
  pt_analyticPrice :: 'd
  pt_standardError :: 'd
  pt_absoluteDifference :: 'd
  pt_paths :: uint64
  pt_elapsedMilliseconds :: 'd
  pt_device :: string

text \<open>The GPU: the two conversions between the precisions, the error of the command if it fails, the time it takes
  and its name.\<close>

record ('d, 'f) Metal =
  me_double :: "'d Arithmetic"
  me_float :: "'f Arithmetic"
  me_narrow :: "'d \<Rightarrow> 'f"
  me_widen :: "'f \<Rightarrow> 'd"
  me_error :: "string option"
  me_elapsed :: 'd
  me_name :: string

definition pricing_parameters :: "('d, 'f) Metal \<Rightarrow> 'd PricingRequest \<Rightarrow> 'f MetalPricingParameters" where
  "pricing_parameters metal request =
     \<lparr>mp_expiryYears = me_narrow metal (pq_expiryYears request), mp_strike = me_narrow metal (pq_strike request),
      mp_spot = me_narrow metal (pq_spot request), mp_volatility = me_narrow metal (pq_volatility request),
      mp_riskFreeRate = me_narrow metal (pq_riskFreeRate request), mp_paths = ucast (pq_paths request), mp_seed = pq_seed request,
      mp_optionType = (if pq_optionType request = CallOption then 0 else 1)\<rparr>"

text \<open>The buffer after the grid of \<open>paths\<close> threads has run; a place that no thread writes would hold nothing known.\<close>

definition payoffs :: "('d, 'f) Metal \<Rightarrow> 'd PricingRequest \<Rightarrow> 'f option list" where
  "payoffs metal request =
     map (\<lambda>i. priceOptionPaths (me_float metal) (pricing_parameters metal request) (of_nat i)) [0..<unat (pq_paths request)]"

fun accumulate :: "'d Arithmetic \<Rightarrow> 'd list \<Rightarrow> 'd \<times> 'd \<Rightarrow> 'd \<times> 'd" where
  "accumulate A [] acc = acc"
| "accumulate A (v # vs) acc = accumulate A vs (fl_add A (fst acc) v, fl_add A (snd acc) (fl_mul A v v))"

definition Price :: "('d, 'f) Metal \<Rightarrow> 'd PricingRequest \<Rightarrow> 'd PricingResult res" where
  "Price metal request =
     (let A = me_double metal in
     bind_res (BlackScholesPrice A request) (\<lambda>analyticPrice.
     if pq_paths request = 0 \<or> pq_paths request > MAX_PATHS then Inl (Invalid_Argument ''paths must be between 1 and 10000000'')
     else case me_error metal of
       Some e \<Rightarrow> Inl (Runtime_Error (''Metal pricing command failed: '' @ e))
     | None \<Rightarrow>
         let vs = map (\<lambda>v. me_widen metal (the v)) (payoffs metal request);
             (sum, squaredSum) = accumulate A vs (fl_lit A 0 1, fl_lit A 0 1);
             paths = fl_nat A (unat (pq_paths request));
             price = fl_div A sum paths;
             variance = (if pq_paths request > 1
               then fl_div A (fl_sub A squaredSum (fl_div A (fl_mul A sum sum) paths)) (fl_nat A (unat (pq_paths request - 1)))
               else fl_lit A 0 1);
             standardError = fl_sqrt A (fl_div A (fl_max A variance (fl_lit A 0 1)) paths)
         in Inr \<lparr>pt_monteCarloPrice = price, pt_analyticPrice = analyticPrice, pt_standardError = standardError,
              pt_absoluteDifference = fl_abs A (fl_sub A price analyticPrice), pt_paths = pq_paths request,
              pt_elapsedMilliseconds = me_elapsed metal, pt_device = me_name metal\<rparr>))"

section \<open>Requests\<close>

text \<open>\<open>get<double>()\<close>, and \<open>get\<close> at an unsigned type, which also takes a boolean.\<close>

fun json_double :: "'d Arithmetic \<Rightarrow> json \<Rightarrow> 'd res" where
  "json_double A (J_Num n) = Inr (fl_nat A n)"
| "json_double A (J_Frac m k) = Inr (fl_frac A m k)"
| "json_double A _ = Inl Json_Error"

fun json_unsigned :: "json \<Rightarrow> 'w::len word res" where
  "json_unsigned (J_Num n) = Inr (of_nat n)"
| "json_unsigned (J_Frac m k) = Inr (of_int (sgn m * (\<bar>m\<bar> div 2 ^ k)))"
| "json_unsigned (J_Bool b) = Inr (of_bool b)"
| "json_unsigned _ = Inl Json_Error"

definition double_at :: "'d Arithmetic \<Rightarrow> json \<Rightarrow> string \<Rightarrow> 'd res" where
  "double_at A body key = bind_res (json_at body key) (json_double A)"

definition seed_of :: "json \<Rightarrow> 32 word res" where
  "seed_of body =
     (if \<not> is_object body then Inl Json_Error
      else case json_find ''seed'' body of None \<Rightarrow> Inr 42 | Some v \<Rightarrow> json_unsigned v)"

definition ParseRequest :: "'d Arithmetic \<Rightarrow> json \<Rightarrow> 'd PricingRequest res" where
  "ParseRequest A body =
     bind_res (bind_res (string_at body ''optionType'') ParseOptionType) (\<lambda>optionType.
     bind_res (double_at A body ''spot'') (\<lambda>spot.
     bind_res (double_at A body ''strike'') (\<lambda>strike.
     bind_res (double_at A body ''expiryYears'') (\<lambda>expiryYears.
     bind_res (double_at A body ''volatility'') (\<lambda>volatility.
     bind_res (double_at A body ''riskFreeRate'') (\<lambda>riskFreeRate.
     bind_res (bind_res (json_at body ''paths'') json_unsigned) (\<lambda>paths.
     bind_res (seed_of body) (\<lambda>seed.
     Inr \<lparr>pq_optionType = optionType, pq_spot = spot, pq_strike = strike, pq_expiryYears = expiryYears, pq_volatility = volatility,
          pq_riskFreeRate = riskFreeRate, pq_paths = paths, pq_seed = seed\<rparr>))))))))"

text \<open>The libraries: how a number is printed, how text is read, and the text of an exception that is not of these sources.\<close>

record 'd PricerLib =
  li_number :: "'d \<Rightarrow> json"
  li_parse :: "string \<Rightarrow> json res"
  li_stod :: "string \<Rightarrow> 'd res"
  li_what :: "exn \<Rightarrow> string"

definition ToJson :: "'d PricerLib \<Rightarrow> 'd PricingRequest \<Rightarrow> 'd PricingResult \<Rightarrow> json" where
  "ToJson lib request result =
     J_Obj [(''absoluteDifference'', li_number lib (pt_absoluteDifference result)), (''analyticPrice'', li_number lib (pt_analyticPrice result)),
       (''device'', J_Str (pt_device result)), (''elapsedMilliseconds'', li_number lib (pt_elapsedMilliseconds result)),
       (''monteCarloPrice'', li_number lib (pt_monteCarloPrice result)),
       (''optionType'', J_Str (OptionType_ToString (pq_optionType request))), (''paths'', J_Num (unat (pt_paths result))),
       (''standardError'', li_number lib (pt_standardError result))]"

record PricerResponse =
  pp_status :: nat
  pp_version :: nat
  pp_contentType :: string
  pp_server :: string
  pp_keepAlive :: bool
  pp_body :: json

definition JsonResponse :: "nat \<Rightarrow> nat \<Rightarrow> json \<Rightarrow> PricerResponse" where
  "JsonResponse status version body =
     \<lparr>pp_status = status, pp_version = version, pp_contentType = ''application/json'', pp_server = ''dlp-metal-option-pricer'',
      pp_keepAlive = False, pp_body = body\<rparr>"

fun exn_text :: "'d PricerLib \<Rightarrow> exn \<Rightarrow> string" where
  "exn_text lib (Invalid_Argument m) = m"
| "exn_text lib (Runtime_Error m) = m"
| "exn_text lib e = li_what lib e"

fun error_status :: "exn \<Rightarrow> nat" where
  "error_status (Invalid_Argument m) = 400"
| "error_status Json_Error = 400"
| "error_status e = 500"

record PricerRequest =
  ph_method :: string
  ph_target :: string
  ph_version :: nat
  ph_body :: string

definition HandleRequest :: "('d, 'f) Metal \<Rightarrow> 'd PricerLib \<Rightarrow> PricerRequest \<Rightarrow> PricerResponse" where
  "HandleRequest metal lib request =
     (if ph_method request = ''GET'' \<and> ph_target request = ''/health'' then
        JsonResponse 200 (ph_version request)
          (J_Obj [(''backend'', J_Str ''Apple Metal''), (''device'', J_Str (me_name metal)), (''status'', J_Str ''ready'')])
      else if ph_method request \<noteq> ''POST'' \<or> ph_target request \<noteq> ''/price'' then
        JsonResponse 404 (ph_version request) (J_Obj [(''error'', J_Str ''route not found'')])
      else
        case bind_res (bind_res (li_parse lib (ph_body request)) (ParseRequest (me_double metal))) (\<lambda>pricingRequest.
          map_result (ToJson lib pricingRequest) (Price metal pricingRequest)) of
          Inr answer \<Rightarrow> JsonResponse 200 (ph_version request) answer
        | Inl e \<Rightarrow> JsonResponse (error_status e) (ph_version request) (J_Obj [(''error'', J_Str (exn_text lib e))]))"

text \<open>The loop of the server over the connections it accepts, in turn: a request that cannot be read gets no answer.\<close>

definition pricer_Serve :: "('d, 'f) Metal \<Rightarrow> 'd PricerLib \<Rightarrow> PricerRequest option list \<Rightarrow> PricerResponse option list" where
  "pricer_Serve metal lib connections = map (map_option (HandleRequest metal lib)) connections"

section \<open>The command line\<close>

definition stod :: "'d PricerLib \<Rightarrow> string \<Rightarrow> 'd res" where
  "stod lib s = li_stod lib s"

definition pricer_usage :: exn where
  "pricer_usage = Invalid_Argument (''usage: dlp_metal_option_pricer price <call|put> <spot> <strike> '' @
     ''<expiry-years> <volatility> <rate> <paths> [seed]'')"

text \<open>The arguments with the name of the program first.\<close>

definition ParseCliRequest :: "'d PricerLib \<Rightarrow> string list \<Rightarrow> 'd PricingRequest res" where
  "ParseCliRequest lib argv =
     (if length argv \<noteq> 9 \<and> length argv \<noteq> 10 then Inl pricer_usage
      else
     bind_res (ParseOptionType (argv ! 2)) (\<lambda>optionType.
     bind_res (stod lib (argv ! 3)) (\<lambda>spot.
     bind_res (stod lib (argv ! 4)) (\<lambda>strike.
     bind_res (stod lib (argv ! 5)) (\<lambda>expiryYears.
     bind_res (stod lib (argv ! 6)) (\<lambda>volatility.
     bind_res (stod lib (argv ! 7)) (\<lambda>riskFreeRate.
     bind_res (std_stoull ''stoull'' (argv ! 8)) (\<lambda>(paths, _).
     bind_res (if length argv = 10 then map_result (\<lambda>(n, _). ucast n) (std_stoull ''stoul'' (argv ! 9)) else Inr 42) (\<lambda>seed.
     Inr \<lparr>pq_optionType = optionType, pq_spot = spot, pq_strike = strike, pq_expiryYears = expiryYears, pq_volatility = volatility,
          pq_riskFreeRate = riskFreeRate, pq_paths = paths, pq_seed = seed\<rparr>)))))))))"

definition ParsePort :: "string \<Rightarrow> 16 word res" where
  "ParsePort v =
     bind_res (std_stoull ''stoul'' v) (\<lambda>(port, _).
     if port > 65535 then Inl (Invalid_Argument ''port must be between 0 and 65535'') else Inr (ucast port))"

text \<open>What the process does: print a price, or serve requests at an address and port.\<close>

datatype PricerAction = PrintPrice json | ServeAt string "16 word"

definition pricer_main :: "('d, 'f) Metal res \<Rightarrow> 'd PricerLib \<Rightarrow> string list \<Rightarrow> PricerAction res" where
  "pricer_main newMetal lib argv =
     bind_res newMetal (\<lambda>metal.
     let command = (if length argv > 1 then argv ! 1 else ''serve'') in
     if command = ''price'' then
       bind_res (ParseCliRequest lib argv) (\<lambda>request.
       map_result (\<lambda>result. PrintPrice (ToJson lib request result)) (Price metal request))
     else if command \<noteq> ''serve'' then Inl (Invalid_Argument ''command must be serve or price'')
     else
       bind_res (if length argv > 3 then ParsePort (argv ! 3) else Inr 18081) (\<lambda>port.
       Inr (ServeAt (if length argv > 2 then argv ! 2 else ''127.0.0.1'') port)))"

end
