(* ===== verification/Option_Properties.thy ===== *)
theory Option_Properties
  imports Option_Pricer
begin

text \<open>
  What the option pricer computes when the arithmetic is exact: put-call parity of the analytic price, the mean
  and the standard error of the simulation; which requests are answered with which status; on the integers of
  the shader, that no two paths share their random state; and, with the rounding of single precision, that
  every uniform number lies strictly between zero and one.
\<close>

section \<open>Exact arithmetic\<close>

text \<open>The real numbers; \<open>e\<close> is the complementary error function.\<close>

definition exact :: "(real \<Rightarrow> real) \<Rightarrow> real Arithmetic" where
  "exact e = \<lparr>fl_lit = (\<lambda>m k. real m / 10 ^ k), fl_frac = (\<lambda>m k. of_int m / 2 ^ k), fl_le = (\<le>), fl_less = (<), fl_neg = uminus,
     fl_add = (+), fl_sub = (-), fl_mul = (*), fl_div = (/), fl_sqrt = sqrt, fl_log = ln, fl_exp = exp, fl_cos = cos, fl_erfc = e, fl_abs = abs\<rparr>"

lemma exact_simps [simp]:
  "fl_lit (exact e) m k = real m / 10 ^ k" "fl_le (exact e) = (\<le>)" "fl_less (exact e) = (<)" "fl_neg (exact e) = uminus"
  "fl_add (exact e) = (+)" "fl_sub (exact e) = (-)" "fl_mul (exact e) = (*)" "fl_div (exact e) = (/)" "fl_sqrt (exact e) = sqrt"
  "fl_log (exact e) = ln" "fl_exp (exact e) = exp" "fl_cos (exact e) = cos" "fl_erfc (exact e) = e" "fl_abs (exact e) = abs"
  by (simp_all add: exact_def)

lemma fl_max_exact [simp]: "fl_max (exact e) x y = max x y"
  by (simp add: fl_max_def)

definition positive_contract :: "real PricingRequest \<Rightarrow> bool" where
  "positive_contract r \<longleftrightarrow> 0 < pq_spot r \<and> 0 < pq_strike r \<and> 0 < pq_expiryYears r \<and> 0 < pq_volatility r"

lemma ValidateContract_exact: "ValidateContract (exact e) r = Inr () \<longleftrightarrow> positive_contract r"
  by (auto simp: ValidateContract_def positive_contract_def Let_def)

text \<open>A value that compares with nothing passes the validation: what is checked is that no parameter is known to be
  too small.\<close>

lemma ValidateContract_unordered:
  assumes "\<And>x. \<not> fl_le A nan x"
  shows "ValidateContract A \<lparr>pq_optionType = t, pq_spot = nan, pq_strike = nan, pq_expiryYears = nan, pq_volatility = nan,
    pq_riskFreeRate = rate, pq_paths = n, pq_seed = seed\<rparr> = Inr ()"
  using assms by (simp add: ValidateContract_def)

section \<open>Put-call parity\<close>

lemma NormalCdf_exact:
  assumes "\<forall>x. e (- x) = 2 - e x"
  shows "NormalCdf (exact e) (- x) = 1 - NormalCdf (exact e) x"
proof -
  have "e (x / sqrt 2) = 2 - e (- x / sqrt 2)" using assms [rule_format, of "x / sqrt 2"] by simp
  then show ?thesis by (simp add: NormalCdf_def field_simps)
qed

text \<open>The closed form, with the two arguments of the distribution function.\<close>

definition bs_d1 :: "real PricingRequest \<Rightarrow> real" where
  "bs_d1 r = (ln (pq_spot r / pq_strike r) + (pq_riskFreeRate r + pq_volatility r * pq_volatility r / 2) * pq_expiryYears r) /
     (pq_volatility r * sqrt (pq_expiryYears r))"

definition bs_d2 :: "real PricingRequest \<Rightarrow> real" where
  "bs_d2 r = bs_d1 r - pq_volatility r * sqrt (pq_expiryYears r)"

lemma BlackScholes_exact:
  assumes "positive_contract r"
  shows "BlackScholesPrice (exact e) r = Inr
    (if pq_optionType r = CallOption
     then pq_spot r * NormalCdf (exact e) (bs_d1 r) - pq_strike r * exp (- pq_riskFreeRate r * pq_expiryYears r) * NormalCdf (exact e) (bs_d2 r)
     else pq_strike r * exp (- pq_riskFreeRate r * pq_expiryYears r) * NormalCdf (exact e) (- bs_d2 r) - pq_spot r * NormalCdf (exact e) (- bs_d1 r))"
proof -
  have "ValidateContract (exact e) r = Inr ()" using assms by (simp add: ValidateContract_exact)
  then show ?thesis by (simp add: BlackScholesPrice_def Let_def bs_d1_def bs_d2_def)
qed

text \<open>C28. Put-call parity. In exact arithmetic, with an error function that has its symmetry, the analytic prices of
  the call and of the put with the same terms exist for every positive contract and differ by the spot
  less the discounted strike.\<close>

theorem put_call_parity:
  assumes "\<forall>x. e (- x) = 2 - e x" "0 < pq_spot r" "0 < pq_strike r" "0 < pq_expiryYears r" "0 < pq_volatility r"
  shows "\<exists>c p. BlackScholesPrice (exact e) (r\<lparr>pq_optionType := CallOption\<rparr>) = Inr c \<and>
    BlackScholesPrice (exact e) (r\<lparr>pq_optionType := PutOption\<rparr>) = Inr p \<and>
    c - p = pq_spot r - pq_strike r * exp (- pq_riskFreeRate r * pq_expiryYears r)"
proof -
  have pos: "positive_contract (r\<lparr>pq_optionType := t\<rparr>)" for t using assms(2-5) by (simp add: positive_contract_def)
  have args: "bs_d1 (r\<lparr>pq_optionType := t\<rparr>) = bs_d1 r" "bs_d2 (r\<lparr>pq_optionType := t\<rparr>) = bs_d2 r" for t
    by (simp_all add: bs_d1_def bs_d2_def)
  show ?thesis unfolding BlackScholes_exact [OF pos] by (simp add: args NormalCdf_exact [OF assms(1)]) (simp add: algebra_simps)
qed

theorem put_call_parity_witness:
  "\<exists>c p. BlackScholesPrice (exact (\<lambda>x. 1 - x)) \<lparr>pq_optionType = CallOption, pq_spot = 3000, pq_strike = 3200, pq_expiryYears = 1,
      pq_volatility = 1, pq_riskFreeRate = 0, pq_paths = 1, pq_seed = 42\<rparr> = Inr c \<and>
    BlackScholesPrice (exact (\<lambda>x. 1 - x)) \<lparr>pq_optionType = PutOption, pq_spot = 3000, pq_strike = 3200, pq_expiryYears = 1,
      pq_volatility = 1, pq_riskFreeRate = 0, pq_paths = 1, pq_seed = 42\<rparr> = Inr p \<and> c - p = - 200"
  using put_call_parity [of "\<lambda>x. 1 - x" "\<lparr>pq_optionType = CallOption, pq_spot = 3000, pq_strike = 3200, pq_expiryYears = 1,
      pq_volatility = 1, pq_riskFreeRate = 0, pq_paths = 1, pq_seed = 42\<rparr>"] by simp

section \<open>The statistics of a simulation\<close>

lemma accumulate_exact:
  "accumulate (exact e) xs (s, q) = (s + sum_list xs, q + (\<Sum>x\<leftarrow>xs. x * x))"
  by (induction xs arbitrary: s q) simp_all

lemma squares_about:
  fixes xs :: "real list"
  shows "(\<Sum>x\<leftarrow>xs. (x - m) ^ 2) = (\<Sum>x\<leftarrow>xs. x * x) - 2 * m * sum_list xs + real (length xs) * m ^ 2"
  by (induction xs) (simp_all add: power2_eq_square algebra_simps)

lemma squares_about_mean:
  fixes xs :: "real list"
  assumes "xs \<noteq> []" "m = sum_list xs / real (length xs)"
  shows "(\<Sum>x\<leftarrow>xs. x * x) - sum_list xs * sum_list xs / real (length xs) = (\<Sum>x\<leftarrow>xs. (x - m) ^ 2)"
  unfolding squares_about assms(2) using assms(1) by (simp add: power2_eq_square field_simps)

text \<open>What a path should be: a standard normal number from two uniform ones (Box and Muller), the price of the
  underlying at the end under the risk-neutral geometric Brownian motion, and the discounted payoff.\<close>

definition hash_uniform :: "32 word \<Rightarrow> real" where
  "hash_uniform v = (real (unat (take_bit 24 (Mix v))) + 1) / (2 ^ 24 + 2)"

definition path_normal :: "32 word \<Rightarrow> 32 word \<Rightarrow> real" where
  "path_normal seed i =
     sqrt (- 2 * ln (hash_uniform (path_state seed i))) * cos (6.28318530718 * hash_uniform (path_state seed i + 277803737))"

definition terminal_spot :: "real PricingRequest \<Rightarrow> real \<Rightarrow> real" where
  "terminal_spot r z = pq_spot r *
     exp ((pq_riskFreeRate r - (pq_volatility r)\<^sup>2 / 2) * pq_expiryYears r + pq_volatility r * sqrt (pq_expiryYears r) * z)"

definition discounted_payoff :: "real PricingRequest \<Rightarrow> real \<Rightarrow> real" where
  "discounted_payoff r z = exp (- pq_riskFreeRate r * pq_expiryYears r) *
     (case pq_optionType r of CallOption \<Rightarrow> max (terminal_spot r z - pq_strike r) 0 | PutOption \<Rightarrow> max (pq_strike r - terminal_spot r z) 0)"

lemma Uniform_exact: "Uniform (exact e) v = hash_uniform v"
proof -
  have "Mix v AND 0xffffff = take_bit 24 (Mix v)" by (simp add: take_bit_eq_mask mask_eq_exp_minus_1)
  then show ?thesis unfolding Uniform_def exact_simps hash_uniform_def by simp
qed

lemma priceOptionPaths_exact:
  assumes "\<forall>x. me_narrow metal x = x" "positive_contract r" "i < ucast (pq_paths r)"
  shows "priceOptionPaths (exact e) (pricing_parameters metal r) i = Some (discounted_payoff r (path_normal (pq_seed r) i))"
proof -
  have root: "sqrt (pq_volatility r * pq_volatility r * pq_expiryYears r) = pq_volatility r * sqrt (pq_expiryYears r)"
    using assms(2) by (simp add: real_sqrt_mult positive_contract_def)
  show ?thesis
    unfolding priceOptionPaths_def Let_def pricing_parameters_def Uniform_exact
    using assms(1,3)
    by (cases "pq_optionType r")
      (simp_all add: root not_le path_normal_def discounted_payoff_def terminal_spot_def power2_eq_square left_diff_distrib)
qed

lemma path_in_grid:
  assumes "pq_paths r \<le> MAX_PATHS" "i < unat (pq_paths r)"
  shows "(of_nat i :: 32 word) < ucast (pq_paths r)"
proof -
  have "unat (pq_paths r) \<le> 10000000" using assms(1) by (simp add: MAX_PATHS_def word_le_nat_alt)
  then show ?thesis
    using assms(2) by (simp add: word_less_nat_alt unsigned_of_nat unsigned_ucast_eq take_bit_nat_eq_self unsigned_take_bit_eq)
qed

lemma Price_exact:
  assumes "me_double metal = exact e" "BlackScholesPrice (exact e) r = Inr analytic" "\<not> (pq_paths r = 0 \<or> MAX_PATHS < pq_paths r)"
    "me_error metal = None" "xs = map (\<lambda>v. me_widen metal (the v)) (payoffs metal r)" "length xs = unat (pq_paths r)"
  shows "Price metal r = Inr \<lparr>pt_monteCarloPrice = sum_list xs / real (length xs), pt_analyticPrice = analytic,
    pt_standardError = sqrt (max (if 1 < pq_paths r
      then ((\<Sum>x\<leftarrow>xs. x * x) - sum_list xs * sum_list xs / real (length xs)) / real (unat (pq_paths r - 1)) else 0) 0 / real (length xs)),
    pt_absoluteDifference = \<bar>sum_list xs / real (length xs) - analytic\<bar>, pt_paths = pq_paths r,
    pt_elapsedMilliseconds = me_elapsed metal, pt_device = me_name metal\<rparr>"
  unfolding Price_def Let_def assms(1,2,4) bind_res_simps if_not_P [OF assms(3)] option.case assms(5) [symmetric]
    exact_simps accumulate_exact prod.case fl_max_exact assms(6)
  by simp

lemma payoffs_exact:
  assumes "me_float metal = exact e" "\<forall>x. me_narrow metal x = x" "positive_contract r" "pq_paths r \<le> MAX_PATHS"
    and "xs = map (\<lambda>i. discounted_payoff r (path_normal (pq_seed r) (of_nat i))) [0..<unat (pq_paths r)]"
  shows "payoffs metal r = map Some xs"
  unfolding payoffs_def assms(1,5) map_map comp_def
proof (rule map_cong [OF refl])
  fix i assume "i \<in> set [0..<unat (pq_paths r)]"
  with path_in_grid [OF assms(4)] show "priceOptionPaths (exact e) (pricing_parameters metal r) (of_nat i) =
      Some (discounted_payoff r (path_normal (pq_seed r) (of_nat i)))"
    by (intro priceOptionPaths_exact [OF assms(2,3)]) simp
qed

text \<open>C27. The statistics of the simulation. Take exact arithmetic for both precisions. For a positive contract and a number
  of paths within the limits, when the GPU does not fail, every place of its buffer has been written, path
  \<open>i\<close> with the discounted payoff of the call or put at the price that the risk-neutral geometric Brownian
  motion reaches for the normal number of the path; and the result holds the mean of these payoffs, the
  standard error of that mean (the root of the sample variance over the number of paths, zero for a single
  path), the analytic price and the distance between the two. The correction of a negative variance is
  never needed.\<close>

theorem Price_statistics:
  assumes "me_double metal = exact e" "me_float metal = exact e'" "\<forall>x. me_narrow metal x = x" "\<forall>x. me_widen metal x = x"
    and "positive_contract r" "0 < pq_paths r" "pq_paths r \<le> MAX_PATHS" "me_error metal = None"
    and "xs = map (\<lambda>i. discounted_payoff r (path_normal (pq_seed r) (of_nat i))) [0..<unat (pq_paths r)]"
    and "mean = sum_list xs / real (length xs)"
  shows "\<exists>result analytic. Price metal r = Inr result \<and> BlackScholesPrice (exact e) r = Inr analytic \<and> payoffs metal r = map Some xs \<and>
    pt_monteCarloPrice result = mean \<and> pt_standardError result = sqrt ((\<Sum>x\<leftarrow>xs. (x - mean) ^ 2) / real (length xs - 1) / real (length xs)) \<and>
    pt_analyticPrice result = analytic \<and> pt_absoluteDifference result = \<bar>mean - analytic\<bar> \<and> pt_paths result = pq_paths r"
proof -
  obtain analytic where analytic: "BlackScholesPrice (exact e) r = Inr analytic"
    using BlackScholes_exact [OF assms(5), of e] ..
  have payoffs: "payoffs metal r = map Some xs" by (rule payoffs_exact [OF assms(2,3,5,7,9)])
  then have written: "xs = map (\<lambda>v. me_widen metal (the v)) (payoffs metal r)" using assms(4) by (simp add: comp_def)
  have len: "length xs = unat (pq_paths r)" by (simp add: assms(9))
  have "0 < length xs" using assms(6) len by (simp add: unat_gt_0)
  then have "xs \<noteq> []" by auto
  have acc: "accumulate (exact e) xs (0, 0) = (sum_list xs, \<Sum>x\<leftarrow>xs. x * x)" by (simp add: accumulate_exact)
  let ?v = "(\<Sum>x\<leftarrow>xs. (x - mean) ^ 2) / real (length xs - 1)"
  have many: "1 < pq_paths r \<longleftrightarrow> 1 < length xs" by (simp add: word_less_nat_alt len)
  have pred: "unat (pq_paths r - 1) = length xs - 1" using assms(6) unat_minus_one [of "pq_paths r"] by (simp add: len word_gt_0)
  have variance: "(if 1 < pq_paths r
      then ((\<Sum>x\<leftarrow>xs. x * x) - sum_list xs * sum_list xs / real (length xs)) / real (length xs - 1) else 0) = ?v"
  proof (cases "1 < length xs")
    case True
    then show ?thesis unfolding many squares_about_mean [OF \<open>xs \<noteq> []\<close> assms(10)] by simp
  next
    case False
    with \<open>0 < length xs\<close> have "length xs - 1 = 0" by simp
    with False show ?thesis unfolding many by simp
  qed
  have "0 \<le> ?v" by (intro divide_nonneg_nonneg sum_list_nonneg) auto
  then have "max ?v 0 = ?v" by simp
  have ok: "\<not> (pq_paths r = 0 \<or> MAX_PATHS < pq_paths r)" using assms(6,7) by auto
  note price = Price_exact [OF assms(1) analytic ok assms(8) written len, unfolded pred variance \<open>max ?v 0 = ?v\<close> assms(10) [symmetric]]
  show ?thesis unfolding price using analytic payoffs by simp
qed

definition demo_metal :: "(real, real) Metal" where
  "demo_metal = \<lparr>me_double = exact (\<lambda>x. 1 - x), me_float = exact (\<lambda>x. 1 - x), me_narrow = (\<lambda>x. x), me_widen = (\<lambda>x. x), me_error = None,
     me_elapsed = 1, me_name = ''GPU''\<rparr>"

definition demo_contract :: "real PricingRequest" where
  "demo_contract = \<lparr>pq_optionType = CallOption, pq_spot = 3000, pq_strike = 3200, pq_expiryYears = 1, pq_volatility = 1,
     pq_riskFreeRate = 0, pq_paths = 2, pq_seed = 42\<rparr>"

text \<open>For two paths the standard error is half the distance of their payoffs.\<close>

lemma two_values:
  fixes x y :: real
  shows "sqrt (((x - (x + y) / 2)\<^sup>2 + (y - (x + y) / 2)\<^sup>2) / 2) = \<bar>x - y\<bar> / 2"
proof -
  have "((x - (x + y) / 2)\<^sup>2 + (y - (x + y) / 2)\<^sup>2) / 2 = ((x - y) / 2)\<^sup>2" by (simp add: power2_eq_square field_simps)
  then show ?thesis by simp
qed

theorem Price_statistics_witness:
  "\<exists>result. Price demo_metal demo_contract = Inr result \<and> pt_paths result = 2 \<and>
    pt_monteCarloPrice result = (discounted_payoff demo_contract (path_normal 42 0) + discounted_payoff demo_contract (path_normal 42 1)) / 2 \<and>
    pt_standardError result = \<bar>discounted_payoff demo_contract (path_normal 42 0) - discounted_payoff demo_contract (path_normal 42 1)\<bar> / 2"
proof -
  let ?x = "discounted_payoff demo_contract (path_normal 42 0)" and ?y = "discounted_payoff demo_contract (path_normal 42 1)"
  have xs: "[?x, ?y] = map (\<lambda>i. discounted_payoff demo_contract (path_normal (pq_seed demo_contract) (of_nat i))) [0..<unat (pq_paths demo_contract)]"
    by (simp add: demo_contract_def upt_rec)
  have mean: "(?x + ?y) / 2 = sum_list [?x, ?y] / real (length [?x, ?y])" by simp
  have metal: "me_double demo_metal = exact (\<lambda>x. 1 - x)" "me_float demo_metal = exact (\<lambda>x. 1 - x)" "\<forall>x. me_narrow demo_metal x = x"
    "\<forall>x. me_widen demo_metal x = x" "me_error demo_metal = None" by (simp_all add: demo_metal_def)
  have contract: "positive_contract demo_contract" "0 < pq_paths demo_contract" "pq_paths demo_contract \<le> MAX_PATHS"
    by (simp_all add: demo_contract_def positive_contract_def MAX_PATHS_def)
  from Price_statistics [OF metal(1-4) contract metal(5) xs mean] obtain result where
    "Price demo_metal demo_contract = Inr result" "pt_monteCarloPrice result = (?x + ?y) / 2"
    "pt_standardError result = sqrt ((\<Sum>x\<leftarrow>[?x, ?y]. (x - (?x + ?y) / 2)\<^sup>2) / real (length [?x, ?y] - 1) / real (length [?x, ?y]))"
    "pt_paths result = pq_paths demo_contract" by (elim exE conjE) simp
  then show ?thesis using two_values [of ?x ?y] by (intro exI [of _ result]) (simp add: demo_contract_def)
qed

section \<open>Answers\<close>

text \<open>Every exception of reading a request, of the contract and of the number of paths is the client's: it is answered
  with 400. Only a failure of the GPU is answered with 500.\<close>

definition client_fault :: "'a res \<Rightarrow> bool" where
  "client_fault m \<longleftrightarrow> (\<forall>x. m = Inl x \<longrightarrow> error_status x = 400)"

lemma client_fault_rules [intro]:
  "client_fault (Inr v)" "client_fault (Inl (Invalid_Argument text))" "client_fault (Inl Json_Error)"
  "client_fault m \<Longrightarrow> (\<And>v. client_fault (f v)) \<Longrightarrow> client_fault (bind_res m f)"
  by (auto simp: client_fault_def res_simps)

lemma client_fault_json [intro]:
  "client_fault (json_double A v)" "client_fault (json_unsigned v)" "client_fault (json_string v)" "client_fault (json_at body key)"
  by (cases v; auto)+ (auto simp: json_at_def split: option.split)

lemma client_fault_ParseRequest: "client_fault (ParseRequest A body)"
proof -
  have "client_fault (ParseOptionType s)" for s by (auto simp: ParseOptionType_def)
  moreover have "client_fault (seed_of body)" by (auto simp: seed_of_def split: option.split)
  ultimately show ?thesis
    unfolding ParseRequest_def double_at_def string_at_def by (intro client_fault_rules client_fault_json) auto
qed

lemma client_fault_BlackScholes: "client_fault (BlackScholesPrice A request)"
proof -
  have "client_fault (ValidateContract A request)" by (auto simp: ValidateContract_def Let_def)
  then show ?thesis unfolding BlackScholesPrice_def Let_def by (intro client_fault_rules) auto
qed

lemma client_fault_Price:
  assumes "me_error metal = None"
  shows "client_fault (Price metal request)"
  unfolding Price_def Let_def assms by (intro client_fault_rules client_fault_BlackScholes) (auto split: prod.split)

lemma HandleRequest_status:
  assumes "client_fault (li_parse lib (ph_body request))" "me_error metal = None"
  shows "pp_status (HandleRequest metal lib request) \<in> {200, 400, 404}"
proof -
  have "client_fault (bind_res (bind_res (li_parse lib (ph_body request)) (ParseRequest (me_double metal))) (\<lambda>pricingRequest.
    map_result (ToJson lib pricingRequest) (Price metal pricingRequest)))"
    unfolding map_result_def
    by (intro client_fault_rules assms(1) client_fault_ParseRequest client_fault_Price [OF assms(2)])
  then show ?thesis by (auto simp: HandleRequest_def JsonResponse_def client_fault_def split: sum.split)
qed

section \<open>Random states\<close>

lemma xor_shift_invert:
  fixes x :: "32 word"
  shows "(x XOR drop_bit 16 x) XOR drop_bit 16 (x XOR drop_bit 16 x) = x"
    "(x XOR drop_bit 15 x) XOR drop_bit 15 (x XOR drop_bit 15 x) XOR drop_bit 30 (x XOR drop_bit 15 x) = x"
  by (rule bit_word_eqI; auto simp: bit_simps dest: bit_imp_le_length)+

lemma inj_xor_shift: "inj (\<lambda>x :: 32 word. x XOR drop_bit 16 x)" "inj (\<lambda>x :: 32 word. x XOR drop_bit 15 x)"
  by (rule inj_on_inverseI [where g = "\<lambda>y. y XOR drop_bit 16 y"], rule xor_shift_invert(1))
    (rule inj_on_inverseI [where g = "\<lambda>y. y XOR drop_bit 15 y XOR drop_bit 30 y"], simp only: xor_shift_invert(2))

lemma inj_odd_multiple:
  fixes a b :: "32 word"
  assumes "a * b = 1"
  shows "inj (\<lambda>x. x * a)"
  by (rule inj_on_inverseI [where g = "\<lambda>y. y * b"]) (simp add: assms mult.assoc)

lemma inj_Mix: "inj Mix"
proof -
  have mix: "Mix = (\<lambda>x. x XOR drop_bit 16 x) \<circ> (\<lambda>x. x * 0x846ca68b) \<circ> (\<lambda>x. x XOR drop_bit 15 x) \<circ> (\<lambda>x. x * 0x7feb352d) \<circ> (\<lambda>x. x XOR drop_bit 16 x)"
    by (simp add: fun_eq_iff Mix_def Let_def)
  have m1: "inj (\<lambda>x :: 32 word. x * 0x846ca68b)" by (rule inj_odd_multiple [of _ 1124208931]) simp
  have m2: "inj (\<lambda>x :: 32 word. x * 0x7feb352d)" by (rule inj_odd_multiple [of _ 493478565]) simp
  show ?thesis unfolding mix by (intro inj_compose inj_xor_shift m1 m2)
qed

lemma inj_path_state: "inj (path_state seed)"
proof (rule inj_on_inverseI [where g = "\<lambda>y. ((seed XOR y) - 2891336453) * 3425435293"])
  have unit: "747796405 * 3425435293 = (1 :: 32 word)" by simp
  fix i :: "32 word"
  have "seed XOR path_state seed i = i * 747796405 + 2891336453" unfolding path_state_def by (simp flip: xor.assoc)
  then have "((seed XOR path_state seed i) - 2891336453) * 3425435293 = i * (747796405 * 3425435293)"
    by (simp only: add_diff_cancel_right' mult.assoc)
  then show "((seed XOR path_state seed i) - 2891336453) * 3425435293 = i" unfolding unit by simp
qed

section \<open>Single precision\<close>

text \<open>Rounding to nearest, ties to even, to the 24 significant bits of \<open>binary32\<close>. The spacing of the numbers around \<open>x\<close> is
  \<open>spacing x\<close>; it is that of \<open>binary32\<close> for the numbers in \<open>normal_range\<close>, the only ones of which the
  assumption on the arithmetic speaks.\<close>

definition nearest_even :: "real \<Rightarrow> int" where
  "nearest_even y = (if y - of_int \<lfloor>y\<rfloor> < 1 / 2 \<or> y - of_int \<lfloor>y\<rfloor> = 1 / 2 \<and> even \<lfloor>y\<rfloor> then \<lfloor>y\<rfloor> else \<lfloor>y\<rfloor> + 1)"

definition spacing :: "real \<Rightarrow> real" where
  "spacing x = 2 powr (of_int \<lfloor>log 2 \<bar>x\<bar>\<rfloor> - 23)"

definition single :: "real \<Rightarrow> real" where
  "single x = of_int (nearest_even (x / spacing x)) * spacing x"

definition normal_range :: "real \<Rightarrow> bool" where
  "normal_range x \<longleftrightarrow> x = 0 \<or> 1 / 2 ^ 126 \<le> \<bar>x\<bar> \<and> \<bar>x\<bar> < 2 ^ 127"

definition rounds_to_nearest :: "real Arithmetic \<Rightarrow> bool" where
  "rounds_to_nearest F \<longleftrightarrow> (\<forall>m k. normal_range (real m / 10 ^ k) \<longrightarrow> fl_lit F m k = single (real m / 10 ^ k)) \<and>
     (\<forall>x y. normal_range (x + y) \<longrightarrow> fl_add F x y = single (x + y)) \<and> (\<forall>x y. normal_range (x / y) \<longrightarrow> fl_div F x y = single (x / y))"

lemma spacing_pos: "0 < spacing x"
  by (simp add: spacing_def)

lemma nearest_even_of_int [simp]: "nearest_even (of_int k) = k"
  by (simp add: nearest_even_def)

lemma single_zero [simp]: "single 0 = 0"
  by (simp add: single_def nearest_even_def)

lemma nearest_even_floor: "\<lfloor>y\<rfloor> \<le> nearest_even y"
  by (simp add: nearest_even_def)

lemma nearest_even_upper: "of_int (nearest_even y) \<le> y + 1 / 2"
  by (auto simp: nearest_even_def) linarith+

lemma single_upper: "single x \<le> x + spacing x / 2"
proof -
  have "of_int (nearest_even (x / spacing x)) * spacing x \<le> (x / spacing x + 1 / 2) * spacing x"
    using spacing_pos [of x] by (intro mult_right_mono nearest_even_upper) simp
  also have "\<dots> = x + spacing x / 2" using spacing_pos [of x] by (simp add: field_simps)
  finally show ?thesis unfolding single_def .
qed

lemma single_pos:
  assumes "0 < x"
  shows "0 < single x"
proof -
  have "2 powr of_int \<lfloor>log 2 x\<rfloor> \<le> x" using assms by (simp add: powr_le_iff)
  moreover have "spacing x \<le> 2 powr of_int \<lfloor>log 2 x\<rfloor>" using assms by (simp add: spacing_def)
  ultimately have "1 \<le> x / spacing x" using spacing_pos [of x] by simp
  then have "1 \<le> \<lfloor>x / spacing x\<rfloor>" by simp
  then have "1 \<le> nearest_even (x / spacing x)" using nearest_even_floor [of "x / spacing x"] by linarith
  then show ?thesis unfolding single_def using spacing_pos [of x] by simp
qed

lemma single_exact:
  assumes "x = of_int k * spacing x"
  shows "single x = x"
proof -
  have "x / spacing x = of_int k" using assms spacing_pos [of x] by (metis less_irrefl nonzero_mult_div_cancel_right)
  with assms show ?thesis by (simp add: single_def)
qed

lemma spacing_between:
  assumes "2 powr of_int k \<le> x" "x < 2 powr (of_int k + 1)"
  shows "spacing x = 2 powr (of_int k - 23)"
proof -
  have "0 < x" by (rule less_le_trans [OF _ assms(1)]) simp
  with assms have "\<lfloor>log 2 x\<rfloor> = k" by (subst floor_log_eq_powr_iff) auto
  with \<open>0 < x\<close> show ?thesis by (simp add: spacing_def)
qed

text \<open>The integers of the shader are numbers of single precision: those up to \<open>2 ^ 24\<close> and the divisor.\<close>

lemma single_nat:
  assumes "0 < n" "n \<le> 2 ^ 24"
  shows "single (real n) = real n"
proof (cases "n = 2 ^ 24")
  case True
  have "spacing (real n) = 2 powr (of_int 24 - 23)" unfolding True by (rule spacing_between) (simp_all add: powr_realpow)
  then have "real n = of_int (2 ^ 23) * spacing (real n)" unfolding True by simp
  then show ?thesis by (rule single_exact)
next
  case False
  obtain k where k: "2 ^ k \<le> n" "n < 2 ^ (k + 1)" using ex_power_ivl1 [of 2 n] assms(1) by auto
  with False assms(2) have "2 ^ k < (2 ^ 24 :: nat)" by linarith
  then have "k < 24" by (rule power_less_imp_less_exp [rotated]) simp
  then have "k \<le> 23" by simp
  have "spacing (real n) = 2 powr (of_int (int k) - 23)"
  proof (rule spacing_between)
    show "2 powr of_int (int k) \<le> real n" using k(1) by (simp add: powr_realpow flip: of_nat_power_le_of_nat_cancel_iff)
    show "real n < 2 powr (of_int (int k) + 1)" using k(2) by (simp add: powr_add powr_realpow flip: of_nat_less_iff [where 'a = real])
  qed
  also have "\<dots> = 1 / 2 ^ (23 - k)" using \<open>k \<le> 23\<close> by (simp add: powr_diff powr_realpow power_diff)
  finally have "real n = of_int (int n * 2 ^ (23 - k)) * spacing (real n)" by simp
  then show ?thesis by (rule single_exact)
qed

lemma single_divisor: "single 16777218 = 16777218"
proof -
  have "spacing 16777218 = 2 powr (of_int 24 - 23)" by (rule spacing_between) (simp_all add: powr_realpow)
  then have "16777218 = of_int 8388609 * spacing 16777218" by simp
  then show ?thesis by (rule single_exact)
qed

text \<open>A quotient that lies below one by at least two parts in \<open>2 ^ 25\<close> is not rounded up to one.\<close>

lemma single_below_one:
  assumes "0 < x" "x < 1 - 1 / 2 ^ 25"
  shows "single x < 1"
proof -
  have "log 2 x < 0" using assms by simp
  then have "\<lfloor>log 2 x\<rfloor> \<le> - 1" by linarith
  then have "spacing x \<le> 2 powr (- 24)" using assms(1) by (simp add: spacing_def)
  also have "\<dots> = 1 / 2 ^ 24" by (simp add: powr_minus powr_realpow)
  finally show ?thesis using single_upper [of x] assms(2) by simp
qed

lemma Uniform_single:
  assumes "rounds_to_nearest F"
  obtains m where "m < 2 ^ 24" "Uniform F v = single (real (m + 1) / 16777218)"
proof -
  define m where "m = unat (Mix v AND 0x00ffffff)"
  have "Mix v AND 0xffffff = take_bit 24 (Mix v)" by (simp add: take_bit_eq_mask mask_eq_exp_minus_1)
  then have less: "m < 2 ^ 24" using take_bit_nat_less_exp [of 24 "unat (Mix v)"] by (simp add: m_def unsigned_take_bit_eq)
  have lit: "normal_range (real n / 10 ^ k) \<Longrightarrow> fl_lit F n k = single (real n / 10 ^ k)"
    and sum: "normal_range (x + y) \<Longrightarrow> fl_add F x y = single (x + y)"
    and quot: "normal_range (x / y) \<Longrightarrow> fl_div F x y = single (x / y)" for n k x y
    using assms by (auto simp: rounds_to_nearest_def)
  have "fl_lit F m 0 = single (real m)" using lit [of m 0] less by (cases "m = 0") (simp_all add: normal_range_def)
  with less have "fl_lit F m 0 = real m" by (cases "m = 0") (simp_all add: single_nat)
  moreover have "fl_lit F 10 1 = 1" "fl_lit F 167772180 1 = 16777218"
    using lit [of 10 1] lit [of 167772180 1] single_nat [of 1] single_divisor by (simp_all add: normal_range_def)
  moreover have "fl_add F (real m) 1 = real (m + 1)"
    using sum [of "real m" 1] less single_nat [of "m + 1"] by (simp add: normal_range_def add.commute)
  moreover have "fl_div F (real (m + 1)) 16777218 = single (real (m + 1) / 16777218)"
    using less by (intro quot) (simp add: normal_range_def)
  ultimately have "Uniform F v = single (real (m + 1) / 16777218)" unfolding Uniform_def m_def [symmetric] by simp
  with less show thesis by (rule that)
qed

text \<open>C29. Random numbers of the paths. No two of the \<open>2 ^ 32\<close> possible paths of a simulation share their random state, and
  the hash keeps them apart. When the literals, the addition and the division of the shader round to the
  nearest number of single precision, ties to even, both uniform numbers of every path lie strictly between
  zero and one, so that the logarithm of the first exists and is negative: the largest quotient is not
  rounded up to one, and the divisor is itself a number of single precision.\<close>

theorem path_randomness:
  assumes "rounds_to_nearest F"
  shows "(\<forall>i j. Mix (path_state seed i) = Mix (path_state seed j) \<longleftrightarrow> i = j) \<and> 0 < Uniform F v \<and> Uniform F v < 1 \<and> ln (Uniform F v) < 0"
proof -
  obtain m where m: "m < 2 ^ 24" "Uniform F v = single (real (m + 1) / 16777218)" by (rule Uniform_single [OF assms])
  then have "real (m + 1) \<le> 2 ^ 24" by simp
  then have "real (m + 1) / 16777218 < 1 - 1 / 2 ^ 25" by simp
  then have "0 < Uniform F v" "Uniform F v < 1" unfolding m(2) by (simp_all add: single_pos single_below_one)
  moreover have "Mix (path_state seed i) = Mix (path_state seed j) \<longleftrightarrow> i = j" for i j
    using inj_Mix inj_path_state [of seed] by (auto dest: injD)
  ultimately show ?thesis by simp
qed

text \<open>An arithmetic that rounds so.\<close>

definition rounded :: "real Arithmetic" where
  "rounded = (exact (\<lambda>x. 1 - x))\<lparr>fl_lit := \<lambda>m k. single (real m / 10 ^ k), fl_add := \<lambda>x y. single (x + y),
     fl_div := \<lambda>x y. single (x / y)\<rparr>"

theorem path_randomness_witness:
  "rounds_to_nearest rounded \<and> Mix (path_state 42 0) \<noteq> Mix (path_state 42 1) \<and> 0 < Uniform rounded 7 \<and> Uniform rounded 7 < 1"
proof -
  have near: "rounds_to_nearest rounded" by (simp add: rounds_to_nearest_def rounded_def)
  show ?thesis using path_randomness [OF near, of 42 7] near by simp
qed

end
