(* ===== verification/Spec2Isabelle.thy ===== *)
theory Spec2Isabelle
  imports Transaction Candidate Projector_Rounding Indexed_View Api_Properties Broker Deployment_Properties Processes Start_Up Failover_Properties Rpc_Correct
    Option_Properties
begin

text \<open>
  A verification development of the C++ services of a decentralized lending protocol (\<open>src/cpp\<close>), and of the option
  pricer in \<open>src/tools/metal-option-pricer\<close>.

  \<^bold>\<open>The program.\<close> Smart contracts hold a USDC pool with WETH collateral. Off chain, six processes share one
  PostgreSQL database and a NATS JetStream broker. The \<^emph>\<open>indexer\<close> follows the chain, projects the events of the
  contracts into positions, a market and liquidations, rewinds when the chain reorganises, and writes an
  event per block into a transactional outbox. The \<^emph>\<open>publisher\<close> moves the outbox to the broker. The \<^emph>\<open>risk worker\<close>
  consumes block events, evaluates every position with debt, and writes a candidate for each that can be
  liquidated into the outbox. The \<^emph>\<open>liquidator\<close> consumes candidates, keeps a queue of jobs with leases and
  fencing tokens, checks the position again on the chain and queues a transaction when it is profitable.
  The \<^emph>\<open>transaction manager\<close> signs, sends, replaces and confirms queued transactions. The \<^emph>\<open>API\<close> answers
  questions about the indexed state.

  \<^bold>\<open>How code becomes definitions.\<close> A method that may throw has a result \<open>exn + 'a\<close> (\<open>res\<close>); one that also changes
  stored state is a function from the state to a result and the state it leaves, also when it throws
  (\<open>prog\<close>). A store method that throws leaves the database as it was, because the sources run each in one
  transaction. SQL statements are operations on lists of rows and maps, with the columns, keys, conflict
  clauses and orders of \<open>database/migrations\<close>; a \<open>BIGINT\<close> rejects what does not fit. \<open>NOW()\<close> and the rows skipped by
  \<open>SKIP LOCKED\<close> are arguments. 64-bit and 256-bit integers are words; the checked Boost integers under
  \<open>Uint256\<close> throw where Boost documents it. The following are parameters: Keccak, the secp256k1 library, the
  answers of the Ethereum node, the functions of the NATS client and of the metrics library, the clocks, the text
  of JSON values, floating-point arithmetic, and what other services write between two transactions. Logging
  and sleeping have no definitions; the calls of metrics have those of \<open>Processes\<close>, \<open>Metrics\<close> and \<open>Observation\<close>.

  \<^bold>\<open>The theories\<close>, with the sources under \<open>src/cpp\<close> that they model.

  \<^item> \<open>Prelude\<close>, \<open>Effects\<close>, \<open>Json\<close>, \<open>Db\<close>, \<open>Service_Db\<close>: exceptions and results, programs with their rules (\<open>valid\<close>, \<open>keeps\<close>),
    JSON values, tables, and the database that the services share. The locale \<open>codec\<close> is the contract of an
    encoder with its decoder; the formats below interpret it.
  \<^item> \<open>Hex\<close>, \<open>Uint256\<close>, \<open>Abi\<close>, \<open>Transaction\<close>: \<open>common/src\<close> \<open>Hex\<close>, \<open>Uint256\<close>, \<open>Uint256Math\<close>, \<open>Address\<close>, \<open>Keccak\<close>, \<open>Abi\<close>, \<open>ProtocolAbi\<close>, \<open>Rlp\<close>,
    \<open>Transaction\<close>. Round trips of every text and byte form, exact full-precision multiply-divide (\<open>MulDiv_exact\<close>),
    and that a signing payload determines its transaction.
  \<^item> \<open>Risk\<close>, \<open>Candidate\<close>: \<open>risk-engine/src\<close> \<open>RiskCalculator\<close>, \<open>RiskEngine\<close>. \<open>Candidate\<close> states the liquidation rules in
    plain arithmetic and proves that the code computes them, when it throws, and that a candidate never
    takes more than there is.
  \<^item> \<open>State_Projector\<close>, \<open>Projector_Values\<close>, \<open>Projector_Accounting\<close>, \<open>Projector_Rounding\<close>: \<open>indexer/src\<close> \<open>EventDecoder\<close>, \<open>StateProjector\<close>.
    Conservation of the pool's balance, totals as sums over positions, that a rebuild from the
    log table repeats the indexing block by block, and which events are accepted.
  \<^item> \<open>Indexer_Store\<close>, \<open>Store_Laws\<close>, \<open>Store_Round_Trip\<close>, \<open>Indexer\<close>, \<open>Indexer_Correct\<close>, \<open>Indexer_Progress\<close>, \<open>Indexer_Properties\<close>, \<open>Reorg_Count\<close>: \<open>PostgresStore\<close>
    and \<open>Indexer\<close>. The locale \<open>indexer_store\<close> is the abstract store (a canonical history, a tip and a derived
    state); \<open>pg\<close> interprets it on the PostgreSQL tables. The derived state is always the projection of the
    canonical history, and on a chain at rest the loop reaches the head. The counter of reorganisations
    follows the events of reorganisations in the outbox.
  \<^item> \<open>Indexed_View\<close>, \<open>Risk_Worker\<close>, \<open>Risk_Service\<close>, \<open>Risk_Safety\<close>: \<open>PostgresRiskRepository\<close>, \<open>RiskWorker\<close>, \<open>WorkerMain\<close>. What the
    risk engine reads is what the indexer wrote; everything announced was liquidatable; an event is scanned
    for exactly once.
  \<^item> \<open>Messaging\<close>, \<open>Consumer\<close>, \<open>Jet_Stream\<close>: \<open>messaging/src\<close> \<open>Event\<close>, \<open>Outbox\<close>, \<open>JetStream\<close>. \<open>Jet_Stream\<close> has the calls of the
    NATS client, with their statuses; \<open>Consumer\<close> a consuming loop over any broker. The publisher of the outbox
    is a resumption (\<open>RunOnce_calls\<close>) that stops at each call of its two interfaces. The locale
    \<open>idempotent_consumer\<close> states what a handler must promise so that acknowledging after the commit gives
    exactly-once effects; the risk worker and the liquidator interpret it.
  \<^item> \<open>Lease\<close>, \<open>Liquidation\<close>, \<open>Liquidation_Properties\<close>, \<open>Pipeline\<close>, \<open>Liquidator_Service\<close>, \<open>Liquidator_Safety\<close>: \<open>liquidator/src\<close>. \<open>Lease\<close> is
    an abstract ledger of leases that the statements of the queue refine; from it come the fencing of stale
    workers and the single submission of a job. What is sent was profitable by the numbers that the node
    gave in the requests just before (\<open>worth_sending_at\<close>). \<open>Pipeline\<close> follows a candidate from the scan to the claimed
    job.
  \<^item> \<open>Tx_Store\<close>, \<open>Tx_Manager\<close>, \<open>Tx_Correct\<close>, \<open>Tx_Round\<close>, \<open>Tx_Properties\<close>, \<open>Tx_Theorems\<close>: \<open>tx-manager/src\<close> \<open>TxTypes\<close>,
    \<open>PostgresTransactionStore\<close>, \<open>TxManager\<close>. The life cycle of a job, that only approved calls are sent and none
    is forgotten, nonces, and a job that an exception strands.
  \<^item> \<open>Rpc_Types\<close>, \<open>Rpc_Client\<close>, \<open>Rpc_Correct\<close>, \<open>Failover\<close>, \<open>Failover_Correct\<close>, \<open>Failover_Properties\<close>: \<open>common/src\<close> \<open>RpcClient\<close>,
    \<open>RpcEndpoints\<close>, \<open>tx-manager/src/TransactionRpc\<close>, \<open>indexer/src/RpcChainClient\<close>. Whatever a node sends, the
    answers are well typed or rejected; the locale \<open>endpoint_ring\<close> gives one chain and availability for each
    of the three clients over several endpoints.
  \<^item> \<open>Api_Server\<close>, \<open>Api_Correct\<close>, \<open>Api_Properties\<close>, \<open>Rate_Limit\<close>: \<open>api-server/src\<close>. The answers are the projected state, every
    request has an answer, and the bound of the rate limiter.
  \<^item> \<open>Numerals\<close>, \<open>Deployment\<close>, \<open>Deployment_Properties\<close>, \<open>Processes\<close>, \<open>Start_Up\<close>: the \<open>main\<close> functions. How settings are read, that
    processes with one environment agree on what is approved, that the outbox drains, what the gauges of
    the indexer show, and that a process which is ready has its event stream.
  \<^item> \<open>Metrics\<close>, \<open>Observation\<close>: \<open>observability/src\<close>. The metrics endpoint, the metrics of a process as the calls of the
    library, and the observer of the RPC client: observing does not change an answer, and the counters
    are the numbers of calls and of failures.
  \<^item> \<open>System\<close>: all services together. A history is any interleaving of their transactions; every job and every
    liquidation transaction of every state goes back to a position that was liquidatable.
  \<^item> \<open>Broker\<close>: the services with the broker between them. An event reaches a consumer only through \<open>jet_Publish\<close> and
    \<open>jet_Fetch\<close>; when NATS behaves as documented (\<open>nats_documented\<close>), every such history is a history of \<open>System\<close>. The
    publishers run \<open>RunOnce_calls\<close> call by call between the steps of the others, and what is marked as published
    is in the stream.
  \<^item> \<open>Option_Pricer\<close>, \<open>Option_Properties\<close>: \<open>src/tools/metal-option-pricer\<close>. The arithmetic is an argument. With the real
    numbers for it, put-call parity, the payoff of every path and the statistics of the simulation; on the
    words of the shader, that no two paths share their random state; with rounding to the nearest number of
    single precision (\<open>rounds_to_nearest\<close>), that the uniform numbers lie strictly between zero and one; and the
    statuses of the answers. Under the fast-math option of the shader compiler the division may be less exact
    than that.

  \<^bold>\<open>Loops.\<close> Loops over data and the search for a common ancestor are total functions. \<open>sync_loop\<close> counts its
  rounds with fuel, because a chain that keeps changing can keep it busy; the invariant holds for every
  amount of fuel, and one round more than there are blocks is proved to be enough on a chain at rest. The
  endless loops of the processes (\<open>service_loop\<close>, \<open>process_loop\<close>) take the number of rounds as an argument and their
  theorems hold for every number.

  \<^bold>\<open>Not modelled.\<close> Sockets, TLS, threads, database connections, the choice and set-up of a GPU, signals and logging:
  these are calls of libraries. The text of metrics and of JSON, and the rounding of floating-point numbers outside the
  uniform numbers of the shader. The Solidity contracts, the Go oracle coordinator and the frontend are in other languages; the coordinator
  appears in \<open>System\<close> as a writer of transaction jobs. Transactions of different services are taken as serial:
  the isolation of PostgreSQL is assumed, except for the rows that \<open>SKIP LOCKED\<close> passes over and for the reads
  of the risk worker and of the API, which happen in transactions of their own.
\<close>

end
